(* ===== verification/Ajo_Prelude.thy ===== *)
theory Ajo_Prelude
  imports Main
begin

text \<open>
  Shared vocabulary of the development: the exceptions the services throw, the result type,
  database transactions with rollback, tables as lists of rows, JavaScript's truncating
  \<^verbatim>\<open>BigInt\<close> division, ASCII string operations, and the generic lemmas the components use.
\<close>

named_theorems table_simps \<open>reading a table after an update or an insert\<close>
named_theorems policy_defs \<open>definitions of the pure policy functions of the domain directories\<close>

section \<open>Exceptions and results\<close>

text \<open>
  The HTTP exceptions of NestJS with their message, a plain \<^verbatim>\<open>Error\<close>, Prisma's
  unique-constraint violation (P2002) and its record-not-found error (P2025). \<open>PayoutHeld\<close> is the
  internal error of the Ajo settlement that carries the HTTP error it becomes.
\<close>

datatype exn =
    NotFound string
  | Conflict string
  | Unprocessable string
  | Forbidden string
  | BadRequest string
  | TooManyRequests string
  | Unauthorized string
  | ServiceUnavailable string
  | BadGateway string
  | InternalServerError string
  | PlainError string
  | UniqueViolation
  | RecordMissing
  | PayoutHeld exn

type_synonym 'a res = "exn + 'a"

fun bind_res :: "'a res \<Rightarrow> ('a \<Rightarrow> 'b res) \<Rightarrow> 'b res" where
  "bind_res (Inl e) f = Inl e"
| "bind_res (Inr x) f = f x"

lemma bind_res_Inr_iff:
  "bind_res m f = Inr y \<longleftrightarrow> (\<exists>x. m = Inr x \<and> f x = Inr y)"
  by (cases m) auto

lemma bind_res_Inl_iff:
  "bind_res m f = Inl e \<longleftrightarrow> m = Inl e \<or> (\<exists>x. m = Inr x \<and> f x = Inl e)"
  by (cases m) auto

lemma Inr_bind_res_iff:
  "Inr y = bind_res m f \<longleftrightarrow> (\<exists>x. m = Inr x \<and> f x = Inr y)"
  by (cases m) auto

lemma bind_res_cong [fundef_cong]:
  "m = m' \<Longrightarrow> (\<And>x. m' = Inr x \<Longrightarrow> f x = f' x) \<Longrightarrow> bind_res m f = bind_res m' f'"
  by (cases m') auto

lemma case_option_Inr_iff:
  "(case m of None \<Rightarrow> Inl e | Some x \<Rightarrow> f x) = Inr y \<longleftrightarrow> (\<exists>x. m = Some x \<and> f x = Inr y)"
  by (cases m) auto

definition guard_res :: "bool \<Rightarrow> exn \<Rightarrow> unit res" where
  "guard_res ok e = (if ok then Inr () else Inl e)"

lemma guard_res_iffs [simp]:
  "guard_res b e = Inr u \<longleftrightarrow> b"
  "guard_res b e = Inl e' \<longleftrightarrow> \<not> b \<and> e = e'"
  by (auto simp: guard_res_def)

lemmas res_iffs = bind_res_Inr_iff bind_res_Inl_iff Inr_bind_res_iff

section \<open>Transactions\<close>

text \<open>
  The body of a database transaction is a function from the state to an error or to a result
  and a new state: an exception carries no state, which is the rollback. \<open>serializable\<close>
  runs such a body from a request handler, whose own state survives its exceptions.
\<close>

type_synonym ('s, 'a) tx = "'s \<Rightarrow> exn + ('a \<times> 's)"
type_synonym ('s, 'a) handler = "'s \<Rightarrow> (exn + 'a) \<times> 's"

definition serializable :: "('s, 'a) tx \<Rightarrow> ('s, 'a) handler" where
  "serializable operation s =
     (case operation s of Inl e \<Rightarrow> (Inl e, s) | Inr (a, s') \<Rightarrow> (Inr a, s'))"

lemma serializable_Inr_iff:
  "serializable operation s = (Inr a, s') \<longleftrightarrow> operation s = Inr (a, s')"
  by (auto simp: serializable_def split: sum.splits)

lemma serializable_Inl_iff:
  "serializable operation s = (Inl e, s') \<longleftrightarrow> operation s = Inl e \<and> s' = s"
  by (auto simp: serializable_def split: sum.splits)

lemmas serializable_iffs = serializable_Inr_iff serializable_Inl_iff

text \<open>A handler keeps an invariant when its success does and its refusal changes nothing.\<close>

lemma handler_keeps:
  assumes "P s" and "\<And>e s'. h s = (Inl e, s') \<Longrightarrow> s' = s" and "\<And>r s'. h s = (Inr r, s') \<Longrightarrow> P s'"
  shows "P (snd (h s))"
  using assms by (cases "h s"; cases "fst (h s)") auto

section \<open>Tables\<close>

text \<open>
  A table is the list of its rows in insertion order. \<open>List.find\<close> is a
  \<^verbatim>\<open>findUnique\<close>/\<^verbatim>\<open>findFirst\<close>, appending is a \<^verbatim>\<open>create\<close>, and
  \<open>update_where\<close> is an \<^verbatim>\<open>update\<close>/\<^verbatim>\<open>updateMany\<close>.
\<close>

definition update_where :: "('r \<Rightarrow> bool) \<Rightarrow> ('r \<Rightarrow> 'r) \<Rightarrow> 'r list \<Rightarrow> 'r list" where
  "update_where P f rows = map (\<lambda>r. if P r then f r else r) rows"

lemma find_SomeD: "List.find P xs = Some x \<Longrightarrow> x \<in> set xs \<and> P x"
  by (induction xs) (auto split: if_splits)

lemma find_NoneD: "List.find P xs = None \<Longrightarrow> x \<in> set xs \<Longrightarrow> \<not> P x"
  by (auto simp: find_None_iff)

lemma find_append: "List.find P (xs @ ys) =
    (case List.find P xs of None \<Rightarrow> List.find P ys | Some x \<Rightarrow> Some x)"
  by (induction xs) auto

lemma find_append_None [table_simps]:
  "List.find P xs = None \<Longrightarrow> List.find P (xs @ ys) = List.find P ys"
  by (simp add: find_append)

lemma find_append_Some [table_simps]:
  "List.find P xs = Some x \<Longrightarrow> List.find P (xs @ ys) = Some x"
  by (simp add: find_append)

lemma find_key_unique:
  "distinct (map key xs) \<Longrightarrow> x \<in> set xs \<Longrightarrow> List.find (\<lambda>r. key r = key x) xs = Some x"
  by (induction xs) (auto simp: image_iff)

lemma length_update_where [simp]: "length (update_where P f xs) = length xs"
  by (simp add: update_where_def)

lemma set_update_where: "set (update_where P f xs) = f ` {x \<in> set xs. P x} \<union> {x \<in> set xs. \<not> P x}"
  by (auto simp: update_where_def)

lemma map_update_where:
  "(\<And>x. x \<in> set xs \<Longrightarrow> P x \<Longrightarrow> g (f x) = g x) \<Longrightarrow> map g (update_where P f xs) = map g xs"
  by (induction xs) (auto simp: update_where_def)

lemma filter_update_where:
  "(\<And>x. x \<in> set xs \<Longrightarrow> P x \<Longrightarrow> \<not> Q x \<and> \<not> Q (f x)) \<Longrightarrow> filter Q (update_where P f xs) = filter Q xs"
  by (induction xs) (auto simp: update_where_def)

lemma find_update_where:
  "(\<And>x. P x \<Longrightarrow> Q (f x) = Q x) \<Longrightarrow>
     List.find Q (update_where P f xs) =
       (case List.find Q xs of None \<Rightarrow> None | Some x \<Rightarrow> Some (if P x then f x else x))"
  by (induction xs) (auto simp: update_where_def)

lemma update_where_Cons: "update_where P f (x # xs) = (if P x then f x else x) # update_where P f xs"
  by (simp add: update_where_def)

lemma update_where_append [simp]:
  "update_where P f (xs @ ys) = update_where P f xs @ update_where P f ys"
  by (simp add: update_where_def)

lemma update_where_id: "(\<And>x. x \<in> set xs \<Longrightarrow> \<not> P x) \<Longrightarrow> update_where P f xs = xs"
  by (simp add: update_where_def map_idI)

lemma update_where_absent: "k \<notin> key ` set xs \<Longrightarrow> update_where (\<lambda>r. key r = k) f xs = xs"
  by (auto intro!: update_where_id)

text \<open>
  Inserting rows under unique constraints: \<open>clash\<close> says when two rows agree on a unique key. A
  \<^verbatim>\<open>createMany\<close> inserts a list of rows.
\<close>

definition insertRow :: "('r \<Rightarrow> 'r \<Rightarrow> bool) \<Rightarrow> 'r \<Rightarrow> 'r list \<Rightarrow> 'r list res" where
  "insertRow clash row rows = (if \<exists>r \<in> set rows. clash row r then Inl UniqueViolation else Inr (rows @ [row]))"

fun insertRows :: "('r \<Rightarrow> 'r \<Rightarrow> bool) \<Rightarrow> 'r list \<Rightarrow> 'r list \<Rightarrow> 'r list res" where
  "insertRows clash [] rows = Inr rows"
| "insertRows clash (new # news) rows = bind_res (insertRow clash new rows) (insertRows clash news)"

lemma insertRow_Inr_iff [simp]:
  "insertRow clash row rows = Inr rows' \<longleftrightarrow> rows' = rows @ [row] \<and> (\<forall>r \<in> set rows. \<not> clash row r)"
  by (auto simp: insertRow_def)

lemma insertRows_Inr_iff:
  "insertRows clash news rows = Inr rows' \<longleftrightarrow>
     rows' = rows @ news \<and> (\<forall>n \<in> set news. \<forall>r \<in> set rows. \<not> clash n r) \<and> sorted_wrt (\<lambda>a b. \<not> clash b a) news"
  by (induction news arbitrary: rows) (auto simp: res_iffs)

lemma insertRows_InlD: "insertRows clash news rows = Inl e \<Longrightarrow> e = UniqueViolation"
  by (induction news arbitrary: rows) (auto simp: res_iffs insertRow_def split: if_splits)

lemma sum_update_where:
  assumes "distinct (map key xs)" and "x \<in> set xs"
  shows "sum_list (map (h :: 'a \<Rightarrow> int) (update_where (\<lambda>y. key y = key x) f xs)) = sum_list (map h xs) - h x + h (f x)"
  using assms
proof (induction xs)
  case (Cons a xs)
  show ?case
  proof (cases "a = x")
    case True
    with Cons.prems have "update_where (\<lambda>y. key y = key x) f xs = xs" by (intro update_where_absent) simp
    with True show ?thesis by (simp add: update_where_Cons)
  next
    case False
    with Cons.prems have "key a \<noteq> key x" "x \<in> set xs" by auto
    with Cons show ?thesis by (simp add: update_where_Cons)
  qed
qed simp

lemma map_filter_append: "List.map_filter f (xs @ ys) = List.map_filter f xs @ List.map_filter f ys"
  by (simp add: List.map_filter_def)

section \<open>Arithmetic of BigInt and Number\<close>

text \<open>\<^verbatim>\<open>BigInt\<close> division truncates towards zero.\<close>

definition tdiv :: "int \<Rightarrow> int \<Rightarrow> int" where
  "tdiv a b = sgn a * sgn b * (\<bar>a\<bar> div \<bar>b\<bar>)"

lemma tdiv_nonneg [simp]: "0 \<le> a \<Longrightarrow> 0 < b \<Longrightarrow> tdiv a b = a div b"
  by (cases "a = 0") (auto simp: tdiv_def)

lemma tdiv_mono: "0 \<le> a \<Longrightarrow> a \<le> b \<Longrightarrow> 0 < c \<Longrightarrow> tdiv a c \<le> tdiv b c"
  by (simp add: zdiv_mono1)

lemma sum_list_filter_partition:
  "sum_list (map (f :: 'a \<Rightarrow> int) xs) =
     sum_list (map f (filter P xs)) + sum_list (map f (filter (\<lambda>x. \<not> P x) xs))"
  by (induction xs) auto

section \<open>ASCII strings\<close>

text \<open>
  Strings are lists of characters; the operations below are those of JavaScript on ASCII
  text (\<^verbatim>\<open>trim\<close>, \<^verbatim>\<open>toUpperCase\<close>, \<^verbatim>\<open>toLowerCase\<close>, \<^verbatim>\<open>\s\<close> and \<^verbatim>\<open>\d\<close> of regular expressions).
\<close>

definition char_code :: "char \<Rightarrow> nat" where
  "char_code c = of_char c"

definition is_space :: "char \<Rightarrow> bool" where
  "is_space c \<longleftrightarrow> char_code c = 32 \<or> (9 \<le> char_code c \<and> char_code c \<le> 13)"

definition is_digit :: "char \<Rightarrow> bool" where
  "is_digit c \<longleftrightarrow> 48 \<le> char_code c \<and> char_code c \<le> 57"

definition is_upper :: "char \<Rightarrow> bool" where
  "is_upper c \<longleftrightarrow> 65 \<le> char_code c \<and> char_code c \<le> 90"

definition is_lower :: "char \<Rightarrow> bool" where
  "is_lower c \<longleftrightarrow> 97 \<le> char_code c \<and> char_code c \<le> 122"

definition to_upper :: "char \<Rightarrow> char" where
  "to_upper c = (if is_lower c then char_of (char_code c - 32) else c)"

definition to_lower :: "char \<Rightarrow> char" where
  "to_lower c = (if is_upper c then char_of (char_code c + 32) else c)"

text \<open>The same tests on the bits of a character, which evaluate without arithmetic.\<close>

lemma char_classes_code [code]:
  "is_space (Char b0 b1 b2 b3 b4 b5 b6 b7) \<longleftrightarrow> \<not> b7 \<and> \<not> b6 \<and> \<not> b4 \<and>
     (if b5 then \<not> b3 \<and> \<not> b2 \<and> \<not> b1 \<and> \<not> b0 else b3 \<and> (b2 \<or> b1 \<or> b0) \<and> \<not> (b2 \<and> b1))"
  "is_digit (Char b0 b1 b2 b3 b4 b5 b6 b7) \<longleftrightarrow> \<not> b7 \<and> \<not> b6 \<and> b5 \<and> b4 \<and> (\<not> b3 \<or> \<not> b2 \<and> \<not> b1)"
  "is_upper (Char b0 b1 b2 b3 b4 b5 b6 b7) \<longleftrightarrow> \<not> b7 \<and> b6 \<and> \<not> b5 \<and> (b0 \<or> b1 \<or> b2 \<or> b3 \<or> b4) \<and> \<not> (b4 \<and> b3 \<and> (b2 \<or> b1 \<and> b0))"
  "is_lower (Char b0 b1 b2 b3 b4 b5 b6 b7) \<longleftrightarrow> \<not> b7 \<and> b6 \<and> b5 \<and> (b0 \<or> b1 \<or> b2 \<or> b3 \<or> b4) \<and> \<not> (b4 \<and> b3 \<and> (b2 \<or> b1 \<and> b0))"
  by (cases b0; cases b1; cases b2; cases b3; cases b4; cases b5; cases b6; cases b7;
      simp add: is_space_def is_digit_def is_upper_def is_lower_def char_code_def)+

lemma to_upper_code [code]:
  "to_upper (Char b0 b1 b2 b3 b4 b5 b6 b7) =
     (if is_lower (Char b0 b1 b2 b3 b4 b5 b6 b7) then Char b0 b1 b2 b3 b4 False b6 b7 else Char b0 b1 b2 b3 b4 b5 b6 b7)"
  by (cases b0; cases b1; cases b2; cases b3; cases b4; cases b5; cases b6; cases b7;
      simp add: to_upper_def is_lower_def char_code_def char_of_def bit_numeral_rec bit_0)

lemma to_lower_code [code]:
  "to_lower (Char b0 b1 b2 b3 b4 b5 b6 b7) =
     (if is_upper (Char b0 b1 b2 b3 b4 b5 b6 b7) then Char b0 b1 b2 b3 b4 True b6 b7 else Char b0 b1 b2 b3 b4 b5 b6 b7)"
  by (cases b0; cases b1; cases b2; cases b3; cases b4; cases b5; cases b6; cases b7;
      simp add: to_lower_def is_upper_def char_code_def char_of_def bit_numeral_rec bit_0)

definition digit_value :: "char \<Rightarrow> int" where
  "digit_value c = int (char_code c) - 48"

definition trim :: "string \<Rightarrow> string" where
  "trim s = rev (dropWhile is_space (rev (dropWhile is_space s)))"

definition toUpperCase :: "string \<Rightarrow> string" where
  "toUpperCase s = map to_upper s"

definition toLowerCase :: "string \<Rightarrow> string" where
  "toLowerCase s = map to_lower s"

text \<open>The decimal text of an integer.\<close>

fun showNat :: "nat \<Rightarrow> string" where
  "showNat n = (if n < 10 then [char_of (48 + n)] else showNat (n div 10) @ [char_of (48 + n mod 10)])"

declare showNat.simps [simp del]

definition showInt :: "int \<Rightarrow> string" where
  "showInt i = (if i < 0 then CHR ''-'' # showNat (nat (- i)) else showNat (nat i))"

text \<open>A caught error of the domain, thrown again as an HTTP error.\<close>

fun asUnprocessable :: "'a res \<Rightarrow> 'a res" where
  "asUnprocessable (Inl (PlainError m)) = Inl (Unprocessable m)"
| "asUnprocessable r = r"

lemma asUnprocessable_Inr_iff [simp]: "asUnprocessable r = Inr x \<longleftrightarrow> r = Inr x"
  by (cases r rule: asUnprocessable.cases) auto

text \<open>An optional string as a condition, where the empty one counts as absent, and \<^verbatim>\<open>??\<close>.\<close>

definition truthy :: "string option \<Rightarrow> string option" where
  "truthy x = (case x of Some y \<Rightarrow> if y = [] then None else Some y | None \<Rightarrow> None)"

definition or_default :: "'a option \<Rightarrow> 'a \<Rightarrow> 'a" where
  "or_default x d = (case x of None \<Rightarrow> d | Some v \<Rightarrow> v)"

definition join_colon :: "string \<Rightarrow> string \<Rightarrow> string" where
  "join_colon a b = a @ '':'' @ b"


section \<open>Histories of requests\<close>

text \<open>
  Request handlers run one after another (every transaction is serializable). An invariant that
  each of them keeps, whatever it answers, holds after every history.
\<close>

locale request_safety =
  fixes serve :: "'q \<Rightarrow> 's \<Rightarrow> 's"
    and inv :: "'s \<Rightarrow> bool"
  assumes keeps: "inv s \<Longrightarrow> inv (serve q s)"
begin

lemma history_inv: "inv s \<Longrightarrow> inv (fold serve qs s)"
  by (induction qs arbitrary: s) (auto simp: keeps)

end

end
