(* ===== verification/Ledger.thy ===== *)
theory Ledger
  imports Ajo_Prelude "HOL-Library.Multiset"
begin

text \<open>
  The double-entry ledger: \<^verbatim>\<open>src/modules/ledger\<close>. Postings are validated by
  \<^verbatim>\<open>assertBalancedPosting\<close>, written once per idempotency key by \<^verbatim>\<open>postWithin\<close>,
  read back as account balances by \<^verbatim>\<open>accountBalanceWithin\<close> and undone by
  \<^verbatim>\<open>reverse\<close>. The theory ends with the interface \<open>double_entry\<close> the money-moving
  components rely on and its interpretation on these definitions.
\<close>

section \<open>Data\<close>

datatype direction = DEBIT | CREDIT

datatype ledger_status = LT_PENDING | LT_POSTED | LT_REVERSED

record posting_entry =
  pe_account :: string
  pe_direction :: direction
  pe_amount :: int

record posting_command =
  pc_idempotencyKey :: string
  pc_reference :: string
  pc_description :: string
  pc_currency :: string
  pc_initiatedBy :: "string option"
  pc_correlationId :: "string option"
  pc_entries :: "posting_entry list"

text \<open>The stored rows: an entry carries the transaction's currency and its position.\<close>

record ledger_entry =
  le_account :: string
  le_direction :: direction
  le_amount :: int
  le_currency :: string
  le_sequence :: nat

record ledger_tx =
  lt_id :: string
  lt_reference :: string
  lt_idempotencyKey :: string
  lt_description :: string
  lt_currency :: string
  lt_status :: ledger_status
  lt_reversalOf :: "string option"
  lt_initiatedBy :: "string option"
  lt_correlationId :: "string option"
  lt_postedAt :: "int option"
  lt_reversedAt :: "int option"
  lt_entries :: "ledger_entry list"

record ledger_db =
  ledger_txs :: "ledger_tx list"

section \<open>Operations\<close>

text \<open>The regular expression \<^verbatim>\<open>/^[A-Z]{3}$/\<close>.\<close>

definition is_currency_code :: "string \<Rightarrow> bool" where
  "is_currency_code s \<longleftrightarrow> length s = 3 \<and> list_all is_upper s"

text \<open>The accumulation loop of \<^verbatim>\<open>assertBalancedPosting\<close>: debits and credits so far.\<close>

fun sumEntries :: "posting_entry list \<Rightarrow> int \<Rightarrow> int \<Rightarrow> (int \<times> int) res" where
  "sumEntries [] debits credits = Inr (debits, credits)"
| "sumEntries (e # es) debits credits =
     (if pe_amount e \<le> 0 then Inl (Unprocessable ''Ledger entry amounts must be positive'')
      else if pe_direction e = DEBIT then sumEntries es (debits + pe_amount e) credits
      else sumEntries es debits (credits + pe_amount e))"

definition assertBalancedPosting :: "posting_command \<Rightarrow> unit res" where
  "assertBalancedPosting c =
     (if length (pc_entries c) < 2
      then Inl (Unprocessable ''A ledger posting requires at least two entries'')
      else if \<not> is_currency_code (pc_currency c)
      then Inl (Unprocessable ''Currency must be a three-letter uppercase code'')
      else bind_res (sumEntries (pc_entries c) 0 0) (\<lambda>(debits, credits).
        if debits \<noteq> credits then Inl (Unprocessable ''Ledger transaction is not balanced'')
        else Inr ()))"

text \<open>
  Inserting a transaction row under the table's unique constraints: id, reference,
  idempotency key and, where present, the transaction it reverses.
\<close>

definition createLedgerTx :: "ledger_tx \<Rightarrow> 'm ledger_db_scheme \<Rightarrow> exn + 'm ledger_db_scheme" where
  "createLedgerTx t s =
     (if \<exists>u \<in> set (ledger_txs s). lt_id u = lt_id t \<or> lt_reference u = lt_reference t
            \<or> lt_idempotencyKey u = lt_idempotencyKey t
            \<or> (lt_reversalOf t \<noteq> None \<and> lt_reversalOf u = lt_reversalOf t)
      then Inl UniqueViolation
      else Inr (s\<lparr>ledger_txs := ledger_txs s @ [t]\<rparr>))"

definition findByKey :: "string \<Rightarrow> 'm ledger_db_scheme \<Rightarrow> ledger_tx option" where
  "findByKey k s = List.find (\<lambda>t. lt_idempotencyKey t = k) (ledger_txs s)"

definition entryRow :: "string \<Rightarrow> nat \<Rightarrow> posting_entry \<Rightarrow> ledger_entry" where
  "entryRow currency index e =
     \<lparr>le_account = pe_account e, le_direction = pe_direction e, le_amount = pe_amount e,
      le_currency = currency, le_sequence = index + 1\<rparr>"

fun entryRows :: "string \<Rightarrow> nat \<Rightarrow> posting_entry list \<Rightarrow> ledger_entry list" where
  "entryRows currency index [] = []"
| "entryRows currency index (e # es) = entryRow currency index e # entryRows currency (Suc index) es"

definition postedTx :: "string \<Rightarrow> int \<Rightarrow> posting_command \<Rightarrow> ledger_tx" where
  "postedTx new_id now c =
     \<lparr>lt_id = new_id, lt_reference = pc_reference c, lt_idempotencyKey = pc_idempotencyKey c,
      lt_description = pc_description c, lt_currency = pc_currency c, lt_status = LT_POSTED,
      lt_reversalOf = None, lt_initiatedBy = pc_initiatedBy c,
      lt_correlationId = pc_correlationId c, lt_postedAt = Some now, lt_reversedAt = None,
      lt_entries = entryRows (pc_currency c) 0 (pc_entries c)\<rparr>"

text \<open>\<open>new_id\<close> is the row id the database generates and \<open>now\<close> the clock.\<close>

definition postWithin ::
  "string \<Rightarrow> int \<Rightarrow> posting_command \<Rightarrow> ('m ledger_db_scheme, string \<times> string) tx" where
  "postWithin new_id now c s =
     bind_res (assertBalancedPosting c) (\<lambda>_.
       case findByKey (pc_idempotencyKey c) s of
         Some t \<Rightarrow> Inr ((lt_id t, lt_reference t), s)
       | None \<Rightarrow> bind_res (createLedgerTx (postedTx new_id now c) s) (\<lambda>s'.
           Inr ((new_id, pc_reference c), s')))"

definition post ::
  "string \<Rightarrow> int \<Rightarrow> posting_command \<Rightarrow> ('m ledger_db_scheme, string \<times> string) handler" where
  "post new_id now c s =
     (case assertBalancedPosting c of
        Inl e \<Rightarrow> (Inl e, s)
      | Inr _ \<Rightarrow> serializable (postWithin new_id now c) s)"

definition addEntry :: "int \<Rightarrow> ledger_entry \<Rightarrow> int" where
  "addEntry bal e = (if le_direction e = CREDIT then bal + le_amount e else bal - le_amount e)"

definition accountBalanceWithin :: "'m ledger_db_scheme \<Rightarrow> string \<Rightarrow> int" where
  "accountBalanceWithin s acc =
     foldl addEntry 0
       (concat (map (\<lambda>t. filter (\<lambda>e. le_account e = acc) (lt_entries t))
          (filter (\<lambda>t. lt_status t = LT_POSTED) (ledger_txs s))))"

fun opposite :: "direction \<Rightarrow> direction" where
  "opposite DEBIT = CREDIT"
| "opposite CREDIT = DEBIT"

fun reversalEntries :: "nat \<Rightarrow> ledger_entry list \<Rightarrow> ledger_entry list" where
  "reversalEntries index [] = []"
| "reversalEntries index (e # es) =
     e\<lparr>le_direction := opposite (le_direction e), le_sequence := index + 1\<rparr> # reversalEntries (Suc index) es"

definition reversalTx :: "string \<Rightarrow> int \<Rightarrow> string \<Rightarrow> string \<Rightarrow> ledger_tx \<Rightarrow> ledger_tx" where
  "reversalTx new_id now key ref t =
     \<lparr>lt_id = new_id, lt_reference = ref, lt_idempotencyKey = key,
      lt_description = ''Reversal of '' @ lt_reference t, lt_currency = lt_currency t,
      lt_status = LT_POSTED, lt_reversalOf = Some (lt_id t), lt_initiatedBy = None,
      lt_correlationId = None, lt_postedAt = Some now, lt_reversedAt = None,
      lt_entries = reversalEntries 0 (sort_key le_sequence (lt_entries t))\<rparr>"

definition reverseWithin ::
  "string \<Rightarrow> int \<Rightarrow> string \<Rightarrow> string \<Rightarrow> string \<Rightarrow> ('m ledger_db_scheme, string \<times> string) tx" where
  "reverseWithin new_id now originalId key ref s =
     (case List.find (\<lambda>t. lt_id t = originalId) (ledger_txs s) of
        None \<Rightarrow> Inl (NotFound ''Posted ledger transaction was not found'')
      | Some t \<Rightarrow>
          if lt_status t \<noteq> LT_POSTED then Inl (NotFound ''Posted ledger transaction was not found'')
          else (case findByKey key s of
              Some u \<Rightarrow> Inr ((lt_id u, lt_reference u), s)
            | None \<Rightarrow> bind_res (createLedgerTx (reversalTx new_id now key ref t) s) (\<lambda>s'.
                Inr ((new_id, ref),
                  s'\<lparr>ledger_txs := update_where (\<lambda>u. lt_id u = lt_id t)
                     (\<lambda>u. u\<lparr>lt_status := LT_REVERSED, lt_reversedAt := Some now\<rparr>) (ledger_txs s')\<rparr>))))"

definition reverse ::
  "string \<Rightarrow> int \<Rightarrow> string \<Rightarrow> string \<Rightarrow> string \<Rightarrow> ('m ledger_db_scheme, string \<times> string) handler" where
  "reverse new_id now originalId key ref = serializable (reverseWithin new_id now originalId key ref)"

section \<open>Signed amounts\<close>

definition signed :: "ledger_entry \<Rightarrow> int" where
  "signed e = (if le_direction e = CREDIT then le_amount e else - le_amount e)"

definition signed_cmd :: "posting_entry \<Rightarrow> int" where
  "signed_cmd e = (if pe_direction e = CREDIT then pe_amount e else - pe_amount e)"

text \<open>What a stored transaction, or a command, does to one account.\<close>

definition tx_delta :: "ledger_tx \<Rightarrow> string \<Rightarrow> int" where
  "tx_delta t acc = sum_list (map signed (filter (\<lambda>e. le_account e = acc) (lt_entries t)))"

definition cmd_delta :: "posting_command \<Rightarrow> string \<Rightarrow> int" where
  "cmd_delta c acc = sum_list (map signed_cmd (filter (\<lambda>e. pe_account e = acc) (pc_entries c)))"

lemma foldl_addEntry: "foldl addEntry b es = b + sum_list (map signed es)"
  by (induction es arbitrary: b) (auto simp: addEntry_def signed_def)

lemma sum_list_concat_filter:
  "sum_list (map (f :: 'b \<Rightarrow> int) (concat (map g xs))) = sum_list (map (\<lambda>x. sum_list (map f (g x))) xs)"
  by (induction xs) auto

lemma accountBalance_sum:
  "accountBalanceWithin s acc =
     sum_list (map (\<lambda>t. tx_delta t acc) (filter (\<lambda>t. lt_status t = LT_POSTED) (ledger_txs s)))"
  by (simp add: accountBalanceWithin_def foldl_addEntry sum_list_concat_filter tx_delta_def)

lemma signed_entryRows:
  "sum_list (map signed (filter (\<lambda>e. le_account e = acc) (entryRows cur i es))) =
   sum_list (map signed_cmd (filter (\<lambda>e. pe_account e = acc) es))"
  by (induction es arbitrary: i) (auto simp: entryRow_def signed_def signed_cmd_def)

lemma tx_delta_postedTx [simp]: "tx_delta (postedTx i now c) acc = cmd_delta c acc"
  by (simp add: tx_delta_def cmd_delta_def postedTx_def signed_entryRows)

lemma balance_create:
  assumes "createLedgerTx t s = Inr s'" and "lt_status t = LT_POSTED"
  shows "accountBalanceWithin s' acc = accountBalanceWithin s acc + tx_delta t acc"
  using assms by (auto simp: createLedgerTx_def accountBalance_sum split: if_splits)

text \<open>Two-leg commands, the shape every wallet movement has.\<close>

lemma cmd_delta_two:
  "pc_entries c = [\<lparr>pe_account = a, pe_direction = DEBIT, pe_amount = n\<rparr>,
                   \<lparr>pe_account = b, pe_direction = CREDIT, pe_amount = n\<rparr>] \<Longrightarrow>
   cmd_delta c x = (if x = b then n else 0) - (if x = a then n else 0)"
  by (simp add: cmd_delta_def signed_cmd_def)


section \<open>The ledger invariant\<close>

text \<open>A stored transaction has two or more positive entries whose signed amounts cancel.\<close>

definition entries_ok :: "ledger_entry list \<Rightarrow> bool" where
  "entries_ok es \<longleftrightarrow> 2 \<le> length es \<and> (\<forall>e \<in> set es. 0 < le_amount e) \<and> sum_list (map signed es) = 0"

definition ledger_wf :: "'m ledger_db_scheme \<Rightarrow> bool" where
  "ledger_wf s \<longleftrightarrow> distinct (map lt_id (ledger_txs s)) \<and> distinct (map lt_reference (ledger_txs s))
     \<and> distinct (map lt_idempotencyKey (ledger_txs s)) \<and> (\<forall>t \<in> set (ledger_txs s). entries_ok (lt_entries t))"

definition posting_valid :: "posting_command \<Rightarrow> bool" where
  "posting_valid c \<longleftrightarrow> 2 \<le> length (pc_entries c) \<and> is_currency_code (pc_currency c)
     \<and> (\<forall>e \<in> set (pc_entries c). 0 < pe_amount e) \<and> sum_list (map signed_cmd (pc_entries c)) = 0"

lemma sumEntries_Inr_iff:
  "(\<exists>r. sumEntries es d c = Inr r) \<longleftrightarrow> (\<forall>e \<in> set es. 0 < pe_amount e)"
  by (induction es arbitrary: d c) auto

lemma sumEntries_difference:
  "sumEntries es d c = Inr (d', c') \<Longrightarrow> c' - d' = c - d + sum_list (map signed_cmd es)"
proof (induction es arbitrary: d c)
  case (Cons e es)
  then show ?case
    by (cases "pe_direction e") (auto simp: signed_cmd_def split: if_splits dest: Cons.IH)
qed simp

lemma assertBalancedPosting_iff: "assertBalancedPosting c = Inr () \<longleftrightarrow> posting_valid c"
proof (cases "\<forall>e \<in> set (pc_entries c). 0 < pe_amount e")
  case True
  then obtain d r where dr: "sumEntries (pc_entries c) 0 0 = Inr (d, r)"
    using sumEntries_Inr_iff by fastforce
  from sumEntries_difference [OF dr] True dr show ?thesis
    by (auto simp: assertBalancedPosting_def posting_valid_def)
next
  case False
  then obtain e where e: "sumEntries (pc_entries c) 0 0 = Inl e"
    using sumEntries_Inr_iff [of "pc_entries c" 0 0] by (metis sumE)
  with False show ?thesis by (auto simp: assertBalancedPosting_def posting_valid_def)
qed

lemma assertBalancedPosting_cases:
  obtains (valid) "assertBalancedPosting c = Inr ()" "posting_valid c"
  | (invalid) m where "assertBalancedPosting c = Inl m" "\<not> posting_valid c"
  using assertBalancedPosting_iff by (metis (full_types) old.unit.exhaust sumE)

lemma length_entryRows [simp]: "length (entryRows cur i es) = length es"
  by (induction es arbitrary: i) auto

lemma positive_entryRows:
  "(\<forall>e \<in> set (entryRows cur i es). 0 < le_amount e) \<longleftrightarrow> (\<forall>e \<in> set es. 0 < pe_amount e)"
  by (induction es arbitrary: i) (auto simp: entryRow_def)

lemma sum_signed_entryRows: "sum_list (map signed (entryRows cur i es)) = sum_list (map signed_cmd es)"
  by (induction es arbitrary: i) (auto simp: entryRow_def signed_def signed_cmd_def)

lemma entries_ok_postedTx: "posting_valid c \<Longrightarrow> entries_ok (lt_entries (postedTx i now c))"
  by (simp add: entries_ok_def postedTx_def posting_valid_def sum_signed_entryRows positive_entryRows)

lemma signed_opposite [simp]:
  "signed (e\<lparr>le_direction := opposite (le_direction e), le_sequence := n\<rparr>) = - signed e"
  by (cases "le_direction e") (auto simp: signed_def)

lemma length_reversalEntries [simp]: "length (reversalEntries i es) = length es"
  by (induction es arbitrary: i) auto

lemma sum_signed_reversalEntries:
  "sum_list (map signed (reversalEntries i es)) = - sum_list (map signed es)"
  by (induction es arbitrary: i) auto

lemma sum_signed_reversal_account:
  "sum_list (map signed (filter (\<lambda>e. le_account e = acc) (reversalEntries i es))) =
   - sum_list (map signed (filter (\<lambda>e. le_account e = acc) es))"
  by (induction es arbitrary: i) auto

lemma positive_reversalEntries:
  "(\<forall>e \<in> set (reversalEntries i es). 0 < le_amount e) \<longleftrightarrow> (\<forall>e \<in> set es. 0 < le_amount e)"
  by (induction es arbitrary: i) auto

lemma sum_list_sort_key: "sum_list (map (f :: 'a \<Rightarrow> int) (sort_key k xs)) = sum_list (map f xs)"
  by (metis mset_map mset_sort sum_mset_sum_list)

lemma tx_delta_reversalTx [simp]: "tx_delta (reversalTx i now key ref t) acc = - tx_delta t acc"
proof -
  have "sum_list (map signed (filter (\<lambda>e. le_account e = acc) (sort_key le_sequence (lt_entries t)))) =
        sum_list (map signed (filter (\<lambda>e. le_account e = acc) (lt_entries t)))"
    by (simp add: filter_sort sum_list_sort_key)
  then show ?thesis by (simp add: tx_delta_def reversalTx_def sum_signed_reversal_account)
qed

lemma entries_ok_reversalTx:
  "entries_ok (lt_entries t) \<Longrightarrow> entries_ok (lt_entries (reversalTx i now key ref t))"
  by (simp add: entries_ok_def reversalTx_def sum_signed_reversalEntries sum_list_sort_key
      positive_reversalEntries)

lemma createLedgerTx_wf:
  assumes "createLedgerTx t s = Inr s'" and "ledger_wf s" and "entries_ok (lt_entries t)"
  shows "ledger_wf s'"
proof -
  from assms(1) have fresh: "\<forall>u \<in> set (ledger_txs s). lt_id u \<noteq> lt_id t \<and> lt_reference u \<noteq> lt_reference t
      \<and> lt_idempotencyKey u \<noteq> lt_idempotencyKey t"
    and s': "s' = s\<lparr>ledger_txs := ledger_txs s @ [t]\<rparr>"
    by (auto simp: createLedgerTx_def split: if_splits)
  from fresh have "lt_id t \<notin> lt_id ` set (ledger_txs s)"
    "lt_reference t \<notin> lt_reference ` set (ledger_txs s)"
    "lt_idempotencyKey t \<notin> lt_idempotencyKey ` set (ledger_txs s)"
    by (metis imageE)+
  with assms(2,3) s' show ?thesis by (simp add: ledger_wf_def)
qed

lemma postWithin_Inr_cases:
  assumes "postWithin i now c s = Inr (r, s')"
  obtains (old) t where "posting_valid c" "findByKey (pc_idempotencyKey c) s = Some t" "s' = s"
      "r = (lt_id t, lt_reference t)"
  | (new) "posting_valid c" "findByKey (pc_idempotencyKey c) s = None"
      "createLedgerTx (postedTx i now c) s = Inr s'" "r = (i, pc_reference c)"
  using assms assertBalancedPosting_iff [of c]
  by (auto simp: postWithin_def res_iffs split: option.splits)

lemma postWithin_wf:
  assumes "postWithin i now c s = Inr (r, s')" and "ledger_wf s"
  shows "ledger_wf s'"
  using assms(1)
proof (cases rule: postWithin_Inr_cases)
  case new
  then show ?thesis using createLedgerTx_wf entries_ok_postedTx assms(2) by blast
qed (use assms(2) in simp)

lemma ledger_wf_mark_reversed:
  "ledger_wf s \<Longrightarrow> ledger_wf (s\<lparr>ledger_txs := update_where P
     (\<lambda>u. u\<lparr>lt_status := LT_REVERSED, lt_reversedAt := Some now\<rparr>) (ledger_txs s)\<rparr>)"
  by (auto simp: ledger_wf_def map_update_where set_update_where)

lemma reverseWithin_wf:
  assumes "reverseWithin i now orig key ref s = Inr (r, s')" and "ledger_wf s"
  shows "ledger_wf s'"
proof -
  from assms(1) obtain t where t: "List.find (\<lambda>t. lt_id t = orig) (ledger_txs s) = Some t"
    by (auto simp: reverseWithin_def split: option.splits)
  with assms(2) have ok: "entries_ok (lt_entries t)"
    by (auto simp: ledger_wf_def dest: find_SomeD)
  show ?thesis
  proof (cases "findByKey key s")
    case (Some u)
    with assms t show ?thesis by (auto simp: reverseWithin_def split: if_splits)
  next
    case None
    with assms(1) t obtain s1 where s1: "createLedgerTx (reversalTx i now key ref t) s = Inr s1"
      and s': "s' = s1\<lparr>ledger_txs := update_where (\<lambda>u. lt_id u = lt_id t)
                 (\<lambda>u. u\<lparr>lt_status := LT_REVERSED, lt_reversedAt := Some now\<rparr>) (ledger_txs s1)\<rparr>"
      by (auto simp: reverseWithin_def res_iffs split: if_splits)
    from createLedgerTx_wf [OF s1 assms(2) entries_ok_reversalTx [OF ok]] s'
    show ?thesis by (simp add: ledger_wf_mark_reversed)
  qed
qed


section \<open>Conservation\<close>

lemma sum_by_account:
  fixes f :: "'e \<Rightarrow> int"
  assumes "finite A" and "acc ` set es \<subseteq> A"
  shows "(\<Sum>a \<in> A. sum_list (map f (filter (\<lambda>e. acc e = a) es))) = sum_list (map f es)"
  using assms(2)
proof (induction es)
  case (Cons e es)
  have "(\<Sum>a \<in> A. sum_list (map f (filter (\<lambda>x. acc x = a) (e # es)))) =
        (\<Sum>a \<in> A. (if acc e = a then f e else 0) + sum_list (map f (filter (\<lambda>x. acc x = a) es)))"
    by (rule sum.cong) auto
  also have "\<dots> = f e + (\<Sum>a \<in> A. sum_list (map f (filter (\<lambda>x. acc x = a) es)))"
    using Cons.prems assms(1) by (simp add: sum.distrib sum.delta)
  also have "\<dots> = f e + sum_list (map f es)"
    using Cons by simp
  finally show ?case by simp
qed simp

definition ledger_accounts :: "'m ledger_db_scheme \<Rightarrow> string set" where
  "ledger_accounts s = (\<Union>t \<in> set (ledger_txs s). le_account ` set (lt_entries t))"

lemma sum_tx_delta:
  "finite A \<Longrightarrow> le_account ` set (lt_entries t) \<subseteq> A \<Longrightarrow>
     (\<Sum>a \<in> A. tx_delta t a) = sum_list (map signed (lt_entries t))"
  by (simp add: tx_delta_def sum_by_account)

lemma sum_cmd_delta:
  assumes "finite A" and "{a. cmd_delta c a \<noteq> 0} \<subseteq> A" and "posting_valid c"
  shows "sum (cmd_delta c) A = 0"
proof -
  let ?B = "A \<union> pe_account ` set (pc_entries c)"
  have "sum (cmd_delta c) A = sum (cmd_delta c) ?B"
    using assms(1,2) by (intro sum.mono_neutral_left) auto
  also have "\<dots> = sum_list (map signed_cmd (pc_entries c))"
    unfolding cmd_delta_def using assms(1) by (intro sum_by_account) auto
  finally show ?thesis using assms(3) by (simp add: posting_valid_def)
qed

lemma sum_list_all_zero: "(\<And>x. x \<in> set xs \<Longrightarrow> f x = (0::int)) \<Longrightarrow> sum_list (map f xs) = 0"
  by (induction xs) auto

lemma trial_balance_wf:
  assumes wf: "ledger_wf s" and fin: "finite A" and acc: "ledger_accounts s \<subseteq> A"
  shows "(\<Sum>a \<in> A. accountBalanceWithin s a) = 0"
proof -
  let ?posted = "filter (\<lambda>t. lt_status t = LT_POSTED) (ledger_txs s)"
  have "(\<Sum>a \<in> A. tx_delta t a) = 0" if "t \<in> set ?posted" for t
  proof -
    from that acc have "le_account ` set (lt_entries t) \<subseteq> A" by (auto simp: ledger_accounts_def)
    with fin wf that show ?thesis by (auto simp: sum_tx_delta ledger_wf_def entries_ok_def)
  qed
  then have "sum_list (map (\<lambda>t. \<Sum>a \<in> A. tx_delta t a) ?posted) = 0"
    by (rule sum_list_all_zero)
  moreover have "(\<Sum>a \<in> A. sum_list (map (\<lambda>t. tx_delta t a) ts)) =
      sum_list (map (\<lambda>t. \<Sum>a \<in> A. tx_delta t a) ts)" for ts
    by (induction ts) (auto simp: sum.distrib)
  ultimately show ?thesis by (simp add: accountBalance_sum)
qed

section \<open>The interface the money-moving components rely on\<close>

text \<open>
  Running a list of postings in order, stopping at the first exception, and the sub-list
  that really takes effect when keys already used are skipped.
\<close>

fun run_all :: "('c \<Rightarrow> 's \<Rightarrow> exn + ('r \<times> 's)) \<Rightarrow> 'c list \<Rightarrow> 's \<Rightarrow> exn + 's" where
  "run_all step [] s = Inr s"
| "run_all step (c # cs) s = bind_res (step c s) (\<lambda>(r, s'). run_all step cs s')"

fun effective :: "('c \<Rightarrow> 'k) \<Rightarrow> 'k set \<Rightarrow> 'c list \<Rightarrow> 'c list" where
  "effective key used [] = []"
| "effective key used (c # cs) =
     (if key c \<in> used then effective key used cs
      else c # effective key (insert (key c) used) cs)"

lemma effective_keys:
  "distinct (map key (effective key used cs)) \<and> key ` set (effective key used cs) = key ` set cs - used"
  by (induction cs arbitrary: used) (auto simp: image_iff)

locale double_entry =
  fixes step :: "'c \<Rightarrow> 's \<Rightarrow> exn + ('r \<times> 's)"
    and bal :: "'s \<Rightarrow> 'a \<Rightarrow> int"
    and delta :: "'c \<Rightarrow> 'a \<Rightarrow> int"
    and key :: "'c \<Rightarrow> 'k"
    and used :: "'s \<Rightarrow> 'k set"
  assumes used_step: "step c s = Inr (r, s') \<Longrightarrow> used s' = insert (key c) (used s)"
    and replay: "step c s = Inr (r, s') \<Longrightarrow> key c \<in> used s \<Longrightarrow> s' = s"
    and fresh: "step c s = Inr (r, s') \<Longrightarrow> key c \<notin> used s \<Longrightarrow> bal s' a = bal s a + delta c a"
    and conserved: "step c s = Inr (r, s') \<Longrightarrow> finite A \<Longrightarrow> {a. delta c a \<noteq> 0} \<subseteq> A \<Longrightarrow> sum (delta c) A = 0"
begin

lemma run_all_balance:
  "run_all step cs s = Inr s' \<Longrightarrow>
     bal s' a = bal s a + sum_list (map (\<lambda>c. delta c a) (effective key (used s) cs))"
proof (induction cs arbitrary: s)
  case (Cons c cs)
  then obtain r s1 where step: "step c s = Inr (r, s1)" and rest: "run_all step cs s1 = Inr s'"
    by (auto simp: bind_res_Inr_iff)
  note IH = Cons.IH [OF rest]
  show ?case
  proof (cases "key c \<in> used s")
    case True
    with replay [OF step] IH show ?thesis by simp
  next
    case False
    with IH fresh [OF step] used_step [OF step] show ?thesis by simp
  qed
qed simp

lemma step_total:
  assumes "step c s = Inr (r, s')" and "finite A" and "{a. delta c a \<noteq> 0} \<subseteq> A"
  shows "(\<Sum>a \<in> A. bal s' a) = (\<Sum>a \<in> A. bal s a)"
proof (cases "key c \<in> used s")
  case True
  with replay [OF assms(1)] show ?thesis by simp
next
  case False
  with fresh [OF assms(1)] conserved [OF assms] show ?thesis by (simp add: sum.distrib)
qed

end

definition used_keys :: "'m ledger_db_scheme \<Rightarrow> string set" where
  "used_keys s = lt_idempotencyKey ` set (ledger_txs s)"

lemma findByKey_None_iff: "findByKey k s = None \<longleftrightarrow> k \<notin> used_keys s"
  by (auto simp: findByKey_def used_keys_def find_None_iff)

lemma findByKey_SomeD: "findByKey k s = Some t \<Longrightarrow> t \<in> set (ledger_txs s) \<and> lt_idempotencyKey t = k"
  by (auto simp: findByKey_def dest: find_SomeD)

lemma used_keys_create: "createLedgerTx t s = Inr s' \<Longrightarrow> used_keys s' = insert (lt_idempotencyKey t) (used_keys s)"
  by (auto simp: createLedgerTx_def used_keys_def split: if_splits)

lemma postedTx_simps [simp]:
  "lt_id (postedTx i now c) = i" "lt_reference (postedTx i now c) = pc_reference c"
  "lt_idempotencyKey (postedTx i now c) = pc_idempotencyKey c" "lt_status (postedTx i now c) = LT_POSTED"
  "lt_reversalOf (postedTx i now c) = None"
  by (simp_all add: postedTx_def)

text \<open>A request to post: the id and the clock the database supplies, and the command.\<close>

type_synonym post_request = "string \<times> int \<times> posting_command"

definition post_request :: "post_request \<Rightarrow> ('m ledger_db_scheme, string \<times> string) tx" where
  "post_request q = (case q of (i, now, c) \<Rightarrow> postWithin i now c)"

definition request_key :: "post_request \<Rightarrow> string" where
  "request_key q = pc_idempotencyKey (snd (snd q))"

definition request_delta :: "post_request \<Rightarrow> string \<Rightarrow> int" where
  "request_delta q = cmd_delta (snd (snd q))"

interpretation ledger: double_entry post_request accountBalanceWithin request_delta request_key used_keys
proof (unfold_locales, goal_cases)
  case (1 q s r s')
  then obtain i now c where q: "q = (i, now, c)" and p: "postWithin i now c s = Inr (r, s')"
    by (cases q) (auto simp: post_request_def)
  from p show ?case
  proof (cases rule: postWithin_Inr_cases)
    case (old t)
    then have "pc_idempotencyKey c \<in> used_keys s"
      by (metis findByKey_None_iff option.distinct(1))
    with old show ?thesis by (auto simp: q request_key_def)
  next
    case new
    then show ?thesis by (simp add: q request_key_def used_keys_create)
  qed
next
  case (2 q s r s')
  then obtain i now c where q: "q = (i, now, c)" and p: "postWithin i now c s = Inr (r, s')"
    by (cases q) (auto simp: post_request_def)
  from p show ?case
    by (cases rule: postWithin_Inr_cases) (use 2(2) q in \<open>auto simp: request_key_def findByKey_None_iff\<close>)
next
  case (3 q s r s' a)
  then obtain i now c where q: "q = (i, now, c)" and p: "postWithin i now c s = Inr (r, s')"
    by (cases q) (auto simp: post_request_def)
  from p show ?case
  proof (cases rule: postWithin_Inr_cases)
    case (old t)
    then show ?thesis using 3(2) findByKey_None_iff q
      by (metis option.distinct(1) request_key_def snd_conv)
  next
    case new
    then show ?thesis by (simp add: q request_delta_def balance_create [OF new(3)])
  qed
next
  case (4 q s r s' A)
  then obtain i now c where q: "q = (i, now, c)" and p: "postWithin i now c s = Inr (r, s')"
    by (cases q) (auto simp: post_request_def)
  from p have "posting_valid c" by (cases rule: postWithin_Inr_cases)
  with 4(2,3) q show ?case by (simp add: request_delta_def sum_cmd_delta)
qed


section \<open>Reachable ledgers\<close>

text \<open>
  The ledger changes by a posting or by a reversal only; an exception leaves it as it was.
\<close>

inductive ledger_step :: "ledger_db \<Rightarrow> ledger_db \<Rightarrow> bool" where
  step_post: "post i now c s = (r, s') \<Longrightarrow> ledger_step s s'"
| step_reverse: "reverse i now orig key ref s = (r, s') \<Longrightarrow> ledger_step s s'"

inductive ledger_reachable :: "ledger_db \<Rightarrow> bool" where
  reach_empty: "ledger_reachable \<lparr>ledger_txs = []\<rparr>"
| reach_step: "ledger_reachable s \<Longrightarrow> ledger_step s s' \<Longrightarrow> ledger_reachable s'"

lemma post_wf: "post i now c s = (r, s') \<Longrightarrow> ledger_wf s \<Longrightarrow> ledger_wf s'"
  by (auto simp: post_def serializable_def split: sum.splits dest: postWithin_wf)

lemma reverse_wf: "reverse i now orig key ref s = (r, s') \<Longrightarrow> ledger_wf s \<Longrightarrow> ledger_wf s'"
  by (auto simp: reverse_def serializable_def split: sum.splits dest: reverseWithin_wf)

lemma ledger_step_wf: "ledger_step s s' \<Longrightarrow> ledger_wf s \<Longrightarrow> ledger_wf s'"
  by (induction rule: ledger_step.induct) (auto dest: post_wf reverse_wf)

lemma reachable_wf: "ledger_reachable s \<Longrightarrow> ledger_wf s"
proof (induction rule: ledger_reachable.induct)
  case reach_empty
  show ?case by (simp add: ledger_wf_def)
next
  case (reach_step s s')
  then show ?case by (blast intro: ledger_step_wf)
qed

section \<open>Properties\<close>

text \<open>
  A small ledger used by the witnesses: one posting moves 500 from the provider to a wallet.
\<close>

definition demo_command :: posting_command where
  "demo_command = \<lparr>pc_idempotencyKey = ''k1'', pc_reference = ''r1'', pc_description = ''d'',
     pc_currency = ''NGN'', pc_initiatedBy = None, pc_correlationId = None,
     pc_entries = [\<lparr>pe_account = ''prov'', pe_direction = DEBIT, pe_amount = 500\<rparr>,
                   \<lparr>pe_account = ''wal'', pe_direction = CREDIT, pe_amount = 500\<rparr>]\<rparr>"

definition demo_ledger :: ledger_db where
  "demo_ledger = \<lparr>ledger_txs = [postedTx ''t1'' 0 demo_command]\<rparr>"

lemma demo_post: "post ''t1'' 0 demo_command \<lparr>ledger_txs = []\<rparr> = (Inr (''t1'', ''r1''), demo_ledger)"
  by code_simp

lemma demo_reachable: "ledger_reachable demo_ledger"
  by (rule reach_step [OF reach_empty step_post [OF demo_post]])

text \<open>
  C1. Conservation of money: in every ledger reachable by postings and reversals, whatever
  fails on the way, the balances of all accounts sum to zero.
\<close>

theorem reachable_trial_balance:
  assumes "ledger_reachable s" and "finite A" and "ledger_accounts s \<subseteq> A"
  shows "(\<Sum>a \<in> A. accountBalanceWithin s a) = 0"
  using trial_balance_wf [OF reachable_wf [OF assms(1)] assms(2,3)] .

theorem reachable_trial_balance_witness:
  "(\<Sum>a \<in> {''prov'', ''wal''}. accountBalanceWithin demo_ledger a) = 0
     \<and> accountBalanceWithin demo_ledger ''wal'' = 500"
proof
  have "ledger_accounts demo_ledger \<subseteq> {''prov'', ''wal''}" by code_simp
  then show "(\<Sum>a \<in> {''prov'', ''wal''}. accountBalanceWithin demo_ledger a) = 0"
    using reachable_trial_balance [OF demo_reachable, of "{''prov'', ''wal''}"] by simp
  show "accountBalanceWithin demo_ledger ''wal'' = 500" by code_simp
qed

text \<open>
  C3. At most once: after any list of successful postings, retries and duplicates included,
  an account has moved by exactly the commands that brought a key the ledger had not seen,
  each key counted once.
\<close>

theorem postings_at_most_once:
  assumes "run_all post_request qs s = Inr s'"
  shows "accountBalanceWithin s' a =
           accountBalanceWithin s a
             + sum_list (map (\<lambda>q. request_delta q a) (effective request_key (used_keys s) qs))
       \<and> distinct (map request_key (effective request_key (used_keys s) qs))"
  using ledger.run_all_balance [OF assms] effective_keys by blast

theorem postings_at_most_once_witness:
  "run_all post_request [(''t1'', 0, demo_command), (''t2'', 5, demo_command)] \<lparr>ledger_txs = []\<rparr>
     = Inr demo_ledger
   \<and> accountBalanceWithin demo_ledger ''wal'' = 0 + 500"
proof -
  have run: "run_all post_request [(''t1'', 0, demo_command), (''t2'', 5, demo_command)]
      \<lparr>ledger_txs = []\<rparr> = Inr demo_ledger"
    by code_simp
  have eff: "sum_list (map (\<lambda>q. request_delta q ''wal'') (effective request_key
      (used_keys \<lparr>ledger_txs = []\<rparr>) [(''t1'', 0, demo_command), (''t2'', 5, demo_command)])) = 500"
    by (simp add: used_keys_def request_key_def request_delta_def demo_command_def cmd_delta_def
        signed_cmd_def)
  from postings_at_most_once [OF run, of "''wal''"] eff run show ?thesis
    by (simp add: accountBalanceWithin_def)
qed

text \<open>
  What \<open>postWithin\<close> promises on every branch: it fails exactly on a command that is not
  a valid balanced posting or on a collision of the fresh id or reference, a key seen before
  returns the first transaction and changes nothing, and a new key appends one posted
  transaction.
\<close>

theorem postWithin_spec:
  "postWithin i now c s =
     (if \<not> posting_valid c then Inl (projl (assertBalancedPosting c))
      else if pc_idempotencyKey c \<in> used_keys s
      then (let t = the (findByKey (pc_idempotencyKey c) s) in Inr ((lt_id t, lt_reference t), s))
      else if \<exists>t \<in> set (ledger_txs s). lt_id t = i \<or> lt_reference t = pc_reference c
      then Inl UniqueViolation
      else Inr ((i, pc_reference c), s\<lparr>ledger_txs := ledger_txs s @ [postedTx i now c]\<rparr>))"
proof (cases rule: assertBalancedPosting_cases [of c])
  case valid
  show ?thesis
  proof (cases "findByKey (pc_idempotencyKey c) s")
    case None
    then have key: "pc_idempotencyKey c \<notin> used_keys s" by (simp add: findByKey_None_iff)
    then have "(\<exists>u \<in> set (ledger_txs s). lt_id u = i \<or> lt_reference u = pc_reference c
        \<or> lt_idempotencyKey u = pc_idempotencyKey c) \<longleftrightarrow>
      (\<exists>t \<in> set (ledger_txs s). lt_id t = i \<or> lt_reference t = pc_reference c)"
      by (auto simp: used_keys_def image_iff)
    with valid None key show ?thesis by (simp add: postWithin_def createLedgerTx_def)
  next
    case (Some t)
    then have "pc_idempotencyKey c \<in> used_keys s"
      by (metis findByKey_None_iff option.distinct(1))
    with valid Some show ?thesis by (simp add: postWithin_def)
  qed
next
  case (invalid m)
  then show ?thesis by (simp add: postWithin_def)
qed

text \<open>
  C16. A reversal does not cancel the transaction it reverses: it posts the opposite entries
  and also takes the original out of the POSTED set the balance is computed from, so each
  account moves by twice the original's amount in the other direction.
\<close>

theorem reverse_moves_twice:
  assumes "ledger_wf s" and "t \<in> set (ledger_txs s)" and "lt_status t = LT_POSTED"
    and "key \<notin> used_keys s" and "reverse i now (lt_id t) key ref s = (Inr r, s')"
  shows "accountBalanceWithin s' a = accountBalanceWithin s a - 2 * tx_delta t a"
proof -
  let ?mark = "update_where (\<lambda>u. lt_id u = lt_id t) (\<lambda>u. u\<lparr>lt_status := LT_REVERSED, lt_reversedAt := Some now\<rparr>)"
  from assms(1,2) have find: "List.find (\<lambda>u. lt_id u = lt_id t) (ledger_txs s) = Some t"
    by (auto simp: ledger_wf_def intro: find_key_unique)
  with assms(3-5) obtain s1 where create: "createLedgerTx (reversalTx i now key ref t) s = Inr s1"
    and s': "s' = s1\<lparr>ledger_txs := ?mark (ledger_txs s1)\<rparr>"
    by (auto simp: reverse_def reverseWithin_def serializable_iffs res_iffs
        simp flip: findByKey_None_iff split: if_splits)
  from create have txs1: "ledger_txs s1 = ledger_txs s @ [reversalTx i now key ref t]"
    and i: "i \<noteq> lt_id t" using assms(2)
    by (auto simp: createLedgerTx_def reversalTx_def split: if_splits)
  obtain xs ys where split: "ledger_txs s = xs @ t # ys"
    using assms(2) by (meson split_list)
  with assms(1) have "lt_id t \<notin> lt_id ` set xs" "lt_id t \<notin> lt_id ` set ys"
    by (auto simp: ledger_wf_def)
  then have other: "?mark xs = xs" "?mark ys = ys" by (simp_all add: update_where_absent)
  have "lt_id (reversalTx i now key ref t) = i" "lt_status (reversalTx i now key ref t) = LT_POSTED"
    by (simp_all add: reversalTx_def)
  with i s' txs1 split other assms(3) show ?thesis
    by (simp add: accountBalance_sum update_where_def)
qed

theorem reverse_moves_twice_witness:
  "\<exists>r s'. reverse ''t2'' 9 ''t1'' ''k2'' ''r2'' demo_ledger = (Inr r, s')
     \<and> accountBalanceWithin demo_ledger ''wal'' = 500 \<and> accountBalanceWithin s' ''wal'' = - 500"
proof -
  define s' where "s' = snd (reverse ''t2'' 9 ''t1'' ''k2'' ''r2'' demo_ledger)"
  have rev: "reverse ''t2'' 9 (lt_id (postedTx ''t1'' 0 demo_command)) ''k2'' ''r2'' demo_ledger
      = (Inr (''t2'', ''r2''), s')"
    unfolding s'_def by code_simp
  have mem: "postedTx ''t1'' 0 demo_command \<in> set (ledger_txs demo_ledger)"
    by (simp add: demo_ledger_def)
  have key: "''k2'' \<notin> used_keys demo_ledger"
    by (simp add: used_keys_def demo_ledger_def demo_command_def)
  have bal: "accountBalanceWithin demo_ledger ''wal'' = 500" by code_simp
  from reverse_moves_twice [OF reachable_wf [OF demo_reachable] mem _ key rev, of "''wal''"] bal rev
  show ?thesis by (auto simp: cmd_delta_def demo_command_def signed_cmd_def)
qed

end
