(* ===== verification/Accounts.thy ===== *)
theory Accounts
  imports Ledger
begin

text \<open>
  The tables every product shares: users, wallets, financial accounts, the audit log, the
  outbox and the calls made to the notification service after a commit; and the read side of
  \<^verbatim>\<open>src/modules/wallets/wallets.service.ts\<close>. The state is the record \<open>core_db\<close>, an extension of
  the ledger's; components extend it further, so an operation of one component leaves every
  table of the others alone by construction.
\<close>

section \<open>Data\<close>

datatype account_type = ASSET | LIABILITY | EQUITY | REVENUE | EXPENSE

datatype account_purpose =
    WALLET_AVAILABLE
  | WALLET_RESERVED
  | PROVIDER_PAYABLE
  | PLATFORM_FEE_REVENUE
  | REFERRAL_REWARD_EXPENSE
  | AJO_GROUP_POOL
  | FOOD_PROGRAMME_ESCROW

record fin_account =
  fa_id :: string
  fa_code :: string
  fa_name :: string
  fa_type :: account_type
  fa_purpose :: "account_purpose option"
  fa_currency :: string
  fa_walletId :: "string option"
  fa_isActive :: bool

datatype wallet_status = WS_ACTIVE | WS_FROZEN | WS_CLOSED

record wallet =
  wl_id :: string
  wl_userId :: string
  wl_currency :: string
  wl_status :: wallet_status

datatype user_status = US_PENDING_VERIFICATION | US_ACTIVE | US_SUSPENDED | US_DEACTIVATED

record user_row =
  ur_id :: string
  ur_email :: "string option"
  ur_phone :: "string option"
  ur_status :: user_status
  ur_referralCode :: "string option"
  ur_emailVerifiedAt :: "int option"
  ur_lastLoginAt :: "int option"

record audit_row =
  al_actor :: "string option"
  al_action :: string
  al_subjectType :: string
  al_subjectId :: "string option"
  al_groupId :: "string option"

record outbox_row =
  ob_aggregateType :: string
  ob_aggregateId :: string
  ob_eventType :: string

record notify_call =
  nc_userId :: string
  nc_template :: string
  nc_amount :: "int option"
  nc_dedupeKey :: string

record core_db = ledger_db +
  accounts :: "fin_account list"
  wallets :: "wallet list"
  users :: "user_row list"
  audit_log :: "audit_row list"
  outbox_events :: "outbox_row list"
  notify_calls :: "notify_call list"

section \<open>Shared writes\<close>

definition audit :: "string option \<Rightarrow> string \<Rightarrow> string \<Rightarrow> string option \<Rightarrow> string option \<Rightarrow>
    'm core_db_scheme \<Rightarrow> 'm core_db_scheme" where
  "audit actor action subjectType subjectId groupId s =
     s\<lparr>audit_log := audit_log s @ [\<lparr>al_actor = actor, al_action = action, al_subjectType = subjectType,
        al_subjectId = subjectId, al_groupId = groupId\<rparr>]\<rparr>"

definition outbox :: "string \<Rightarrow> string \<Rightarrow> string \<Rightarrow> 'm core_db_scheme \<Rightarrow> 'm core_db_scheme" where
  "outbox aggregateType aggregateId eventType s =
     s\<lparr>outbox_events := outbox_events s @ [\<lparr>ob_aggregateType = aggregateType,
        ob_aggregateId = aggregateId, ob_eventType = eventType\<rparr>]\<rparr>"

definition notify :: "string \<Rightarrow> string \<Rightarrow> int option \<Rightarrow> string \<Rightarrow> 'm core_db_scheme \<Rightarrow> 'm core_db_scheme" where
  "notify userId template amount dedupeKey s =
     s\<lparr>notify_calls := notify_calls s @ [\<lparr>nc_userId = userId, nc_template = template,
        nc_amount = amount, nc_dedupeKey = dedupeKey\<rparr>]\<rparr>"

lemma audit_frame [simp]:
  "ledger_txs (audit a b c d e s) = ledger_txs s" "accounts (audit a b c d e s) = accounts s"
  "wallets (audit a b c d e s) = wallets s" "users (audit a b c d e s) = users s"
  "outbox_events (audit a b c d e s) = outbox_events s" "notify_calls (audit a b c d e s) = notify_calls s"
  "core_db.more (audit a b c d e s) = core_db.more s"
  by (simp_all add: audit_def)

lemma outbox_frame [simp]:
  "ledger_txs (outbox a b c s) = ledger_txs s" "accounts (outbox a b c s) = accounts s"
  "wallets (outbox a b c s) = wallets s" "users (outbox a b c s) = users s"
  "audit_log (outbox a b c s) = audit_log s" "notify_calls (outbox a b c s) = notify_calls s"
  "core_db.more (outbox a b c s) = core_db.more s"
  by (simp_all add: outbox_def)

lemma notify_frame [simp]:
  "ledger_txs (notify a b c d s) = ledger_txs s" "accounts (notify a b c d s) = accounts s"
  "wallets (notify a b c d s) = wallets s" "users (notify a b c d s) = users s"
  "audit_log (notify a b c d s) = audit_log s" "outbox_events (notify a b c d s) = outbox_events s"
  "core_db.more (notify a b c d s) = core_db.more s"
  by (simp_all add: notify_def)

text \<open>Balances and the ledger invariant depend on the transactions only.\<close>

lemma balance_cong: "ledger_txs s = ledger_txs s' \<Longrightarrow> accountBalanceWithin s a = accountBalanceWithin s' a"
  by (simp add: accountBalanceWithin_def)

lemma balance_frame [simp]:
  "accountBalanceWithin (audit a b c d e s) x = accountBalanceWithin s x"
  "accountBalanceWithin (outbox f g h s) x = accountBalanceWithin s x"
  "accountBalanceWithin (notify k l m n s) x = accountBalanceWithin s x"
  by (simp_all add: accountBalanceWithin_def)

lemma ledger_wf_cong: "ledger_txs s = ledger_txs s' \<Longrightarrow> ledger_wf s = ledger_wf s'"
  by (simp add: ledger_wf_def)

lemma used_keys_cong: "ledger_txs s = ledger_txs s' \<Longrightarrow> used_keys s = used_keys s'"
  by (simp add: used_keys_def)

text \<open>A posting appends to the ledger and touches no other table.\<close>

lemma postWithin_frame:
  assumes "postWithin i now c (s :: 'm core_db_scheme) = Inr (r, s')"
  shows "accounts s' = accounts s \<and> wallets s' = wallets s \<and> users s' = users s
    \<and> audit_log s' = audit_log s \<and> outbox_events s' = outbox_events s
    \<and> notify_calls s' = notify_calls s \<and> core_db.more s' = core_db.more s"
  using assms
  by (cases rule: postWithin_Inr_cases) (auto simp: createLedgerTx_def split: if_splits)

lemma postWithin_only_ledger:
  assumes "postWithin i now c s = Inr (r, s')"
  obtains txs where "s' = s\<lparr>ledger_txs := txs\<rparr>"
proof -
  from assms have "\<exists>txs. s' = s\<lparr>ledger_txs := txs\<rparr>"
  proof (cases rule: postWithin_Inr_cases)
    case (old t)
    then have "s' = s\<lparr>ledger_txs := ledger_txs s\<rparr>" by simp
    then show ?thesis by (rule exI)
  next
    case new
    then show ?thesis by (auto simp: createLedgerTx_def split: if_splits)
  qed
  with that show ?thesis by blast
qed

lemma postWithin_posted:
  assumes "postWithin i now c s = Inr (r, s')"
  shows "fst r \<in> lt_id ` set (ledger_txs s')" "set (ledger_txs s) \<subseteq> set (ledger_txs s')"
  using assms by (cases rule: postWithin_Inr_cases;
      force simp: createLedgerTx_def postedTx_def dest!: findByKey_SomeD split: if_splits)+

lemma postWithin_fresh:
  assumes "postWithin i now c s = Inr (r, s')" and "pc_idempotencyKey c \<notin> used_keys s"
  shows "createLedgerTx (postedTx i now c) s = Inr s' \<and> r = (i, pc_reference c)"
  using assms(1)
proof (cases rule: postWithin_Inr_cases)
  case (old t)
  with assms(2) show ?thesis by (metis findByKey_None_iff option.distinct(1))
qed simp

lemma balance_post:
  "postWithin i now c s = Inr (r, s') \<Longrightarrow> pc_idempotencyKey c \<notin> used_keys s \<Longrightarrow>
     accountBalanceWithin s' x = accountBalanceWithin s x + cmd_delta c x"
  using postWithin_fresh [of i now c s r s'] balance_create [of "postedTx i now c" s s' x] by simp

section \<open>Two-leg movements\<close>

text \<open>A movement of \<open>n\<close> from account \<open>a\<close> to account \<open>b\<close>.\<close>

definition two_legs :: "string \<Rightarrow> string \<Rightarrow> int \<Rightarrow> posting_entry list" where
  "two_legs a b n = [\<lparr>pe_account = a, pe_direction = DEBIT, pe_amount = n\<rparr>,
                     \<lparr>pe_account = b, pe_direction = CREDIT, pe_amount = n\<rparr>]"

lemma post_two_legs:
  assumes "postWithin i now c s = Inr (r, s')" and "pc_entries c = two_legs a b n"
  obtains (replayed) "s' = s" "pc_idempotencyKey c \<in> used_keys s"
  | (moved) "0 < n" "\<And>x. accountBalanceWithin s' x =
        accountBalanceWithin s x + (if x = b then n else 0) - (if x = a then n else 0)"
      "pc_idempotencyKey c \<notin> used_keys s"
  using assms(1)
proof (cases rule: postWithin_Inr_cases)
  case new
  have "0 < n" using new(1) assms(2) by (simp add: posting_valid_def two_legs_def)
  moreover have "accountBalanceWithin s' x =
        accountBalanceWithin s x + (if x = b then n else 0) - (if x = a then n else 0)" for x
    using balance_create [OF new(3), of x] cmd_delta_two [of c a n b x] assms(2)
    by (simp add: two_legs_def)
  ultimately show ?thesis using that(2) new(2) by (simp add: findByKey_None_iff)
next
  case (old t)
  then have "pc_idempotencyKey c \<in> used_keys s" by (metis findByKey_None_iff option.distinct(1))
  with old(3) show ?thesis by (rule that(1))
qed

section \<open>Accounts\<close>

definition account_matches :: "string option \<Rightarrow> account_purpose \<Rightarrow> string \<Rightarrow> fin_account \<Rightarrow> bool" where
  "account_matches walletId purpose currency a \<longleftrightarrow>
     fa_walletId a = walletId \<and> fa_purpose a = Some purpose \<and> fa_currency a = currency \<and> fa_isActive a"

text \<open>The lookup the services repeat: an active account of a wallet (or of the platform).\<close>

definition findAccount :: "string option \<Rightarrow> account_purpose \<Rightarrow> string \<Rightarrow> 'm core_db_scheme \<Rightarrow> fin_account option" where
  "findAccount walletId purpose currency s =
     List.find (account_matches walletId purpose currency) (accounts s)"

definition requireAccount :: "string option \<Rightarrow> account_purpose \<Rightarrow> string \<Rightarrow> 'm core_db_scheme \<Rightarrow> fin_account res" where
  "requireAccount walletId purpose currency s =
     (case findAccount walletId purpose currency s of
        None \<Rightarrow> Inl (Unprocessable ''Required financial accounts are not configured'')
      | Some a \<Rightarrow> Inr a)"

lemma requireAccount_InrD:
  "requireAccount w p c s = Inr a \<Longrightarrow> a \<in> set (accounts s) \<and> account_matches w p c a"
  by (auto simp: requireAccount_def findAccount_def split: option.splits dest: find_SomeD)

text \<open>
  Account rows have distinct ids and codes. A wallet balance is never negative: the
  property every operation that spends from a wallet must keep.
\<close>

definition accounts_wf :: "'m core_db_scheme \<Rightarrow> bool" where
  "accounts_wf s \<longleftrightarrow> distinct (map fa_id (accounts s)) \<and> distinct (map fa_code (accounts s))"

definition is_wallet_account :: "fin_account \<Rightarrow> bool" where
  "is_wallet_account a \<longleftrightarrow> fa_purpose a = Some WALLET_AVAILABLE \<or> fa_purpose a = Some WALLET_RESERVED"

definition no_overdraft :: "'m core_db_scheme \<Rightarrow> bool" where
  "no_overdraft s \<longleftrightarrow> (\<forall>a \<in> set (accounts s). is_wallet_account a \<longrightarrow> 0 \<le> accountBalanceWithin s (fa_id a))"

lemma account_id_inject:
  "accounts_wf s \<Longrightarrow> a \<in> set (accounts s) \<Longrightarrow> b \<in> set (accounts s) \<Longrightarrow> fa_id a = fa_id b \<Longrightarrow> a = b"
  by (auto simp: accounts_wf_def distinct_map dest: inj_onD)

text \<open>
  An account that a group or a programme owns is looked up by its code and created on first use: opening
  it returns the account's id and adds at most that account.
\<close>

definition account_clash :: "fin_account \<Rightarrow> fin_account \<Rightarrow> bool" where
  "account_clash a b \<longleftrightarrow> fa_id a = fa_id b \<or> fa_code a = fa_code b"

locale owned_account =
  fixes open_account :: "string \<Rightarrow> string \<Rightarrow> string \<Rightarrow> ('m core_db_scheme, string) tx"
    and code :: "string \<Rightarrow> string"
    and row :: "string \<Rightarrow> string \<Rightarrow> string \<Rightarrow> fin_account"
  assumes opens: "open_account newId owner currency s = Inr (account, s') \<Longrightarrow>
      (\<exists>a. a \<in> set (accounts s) \<and> fa_id a = account \<and> s' = s \<and> fa_code a = code owner)
      \<or> (s' = s\<lparr>accounts := accounts s @ [row newId owner currency]\<rparr> \<and> account = newId
          \<and> newId \<notin> fa_id ` set (accounts s) \<and> code owner \<notin> fa_code ` set (accounts s))"
    and row_simps [simp]: "fa_id (row newId owner currency) = newId" "fa_code (row newId owner currency) = code owner"
      "\<not> is_wallet_account (row newId owner currency)"
begin

lemma open_cases:
  assumes "open_account newId owner currency s = Inr (account, s')"
  obtains (old) a where "a \<in> set (accounts s)" "fa_id a = account" "s' = s" "fa_code a = code owner"
  | (new) "s' = s\<lparr>accounts := accounts s @ [row newId owner currency]\<rparr>" "account = newId"
      "newId \<notin> fa_id ` set (accounts s)" "code owner \<notin> fa_code ` set (accounts s)"
  using opens [OF assms] by blast

lemma open_frame:
  assumes "open_account newId owner currency s = Inr (account, s')"
  shows "ledger_txs s' = ledger_txs s" "wallets s' = wallets s" "core_db.more s' = core_db.more s"
    "accounts_wf s \<Longrightarrow> accounts_wf s'" "filter is_wallet_account (accounts s') = filter is_wallet_account (accounts s)"
    "account \<in> fa_id ` set (accounts s')" "set (accounts s) \<subseteq> set (accounts s')"
  using assms by (cases rule: open_cases; force simp: accounts_wf_def)+

end

section \<open>WalletsService\<close>

record wallet_summary =
  wsm_id :: string
  wsm_currency :: string
  wsm_status :: wallet_status
  wsm_available :: int
  wsm_reserved :: int

definition listWallets :: "string \<Rightarrow> 'm core_db_scheme \<Rightarrow> wallet list" where
  "listWallets userId s = filter (\<lambda>w. wl_userId w = userId) (wallets s)"

definition findOwnWallet :: "string \<Rightarrow> string \<Rightarrow> 'm core_db_scheme \<Rightarrow> wallet option" where
  "findOwnWallet userId walletId s =
     List.find (\<lambda>w. wl_id w = walletId \<and> wl_userId w = userId) (wallets s)"

text \<open>The balance closure of \<^verbatim>\<open>summary\<close>: the posted entries on the wallet's accounts of a purpose.\<close>

definition purposeBalance :: "string \<Rightarrow> account_purpose \<Rightarrow> 'm core_db_scheme \<Rightarrow> int" where
  "purposeBalance walletId purpose s =
     (let ids = map fa_id (filter (\<lambda>a. fa_walletId a = Some walletId \<and> fa_purpose a = Some purpose) (accounts s))
      in foldl addEntry 0 (filter (\<lambda>e. le_account e \<in> set ids)
           (concat (map lt_entries (filter (\<lambda>t. lt_status t = LT_POSTED) (ledger_txs s))))))"

definition summary :: "string \<Rightarrow> string \<Rightarrow> 'm core_db_scheme \<Rightarrow> wallet_summary res" where
  "summary userId walletId s =
     (case findOwnWallet userId walletId s of
        None \<Rightarrow> Inl (NotFound ''Wallet was not found'')
      | Some w \<Rightarrow> Inr \<lparr>wsm_id = wl_id w, wsm_currency = wl_currency w, wsm_status = wl_status w,
          wsm_available = purposeBalance walletId WALLET_AVAILABLE s,
          wsm_reserved = purposeBalance walletId WALLET_RESERVED s\<rparr>)"

lemma sum_list_filter_set:
  fixes f :: "'e \<Rightarrow> int"
  assumes "distinct ids"
  shows "sum_list (map f (filter (\<lambda>e. acc e \<in> set ids) es)) =
    sum_list (map (\<lambda>i. sum_list (map f (filter (\<lambda>e. acc e = i) es))) ids)"
proof -
  have "sum_list (map (\<lambda>i. sum_list (map f (filter (\<lambda>e. acc e = i) es))) ids) =
      (\<Sum>i \<in> set ids. sum_list (map f (filter (\<lambda>e. acc e = i) es)))"
    using assms by (rule sum_list_distinct_conv_sum_set)
  also have "\<dots> = (\<Sum>i \<in> set ids. sum_list (map f (filter (\<lambda>e. acc e = i) (filter (\<lambda>e. acc e \<in> set ids) es))))"
    by (rule sum.cong) (auto intro!: arg_cong [where f = sum_list] arg_cong [where f = "map f"] filter_cong)
  also have "\<dots> = sum_list (map f (filter (\<lambda>e. acc e \<in> set ids) es))"
    by (rule sum_by_account) auto
  finally show ?thesis by simp
qed

lemma filter_concat_map: "filter P (concat (map g xs)) = concat (map (\<lambda>x. filter P (g x)) xs)"
  by (induction xs) auto

lemma purposeBalance_sum:
  assumes "accounts_wf s"
  shows "purposeBalance walletId purpose s =
    sum_list (map (\<lambda>a. accountBalanceWithin s (fa_id a))
      (filter (\<lambda>a. fa_walletId a = Some walletId \<and> fa_purpose a = Some purpose) (accounts s)))"
proof -
  let ?as = "filter (\<lambda>a. fa_walletId a = Some walletId \<and> fa_purpose a = Some purpose) (accounts s)"
  have "distinct (map fa_id ?as)"
    using assms by (auto simp: accounts_wf_def intro: distinct_map_filter)
  then have "sum_list (map signed (filter (\<lambda>e. le_account e \<in> set (map fa_id ?as)) es)) =
      sum_list (map (\<lambda>i. sum_list (map signed (filter (\<lambda>e. le_account e = i) es))) (map fa_id ?as))" for es
    by (rule sum_list_filter_set)
  then show ?thesis
    by (simp add: purposeBalance_def Let_def foldl_addEntry accountBalanceWithin_def o_def flip: filter_concat_map)
qed

end
