(* ===== verification/Transaction_Pin.thy ===== *)
theory Transaction_Pin
  imports Accounts
begin

text \<open>
  The transaction PIN that authorises money movement:
  \<^verbatim>\<open>src/modules/auth/domain/transaction-pin-policy.ts\<close> and
  \<^verbatim>\<open>src/modules/auth/transaction-pin.service.ts\<close>. Argon2's \<^verbatim>\<open>hash\<close> and \<^verbatim>\<open>verify\<close> are parameters;
  the facts used about them are stated where they are used. A wrong attempt writes the new
  counter before the exception, so the operations are handlers whose state survives an
  exception.
\<close>

section \<open>Policy\<close>

definition TRANSACTION_PIN_LENGTH :: nat where "TRANSACTION_PIN_LENGTH = 4"
definition TRANSACTION_PIN_MAX_ATTEMPTS :: int where "TRANSACTION_PIN_MAX_ATTEMPTS = 5"
definition TRANSACTION_PIN_LOCK_MS :: int where "TRANSACTION_PIN_LOCK_MS = 15 * 60 * 1000"

text \<open>Each digit is its predecessor plus \<open>step\<close>; the first is unconstrained.\<close>

fun runs_by :: "int \<Rightarrow> int list \<Rightarrow> bool" where
  "runs_by step (a # b # ds) \<longleftrightarrow> b = a + step \<and> runs_by step (b # ds)"
| "runs_by step ds \<longleftrightarrow> True"

definition isWeakTransactionPin :: "string \<Rightarrow> bool" where
  "isWeakTransactionPin pin =
     (if \<not> (pin \<noteq> [] \<and> list_all is_digit pin) then False
      else if card (set pin) = 1 then True
      else let digits = map digit_value pin in runs_by 1 digits \<or> runs_by (- 1) digits)"

definition isValidTransactionPinShape :: "string \<Rightarrow> bool" where
  "isValidTransactionPinShape pin \<longleftrightarrow> length pin = TRANSACTION_PIN_LENGTH \<and> list_all is_digit pin"

definition isPinLocked :: "int option \<Rightarrow> int \<Rightarrow> bool" where
  "isPinLocked lockedUntil now = (case lockedUntil of None \<Rightarrow> False | Some t \<Rightarrow> t > now)"

definition registerFailedAttempt :: "int \<Rightarrow> int \<Rightarrow> int \<times> int option" where
  "registerFailedAttempt failedCount now =
     (let nxt = failedCount + 1
      in (nxt, if nxt \<ge> TRANSACTION_PIN_MAX_ATTEMPTS then Some (now + TRANSACTION_PIN_LOCK_MS) else None))"

section \<open>State and operations\<close>

record pin_row =
  pin_userId :: string
  pin_hash :: string
  pin_failedCount :: int
  pin_lockedUntil :: "int option"
  pin_lastUsedAt :: "int option"
  pin_changedAt :: int

record pin_db = core_db +
  pins :: "pin_row list"

definition findPin :: "string \<Rightarrow> 'm pin_db_scheme \<Rightarrow> pin_row option" where
  "findPin userId s = List.find (\<lambda>p. pin_userId p = userId) (pins s)"

definition updatePin :: "string \<Rightarrow> (pin_row \<Rightarrow> pin_row) \<Rightarrow> 'm pin_db_scheme \<Rightarrow> 'm pin_db_scheme" where
  "updatePin userId f s = s\<lparr>pins := update_where (\<lambda>p. pin_userId p = userId) f (pins s)\<rparr>"

definition pinStatus :: "string \<Rightarrow> int \<Rightarrow> 'm pin_db_scheme \<Rightarrow> bool \<times> int option" where
  "pinStatus userId now s =
     (let lockedUntil = (case findPin userId s of None \<Rightarrow> None | Some p \<Rightarrow> pin_lockedUntil p)
      in (findPin userId s \<noteq> None, if isPinLocked lockedUntil now then lockedUntil else None))"

definition assertUsablePin :: "string \<Rightarrow> unit res" where
  "assertUsablePin pin =
     (if \<not> isValidTransactionPinShape pin then Inl (BadRequest ''Your PIN must be 4 digits'')
      else if isWeakTransactionPin pin then Inl (BadRequest ''Choose a less predictable PIN'')
      else Inr ())"

definition assertCurrentPinMatches ::
  "(string \<Rightarrow> string \<Rightarrow> bool) \<Rightarrow> string \<Rightarrow> string \<Rightarrow> int \<Rightarrow> ('m pin_db_scheme, unit) handler" where
  "assertCurrentPinMatches verify userId pin now s =
     (case findPin userId s of
        None \<Rightarrow> (Inl (BadRequest ''No transaction PIN has been set''), s)
      | Some p \<Rightarrow>
          if isPinLocked (pin_lockedUntil p) now
          then (Inl (TooManyRequests ''Too many attempts. Try again later.''), s)
          else if verify (pin_hash p) pin then
            (Inr (),
             if pin_failedCount p \<noteq> 0 \<or> pin_lockedUntil p \<noteq> None
             then updatePin userId (\<lambda>q. q\<lparr>pin_failedCount := 0, pin_lockedUntil := None, pin_lastUsedAt := Some now\<rparr>) s
             else updatePin userId (\<lambda>q. q\<lparr>pin_lastUsedAt := Some now\<rparr>) s)
          else
            (let (failedCount, lockedUntil) = registerFailedAttempt (pin_failedCount p) now;
                 s' = updatePin userId (\<lambda>q. q\<lparr>pin_failedCount := failedCount, pin_lockedUntil := lockedUntil\<rparr>) s
             in (if lockedUntil \<noteq> None then Inl (TooManyRequests ''Too many attempts. Try again later.'')
                 else Inl (BadRequest ''That PIN is incorrect''), s')))"

definition verifyPin ::
  "(string \<Rightarrow> string \<Rightarrow> bool) \<Rightarrow> string \<Rightarrow> string \<Rightarrow> int \<Rightarrow> ('m pin_db_scheme, unit) handler" where
  "verifyPin verify userId pin now = assertCurrentPinMatches verify userId pin now"

definition upsertPin :: "(string \<Rightarrow> string) \<Rightarrow> string \<Rightarrow> string \<Rightarrow> int \<Rightarrow> 'm pin_db_scheme \<Rightarrow> 'm pin_db_scheme" where
  "upsertPin hash userId pin now s =
     (case findPin userId s of
        None \<Rightarrow> s\<lparr>pins := pins s @ [\<lparr>pin_userId = userId, pin_hash = hash pin, pin_failedCount = 0,
          pin_lockedUntil = None, pin_lastUsedAt = None, pin_changedAt = now\<rparr>]\<rparr>
      | Some _ \<Rightarrow> updatePin userId (\<lambda>q. q\<lparr>pin_hash := hash pin, pin_changedAt := now,
          pin_failedCount := 0, pin_lockedUntil := None\<rparr>) s)"

definition setPin ::
  "(string \<Rightarrow> string) \<Rightarrow> (string \<Rightarrow> string \<Rightarrow> bool) \<Rightarrow> string \<Rightarrow> string \<Rightarrow> string option \<Rightarrow> int \<Rightarrow>
     ('m pin_db_scheme, bool \<times> int option) handler" where
  "setPin hash verify userId pin currentPin now s =
     (case assertUsablePin pin of
        Inl e \<Rightarrow> (Inl e, s)
      | Inr _ \<Rightarrow>
          (case findPin userId s of
             None \<Rightarrow> (Inr (True, None), upsertPin hash userId pin now s)
           | Some _ \<Rightarrow>
               (case currentPin of
                  None \<Rightarrow> (Inl (BadRequest ''Enter your current PIN to change it''), s)
                | Some cur \<Rightarrow>
                    if cur = [] then (Inl (BadRequest ''Enter your current PIN to change it''), s)
                    else (case assertCurrentPinMatches verify userId cur now s of
                        (Inl e, s') \<Rightarrow> (Inl e, s')
                      | (Inr _, s') \<Rightarrow> (Inr (True, None), upsertPin hash userId pin now s')))))"

section \<open>Lemmas\<close>

lemma findPin_updatePin:
  "(\<And>p. pin_userId (f p) = pin_userId p) \<Longrightarrow>
     findPin u (updatePin u f s) = map_option f (findPin u s)"
  by (auto simp: findPin_def updatePin_def find_update_where split: option.splits dest!: find_SomeD)

lemma findPin_updatePin_other:
  "(\<And>p. pin_userId (f p) = pin_userId p) \<Longrightarrow> u \<noteq> v \<Longrightarrow> findPin v (updatePin u f s) = findPin v s"
  by (auto simp: findPin_def updatePin_def find_update_where split: option.splits dest!: find_SomeD)

lemma updatePin_frame [simp]:
  "ledger_txs (updatePin u f s) = ledger_txs s" "accounts (updatePin u f s) = accounts s"
  "wallets (updatePin u f s) = wallets s" "users (updatePin u f s) = users s"
  "audit_log (updatePin u f s) = audit_log s" "outbox_events (updatePin u f s) = outbox_events s"
  "notify_calls (updatePin u f s) = notify_calls s" "pin_db.more (updatePin u f s) = pin_db.more s"
  "accountBalanceWithin (updatePin u f s) x = accountBalanceWithin s x"
  by (simp_all add: updatePin_def accountBalanceWithin_def)

text \<open>A PIN check writes to the PIN table only.\<close>

lemma verifyPin_state: "snd (verifyPin verify u pin now s) = s \<or> (\<exists>f. snd (verifyPin verify u pin now s) = updatePin u f s)"
  by (auto simp: verifyPin_def assertCurrentPinMatches_def Let_def split: option.splits prod.splits)

lemma verifyPin_frame:
  assumes "verifyPin verify u pin now s = (r, s')"
  shows "ledger_txs s' = ledger_txs s \<and> accounts s' = accounts s \<and> wallets s' = wallets s \<and> users s' = users s
    \<and> audit_log s' = audit_log s \<and> outbox_events s' = outbox_events s \<and> notify_calls s' = notify_calls s
    \<and> pin_db.more s' = pin_db.more s"
  using verifyPin_state [of verify u pin now s] assms by auto


text \<open>A wrong guess against an unlocked PIN, and any guess against a locked one.\<close>

lemma verifyPin_wrong:
  assumes "findPin u s = Some p" and "\<not> isPinLocked (pin_lockedUntil p) now" and "\<not> verify (pin_hash p) g"
  shows "findPin u (snd (verifyPin verify u g now s)) =
      Some (p\<lparr>pin_failedCount := pin_failedCount p + 1,
              pin_lockedUntil := (if pin_failedCount p + 1 \<ge> TRANSACTION_PIN_MAX_ATTEMPTS
                                  then Some (now + TRANSACTION_PIN_LOCK_MS) else None)\<rparr>)
    \<and> (\<exists>e. fst (verifyPin verify u g now s) = Inl e)"
  using assms
  by (auto simp: verifyPin_def assertCurrentPinMatches_def registerFailedAttempt_def Let_def findPin_updatePin)

lemma verifyPin_locked:
  assumes "findPin u s = Some p" and "isPinLocked (pin_lockedUntil p) now"
  shows "verifyPin verify u g now s = (Inl (TooManyRequests ''Too many attempts. Try again later.''), s)"
  using assms by (simp add: verifyPin_def assertCurrentPinMatches_def)

lemma verifyPin_correct:
  assumes "findPin u s = Some p" and "\<not> isPinLocked (pin_lockedUntil p) now" and "verify (pin_hash p) g"
  shows "fst (verifyPin verify u g now s) = Inr ()"
  using assms by (simp add: verifyPin_def assertCurrentPinMatches_def)

text \<open>A sequence of attempts, and how many of them reach the hash comparison.\<close>

fun attempts :: "(string \<Rightarrow> string \<Rightarrow> bool) \<Rightarrow> string \<Rightarrow> (string \<times> int) list \<Rightarrow> 'm pin_db_scheme \<Rightarrow> 'm pin_db_scheme" where
  "attempts verify u [] s = s"
| "attempts verify u ((g, t) # gs) s = attempts verify u gs (snd (verifyPin verify u g t s))"

fun compared :: "(string \<Rightarrow> string \<Rightarrow> bool) \<Rightarrow> string \<Rightarrow> (string \<times> int) list \<Rightarrow> 'm pin_db_scheme \<Rightarrow> nat" where
  "compared verify u [] s = 0"
| "compared verify u ((g, t) # gs) s =
     (case findPin u s of
        None \<Rightarrow> 0
      | Some p \<Rightarrow> if isPinLocked (pin_lockedUntil p) t then 0 else 1)
     + compared verify u gs (snd (verifyPin verify u g t s))"

lemma compared_locked:
  assumes "findPin u s = Some p" and "pin_lockedUntil p = Some l" and "\<forall>(g, t) \<in> set gs. t < l"
  shows "compared verify u gs s = 0"
  using assms(3)
proof (induction gs)
  case (Cons a gs)
  obtain g t where a: "a = (g, t)" by (cases a)
  with Cons.prems assms(2) have "isPinLocked (pin_lockedUntil p) t" by (simp add: isPinLocked_def)
  with Cons a assms(1) show ?case by (simp add: verifyPin_locked)
qed simp

lemma compared_budget:
  assumes "findPin u s = Some p" and "0 \<le> pin_failedCount p" and "pin_failedCount p < TRANSACTION_PIN_MAX_ATTEMPTS"
    and "pin_lockedUntil p = None"
    and "\<forall>(g, t) \<in> set gs. \<not> verify (pin_hash p) g \<and> T \<le> t \<and> t < T + TRANSACTION_PIN_LOCK_MS"
  shows "int (compared verify u gs s) \<le> TRANSACTION_PIN_MAX_ATTEMPTS - pin_failedCount p"
  using assms
proof (induction gs arbitrary: s p)
  case (Cons a gs)
  obtain g t where a: "a = (g, t)" by (cases a)
  let ?s = "snd (verifyPin verify u g t s)"
  from Cons.prems(4) have unlocked: "\<not> isPinLocked (pin_lockedUntil p) t" by (simp add: isPinLocked_def)
  from Cons.prems(5) a have wrong: "\<not> verify (pin_hash p) g" and T: "T \<le> t" by auto
  note after = verifyPin_wrong [where verify = verify, OF Cons.prems(1) unlocked wrong]
  show ?case
  proof (cases "pin_failedCount p + 1 \<ge> TRANSACTION_PIN_MAX_ATTEMPTS")
    case True
    with after have "findPin u ?s = Some (p\<lparr>pin_failedCount := pin_failedCount p + 1,
        pin_lockedUntil := Some (t + TRANSACTION_PIN_LOCK_MS)\<rparr>)" by simp
    then have "compared verify u gs ?s = 0"
      by (rule compared_locked) (use Cons.prems(5) T in auto)
    with Cons.prems a unlocked show ?thesis by simp
  next
    case False
    with after have row: "findPin u ?s = Some (p\<lparr>pin_failedCount := pin_failedCount p + 1, pin_lockedUntil := None\<rparr>)"
      by simp
    have "int (compared verify u gs ?s) \<le> TRANSACTION_PIN_MAX_ATTEMPTS - (pin_failedCount p + 1)"
      using Cons.IH [OF row] Cons.prems False by auto
    with Cons.prems a unlocked show ?thesis by simp
  qed
qed simp

lemma assertCurrentPinMatches_InrD:
  assumes "assertCurrentPinMatches verify u g now s = (Inr r, s')"
  obtains p where "findPin u s = Some p" "\<not> isPinLocked (pin_lockedUntil p) now" "verify (pin_hash p) g"
    "\<exists>q. findPin u s' = Some q"
  using assms
  by (auto simp: assertCurrentPinMatches_def Let_def findPin_updatePin split: option.splits if_splits prod.splits)

lemma findPin_append_new:
  "findPin u s = None \<Longrightarrow> pin_userId p = u \<Longrightarrow> findPin u (s\<lparr>pins := pins s @ [p]\<rparr>) = Some p"
  by (simp add: findPin_def find_append)

lemma findPin_upsertPin:
  "\<exists>q. findPin u (upsertPin hash u pin now s) = Some q \<and> pin_hash q = hash pin
     \<and> pin_failedCount q = 0 \<and> pin_lockedUntil q = None"
  by (auto simp: upsertPin_def findPin_updatePin findPin_append_new split: option.splits)

section \<open>Properties\<close>

definition demo_pin_db :: pin_db where
  "demo_pin_db = \<lparr>ledger_txs = [], accounts = [], wallets = [], users = [], audit_log = [], outbox_events = [],
     notify_calls = [], pins = [\<lparr>pin_userId = ''u'', pin_hash = ''h4071'', pin_failedCount = 0,
       pin_lockedUntil = None, pin_lastUsedAt = None, pin_changedAt = 0\<rparr>]\<rparr>"

definition demo_verify :: "string \<Rightarrow> string \<Rightarrow> bool" where
  "demo_verify h pin \<longleftrightarrow> h = ''h'' @ pin"



text \<open>
  A stored PIN is replaced only by someone who proves it: when \<open>setPin\<close> succeeds for a
  user who already has a PIN, the PIN was not locked and the current PIN supplied matched
  the stored hash; and a weak or misshapen PIN is never stored.
\<close>

theorem setPin_needs_current_pin:
  assumes "setPin hash verify u pin cur now s = (Inr r, s')"
  shows "isValidTransactionPinShape pin \<and> \<not> isWeakTransactionPin pin
    \<and> (\<forall>p. findPin u s = Some p \<longrightarrow>
        (\<exists>c. cur = Some c \<and> verify (pin_hash p) c \<and> \<not> isPinLocked (pin_lockedUntil p) now))"
proof -
  from assms have "assertUsablePin pin = Inr ()"
    by (auto simp: setPin_def split: sum.splits)
  moreover have "\<exists>c. cur = Some c \<and> verify (pin_hash p) c \<and> \<not> isPinLocked (pin_lockedUntil p) now"
    if "findPin u s = Some p" for p
  proof -
    from assms that obtain c r' s1 where "cur = Some c" and m: "assertCurrentPinMatches verify u c now s = (Inr r', s1)"
      by (auto simp: setPin_def split: sum.splits option.splits if_splits prod.splits)
    from m that \<open>cur = Some c\<close> show ?thesis
      by (elim assertCurrentPinMatches_InrD) auto
  qed
  ultimately show ?thesis by (auto simp: assertUsablePin_def split: if_splits)
qed

theorem setPin_needs_current_pin_witness:
  "\<exists>s'. setPin (\<lambda>p. ''h'' @ p) demo_verify ''u'' ''8263'' (Some ''4071'') 5 demo_pin_db = (Inr (True, None), s')
     \<and> isValidTransactionPinShape ''8263'' \<and> demo_verify ''h4071'' ''4071''"
proof -
  have e: "fst (setPin (\<lambda>p. ''h'' @ p) demo_verify ''u'' ''8263'' (Some ''4071'') 5 demo_pin_db) = Inr (True, None)"
    by code_simp
  then obtain s' where s': "setPin (\<lambda>p. ''h'' @ p) demo_verify ''u'' ''8263'' (Some ''4071'') 5 demo_pin_db = (Inr (True, None), s')"
    by (metis prod.collapse)
  have "findPin ''u'' demo_pin_db = Some (hd (pins demo_pin_db))" by (simp add: findPin_def demo_pin_db_def)
  with setPin_needs_current_pin [OF s'] s' show ?thesis
    by (auto simp: demo_pin_db_def)
qed

text \<open>
  Round trip: provided Argon2 verifies exactly the PIN it hashed, after a successful
  \<open>setPin\<close> the new PIN is accepted at once and every other PIN is refused, with the failure
  counter and the lock cleared.
\<close>

theorem setPin_verifyPin:
  assumes "\<And>p q. verify (hash p) q \<longleftrightarrow> q = p" and "setPin hash verify u pin cur now s = (Inr r, s')"
  shows "fst (verifyPin verify u pin now' s') = Inr ()
     \<and> (g \<noteq> pin \<longrightarrow> (\<exists>e. fst (verifyPin verify u g now' s') = Inl e))
     \<and> pinStatus u now' s' = (True, None)"
proof -
  from assms(2) obtain s1 where s': "s' = upsertPin hash u pin now s1"
    by (auto simp: setPin_def split: sum.splits option.splits if_splits prod.splits)
  obtain q where q: "findPin u s' = Some q" "pin_hash q = hash pin" "pin_lockedUntil q = None"
    using findPin_upsertPin unfolding s' by blast
  then have unlocked: "\<not> isPinLocked (pin_lockedUntil q) now'" by (simp add: isPinLocked_def)
  from q assms(1) have "fst (verifyPin verify u pin now' s') = Inr ()"
    by (intro verifyPin_correct [OF q(1) unlocked]) simp
  moreover have "\<exists>e. fst (verifyPin verify u g now' s') = Inl e" if "g \<noteq> pin"
    using verifyPin_wrong [OF q(1) unlocked, of verify g] q(2) assms(1) that by auto
  ultimately show ?thesis using q by (simp add: pinStatus_def isPinLocked_def)
qed

theorem setPin_verifyPin_witness:
  "\<exists>s'. setPin (\<lambda>p. ''h'' @ p) demo_verify ''u'' ''8263'' (Some ''4071'') 5 demo_pin_db = (Inr (True, None), s')
     \<and> fst (verifyPin demo_verify ''u'' ''8263'' 6 s') = Inr ()"
proof -
  have e: "fst (setPin (\<lambda>p. ''h'' @ p) demo_verify ''u'' ''8263'' (Some ''4071'') 5 demo_pin_db) = Inr (True, None)"
    by code_simp
  then obtain s' where s': "setPin (\<lambda>p. ''h'' @ p) demo_verify ''u'' ''8263'' (Some ''4071'') 5 demo_pin_db = (Inr (True, None), s')"
    by (metis prod.collapse)
  have "\<And>p q. demo_verify (''h'' @ p) q \<longleftrightarrow> q = p" by (auto simp: demo_verify_def)
  from setPin_verifyPin [OF this s', of 6] s' show ?thesis by auto
qed

end
