(* ===== verification/Kyc_Stages.thy ===== *)
theory Kyc_Stages
  imports Transaction_Pin
begin

text \<open>
  Staged verification: \<^verbatim>\<open>src/modules/kyc/domain/kyc-stage-policy.ts\<close>, the facts it is decided
  from (\<^verbatim>\<open>src/modules/kyc/kyc-facts.ts\<close>) and the reviewer's rules
  (\<^verbatim>\<open>src/modules/kyc/domain/kyc-review-policy.ts\<close>). A stage is a number 1, 2 or 3 and a level a
  number 0 to 3, as in the code.
\<close>

section \<open>Stage policy\<close>

datatype check_state = CS_none | CS_pending | CS_passed | CS_failed

record kyc_facts =
  kf_accountActive :: bool
  kf_basicInfoComplete :: bool
  kf_pinSet :: bool
  kf_nin :: check_state
  kf_ninDocumentUploaded :: bool
  kf_address :: check_state
  kf_restricted :: bool

datatype stage_status = SS_complete | SS_in_progress | SS_under_review | SS_locked

datatype requirement_key = RK_account | RK_basicInfo | RK_pin | RK_nin | RK_ninDocument | RK_address

datatype requirement_state = RS_complete | RS_pending | RS_failed | RS_missing

record stage_requirement =
  sr_key :: requirement_key
  sr_label :: string
  sr_state :: requirement_state

record stage_view =
  sv_stage :: nat
  sv_title :: string
  sv_status :: stage_status
  sv_requirements :: "stage_requirement list"
  sv_unlocks :: "string list"

definition STAGE_TITLES :: "nat \<Rightarrow> string" where
  "STAGE_TITLES stage = (if stage = 1 then ''Account'' else if stage = 2 then ''Identity'' else ''Address'')"

definition STAGE_UNLOCKS :: "nat \<Rightarrow> string list" where
  "STAGE_UNLOCKS stage =
     (if stage = 1 then [''Join Ajo groups and Akawo pools'', ''Make payments and contributions'']
      else if stage = 2 then [''Withdraw to your bank account'', ''Send money to other members'']
      else [''Create and run groups as an admin'', ''Collect money from members''])"

fun requirementState :: "check_state \<Rightarrow> requirement_state" where
  "requirementState CS_passed = RS_complete"
| "requirementState CS_pending = RS_pending"
| "requirementState CS_failed = RS_failed"
| "requirementState CS_none = RS_missing"

definition flag :: "bool \<Rightarrow> requirement_state" where
  "flag met = (if met then RS_complete else RS_missing)"

definition stageRequirements :: "kyc_facts \<Rightarrow> nat \<Rightarrow> stage_requirement list" where
  "stageRequirements facts stage =
     (if stage = 1 then
        [\<lparr>sr_key = RK_account, sr_label = ''Sign up and verify your email'', sr_state = flag (kf_accountActive facts)\<rparr>,
         \<lparr>sr_key = RK_basicInfo, sr_label = ''Add your date of birth, gender and occupation'',
          sr_state = flag (kf_basicInfoComplete facts)\<rparr>]
      else if stage = 2 then
        [\<lparr>sr_key = RK_pin, sr_label = ''Set your transaction PIN'', sr_state = flag (kf_pinSet facts)\<rparr>,
         \<lparr>sr_key = RK_nin, sr_label = ''Verify your NIN'', sr_state = requirementState (kf_nin facts)\<rparr>,
         \<lparr>sr_key = RK_ninDocument, sr_label = ''Upload a photo of your NIN slip or card'',
          sr_state = flag (kf_ninDocumentUploaded facts)\<rparr>]
      else
        [\<lparr>sr_key = RK_address, sr_label = ''Confirm the address on your NIN'',
          sr_state = requirementState (kf_address facts)\<rparr>])"

text \<open>The loop over the stages, stopping at the first incomplete one.\<close>

fun countStages :: "kyc_facts \<Rightarrow> nat list \<Rightarrow> nat \<Rightarrow> nat" where
  "countStages facts [] level = level"
| "countStages facts (stage # stages) level =
     (if \<not> list_all (\<lambda>r. sr_state r = RS_complete) (stageRequirements facts stage) then level
      else countStages facts stages stage)"

definition completedLevel :: "kyc_facts \<Rightarrow> nat" where
  "completedLevel facts = (if kf_restricted facts then 0 else countStages facts [1, 2, 3] 0)"

definition currentStage :: "kyc_facts \<Rightarrow> nat option" where
  "currentStage facts = (let level = completedLevel facts in if level = 3 then None else Some (level + 1))"

definition stageStatus :: "kyc_facts \<Rightarrow> nat \<Rightarrow> stage_status" where
  "stageStatus facts stage =
     (let items = stageRequirements facts stage; level = completedLevel facts in
      if stage \<le> level then SS_complete
      else if stage > level + 1 \<or> kf_restricted facts then SS_locked
      else if list_ex (\<lambda>i. sr_state i = RS_pending) items
              \<and> list_all (\<lambda>i. sr_state i = RS_complete \<or> sr_state i = RS_pending) items
      then SS_under_review
      else SS_in_progress)"

definition describeStages :: "kyc_facts \<Rightarrow> stage_view list" where
  "describeStages facts =
     map (\<lambda>stage. \<lparr>sv_stage = stage, sv_title = STAGE_TITLES stage, sv_status = stageStatus facts stage,
        sv_requirements = stageRequirements facts stage, sv_unlocks = STAGE_UNLOCKS stage\<rparr>) [1, 2, 3]"

datatype kyc_action =
    AjoJoin | AjoContribute | AkawoPoolJoin | AkawoGoalCreate | FoodSubscribe | MakePayment
  | Withdrawal | WalletSend
  | AjoCreate | AjoAdminister | AkawoPoolCreate | AkawoPoolAdminister
  | FoodProgrammeCreate | FoodCoordinatorApply

fun KYC_ACTION_STAGES :: "kyc_action \<Rightarrow> nat" where
  "KYC_ACTION_STAGES AjoJoin = 1"
| "KYC_ACTION_STAGES AjoContribute = 1"
| "KYC_ACTION_STAGES AkawoPoolJoin = 1"
| "KYC_ACTION_STAGES AkawoGoalCreate = 1"
| "KYC_ACTION_STAGES FoodSubscribe = 1"
| "KYC_ACTION_STAGES MakePayment = 1"
| "KYC_ACTION_STAGES Withdrawal = 2"
| "KYC_ACTION_STAGES WalletSend = 2"
| "KYC_ACTION_STAGES AjoCreate = 3"
| "KYC_ACTION_STAGES AjoAdminister = 3"
| "KYC_ACTION_STAGES AkawoPoolCreate = 3"
| "KYC_ACTION_STAGES AkawoPoolAdminister = 3"
| "KYC_ACTION_STAGES FoodProgrammeCreate = 3"
| "KYC_ACTION_STAGES FoodCoordinatorApply = 3"

fun ACTION_PHRASES :: "kyc_action \<Rightarrow> string" where
  "ACTION_PHRASES AjoJoin = ''join an Ajo group''"
| "ACTION_PHRASES AjoContribute = ''pay contributions''"
| "ACTION_PHRASES AkawoPoolJoin = ''join an Akawo pool''"
| "ACTION_PHRASES AkawoGoalCreate = ''start an Akawo savings goal''"
| "ACTION_PHRASES FoodSubscribe = ''join a food programme''"
| "ACTION_PHRASES MakePayment = ''make payments''"
| "ACTION_PHRASES Withdrawal = ''withdraw''"
| "ACTION_PHRASES WalletSend = ''send money''"
| "ACTION_PHRASES AjoCreate = ''create an Ajo group''"
| "ACTION_PHRASES AjoAdminister = ''manage an Ajo group''"
| "ACTION_PHRASES AkawoPoolCreate = ''create an Akawo pool''"
| "ACTION_PHRASES AkawoPoolAdminister = ''manage an Akawo pool''"
| "ACTION_PHRASES FoodProgrammeCreate = ''create a food programme''"
| "ACTION_PHRASES FoodCoordinatorApply = ''apply as a food coordinator''"

definition satisfiesStage :: "kyc_facts \<Rightarrow> nat \<Rightarrow> bool" where
  "satisfiesStage facts required \<longleftrightarrow> completedLevel facts \<ge> required"

definition stage_digit :: "nat \<Rightarrow> string" where
  "stage_digit stage = (if stage = 1 then ''1'' else if stage = 2 then ''2'' else ''3'')"

definition refusalMessage :: "kyc_action \<Rightarrow> kyc_facts \<Rightarrow> string" where
  "refusalMessage action facts =
     (if kf_restricted facts then ''Your verification was not approved. Contact support to continue.''
      else let required = KYC_ACTION_STAGES action in
        ''Complete stage '' @ stage_digit required @ '' ('' @ STAGE_TITLES required @ '') verification to ''
          @ ACTION_PHRASES action @ ''.'')"

datatype kyc_tier = TIER_1 | TIER_2 | TIER_3

definition tierForLevel :: "nat \<Rightarrow> kyc_tier" where
  "tierForLevel level = (if level = 3 then TIER_3 else if level = 2 then TIER_2 else TIER_1)"

section \<open>Facts\<close>

datatype verification_type =
    VT_BVN | VT_NIN | VT_VNIN | VT_BANK_ACCOUNT | VT_FACE_MATCH | VT_LIVENESS | VT_ADDRESS | VT_MANUAL_REVIEW

datatype check_status = CK_PENDING | CK_PROCESSING | CK_PASSED | CK_FAILED | CK_ERROR

datatype kyc_status = KS_NOT_STARTED | KS_PENDING | KS_VERIFIED | KS_REJECTED | KS_REQUIRES_REVIEW | KS_EXPIRED

datatype gender = MALE | FEMALE | OTHER_GENDER | PREFER_NOT_TO_SAY

record postal_address =
  pa_line :: string
  pa_city :: "string option"
  pa_lga :: "string option"
  pa_state :: "string option"

text \<open>The JSON summary of a check holds the address of the identity record or the submitted one.\<close>

record kyc_check =
  kc_id :: string
  kc_type :: verification_type
  kc_provider :: string
  kc_status :: check_status
  kc_providerRef :: "string option"
  kc_resultCode :: "string option"
  kc_maskedIdentifier :: "string option"
  kc_registeredAddress :: "postal_address option"
  kc_submittedAddress :: "postal_address option"
  kc_failureReason :: "string option"
  kc_riskFlags :: "string list"
  kc_reviewerUserId :: "string option"
  kc_checkedAt :: "int option"
  kc_createdAt :: int

record kyc_document =
  kd_id :: string
  kd_type :: string
  kd_storageKey :: string
  kd_contentHash :: string
  kd_contentType :: "string option"
  kd_sizeBytes :: "nat option"
  kd_ciphertext :: "nat list option"
  kd_supersededAt :: "int option"
  kd_createdAt :: int

record kyc_profile =
  kp_id :: string
  kp_userId :: string
  kp_status :: kyc_status
  kp_tier :: kyc_tier
  kp_level :: nat
  kp_submittedAt :: "int option"
  kp_verifiedAt :: "int option"
  kp_restrictedAt :: "int option"
  kp_checks :: "kyc_check list"
  kp_documents :: "kyc_document list"
  kp_createdAt :: int

record profile_row =
  pf_userId :: string
  pf_firstName :: string
  pf_lastName :: string
  pf_dateOfBirth :: "int option"
  pf_gender :: "gender option"
  pf_addressLine :: "string option"
  pf_city :: "string option"
  pf_occupation :: "string option"
  pf_state :: "string option"
  pf_timezone :: string

record kyc_db = pin_db +
  profiles :: "profile_row list"
  kyc_profiles :: "kyc_profile list"

definition NIN_DOCUMENT_TYPES :: "string list" where
  "NIN_DOCUMENT_TYPES = [''NIN_SLIP'', ''NIN_CARD'']"

definition stateOf :: "kyc_check list \<Rightarrow> check_state" where
  "stateOf checks =
     (if list_ex (\<lambda>c. kc_status c = CK_PASSED) checks then CS_passed
      else case sort_key (\<lambda>c. - kc_createdAt c) checks of
          [] \<Rightarrow> CS_none
        | latest # _ \<Rightarrow>
            if kc_status latest = CK_FAILED \<or> kc_status latest = CK_ERROR then CS_failed else CS_pending)"

definition present :: "string option \<Rightarrow> bool" where
  "present v = (case v of None \<Rightarrow> False | Some t \<Rightarrow> trim t \<noteq> [])"

definition readKycFacts :: "'m kyc_db_scheme \<Rightarrow> string \<Rightarrow> kyc_facts" where
  "readKycFacts s userId =
     (let user = List.find (\<lambda>u. ur_id u = userId) (users s);
          profile = (if user = None then None else List.find (\<lambda>p. pf_userId p = userId) (profiles s));
          pin = (if user = None then None else findPin userId s);
          kyc = (if user = None then None else List.find (\<lambda>k. kp_userId k = userId) (kyc_profiles s));
          checks = (case kyc of None \<Rightarrow> [] | Some k \<Rightarrow>
                     filter (\<lambda>c. kc_type c \<in> {VT_NIN, VT_VNIN, VT_ADDRESS}) (kp_checks k));
          documents = (case kyc of None \<Rightarrow> [] | Some k \<Rightarrow>
                     filter (\<lambda>d. kd_type d \<in> set NIN_DOCUMENT_TYPES \<and> kd_supersededAt d = None) (kp_documents k))
      in \<lparr>kf_accountActive = (case user of None \<Rightarrow> False | Some u \<Rightarrow> ur_status u = US_ACTIVE),
          kf_basicInfoComplete =
            (case profile of None \<Rightarrow> False | Some p \<Rightarrow>
               present (Some (pf_firstName p)) \<and> present (Some (pf_lastName p)) \<and> pf_dateOfBirth p \<noteq> None
               \<and> pf_gender p \<noteq> None \<and> present (pf_occupation p)),
          kf_pinSet = (pin \<noteq> None),
          kf_nin = stateOf (filter (\<lambda>c. kc_type c = VT_NIN \<or> kc_type c = VT_VNIN) checks),
          kf_ninDocumentUploaded = (documents \<noteq> []),
          kf_address = stateOf (filter (\<lambda>c. kc_type c = VT_ADDRESS) checks),
          kf_restricted = (case kyc of None \<Rightarrow> False | Some k \<Rightarrow> kp_status k = KS_REJECTED \<or> kp_restrictedAt k \<noteq> None)\<rparr>)"

definition assertKycStage :: "'m kyc_db_scheme \<Rightarrow> string \<Rightarrow> kyc_action \<Rightarrow> unit res" where
  "assertKycStage s userId action =
     (let facts = readKycFacts s userId in
      if completedLevel facts < KYC_ACTION_STAGES action then Inl (Forbidden (refusalMessage action facts)) else Inr ())"

definition assertOrganiserVerified :: "'m kyc_db_scheme \<Rightarrow> string \<Rightarrow> unit res" where
  "assertOrganiserVerified s organiserUserId =
     (if completedLevel (readKycFacts s organiserUserId) < 3 then Inl (Forbidden ''ORGANISER_NOT_VERIFIED'') else Inr ())"

section \<open>Review policy\<close>

datatype review_decision = APPROVE | REJECT | REQUEST_INFORMATION | ESCALATE

datatype review_status = RV_OPEN | RV_APPROVED | RV_REJECTED | RV_ESCALATED | RV_CLOSED

definition isReviewable :: "kyc_status \<Rightarrow> bool" where
  "isReviewable status \<longleftrightarrow> status \<in> {KS_PENDING, KS_REQUIRES_REVIEW, KS_EXPIRED}"

fun statusAfterDecision :: "review_decision \<Rightarrow> kyc_status" where
  "statusAfterDecision APPROVE = KS_VERIFIED"
| "statusAfterDecision REJECT = KS_REJECTED"
| "statusAfterDecision REQUEST_INFORMATION = KS_REQUIRES_REVIEW"
| "statusAfterDecision ESCALATE = KS_REQUIRES_REVIEW"

fun reviewStatusForDecision :: "review_decision \<Rightarrow> review_status" where
  "reviewStatusForDecision APPROVE = RV_APPROVED"
| "reviewStatusForDecision REJECT = RV_REJECTED"
| "reviewStatusForDecision ESCALATE = RV_ESCALATED"
| "reviewStatusForDecision REQUEST_INFORMATION = RV_CLOSED"

definition canGrantTier :: "kyc_tier \<Rightarrow> verification_type list \<Rightarrow> bool \<Rightarrow> bool" where
  "canGrantTier tier checkTypes hasNinDocument =
     (let has = (\<lambda>t. t \<in> set checkTypes);
          stage2 = (has VT_NIN \<or> has VT_VNIN) \<and> hasNinDocument
      in if tier = TIER_1 then True else if tier = TIER_2 then stage2 else stage2 \<and> has VT_ADDRESS)"

fun checkTypesApprovedBy :: "kyc_tier \<Rightarrow> verification_type list" where
  "checkTypesApprovedBy TIER_1 = []"
| "checkTypesApprovedBy TIER_2 = [VT_NIN, VT_VNIN]"
| "checkTypesApprovedBy TIER_3 = [VT_NIN, VT_VNIN, VT_ADDRESS]"

definition requiresReason :: "review_decision \<Rightarrow> bool" where
  "requiresReason decision \<longleftrightarrow> decision \<noteq> APPROVE"

section \<open>Lemmas\<close>

lemma requirementState_complete [simp]: "requirementState c = RS_complete \<longleftrightarrow> c = CS_passed"
  by (cases c) auto

lemma flag_complete [simp]: "flag b = RS_complete \<longleftrightarrow> b"
  by (simp add: flag_def)

text \<open>What each stage asks for, as a condition on the facts.\<close>

definition stage_met :: "kyc_facts \<Rightarrow> nat \<Rightarrow> bool" where
  "stage_met facts stage =
     (if stage = 1 then kf_accountActive facts \<and> kf_basicInfoComplete facts
      else if stage = 2 then kf_pinSet facts \<and> kf_nin facts = CS_passed \<and> kf_ninDocumentUploaded facts
      else kf_address facts = CS_passed)"

lemma stageRequirements_complete:
  "list_all (\<lambda>r. sr_state r = RS_complete) (stageRequirements facts stage) \<longleftrightarrow> stage_met facts stage"
  by (simp add: stageRequirements_def stage_met_def)

lemma completedLevel_cases:
  "completedLevel facts =
     (if kf_restricted facts \<or> \<not> stage_met facts 1 then 0
      else if \<not> stage_met facts 2 then 1 else if \<not> stage_met facts 3 then 2 else 3)"
  by (simp add: completedLevel_def stageRequirements_complete)

lemma completedLevel_le: "completedLevel facts \<le> 3"
  by (simp add: completedLevel_cases)

lemma assertOrganiserVerified_iff:
  "assertOrganiserVerified s u = Inr () \<longleftrightarrow> completedLevel (readKycFacts s u) = 3"
  using completedLevel_le [of "readKycFacts s u"] by (auto simp: assertOrganiserVerified_def)


text \<open>More evidence never lowers the level; only a restriction does.\<close>

definition improves :: "kyc_facts \<Rightarrow> kyc_facts \<Rightarrow> bool" where
  "improves f g \<longleftrightarrow> (kf_accountActive f \<longrightarrow> kf_accountActive g) \<and> (kf_basicInfoComplete f \<longrightarrow> kf_basicInfoComplete g)
     \<and> (kf_pinSet f \<longrightarrow> kf_pinSet g) \<and> (kf_nin f = CS_passed \<longrightarrow> kf_nin g = CS_passed)
     \<and> (kf_ninDocumentUploaded f \<longrightarrow> kf_ninDocumentUploaded g) \<and> (kf_address f = CS_passed \<longrightarrow> kf_address g = CS_passed)
     \<and> (kf_restricted g \<longrightarrow> kf_restricted f)"

lemma completedLevel_mono: "improves f g \<Longrightarrow> completedLevel f \<le> completedLevel g"
  by (auto simp: improves_def completedLevel_cases stage_met_def)

lemma stateOf_passed: "stateOf checks = CS_passed \<longleftrightarrow> (\<exists>c \<in> set checks. kc_status c = CK_PASSED)"
  by (auto simp: stateOf_def list_ex_iff split: list.splits)

lemma stageStatus_complete: "stage \<le> completedLevel f \<Longrightarrow> stageStatus f stage = SS_complete"
  by (simp add: stageStatus_def)

lemma stageStatus_locked: "stage > completedLevel f + 1 \<Longrightarrow> stageStatus f stage = SS_locked"
  by (simp add: stageStatus_def Let_def)

lemma stageStatus_restricted: "kf_restricted f \<Longrightarrow> 0 < stage \<Longrightarrow> stageStatus f stage = SS_locked"
  by (simp add: stageStatus_def completedLevel_def)

section \<open>Properties\<close>

definition demo_check :: "string \<Rightarrow> verification_type \<Rightarrow> check_status \<Rightarrow> int \<Rightarrow> kyc_check" where
  "demo_check cid ty st created = \<lparr>kc_id = cid, kc_type = ty, kc_provider = ''mock'', kc_status = st, kc_providerRef = Some cid,
     kc_resultCode = None, kc_maskedIdentifier = None, kc_registeredAddress = None, kc_submittedAddress = None, kc_failureReason = None,
     kc_riskFlags = [], kc_reviewerUserId = None, kc_checkedAt = Some created, kc_createdAt = created\<rparr>"

definition demo_nin_slip :: kyc_document where
  "demo_nin_slip = \<lparr>kd_id = ''doc1'', kd_type = ''NIN_SLIP'', kd_storageKey = ''db:1'', kd_contentHash = ''h'', kd_contentType = Some ''image/png'',
     kd_sizeBytes = Some 8, kd_ciphertext = Some [], kd_supersededAt = None, kd_createdAt = 1\<rparr>"

definition demo_kyc_profile :: "string \<Rightarrow> kyc_check list \<Rightarrow> kyc_profile" where
  "demo_kyc_profile u cs = \<lparr>kp_id = ''kyc-'' @ u, kp_userId = u, kp_status = KS_VERIFIED, kp_tier = TIER_3, kp_level = 3, kp_submittedAt = Some 0,
     kp_verifiedAt = Some 4, kp_restrictedAt = None, kp_checks = cs, kp_documents = [demo_nin_slip], kp_createdAt = 0\<rparr>"

definition demo_profile :: "string \<Rightarrow> profile_row" where
  "demo_profile u = \<lparr>pf_userId = u, pf_firstName = ''Ada'', pf_lastName = ''Obi'', pf_dateOfBirth = Some 0, pf_gender = Some FEMALE,
     pf_addressLine = None, pf_city = None, pf_occupation = Some ''Trader'', pf_state = None, pf_timezone = ''Africa/Lagos''\<rparr>"

definition demo_kyc_db :: kyc_db where
  "demo_kyc_db = \<lparr>ledger_txs = [], accounts = [], wallets = [],
     users = [\<lparr>ur_id = ''u'', ur_email = None, ur_phone = None, ur_status = US_ACTIVE, ur_referralCode = None, ur_emailVerifiedAt = None, ur_lastLoginAt = None\<rparr>], audit_log = [], outbox_events = [],
     notify_calls = [],
     pins = [\<lparr>pin_userId = ''u'', pin_hash = ''h'', pin_failedCount = 0, pin_lockedUntil = None,
       pin_lastUsedAt = None, pin_changedAt = 0\<rparr>],
     profiles = [demo_profile ''u''],
     kyc_profiles = [demo_kyc_profile ''u'' [demo_check ''c1'' VT_VNIN CK_FAILED 1, demo_check ''c2'' VT_NIN CK_PASSED 2,
       demo_check ''c3'' VT_ADDRESS CK_PASSED 3]]\<rparr>"

text \<open>
  C13. Stages are strictly ordered: a user is allowed an action exactly when the profile is
  not restricted and every requirement of every stage up to the one the action needs is
  complete; a later stage never makes up for an earlier one.
\<close>

theorem assertKycStage_iff:
  "assertKycStage s u action = Inr () \<longleftrightarrow>
     \<not> kf_restricted (readKycFacts s u)
     \<and> (\<forall>stage. 1 \<le> stage \<and> stage \<le> KYC_ACTION_STAGES action \<longrightarrow>
          list_all (\<lambda>r. sr_state r = RS_complete) (stageRequirements (readKycFacts s u) stage))"
proof -
  let ?f = "readKycFacts s u"
  have range: "KYC_ACTION_STAGES action \<in> {1, 2, 3}" by (cases action) auto
  have "completedLevel ?f \<ge> k \<longleftrightarrow> \<not> kf_restricted ?f \<and> (\<forall>j. 1 \<le> j \<and> j \<le> k \<longrightarrow> stage_met ?f j)"
    if "k \<in> {1, 2, 3}" for k
  proof -
    have "(\<forall>j. 1 \<le> j \<and> j \<le> 1 \<longrightarrow> stage_met ?f j) \<longleftrightarrow> stage_met ?f 1"
      by (metis le_antisym order_refl)
    moreover have "(\<forall>j. 1 \<le> j \<and> j \<le> 2 \<longrightarrow> stage_met ?f j) \<longleftrightarrow> stage_met ?f 1 \<and> stage_met ?f 2"
      by (auto simp: le_Suc_eq numeral_2_eq_2)
    moreover have "(\<forall>j. 1 \<le> j \<and> j \<le> 3 \<longrightarrow> stage_met ?f j) \<longleftrightarrow> stage_met ?f 1 \<and> stage_met ?f 2 \<and> stage_met ?f 3"
      by (auto simp: le_Suc_eq numeral_3_eq_3 numeral_2_eq_2)
    ultimately show ?thesis using that by (auto simp: completedLevel_cases)
  qed
  note level = this [OF range]
  have "assertKycStage s u action = Inr () \<longleftrightarrow> completedLevel ?f \<ge> KYC_ACTION_STAGES action"
    by (simp add: assertKycStage_def Let_def not_less)
  then show ?thesis unfolding level stageRequirements_complete .
qed

theorem assertKycStage_iff_witness:
  "assertKycStage demo_kyc_db ''u'' WalletSend = Inr ()
   \<and> list_all (\<lambda>r. sr_state r = RS_complete) (stageRequirements (readKycFacts demo_kyc_db ''u'') 2)"
proof -
  have e: "assertKycStage demo_kyc_db ''u'' WalletSend = Inr ()" by code_simp
  from e have "list_all (\<lambda>r. sr_state r = RS_complete) (stageRequirements (readKycFacts demo_kyc_db ''u'') 2)"
    unfolding assertKycStage_iff by simp
  with e show ?thesis by simp
qed

text \<open>
  What the apps are shown agrees with what is enforced: the stages up to the completed
  level are complete, the next one is the stage in progress or under review (locked when the
  profile is restricted), and every stage after it is locked.
\<close>

theorem describeStages_shape:
  "\<exists>x. map sv_status (describeStages f) =
        replicate (completedLevel f) SS_complete
          @ (if completedLevel f = 3 then [] else x # replicate (2 - completedLevel f) SS_locked)
     \<and> (kf_restricted f \<and> x = SS_locked \<or> \<not> kf_restricted f \<and> (x = SS_in_progress \<or> x = SS_under_review))
     \<and> (currentStage f = (if completedLevel f = 3 then None else Some (completedLevel f + 1)))"
proof -
  define x where "x = (if kf_restricted f then SS_locked
    else if completedLevel f = 3 then SS_in_progress else stageStatus f (completedLevel f + 1))"
  consider "completedLevel f = 0" | "completedLevel f = 1" | "completedLevel f = 2" | "completedLevel f = 3"
    using completedLevel_le [of f] by linarith
  then have "map sv_status (describeStages f) = replicate (completedLevel f) SS_complete
          @ (if completedLevel f = 3 then [] else x # replicate (2 - completedLevel f) SS_locked)"
    by cases (simp_all add: describeStages_def stageStatus_complete stageStatus_locked x_def numeral_2_eq_2 numeral_3_eq_3
        stageStatus_restricted)
  moreover have "kf_restricted f \<and> x = SS_locked \<or> \<not> kf_restricted f \<and> (x = SS_in_progress \<or> x = SS_under_review)"
    by (auto simp: x_def stageStatus_def Let_def)
  ultimately show ?thesis by (auto simp: currentStage_def Let_def)
qed

text \<open>
  An organiser who passes \<open>assertOrganiserVerified\<close> has the evidence on record: an active
  account, a PIN, a passed NIN or VNIN check, a current NIN document, a passed address check,
  and a profile that is neither rejected nor restricted.
\<close>

theorem organiser_verified_evidence:
  assumes "assertOrganiserVerified s u = Inr ()"
  shows "\<exists>usr pin k. usr \<in> set (users s) \<and> ur_id usr = u \<and> ur_status usr = US_ACTIVE
    \<and> pin \<in> set (pins s) \<and> pin_userId pin = u
    \<and> k \<in> set (kyc_profiles s) \<and> kp_userId k = u \<and> kp_status k \<noteq> KS_REJECTED \<and> kp_restrictedAt k = None
    \<and> (\<exists>c \<in> set (kp_checks k). kc_type c \<in> {VT_NIN, VT_VNIN} \<and> kc_status c = CK_PASSED)
    \<and> (\<exists>c \<in> set (kp_checks k). kc_type c = VT_ADDRESS \<and> kc_status c = CK_PASSED)
    \<and> (\<exists>d \<in> set (kp_documents k). kd_type d \<in> set NIN_DOCUMENT_TYPES \<and> kd_supersededAt d = None)"
proof -
  let ?f = "readKycFacts s u"
  from assms have met: "\<not> kf_restricted ?f" "stage_met ?f 1" "stage_met ?f 2" "stage_met ?f 3"
    by (auto simp: assertOrganiserVerified_iff completedLevel_cases split: if_splits)
  from met(2) obtain usr where usr: "List.find (\<lambda>r. ur_id r = u) (users s) = Some usr" and act: "ur_status usr = US_ACTIVE"
    by (auto simp: stage_met_def readKycFacts_def Let_def split: option.splits)
  from met(3) usr obtain pin where pin: "findPin u s = Some pin"
    by (auto simp: stage_met_def readKycFacts_def Let_def)
  from met(3) usr obtain k where k: "List.find (\<lambda>k. kp_userId k = u) (kyc_profiles s) = Some k"
    by (auto simp: stage_met_def readKycFacts_def Let_def split: option.splits)
  from met usr k have "kp_status k \<noteq> KS_REJECTED" "kp_restrictedAt k = None"
    "\<exists>c \<in> set (kp_checks k). kc_type c \<in> {VT_NIN, VT_VNIN} \<and> kc_status c = CK_PASSED"
    "\<exists>c \<in> set (kp_checks k). kc_type c = VT_ADDRESS \<and> kc_status c = CK_PASSED"
    "\<exists>d \<in> set (kp_documents k). kd_type d \<in> set NIN_DOCUMENT_TYPES \<and> kd_supersededAt d = None"
    by (auto simp: stage_met_def readKycFacts_def Let_def stateOf_passed filter_empty_conv)
  with find_SomeD [OF usr] find_SomeD [OF pin [unfolded findPin_def]] find_SomeD [OF k] act
  show ?thesis by blast
qed

theorem organiser_verified_evidence_witness:
  "assertOrganiserVerified demo_kyc_db ''u'' = Inr () \<and> (\<exists>k \<in> set (kyc_profiles demo_kyc_db). kp_userId k = ''u'')"
proof -
  have e: "assertOrganiserVerified demo_kyc_db ''u'' = Inr ()" by code_simp
  from organiser_verified_evidence [OF e] e show ?thesis by blast
qed

end
