(* ===== verification/Wallet_Movements.thy ===== *)
theory Wallet_Movements
  imports Kyc_Stages
begin

text \<open>
  Sending between wallets and requesting withdrawals:
  \<^verbatim>\<open>src/modules/wallets/domain/wallet-policy.ts\<close> and
  \<^verbatim>\<open>src/modules/wallets/wallet-movements.service.ts\<close>. The ids the database and
  \<^verbatim>\<open>randomUUID\<close> generate for a request are the record \<open>fresh_ids\<close>; the clock is read once per
  request. Amounts arrive as decimal strings validated by the DTO and are \<open>int\<close> here.
\<close>

section \<open>Policy\<close>

definition assertPayableAmount :: "int \<Rightarrow> unit res" where
  "assertPayableAmount amount =
     (if amount \<le> 0 then Inl (Unprocessable ''Amount must be greater than zero'') else Inr ())"

definition assertSufficientFunds :: "int \<Rightarrow> int \<Rightarrow> unit res" where
  "assertSufficientFunds available totalMinor =
     (if available < totalMinor then Inl (Unprocessable ''Your wallet balance is not enough'') else Inr ())"

definition assertDifferentWallets :: "string \<Rightarrow> string \<Rightarrow> unit res" where
  "assertDifferentWallets sourceWalletId destinationWalletId =
     (if sourceWalletId = destinationWalletId then Inl (Unprocessable ''Choose a different wallet to send to'') else Inr ())"

definition assertWalletActive :: "wallet_status \<Rightarrow> string \<Rightarrow> unit res" where
  "assertWalletActive status label =
     (if status \<noteq> WS_ACTIVE then Inl (Conflict (''The '' @ label @ '' wallet is not active'')) else Inr ())"

definition assertSameCurrency :: "string \<Rightarrow> string \<Rightarrow> unit res" where
  "assertSameCurrency source destination =
     (if source \<noteq> destination then Inl (Unprocessable ''Both wallets must hold the same currency'') else Inr ())"

lemmas wallet_policy_defs = assertPayableAmount_def assertSufficientFunds_def assertDifferentWallets_def
  assertWalletActive_def assertSameCurrency_def

section \<open>State\<close>

datatype transfer_status = TS_PENDING | TS_PROCESSING | TS_SUCCEEDED | TS_FAILED | TS_REVERSED

datatype withdrawal_status =
  WD_PENDING | WD_REVIEWING | WD_PROCESSING | WD_SUCCEEDED | WD_FAILED | WD_REVERSED | WD_CANCELLED

record transfer =
  tr_id :: string
  tr_sourceWalletId :: string
  tr_destinationWalletId :: string
  tr_internalReference :: string
  tr_amount :: int
  tr_currency :: string
  tr_status :: transfer_status
  tr_idempotencyKey :: string
  tr_ledgerTransactionId :: string

record withdrawal =
  wd_id :: string
  wd_userId :: string
  wd_walletId :: string
  wd_internalReference :: string
  wd_amount :: int
  wd_currency :: string
  wd_status :: withdrawal_status
  wd_idempotencyKey :: string
  wd_ledgerTransactionId :: string

record bank_account =
  ba_id :: string
  ba_userId :: string
  ba_accountMasked :: string
  ba_bankName :: string

record wallet_db = kyc_db +
  transfers :: "transfer list"
  withdrawals :: "withdrawal list"
  bank_accounts :: "bank_account list"

record fresh_ids =
  fi_row :: string
  fi_tx :: string
  fi_uuid :: string

record send_dto =
  sd_sourceWalletId :: string
  sd_recipientEmail :: string
  sd_amount :: int
  sd_note :: "string option"
  sd_transactionPin :: string

record withdraw_dto =
  wdt_walletId :: string
  wdt_bankAccountId :: string
  wdt_amount :: int
  wdt_transactionPin :: string

section \<open>Operations\<close>

definition findTransfer :: "string \<Rightarrow> 'm wallet_db_scheme \<Rightarrow> transfer option" where
  "findTransfer key s = List.find (\<lambda>t. tr_idempotencyKey t = key) (transfers s)"

definition findWithdrawal :: "string \<Rightarrow> 'm wallet_db_scheme \<Rightarrow> withdrawal option" where
  "findWithdrawal key s = List.find (\<lambda>t. wd_idempotencyKey t = key) (withdrawals s)"

definition createTransfer :: "transfer \<Rightarrow> ('m wallet_db_scheme, transfer) tx" where
  "createTransfer t s =
     (if \<exists>u \<in> set (transfers s). tr_id u = tr_id t \<or> tr_internalReference u = tr_internalReference t
           \<or> tr_idempotencyKey u = tr_idempotencyKey t \<or> tr_ledgerTransactionId u = tr_ledgerTransactionId t
      then Inl UniqueViolation else Inr (t, s\<lparr>transfers := transfers s @ [t]\<rparr>))"

definition createWithdrawal :: "withdrawal \<Rightarrow> ('m wallet_db_scheme, withdrawal) tx" where
  "createWithdrawal t s =
     (if \<exists>u \<in> set (withdrawals s). wd_id u = wd_id t \<or> wd_internalReference u = wd_internalReference t
           \<or> wd_idempotencyKey u = wd_idempotencyKey t \<or> wd_ledgerTransactionId u = wd_ledgerTransactionId t
      then Inl UniqueViolation else Inr (t, s\<lparr>withdrawals := withdrawals s @ [t]\<rparr>))"

definition sentDescription :: "string option \<Rightarrow> string" where
  "sentDescription note =
     (case note of None \<Rightarrow> ''Sent to another wallet''
      | Some n \<Rightarrow> if trim n \<noteq> [] then ''Sent: '' @ trim n else ''Sent to another wallet'')"

definition sendWithin ::
  "fresh_ids \<Rightarrow> int \<Rightarrow> string \<Rightarrow> send_dto \<Rightarrow> string \<Rightarrow> ('m wallet_db_scheme, transfer) tx" where
  "sendWithin ids now userId dto key s =
     (case findTransfer key s of
        Some again \<Rightarrow> Inr (again, s)
      | None \<Rightarrow>
     (case findOwnWallet userId (sd_sourceWalletId dto) s of
        None \<Rightarrow> Inl (NotFound ''Wallet was not found'')
      | Some source \<Rightarrow>
     (case List.find (\<lambda>u. ur_email u = Some (toLowerCase (trim (sd_recipientEmail dto)))) (users s) of
        None \<Rightarrow> Inl (NotFound ''That person could not be found'')
      | Some recipient \<Rightarrow>
     (case List.find (\<lambda>w. wl_userId w = ur_id recipient \<and> wl_currency w = wl_currency source) (wallets s) of
        None \<Rightarrow> Inl (NotFound ''That person could not be found'')
      | Some destination \<Rightarrow>
        bind_res (assertDifferentWallets (wl_id source) (wl_id destination)) (\<lambda>_.
        bind_res (assertWalletActive (wl_status source) ''source'') (\<lambda>_.
        bind_res (assertWalletActive (wl_status destination) ''destination'') (\<lambda>_.
        bind_res (assertSameCurrency (wl_currency source) (wl_currency destination)) (\<lambda>_.
        bind_res (requireAccount (Some (wl_id source)) WALLET_AVAILABLE (wl_currency source) s) (\<lambda>from.
        bind_res (requireAccount (Some (wl_id destination)) WALLET_AVAILABLE (wl_currency destination) s) (\<lambda>to.
        bind_res (assertSufficientFunds (accountBalanceWithin s (fa_id from)) (sd_amount dto)) (\<lambda>_.
        bind_res (postWithin (fi_tx ids) now
            \<lparr>pc_idempotencyKey = ''transfer:'' @ key, pc_reference = ''SEND-'' @ fi_uuid ids,
             pc_description = sentDescription (sd_note dto), pc_currency = wl_currency source,
             pc_initiatedBy = Some userId, pc_correlationId = None,
             pc_entries = two_legs (fa_id from) (fa_id to) (sd_amount dto)\<rparr> s) (\<lambda>(posting, s1).
        createTransfer
            \<lparr>tr_id = fi_row ids, tr_sourceWalletId = wl_id source, tr_destinationWalletId = wl_id destination,
             tr_internalReference = ''SEND-'' @ fi_uuid ids, tr_amount = sd_amount dto,
             tr_currency = wl_currency source, tr_status = TS_SUCCEEDED, tr_idempotencyKey = key,
             tr_ledgerTransactionId = fst posting\<rparr> s1))))))))))))"

text \<open>A settlement that fails is answered with the winner's record where there is one.\<close>

definition withIdempotencyRace :: "('s \<Rightarrow> 'a option) \<Rightarrow> ('s, 'a) handler \<Rightarrow> ('s, 'a) handler" where
  "withIdempotencyRace read settle s =
     (case settle s of
        (Inr a, s') \<Rightarrow> (Inr a, s')
      | (Inl e, s') \<Rightarrow> (case read s' of Some winner \<Rightarrow> (Inr winner, s') | None \<Rightarrow> (Inl e, s')))"

definition send ::
  "(string \<Rightarrow> string \<Rightarrow> bool) \<Rightarrow> fresh_ids \<Rightarrow> int \<Rightarrow> string \<Rightarrow> send_dto \<Rightarrow> string \<Rightarrow> ('m wallet_db_scheme, transfer) handler" where
  "send verify ids now userId dto key s =
     (case assertPayableAmount (sd_amount dto) of
        Inl e \<Rightarrow> (Inl e, s)
      | Inr _ \<Rightarrow>
     (case verifyPin verify userId (sd_transactionPin dto) now s of
        (Inl e, s1) \<Rightarrow> (Inl e, s1)
      | (Inr _, s1) \<Rightarrow>
     (case findTransfer key s1 of
        Some existing \<Rightarrow> (Inr existing, s1)
      | None \<Rightarrow>
     (case withIdempotencyRace (findTransfer key) (serializable (sendWithin ids now userId dto key)) s1 of
        (Inl e, s2) \<Rightarrow> (Inl e, s2)
      | (Inr settled, s2) \<Rightarrow>
          (Inr settled, audit (Some userId) ''wallet.transfer.sent'' ''Transfer'' (Some (tr_id settled)) None s2)))))"

definition withdrawWithin ::
  "fresh_ids \<Rightarrow> int \<Rightarrow> string \<Rightarrow> withdraw_dto \<Rightarrow> string \<Rightarrow> ('m wallet_db_scheme, withdrawal) tx" where
  "withdrawWithin ids now userId dto key s =
     (case findWithdrawal key s of
        Some again \<Rightarrow> Inr (again, s)
      | None \<Rightarrow>
     (case findOwnWallet userId (wdt_walletId dto) s of
        None \<Rightarrow> Inl (NotFound ''Wallet was not found'')
      | Some w \<Rightarrow>
        bind_res (assertWalletActive (wl_status w) ''source'') (\<lambda>_.
     (case List.find (\<lambda>b. ba_id b = wdt_bankAccountId dto \<and> ba_userId b = userId) (bank_accounts s) of
        None \<Rightarrow> Inl (NotFound ''Bank account was not found'')
      | Some account \<Rightarrow>
        bind_res (requireAccount (Some (wl_id w)) WALLET_AVAILABLE (wl_currency w) s) (\<lambda>available.
        bind_res (requireAccount (Some (wl_id w)) WALLET_RESERVED (wl_currency w) s) (\<lambda>reserved.
        bind_res (assertSufficientFunds (accountBalanceWithin s (fa_id available)) (wdt_amount dto)) (\<lambda>_.
        bind_res (postWithin (fi_tx ids) now
            \<lparr>pc_idempotencyKey = ''withdrawal-reserve:'' @ key, pc_reference = ''WDL-'' @ fi_uuid ids,
             pc_description = ''Reserved for payout to '' @ ba_bankName account @ '' '' @ ba_accountMasked account,
             pc_currency = wl_currency w, pc_initiatedBy = Some userId, pc_correlationId = None,
             pc_entries = two_legs (fa_id available) (fa_id reserved) (wdt_amount dto)\<rparr> s) (\<lambda>(posting, s1).
        createWithdrawal
            \<lparr>wd_id = fi_row ids, wd_userId = userId, wd_walletId = wl_id w,
             wd_internalReference = ''WDL-'' @ fi_uuid ids, wd_amount = wdt_amount dto, wd_currency = wl_currency w,
             wd_status = WD_PENDING, wd_idempotencyKey = key, wd_ledgerTransactionId = fst posting\<rparr> s1))))))))"

definition withdraw ::
  "(string \<Rightarrow> string \<Rightarrow> bool) \<Rightarrow> fresh_ids \<Rightarrow> int \<Rightarrow> string \<Rightarrow> withdraw_dto \<Rightarrow> string \<Rightarrow>
     ('m wallet_db_scheme, withdrawal) handler" where
  "withdraw verify ids now userId dto key s =
     (case assertPayableAmount (wdt_amount dto) of
        Inl e \<Rightarrow> (Inl e, s)
      | Inr _ \<Rightarrow>
     (case verifyPin verify userId (wdt_transactionPin dto) now s of
        (Inl e, s1) \<Rightarrow> (Inl e, s1)
      | (Inr _, s1) \<Rightarrow>
     (case findWithdrawal key s1 of
        Some existing \<Rightarrow> (Inr existing, s1)
      | None \<Rightarrow>
     (case withIdempotencyRace (findWithdrawal key) (serializable (withdrawWithin ids now userId dto key)) s1 of
        (Inl e, s2) \<Rightarrow> (Inl e, s2)
      | (Inr created, s2) \<Rightarrow>
          (Inr created, audit (Some userId) ''wallet.withdrawal.requested'' ''Withdrawal'' (Some (wd_id created)) None s2)))))"

datatype flow = OUT | IN

text \<open>The caller's movements; the newest-first order and the limit of 25 rows are the database's.\<close>

definition movements :: "string \<Rightarrow> 'm wallet_db_scheme \<Rightarrow> (transfer \<times> flow) list \<times> withdrawal list" where
  "movements userId s =
     (let walletIds = map wl_id (filter (\<lambda>w. wl_userId w = userId) (wallets s));
          mine = filter (\<lambda>t. tr_sourceWalletId t \<in> set walletIds \<or> tr_destinationWalletId t \<in> set walletIds) (transfers s)
      in (map (\<lambda>t. (t, if tr_sourceWalletId t \<in> set walletIds then OUT else IN)) (take 25 (rev mine)),
          take 25 (rev (filter (\<lambda>w. wd_userId w = userId) (withdrawals s)))))"

lemma no_overdraft_cong:
  "ledger_txs s' = ledger_txs s \<Longrightarrow> accounts s' = accounts s \<Longrightarrow> no_overdraft s' = no_overdraft s"
  by (simp add: no_overdraft_def accountBalanceWithin_def)


section \<open>What a successful settlement did\<close>

lemma createTransfer_InrD:
  "createTransfer t s = Inr (u, s') \<Longrightarrow> u = t \<and> s' = s\<lparr>transfers := transfers s @ [t]\<rparr>"
  by (auto simp: createTransfer_def split: if_splits)

lemma createWithdrawal_InrD:
  "createWithdrawal t s = Inr (u, s') \<Longrightarrow> u = t \<and> s' = s\<lparr>withdrawals := withdrawals s @ [t]\<rparr>"
  by (auto simp: createWithdrawal_def split: if_splits)

lemma sendWithin_Inr_cases:
  assumes "sendWithin ids now u dto key s = Inr (t, s')"
  obtains (again) "findTransfer key s = Some t" "s' = s"
  | (sent) source src dst c r s1 where "findTransfer key s = None"
      "findOwnWallet u (sd_sourceWalletId dto) s = Some source"
      "wl_status source = WS_ACTIVE" "tr_sourceWalletId t = wl_id source"
      "tr_destinationWalletId t \<noteq> tr_sourceWalletId t" "tr_currency t = wl_currency source"
      "requireAccount (Some (wl_id source)) WALLET_AVAILABLE (tr_currency t) s = Inr src"
      "requireAccount (Some (tr_destinationWalletId t)) WALLET_AVAILABLE (tr_currency t) s = Inr dst"
      "sd_amount dto \<le> accountBalanceWithin s (fa_id src)" "tr_amount t = sd_amount dto"
      "tr_idempotencyKey t = key"
      "postWithin (fi_tx ids) now c s = Inr (r, s1)" "pc_idempotencyKey c = ''transfer:'' @ key"
      "pc_entries c = two_legs (fa_id src) (fa_id dst) (sd_amount dto)"
      "s' = s1\<lparr>transfers := transfers s1 @ [t]\<rparr>"
  using assms
  by (fastforce simp: sendWithin_def res_iffs wallet_policy_defs split: option.splits if_splits
      dest!: createTransfer_InrD)

lemma withdrawWithin_Inr_cases:
  assumes "withdrawWithin ids now u dto key s = Inr (t, s')"
  obtains (again) "findWithdrawal key s = Some t" "s' = s"
  | (reserved) w src dst c r s1 where "findWithdrawal key s = None"
      "findOwnWallet u (wdt_walletId dto) s = Some w"
      "wl_status w = WS_ACTIVE" "wd_walletId t = wl_id w" "wd_currency t = wl_currency w" "wd_userId t = u"
      "requireAccount (Some (wl_id w)) WALLET_AVAILABLE (wd_currency t) s = Inr src"
      "requireAccount (Some (wl_id w)) WALLET_RESERVED (wd_currency t) s = Inr dst"
      "wdt_amount dto \<le> accountBalanceWithin s (fa_id src)" "wd_amount t = wdt_amount dto"
      "wd_status t = WD_PENDING"
      "postWithin (fi_tx ids) now c s = Inr (r, s1)" "pc_idempotencyKey c = ''withdrawal-reserve:'' @ key"
      "pc_entries c = two_legs (fa_id src) (fa_id dst) (wdt_amount dto)"
      "s' = s1\<lparr>withdrawals := withdrawals s1 @ [t]\<rparr>"
  using assms
  by (fastforce simp: withdrawWithin_def res_iffs wallet_policy_defs split: option.splits if_splits
      dest!: createWithdrawal_InrD)


lemma verifyPin_only_pins:
  assumes "verifyPin verify u pin now s = (r, s')"
  obtains ps where "s' = s\<lparr>pins := ps\<rparr>"
proof -
  have "\<exists>ps. s' = s\<lparr>pins := ps\<rparr>"
    using verifyPin_state [of verify u pin now s] assms
    by (metis pin_db.unfold_congs(1) pin_db.surjective pin_db.update_convs(1) snd_conv updatePin_def)
  with that show ?thesis by blast
qed

text \<open>No table read by a settlement depends on the PIN rows.\<close>

lemma pins_frame [simp]:
  "findTransfer key (s\<lparr>pins := ps\<rparr>) = findTransfer key s"
  "findWithdrawal key (s\<lparr>pins := ps\<rparr>) = findWithdrawal key s"
  "findOwnWallet u w (s\<lparr>pins := ps\<rparr>) = findOwnWallet u w s"
  "requireAccount i p c (s\<lparr>pins := ps\<rparr>) = requireAccount i p c s"
  "accountBalanceWithin (s\<lparr>pins := ps\<rparr>) a = accountBalanceWithin s a"
  "used_keys (s\<lparr>pins := ps\<rparr>) = used_keys s"
  by (simp_all add: findTransfer_def findWithdrawal_def findOwnWallet_def requireAccount_def findAccount_def
      accountBalanceWithin_def used_keys_def)

lemma withIdempotencyRace_InlD:
  "withIdempotencyRace rd (serializable f) s = (Inl e, s') \<Longrightarrow> f s = Inl e \<and> s' = s"
  by (auto simp: withIdempotencyRace_def serializable_def split: sum.splits prod.splits option.splits)

lemma withIdempotencyRace_InrD:
  "withIdempotencyRace rd (serializable f) s = (Inr a, s') \<Longrightarrow> rd s = None \<Longrightarrow> f s = Inr (a, s')"
  by (auto simp: withIdempotencyRace_def serializable_def split: sum.splits prod.splits option.splits)

lemma send_Inr_cases:
  assumes "send verify ids now u dto key s = (Inr t, s')"
  obtains (replayed) ps where "findTransfer key s = Some t" "s' = s\<lparr>pins := ps\<rparr>"
  | (settled) ps s2 where "0 < sd_amount dto" "findTransfer key s = None"
      "sendWithin ids now u dto key (s\<lparr>pins := ps\<rparr>) = Inr (t, s2)"
      "s' = audit (Some u) ''wallet.transfer.sent'' ''Transfer'' (Some (tr_id t)) None s2"
proof -
  from assms obtain s1 where pin: "verifyPin verify u (sd_transactionPin dto) now s = (Inr (), s1)"
    and amount: "0 < sd_amount dto"
    and rest: "findTransfer key s1 = Some t \<and> s' = s1 \<or> findTransfer key s1 = None \<and>
        (\<exists>s2. withIdempotencyRace (findTransfer key) (serializable (sendWithin ids now u dto key)) s1 = (Inr t, s2)
          \<and> s' = audit (Some u) ''wallet.transfer.sent'' ''Transfer'' (Some (tr_id t)) None s2)"
    by (auto simp: send_def assertPayableAmount_def split: sum.splits prod.splits option.splits if_splits)
  from verifyPin_only_pins [OF pin] obtain ps where "s1 = s\<lparr>pins := ps\<rparr>" .
  with rest amount that show ?thesis by (auto dest: withIdempotencyRace_InrD)
qed

lemma withdraw_Inr_cases:
  assumes "withdraw verify ids now u dto key s = (Inr t, s')"
  obtains (replayed) ps where "findWithdrawal key s = Some t" "s' = s\<lparr>pins := ps\<rparr>"
  | (settled) ps s2 where "0 < wdt_amount dto" "findWithdrawal key s = None"
      "withdrawWithin ids now u dto key (s\<lparr>pins := ps\<rparr>) = Inr (t, s2)"
      "s' = audit (Some u) ''wallet.withdrawal.requested'' ''Withdrawal'' (Some (wd_id t)) None s2"
proof -
  from assms obtain s1 where pin: "verifyPin verify u (wdt_transactionPin dto) now s = (Inr (), s1)"
    and amount: "0 < wdt_amount dto"
    and rest: "findWithdrawal key s1 = Some t \<and> s' = s1 \<or> findWithdrawal key s1 = None \<and>
        (\<exists>s2. withIdempotencyRace (findWithdrawal key) (serializable (withdrawWithin ids now u dto key)) s1 = (Inr t, s2)
          \<and> s' = audit (Some u) ''wallet.withdrawal.requested'' ''Withdrawal'' (Some (wd_id t)) None s2)"
    by (auto simp: withdraw_def assertPayableAmount_def split: sum.splits prod.splits option.splits if_splits)
  from verifyPin_only_pins [OF pin] obtain ps where "s1 = s\<lparr>pins := ps\<rparr>" .
  with rest amount that show ?thesis by (auto dest: withIdempotencyRace_InrD)
qed

lemma send_Inl_state:
  assumes "send verify ids now u dto key s = (Inl e, s')"
  shows "\<exists>ps. s' = s\<lparr>pins := ps\<rparr>"
proof -
  from assms have "s' = s \<or> (\<exists>r. verifyPin verify u (sd_transactionPin dto) now s = (r, s'))"
    by (auto simp: send_def split: sum.splits prod.splits option.splits dest: withIdempotencyRace_InlD)
  then show ?thesis
  proof
    assume "s' = s"
    then have "s' = s\<lparr>pins := pins s\<rparr>" by simp
    then show ?thesis by (rule exI)
  qed (auto elim: verifyPin_only_pins)
qed

lemma withdraw_Inl_state:
  assumes "withdraw verify ids now u dto key s = (Inl e, s')"
  shows "\<exists>ps. s' = s\<lparr>pins := ps\<rparr>"
proof -
  from assms have "s' = s \<or> (\<exists>r. verifyPin verify u (wdt_transactionPin dto) now s = (r, s'))"
    by (auto simp: withdraw_def split: sum.splits prod.splits option.splits dest: withIdempotencyRace_InlD)
  then show ?thesis
  proof
    assume "s' = s"
    then have "s' = s\<lparr>pins := pins s\<rparr>" by simp
    then show ?thesis by (rule exI)
  qed (auto elim: verifyPin_only_pins)
qed


section \<open>Histories of wallet requests\<close>

datatype wallet_request =
    SendRequest fresh_ids int string send_dto string
  | WithdrawRequest fresh_ids int string withdraw_dto string

fun serveWallet :: "(string \<Rightarrow> string \<Rightarrow> bool) \<Rightarrow> wallet_request \<Rightarrow> 'm wallet_db_scheme \<Rightarrow> 'm wallet_db_scheme" where
  "serveWallet verify (SendRequest ids now u dto key) s = snd (send verify ids now u dto key s)"
| "serveWallet verify (WithdrawRequest ids now u dto key) s = snd (withdraw verify ids now u dto key s)"

text \<open>
  The books balance, account rows are distinct, and no wallet account is overdrawn; in the first form,
  none of those that \<open>P\<close> selects.
\<close>

definition books_hold :: "(fin_account \<Rightarrow> bool) \<Rightarrow> 'm core_db_scheme \<Rightarrow> bool" where
  "books_hold P s \<longleftrightarrow> ledger_wf s \<and> accounts_wf s
     \<and> (\<forall>a \<in> set (filter is_wallet_account (accounts s)). P a \<longrightarrow> 0 \<le> accountBalanceWithin s (fa_id a))"

definition books_ok :: "'m core_db_scheme \<Rightarrow> bool" where
  "books_ok s \<longleftrightarrow> ledger_wf s \<and> accounts_wf s \<and> no_overdraft s"

lemma books_ok_hold: "books_ok s \<longleftrightarrow> books_hold (\<lambda>_. True) s"
  by (auto simp: books_ok_def books_hold_def no_overdraft_def)

lemma books_hold_cong:
  "ledger_txs s' = ledger_txs s \<Longrightarrow> accounts s' = accounts s \<Longrightarrow> books_hold P s' = books_hold P s"
  using ledger_wf_cong [of s' s] by (simp add: books_hold_def accounts_wf_def accountBalanceWithin_def)

lemmas books_ok_cong = books_hold_cong [of _ _ "\<lambda>_. True", folded books_ok_hold]

text \<open>A posting keeps the books when no wallet account ends below zero.\<close>

lemma books_hold_post:
  assumes post: "postWithin i now c (s :: 'm core_db_scheme) = Inr (r, s')" and "books_hold P s"
    and cover: "\<And>a. posting_valid c \<Longrightarrow> a \<in> set (accounts s) \<Longrightarrow> is_wallet_account a \<Longrightarrow> P a \<Longrightarrow>
      0 \<le> accountBalanceWithin s (fa_id a) + cmd_delta c (fa_id a)"
  shows "books_hold P s'"
proof -
  have acc: "accounts s' = accounts s" using postWithin_frame [OF post] by simp
  have "\<forall>a \<in> set (filter is_wallet_account (accounts s')). P a \<longrightarrow> 0 \<le> accountBalanceWithin s' (fa_id a)"
    using post
  proof (cases rule: postWithin_Inr_cases)
    case new
    with acc cover show ?thesis by (simp add: balance_create [OF new(3)])
  qed (use assms(2) in \<open>simp add: books_hold_def\<close>)
  with acc assms(2) postWithin_wf [OF post] show ?thesis by (simp add: books_hold_def accounts_wf_def)
qed

lemmas books_ok_post = books_hold_post [of _ _ _ _ _ _ "\<lambda>_. True", folded books_ok_hold, simplified simp_thms]

lemma books_hold_two_legs:
  assumes "postWithin i now c s = Inr (r, s')" and "pc_entries c = two_legs a b n"
    and "n \<le> accountBalanceWithin s a" and "books_hold P (s :: 'm core_db_scheme)"
  shows "books_hold P s'"
proof (rule books_hold_post [OF assms(1,4)])
  fix x
  assume "posting_valid c" "x \<in> set (accounts s)" "is_wallet_account x" "P x"
  moreover from this have "0 < n" using assms(2) by (simp add: posting_valid_def two_legs_def)
  ultimately show "0 \<le> accountBalanceWithin s (fa_id x) + cmd_delta c (fa_id x)"
    using assms(3,4) cmd_delta_two [OF assms(2) [unfolded two_legs_def], of "fa_id x"]
    by (auto simp: books_hold_def)
qed

lemma sendWithin_books:
  assumes "sendWithin ids now u dto key s = Inr (t, s')" and "books_hold P s"
  shows "books_hold P s'"
  using assms(1)
proof (cases rule: sendWithin_Inr_cases)
  case (sent source src dst c r s1)
  from books_hold_two_legs [OF sent(12,14,9) assms(2)] sent(15) show ?thesis
    by (simp add: books_hold_cong [of "s1\<lparr>transfers := _\<rparr>" s1])
qed (use assms(2) in simp)

lemma withdrawWithin_books:
  assumes "withdrawWithin ids now u dto key s = Inr (t, s')" and "books_hold P s"
  shows "books_hold P s'"
  using assms(1)
proof (cases rule: withdrawWithin_Inr_cases)
  case (reserved w src dst c r s1)
  from books_hold_two_legs [OF reserved(12,14,9) assms(2)] reserved(15) show ?thesis
    by (simp add: books_hold_cong [of "s1\<lparr>withdrawals := _\<rparr>" s1])
qed (use assms(2) in simp)

lemma send_books:
  assumes "books_hold P s"
  shows "books_hold P (snd (send verify ids now u dto key s))"
proof (cases "send verify ids now u dto key s")
  case (Pair r s')
  show ?thesis
  proof (cases r)
    case (Inl e)
    with Pair send_Inl_state [of verify ids now u dto key s e s'] assms show ?thesis
      by (auto simp: books_hold_cong [of "s\<lparr>pins := _\<rparr>" s])
  next
    case (Inr t)
    with Pair have "send verify ids now u dto key s = (Inr t, s')" by simp
    then show ?thesis
    proof (cases rule: send_Inr_cases)
      case (replayed ps)
      with Pair assms show ?thesis by (simp add: books_hold_cong [of "s\<lparr>pins := _\<rparr>" s])
    next
      case (settled ps s2)
      have "books_hold P s2" using sendWithin_books [OF settled(3)] assms by (simp add: books_hold_cong [of "s\<lparr>pins := _\<rparr>" s])
      with settled Pair show ?thesis by (simp add: books_hold_cong [of "audit _ _ _ _ _ s2" s2])
    qed
  qed
qed

lemma withdraw_books:
  assumes "books_hold P s"
  shows "books_hold P (snd (withdraw verify ids now u dto key s))"
proof (cases "withdraw verify ids now u dto key s")
  case (Pair r s')
  show ?thesis
  proof (cases r)
    case (Inl e)
    with Pair withdraw_Inl_state [of verify ids now u dto key s e s'] assms show ?thesis
      by (auto simp: books_hold_cong [of "s\<lparr>pins := _\<rparr>" s])
  next
    case (Inr t)
    with Pair have "withdraw verify ids now u dto key s = (Inr t, s')" by simp
    then show ?thesis
    proof (cases rule: withdraw_Inr_cases)
      case (replayed ps)
      with Pair assms show ?thesis by (simp add: books_hold_cong [of "s\<lparr>pins := _\<rparr>" s])
    next
      case (settled ps s2)
      have "books_hold P s2" using withdrawWithin_books [OF settled(3)] assms by (simp add: books_hold_cong [of "s\<lparr>pins := _\<rparr>" s])
      with settled Pair show ?thesis by (simp add: books_hold_cong [of "audit _ _ _ _ _ s2" s2])
    qed
  qed
qed

lemma serveWallet_books: "books_hold P s \<Longrightarrow> books_hold P (serveWallet verify q s)"
  by (cases q) (simp_all add: send_books withdraw_books)

interpretation wallet_history: request_safety "serveWallet verify" books_ok
  by unfold_locales (simp add: books_ok_hold serveWallet_books)


section \<open>Properties\<close>

text \<open>Ada's wallet holds 1000 of the provider's money, Bola's nothing; a send that Ada made is then replayed.\<close>

definition demo_account :: "string \<Rightarrow> account_purpose \<Rightarrow> string option \<Rightarrow> fin_account" where
  "demo_account i purpose w = \<lparr>fa_id = i, fa_code = i, fa_name = i, fa_type = LIABILITY, fa_purpose = Some purpose,
     fa_currency = ''NGN'', fa_walletId = w, fa_isActive = True\<rparr>"

definition demo_deposit :: ledger_tx where
  "demo_deposit = postedTx ''t0'' 0 \<lparr>pc_idempotencyKey = ''k0'', pc_reference = ''r0'', pc_description = ''d'',
     pc_currency = ''NGN'', pc_initiatedBy = None, pc_correlationId = None, pc_entries = two_legs ''prov'' ''wa'' 1000\<rparr>"

definition demo_wallet_db :: wallet_db where
  "demo_wallet_db = \<lparr>ledger_txs = [demo_deposit],
     accounts = [demo_account ''prov'' PROVIDER_PAYABLE None, demo_account ''wa'' WALLET_AVAILABLE (Some ''w1''),
       demo_account ''wr'' WALLET_RESERVED (Some ''w1''), demo_account ''wb'' WALLET_AVAILABLE (Some ''w2'')],
     wallets = [\<lparr>wl_id = ''w1'', wl_userId = ''ada'', wl_currency = ''NGN'', wl_status = WS_ACTIVE\<rparr>,
       \<lparr>wl_id = ''w2'', wl_userId = ''bola'', wl_currency = ''NGN'', wl_status = WS_ACTIVE\<rparr>],
     users = [\<lparr>ur_id = ''ada'', ur_email = Some ''ada@x.ng'', ur_phone = None, ur_status = US_ACTIVE, ur_referralCode = None, ur_emailVerifiedAt = None, ur_lastLoginAt = None\<rparr>,
       \<lparr>ur_id = ''bola'', ur_email = Some ''bola@x.ng'', ur_phone = None, ur_status = US_ACTIVE, ur_referralCode = None, ur_emailVerifiedAt = None, ur_lastLoginAt = None\<rparr>],
     audit_log = [], outbox_events = [], notify_calls = [],
     pins = [\<lparr>pin_userId = ''ada'', pin_hash = ''h4071'', pin_failedCount = 0, pin_lockedUntil = None,
         pin_lastUsedAt = None, pin_changedAt = 0\<rparr>,
       \<lparr>pin_userId = ''bola'', pin_hash = ''h8263'', pin_failedCount = 0, pin_lockedUntil = None,
         pin_lastUsedAt = None, pin_changedAt = 0\<rparr>],
     profiles = [], kyc_profiles = [], transfers = [], withdrawals = [],
     bank_accounts = [\<lparr>ba_id = ''b1'', ba_userId = ''ada'', ba_accountMasked = ''*1234'', ba_bankName = ''GTB''\<rparr>]\<rparr>"

definition demo_ids :: "string \<Rightarrow> fresh_ids" where
  "demo_ids x = \<lparr>fi_row = ''row'' @ x, fi_tx = ''tx'' @ x, fi_uuid = ''uuid'' @ x\<rparr>"

definition demo_send :: send_dto where
  "demo_send = \<lparr>sd_sourceWalletId = ''w1'', sd_recipientEmail = '' Bola@X.ng '', sd_amount = 300, sd_note = None,
     sd_transactionPin = ''4071''\<rparr>"

definition demo_withdraw :: withdraw_dto where
  "demo_withdraw = \<lparr>wdt_walletId = ''w1'', wdt_bankAccountId = ''b1'', wdt_amount = 400, wdt_transactionPin = ''4071''\<rparr>"

definition demo_sent :: "(exn + transfer) \<times> wallet_db" where
  "demo_sent = send demo_verify (demo_ids ''1'') 50 ''ada'' demo_send ''key1'' demo_wallet_db"

lemma demo_books: "books_ok demo_wallet_db"
  by code_simp



text \<open>
  After any history of send and withdrawal requests, refused and replayed ones included,
  the ledger is well formed and no wallet balance, available or reserved, is negative.
\<close>

theorem wallet_history_safe:
  assumes "books_ok s"
  shows "books_ok (fold (serveWallet verify) qs s)"
  using wallet_history.history_inv [OF assms] .

theorem wallet_history_safe_witness:
  "books_ok (fold (serveWallet demo_verify)
     [SendRequest (demo_ids ''1'') 50 ''ada'' demo_send ''key1'', WithdrawRequest (demo_ids ''2'') 60 ''ada'' demo_withdraw ''key2'',
      WithdrawRequest (demo_ids ''3'') 70 ''ada'' demo_withdraw ''key3''] demo_wallet_db)"
  by (rule wallet_history_safe [OF demo_books])

text \<open>
  Replaying a transfer key moves nothing and creates nothing: whoever presents it, once
  their own PIN is accepted, is answered with the transfer stored under that key. The key is
  not scoped to the caller, so this includes a transfer of somebody else's.
\<close>

theorem send_replay:
  assumes "findTransfer key s = Some t" and "send verify ids now u dto key s = (r, s')"
  shows "\<exists>ps. s' = s\<lparr>pins := ps\<rparr> \<and> (r = Inr t \<or> (\<exists>e. r = Inl e))"
proof (cases r)
  case (Inl e)
  with send_Inl_state assms(2) show ?thesis by blast
next
  case (Inr t')
  with assms(2) have "send verify ids now u dto key s = (Inr t', s')" by simp
  then show ?thesis by (cases rule: send_Inr_cases) (use assms(1) Inr in auto)
qed

theorem send_replay_witness:
  "\<exists>t s'. tr_sourceWalletId t = ''w1'' \<and>
     send demo_verify (demo_ids ''2'') 60 ''bola'' (demo_send\<lparr>sd_sourceWalletId := ''w2'', sd_transactionPin := ''8263''\<rparr>) ''key1''
       (snd demo_sent) = (Inr t, s') \<and> ledger_txs s' = ledger_txs (snd demo_sent)"
proof -
  let ?x = "send demo_verify (demo_ids ''2'') 60 ''bola'' (demo_send\<lparr>sd_sourceWalletId := ''w2'', sd_transactionPin := ''8263''\<rparr>)
      ''key1'' (snd demo_sent)"
  have f: "findTransfer ''key1'' (snd demo_sent) = Some (hd (transfers (snd demo_sent)))"
    and w: "tr_sourceWalletId (hd (transfers (snd demo_sent))) = ''w1''" and ok: "isl (fst ?x) = False"
    by code_simp+
  have x: "?x = (fst ?x, snd ?x)" by simp
  from send_replay [OF f x] obtain ps where "snd ?x = (snd demo_sent)\<lparr>pins := ps\<rparr>"
    and r: "fst ?x = Inr (hd (transfers (snd demo_sent))) \<or> (\<exists>e. fst ?x = Inl e)" by blast
  then have led: "ledger_txs (snd ?x) = ledger_txs (snd demo_sent)" by simp
  from r ok have "?x = (Inr (hd (transfers (snd demo_sent))), snd ?x)" by (metis isl_def prod.collapse)
  with w led show ?thesis by blast
qed

text \<open>
  A send or withdrawal that is refused, for whatever reason, changes nothing but the
  caller's PIN counters: no posting, no transfer, no reservation, no audit entry.
\<close>

theorem refused_movement_changes_only_pins:
  assumes "send verify ids now u dto key s = (Inl e, s') \<or> withdraw verify ids now u wdto key s = (Inl e, s')"
  shows "\<exists>ps. s' = s\<lparr>pins := ps\<rparr>"
  using assms send_Inl_state withdraw_Inl_state by blast

theorem refused_movement_changes_only_pins_witness:
  "\<exists>e ps. withdraw demo_verify (demo_ids ''2'') 60 ''ada'' (demo_withdraw\<lparr>wdt_amount := 1001\<rparr>) ''key2'' demo_wallet_db
     = (Inl e, demo_wallet_db\<lparr>pins := ps\<rparr>)"
proof -
  let ?x = "withdraw demo_verify (demo_ids ''2'') 60 ''ada'' (demo_withdraw\<lparr>wdt_amount := 1001\<rparr>) ''key2'' demo_wallet_db"
  have "isl (fst ?x)" by code_simp
  then obtain e where e: "?x = (Inl e, snd ?x)" by (cases ?x) (auto simp: isl_def)
  from refused_movement_changes_only_pins [OF disjI2 [OF e]] e show ?thesis by metis
qed

text \<open>
  A withdrawal request under a new key only reserves: the amount leaves the available
  account and appears on the reserved account of the same wallet, the caller's own, and the
  request waits as PENDING.
\<close>

theorem withdraw_reserves:
  assumes "withdraw verify ids now u dto key s = (Inr t, s')"
    and "findWithdrawal key s = None" and "''withdrawal-reserve:'' @ key \<notin> used_keys s"
  shows "\<exists>src dst. requireAccount (Some (wdt_walletId dto)) WALLET_AVAILABLE (wd_currency t) s = Inr src
    \<and> requireAccount (Some (wdt_walletId dto)) WALLET_RESERVED (wd_currency t) s = Inr dst
    \<and> findOwnWallet u (wdt_walletId dto) s \<noteq> None \<and> wd_status t = WD_PENDING
    \<and> 0 < wdt_amount dto \<and> wdt_amount dto \<le> accountBalanceWithin s (fa_id src)
    \<and> (\<forall>x. accountBalanceWithin s' x = accountBalanceWithin s x
          + (if x = fa_id dst then wdt_amount dto else 0) - (if x = fa_id src then wdt_amount dto else 0))"
  using assms(1)
proof (cases rule: withdraw_Inr_cases)
  case (settled ps s2)
  from settled(3) show ?thesis
  proof (cases rule: withdrawWithin_Inr_cases)
    case (reserved w src dst c r s1)
    have own: "wl_id w = wdt_walletId dto"
      using reserved(2) by (auto simp: findOwnWallet_def dest: find_SomeD)
    from reserved(12,14) have "\<forall>x. accountBalanceWithin s1 x = accountBalanceWithin s x
          + (if x = fa_id dst then wdt_amount dto else 0) - (if x = fa_id src then wdt_amount dto else 0)"
    proof (cases rule: post_two_legs)
      case replayed
      with reserved(13) assms(3) show ?thesis by simp
    next
      case moved
      then show ?thesis by simp
    qed
    then have "\<forall>x. accountBalanceWithin s' x = accountBalanceWithin s x
          + (if x = fa_id dst then wdt_amount dto else 0) - (if x = fa_id src then wdt_amount dto else 0)"
      using settled(4) reserved(15) by (simp add: accountBalanceWithin_def)
    with own reserved settled show ?thesis by auto
  qed (use settled(2) in simp)
qed (use assms(2) in simp)

theorem withdraw_reserves_witness:
  "\<exists>t s'. withdraw demo_verify (demo_ids ''2'') 60 ''ada'' demo_withdraw ''key2'' demo_wallet_db = (Inr t, s')
     \<and> wd_status t = WD_PENDING \<and> accountBalanceWithin s' ''wr'' = 400"
proof -
  let ?x = "withdraw demo_verify (demo_ids ''2'') 60 ''ada'' demo_withdraw ''key2'' demo_wallet_db"
  have f: "fst ?x = Inr (hd (withdrawals (snd ?x)))" and b: "accountBalanceWithin (snd ?x) ''wr'' = 400"
    and k: "findWithdrawal ''key2'' demo_wallet_db = None" "''withdrawal-reserve:'' @ ''key2'' \<notin> used_keys demo_wallet_db"
    by code_simp+
  have e: "?x = (Inr (hd (withdrawals (snd ?x))), snd ?x)" using f by (simp add: prod_eq_iff)
  from withdraw_reserves [OF e k] e b show ?thesis by metis
qed

end
