(* ===== verification/Fees.thy ===== *)
theory Fees
  imports Ajo_Prelude "HOL-Library.Multiset"
begin

text \<open>
  Versioned fee rules: \<^verbatim>\<open>src/modules/fees\<close>. The pure rule (\<^verbatim>\<open>domain/fee-rule.ts\<close>) prices a
  transaction as fixed, percentage or tiered cost-plus; \<^verbatim>\<open>FeesService\<close> selects the active
  definition of a code. Bigint columns are \<open>int\<close>, basis points are whole numbers, a
  nullable column is an \<open>option\<close>. The snapshot keeps the numbers whose decimal text the code
  stores.
\<close>

section \<open>Data\<close>

record fee_tier =
  ft_from :: int
  ft_to :: "int option"
  ft_amount :: int

datatype calculation_type = FIXED | PERCENTAGE | TIERED

record fee_rule =
  fr_code :: string
  fr_version :: int
  fr_calculationType :: calculation_type
  fr_amount :: "int option"
  fr_basisPoints :: "int option"
  fr_minimum :: "int option"
  fr_maximum :: "int option"
  fr_payerType :: string
  fr_chargeEvent :: string
  fr_providerRate :: "int option"
  fr_providerFlat :: "int option"
  fr_tiers :: "fee_tier list option"

record fee_snapshot =
  sn_code :: string
  sn_version :: int
  sn_calculationType :: calculation_type
  sn_amount :: "int option"
  sn_basisPoints :: "int option"
  sn_minimum :: "int option"
  sn_maximum :: "int option"
  sn_payerType :: string
  sn_chargeEvent :: string
  sn_calculationBase :: int
  sn_assessedAmount :: int
  sn_providerRate :: "int option"
  sn_providerFlat :: "int option"
  sn_providerCost :: "int option"
  sn_tierMarkup :: "int option"

section \<open>The rule\<close>

definition providerCostMinor :: "fee_rule \<Rightarrow> int \<Rightarrow> int" where
  "providerCostMinor rule base =
     tdiv (base * or_default (fr_providerRate rule) 0) 10000 + or_default (fr_providerFlat rule) 0"

definition covers :: "int \<Rightarrow> fee_tier \<Rightarrow> bool" where
  "covers base t \<longleftrightarrow> ft_from t \<le> base \<and> (case ft_to t of None \<Rightarrow> True | Some u \<Rightarrow> base < u)"

definition tierFor :: "fee_tier list \<Rightarrow> int \<Rightarrow> fee_tier option" where
  "tierFor tiers base = List.find (covers base) tiers"

text \<open>The loop of \<open>assertTiersPartitionRange\<close> over the ordered tiers; it stops at the last one.\<close>

fun assertBands :: "fee_tier list \<Rightarrow> unit res" where
  "assertBands [] = Inr ()"
| "assertBands [t] =
     (if ft_to t \<noteq> None then Inl (Unprocessable ''The final fee tier must be open ended'') else Inr ())"
| "assertBands (t # u # ts) =
     (if ft_to t = None then Inl (Unprocessable ''Only the final fee tier may be open ended'')
      else if ft_to t \<noteq> Some (ft_from u)
      then Inl (Unprocessable ''Fee tiers must not overlap or leave a gap between bands'')
      else if ft_amount t < 0 then Inl (Unprocessable ''A fee tier cannot be negative'')
      else assertBands (u # ts))"

definition assertTiersPartitionRange :: "fee_tier list \<Rightarrow> unit res" where
  "assertTiersPartitionRange tiers =
     (if tiers = [] then Inl (Unprocessable ''A tiered fee needs at least one tier'')
      else let ordered = sort_key ft_from tiers in
        if ft_from (hd ordered) \<noteq> 0 then Inl (Unprocessable ''Fee tiers must start at zero'')
        else assertBands ordered)"

definition percentageOf :: "int \<Rightarrow> int option \<Rightarrow> int" where
  "percentageOf base basisPoints = tdiv (base * or_default basisPoints 0) 10000"

text \<open>The amount before the minimum and maximum are applied.\<close>

definition unclampedFee :: "fee_rule \<Rightarrow> int \<Rightarrow> int res" where
  "unclampedFee rule base =
     (case fr_calculationType rule of
        FIXED \<Rightarrow> Inr (or_default (fr_amount rule) 0)
      | PERCENTAGE \<Rightarrow> Inr (percentageOf base (fr_basisPoints rule))
      | TIERED \<Rightarrow>
          (let tiers = or_default (fr_tiers rule) [] in
           bind_res (assertTiersPartitionRange tiers) (\<lambda>_.
             case tierFor tiers base of
               None \<Rightarrow> Inl (Unprocessable ''No fee tier covers this amount'')
             | Some tier \<Rightarrow>
                 (let costPlus = providerCostMinor rule base + ft_amount tier;
                      floor = percentageOf base (fr_basisPoints rule)
                  in Inr (if costPlus > floor then costPlus else floor)))))"

definition clampFee :: "int option \<Rightarrow> int option \<Rightarrow> int \<Rightarrow> int" where
  "clampFee lo hi amount =
     (let a = (case lo of Some m \<Rightarrow> if amount < m then m else amount | None \<Rightarrow> amount)
      in case hi of Some m \<Rightarrow> if a > m then m else a | None \<Rightarrow> a)"

definition feeSnapshot :: "fee_rule \<Rightarrow> int \<Rightarrow> int \<Rightarrow> fee_snapshot" where
  "feeSnapshot rule base amount =
     \<lparr>sn_code = fr_code rule, sn_version = fr_version rule, sn_calculationType = fr_calculationType rule,
      sn_amount = fr_amount rule, sn_basisPoints = fr_basisPoints rule, sn_minimum = fr_minimum rule,
      sn_maximum = fr_maximum rule, sn_payerType = fr_payerType rule, sn_chargeEvent = fr_chargeEvent rule,
      sn_calculationBase = base, sn_assessedAmount = amount, sn_providerRate = fr_providerRate rule,
      sn_providerFlat = fr_providerFlat rule,
      sn_providerCost =
        (if fr_calculationType rule = TIERED then Some (providerCostMinor rule base) else None),
      sn_tierMarkup =
        (if fr_calculationType rule = TIERED
         then map_option ft_amount (tierFor (or_default (fr_tiers rule) []) base) else None)\<rparr>"

definition assessVersionedFee :: "fee_rule \<Rightarrow> int \<Rightarrow> (int \<times> fee_snapshot) res" where
  "assessVersionedFee rule base =
     (if base < 0 then Inl (Unprocessable ''Fee base cannot be negative'')
      else bind_res (unclampedFee rule base) (\<lambda>raw.
        let amount = clampFee (fr_minimum rule) (fr_maximum rule) raw in
        if amount < 0 then Inl (Unprocessable ''Fee cannot be negative'')
        else Inr (amount, feeSnapshot rule base amount)))"

section \<open>FeesService\<close>

datatype fee_code = FC_DEPOSIT | FC_PAYOUT | FC_AJO_SWAP | FC_BILL_PAYMENT

fun fee_code_name :: "fee_code \<Rightarrow> string" where
  "fee_code_name FC_DEPOSIT = ''DEPOSIT''"
| "fee_code_name FC_PAYOUT = ''PAYOUT''"
| "fee_code_name FC_AJO_SWAP = ''AJO_SWAP''"
| "fee_code_name FC_BILL_PAYMENT = ''BILL_PAYMENT''"

record fee_definition =
  fd_id :: string
  fd_rule :: fee_rule
  fd_isActive :: bool
  fd_effectiveAt :: int
  fd_expiresAt :: "int option"

record assessed_fee =
  af_amount :: int
  af_definitionId :: "string option"
  af_snapshot :: "fee_snapshot option"

definition isCurrentDefinition :: "string \<Rightarrow> int \<Rightarrow> fee_definition \<Rightarrow> bool" where
  "isCurrentDefinition code now d \<longleftrightarrow>
     fr_code (fd_rule d) = code \<and> fd_isActive d \<and> fd_effectiveAt d \<le> now
     \<and> (case fd_expiresAt d of None \<Rightarrow> True | Some e \<Rightarrow> now < e)"

text \<open>\<^verbatim>\<open>findFirst\<close> ordered by version, descending.\<close>

definition activeDefinition :: "string \<Rightarrow> int \<Rightarrow> fee_definition list \<Rightarrow> fee_definition option" where
  "activeDefinition code now defs =
     (case sort_key (\<lambda>d. - fr_version (fd_rule d)) (filter (isCurrentDefinition code now) defs) of
        [] \<Rightarrow> None | d # _ \<Rightarrow> Some d)"

text \<open>The rule of a definition row, its tiers read in ascending order.\<close>

definition toRule :: "fee_definition \<Rightarrow> fee_rule" where
  "toRule d = (fd_rule d)\<lparr>fr_tiers := Some (sort_key ft_from (or_default (fr_tiers (fd_rule d)) []))\<rparr>"

definition assess :: "fee_code \<Rightarrow> int \<Rightarrow> int \<Rightarrow> fee_definition list \<Rightarrow> assessed_fee res" where
  "assess code base now defs =
     (case activeDefinition (fee_code_name code) now defs of
        None \<Rightarrow> Inr \<lparr>af_amount = 0, af_definitionId = None, af_snapshot = None\<rparr>
      | Some d \<Rightarrow> bind_res (assessVersionedFee (toRule d) base) (\<lambda>(amount, snapshot).
          Inr \<lparr>af_amount = amount, af_definitionId = Some (fd_id d), af_snapshot = Some snapshot\<rparr>))"

section \<open>Lemmas\<close>

lemma bands_above:
  "assertBands (t # ts) = Inr () \<Longrightarrow> sorted (map ft_from (t # ts)) \<Longrightarrow> base < ft_from t \<Longrightarrow>
     filter (covers base) (t # ts) = []"
  by (auto simp: covers_def filter_empty_conv)

lemma bands_partition:
  "assertBands ts = Inr () \<Longrightarrow> sorted (map ft_from ts) \<Longrightarrow> ts \<noteq> [] \<Longrightarrow> ft_from (hd ts) \<le> base \<Longrightarrow>
     length (filter (covers base) ts) = 1"
proof (induction ts rule: assertBands.induct)
  case (2 t)
  then show ?case by (auto simp: covers_def split: if_splits)
next
  case (3 t u ts)
  then have to: "ft_to t = Some (ft_from u)" and rest: "assertBands (u # ts) = Inr ()"
    and srt: "sorted (map ft_from (u # ts))"
    by (auto split: if_splits)
  show ?case
  proof (cases "base < ft_from u")
    case True
    with 3 to have "covers base t" by (simp add: covers_def)
    with bands_above [OF rest srt True] show ?thesis by (simp split: if_splits)
  next
    case False
    with 3 to rest srt show ?thesis by (auto simp: covers_def split: if_splits)
  qed
qed simp

lemma length_filter_perm: "mset xs = mset ys \<Longrightarrow> length (filter P xs) = length (filter P ys)"
  by (metis mset_filter size_mset)

lemma tiers_cover_once:
  assumes "assertTiersPartitionRange tiers = Inr ()" and "0 \<le> base"
  shows "length (filter (covers base) tiers) = 1"
proof -
  from assms(1) have "tiers \<noteq> []" and "ft_from (hd (sort_key ft_from tiers)) = 0"
    and "assertBands (sort_key ft_from tiers) = Inr ()"
    by (auto simp: assertTiersPartitionRange_def Let_def split: if_splits)
  moreover from \<open>tiers \<noteq> []\<close> have "sort_key ft_from tiers \<noteq> []"
    by (metis length_0_conv length_sort)
  ultimately have "length (filter (covers base) (sort_key ft_from tiers)) = 1"
    using assms(2) by (intro bands_partition) auto
  then show ?thesis using length_filter_perm [of "sort_key ft_from tiers" tiers] by simp
qed

lemma find_filter_hd: "List.find P xs = (case filter P xs of [] \<Rightarrow> None | x # _ \<Rightarrow> Some x)"
  by (induction xs) auto

lemma filter_singleton_perm:
  "mset xs = mset ys \<Longrightarrow> filter P xs = [x] \<Longrightarrow> filter P ys = [x]"
  by (metis mset_filter mset_single_iff_right)

lemma clampFee_bounds:
  "hi = Some m \<Longrightarrow> clampFee lo hi a \<le> m"
  "lo = Some m \<Longrightarrow> (\<And>M. hi = Some M \<Longrightarrow> m \<le> M) \<Longrightarrow> m \<le> clampFee lo hi a"
  "hi = None \<Longrightarrow> a \<le> clampFee lo hi a"
  by (auto simp: clampFee_def Let_def split: option.splits)

lemma assessVersionedFee_InrD:
  assumes "assessVersionedFee rule base = Inr (a, sn)"
  obtains raw where "0 \<le> base" "unclampedFee rule base = Inr raw"
    "a = clampFee (fr_minimum rule) (fr_maximum rule) raw" "0 \<le> a" "sn = feeSnapshot rule base a"
  using assms by (auto simp: assessVersionedFee_def res_iffs Let_def split: if_splits)

lemma sort_key_hd_least:
  "sort_key k xs = y # ys \<Longrightarrow> y \<in> set xs \<and> (\<forall>x \<in> set xs. k y \<le> k x)"
proof -
  assume eq: "sort_key k xs = y # ys"
  then have "set xs = set (y # ys)" by (metis set_sort)
  moreover have "sorted (map k (y # ys))" by (metis eq sorted_sort_key)
  ultimately show ?thesis by auto
qed


section \<open>Properties\<close>

definition demo_tiers :: "fee_tier list" where
  "demo_tiers = [\<lparr>ft_from = 500000, ft_to = None, ft_amount = 7000\<rparr>,
                 \<lparr>ft_from = 0, ft_to = Some 500000, ft_amount = 2500\<rparr>]"

definition demo_rule :: fee_rule where
  "demo_rule = \<lparr>fr_code = ''DEPOSIT'', fr_version = 1, fr_calculationType = TIERED, fr_amount = None,
     fr_basisPoints = Some 200, fr_minimum = Some 1000, fr_maximum = None, fr_payerType = ''USER'',
     fr_chargeEvent = ''DEPOSIT'', fr_providerRate = Some 150, fr_providerFlat = Some 100,
     fr_tiers = Some demo_tiers\<rparr>"

text \<open>
  C14. A tier set the validator accepts partitions the amounts from zero upward: every base
  is covered by exactly one tier, \<open>tierFor\<close> finds it, and it finds the same one however the
  rows are ordered.
\<close>

theorem tiers_partition:
  assumes "assertTiersPartitionRange tiers = Inr ()" and "0 \<le> base"
  shows "\<exists>t. filter (covers base) tiers = [t] \<and> tierFor tiers base = Some t
           \<and> (\<forall>tiers'. mset tiers' = mset tiers \<longrightarrow> tierFor tiers' base = Some t)"
proof -
  from tiers_cover_once [OF assms] obtain t where t: "filter (covers base) tiers = [t]"
    by (auto simp: length_Suc_conv)
  then have "tierFor tiers' base = Some t" if "mset tiers' = mset tiers" for tiers'
    using filter_singleton_perm [of tiers tiers'] that by (simp add: tierFor_def find_filter_hd)
  with t show ?thesis by blast
qed

theorem tiers_partition_witness:
  "assertTiersPartitionRange demo_tiers = Inr ()
   \<and> (\<exists>t. filter (covers 500000) demo_tiers = [t] \<and> tierFor demo_tiers 500000 = Some t \<and> ft_amount t = 7000)"
proof -
  have ok: "assertTiersPartitionRange demo_tiers = Inr ()" by code_simp
  have "tierFor demo_tiers 500000 = Some (hd demo_tiers)" by code_simp
  moreover have "ft_amount (hd demo_tiers) = 7000" by code_simp
  ultimately show ?thesis using ok tiers_partition [OF ok, of 500000] by auto
qed

text \<open>
  A tiered fee without a maximum never sells below cost: it is at least the provider's
  charge plus the markup of the covering tier, and at least the percentage floor; and on an
  accepted tier set the only possible refusal is a negative total.
\<close>

theorem tiered_fee_covers_cost:
  assumes "fr_calculationType rule = TIERED" and "fr_tiers rule = Some tiers"
    and "assertTiersPartitionRange tiers = Inr ()" and "fr_maximum rule = None" and "0 \<le> base"
  shows "\<exists>t. tierFor tiers base = Some t \<and>
     (assessVersionedFee rule base = Inl (Unprocessable ''Fee cannot be negative'')
      \<or> (\<exists>a. assessVersionedFee rule base = Inr (a, feeSnapshot rule base a)
           \<and> providerCostMinor rule base + ft_amount t \<le> a \<and> percentageOf base (fr_basisPoints rule) \<le> a))"
proof -
  from tiers_cover_once [OF assms(3,5)] obtain t where t: "filter (covers base) tiers = [t]"
    by (auto simp: length_Suc_conv)
  then have find: "tierFor tiers base = Some t" by (simp add: tierFor_def find_filter_hd)
  define raw where "raw = max (providerCostMinor rule base + ft_amount t) (percentageOf base (fr_basisPoints rule))"
  have un: "unclampedFee rule base = Inr raw"
    using assms(1-3) find by (auto simp: unclampedFee_def or_default_def Let_def raw_def)
  have le: "raw \<le> clampFee (fr_minimum rule) (fr_maximum rule) raw"
    using assms(4) by (rule clampFee_bounds(3))
  show ?thesis
  proof (cases "clampFee (fr_minimum rule) (fr_maximum rule) raw < 0")
    case True
    with un assms(5) find show ?thesis by (simp add: assessVersionedFee_def)
  next
    case False
    with un assms(5) have "assessVersionedFee rule base =
        Inr (clampFee (fr_minimum rule) (fr_maximum rule) raw,
             feeSnapshot rule base (clampFee (fr_minimum rule) (fr_maximum rule) raw))"
      by (simp add: assessVersionedFee_def Let_def)
    with le find show ?thesis by (auto simp: raw_def)
  qed
qed

theorem tiered_fee_covers_cost_witness:
  "\<exists>a sn. assessVersionedFee demo_rule 600000 = Inr (a, sn) \<and> a = 16100 \<and> providerCostMinor demo_rule 600000 + 7000 \<le> a"
proof -
  have ok: "assertTiersPartitionRange demo_tiers = Inr ()" by code_simp
  have t: "tierFor demo_tiers 600000 = Some (hd demo_tiers)" "ft_amount (hd demo_tiers) = 7000" by code_simp+
  have val: "map_sum id fst (assessVersionedFee demo_rule 600000) = Inr 16100" by code_simp
  have "fr_calculationType demo_rule = TIERED" "fr_tiers demo_rule = Some demo_tiers" "fr_maximum demo_rule = None"
    by (simp_all add: demo_rule_def)
  from tiered_fee_covers_cost [OF this(1,2) ok this(3), of 600000] t val show ?thesis
    by (auto simp: map_sum_def split: sum.splits)
qed

text \<open>
  The assessed fee is never negative, never above the maximum, never below the minimum
  unless the maximum is smaller, and it is the amount the snapshot records for the base.
\<close>

theorem fee_within_limits:
  assumes "assessVersionedFee rule base = Inr (a, sn)"
  shows "0 \<le> a \<and> (\<forall>M. fr_maximum rule = Some M \<longrightarrow> a \<le> M)
       \<and> (\<forall>m. fr_minimum rule = Some m \<longrightarrow> (\<forall>M. fr_maximum rule = Some M \<longrightarrow> m \<le> M) \<longrightarrow> m \<le> a)
       \<and> sn_assessedAmount sn = a \<and> sn_calculationBase sn = base \<and> sn_version sn = fr_version rule"
  using assms
  by (elim assessVersionedFee_InrD) (auto simp: feeSnapshot_def intro: clampFee_bounds)

theorem fee_within_limits_witness:
  "assessVersionedFee demo_rule 0 = Inr (2600, feeSnapshot demo_rule 0 2600) \<and> (0::int) \<le> 2600"
proof -
  have e: "assessVersionedFee demo_rule 0 = Inr (2600, feeSnapshot demo_rule 0 2600)" by code_simp
  from fee_within_limits [OF e] e show ?thesis by simp
qed

text \<open>
  The charge applied is the newest definition in force: among the definitions of the
  code that are active, already effective and not expired, none has a higher version than
  the one whose rule was assessed; with none in force the fee is zero.
\<close>

theorem assess_uses_newest_definition:
  assumes "assess code base now defs = Inr fee"
  shows "(af_definitionId fee = None \<and> af_amount fee = 0 \<and> filter (isCurrentDefinition (fee_code_name code) now) defs = [])
    \<or> (\<exists>d \<in> set defs. af_definitionId fee = Some (fd_id d) \<and> isCurrentDefinition (fee_code_name code) now d
         \<and> (\<exists>sn. assessVersionedFee (toRule d) base = Inr (af_amount fee, sn))
         \<and> (\<forall>d' \<in> set defs. isCurrentDefinition (fee_code_name code) now d' \<longrightarrow>
               fr_version (fd_rule d') \<le> fr_version (fd_rule d)))"
proof (cases "activeDefinition (fee_code_name code) now defs")
  case None
  then have "sort_key (\<lambda>d. - fr_version (fd_rule d)) (filter (isCurrentDefinition (fee_code_name code) now) defs) = []"
    by (auto simp: activeDefinition_def split: list.splits)
  then have "filter (isCurrentDefinition (fee_code_name code) now) defs = []"
    by (metis length_0_conv length_sort)
  with assms None show ?thesis by (auto simp: assess_def)
next
  case (Some d)
  then obtain ds where "sort_key (\<lambda>d. - fr_version (fd_rule d))
      (filter (isCurrentDefinition (fee_code_name code) now) defs) = d # ds"
    by (auto simp: activeDefinition_def split: list.splits)
  note least = sort_key_hd_least [OF this]
  from assms Some obtain a sn where "assessVersionedFee (toRule d) base = Inr (a, sn)"
    and "fee = \<lparr>af_amount = a, af_definitionId = Some (fd_id d), af_snapshot = Some sn\<rparr>"
    by (auto simp: assess_def res_iffs)
  with least show ?thesis by auto
qed

definition demo_definitions :: "fee_definition list" where
  "demo_definitions =
     [\<lparr>fd_id = ''d1'', fd_rule = demo_rule, fd_isActive = True, fd_effectiveAt = 0, fd_expiresAt = None\<rparr>,
      \<lparr>fd_id = ''d2'', fd_rule = demo_rule\<lparr>fr_version := 2, fr_calculationType := FIXED, fr_amount := Some 900\<rparr>,
       fd_isActive = True, fd_effectiveAt = 50, fd_expiresAt = Some 100\<rparr>]"

theorem assess_uses_newest_definition_witness:
  "\<exists>fee. assess FC_DEPOSIT 600000 60 demo_definitions = Inr fee \<and> af_definitionId fee = Some ''d2''
     \<and> (\<exists>d \<in> set demo_definitions. fd_id d = ''d2'' \<and> fr_version (fd_rule d) = 2)"
proof -
  define fee where "fee = projr (assess FC_DEPOSIT 600000 60 demo_definitions)"
  have e: "assess FC_DEPOSIT 600000 60 demo_definitions = Inr fee" unfolding fee_def by code_simp
  have "af_definitionId fee = Some ''d2''" unfolding fee_def by code_simp
  with assess_uses_newest_definition [OF e] e show ?thesis
    by (auto simp: demo_definitions_def demo_rule_def)
qed

text \<open>
  The validator misses the last band: for every negative amount there is a tier set it
  accepts whose open-ended tier charges that negative markup.
\<close>

theorem final_tier_may_be_negative:
  "\<exists>tiers. assertTiersPartitionRange tiers = Inr () \<and> (\<forall>base. 500000 \<le> base \<longrightarrow>
     (\<exists>t. tierFor tiers base = Some t \<and> ft_amount t = - 1 - int n))"
proof (intro exI conjI allI impI)
  let ?tiers = "[\<lparr>ft_from = 0, ft_to = Some 500000, ft_amount = 2500\<rparr>,
                 \<lparr>ft_from = 500000, ft_to = None, ft_amount = - 1 - int n\<rparr>]"
  show "assertTiersPartitionRange ?tiers = Inr ()"
    by (simp add: assertTiersPartitionRange_def)
  fix base :: int
  assume "500000 \<le> base"
  then show "tierFor ?tiers base = Some \<lparr>ft_from = 500000, ft_to = None, ft_amount = - 1 - int n\<rparr>"
    "ft_amount \<lparr>ft_from = 500000, ft_to = None, ft_amount = - 1 - int n\<rparr> = - 1 - int n"
    by (simp_all add: tierFor_def covers_def)
qed

theorem final_tier_may_be_negative_witness:
  "\<exists>tiers t. assertTiersPartitionRange tiers = Inr () \<and> tierFor tiers 500000 = Some t \<and> ft_amount t = - 1"
  using final_tier_may_be_negative [of 0] by fastforce

end
