(* ===== verification/Payments.thy ===== *)
theory Payments
  imports Wallet_Movements Fees
begin

text \<open>
  Payment intents: \<^verbatim>\<open>src/modules/payments\<close>. \<^verbatim>\<open>PaymentsService\<close> quotes an amount for a
  target, confirms it with the transaction PIN and either settles it from the wallet in one
  transaction or hands it to the payment provider; \<^verbatim>\<open>PaymentSettlementService\<close> completes
  an external payment when a verified webhook reports it. A product plugs in by the
  \<^verbatim>\<open>PaymentTarget\<close> interface, the record \<open>payment_target\<close> whose operations act on the
  database; the locale \<open>target_contract\<close> states what the mechanics need of a target. The
  provider is the parameter \<open>charge\<close>; \<^verbatim>\<open>argon2.verify\<close> is \<open>verify\<close>.
\<close>

section \<open>Policy\<close>

datatype payment_method = PM_WALLET | PM_TRANSFER | PM_CARD

datatype intent_status = PI_REQUIRES_CONFIRMATION | PI_PROCESSING | PI_SUCCEEDED | PI_FAILED | PI_CANCELLED

datatype target_type =
  TT_AKAWO_POOL_DUE | TT_AJO_CONTRIBUTION | TT_FOOD_SUBSCRIPTION | TT_WALLET_TOPUP | TT_BILL_PAYMENT

definition INTENT_TTL_MS :: int where
  "INTENT_TTL_MS = 15 * 60 * 1000"

definition isConfirmable :: "intent_status \<Rightarrow> bool" where
  "isConfirmable status \<longleftrightarrow> status = PI_REQUIRES_CONFIRMATION"

definition isPayable :: "intent_status \<Rightarrow> int \<Rightarrow> int \<Rightarrow> bool" where
  "isPayable status expiresAt now \<longleftrightarrow> isConfirmable status \<and> expiresAt > now"

definition isTerminal :: "intent_status \<Rightarrow> bool" where
  "isTerminal status \<longleftrightarrow> status = PI_SUCCEEDED \<or> status = PI_FAILED \<or> status = PI_CANCELLED"

definition settlesSynchronously :: "payment_method \<Rightarrow> bool" where
  "settlesSynchronously m \<longleftrightarrow> m = PM_WALLET"

definition totalFor :: "int \<Rightarrow> int \<Rightarrow> int" where
  "totalFor amountMinor feeMinor = amountMinor + feeMinor"

definition MINIMUM_DEPOSIT_MINOR :: int where
  "MINIMUM_DEPOSIT_MINOR = 50000"

definition isPayableAmount :: "int \<Rightarrow> bool" where
  "isPayableAmount amountMinor \<longleftrightarrow> amountMinor > 0"

definition canPayFromWallet :: "int \<Rightarrow> int \<Rightarrow> bool" where
  "canPayFromWallet availableMinor totalMinor \<longleftrightarrow> availableMinor \<ge> totalMinor"

text \<open>\<^verbatim>\<open>PaymentAmountError\<close> is a plain error its callers translate.\<close>

definition partialAmount :: "int \<Rightarrow> int option \<Rightarrow> int res" where
  "partialAmount outstandingMinor requestedMinor =
     (if outstandingMinor \<le> 0 then Inl (PlainError ''This has already been paid in full'')
      else case requestedMinor of
        None \<Rightarrow> Inr outstandingMinor
      | Some r \<Rightarrow>
          if r \<le> 0 then Inl (PlainError ''Choose an amount greater than zero'')
          else if r > outstandingMinor then Inl (PlainError ''That is more than is still owed'')
          else Inr r)"

section \<open>State\<close>

record payment_intent =
  pi_id :: string
  pi_userId :: string
  pi_walletId :: "string option"
  pi_status :: intent_status
  pi_targetType :: target_type
  pi_targetId :: "string option"
  pi_amount :: int
  pi_fee :: int
  pi_total :: int
  pi_currency :: string
  pi_method :: "payment_method option"
  pi_providerReference :: "string option"
  pi_idempotencyKey :: string
  pi_ledgerTransactionId :: "string option"
  pi_failureReason :: "string option"
  pi_confirmedAt :: "int option"
  pi_settledAt :: "int option"
  pi_expiresAt :: int

text \<open>The fire-and-forget call to \<^verbatim>\<open>ReferralsService.onDepositSettled\<close>.\<close>

record referral_call =
  rc_userId :: string
  rc_amount :: int
  rc_currency :: string
  rc_paymentIntentId :: string
  rc_occurredAt :: int

record payments_db = wallet_db +
  intents :: "payment_intent list"
  fee_definitions :: "fee_definition list"
  referral_calls :: "referral_call list"

section \<open>Payment targets\<close>

datatype amount_rule = AR_fixed | AR_chosen | AR_partial

record resolved_target =
  rt_amount :: int
  rt_currency :: string
  rt_description :: string

record settled_payment =
  sp_userId :: string
  sp_targetId :: "string option"
  sp_intentId :: string
  sp_amount :: int
  sp_fee :: int
  sp_currency :: string
  sp_ledgerTransactionId :: string

datatype after_commit_outcome = AC_SUCCEEDED | AC_FAILED | AC_PROCESSING

text \<open>Ids the database generates while a payment settles.\<close>

record pay_ids =
  py_tx :: string
  py_account :: string
  py_row :: string
  py_hex :: string

record 's payment_target =
  pt_type :: target_type
  pt_methods :: "payment_method list"
  pt_amountRule :: amount_rule
  pt_feeCode :: "fee_code option"
  pt_holdsFee :: bool
  pt_resolve :: "int \<Rightarrow> string \<Rightarrow> string option \<Rightarrow> int option \<Rightarrow> 's \<Rightarrow> resolved_target res"
  pt_creditAccount :: "pay_ids \<Rightarrow> string option \<Rightarrow> string \<Rightarrow> ('s, string) tx"
  pt_settle :: "pay_ids \<Rightarrow> int \<Rightarrow> settled_payment \<Rightarrow> ('s, unit) tx"
  pt_describe :: "string option \<Rightarrow> 's \<Rightarrow> string"
  pt_verifyConfirmation :: "(string \<Rightarrow> string option \<Rightarrow> string option \<Rightarrow> 's \<Rightarrow> unit res) option"
  pt_afterCommit :: "(settled_payment \<Rightarrow> string option \<Rightarrow> ('s, after_commit_outcome) handler) option"

fun target_type_name :: "target_type \<Rightarrow> string" where
  "target_type_name TT_AKAWO_POOL_DUE = ''AKAWO_POOL_DUE''"
| "target_type_name TT_AJO_CONTRIBUTION = ''AJO_CONTRIBUTION''"
| "target_type_name TT_FOOD_SUBSCRIPTION = ''FOOD_SUBSCRIPTION''"
| "target_type_name TT_WALLET_TOPUP = ''WALLET_TOPUP''"
| "target_type_name TT_BILL_PAYMENT = ''BILL_PAYMENT''"

fun join_comma :: "string list \<Rightarrow> string" where
  "join_comma [] = []"
| "join_comma [x] = x"
| "join_comma (x # y # ys) = x @ '', '' @ join_comma (y # ys)"

fun registerTargets :: "'s payment_target list \<Rightarrow> (target_type \<Rightarrow> 's payment_target option) \<Rightarrow>
    (target_type \<Rightarrow> 's payment_target option) res" where
  "registerTargets [] registry = Inr registry"
| "registerTargets (t # ts) registry =
     (if registry (pt_type t) \<noteq> None
      then Inl (PlainError (''Payment target '' @ target_type_name (pt_type t) @ '' is registered twice''))
      else registerTargets ts (registry(pt_type t \<mapsto> t)))"

definition paymentTargetRegistry ::
  "target_type list \<Rightarrow> 's payment_target list \<Rightarrow> (target_type \<Rightarrow> 's payment_target option) res" where
  "paymentTargetRegistry types targets =
     bind_res (registerTargets targets (\<lambda>_. None)) (\<lambda>registry.
       let missing = filter (\<lambda>t. registry t = None) types in
       if missing \<noteq> []
       then Inl (PlainError (''No payment target is registered for '' @ join_comma (map target_type_name missing)))
       else Inr registry)"

text \<open>\<^verbatim>\<open>WalletTopUpTarget\<close>.\<close>

definition topupResolve :: "int \<Rightarrow> string \<Rightarrow> string option \<Rightarrow> int option \<Rightarrow> 'm core_db_scheme \<Rightarrow> resolved_target res" where
  "topupResolve now userId targetId requestedAmountMinor s =
     (case requestedAmountMinor of
        None \<Rightarrow> Inl (Unprocessable ''Choose how much you want to add'')
      | Some r \<Rightarrow>
          if r < MINIMUM_DEPOSIT_MINOR then Inl (Unprocessable ''The smallest amount you can add is 500 naira'')
          else Inr \<lparr>rt_amount = r,
                    rt_currency = (case List.find (\<lambda>w. wl_userId w = userId) (wallets s) of
                                     None \<Rightarrow> ''NGN'' | Some w \<Rightarrow> wl_currency w),
                    rt_description = ''Wallet top-up''\<rparr>)"

definition providerPayableCredit :: "pay_ids \<Rightarrow> string option \<Rightarrow> string \<Rightarrow> ('m core_db_scheme, string) tx" where
  "providerPayableCredit ids targetId currency s =
     bind_res (requireAccount None PROVIDER_PAYABLE currency s) (\<lambda>a. Inr (fa_id a, s))"

definition WalletTopUpTarget :: "'m payments_db_scheme payment_target" where
  "WalletTopUpTarget =
     \<lparr>pt_type = TT_WALLET_TOPUP, pt_methods = [PM_TRANSFER, PM_CARD], pt_amountRule = AR_chosen,
      pt_feeCode = Some FC_DEPOSIT, pt_holdsFee = False, pt_resolve = topupResolve,
      pt_creditAccount = providerPayableCredit, pt_settle = (\<lambda>ids now p s. Inr ((), s)),
      pt_describe = (\<lambda>targetId s. ''Wallet top-up''), pt_verifyConfirmation = None, pt_afterCommit = None\<rparr>"

section \<open>PaymentsService\<close>

record create_dto =
  cd_targetType :: target_type
  cd_targetId :: "string option"
  cd_amount :: "int option"

record confirm_dto =
  cf_method :: payment_method
  cf_transactionPin :: string
  cf_customerReference :: "string option"

record provider_charge =
  ch_providerReference :: string
  ch_transferInstructions :: "string option"
  ch_checkoutUrl :: "string option"

record charge_input =
  ci_internalReference :: string
  ci_amount :: int
  ci_currency :: string
  ci_customerEmail :: string
  ci_description :: string

text \<open>What the client sees: the stored intent, the methods to offer and a description.\<close>

record intent_view =
  iv_intent :: payment_intent
  iv_methods :: "payment_method list"
  iv_description :: string
  iv_transferInstructions :: "string option"
  iv_checkoutUrl :: "string option"

type_synonym 's registry = "target_type \<Rightarrow> 's payment_target"

definition findIntent :: "string \<Rightarrow> string \<Rightarrow> 'm payments_db_scheme \<Rightarrow> payment_intent option" where
  "findIntent intentId userId s = List.find (\<lambda>i. pi_id i = intentId \<and> pi_userId i = userId) (intents s)"

definition findIntentByKey :: "string \<Rightarrow> string \<Rightarrow> 'm payments_db_scheme \<Rightarrow> payment_intent option" where
  "findIntentByKey userId key s = List.find (\<lambda>i. pi_userId i = userId \<and> pi_idempotencyKey i = key) (intents s)"

definition findIntentByReference :: "string \<Rightarrow> 'm payments_db_scheme \<Rightarrow> payment_intent option" where
  "findIntentByReference ref s = List.find (\<lambda>i. pi_providerReference i = Some ref) (intents s)"

text \<open>Two rows clash on a unique column: the provider reference, or the ledger transaction.\<close>

definition intentClash :: "payment_intent \<Rightarrow> payment_intent \<Rightarrow> bool" where
  "intentClash a b \<longleftrightarrow>
     (pi_providerReference a \<noteq> None \<and> pi_providerReference a = pi_providerReference b)
     \<or> (pi_ledgerTransactionId a \<noteq> None \<and> pi_ledgerTransactionId a = pi_ledgerTransactionId b)"

definition createIntent :: "payment_intent \<Rightarrow> ('m payments_db_scheme, payment_intent) tx" where
  "createIntent i s =
     (if \<exists>j \<in> set (intents s). pi_id j = pi_id i \<or> intentClash i j
           \<or> (pi_userId j = pi_userId i \<and> pi_idempotencyKey j = pi_idempotencyKey i)
      then Inl UniqueViolation else Inr (i, s\<lparr>intents := intents s @ [i]\<rparr>))"

definition updateIntent :: "string \<Rightarrow> (payment_intent \<Rightarrow> payment_intent) \<Rightarrow> ('m payments_db_scheme, payment_intent) tx" where
  "updateIntent intentId f s =
     (case List.find (\<lambda>i. pi_id i = intentId) (intents s) of
        None \<Rightarrow> Inl RecordMissing
      | Some i \<Rightarrow>
          if \<exists>j \<in> set (intents s). pi_id j \<noteq> intentId \<and> intentClash (f i) j then Inl UniqueViolation
          else Inr (f i, s\<lparr>intents := update_where (\<lambda>j. pi_id j = intentId) f (intents s)\<rparr>))"

definition describeIntent :: "'m payments_db_scheme registry \<Rightarrow> payment_intent \<Rightarrow> 'm payments_db_scheme \<Rightarrow> string" where
  "describeIntent targets i s = pt_describe (targets (pi_targetType i)) (pi_targetId i) s"

definition viewIntent :: "'m payments_db_scheme registry \<Rightarrow> payment_intent \<Rightarrow> string \<Rightarrow> intent_view" where
  "viewIntent targets i description =
     \<lparr>iv_intent = i, iv_methods = pt_methods (targets (pi_targetType i)), iv_description = description,
      iv_transferInstructions = None, iv_checkoutUrl = None\<rparr>"

definition storedRequest :: "'s payment_target \<Rightarrow> int \<Rightarrow> int option" where
  "storedRequest T amountMinor = (if pt_amountRule T = AR_fixed then None else Some amountMinor)"

text \<open>The checks and reads of \<^verbatim>\<open>create\<close> up to the row it inserts, with its description.\<close>

definition quoteFee :: "'s payment_target \<Rightarrow> int \<Rightarrow> int \<Rightarrow> fee_definition list \<Rightarrow> int res" where
  "quoteFee T amount now defs =
     (case pt_feeCode T of None \<Rightarrow> Inr 0
      | Some code \<Rightarrow> bind_res (assess code amount now defs) (\<lambda>a. Inr (af_amount a)))"

definition newIntent ::
  "string \<Rightarrow> int \<Rightarrow> string \<Rightarrow> create_dto \<Rightarrow> string \<Rightarrow> resolved_target \<Rightarrow> int \<Rightarrow> 'm payments_db_scheme \<Rightarrow> payment_intent" where
  "newIntent newId now userId dto key target fee s =
     \<lparr>pi_id = newId, pi_userId = userId,
      pi_walletId = map_option wl_id (List.find (\<lambda>w. wl_userId w = userId \<and> wl_currency w = rt_currency target) (wallets s)),
      pi_status = PI_REQUIRES_CONFIRMATION, pi_targetType = cd_targetType dto, pi_targetId = truthy (cd_targetId dto),
      pi_amount = rt_amount target, pi_fee = fee, pi_total = totalFor (rt_amount target) fee,
      pi_currency = rt_currency target, pi_method = None, pi_providerReference = None, pi_idempotencyKey = key,
      pi_ledgerTransactionId = None, pi_failureReason = None, pi_confirmedAt = None, pi_settledAt = None,
      pi_expiresAt = now + INTENT_TTL_MS\<rparr>"

definition quoteIntent ::
  "'m payments_db_scheme payment_target \<Rightarrow> string \<Rightarrow> int \<Rightarrow> string \<Rightarrow> create_dto \<Rightarrow> string \<Rightarrow> 'm payments_db_scheme \<Rightarrow>
     (payment_intent \<times> string) res" where
  "quoteIntent T newId now userId dto key s =
     (if cd_amount dto \<noteq> None \<and> pt_amountRule T = AR_fixed
      then Inl (Unprocessable ''The amount for this payment cannot be changed'')
      else bind_res (pt_resolve T now userId (cd_targetId dto) (cd_amount dto) s) (\<lambda>target.
        if \<not> isPayableAmount (rt_amount target) then Inl (Unprocessable ''This item has nothing to pay'')
        else bind_res (quoteFee T (rt_amount target) now (fee_definitions s)) (\<lambda>fee.
          Inr (newIntent newId now userId dto key target fee s, rt_description target))))"

definition create ::
  "'m payments_db_scheme registry \<Rightarrow> string \<Rightarrow> int \<Rightarrow> string \<Rightarrow> create_dto \<Rightarrow> string \<Rightarrow>
     ('m payments_db_scheme, intent_view) handler" where
  "create targets newId now userId dto key s =
     (case findIntentByKey userId key s of
        Some existing \<Rightarrow> (Inr (viewIntent targets existing (describeIntent targets existing s)), s)
      | None \<Rightarrow>
     (case quoteIntent (targets (cd_targetType dto)) newId now userId dto key s of
        Inl e \<Rightarrow> (Inl e, s)
      | Inr (i, description) \<Rightarrow>
     (case serializable (createIntent i) s of
        (Inr j, s') \<Rightarrow> (Inr (viewIntent targets j description), s')
      | (Inl e, s') \<Rightarrow>
          (case findIntentByKey userId key s' of
             Some raced \<Rightarrow> (Inr (viewIntent targets raced description), s')
           | None \<Rightarrow> (Inl e, s')))))"

definition payerAccounts :: "string \<Rightarrow> string \<Rightarrow> 'm core_db_scheme \<Rightarrow> (fin_account \<times> fin_account) res" where
  "payerAccounts walletId currency s =
     bind_res (requireAccount (Some walletId) WALLET_AVAILABLE currency s) (\<lambda>available.
     bind_res (requireAccount None PLATFORM_FEE_REVENUE currency s) (\<lambda>feeRevenue.
       Inr (available, feeRevenue)))"

text \<open>The first eight characters of an id, in upper case: the references payments quote.\<close>

definition shortRef :: "string \<Rightarrow> string" where
  "shortRef i = toUpperCase (take 8 i)"

definition paymentEntries :: "bool \<Rightarrow> payment_intent \<Rightarrow> string \<Rightarrow> string \<Rightarrow> string \<Rightarrow> posting_entry list" where
  "paymentEntries holdsFee i available destination feeRevenue =
     [\<lparr>pe_account = available, pe_direction = DEBIT, pe_amount = pi_total i\<rparr>,
      \<lparr>pe_account = destination, pe_direction = CREDIT, pe_amount = (if holdsFee then pi_total i else pi_amount i)\<rparr>]
     @ (if pi_fee i > 0 \<and> \<not> holdsFee
        then [\<lparr>pe_account = feeRevenue, pe_direction = CREDIT, pe_amount = pi_fee i\<rparr>] else [])"

definition paymentCommand ::
  "'s payment_target \<Rightarrow> string \<Rightarrow> string \<Rightarrow> payment_intent \<Rightarrow> string \<Rightarrow> string \<Rightarrow> string \<Rightarrow> string \<Rightarrow> posting_command" where
  "paymentCommand T userId key i description available destination feeRevenue =
     \<lparr>pc_idempotencyKey = ''payment-intent:'' @ join_colon (pi_id i) key,
      pc_reference = ''PAY-'' @ shortRef (pi_id i), pc_description = take 500 description,
      pc_currency = pi_currency i, pc_initiatedBy = Some userId, pc_correlationId = Some (pi_id i),
      pc_entries = paymentEntries (pt_holdsFee T) i available destination feeRevenue\<rparr>"

definition settledPayment :: "string \<Rightarrow> payment_intent \<Rightarrow> string \<Rightarrow> settled_payment" where
  "settledPayment userId i postingId =
     \<lparr>sp_userId = userId, sp_targetId = pi_targetId i, sp_intentId = pi_id i, sp_amount = pi_amount i,
      sp_fee = pi_fee i, sp_currency = pi_currency i, sp_ledgerTransactionId = postingId\<rparr>"

text \<open>A target finished after commit is PROCESSING until then.\<close>

definition markPaid :: "bool \<Rightarrow> string \<Rightarrow> int \<Rightarrow> payment_intent \<Rightarrow> payment_intent" where
  "markPaid completesLater postingId now j =
     j\<lparr>pi_status := (if completesLater then PI_PROCESSING else PI_SUCCEEDED), pi_method := Some PM_WALLET,
       pi_ledgerTransactionId := Some postingId, pi_confirmedAt := Some now,
       pi_settledAt := (if completesLater then pi_settledAt j else Some now)\<rparr>"

text \<open>The part of the transaction that moves the money and records it against the target.\<close>

definition postAndSettle ::
  "pay_ids \<Rightarrow> int \<Rightarrow> string \<Rightarrow> 'm payments_db_scheme payment_target \<Rightarrow> payment_intent \<Rightarrow> posting_command \<Rightarrow>
     ('m payments_db_scheme, payment_intent \<times> settled_payment option) tx" where
  "postAndSettle ids now userId T i command s =
     bind_res (postWithin (py_tx ids) now command s) (\<lambda>(posting, s2).
     bind_res (pt_settle T ids now (settledPayment userId i (fst posting)) s2) (\<lambda>(_, s3).
     bind_res (updateIntent (pi_id i) (markPaid (pt_afterCommit T \<noteq> None) (fst posting) now) s3) (\<lambda>(j, s4).
       Inr ((j, Some (settledPayment userId i (fst posting))), s4))))"

definition settleWithin ::
  "pay_ids \<Rightarrow> int \<Rightarrow> string \<Rightarrow> string \<Rightarrow> string \<Rightarrow> 'm payments_db_scheme payment_target \<Rightarrow>
     ('m payments_db_scheme, payment_intent \<times> settled_payment option) tx" where
  "settleWithin ids now userId intentId key T s =
     (case findIntent intentId userId s of
        None \<Rightarrow> Inl (NotFound ''Payment was not found'')
      | Some i \<Rightarrow>
      if pi_status i \<noteq> PI_REQUIRES_CONFIRMATION then Inr ((i, None), s)
      else case pi_walletId i of
        None \<Rightarrow> Inl (Unprocessable ''No wallet is available for this currency'')
      | Some walletId \<Rightarrow>
        bind_res (pt_resolve T now userId (pi_targetId i) (storedRequest T (pi_amount i)) s) (\<lambda>target.
        if rt_amount target \<noteq> pi_amount i then Inl (Conflict ''The amount changed. Start this payment again.'')
        else
        bind_res (payerAccounts walletId (pi_currency i) s) (\<lambda>(available, feeRevenue).
        bind_res (pt_creditAccount T ids (pi_targetId i) (pi_currency i) s) (\<lambda>(destination, s1).
        if \<not> canPayFromWallet (accountBalanceWithin s1 (fa_id available)) (pi_total i)
        then Inl (Unprocessable ''Your wallet balance is not enough'')
        else postAndSettle ids now userId T i
          (paymentCommand T userId key i (rt_description target) (fa_id available) destination (fa_id feeRevenue)) s1))))"

definition settleFromWallet ::
  "'m payments_db_scheme registry \<Rightarrow> pay_ids \<Rightarrow> int \<Rightarrow> string \<Rightarrow> string \<Rightarrow> string \<Rightarrow>
     'm payments_db_scheme payment_target \<Rightarrow> string option \<Rightarrow> ('m payments_db_scheme, intent_view) handler" where
  "settleFromWallet targets ids now userId intentId key T details s =
     (case serializable (settleWithin ids now userId intentId key T) s of
        (Inl e, s') \<Rightarrow> (Inl e, s')
      | (Inr (settled, payment), s') \<Rightarrow>
        (let s1 = audit (Some userId) ''payment.settled'' ''PaymentIntent'' (Some (pi_id settled)) None s' in
         case (pt_afterCommit T, payment) of
           (Some after, Some p) \<Rightarrow>
             (let s2 = snd (after p details s1) in
              case List.find (\<lambda>j. pi_id j = pi_id settled) (intents s2) of
                None \<Rightarrow> (Inl RecordMissing, s2)
              | Some finished \<Rightarrow> (Inr (viewIntent targets finished (describeIntent targets finished s2)), s2))
         | _ \<Rightarrow> (Inr (viewIntent targets settled (describeIntent targets settled s1)), s1)))"

definition startExternal ::
  "(payment_method \<Rightarrow> charge_input \<Rightarrow> provider_charge res) \<Rightarrow> 'm payments_db_scheme registry \<Rightarrow> pay_ids \<Rightarrow> int \<Rightarrow>
     string \<Rightarrow> string \<Rightarrow> payment_method \<Rightarrow> ('m payments_db_scheme, intent_view) handler" where
  "startExternal charge targets ids now userId intentId m s =
     (case findIntent intentId userId s of
        None \<Rightarrow> (Inl (NotFound ''Payment was not found''), s)
      | Some i \<Rightarrow>
      (let email = (case List.find (\<lambda>u. ur_id u = userId) (users s) of None \<Rightarrow> [] | Some u \<Rightarrow> or_default (ur_email u) []);
           T = targets (pi_targetType i) in
       case pt_resolve T now userId (pi_targetId i) (storedRequest T (pi_amount i)) s of
         Inl e \<Rightarrow> (Inl e, s)
       | Inr target \<Rightarrow>
       (case charge m \<lparr>ci_internalReference = ''PAY-'' @ shortRef (pi_id i) @ ''-'' @ toUpperCase (py_hex ids),
                       ci_amount = pi_total i, ci_currency = pi_currency i, ci_customerEmail = email,
                       ci_description = rt_description target\<rparr> of
          Inl e \<Rightarrow> (Inl e, s)
        | Inr c \<Rightarrow>
       (case serializable (updateIntent (pi_id i)
            (\<lambda>j. j\<lparr>pi_status := PI_PROCESSING, pi_method := Some m,
                   pi_providerReference := Some (ch_providerReference c), pi_confirmedAt := Some now\<rparr>)) s of
          (Inl e, s') \<Rightarrow> (Inl e, s')
        | (Inr j, s') \<Rightarrow>
            (Inr ((viewIntent targets j (rt_description target))
               \<lparr>iv_transferInstructions := ch_transferInstructions c, iv_checkoutUrl := truthy (ch_checkoutUrl c)\<rparr>), s')))))"

definition confirm ::
  "(string \<Rightarrow> string \<Rightarrow> bool) \<Rightarrow> (payment_method \<Rightarrow> charge_input \<Rightarrow> provider_charge res) \<Rightarrow>
     'm payments_db_scheme registry \<Rightarrow> pay_ids \<Rightarrow> int \<Rightarrow> string \<Rightarrow> string \<Rightarrow> confirm_dto \<Rightarrow> string \<Rightarrow>
     ('m payments_db_scheme, intent_view) handler" where
  "confirm verify charge targets ids now userId intentId dto key s =
     (case findIntent intentId userId s of
        None \<Rightarrow> (Inl (NotFound ''Payment was not found''), s)
      | Some i \<Rightarrow>
      if pi_status i \<noteq> PI_REQUIRES_CONFIRMATION
      then (Inr (viewIntent targets i (describeIntent targets i s)), s)
      else if \<not> isPayable (pi_status i) (pi_expiresAt i) now
      then (Inl (Conflict ''This payment has expired. Start it again.''), s)
      else (let T = targets (pi_targetType i); details = truthy (cf_customerReference dto) in
        if cf_method dto \<notin> set (pt_methods T)
        then (Inl (Unprocessable (if cf_method dto = PM_WALLET then ''This payment cannot be made from your wallet''
                else ''Pay this from your wallet. Add money to your wallet first if you need to.'')), s)
        else case (case pt_verifyConfirmation T of None \<Rightarrow> Inr () | Some check \<Rightarrow> check userId (pi_targetId i) details s) of
          Inl e \<Rightarrow> (Inl e, s)
        | Inr _ \<Rightarrow>
        (case verifyPin verify userId (cf_transactionPin dto) now s of
           (Inl e, s1) \<Rightarrow> (Inl e, s1)
         | (Inr _, s1) \<Rightarrow>
             if settlesSynchronously (cf_method dto)
             then settleFromWallet targets ids now userId intentId key T details s1
             else startExternal charge targets ids now userId intentId (cf_method dto) s1)))"

definition getIntent :: "'m payments_db_scheme registry \<Rightarrow> string \<Rightarrow> string \<Rightarrow> 'm payments_db_scheme \<Rightarrow> intent_view res" where
  "getIntent targets userId intentId s =
     (case findIntent intentId userId s of
        None \<Rightarrow> Inl (NotFound ''Payment was not found'')
      | Some i \<Rightarrow> Inr (viewIntent targets i (describeIntent targets i s)))"

definition balance :: "string \<Rightarrow> string \<Rightarrow> 'm core_db_scheme \<Rightarrow> int" where
  "balance userId currency s =
     (case List.find (\<lambda>w. wl_userId w = userId \<and> wl_currency w = currency) (wallets s) of
        None \<Rightarrow> 0
      | Some w \<Rightarrow>
     (case findAccount (Some (wl_id w)) WALLET_AVAILABLE currency s of
        None \<Rightarrow> 0
      | Some a \<Rightarrow> accountBalanceWithin s (fa_id a)))"

section \<open>PaymentSettlementService\<close>

datatype settlement_outcome = SETTLED string | FAILED string | UNMATCHED | ALREADY_SETTLED string

definition firstOrThrow :: "(fin_account \<Rightarrow> bool) \<Rightarrow> 'm core_db_scheme \<Rightarrow> fin_account res" where
  "firstOrThrow P s = (case List.find P (accounts s) of None \<Rightarrow> Inl RecordMissing | Some a \<Rightarrow> Inr a)"

record deposit_accounts =
  da_available :: fin_account
  da_providerPayable :: fin_account
  da_feeRevenue :: fin_account

definition accountsFor :: "string \<Rightarrow> string \<Rightarrow> 'm core_db_scheme \<Rightarrow> deposit_accounts res" where
  "accountsFor userId currency s =
     (case List.find (\<lambda>w. wl_userId w = userId \<and> wl_currency w = currency) (wallets s) of
        None \<Rightarrow> Inl (PlainError ''The paying user has no wallet in this currency'')
      | Some w \<Rightarrow>
        bind_res (firstOrThrow (\<lambda>a. fa_walletId a = Some (wl_id w) \<and> fa_purpose a = Some WALLET_AVAILABLE) s) (\<lambda>available.
        bind_res (firstOrThrow (\<lambda>a. fa_purpose a = Some PROVIDER_PAYABLE \<and> fa_currency a = currency) s) (\<lambda>payable.
        bind_res (firstOrThrow (\<lambda>a. fa_purpose a = Some PLATFORM_FEE_REVENUE \<and> fa_currency a = currency) s) (\<lambda>feeRevenue.
          Inr \<lparr>da_available = available, da_providerPayable = payable, da_feeRevenue = feeRevenue\<rparr>))))"

definition depositEntries :: "payment_intent \<Rightarrow> deposit_accounts \<Rightarrow> posting_entry list" where
  "depositEntries i a =
     [\<lparr>pe_account = fa_id (da_providerPayable a), pe_direction = DEBIT, pe_amount = pi_amount i\<rparr>,
      \<lparr>pe_account = fa_id (da_available a), pe_direction = CREDIT, pe_amount = pi_amount i - pi_fee i\<rparr>]
     @ (if pi_fee i > 0
        then [\<lparr>pe_account = fa_id (da_feeRevenue a), pe_direction = CREDIT, pe_amount = pi_fee i\<rparr>] else [])"

definition depositCommand :: "payment_intent \<Rightarrow> deposit_accounts \<Rightarrow> posting_command" where
  "depositCommand i a = \<lparr>pc_idempotencyKey = ''payment-settlement:'' @ pi_id i, pc_reference = ''DEP-'' @ shortRef (pi_id i),
     pc_description = ''Wallet deposit'', pc_currency = pi_currency i, pc_initiatedBy = None,
     pc_correlationId = Some (pi_id i), pc_entries = depositEntries i a\<rparr>"

definition settleDepositWithin ::
  "string \<Rightarrow> int \<Rightarrow> string \<Rightarrow> ('m payments_db_scheme, settlement_outcome \<times> payment_intent option) tx" where
  "settleDepositWithin newId now intentId s =
     (case List.find (\<lambda>i. pi_id i = intentId) (intents s) of
        None \<Rightarrow> Inr ((UNMATCHED, None), s)
      | Some i \<Rightarrow>
      if pi_status i = PI_SUCCEEDED then Inr ((ALREADY_SETTLED (pi_id i), None), s)
      else bind_res (accountsFor (pi_userId i) (pi_currency i) s) (\<lambda>a.
        bind_res (postWithin newId now (depositCommand i a) s) (\<lambda>(posting, s1).
        bind_res (updateIntent (pi_id i)
            (\<lambda>j. j\<lparr>pi_status := PI_SUCCEEDED, pi_ledgerTransactionId := Some (fst posting), pi_settledAt := Some now\<rparr>) s1)
          (\<lambda>(j, s2).
        Inr ((SETTLED (pi_id i), Some i),
             outbox ''PaymentIntent'' (pi_id i) ''payment.settled''
               (audit (Some (pi_userId i)) ''payment.settled'' ''PaymentIntent'' (Some (pi_id i)) None s2))))))"

definition settleSuccessful :: "string \<Rightarrow> int \<Rightarrow> string \<Rightarrow> ('m payments_db_scheme, settlement_outcome) handler" where
  "settleSuccessful newId now providerReference s =
     (case findIntentByReference providerReference s of
        None \<Rightarrow> (Inr UNMATCHED, s)
      | Some i \<Rightarrow>
      if pi_status i = PI_SUCCEEDED then (Inr (ALREADY_SETTLED (pi_id i)), s)
      else case serializable (settleDepositWithin newId now (pi_id i)) s of
        (Inl e, s') \<Rightarrow> (Inl e, s')
      | (Inr (out, None), s') \<Rightarrow> (Inr out, s')
      | (Inr (out, Some c), s') \<Rightarrow>
          (let s1 = notify (pi_userId c) ''wallet-funded'' (Some (pi_amount c - pi_fee c)) (''wallet-funded:'' @ pi_id c) s' in
           (Inr out, s1\<lparr>referral_calls := referral_calls s1 @
              [\<lparr>rc_userId = pi_userId c, rc_amount = pi_amount c - pi_fee c, rc_currency = pi_currency c,
                rc_paymentIntentId = pi_id c, rc_occurredAt = now\<rparr>]\<rparr>)))"

definition settleFailed :: "string \<Rightarrow> string \<Rightarrow> ('m payments_db_scheme, settlement_outcome) handler" where
  "settleFailed providerReference reason s =
     (case findIntentByReference providerReference s of
        None \<Rightarrow> (Inr UNMATCHED, s)
      | Some i \<Rightarrow>
      if pi_status i = PI_SUCCEEDED then (Inr (ALREADY_SETTLED (pi_id i)), s)
      else case serializable (updateIntent (pi_id i)
          (\<lambda>j. j\<lparr>pi_status := PI_FAILED, pi_failureReason := Some (take 500 reason)\<rparr>)) s of
        (Inl e, s') \<Rightarrow> (Inl e, s')
      | (Inr _, s') \<Rightarrow> (Inr (FAILED (pi_id i)), s'))"


section \<open>What the mechanics need of a target\<close>

text \<open>
  Recording the payment and providing the credit account leave the ledger, the wallets, the
  wallet accounts and the intents alone; a new account keeps the account table well formed.
\<close>

locale target_contract =
  fixes T :: "'m payments_db_scheme payment_target"
  assumes settle_frame: "pt_settle T ids now p s = Inr (u, s') \<Longrightarrow>
      ledger_txs s' = ledger_txs s \<and> accounts s' = accounts s \<and> wallets s' = wallets s \<and> intents s' = intents s"
    and credit_frame: "pt_creditAccount T ids tid c s = Inr (a, s') \<Longrightarrow>
      ledger_txs s' = ledger_txs s \<and> wallets s' = wallets s \<and> intents s' = intents s
      \<and> (accounts_wf s \<longrightarrow> accounts_wf s')
      \<and> filter is_wallet_account (accounts s') = filter is_wallet_account (accounts s)"

text \<open>
  Work after the commit keeps the books; a target whose work is done when the transaction
  commits has none.
\<close>

locale safe_target = target_contract +
  fixes P :: "fin_account \<Rightarrow> bool"
  assumes after_books: "pt_afterCommit T = Some f \<Longrightarrow> books_hold P s \<Longrightarrow> books_hold P (snd (f p d s))"

locale immediate_target = target_contract +
  assumes no_after: "pt_afterCommit T = None"

sublocale immediate_target \<subseteq> safe_target T P for P
  by unfold_locales (simp add: no_after)

interpretation topup: immediate_target WalletTopUpTarget
  by unfold_locales (auto simp: WalletTopUpTarget_def providerPayableCredit_def res_iffs)

lemma cmd_delta_payment:
  "pc_entries c = paymentEntries holdsFee i av dst fr \<Longrightarrow>
   cmd_delta c x = (if x = dst then if holdsFee then pi_total i else pi_amount i else 0)
     + (if x = fr \<and> pi_fee i > 0 \<and> \<not> holdsFee then pi_fee i else 0) - (if x = av then pi_total i else 0)"
  by (simp add: cmd_delta_def signed_cmd_def paymentEntries_def)

lemma cmd_delta_deposit:
  "pc_entries c = depositEntries i a \<Longrightarrow>
   cmd_delta c x = (if x = fa_id (da_available a) then pi_amount i - pi_fee i else 0)
     + (if x = fa_id (da_feeRevenue a) \<and> pi_fee i > 0 then pi_fee i else 0)
     - (if x = fa_id (da_providerPayable a) then pi_amount i else 0)"
  by (simp add: cmd_delta_def signed_cmd_def depositEntries_def)

lemma updateIntent_InrD:
  assumes "updateIntent iid f s = Inr (j, s')"
  shows "\<exists>i. List.find (\<lambda>i. pi_id i = iid) (intents s) = Some i \<and> j = f i
    \<and> s' = s\<lparr>intents := update_where (\<lambda>j. pi_id j = iid) f (intents s)\<rparr>"
  using assms by (auto simp: updateIntent_def split: option.splits if_splits)

lemma payerAccounts_InrD:
  "payerAccounts w c s = Inr (av, fr) \<Longrightarrow>
     requireAccount (Some w) WALLET_AVAILABLE c s = Inr av \<and> requireAccount None PLATFORM_FEE_REVENUE c s = Inr fr"
  by (auto simp: payerAccounts_def res_iffs)

lemma postAndSettle_InrD:
  assumes "postAndSettle ids now u T i c s = Inr ((j, q), s')"
  obtains r s2 s3 where "postWithin (py_tx ids) now c s = Inr (r, s2)"
    "pt_settle T ids now (settledPayment u i (fst r)) s2 = Inr ((), s3)"
    "updateIntent (pi_id i) (markPaid (pt_afterCommit T \<noteq> None) (fst r) now) s3 = Inr (j, s')"
    "q = Some (settledPayment u i (fst r))"
  using assms by (auto simp: postAndSettle_def res_iffs)

lemma settleWithin_Inr_cases:
  assumes "settleWithin ids now u iid key T s = Inr ((j, q), s')"
  obtains (already) "findIntent iid u s = Some j" "pi_status j \<noteq> PI_REQUIRES_CONFIRMATION" "q = None" "s' = s"
  | (paid) i w target av fr dst s1 where
      "findIntent iid u s = Some i" "pi_status i = PI_REQUIRES_CONFIRMATION" "pi_walletId i = Some w"
      "pt_resolve T now u (pi_targetId i) (storedRequest T (pi_amount i)) s = Inr target" "rt_amount target = pi_amount i"
      "payerAccounts w (pi_currency i) s = Inr (av, fr)"
      "pt_creditAccount T ids (pi_targetId i) (pi_currency i) s = Inr (dst, s1)"
      "pi_total i \<le> accountBalanceWithin s1 (fa_id av)"
      "postAndSettle ids now u T i
          (paymentCommand T u key i (rt_description target) (fa_id av) dst (fa_id fr)) s1 = Inr ((j, q), s')"
proof (cases "findIntent iid u s")
  case None
  with assms show ?thesis by (simp add: settleWithin_def)
next
  case (Some i)
  show ?thesis
  proof (cases "pi_status i = PI_REQUIRES_CONFIRMATION")
    case False
    with Some assms have "findIntent iid u s = Some j" "pi_status j \<noteq> PI_REQUIRES_CONFIRMATION" "q = None" "s' = s"
      by (auto simp: settleWithin_def)
    then show ?thesis by (rule that(1))
  next
    case True
    with Some assms obtain w where w: "pi_walletId i = Some w" by (auto simp: settleWithin_def split: option.splits)
    from assms Some True w obtain target av fr dst s1 where
      "pt_resolve T now u (pi_targetId i) (storedRequest T (pi_amount i)) s = Inr target" "rt_amount target = pi_amount i"
      "payerAccounts w (pi_currency i) s = Inr (av, fr)"
      "pt_creditAccount T ids (pi_targetId i) (pi_currency i) s = Inr (dst, s1)"
      "pi_total i \<le> accountBalanceWithin s1 (fa_id av)"
      "postAndSettle ids now u T i
          (paymentCommand T u key i (rt_description target) (fa_id av) dst (fa_id fr)) s1 = Inr ((j, q), s')"
      by (auto simp: settleWithin_def res_iffs canPayFromWallet_def not_less split: if_splits)
    then show ?thesis by (rule that(2) [OF Some True w])
  qed
qed


lemma paymentCommand_simps [simp]:
  "pc_idempotencyKey (paymentCommand T u key i d av dst fr) = ''payment-intent:'' @ join_colon (pi_id i) key"
  "pc_reference (paymentCommand T u key i d av dst fr) = ''PAY-'' @ shortRef (pi_id i)"
  "pc_entries (paymentCommand T u key i d av dst fr) = paymentEntries (pt_holdsFee T) i av dst fr"
  by (simp_all add: paymentCommand_def)

lemma payment_keeps_books:
  assumes "postWithin n now c s = Inr (r, s')" and "pc_entries c = paymentEntries h i av dst fr"
    and "pi_total i \<le> accountBalanceWithin s av" and "books_hold P (s :: 'm core_db_scheme)"
  shows "books_hold P s'"
proof (rule books_hold_post [OF assms(1,4)])
  fix a
  assume valid: "posting_valid c" and a: "a \<in> set (accounts s)" "is_wallet_account a" "P a"
  from valid assms(2) have "0 < pi_total i" "0 < pi_amount i \<or> h"
    by (auto simp: posting_valid_def paymentEntries_def split: if_splits)
  with a assms(3,4) show "0 \<le> accountBalanceWithin s (fa_id a) + cmd_delta c (fa_id a)"
    by (auto simp: cmd_delta_payment [OF assms(2)] books_hold_def)
qed

lemma updateIntent_frame:
  assumes "updateIntent iid f s = Inr (j, s')"
  shows "ledger_txs s' = ledger_txs s \<and> accounts s' = accounts s \<and> wallets s' = wallets s \<and> pins s' = pins s
    \<and> books_hold P s' = books_hold P s"
  using updateIntent_InrD [OF assms] books_hold_cong [of s' s] by auto

context target_contract
begin

lemma credit_books: "pt_creditAccount T ids tid c s = Inr (a, s1) \<Longrightarrow> books_hold P s \<Longrightarrow> books_hold P s1"
  using credit_frame [of ids tid c s a s1] ledger_wf_cong [of s1 s] balance_cong [of s1 s]
  by (auto simp: books_hold_def)

lemma settle_books: "pt_settle T ids now p s = Inr (u, s') \<Longrightarrow> books_hold P s' = books_hold P s"
  using settle_frame [of ids now p s u s'] by (intro books_hold_cong) auto

lemma settleWithin_books:
  assumes "settleWithin ids now u iid key T s = Inr ((j, q), s')" and "books_hold P s"
  shows "books_hold P s'"
  using assms(1)
proof (cases rule: settleWithin_Inr_cases)
  case (paid i w target av fr dst s1)
  from paid(9) obtain r s2 s3 where p: "postWithin (py_tx ids) now
      (paymentCommand T u key i (rt_description target) (fa_id av) dst (fa_id fr)) s1 = Inr (r, s2)"
    and rest: "pt_settle T ids now (settledPayment u i (fst r)) s2 = Inr ((), s3)"
      "updateIntent (pi_id i) (markPaid (pt_afterCommit T \<noteq> None) (fst r) now) s3 = Inr (j, s')"
    by (rule postAndSettle_InrD)
  have "books_hold P s2"
    using payment_keeps_books [OF p _ paid(8) credit_books [OF paid(7) assms(2)]] by simp
  with settle_books [OF rest(1)] updateIntent_frame [OF rest(2)] show ?thesis by simp
qed (use assms(2) in simp)

text \<open>What a wallet payment does to every balance and to the intent.\<close>

lemma settleWithin_moves:
  assumes "settleWithin ids now u iid key T s = Inr ((j, Some p), s')"
    and "\<And>i. findIntent iid u s = Some i \<Longrightarrow> ''payment-intent:'' @ join_colon (pi_id i) key \<notin> used_keys s"
  obtains i w av fr dst s1 s2 s3 r where "findIntent iid u s = Some i" "pi_status i = PI_REQUIRES_CONFIRMATION"
    "pi_walletId i = Some w" "payerAccounts w (pi_currency i) s = Inr (av, fr)"
    "pt_creditAccount T ids (pi_targetId i) (pi_currency i) s = Inr (dst, s1)"
    "pi_total i \<le> accountBalanceWithin s (fa_id av)"
    "\<And>x. accountBalanceWithin s' x = accountBalanceWithin s x
       + (if x = dst then if pt_holdsFee T then pi_total i else pi_amount i else 0)
       + (if x = fa_id fr \<and> pi_fee i > 0 \<and> \<not> pt_holdsFee T then pi_fee i else 0)
       - (if x = fa_id av then pi_total i else 0)"
    "s2 = s1\<lparr>ledger_txs := ledger_txs s2\<rparr>"
    "p = settledPayment u i r" "pt_settle T ids now p s2 = Inr ((), s3)"
    "updateIntent (pi_id i) (markPaid (pt_afterCommit T \<noteq> None) r now) s3 = Inr (j, s')"
  using assms(1)
proof (cases rule: settleWithin_Inr_cases)
  case (paid i w target av fr dst s1)
  let ?c = "paymentCommand T u key i (rt_description target) (fa_id av) dst (fa_id fr)"
  from paid(9) obtain r s2 s3 where p: "postWithin (py_tx ids) now ?c s1 = Inr (r, s2)"
    and rest: "pt_settle T ids now (settledPayment u i (fst r)) s2 = Inr ((), s3)"
      "updateIntent (pi_id i) (markPaid (pt_afterCommit T \<noteq> None) (fst r) now) s3 = Inr (j, s')"
      "Some p = Some (settledPayment u i (fst r))"
    by (rule postAndSettle_InrD)
  have bal1: "accountBalanceWithin s1 x = accountBalanceWithin s x" for x
    using credit_frame [OF paid(7)] by (intro balance_cong) simp
  have "used_keys s1 = used_keys s" using credit_frame [OF paid(7)] by (intro used_keys_cong) simp
  with assms(2) [OF paid(1)] have "findByKey (pc_idempotencyKey ?c) s1 = None" by (simp add: findByKey_None_iff)
  with p have create: "createLedgerTx (postedTx (py_tx ids) now ?c) s1 = Inr s2"
    by (auto elim: postWithin_Inr_cases)
  have bal: "accountBalanceWithin s' x = accountBalanceWithin s2 x" for x
    using settle_frame [OF rest(1)] updateIntent_frame [OF rest(2)] by (intro balance_cong) simp
  have "accountBalanceWithin s' x = accountBalanceWithin s x
       + (if x = dst then if pt_holdsFee T then pi_total i else pi_amount i else 0)
       + (if x = fa_id fr \<and> pi_fee i > 0 \<and> \<not> pt_holdsFee T then pi_fee i else 0)
       - (if x = fa_id av then pi_total i else 0)" for x
    using bal balance_create [OF create] cmd_delta_payment [of ?c "pt_holdsFee T" i "fa_id av" dst "fa_id fr" x]
    by (simp add: bal1)
  moreover have "s2 = s1\<lparr>ledger_txs := ledger_txs s2\<rparr>"
    using create by (auto simp: createLedgerTx_def split: if_splits)
  ultimately show ?thesis using that [OF paid(1-3,6,7)] paid(8) rest bal1 by simp
qed simp

end


section \<open>Deposits\<close>

lemma firstOrThrow_InrD: "firstOrThrow P s = Inr a \<Longrightarrow> a \<in> set (accounts s) \<and> P a"
  by (auto simp: firstOrThrow_def split: option.splits dest: find_SomeD)

lemma accountsFor_InrD:
  assumes "accountsFor u c s = Inr a"
  shows "da_available a \<in> set (accounts s) \<and> fa_purpose (da_available a) = Some WALLET_AVAILABLE
    \<and> (\<exists>w \<in> set (wallets s). wl_userId w = u \<and> fa_walletId (da_available a) = Some (wl_id w))
    \<and> da_providerPayable a \<in> set (accounts s) \<and> fa_purpose (da_providerPayable a) = Some PROVIDER_PAYABLE
    \<and> da_feeRevenue a \<in> set (accounts s) \<and> fa_purpose (da_feeRevenue a) = Some PLATFORM_FEE_REVENUE"
proof -
  from assms obtain w where w: "List.find (\<lambda>w. wl_userId w = u \<and> wl_currency w = c) (wallets s) = Some w"
    and av: "firstOrThrow (\<lambda>a. fa_walletId a = Some (wl_id w) \<and> fa_purpose a = Some WALLET_AVAILABLE) s = Inr (da_available a)"
    and pp: "firstOrThrow (\<lambda>a. fa_purpose a = Some PROVIDER_PAYABLE \<and> fa_currency a = c) s = Inr (da_providerPayable a)"
    and fr: "firstOrThrow (\<lambda>a. fa_purpose a = Some PLATFORM_FEE_REVENUE \<and> fa_currency a = c) s = Inr (da_feeRevenue a)"
    by (auto simp: accountsFor_def res_iffs split: option.splits)
  from find_SomeD [OF w] firstOrThrow_InrD [OF av] firstOrThrow_InrD [OF pp] firstOrThrow_InrD [OF fr]
  show ?thesis by auto
qed

lemma deposit_keeps_books:
  assumes "postWithin n now c s = Inr (r, s')" and "pc_entries c = depositEntries i a"
    and acc: "accountsFor u cur s = Inr a" and ok: "books_hold P (s :: 'm core_db_scheme)"
  shows "books_hold P s'"
proof (rule books_hold_post [OF assms(1) ok])
  fix x
  assume valid: "posting_valid c" and x: "x \<in> set (accounts s)" "is_wallet_account x" "P x"
  from valid assms(2) have pos: "0 < pi_amount i - pi_fee i"
    by (auto simp: posting_valid_def depositEntries_def split: if_splits)
  have "fa_id x \<noteq> fa_id (da_providerPayable a)"
  proof
    assume "fa_id x = fa_id (da_providerPayable a)"
    then have "x = da_providerPayable a"
      using x accountsFor_InrD [OF acc] ok by (auto simp: books_hold_def intro: account_id_inject)
    with x accountsFor_InrD [OF acc] show False by (simp add: is_wallet_account_def)
  qed
  with x ok pos show "0 \<le> accountBalanceWithin s (fa_id x) + cmd_delta c (fa_id x)"
    by (auto simp: cmd_delta_deposit [OF assms(2)] books_hold_def)
qed

lemma depositCommand_simps [simp]:
  "pc_idempotencyKey (depositCommand i a) = ''payment-settlement:'' @ pi_id i"
  "pc_reference (depositCommand i a) = ''DEP-'' @ shortRef (pi_id i)"
  "pc_entries (depositCommand i a) = depositEntries i a"
  by (simp_all add: depositCommand_def)

lemma settleDepositWithin_Inr_cases:
  assumes "settleDepositWithin n now iid s = Inr ((res, q), s')"
  obtains (nothing) "q = None" "s' = s" "res = UNMATCHED \<or> res = ALREADY_SETTLED iid"
  | (deposit) i a r s1 j s2 where "List.find (\<lambda>i. pi_id i = iid) (intents s) = Some i" "pi_status i \<noteq> PI_SUCCEEDED"
      "accountsFor (pi_userId i) (pi_currency i) s = Inr a" "postWithin n now (depositCommand i a) s = Inr (r, s1)"
      "updateIntent iid
            (\<lambda>j. j\<lparr>pi_status := PI_SUCCEEDED, pi_ledgerTransactionId := Some (fst r), pi_settledAt := Some now\<rparr>) s1 = Inr (j, s2)"
      "q = Some i" "res = SETTLED iid"
      "s' = outbox ''PaymentIntent'' iid ''payment.settled''
               (audit (Some (pi_userId i)) ''payment.settled'' ''PaymentIntent'' (Some iid) None s2)"
proof (cases "List.find (\<lambda>i. pi_id i = iid) (intents s)")
  case None
  with assms show ?thesis by (intro that(1)) (auto simp: settleDepositWithin_def)
next
  case (Some i)
  then have id: "pi_id i = iid" by (auto dest: find_SomeD)
  show ?thesis
  proof (cases "pi_status i = PI_SUCCEEDED")
    case True
    with Some assms id show ?thesis by (intro that(1)) (auto simp: settleDepositWithin_def)
  next
    case False
    with Some assms id obtain a r s1 j s2 where
      "accountsFor (pi_userId i) (pi_currency i) s = Inr a" "postWithin n now (depositCommand i a) s = Inr (r, s1)"
      "updateIntent iid
            (\<lambda>j. j\<lparr>pi_status := PI_SUCCEEDED, pi_ledgerTransactionId := Some (fst r), pi_settledAt := Some now\<rparr>) s1 = Inr (j, s2)"
      "q = Some i" "res = SETTLED iid"
      "s' = outbox ''PaymentIntent'' iid ''payment.settled''
               (audit (Some (pi_userId i)) ''payment.settled'' ''PaymentIntent'' (Some iid) None s2)"
      by (auto simp: settleDepositWithin_def res_iffs)
    then show ?thesis by (rule that(2) [OF Some False])
  qed
qed

lemma settleDepositWithin_books:
  assumes "settleDepositWithin n now iid s = Inr ((res, q), s')" and "books_hold P s"
  shows "books_hold P s'"
  using assms(1)
proof (cases rule: settleDepositWithin_Inr_cases)
  case (deposit i a r s1 j s2)
  have "books_hold P s1" using deposit_keeps_books [OF deposit(4) _ deposit(3) assms(2)] by simp
  with updateIntent_frame [OF deposit(5)] have "books_hold P s2" by simp
  with deposit(8) show ?thesis using books_hold_cong [of s' s2] by simp
qed (use assms(2) in simp)

lemma settleSuccessful_books:
  assumes "books_hold P s"
  shows "books_hold P (snd (settleSuccessful n now ref s))"
proof (cases "settleSuccessful n now ref s")
  case (Pair r s')
  then have "s' = s \<or> (\<exists>iid res q s1. settleDepositWithin n now iid s = Inr ((res, q), s1)
      \<and> ledger_txs s' = ledger_txs s1 \<and> accounts s' = accounts s1)"
    by (fastforce simp: settleSuccessful_def serializable_def Let_def split: option.splits if_splits sum.splits prod.splits)
  with assms Pair settleDepositWithin_books show ?thesis by (metis books_hold_cong snd_conv)
qed

lemma settleFailed_books: "books_hold P (snd (settleFailed ref reason s)) = books_hold P s"
  by (auto simp: settleFailed_def serializable_def dest: updateIntent_frame split: option.splits sum.splits)


section \<open>Request handlers\<close>

lemma createIntent_InrD: "createIntent i s = Inr (j, s') \<Longrightarrow> j = i \<and> s' = s\<lparr>intents := intents s @ [i]\<rparr>"
  by (auto simp: createIntent_def split: if_splits)

lemma create_cases:
  assumes "create targets n now u dto key s = (r, s')"
  obtains (unchanged) "s' = s" "findIntentByKey u key s \<noteq> None \<or> isl r"
  | (created) i d where "r = Inr (viewIntent targets i d)" "findIntentByKey u key s = None"
      "quoteIntent (targets (cd_targetType dto)) n now u dto key s = Inr (i, d)"
      "s' = s\<lparr>intents := intents s @ [i]\<rparr>"
  using assms
  by (auto simp: create_def serializable_def split: option.splits sum.splits prod.splits dest!: createIntent_InrD)

lemma create_books: "books_hold P (snd (create targets n now u dto key s)) = books_hold P s"
proof (cases "create targets n now u dto key s")
  case (Pair r s')
  then show ?thesis by (cases rule: create_cases) (simp_all add: Pair books_hold_cong [of "s\<lparr>intents := _\<rparr>" s])
qed

lemma startExternal_state:
  assumes "startExternal charge targets ids now u iid m s = (r, s')"
  shows "\<exists>is. s' = s\<lparr>intents := is\<rparr>"
proof -
  have "s' = s \<or> (\<exists>i f j. updateIntent i f s = Inr (j, s'))"
    using assms
    by (auto simp: startExternal_def Let_def serializable_def split: option.splits sum.splits prod.splits)
  then show ?thesis
  proof
    assume "s' = s"
    then have "s' = s\<lparr>intents := intents s\<rparr>" by simp
    then show ?thesis by (rule exI)
  qed (auto dest!: updateIntent_InrD)
qed

lemma settleFromWallet_state:
  assumes "settleFromWallet targets ids now u iid key T details s = (r, s')"
  obtains (failed) "s' = s"
  | (settled) j q s1 s2 where "settleWithin ids now u iid key T s = Inr ((j, q), s1)"
      "s2 = audit (Some u) ''payment.settled'' ''PaymentIntent'' (Some (pi_id j)) None s1"
      "pt_afterCommit T = None \<longrightarrow> s' = s2 \<and> r = Inr (viewIntent targets j (describeIntent targets j s2))"
      "s' = s2 \<or> (\<exists>f p. pt_afterCommit T = Some f \<and> s' = snd (f p details s2))"
proof (cases "settleWithin ids now u iid key T s")
  case (Inl e)
  with assms that(1) show ?thesis by (simp add: settleFromWallet_def serializable_def)
next
  case (Inr x)
  obtain j q s1 where x: "x = ((j, q), s1)" by (metis surj_pair)
  with Inr assms show ?thesis
    by (intro that(2) [OF _ refl])
      (auto simp: settleFromWallet_def serializable_def Let_def split: option.splits)
qed

text \<open>How a confirmation ends: refused or answered as it stands, at the PIN, or past it.\<close>

definition confirmable :: "'m payments_db_scheme registry \<Rightarrow> string \<Rightarrow> string \<Rightarrow> confirm_dto \<Rightarrow> int \<Rightarrow> payment_intent \<Rightarrow>
    'm payments_db_scheme \<Rightarrow> bool" where
  "confirmable targets u iid dto now i s \<longleftrightarrow> findIntent iid u s = Some i \<and> pi_status i = PI_REQUIRES_CONFIRMATION
     \<and> now < pi_expiresAt i \<and> cf_method dto \<in> set (pt_methods (targets (pi_targetType i)))"

lemma confirm_cases:
  assumes "confirm verify charge targets ids now u iid dto key s = (r, s')"
  obtains (unchanged) "s' = s"
      "isl r \<or> (\<exists>i. findIntent iid u s = Some i \<and> pi_status i \<noteq> PI_REQUIRES_CONFIRMATION
          \<and> r = Inr (viewIntent targets i (describeIntent targets i s)))"
  | (pin) e where "r = Inl e" "verifyPin verify u (cf_transactionPin dto) now s = (Inl e, s')"
  | (past) i s1 where "confirmable targets u iid dto now i s"
      "verifyPin verify u (cf_transactionPin dto) now s = (Inr (), s1)"
      "(r, s') = (if cf_method dto = PM_WALLET
         then settleFromWallet targets ids now u iid key (targets (pi_targetType i)) (truthy (cf_customerReference dto)) s1
         else startExternal charge targets ids now u iid (cf_method dto) s1)"
proof (cases "findIntent iid u s")
  case None
  with assms show ?thesis by (intro that(1)) (auto simp: confirm_def)
next
  case (Some i)
  let ?T = "targets (pi_targetType i)"
  let ?pre = "case pt_verifyConfirmation ?T of None \<Rightarrow> Inr ()
     | Some check \<Rightarrow> check u (pi_targetId i) (truthy (cf_customerReference dto)) s"
  show ?thesis
  proof (cases "confirmable targets u iid dto now i s \<and> \<not> isl ?pre")
    case False
    with Some assms show ?thesis
      by (intro that(1)) (auto simp: confirm_def confirmable_def isPayable_def isConfirmable_def Let_def isl_def
          split: if_splits sum.splits)
  next
    case True
    then have pre: "?pre = Inr ()" by (cases ?pre) auto
    obtain x s1 where pin: "verifyPin verify u (cf_transactionPin dto) now s = (x, s1)" by fastforce
    show ?thesis
    proof (cases x)
      case (Inl e)
      with Some assms True pre pin show ?thesis
        by (intro that(2)) (auto simp: confirm_def confirmable_def isPayable_def isConfirmable_def Let_def)
    next
      case (Inr v)
      with Some assms True pre pin show ?thesis
        by (intro that(3) [of i s1]) (auto simp: confirm_def confirmable_def isPayable_def isConfirmable_def Let_def
            settlesSynchronously_def)
    qed
  qed
qed

context safe_target
begin

lemma settleFromWallet_books:
  assumes "books_hold P s"
  shows "books_hold P (snd (settleFromWallet targets ids now u iid key T details s))"
proof (cases "settleFromWallet targets ids now u iid key T details s")
  case (Pair r s')
  then show ?thesis
  proof (cases rule: settleFromWallet_state)
    case (settled j q s1 s2)
    from settleWithin_books [OF settled(1) assms] have "books_hold P s2"
      using settled(2) books_hold_cong [of s2 s1] by simp
    with settled(4) after_books Pair show ?thesis by auto
  qed (use assms Pair in simp)
qed

end

text \<open>The service over a registry whose products all keep the contract.\<close>

datatype payment_request =
    CreateRequest string int string create_dto string
  | ConfirmRequest pay_ids int string string confirm_dto string
  | DepositSucceeded string int string
  | DepositFailed string string

fun servePayment ::
  "(string \<Rightarrow> string \<Rightarrow> bool) \<Rightarrow> (payment_method \<Rightarrow> charge_input \<Rightarrow> provider_charge res) \<Rightarrow> 'm payments_db_scheme registry \<Rightarrow>
     payment_request \<Rightarrow> 'm payments_db_scheme \<Rightarrow> 'm payments_db_scheme" where
  "servePayment verify charge targets (CreateRequest n now u dto key) s = snd (create targets n now u dto key s)"
| "servePayment verify charge targets (ConfirmRequest ids now u iid dto key) s =
     snd (confirm verify charge targets ids now u iid dto key s)"
| "servePayment verify charge targets (DepositSucceeded n now ref) s = snd (settleSuccessful n now ref s)"
| "servePayment verify charge targets (DepositFailed ref reason) s = snd (settleFailed ref reason s)"

locale payment_products =
  fixes targets :: "'m payments_db_scheme registry" and P :: "fin_account \<Rightarrow> bool"
  assumes products: "safe_target (targets t) P"
begin

lemma confirm_books:
  assumes "books_hold P s"
  shows "books_hold P (snd (confirm verify charge targets ids now u iid dto key s))"
proof -
  have pin: "books_hold P s1" if "verifyPin verify u p now s = (r, s1)" for p r s1
    using verifyPin_frame [OF that] books_hold_cong [of s1 s] assms by simp
  have ext: "books_hold P (snd (startExternal charge targets ids now u iid m s1))" if "books_hold P s1" for s1 m
  proof (cases "startExternal charge targets ids now u iid m s1")
    case (Pair r s')
    from startExternal_state [OF Pair] that Pair show ?thesis by (auto simp: books_hold_cong [of "s1\<lparr>intents := _\<rparr>" s1])
  qed
  show ?thesis
  proof (cases "confirm verify charge targets ids now u iid dto key s")
    case (Pair r s')
    then show ?thesis
    proof (cases rule: confirm_cases)
      case (past i s1)
      have "books_hold P s1" by (rule pin [OF past(2)])
      with past(3) Pair ext safe_target.settleFromWallet_books [OF products] show ?thesis
        by (metis snd_conv)
    qed (use assms Pair pin in auto)
  qed
qed

lemma servePayment_books: "books_hold P s \<Longrightarrow> books_hold P (servePayment verify charge targets q s)"
  by (cases q) (simp_all add: create_books confirm_books settleSuccessful_books settleFailed_books)

end

sublocale payment_products \<subseteq> payment_history: request_safety "servePayment verify charge targets" "books_hold P"
  by unfold_locales (rule servePayment_books)


section \<open>Properties\<close>

text \<open>Ada tops up her wallet: an intent to confirm, one the provider reported failed, one in progress.\<close>

definition demo_intent :: "string \<Rightarrow> intent_status \<Rightarrow> string option \<Rightarrow> payment_intent" where
  "demo_intent i st ref = \<lparr>pi_id = i, pi_userId = ''ada'', pi_walletId = Some ''w1'', pi_status = st,
     pi_targetType = TT_WALLET_TOPUP, pi_targetId = None, pi_amount = 60000, pi_fee = 1500, pi_total = 61500,
     pi_currency = ''NGN'', pi_method = None, pi_providerReference = ref, pi_idempotencyKey = i,
     pi_ledgerTransactionId = None, pi_failureReason = None, pi_confirmedAt = None, pi_settledAt = None, pi_expiresAt = 1000\<rparr>"

definition demo_pay_db :: payments_db where
  "demo_pay_db = wallet_db.extend
     (demo_wallet_db\<lparr>accounts := accounts demo_wallet_db @ [demo_account ''fee'' PLATFORM_FEE_REVENUE None]\<rparr>)
     (payments_db.fields [demo_intent ''aaaaaaaa-1'' PI_REQUIRES_CONFIRMATION None,
        demo_intent ''aaaaaaaa-2'' PI_FAILED (Some ''ref2''), demo_intent ''aaaaaaaa-3'' PI_PROCESSING (Some ''ref3'')] [] [])"

definition demo_registry :: "payments_db registry" where
  "demo_registry t = WalletTopUpTarget"

definition demo_charge :: "payment_method \<Rightarrow> charge_input \<Rightarrow> provider_charge res" where
  "demo_charge m inp = (if ci_amount inp = 61500
     then Inr \<lparr>ch_providerReference = ''mock-'' @ ci_internalReference inp, ch_transferInstructions = None, ch_checkoutUrl = None\<rparr>
     else Inl (PlainError ''declined''))"

definition demo_pids :: pay_ids where
  "demo_pids = \<lparr>py_tx = ''tx1'', py_account = ''acc1'', py_row = ''row1'', py_hex = ''abc''\<rparr>"

definition demo_confirm_dto :: "payment_method \<Rightarrow> confirm_dto" where
  "demo_confirm_dto m = \<lparr>cf_method = m, cf_transactionPin = ''4071'', cf_customerReference = None\<rparr>"

definition demo_settled :: "(exn + settlement_outcome) \<times> payments_db" where
  "demo_settled = settleSuccessful ''tx2'' 7 ''ref2'' demo_pay_db"

definition demo_started :: "(exn + intent_view) \<times> payments_db" where
  "demo_started = confirm demo_verify demo_charge demo_registry demo_pids 50 ''ada'' ''aaaaaaaa-1'' (demo_confirm_dto PM_CARD) ''k'' demo_pay_db"

lemma pair_eq_fstI: "fst x = a \<Longrightarrow> x = (a, snd x)"
  by (cases x) simp

lemma demo_settled_eq: "settleSuccessful ''tx2'' 7 ''ref2'' demo_pay_db = (Inr (SETTLED ''aaaaaaaa-2''), snd demo_settled)"
proof -
  have "fst demo_settled = Inr (SETTLED ''aaaaaaaa-2'')" by code_simp
  from pair_eq_fstI [OF this] show ?thesis by (simp add: demo_settled_def)
qed

text \<open>The effect of a settled deposit, and that the intent row then says SUCCEEDED.\<close>

lemma settleSuccessful_SettledD:
  assumes "settleSuccessful n now ref s = (Inr (SETTLED iid), s')"
  obtains i c a r s1 j s2 where "findIntentByReference ref s = Some i" "pi_status i \<noteq> PI_SUCCEEDED" "pi_id i = iid"
    "List.find (\<lambda>k. pi_id k = iid) (intents s) = Some c"
    "accountsFor (pi_userId c) (pi_currency c) s = Inr a" "postWithin n now (depositCommand c a) s = Inr (r, s1)"
    "updateIntent iid (\<lambda>j. j\<lparr>pi_status := PI_SUCCEEDED, pi_ledgerTransactionId := Some (fst r), pi_settledAt := Some now\<rparr>) s1
       = Inr (j, s2)"
    "ledger_txs s' = ledger_txs s1" "intents s' = intents s2"
proof (cases "findIntentByReference ref s")
  case None
  with assms show ?thesis by (simp add: settleSuccessful_def)
next
  case (Some i)
  with assms obtain q s3 where i: "pi_status i \<noteq> PI_SUCCEEDED"
    and w: "settleDepositWithin n now (pi_id i) s = Inr ((SETTLED iid, q), s3)"
    and s': "ledger_txs s' = ledger_txs s3" "intents s' = intents s3"
    by (auto simp: settleSuccessful_def serializable_def Let_def outbox_def audit_def notify_def
        split: if_splits sum.splits prod.splits option.splits)
  from w show ?thesis
  proof (cases rule: settleDepositWithin_Inr_cases)
    case (deposit c a r s1 j s2)
    then have "ledger_txs s2 = ledger_txs s1" using updateIntent_frame by blast
    with deposit s' have led: "ledger_txs s' = ledger_txs s1" "intents s' = intents s2"
      by (simp_all add: outbox_def audit_def)
    from deposit have "pi_id i = iid" by simp
    then show ?thesis using that [OF Some i _ _ deposit(3,4)] deposit(1,5) led by simp
  qed auto
qed

lemma balance_deposit:
  assumes "postWithin n now (depositCommand c a) s = Inr (r, s1)" and "''payment-settlement:'' @ pi_id c \<notin> used_keys s"
  shows "accountBalanceWithin s1 x = accountBalanceWithin s x
    + (if x = fa_id (da_available a) then pi_amount c - pi_fee c else 0)
    + (if x = fa_id (da_feeRevenue a) \<and> pi_fee c > 0 then pi_fee c else 0)
    - (if x = fa_id (da_providerPayable a) then pi_amount c else 0)"
  using balance_post [OF assms(1), of x] assms(2) cmd_delta_deposit [of "depositCommand c a" c a x] by simp

definition intents_wf :: "'m payments_db_scheme \<Rightarrow> bool" where
  "intents_wf s \<longleftrightarrow> distinct (map pi_id (intents s))"

lemma findIntentByReference_found:
  assumes "findIntentByReference ref s = Some i"
  shows "i \<in> set (intents s) \<and> pi_providerReference i = Some ref"
  using assms by (auto simp: findIntentByReference_def dest: find_SomeD)

lemma findIntentByReference_update:
  assumes "findIntentByReference ref s = Some i" and "pi_id i = iid"
    and "\<And>j. pi_providerReference (f j) = pi_providerReference j"
  shows "List.find (\<lambda>i. pi_providerReference i = Some ref) (update_where (\<lambda>j. pi_id j = iid) f (intents s)) = Some (f i)"
  using assms by (simp add: findIntentByReference_def find_update_where)

text \<open>
  C8. A deposit is credited exactly once: the first success notice debits the provider with the
  amount, credits the wallet with the amount less the fee and the platform with the fee, and
  every later notice for that reference, success or failure, is answered ALREADY_SETTLED and
  changes nothing.
\<close>

theorem deposit_credited_once:
  assumes "settleSuccessful n now ref s = (Inr (SETTLED iid), s')" and "intents_wf s"
    and "''payment-settlement:'' @ iid \<notin> used_keys s"
  shows "\<exists>i a. findIntentByReference ref s = Some i \<and> pi_id i = iid \<and> accountsFor (pi_userId i) (pi_currency i) s = Inr a
    \<and> (\<forall>x. accountBalanceWithin s' x = accountBalanceWithin s x
        + (if x = fa_id (da_available a) then pi_amount i - pi_fee i else 0)
        + (if x = fa_id (da_feeRevenue a) \<and> pi_fee i > 0 then pi_fee i else 0)
        - (if x = fa_id (da_providerPayable a) then pi_amount i else 0))
    \<and> settleSuccessful n' now' ref s' = (Inr (ALREADY_SETTLED iid), s')
    \<and> settleFailed ref reason s' = (Inr (ALREADY_SETTLED iid), s')"
  using assms(1)
proof (rule settleSuccessful_SettledD)
  fix i c a r s1 j s2
  assume i: "findIntentByReference ref s = Some i" "pi_id i = iid"
    and c: "List.find (\<lambda>k. pi_id k = iid) (intents s) = Some c"
    and acc: "accountsFor (pi_userId c) (pi_currency c) s = Inr a"
    and p: "postWithin n now (depositCommand c a) s = Inr (r, s1)"
    and up: "updateIntent iid (\<lambda>j. j\<lparr>pi_status := PI_SUCCEEDED, pi_ledgerTransactionId := Some (fst r), pi_settledAt := Some now\<rparr>) s1
       = Inr (j, s2)"
    and s': "ledger_txs s' = ledger_txs s1" "intents s' = intents s2"
  from i c assms(2) have ci: "c = i"
    using find_key_unique [of pi_id "intents s" i] findIntentByReference_found [OF i(1)]
    by (auto simp: intents_wf_def)
  have "intents s1 = intents s" by (rule postWithin_only_ledger [OF p]) simp
  with s'(2) updateIntent_InrD [OF up] have "findIntentByReference ref s' =
      Some (i\<lparr>pi_status := PI_SUCCEEDED, pi_ledgerTransactionId := Some (fst r), pi_settledAt := Some now\<rparr>)"
    using findIntentByReference_update [OF i] by (auto simp: findIntentByReference_def)
  with i(2) have "settleSuccessful n' now' ref s' = (Inr (ALREADY_SETTLED iid), s')"
    "settleFailed ref reason s' = (Inr (ALREADY_SETTLED iid), s')"
    by (simp_all add: settleSuccessful_def settleFailed_def)
  with ci i acc s'(1) balance_deposit [OF p] assms(3) balance_cong [of s' s1] show ?thesis by auto
qed

theorem deposit_credited_once_witness:
  "pi_status (the (findIntentByReference ''ref2'' demo_pay_db)) = PI_FAILED
   \<and> settleSuccessful ''tx2'' 7 ''ref2'' demo_pay_db = (Inr (SETTLED ''aaaaaaaa-2''), snd demo_settled)
   \<and> settleSuccessful ''tx3'' 8 ''ref2'' (snd demo_settled) = (Inr (ALREADY_SETTLED ''aaaaaaaa-2''), snd demo_settled)
   \<and> accountBalanceWithin (snd demo_settled) ''wa'' = 59500"
proof -
  have h: "intents_wf demo_pay_db" "''payment-settlement:'' @ ''aaaaaaaa-2'' \<notin> used_keys demo_pay_db"
    and st: "pi_status (the (findIntentByReference ''ref2'' demo_pay_db)) = PI_FAILED"
    and b: "accountBalanceWithin (snd demo_settled) ''wa'' = 59500"
    by code_simp+
  from deposit_credited_once [OF demo_settled_eq h] demo_settled_eq st b show ?thesis by blast
qed

text \<open>
  Confirming with a transfer or a card moves no money: whatever the provider answers, no
  ledger transaction is added and the intent, if it changes at all, is left PROCESSING.
\<close>

theorem external_confirm_posts_nothing:
  assumes "confirm verify charge targets ids now u iid dto key s = (r, s')" and "cf_method dto \<noteq> PM_WALLET"
  shows "ledger_txs s' = ledger_txs s
    \<and> (\<forall>i \<in> set (intents s'). i \<in> set (intents s) \<or> pi_status i = PI_PROCESSING)"
  using assms(1)
proof (cases rule: confirm_cases)
  case (pin e)
  then show ?thesis by (auto elim: verifyPin_only_pins)
next
  case (past i s1)
  obtain ps where s1: "s1 = s\<lparr>pins := ps\<rparr>" using verifyPin_only_pins [OF past(2)] .
  from past(3) assms(2) have e: "startExternal charge targets ids now u iid (cf_method dto) s1 = (r, s')" by simp
  then have "s' = s1 \<or> (\<exists>k c j. updateIntent k (\<lambda>j. j\<lparr>pi_status := PI_PROCESSING, pi_method := Some (cf_method dto),
                   pi_providerReference := Some c, pi_confirmedAt := Some now\<rparr>) s1 = Inr (j, s'))"
    by (auto simp: startExternal_def Let_def serializable_def split: option.splits sum.splits prod.splits)
  then show ?thesis
    using s1 by (auto dest!: updateIntent_InrD simp: set_update_where)
qed simp


theorem external_confirm_posts_nothing_witness:
  "\<not> isl (fst demo_started) \<and> ledger_txs (snd demo_started) = ledger_txs demo_pay_db"
proof -
  have e: "confirm demo_verify demo_charge demo_registry demo_pids 50 ''ada'' ''aaaaaaaa-1'' (demo_confirm_dto PM_CARD) ''k'' demo_pay_db
      = (fst demo_started, snd demo_started)" by (simp add: demo_started_def)
  have m: "cf_method (demo_confirm_dto PM_CARD) \<noteq> PM_WALLET" by (simp add: demo_confirm_dto_def)
  have "\<not> isl (fst demo_started)" by code_simp
  with external_confirm_posts_nothing [OF e m] show ?thesis by simp
qed

text \<open>
  A quote is the target's, not the client's: a new intent carries the amount its target
  resolves to, which is positive, plus the assessed fee, expires in fifteen minutes and awaits
  confirmation; a target with a fixed amount accepts no amount from the client, one without a
  fee code is charged none; and repeating the request, whatever its body, returns that intent.
\<close>

theorem create_quotes_target:
  assumes "create targets n now u dto key s = (Inr v, s')" and "findIntentByKey u key s = None"
  shows "let T = targets (cd_targetType dto); i = iv_intent v in
    s' = s\<lparr>intents := intents s @ [i]\<rparr> \<and> pi_status i = PI_REQUIRES_CONFIRMATION \<and> pi_userId i = u
    \<and> (\<exists>target. pt_resolve T now u (cd_targetId dto) (cd_amount dto) s = Inr target
        \<and> pi_amount i = rt_amount target \<and> pi_currency i = rt_currency target)
    \<and> 0 < pi_amount i \<and> pi_total i = pi_amount i + pi_fee i \<and> pi_expiresAt i = now + 15 * 60 * 1000
    \<and> (pt_amountRule T = AR_fixed \<longrightarrow> cd_amount dto = None) \<and> (pt_feeCode T = None \<longrightarrow> pi_fee i = 0)
    \<and> (\<exists>v'. create targets n' now' u dto' key s' = (Inr v', s') \<and> iv_intent v' = i)"
  using assms(1)
proof (cases rule: create_cases)
  case (created i d)
  from created(3) obtain target fee where t: "pt_resolve (targets (cd_targetType dto)) now u (cd_targetId dto) (cd_amount dto) s = Inr target"
    and amt: "0 < rt_amount target" and fee: "quoteFee (targets (cd_targetType dto)) (rt_amount target) now (fee_definitions s) = Inr fee"
    and i: "i = newIntent n now u dto key target fee s"
    and rule: "pt_amountRule (targets (cd_targetType dto)) = AR_fixed \<longrightarrow> cd_amount dto = None"
    by (auto simp: quoteIntent_def res_iffs isPayableAmount_def split: if_splits)
  have "findIntentByKey u key s' = Some i"
    using created(2,4) i by (simp add: findIntentByKey_def find_append newIntent_def)
  then have "\<exists>v'. create targets n' now' u dto' key s' = (Inr v', s') \<and> iv_intent v' = i"
    by (simp add: create_def viewIntent_def)
  with created t amt fee i rule show ?thesis
    by (auto simp: Let_def viewIntent_def newIntent_def totalFor_def INTENT_TTL_MS_def quoteFee_def)
qed (use assms(2) in auto)

definition demo_create :: create_dto where
  "demo_create = \<lparr>cd_targetType = TT_WALLET_TOPUP, cd_targetId = None, cd_amount = Some 70000\<rparr>"

theorem create_quotes_target_witness:
  "\<exists>v s'. create demo_registry ''i9'' 5 ''ada'' demo_create ''knew'' demo_pay_db = (Inr v, s')
     \<and> pi_total (iv_intent v) = pi_amount (iv_intent v) + pi_fee (iv_intent v) \<and> pi_expiresAt (iv_intent v) = 900005"
proof -
  let ?x = "create demo_registry ''i9'' 5 ''ada'' demo_create ''knew'' demo_pay_db"
  have k: "findIntentByKey ''ada'' ''knew'' demo_pay_db = None" and "\<not> isl (fst ?x)" by code_simp+
  then obtain v where "?x = (Inr v, snd ?x)" by (metis isl_def prod.collapse sum.exhaust_sel)
  from create_quotes_target [OF this k] this show ?thesis by (auto simp: Let_def)
qed



text \<open>
  Two deposits whose intent ids agree in their first eight characters cannot both be
  credited: once one has settled, the success notice of the other fails every time, because the
  ledger reference is cut to those characters and references are unique.
\<close>

theorem deposit_reference_collision:
  assumes settled: "settleSuccessful n now ref1 s = (Inr (SETTLED id1), s')" and fresh: "''payment-settlement:'' @ id1 \<notin> used_keys s"
    and other: "findIntentByReference ref2 s' = Some i2" "pi_status i2 \<noteq> PI_SUCCEEDED" "intents_wf s'"
    and unposted: "''payment-settlement:'' @ pi_id i2 \<notin> used_keys s'"
    and same: "take 8 (pi_id i2) = take 8 id1"
  shows "\<exists>e. settleSuccessful n' now' ref2 s' = (Inl e, s')"
  using settled
proof (rule settleSuccessful_SettledD)
  fix i c a r s1 j s2
  assume "pi_id i = id1" and c: "List.find (\<lambda>k. pi_id k = id1) (intents s) = Some c"
    and p: "postWithin n now (depositCommand c a) s = Inr (r, s1)" and led: "ledger_txs s' = ledger_txs s1"
  from c have "pi_id c = id1" by (auto dest: find_SomeD)
  with p fresh have "createLedgerTx (postedTx n now (depositCommand c a)) s = Inr s1"
    using postWithin_fresh [OF p] by simp
  then have mem: "postedTx n now (depositCommand c a) \<in> set (ledger_txs s')"
    using led by (auto simp: createLedgerTx_def split: if_splits)
  have i2: "List.find (\<lambda>k. pi_id k = pi_id i2) (intents s') = Some i2"
    using find_key_unique [of pi_id "intents s'" i2] other(3) findIntentByReference_found [OF other(1)]
    by (simp add: intents_wf_def)
  have "\<exists>e. settleDepositWithin n' now' (pi_id i2) s' = Inl e"
  proof (cases "settleDepositWithin n' now' (pi_id i2) s'")
    case (Inr x)
    obtain res q s3 where x: "x = ((res, q), s3)" by (metis surj_pair)
    with Inr i2 other(2) obtain b r' s4 where post: "postWithin n' now' (depositCommand i2 b) s' = Inr (r', s4)"
      by (auto simp: settleDepositWithin_def res_iffs)
    from postWithin_fresh [OF post] unposted
    have "createLedgerTx (postedTx n' now' (depositCommand i2 b)) s' = Inr s4" by simp
    moreover have "lt_reference (postedTx n now (depositCommand c a)) = lt_reference (postedTx n' now' (depositCommand i2 b))"
      using same \<open>pi_id c = id1\<close> by (simp add: shortRef_def)
    ultimately show ?thesis using mem by (auto simp: createLedgerTx_def split: if_splits)
  qed blast
  with other show ?thesis by (auto simp: settleSuccessful_def serializable_def)
qed


theorem deposit_reference_collision_witness:
  "\<exists>e. settleSuccessful ''tx6'' 9 ''ref3'' (snd demo_settled) = (Inl e, snd demo_settled)"
proof -
  define i where "i = (intents demo_pay_db) ! 2"
  have h: "''payment-settlement:'' @ ''aaaaaaaa-2'' \<notin> used_keys demo_pay_db"
    "findIntentByReference ''ref3'' (snd demo_settled) = Some i" "pi_status i \<noteq> PI_SUCCEEDED" "intents_wf (snd demo_settled)"
    "''payment-settlement:'' @ pi_id i \<notin> used_keys (snd demo_settled)" "take 8 (pi_id i) = take 8 ''aaaaaaaa-2''"
    unfolding i_def by code_simp+
  show ?thesis by (rule deposit_reference_collision [OF demo_settled_eq h])
qed

end
