(* ===== verification/Webhooks.thy ===== *)
theory Webhooks
  imports Payments
begin

text \<open>
  Monnify webhooks: \<^verbatim>\<open>src/modules/webhooks\<close>. A delivery passes the signature guard, is
  recorded once per event id and, for a completed transaction, drives
  \<^verbatim>\<open>PaymentSettlementService\<close>. The digests (\<^verbatim>\<open>HMAC-SHA512\<close>, \<^verbatim>\<open>SHA-256\<close>) and the
  implementation-defined \<^verbatim>\<open>Date.parse\<close> are parameters. A JSON number is the text JavaScript
  prints for it.
\<close>

section \<open>Payloads\<close>

datatype json =
    JNull
  | JBool bool
  | JNumber string
  | JString string
  | JArray "json list"
  | JObject "(string \<times> json) list"

datatype event_kind =
  TRANSACTION_COMPLETION | REFUND_COMPLETION | DISBURSEMENT | SETTLEMENT | WALLET_ACTIVITY | LOW_BALANCE | BILLS_PAYMENT

fun kind_name :: "event_kind \<Rightarrow> string" where
  "kind_name TRANSACTION_COMPLETION = ''TRANSACTION_COMPLETION''"
| "kind_name REFUND_COMPLETION = ''REFUND_COMPLETION''"
| "kind_name DISBURSEMENT = ''DISBURSEMENT''"
| "kind_name SETTLEMENT = ''SETTLEMENT''"
| "kind_name WALLET_ACTIVITY = ''WALLET_ACTIVITY''"
| "kind_name LOW_BALANCE = ''LOW_BALANCE''"
| "kind_name BILLS_PAYMENT = ''BILLS_PAYMENT''"

fun MONNIFY_EVENT_PATHS :: "event_kind \<Rightarrow> string" where
  "MONNIFY_EVENT_PATHS TRANSACTION_COMPLETION = ''transaction-completion''"
| "MONNIFY_EVENT_PATHS REFUND_COMPLETION = ''refund-completion''"
| "MONNIFY_EVENT_PATHS DISBURSEMENT = ''disbursement''"
| "MONNIFY_EVENT_PATHS SETTLEMENT = ''settlement''"
| "MONNIFY_EVENT_PATHS WALLET_ACTIVITY = ''wallet-activity''"
| "MONNIFY_EVENT_PATHS LOW_BALANCE = ''low-balance''"
| "MONNIFY_EVENT_PATHS BILLS_PAYMENT = ''bills-payment''"

definition EVENT_TYPE_ALIASES :: "(string \<times> event_kind) list" where
  "EVENT_TYPE_ALIASES =
     [(''SUCCESSFUL_TRANSACTION'', TRANSACTION_COMPLETION), (''SUCCESSFUL_DISBURSEMENT'', DISBURSEMENT),
      (''FAILED_DISBURSEMENT'', DISBURSEMENT), (''REVERSED_DISBURSEMENT'', DISBURSEMENT),
      (''SUCCESSFUL_REFUND'', REFUND_COMPLETION), (''REFUND_COMPLETION'', REFUND_COMPLETION),
      (''SETTLEMENT'', SETTLEMENT), (''SETTLEMENT_COMPLETION'', SETTLEMENT), (''WALLET_ACTIVITY'', WALLET_ACTIVITY),
      (''LOW_BALANCE_ALERT'', LOW_BALANCE), (''BILLS_PAYMENT'', BILLS_PAYMENT)]"

text \<open>Names every JavaScript object inherits: looking them up in the alias table finds something.\<close>

definition object_prototype_keys :: "string list" where
  "object_prototype_keys = [''constructor'', ''__defineGetter__'', ''__defineSetter__'', ''hasOwnProperty'',
     ''__lookupGetter__'', ''__lookupSetter__'', ''isPrototypeOf'', ''propertyIsEnumerable'', ''toString'',
     ''valueOf'', ''__proto__'', ''toLocaleString'']"

record extracted_event =
  ee_eventId :: string
  ee_declaredType :: "string option"
  ee_routeMismatch :: bool
  ee_amount :: "int option"
  ee_currency :: "string option"
  ee_providerReference :: "string option"
  ee_internalReference :: "string option"
  ee_timestamp :: "string option"

fun asRecord :: "json option \<Rightarrow> (string \<times> json) list" where
  "asRecord (Some (JObject kvs)) = kvs"
| "asRecord _ = []"

definition field :: "(string \<times> json) list \<Rightarrow> string \<Rightarrow> json option" where
  "field source key = map_of source key"

definition is_finite_text :: "string \<Rightarrow> bool" where
  "is_finite_text t \<longleftrightarrow> t \<noteq> ''Infinity'' \<and> t \<noteq> ''-Infinity''"

fun readString :: "(string \<times> json) list \<Rightarrow> string list \<Rightarrow> string option" where
  "readString source [] = None"
| "readString source (key # keys) =
     (case field source key of
        Some (JString v) \<Rightarrow> if trim v \<noteq> [] then Some (trim v) else readString source keys
      | Some (JNumber t) \<Rightarrow> if is_finite_text t then Some t else readString source keys
      | _ \<Rightarrow> readString source keys)"

text \<open>\<^verbatim>\<open>BigInt\<close> of a text of digits.\<close>

definition digits_value :: "string \<Rightarrow> int" where
  "digits_value ds = foldl (\<lambda>n c. 10 * n + digit_value c) 0 ds"

definition is_negative :: "string \<Rightarrow> bool" where
  "is_negative t = (case t of c # _ \<Rightarrow> c = CHR ''-'' | [] \<Rightarrow> False)"

definition magnitude_text :: "string \<Rightarrow> string" where
  "magnitude_text t = (if is_negative t then tl t else t)"

definition whole_part :: "string \<Rightarrow> string" where
  "whole_part t = takeWhile (\<lambda>c. c \<noteq> CHR ''.'') (magnitude_text t)"

definition fraction_part :: "string \<Rightarrow> string" where
  "fraction_part t = tl (dropWhile (\<lambda>c. c \<noteq> CHR ''.'') (magnitude_text t))"

text \<open>The regular expression \<^verbatim>\<open>/^-?\d+(\.\d+)?$/\<close>.\<close>

definition is_decimal :: "string \<Rightarrow> bool" where
  "is_decimal t \<longleftrightarrow> whole_part t \<noteq> [] \<and> list_all is_digit (whole_part t) \<and> list_all is_digit (fraction_part t)
     \<and> (dropWhile (\<lambda>c. c \<noteq> CHR ''.'') (magnitude_text t) = [] \<or> fraction_part t \<noteq> [])"

fun json_text :: "json option \<Rightarrow> string option" where
  "json_text (Some (JString v)) = Some (trim v)"
| "json_text (Some (JNumber t)) = Some (trim t)"
| "json_text _ = None"

definition toMinorUnits :: "json option \<Rightarrow> int option" where
  "toMinorUnits v =
     (case json_text v of
        None \<Rightarrow> None
      | Some t \<Rightarrow>
          if \<not> is_decimal t then None
          else let fraction = fraction_part t; minorFraction = take 2 (fraction @ ''00'') in
            if length fraction > 2 \<and> \<not> list_all (\<lambda>c. c = CHR ''0'') (drop 2 fraction) then None
            else let magnitude = digits_value (whole_part t @ minorFraction) in
              Some (if is_negative t then - magnitude else magnitude))"

text \<open>\<^verbatim>\<open>a ?? b\<close> on properties that may be missing or null.\<close>

definition coalesce :: "json option \<Rightarrow> json option \<Rightarrow> json option" where
  "coalesce a b = (case a of None \<Rightarrow> b | Some JNull \<Rightarrow> b | Some v \<Rightarrow> Some v)"

definition declaredTypeOf :: "(string \<times> json) list \<Rightarrow> string option" where
  "declaredTypeOf payload = (case field payload ''eventType'' of Some (JString t) \<Rightarrow> Some t | _ \<Rightarrow> None)"

definition isRouteMismatch :: "string option \<Rightarrow> event_kind \<Rightarrow> bool" where
  "isRouteMismatch declaredType routeKind =
     (case declaredType of
        None \<Rightarrow> False
      | Some t \<Rightarrow> t \<noteq> [] \<and>
          (case map_of EVENT_TYPE_ALIASES t of
             Some k \<Rightarrow> k \<noteq> routeKind
           | None \<Rightarrow> t \<in> set object_prototype_keys))"

definition extractMonnifyEvent :: "(string \<times> json) list \<Rightarrow> event_kind \<Rightarrow> string \<Rightarrow> extracted_event" where
  "extractMonnifyEvent payload routeKind rawBodyHash =
     (let data = asRecord (field payload ''eventData'');
          providerReference = readString data
            [''transactionReference'', ''reference'', ''settlementReference'', ''refundReference'', ''transactionHash''] in
      \<lparr>ee_eventId = (case providerReference of
          Some r \<Rightarrow> join_colon (kind_name routeKind) r
        | None \<Rightarrow> join_colon (kind_name routeKind) (''sha256:'' @ rawBodyHash)),
       ee_declaredType = declaredTypeOf payload,
       ee_routeMismatch = isRouteMismatch (declaredTypeOf payload) routeKind,
       ee_amount = toMinorUnits (coalesce (field data ''amountPaid'') (coalesce (field data ''amount'') (field data ''settlementAmount''))),
       ee_currency = readString data [''currency'', ''currencyCode''],
       ee_providerReference = providerReference,
       ee_internalReference = readString data [''paymentReference'', ''merchantReference'', ''customerReference''],
       ee_timestamp = readString data [''paidOn'', ''createdOn'', ''eventTime'', ''completedOn'']\<rparr>)"

section \<open>Signatures\<close>

definition WEBHOOK_TIMESTAMP_TOLERANCE_MS :: int where
  "WEBHOOK_TIMESTAMP_TOLERANCE_MS = 5 * 60 * 1000"

text \<open>\<open>hmac secret body\<close> is the hexadecimal digest.\<close>

definition verifyMonnifySignature :: "(string \<Rightarrow> string \<Rightarrow> string) \<Rightarrow> string \<Rightarrow> string option \<Rightarrow> string \<Rightarrow> bool" where
  "verifyMonnifySignature hmac rawBody suppliedSignature secret =
     (case truthy suppliedSignature of
        None \<Rightarrow> False
      | Some sig \<Rightarrow>
          if secret = [] then False
          else let expected = hmac secret rawBody; supplied = toLowerCase (trim sig) in
            if length supplied \<noteq> length expected then False else supplied = expected)"

definition isWithinTimestampTolerance :: "(string \<Rightarrow> int option) \<Rightarrow> string option \<Rightarrow> int \<Rightarrow> bool" where
  "isWithinTimestampTolerance dateParse timestamp now =
     (case truthy timestamp of
        None \<Rightarrow> True
      | Some t \<Rightarrow> (case dateParse t of None \<Rightarrow> True | Some parsed \<Rightarrow> \<bar>now - parsed\<bar> \<le> WEBHOOK_TIMESTAMP_TOLERANCE_MS))"

section \<open>MonnifyWebhooksService\<close>

datatype processing_status = EP_PENDING | EP_PROCESSING | EP_PROCESSED | EP_FAILED | EP_DEAD_LETTERED

record webhook_row =
  we_provider :: string
  we_eventId :: string
  we_payloadHash :: string
  we_signatureHash :: "string option"
  we_status :: processing_status
  we_failureReason :: "string option"
  we_processedAt :: "int option"

record webhook_db = payments_db +
  webhook_events :: "webhook_row list"

definition PROVIDER :: string where
  "PROVIDER = ''monnify''"

definition findEvent :: "string \<Rightarrow> 'm webhook_db_scheme \<Rightarrow> webhook_row option" where
  "findEvent eventId s = List.find (\<lambda>e. we_provider e = PROVIDER \<and> we_eventId e = eventId) (webhook_events s)"

definition createEvent :: "webhook_row \<Rightarrow> ('m webhook_db_scheme, unit) tx" where
  "createEvent row s =
     (if \<exists>e \<in> set (webhook_events s). we_provider e = we_provider row \<and> we_eventId e = we_eventId row
      then Inl UniqueViolation else Inr ((), s\<lparr>webhook_events := webhook_events s @ [row]\<rparr>))"

definition updateEvent :: "string \<Rightarrow> (webhook_row \<Rightarrow> webhook_row) \<Rightarrow> ('m webhook_db_scheme, unit) tx" where
  "updateEvent eventId f s =
     (if findEvent eventId s = None then Inl RecordMissing
      else Inr ((), s\<lparr>webhook_events := update_where (\<lambda>e. we_provider e = PROVIDER \<and> we_eventId e = eventId) f (webhook_events s)\<rparr>))"

definition applyToLedger :: "string \<Rightarrow> int \<Rightarrow> event_kind \<Rightarrow> extracted_event \<Rightarrow> ('m webhook_db_scheme, unit) handler" where
  "applyToLedger newTx now kind event s =
     (case truthy (ee_providerReference event) of
        None \<Rightarrow> (Inr (), s)
      | Some ref \<Rightarrow>
      if kind \<noteq> TRANSACTION_COMPLETION then (Inr (), s)
      else
        (let (outcome, s1) = (if ee_declaredType event = Some ''FAILED_TRANSACTION''
                              then settleFailed ref ''Provider reported a failure'' s
                              else settleSuccessful newTx now ref s);
             failure = serializable (updateEvent (ee_eventId event)
                 (\<lambda>e. e\<lparr>we_failureReason := Some ''Ledger posting failed; awaiting retry''\<rparr>)) in
         case outcome of
           Inl _ \<Rightarrow> failure s1
         | Inr UNMATCHED \<Rightarrow> (Inr (), s1)
         | Inr _ \<Rightarrow>
             (case updateEvent (ee_eventId event) (\<lambda>e. e\<lparr>we_status := EP_PROCESSED, we_processedAt := Some now\<rparr>) s1 of
                Inr (_, s2) \<Rightarrow> (Inr (), s2)
              | Inl _ \<Rightarrow> failure s1)))"

text \<open>The answer: whether this delivery was the first.\<close>

definition recordEvent ::
  "(string \<Rightarrow> string) \<Rightarrow> (string \<Rightarrow> int option) \<Rightarrow> string \<Rightarrow> int \<Rightarrow> event_kind \<Rightarrow> (string \<times> json) list \<Rightarrow> string \<Rightarrow> string option \<Rightarrow>
     ('m webhook_db_scheme, bool) handler" where
  "recordEvent sha256 dateParse newTx now kind payload rawBody signature s =
     (let event = extractMonnifyEvent payload kind (sha256 rawBody);
          stale = (\<not> isWithinTimestampTolerance dateParse (ee_timestamp event) now) in
      case findEvent (ee_eventId event) s of
        Some _ \<Rightarrow> (Inr False, s)
      | None \<Rightarrow>
      (case createEvent
          \<lparr>we_provider = PROVIDER, we_eventId = ee_eventId event, we_payloadHash = sha256 rawBody,
           we_signatureHash = map_option sha256 (truthy signature),
           we_status = (if stale then EP_FAILED else EP_PENDING),
           we_failureReason = (if stale then Some ''Event timestamp outside tolerance'' else None),
           we_processedAt = None\<rparr> s of
         Inl e \<Rightarrow> (if e = UniqueViolation then (Inr False, s) else (Inl e, s))
       | Inr (_, s1) \<Rightarrow>
         (let s2 = audit None (''webhook.monnify.'' @ toLowerCase (kind_name kind)) ''PaymentWebhookEvent'' None None s1 in
          if stale then (Inr True, s2)
          else case applyToLedger newTx now kind event s2 of
            (Inl e, s3) \<Rightarrow> (Inl e, s3)
          | (Inr _, s3) \<Rightarrow> (Inr True, s3))))"

text \<open>The configuration the guard reads, and a request with its raw body and signature header.\<close>

record webhook_config =
  wc_enabled :: bool
  wc_secret :: "string option"

definition signatureGuard :: "(string \<Rightarrow> string \<Rightarrow> string) \<Rightarrow> webhook_config \<Rightarrow> string option \<Rightarrow> string option \<Rightarrow> unit res" where
  "signatureGuard hmac config rawBody supplied =
     (if \<not> wc_enabled config then Inl (ServiceUnavailable ''Webhook endpoint is not enabled'')
      else case truthy (wc_secret config) of
        None \<Rightarrow> Inl (ServiceUnavailable ''Webhook endpoint is not enabled'')
      | Some secret \<Rightarrow>
      (case rawBody of
         None \<Rightarrow> Inl (Unauthorized ''Invalid webhook signature'')
       | Some body \<Rightarrow>
           if verifyMonnifySignature hmac body supplied secret then Inr ()
           else Inl (Unauthorized ''Invalid webhook signature'')))"

definition handleWebhook ::
  "(string \<Rightarrow> string \<Rightarrow> string) \<Rightarrow> (string \<Rightarrow> string) \<Rightarrow> (string \<Rightarrow> int option) \<Rightarrow> webhook_config \<Rightarrow> string \<Rightarrow> int \<Rightarrow>
     event_kind \<Rightarrow> (string \<times> json) list \<Rightarrow> string option \<Rightarrow> string option \<Rightarrow> ('m webhook_db_scheme, bool) handler" where
  "handleWebhook hmac sha256 dateParse config newTx now kind payload rawBody signature s =
     (case signatureGuard hmac config rawBody signature of
        Inl e \<Rightarrow> (Inl e, s)
      | Inr _ \<Rightarrow> recordEvent sha256 dateParse newTx now kind payload (or_default rawBody []) signature s)"


section \<open>Decimal texts\<close>

lemma digits_value_snoc: "digits_value (ds @ [c]) = 10 * digits_value ds + digit_value c"
  by (simp add: digits_value_def)

lemma digits_value_append: "digits_value (as @ bs) = digits_value as * 10 ^ length bs + digits_value bs"
proof (induction bs rule: rev_induct)
  case (snoc b bs)
  have "digits_value (as @ bs @ [b]) = 10 * digits_value (as @ bs) + digit_value b"
    using digits_value_snoc [of "as @ bs" b] by simp
  with snoc digits_value_snoc [of bs b] show ?case by (simp add: algebra_simps)
qed (simp add: digits_value_def)

lemma digit_value_range: "is_digit c \<Longrightarrow> 0 \<le> digit_value c \<and> digit_value c \<le> 9"
  by (auto simp: is_digit_def digit_value_def)

lemma char_code_eq_iff: "char_code c = char_code d \<longleftrightarrow> c = d"
  by (simp add: char_code_def)

lemma digit_value_zero: "is_digit c \<Longrightarrow> digit_value c = 0 \<longleftrightarrow> c = CHR ''0''"
  using char_code_eq_iff [of c "CHR ''0''"] by (simp add: is_digit_def digit_value_def) (simp add: char_code_def)

lemma digits_value_range: "list_all is_digit ds \<Longrightarrow> 0 \<le> digits_value ds \<and> digits_value ds < 10 ^ length ds"
proof (induction ds rule: rev_induct)
  case (snoc d ds)
  then have "0 \<le> digits_value ds" "digits_value ds < 10 ^ length ds" "0 \<le> digit_value d" "digit_value d \<le> 9"
    using digit_value_range [of d] by auto
  then show ?case by (simp add: digits_value_snoc)
qed (simp add: digits_value_def)

lemma digits_value_zero: "list_all is_digit ds \<Longrightarrow> digits_value ds = 0 \<longleftrightarrow> list_all (\<lambda>c. c = CHR ''0'') ds"
proof (induction ds rule: rev_induct)
  case (snoc d ds)
  then have "0 \<le> digits_value ds" "0 \<le> digit_value d"
    using digit_value_range [of d] digits_value_range [of ds] by auto
  then have "digits_value (ds @ [d]) = 0 \<longleftrightarrow> digits_value ds = 0 \<and> digit_value d = 0"
    by (auto simp: digits_value_snoc)
  with snoc digit_value_zero [of d] show ?case by auto
qed (simp add: digits_value_def)

lemma list_all_drop: "list_all P xs \<Longrightarrow> list_all P (drop n xs)"
  by (auto simp: list_all_iff dest: in_set_dropD)

text \<open>The minor units of a magnitude, against the exact rational it denotes.\<close>

lemma magnitude_exact:
  assumes "list_all is_digit f"
  shows "(if length f > 2 \<and> \<not> list_all (\<lambda>c. c = CHR ''0'') (drop 2 f) then None
      else Some (digits_value (w @ take 2 (f @ ''00'')))) = Some m \<longleftrightarrow>
    m * 10 ^ length f = 100 * digits_value (w @ f)"
proof (cases "length f > 2")
  case False
  define k where "k = 2 - length f"
  have t: "take 2 (f @ ''00'') = f @ replicate k CHR ''0''"
    using False by (cases f; cases "tl f") (auto simp: k_def numeral_2_eq_2)
  have z: "digits_value (replicate k CHR ''0'') = 0"
    by (induction k) (simp_all add: digits_value_def digit_value_def char_code_def)
  have "digits_value (w @ take 2 (f @ ''00'')) = digits_value (w @ f) * 10 ^ k"
    unfolding t using digits_value_append [of "w @ f" "replicate k CHR ''0''"] z by simp
  moreover have "(10 :: int) ^ k * 10 ^ length f = 100"
    using False by (simp add: k_def flip: power_add)
  ultimately have "digits_value (w @ take 2 (f @ ''00'')) * 10 ^ length f = 100 * digits_value (w @ f)"
    by (metis mult.assoc mult.commute)
  then have "m * 10 ^ length f = 100 * digits_value (w @ f) \<longleftrightarrow> digits_value (w @ take 2 (f @ ''00'')) = m"
    by (metis mult_right_cancel power_not_zero zero_neq_numeral)
  with False show ?thesis by simp
next
  case True
  define g where "g = drop 2 f"
  have dig: "list_all is_digit g" unfolding g_def by (rule list_all_drop [OF assms])
  have t: "take 2 (f @ ''00'') = take 2 f" using True by simp
  have len: "length f = length g + 2" using True by (simp add: g_def)
  have "digits_value (w @ f) = digits_value (w @ take 2 f) * 10 ^ length g + digits_value g"
    using digits_value_append [of "w @ take 2 f" g] by (simp add: g_def)
  then have "m * 10 ^ length f = 100 * digits_value (w @ f) \<longleftrightarrow>
      (m - digits_value (w @ take 2 f)) * 10 ^ length g = digits_value g"
    by (simp add: len algebra_simps power_add) linarith
  also have "\<dots> \<longleftrightarrow> m = digits_value (w @ take 2 f) \<and> digits_value g = 0"
  proof
    assume e: "(m - digits_value (w @ take 2 f)) * 10 ^ length g = digits_value g"
    with digits_value_range [OF dig]
    have "0 \<le> (m - digits_value (w @ take 2 f)) * 10 ^ length g"
      "(m - digits_value (w @ take 2 f)) * 10 ^ length g < 1 * 10 ^ length g" by simp_all
    moreover have "(0 :: int) < 10 ^ length g" by simp
    ultimately have "0 \<le> m - digits_value (w @ take 2 f)" "m - digits_value (w @ take 2 f) < 1"
      using mult_less_cancel_right_pos [of "10 ^ length g" _ 1] by (simp_all add: zero_le_mult_iff)
    then have "m = digits_value (w @ take 2 f)" by linarith
    with e show "m = digits_value (w @ take 2 f) \<and> digits_value g = 0" by simp
  qed simp
  finally show ?thesis using True digits_value_zero [OF dig] by (auto simp: t g_def)
qed


section \<open>What a delivery touches\<close>

lemma updateIntent_events: "updateIntent i f s = Inr (j, s') \<Longrightarrow> webhook_events s' = webhook_events s"
  by (auto dest!: updateIntent_InrD)

lemma postWithin_events: "postWithin i now c s = Inr (r, s') \<Longrightarrow> webhook_events s' = webhook_events s"
  by (erule postWithin_only_ledger) simp

lemma settleSuccessful_events: "settleSuccessful n now ref s = (r, s') \<Longrightarrow> webhook_events s' = webhook_events s"
  by (auto simp: settleSuccessful_def serializable_def Let_def notify_def outbox_def audit_def
      split: option.splits if_splits sum.splits prod.splits
      elim!: settleDepositWithin_Inr_cases dest!: updateIntent_events postWithin_events)

lemma settleFailed_events: "settleFailed ref reason s = (r, s') \<Longrightarrow> webhook_events s' = webhook_events s"
  by (auto simp: settleFailed_def serializable_def split: option.splits if_splits sum.splits dest!: updateIntent_events)

lemma findEvent_updated:
  assumes "updateEvent i f s = Inr (u, s')" and "\<And>e. we_provider (f e) = we_provider e" "\<And>e. we_eventId (f e) = we_eventId e"
  shows "findEvent j s' = None \<longleftrightarrow> findEvent j s = None"
  using assms by (auto simp: updateEvent_def findEvent_def find_update_where split: if_splits option.splits)

lemma updateEvent_frame: "updateEvent i f s = Inr (u, s') \<Longrightarrow> ledger_txs s' = ledger_txs s \<and> intents s' = intents s"
  by (auto simp: updateEvent_def split: if_splits)

lemma applyToLedger_cases:
  assumes "applyToLedger n now kind event s = (r, s')"
  obtains (skip) "s' = s"
  | (settled) ref x s1 where "kind = TRANSACTION_COMPLETION" "ee_providerReference event = Some ref"
      "if ee_declaredType event = Some ''FAILED_TRANSACTION''
       then settleFailed ref ''Provider reported a failure'' s = (x, s1) else settleSuccessful n now ref s = (x, s1)"
      "s' = s1 \<or> (\<exists>f u. updateEvent (ee_eventId event) f s1 = Inr (u, s')
         \<and> (\<forall>e. we_provider (f e) = we_provider e \<and> we_eventId (f e) = we_eventId e))"
proof (cases "kind = TRANSACTION_COMPLETION \<and> truthy (ee_providerReference event) \<noteq> None")
  case False
  with assms have "s' = s" by (auto simp: applyToLedger_def split: option.splits)
  then show ?thesis by (rule that(1))
next
  case True
  then obtain ref where ref: "truthy (ee_providerReference event) = Some ref" and k: "kind = TRANSACTION_COMPLETION" by auto
  then have ref': "ee_providerReference event = Some ref" by (auto simp: truthy_def split: option.splits if_splits)
  define y where "y = (if ee_declaredType event = Some ''FAILED_TRANSACTION''
      then settleFailed ref ''Provider reported a failure'' s else settleSuccessful n now ref s)"
  obtain x s1 where y: "y = (x, s1)" by fastforce
  with assms ref k have "s' = s1 \<or> (\<exists>f u. updateEvent (ee_eventId event) f s1 = Inr (u, s')
         \<and> (\<forall>e. we_provider (f e) = we_provider e \<and> we_eventId (f e) = we_eventId e))"
    by (fastforce simp: applyToLedger_def serializable_def Let_def simp flip: y_def
        split: sum.splits prod.splits settlement_outcome.splits)
  with that(2) [OF k ref'] y show ?thesis by (auto simp: y_def split: if_splits)
qed

lemma applyToLedger_findEvent:
  assumes "applyToLedger n now kind event s = (r, s')"
  shows "findEvent j s' = None \<longleftrightarrow> findEvent j s = None"
  using assms
proof (cases rule: applyToLedger_cases)
  case (settled ref x s1)
  from settled(3) have "webhook_events s1 = webhook_events s"
    by (auto split: if_splits dest: settleSuccessful_events settleFailed_events)
  then have "findEvent j s1 = findEvent j s" by (simp add: findEvent_def)
  with settled(4) findEvent_updated show ?thesis by metis
qed simp

text \<open>The state an event is applied to: recorded and audited.\<close>

lemma recordEvent_cases:
  assumes "recordEvent sha256 dp n now kind payload body sg s = (r, s')"
  defines "event \<equiv> extractMonnifyEvent payload kind (sha256 body)"
  obtains (duplicate) "findEvent (ee_eventId event) s \<noteq> None" "s' = s" "r = Inr False"
  | (first) s2 where "findEvent (ee_eventId event) s = None" "findEvent (ee_eventId event) s2 \<noteq> None"
      "ledger_txs s2 = ledger_txs s" "intents s2 = intents s"
      "s' = s2 \<or> (isWithinTimestampTolerance dp (ee_timestamp event) now \<and> (\<exists>x. applyToLedger n now kind event s2 = (x, s')))"
proof (cases "findEvent (ee_eventId event) s")
  case (Some e)
  with assms show ?thesis by (intro that(1)) (auto simp: recordEvent_def Let_def)
next
  case None
  define row where "row = \<lparr>we_provider = PROVIDER, we_eventId = ee_eventId event, we_payloadHash = sha256 body,
           we_signatureHash = map_option sha256 (truthy sg),
           we_status = (if \<not> isWithinTimestampTolerance dp (ee_timestamp event) now then EP_FAILED else EP_PENDING),
           we_failureReason = (if \<not> isWithinTimestampTolerance dp (ee_timestamp event) now
             then Some ''Event timestamp outside tolerance'' else None),
           we_processedAt = None\<rparr>"
  define s2 where "s2 = audit None (''webhook.monnify.'' @ toLowerCase (kind_name kind)) ''PaymentWebhookEvent'' None None
      (s\<lparr>webhook_events := webhook_events s @ [row]\<rparr>)"
  from None have "createEvent row s = Inr ((), s\<lparr>webhook_events := webhook_events s @ [row]\<rparr>)"
    by (auto simp: createEvent_def findEvent_def find_None_iff row_def)
  with None assms(1) have "s' = s2 \<or> (isWithinTimestampTolerance dp (ee_timestamp event) now
      \<and> (\<exists>x. applyToLedger n now kind event s2 = (x, s')))"
    by (auto simp: recordEvent_def Let_def s2_def simp flip: event_def row_def split: if_splits sum.splits prod.splits)
  moreover have "findEvent (ee_eventId event) s2 \<noteq> None"
    using None by (simp add: s2_def audit_def findEvent_def find_append row_def)
  moreover have "ledger_txs s2 = ledger_txs s" "intents s2 = intents s" by (simp_all add: s2_def audit_def)
  ultimately show ?thesis using that(2) None by blast
qed


section \<open>Properties\<close>

text \<open>Deliveries for Ada's third top-up: one naira paid, and one the provider declares failed.\<close>

definition demo_payload :: "string \<Rightarrow> (string \<times> json) list" where
  "demo_payload declared = [(''eventType'', JString declared),
     (''eventData'', JObject [(''transactionReference'', JString ''ref3''), (''amountPaid'', JNumber ''1'')])]"

definition demo_hook_db :: webhook_db where
  "demo_hook_db = payments_db.extend demo_pay_db (webhook_db.fields [])"

definition demo_config :: webhook_config where
  "demo_config = \<lparr>wc_enabled = True, wc_secret = Some ''secret''\<rparr>"

definition demo_hmac :: "string \<Rightarrow> string \<Rightarrow> string" where
  "demo_hmac secret body = ''d'' @ toLowerCase body"

definition demo_delivery :: "string \<Rightarrow> webhook_db \<Rightarrow> (exn + bool) \<times> webhook_db" where
  "demo_delivery declared = recordEvent (\<lambda>b. b) (\<lambda>t. None) ''tx7'' 9 TRANSACTION_COMPLETION (demo_payload declared) ''body'' (Some ''dbody'')"

definition demo_hooked :: "(exn + bool) \<times> webhook_db" where
  "demo_hooked = handleWebhook demo_hmac (\<lambda>b. b) (\<lambda>t. None) demo_config ''tx7'' 9 TRANSACTION_COMPLETION
     (demo_payload ''SUCCESSFUL_TRANSACTION'') (Some ''body'') (Some '' DBODY '') demo_hook_db"

text \<open>
  Amounts are converted without rounding: a payload amount becomes \<open>m\<close> minor units exactly when
  it is a decimal text whose value in hundredths is the whole number \<open>m\<close>; anything else,
  a text that is not a decimal or one with a fraction of a minor unit, is refused.
\<close>

theorem toMinorUnits_exact:
  "toMinorUnits v = Some m \<longleftrightarrow>
     (\<exists>t. json_text v = Some t \<and> is_decimal t
        \<and> m * 10 ^ length (fraction_part t)
            = 100 * ((if is_negative t then -1 else 1) * digits_value (whole_part t @ fraction_part t)))"
proof (cases "json_text v")
  case (Some t)
  show ?thesis
  proof (cases "is_decimal t")
    case True
    then have "list_all is_digit (fraction_part t)" by (simp add: is_decimal_def)
    note exact = magnitude_exact [OF this, of "whole_part t"]
    show ?thesis
    proof (cases "is_negative t")
      case neg: True
      have "toMinorUnits v = Some m \<longleftrightarrow>
          (if length (fraction_part t) > 2 \<and> \<not> list_all (\<lambda>c. c = CHR ''0'') (drop 2 (fraction_part t)) then None
           else Some (digits_value (whole_part t @ take 2 (fraction_part t @ ''00'')))) = Some (- m)"
        using Some True neg by (auto simp: toMinorUnits_def Let_def)
      also have "\<dots> \<longleftrightarrow> - m * 10 ^ length (fraction_part t) = 100 * digits_value (whole_part t @ fraction_part t)"
        by (rule exact)
      finally show ?thesis using Some True neg by auto
    next
      case False
      then have "toMinorUnits v =
          (if length (fraction_part t) > 2 \<and> \<not> list_all (\<lambda>c. c = CHR ''0'') (drop 2 (fraction_part t)) then None
           else Some (digits_value (whole_part t @ take 2 (fraction_part t @ ''00''))))"
        using Some True by (simp add: toMinorUnits_def Let_def)
      with exact [of m] Some True False show ?thesis by simp
    qed
  qed (use Some in \<open>simp add: toMinorUnits_def\<close>)
qed (simp add: toMinorUnits_def)

theorem toMinorUnits_exact_witness:
  "toMinorUnits (Some (JString ''-5000.550'')) = Some (- 500055)
   \<and> (- 500055 :: int) * 10 ^ length ''550'' = 100 * (- 1 * digits_value ''5000550'')"
proof -
  have e: "toMinorUnits (Some (JString ''-5000.550'')) = Some (- 500055)" by code_simp
  have t: "json_text (Some (JString ''-5000.550'')) = Some ''-5000.550''" "is_negative ''-5000.550''"
    "fraction_part ''-5000.550'' = ''550''" "whole_part ''-5000.550'' @ fraction_part ''-5000.550'' = ''5000550''" by code_simp+
  from e [unfolded toMinorUnits_exact] have "(- 500055 :: int) * 10 ^ length ''550'' = 100 * (- 1 * digits_value ''5000550'')"
    unfolding t(1) by (simp only: option.inject t ex_simps simp_thms if_True) (use t in \<open>auto\<close>)
  with e show ?thesis by blast
qed

text \<open>
  Every event takes effect at most once: after a delivery, whatever came of it, a delivery
  with the same event id is acknowledged as a duplicate and changes nothing. The id is the kind
  and the provider's reference alone, so this also drops a success reported after a failure, and
  a retry of a delivery whose posting failed.
\<close>

theorem redelivery_changes_nothing:
  assumes "recordEvent sha256 dp n now kind payload body sg s = (r, s')"
    and "ee_eventId (extractMonnifyEvent payload' kind' (sha256 body')) = ee_eventId (extractMonnifyEvent payload kind (sha256 body))"
  shows "recordEvent sha256 dp n' now' kind' payload' body' sg' s' = (Inr False, s')"
proof -
  let ?id = "ee_eventId (extractMonnifyEvent payload kind (sha256 body))"
  from assms(1) have "findEvent ?id s' \<noteq> None"
  proof (cases rule: recordEvent_cases)
    case (first s2)
    then show ?thesis using applyToLedger_findEvent by metis
  qed simp
  with assms(2) show ?thesis by (auto simp: recordEvent_def Let_def)
qed

theorem redelivery_changes_nothing_witness:
  "let s' = snd (demo_delivery ''FAILED_TRANSACTION'' demo_hook_db) in
     demo_delivery ''SUCCESSFUL_TRANSACTION'' s' = (Inr False, s') \<and> accountBalanceWithin s' ''wa'' = 1000"
proof -
  let ?s = "snd (demo_delivery ''FAILED_TRANSACTION'' demo_hook_db)"
  have r: "recordEvent (\<lambda>b. b) (\<lambda>t. None) ''tx7'' 9 TRANSACTION_COMPLETION (demo_payload ''FAILED_TRANSACTION'') ''body'' (Some ''dbody'')
      demo_hook_db = (fst (demo_delivery ''FAILED_TRANSACTION'' demo_hook_db), ?s)" by (simp add: demo_delivery_def)
  have e: "ee_eventId (extractMonnifyEvent (demo_payload ''SUCCESSFUL_TRANSACTION'') TRANSACTION_COMPLETION ((\<lambda>b. b) ''body'')) =
      ee_eventId (extractMonnifyEvent (demo_payload ''FAILED_TRANSACTION'') TRANSACTION_COMPLETION ((\<lambda>b. b) ''body''))" by code_simp
  have "accountBalanceWithin ?s ''wa'' = 1000" by code_simp
  with redelivery_changes_nothing [OF r e, of "''tx7''" 9 "Some ''dbody''"] show ?thesis
    by (simp add: demo_delivery_def)
qed

lemma settleSuccessful_posts:
  assumes "settleSuccessful n now ref s = (x, s')" and "ledger_txs s' \<noteq> ledger_txs s"
  shows "\<exists>i \<in> set (intents s). pi_providerReference i = Some ref \<and> pi_status i \<noteq> PI_SUCCEEDED"
proof (cases "findIntentByReference ref s")
  case None
  with assms show ?thesis by (simp add: settleSuccessful_def)
next
  case (Some i)
  with assms have "pi_status i \<noteq> PI_SUCCEEDED" by (auto simp: settleSuccessful_def)
  with findIntentByReference_found [OF Some] show ?thesis by blast
qed

lemma settleFailed_ledger: "settleFailed ref reason s = (x, s') \<Longrightarrow> ledger_txs s' = ledger_txs s"
  by (auto simp: settleFailed_def serializable_def split: option.splits if_splits sum.splits dest!: updateIntent_frame)

text \<open>
  C17. Money enters only by a genuine, timely, first delivery for a payment that was asked for: if a
  webhook request changes the ledger, webhooks are enabled, the signature is the digest of the
  exact body under the configured secret, the event is a transaction completion not declared
  failed, not stale and not seen before, and its reference is that of an unsettled intent.
\<close>

theorem webhook_posts_only_when:
  assumes "handleWebhook hmac sha256 dp config n now kind payload body sg s = (r, s')" and "ledger_txs s' \<noteq> ledger_txs s"
  shows "\<exists>secret b sig event ref. event = extractMonnifyEvent payload kind (sha256 b)
    \<and> wc_enabled config \<and> wc_secret config = Some secret \<and> body = Some b \<and> sg = Some sig
    \<and> toLowerCase (trim sig) = hmac secret b \<and> kind = TRANSACTION_COMPLETION
    \<and> ee_declaredType event \<noteq> Some ''FAILED_TRANSACTION'' \<and> isWithinTimestampTolerance dp (ee_timestamp event) now
    \<and> findEvent (ee_eventId event) s = None \<and> ee_providerReference event = Some ref
    \<and> (\<exists>i \<in> set (intents s). pi_providerReference i = Some ref \<and> pi_status i \<noteq> PI_SUCCEEDED)"
proof -
  from assms obtain secret b sig where g: "wc_enabled config" "wc_secret config = Some secret" "body = Some b" "sg = Some sig"
      "toLowerCase (trim sig) = hmac secret b"
    and rec: "recordEvent sha256 dp n now kind payload b sg s = (r, s')"
    by (auto simp: handleWebhook_def signatureGuard_def verifyMonnifySignature_def truthy_def or_default_def Let_def
        split: option.splits if_splits sum.splits)
  let ?e = "extractMonnifyEvent payload kind (sha256 b)"
  from rec show ?thesis
  proof (cases rule: recordEvent_cases)
    case (first s2)
    with assms(2) obtain x where t: "isWithinTimestampTolerance dp (ee_timestamp ?e) now"
      and app: "applyToLedger n now kind ?e s2 = (x, s')" by auto
    from app show ?thesis
    proof (cases rule: applyToLedger_cases)
      case skip
      with assms(2) first(3) show ?thesis by simp
    next
      case (settled ref y s1)
      from settled(4) have "ledger_txs s' = ledger_txs s1" by (auto dest: updateEvent_frame)
      with assms(2) first(3) have ch: "ledger_txs s1 \<noteq> ledger_txs s2" by simp
      with settled(3) have "ee_declaredType ?e \<noteq> Some ''FAILED_TRANSACTION''" "settleSuccessful n now ref s2 = (y, s1)"
        by (auto split: if_splits dest: settleFailed_ledger)
      with settleSuccessful_posts [OF this(2) ch] g t first settled show ?thesis by auto
    qed
  qed (use assms(2) in simp)
qed


theorem webhook_posts_only_when_witness:
  "ledger_txs (snd demo_hooked) \<noteq> ledger_txs demo_hook_db
   \<and> ee_amount (extractMonnifyEvent (demo_payload ''SUCCESSFUL_TRANSACTION'') TRANSACTION_COMPLETION ''body'') = Some 100
   \<and> accountBalanceWithin (snd demo_hooked) ''wa'' = 1000 + 60000 - 1500
   \<and> (\<exists>i \<in> set (intents demo_hook_db). pi_providerReference i = Some ''ref3'' \<and> pi_status i \<noteq> PI_SUCCEEDED)"
proof -
  have h: "handleWebhook demo_hmac (\<lambda>b. b) (\<lambda>t. None) demo_config ''tx7'' 9 TRANSACTION_COMPLETION
     (demo_payload ''SUCCESSFUL_TRANSACTION'') (Some ''body'') (Some '' DBODY '') demo_hook_db = (fst demo_hooked, snd demo_hooked)"
    by (simp add: demo_hooked_def)
  have l: "length (ledger_txs (snd demo_hooked)) = 2" "length (ledger_txs demo_hook_db) = 1"
    and b: "accountBalanceWithin (snd demo_hooked) ''wa'' = 1000 + 60000 - 1500"
    and a: "ee_amount (extractMonnifyEvent (demo_payload ''SUCCESSFUL_TRANSACTION'') TRANSACTION_COMPLETION ''body'') = Some 100"
    and ref: "ee_providerReference (extractMonnifyEvent (demo_payload ''SUCCESSFUL_TRANSACTION'') TRANSACTION_COMPLETION ''body'') = Some ''ref3''"
    by code_simp+
  from l have c: "ledger_txs (snd demo_hooked) \<noteq> ledger_txs demo_hook_db" by auto
  from webhook_posts_only_when [OF h c] ref b a c show ?thesis by auto
qed

end
