(* ===== verification/Ajo_Schedule.thy ===== *)
theory Ajo_Schedule
  imports Ajo_Prelude "HOL-Library.Multiset"
begin

text \<open>
  The rotation schedule of an Ajo group: \<^verbatim>\<open>src/modules/ajo-groups/domain/ajo-schedule.ts\<close>,
  \<^verbatim>\<open>flexible-ajo.ts\<close> and \<^verbatim>\<open>ajo-policy.ts\<close>. A \<^verbatim>\<open>Date\<close> is its number of milliseconds since the
  epoch; the UTC getters and setters the code uses are those of the proleptic Gregorian calendar,
  defined as ECMAScript defines them.
\<close>

section \<open>The UTC calendar\<close>

definition DAY_MS :: int where
  "DAY_MS = 86400000"

definition leap :: "int \<Rightarrow> bool" where
  "leap y \<longleftrightarrow> y mod 4 = 0 \<and> (y mod 100 \<noteq> 0 \<or> y mod 400 = 0)"

text \<open>\<^verbatim>\<open>DayFromYear\<close>: the day number of 1 January.\<close>

definition dayFromYear :: "int \<Rightarrow> int" where
  "dayFromYear y = 365 * (y - 1970) + (y - 1969) div 4 - (y - 1901) div 100 + (y - 1601) div 400"

text \<open>Days before month \<open>m\<close> (0 to 12) of a year.\<close>

definition daysBefore :: "bool \<Rightarrow> int \<Rightarrow> int" where
  "daysBefore lp m =
     (if m \<le> 0 then 0 else if m = 1 then 31 else
      (if m = 2 then 59 else if m = 3 then 90 else if m = 4 then 120 else if m = 5 then 151
       else if m = 6 then 181 else if m = 7 then 212 else if m = 8 then 243 else if m = 9 then 273
       else if m = 10 then 304 else if m = 11 then 334 else 365) + (if lp then 1 else 0))"

text \<open>\<^verbatim>\<open>MakeDay\<close>: months outside the year carry into it.\<close>

definition makeDay :: "int \<Rightarrow> int \<Rightarrow> int \<Rightarrow> int" where
  "makeDay year month date =
     (let y = year + month div 12 in dayFromYear y + daysBefore (leap y) (month mod 12) + date - 1)"

definition yearOfDay :: "int \<Rightarrow> int" where
  "yearOfDay n =
     (let y = 1970 + (n * 400) div 146097 in
      if n < dayFromYear y then y - 1 else if dayFromYear (y + 1) \<le> n then y + 1 else y)"

definition monthOfDay :: "int \<Rightarrow> int" where
  "monthOfDay n =
     (let y = yearOfDay n; doy = n - dayFromYear y in
      int (length (filter (\<lambda>m. daysBefore (leap y) (int m) \<le> doy) [1..<12])))"

definition dateOfDay :: "int \<Rightarrow> int" where
  "dateOfDay n = n - dayFromYear (yearOfDay n) - daysBefore (leap (yearOfDay n)) (monthOfDay n) + 1"

definition getUTCFullYear :: "int \<Rightarrow> int" where "getUTCFullYear t = yearOfDay (t div DAY_MS)"
definition getUTCMonth :: "int \<Rightarrow> int" where "getUTCMonth t = monthOfDay (t div DAY_MS)"
definition getUTCDate :: "int \<Rightarrow> int" where "getUTCDate t = dateOfDay (t div DAY_MS)"

definition makeDate :: "int \<Rightarrow> int \<Rightarrow> int" where
  "makeDate day t = day * DAY_MS + t mod DAY_MS"

definition setUTCDate :: "int \<Rightarrow> int \<Rightarrow> int" where
  "setUTCDate d t = makeDate (makeDay (getUTCFullYear t) (getUTCMonth t) d) t"

definition setUTCMonth :: "int \<Rightarrow> int \<Rightarrow> int" where
  "setUTCMonth m t = makeDate (makeDay (getUTCFullYear t) m (getUTCDate t)) t"

definition setUTCFullYear :: "int \<Rightarrow> int \<Rightarrow> int" where
  "setUTCFullYear y t = makeDate (makeDay y (getUTCMonth t) (getUTCDate t)) t"

definition dateUTC :: "int \<Rightarrow> int \<Rightarrow> int \<Rightarrow> int" where
  "dateUTC year month date = makeDay year month date * DAY_MS"

text \<open>A date column keeps the day.\<close>

definition dateColumn :: "int \<Rightarrow> int" where
  "dateColumn t = t - t mod DAY_MS"

section \<open>Schedules\<close>

datatype ajo_frequency = DAILY | WEEKLY | MONTHLY

record slot_input =
  si_id :: string
  si_position :: int

record rotation_cycle =
  cy_sequence :: int
  cy_contributionDueAt :: int
  cy_contributionOpensAt :: int
  cy_contributionClosesAt :: int
  cy_graceEndsAt :: int
  cy_payoutEligibilityCutoffAt :: int
  cy_payoutDueAt :: int
  cy_payoutProcessingEndsAt :: int
  cy_payoutSlotId :: string
  cy_contributionAmount :: int
  cy_payoutUnitCount :: int
  cy_payoutAmount :: int

record rotation_input =
  ri_slots :: "slot_input list"
  ri_startDate :: int
  ri_endDate :: int
  ri_frequency :: ajo_frequency
  ri_contributionAmount :: int
  ri_contributionOpenOffset :: "int option"
  ri_contributionCloseOffset :: "int option"
  ri_gracePeriod :: "int option"
  ri_payoutEligibilityCutoff :: "int option"
  ri_payoutOffset :: "int option"
  ri_payoutProcessingWindow :: "int option"

definition MAX_SLOTS :: int where
  "MAX_SLOTS = 1000"

definition assertAjoGroupBounds :: "int \<Rightarrow> int \<Rightarrow> int \<Rightarrow> unit res" where
  "assertAjoGroupBounds startDate endDate maxSlots =
     (if maxSlots < 2 \<or> maxSlots > MAX_SLOTS
      then Inl (Unprocessable ''Group capacity must be between 2 and 1,000 slots'')
      else if endDate \<le> startDate then Inl (Unprocessable ''Group end date must be after its start date'')
      else if endDate > setUTCFullYear (getUTCFullYear startDate + 1) startDate
      then Inl (Unprocessable ''Ajo groups cannot last longer than 12 months'') else Inr ())"

definition addMinutes :: "int \<Rightarrow> int \<Rightarrow> int" where
  "addMinutes date minutes = date + minutes * 60000"

definition addFrequency :: "int \<Rightarrow> ajo_frequency \<Rightarrow> int \<Rightarrow> int" where
  "addFrequency start frequency offset =
     (case frequency of
        DAILY \<Rightarrow> setUTCDate (getUTCDate start + offset) start
      | WEEKLY \<Rightarrow> setUTCDate (getUTCDate start + offset * 7) start
      | MONTHLY \<Rightarrow>
          (let day = getUTCDate start;
               d1 = setUTCDate 1 start;
               d2 = setUTCMonth (getUTCMonth d1 + offset) d1;
               lastDay = getUTCDate (dateUTC (getUTCFullYear d2) (getUTCMonth d2 + 1) 0)
           in setUTCDate (min day lastDay) d2))"

definition opt_minutes :: "int option \<Rightarrow> int \<Rightarrow> int" where
  "opt_minutes x d = (case x of None \<Rightarrow> d | Some v \<Rightarrow> v)"

definition rotationCycle :: "rotation_input \<Rightarrow> int \<Rightarrow> int \<Rightarrow> slot_input \<Rightarrow> rotation_cycle" where
  "rotationCycle input payoutAmount index slot =
     (let dueAt = addFrequency (ri_startDate input) (ri_frequency input) index;
          closes = addMinutes dueAt (opt_minutes (ri_contributionCloseOffset input) 0);
          payoutDue = addMinutes dueAt (opt_minutes (ri_payoutOffset input) 0) in
      \<lparr>cy_sequence = index + 1, cy_contributionDueAt = dueAt,
       cy_contributionOpensAt = addMinutes dueAt (- opt_minutes (ri_contributionOpenOffset input) 0),
       cy_contributionClosesAt = closes, cy_graceEndsAt = addMinutes closes (opt_minutes (ri_gracePeriod input) 0),
       cy_payoutEligibilityCutoffAt = addMinutes dueAt (opt_minutes (ri_payoutEligibilityCutoff input) 0),
       cy_payoutDueAt = payoutDue,
       cy_payoutProcessingEndsAt = addMinutes payoutDue (opt_minutes (ri_payoutProcessingWindow input) 1440),
       cy_payoutSlotId = si_id slot, cy_contributionAmount = ri_contributionAmount input, cy_payoutUnitCount = 1,
       cy_payoutAmount = payoutAmount\<rparr>)"

text \<open>The mapping over the ordered slots, which stops at the first due date past the end.\<close>

fun rotationCycles :: "rotation_input \<Rightarrow> int \<Rightarrow> int \<Rightarrow> slot_input list \<Rightarrow> rotation_cycle list res" where
  "rotationCycles input payoutAmount index [] = Inr []"
| "rotationCycles input payoutAmount index (slot # slots) =
     (if addFrequency (ri_startDate input) (ri_frequency input) index > ri_endDate input
      then Inl (Unprocessable ''The rotation cannot complete within the configured dates'')
      else bind_res (rotationCycles input payoutAmount (index + 1) slots) (\<lambda>rest.
        Inr (rotationCycle input payoutAmount index slot # rest)))"

text \<open>Ordered by position, the slots must be at positions 1, 2, and so on, each once.\<close>

definition positionsContiguous :: "slot_input list \<Rightarrow> bool" where
  "positionsContiguous ordered \<longleftrightarrow>
     \<not> (card (set (map si_position ordered)) \<noteq> length ordered
        \<or> list_ex (\<lambda>(i, slot). si_position slot \<noteq> int i + 1) (enumerate 0 ordered))"

definition generateRotationSchedule :: "rotation_input \<Rightarrow> rotation_cycle list res" where
  "generateRotationSchedule input =
     (if length (ri_slots input) < 2 \<or> int (length (ri_slots input)) > MAX_SLOTS
      then Inl (Unprocessable ''A locked group requires 2 to 1,000 slots'')
      else if ri_contributionAmount input \<le> 0 then Inl (Unprocessable ''Contribution amount must be positive'')
      else let ordered = sort_key si_position (ri_slots input) in
        if \<not> positionsContiguous ordered
        then Inl (Unprocessable ''Slot positions must be unique and contiguous'')
        else rotationCycles input (ri_contributionAmount input * int (length ordered)) 0 ordered)"

section \<open>Flexible groups\<close>

record flexible_plan =
  fp_memberId :: string
  fp_unitQuantity :: int

record flexible_payout =
  fy_cycle :: int
  fy_unitCount :: int

record flexible_reconciliation =
  fx_contributionUnit :: int
  fx_cycleCount :: int
  fx_totalUnits :: int
  fx_expectedInflow :: int
  fx_expectedOutflow :: int

fun totalPlanUnits :: "flexible_plan list \<Rightarrow> string list \<Rightarrow> int \<Rightarrow> int res" where
  "totalPlanUnits [] members sofar = Inr sofar"
| "totalPlanUnits (plan # plans) members sofar =
     (if fp_memberId plan \<in> set members then Inl (Unprocessable ''Each member requires one contribution plan'')
      else if fp_unitQuantity plan < 1 then Inl (Unprocessable ''Contribution units must be whole positive numbers'')
      else totalPlanUnits plans (fp_memberId plan # members) (sofar + fp_unitQuantity plan))"

fun scheduledPayoutUnits :: "int \<Rightarrow> flexible_payout list \<Rightarrow> int \<Rightarrow> int res" where
  "scheduledPayoutUnits cycleCount [] sofar = Inr sofar"
| "scheduledPayoutUnits cycleCount (p # ps) sofar =
     (if fy_cycle p < 1 \<or> fy_cycle p > cycleCount \<or> fy_unitCount p < 1
      then Inl (Unprocessable ''Payout allocations must use valid whole units'')
      else scheduledPayoutUnits cycleCount ps (sofar + fy_unitCount p))"

definition reconcileFlexibleAjo ::
  "int \<Rightarrow> int \<Rightarrow> flexible_plan list \<Rightarrow> flexible_payout list \<Rightarrow> flexible_reconciliation res" where
  "reconcileFlexibleAjo contributionUnit cycleCount plans payouts =
     (if contributionUnit \<le> 0 then Inl (Unprocessable ''Contribution unit must be positive'')
      else if cycleCount < 1 then Inl (Unprocessable ''Cycle count must be a positive integer'')
      else if length plans < 2 then Inl (Unprocessable ''At least two members are required'')
      else bind_res (totalPlanUnits plans [] 0) (\<lambda>totalUnits.
        bind_res (scheduledPayoutUnits cycleCount payouts 0) (\<lambda>scheduledUnits.
        let inflow = contributionUnit * totalUnits * cycleCount; outflow = contributionUnit * scheduledUnits in
        if scheduledUnits \<noteq> totalUnits * cycleCount \<or> inflow \<noteq> outflow
        then Inl (Unprocessable ''Flexible Ajo schedule does not reconcile without platform liquidity'')
        else Inr \<lparr>fx_contributionUnit = contributionUnit, fx_cycleCount = cycleCount, fx_totalUnits = totalUnits,
                  fx_expectedInflow = inflow, fx_expectedOutflow = outflow\<rparr>)))"

section \<open>Group and swap policy\<close>

datatype group_status = GS_DRAFT | GS_OPEN | GS_LOCKED | GS_ACTIVE | GS_COMPLETED | GS_SUSPENDED | GS_CANCELLED

datatype swap_decision = SD_APPROVED | SD_REJECTED

datatype payout_schedule_status = PS_PENDING | PS_READY | PS_PROCESSING | PS_PAID | PS_HELD | PS_FAILED | PS_CANCELLED

definition assertScheduleCanChange :: "group_status \<Rightarrow> unit res" where
  "assertScheduleCanChange status =
     (if status \<in> {GS_LOCKED, GS_ACTIVE, GS_COMPLETED} then Inl (Conflict ''A locked schedule is immutable'') else Inr ())"

text \<open>\<^verbatim>\<open>new Map\<close> of the approvals: the last decision of an approver counts.\<close>

definition assertAllSwapApprovals :: "string list \<Rightarrow> (string \<times> swap_decision) list \<Rightarrow> unit res" where
  "assertAllSwapApprovals required approvals =
     (let decisions = map_of (rev approvals) in
      if required = [] \<or> list_ex (\<lambda>i. decisions i \<noteq> Some SD_APPROVED) required
      then Inl (Unprocessable ''All required parties must approve a slot swap'') else Inr ())"

definition assertSwapNotExpired :: "int option \<Rightarrow> int \<Rightarrow> unit res" where
  "assertSwapNotExpired expiresAt now =
     (case expiresAt of Some e \<Rightarrow> if e \<le> now then Inl (Conflict ''Swap request has expired'') else Inr () | None \<Rightarrow> Inr ())"

definition assertPayoutAllowsSwap :: "payout_schedule_status \<Rightarrow> unit res" where
  "assertPayoutAllowsSwap status =
     (if status \<in> {PS_PROCESSING, PS_PAID, PS_FAILED, PS_CANCELLED}
      then Inl (Conflict ''A payout for a swap position has started'') else Inr ())"

definition resolveMaxSlotsPerMember :: "int option \<Rightarrow> int \<Rightarrow> int" where
  "resolveMaxSlotsPerMember requested maxSlots = (case requested of None \<Rightarrow> maxSlots | Some r \<Rightarrow> r)"

definition assertSlotCapacity :: "int \<Rightarrow> int \<Rightarrow> int \<Rightarrow> int \<Rightarrow> unit res" where
  "assertSlotCapacity minPer maxPer requested maxSlots =
     (if minPer > maxPer then Inl (Unprocessable ''Minimum slots cannot exceed maximum slots'')
      else if maxPer > maxSlots
      then Inl (Unprocessable ''Maximum slots per member cannot exceed the group's total slots'')
      else if requested < minPer \<or> requested > maxPer
      then Inl (Unprocessable ''Requested slots violate per-member limits'')
      else if requested > maxSlots then Inl (Unprocessable ''Requested slots exceed group capacity'')
      else Inr ())"


section \<open>The calendar is a bijection\<close>

lemma div_bounds: "0 < (d::int) \<Longrightarrow> d * (k div d) \<le> k \<and> k < d * (k div d) + d"
proof -
  assume "0 < d"
  then have "0 \<le> k mod d" "k mod d < d" "d * (k div d) + k mod d = k" by simp_all
  then show ?thesis by linarith
qed

lemma div_plus_1: "0 < (d::int) \<Longrightarrow> (k + 1) div d = k div d + (if d dvd k + 1 then 1 else 0)"
proof -
  assume d: "0 < d"
  define q r where "q = k div d" and "r = k mod d"
  have k: "k = d * q + r" and r: "0 \<le> r" "r < d" using d by (simp_all add: q_def r_def)
  show ?thesis
  proof (cases "r = d - 1")
    case True
    then have e: "k + 1 = d * (q + 1) + 0" using k by (simp add: distrib_left)
    then have "(k + 1) div d = q + 1" using d by (intro int_div_pos_eq) auto
    moreover have "d dvd k + 1" using e by simp
    ultimately show ?thesis by (simp add: q_def)
  next
    case False
    have e: "k + 1 = d * q + (r + 1)" using k by simp
    have "(k + 1) div d = q" using int_div_pos_eq [OF e] r False by simp
    moreover have "(k + 1) mod d = r + 1" using int_mod_pos_eq [OF e] r False by simp
    ultimately show ?thesis using r by (auto simp: dvd_eq_mod_eq_0 q_def)
  qed
qed

lemma mod_plus_1: "0 < (d::int) \<Longrightarrow> \<not> d dvd k + 1 \<Longrightarrow> (k + 1) mod d = k mod d + 1"
  using div_plus_1 [of d k] by (simp add: minus_mult_div_eq_mod [symmetric])

lemma dvd_shift: "(d::int) dvd c \<Longrightarrow> d dvd y - c \<longleftrightarrow> y mod d = 0"
  by (metis dvd_diff_left_iff dvd_eq_mod_eq_0)

lemma dayFromYear_Suc: "dayFromYear (y + 1) = dayFromYear y + (if leap y then 366 else 365)"
proof -
  have a: "(y + 1 - 1969) div 4 = (y - 1969) div 4 + (if y mod 4 = 0 then 1 else 0)"
    using div_plus_1 [of 4 "y - 1969"] dvd_shift [of 4 1968 y] by (simp add: algebra_simps)
  have b: "(y + 1 - 1901) div 100 = (y - 1901) div 100 + (if y mod 100 = 0 then 1 else 0)"
    using div_plus_1 [of 100 "y - 1901"] dvd_shift [of 100 1900 y] by (simp add: algebra_simps)
  have c: "(y + 1 - 1601) div 400 = (y - 1601) div 400 + (if y mod 400 = 0 then 1 else 0)"
    using div_plus_1 [of 400 "y - 1601"] dvd_shift [of 400 1600 y] by (simp add: algebra_simps)
  have d: "y mod 400 \<noteq> 0 \<or> y mod 100 = 0" "y mod 100 \<noteq> 0 \<or> y mod 4 = 0"
    using mod_mod_cancel [of 100 400 y] mod_mod_cancel [of 4 100 y] by auto
  show ?thesis
    unfolding dayFromYear_def leap_def a b c
    by (cases "y mod 4 = 0"; cases "y mod 100 = 0"; cases "y mod 400 = 0") (use d in simp_all)
qed

lemma dayFromYear_mono: "y \<le> z \<Longrightarrow> dayFromYear y \<le> dayFromYear z"
proof (induction z rule: int_ge_induct)
  case (step z)
  then show ?case by (simp add: dayFromYear_Suc)
qed simp

lemma yearOfDay_bounds: "dayFromYear (yearOfDay n) \<le> n \<and> n < dayFromYear (yearOfDay n + 1)"
proof -
  define y where "y = 1970 + (n * 400) div 146097"
  have y: "(y - 1970) * 146097 \<le> n * 400" "n * 400 < (y - 1969) * 146097"
    unfolding y_def by (simp_all add: algebra_simps)
  have lo: "dayFromYear (y - 1) \<le> n"
    using y div_bounds [of 4 "y - 1970"] div_bounds [of 100 "y - 1902"] div_bounds [of 400 "y - 1602"]
    by (simp add: dayFromYear_def)
  have hi: "n < dayFromYear (y + 2)"
    using y div_bounds [of 4 "y - 1967"] div_bounds [of 100 "y - 1899"] div_bounds [of 400 "y - 1599"]
    by (simp add: dayFromYear_def)
  show ?thesis using lo hi by (auto simp: yearOfDay_def Let_def ac_simps simp flip: y_def)
qed

lemma yearOfDay_unique:
  assumes "dayFromYear y \<le> n" and "n < dayFromYear (y + 1)"
  shows "yearOfDay n = y"
proof (rule ccontr)
  assume "yearOfDay n \<noteq> y"
  then consider "yearOfDay n + 1 \<le> y" | "y + 1 \<le> yearOfDay n" by linarith
  then show False
    using dayFromYear_mono [of "yearOfDay n + 1" y] dayFromYear_mono [of "y + 1" "yearOfDay n"]
      yearOfDay_bounds [of n] assms by cases linarith+
qed

definition daysInMonth :: "bool \<Rightarrow> int \<Rightarrow> int" where
  "daysInMonth lp m = daysBefore lp (m + 1) - daysBefore lp m"

lemma month_cases:
  assumes "0 \<le> m" and "m < (12::int)"
  obtains "m = 0" | "m = 1" | "m = 2" | "m = 3" | "m = 4" | "m = 5" | "m = 6" | "m = 7" | "m = 8" | "m = 9" | "m = 10" | "m = 11"
proof -
  from assms have "m \<in> {0..11}" by simp
  also have "{0..11} = {0, 1, 2, 3, 4, 5, 6, 7, 8, 9, 10, 11 :: int}" by (auto simp: set_upto [symmetric] upto_rec1)
  finally show ?thesis using that by auto
qed

lemma daysBefore_step: "daysBefore lp m \<le> daysBefore lp (m + 1)"
  by (simp add: daysBefore_def)

lemma daysBefore_mono: "a \<le> b \<Longrightarrow> daysBefore lp a \<le> daysBefore lp b"
proof (induction b rule: int_ge_induct)
  case (step b)
  then show ?case using daysBefore_step [of lp b] by linarith
qed simp

lemma upt_12: "[1..<12] = [1, 2, 3, 4, 5, 6, 7, 8, 9, 10, 11 :: nat]"
  by (simp add: upt_rec)

lemma daysBefore_12: "daysBefore (leap y) 12 = dayFromYear (y + 1) - dayFromYear y"
  by (simp add: dayFromYear_Suc daysBefore_def)

lemma doy_range:
  assumes "0 \<le> m" "m < 12" "1 \<le> d" "d \<le> daysInMonth (leap y) m"
  shows "0 \<le> daysBefore (leap y) m + d - 1 \<and> daysBefore (leap y) m + d - 1 < dayFromYear (y + 1) - dayFromYear y"
  using daysBefore_mono [of 0 m "leap y"] daysBefore_mono [of "m + 1" 12 "leap y"] assms
  by (auto simp: daysInMonth_def daysBefore_12 [symmetric] daysBefore_def [of _ 0])

text \<open>Reading back the year, month and date of a valid calendar day.\<close>

lemma civil_roundtrip:
  assumes "0 \<le> m" "m < 12" "1 \<le> d" "d \<le> daysInMonth (leap y) m"
  defines "n \<equiv> dayFromYear y + daysBefore (leap y) m + d - 1"
  shows "yearOfDay n = y \<and> monthOfDay n = m \<and> dateOfDay n = d"
proof -
  have y: "yearOfDay n = y"
    using doy_range [OF assms(1-4)] by (intro yearOfDay_unique) (simp_all add: n_def)
  have doy: "n - dayFromYear y = daysBefore (leap y) m + d - 1" by (simp add: n_def)
  have "daysBefore (leap y) (int k) \<le> daysBefore (leap y) m + d - 1 \<longleftrightarrow> int k \<le> m" for k
    using daysBefore_mono [of "int k" m "leap y"] daysBefore_mono [of "m + 1" "int k" "leap y"] assms(3,4)
    unfolding daysInMonth_def by linarith
  then have "filter (\<lambda>k. daysBefore (leap y) (int k) \<le> daysBefore (leap y) m + d - 1) [1..<12] = filter (\<lambda>k. int k \<le> m) [1..<12]"
    by simp
  moreover have "int (length (filter (\<lambda>k. int k \<le> m) [1..<12])) = m"
    unfolding upt_12 using assms(1,2) by (cases m rule: month_cases) simp_all
  ultimately have m: "monthOfDay n = m" by (simp add: monthOfDay_def Let_def y doy)
  have "dateOfDay n = d" by (simp add: dateOfDay_def y m) (simp add: n_def)
  with y m show ?thesis by simp
qed


lemma month_exists:
  assumes "0 \<le> m" and "0 \<le> doy" "doy < daysBefore lp m"
  shows "\<exists>j. 0 \<le> j \<and> j < m \<and> daysBefore lp j \<le> doy \<and> doy < daysBefore lp (j + 1)"
  using assms(1,3)
proof (induction m rule: int_ge_induct)
  case base
  with assms(2) show ?case by (simp add: daysBefore_def)
next
  case (step m)
  then show ?case using zless_add1_eq by (cases "doy < daysBefore lp m") (fastforce simp: not_less)+
qed

text \<open>Every day number is a valid calendar day, the one the getters read.\<close>

lemma civil_of_day:
  fixes n :: int
  defines "y \<equiv> yearOfDay n" and "m \<equiv> monthOfDay n" and "d \<equiv> dateOfDay n"
  shows "0 \<le> m" "m < 12" "1 \<le> d" "d \<le> daysInMonth (leap y) m" "n = dayFromYear y + daysBefore (leap y) m + d - 1"
proof -
  have doy: "0 \<le> n - dayFromYear y" "n - dayFromYear y < daysBefore (leap y) 12"
    using yearOfDay_bounds [of n] by (simp_all add: y_def daysBefore_12)
  from month_exists [OF _ doy] obtain j where j: "0 \<le> j" "j < 12" "daysBefore (leap y) j \<le> n - dayFromYear y"
    "n - dayFromYear y < daysBefore (leap y) (j + 1)" by auto
  define e where "e = n - dayFromYear y - daysBefore (leap y) j + 1"
  have e: "1 \<le> e" "e \<le> daysInMonth (leap y) j" "n = dayFromYear y + daysBefore (leap y) j + e - 1"
    using j by (simp_all add: e_def daysInMonth_def)
  have "m = j" "d = e" using civil_roundtrip [OF j(1,2) e(1,2)] e(3) by (simp_all add: m_def d_def)
  with j e show "0 \<le> m" "m < 12" "1 \<le> d" "d \<le> daysInMonth (leap y) m" "n = dayFromYear y + daysBefore (leap y) m + d - 1"
    by simp_all
qed

lemma makeDay_of_day: "makeDay (yearOfDay n) (monthOfDay n) d = n - dateOfDay n + d"
  using civil_of_day [of n] by (simp add: makeDay_def Let_def)

text \<open>The year and the month that a month number counted from January of \<open>y\<close> falls in.\<close>

definition monthYear :: "int \<Rightarrow> int \<Rightarrow> int" where
  "monthYear y m = y + m div 12"

definition monthLength :: "int \<Rightarrow> int \<Rightarrow> int" where
  "monthLength y m = daysInMonth (leap (monthYear y m)) (m mod 12)"

lemma makeDay_roundtrip:
  assumes "1 \<le> d" "d \<le> monthLength y m"
  shows "yearOfDay (makeDay y m d) = monthYear y m \<and> monthOfDay (makeDay y m d) = m mod 12 \<and> dateOfDay (makeDay y m d) = d"
  using civil_roundtrip [of "m mod 12" d "monthYear y m"] assms
  by (simp add: makeDay_def monthYear_def monthLength_def Let_def)

lemma makeDay_next_month: "makeDay y (m + 1) 1 = makeDay y m 1 + monthLength y m"
proof (cases "12 dvd m + 1")
  case dvd: True
  then have True: "m mod 12 = 11" by presburger
  from dvd have d: "(m + 1) div 12 = m div 12 + 1" and m: "(m + 1) mod 12 = 0" using div_plus_1 [of 12 m] by simp_all
  have y: "y + (m div 12 + 1) = y + m div 12 + 1" by simp
  have "daysBefore lp 0 = 0" "daysBefore lp (11 + 1) = (if lp then 366 else 365)" for lp by (simp_all add: daysBefore_def)
  then show ?thesis
    unfolding makeDay_def monthLength_def monthYear_def daysInMonth_def Let_def d m True y dayFromYear_Suc by simp
next
  case False
  then have m: "(m + 1) mod 12 = m mod 12 + 1" and d: "(m + 1) div 12 = m div 12"
    using mod_plus_1 [of 12 m] div_plus_1 [of 12 m] by simp_all
  show ?thesis by (simp add: makeDay_def monthLength_def monthYear_def daysInMonth_def Let_def d m)
qed

lemma makeDay_offset: "makeDay y m d = makeDay y m 1 + d - 1"
  by (simp add: makeDay_def Let_def)

lemma monthLength_ge: "28 \<le> monthLength y m"
proof -
  have "0 \<le> m mod 12" "m mod 12 < 12" by simp_all
  then show ?thesis
    by (cases "m mod 12" rule: month_cases) (simp_all add: monthLength_def daysInMonth_def daysBefore_def)
qed

lemma makeDay_months: "k \<ge> 0 \<Longrightarrow> makeDay y m 1 + 28 * k \<le> makeDay y (m + k) 1"
proof (induction k rule: int_ge_induct)
  case (step k)
  then show ?case using makeDay_next_month [of y "m + k"] monthLength_ge [of y "m + k"] by (simp add: add.assoc)
qed simp

section \<open>Due dates\<close>

lemma DAY_MS_pos [simp]: "0 < DAY_MS" "DAY_MS \<noteq> 0"
  by (simp_all add: DAY_MS_def)

lemma makeDate_parts [simp]: "makeDate day t div DAY_MS = day" "makeDate day t mod DAY_MS = t mod DAY_MS"
  by (simp_all add: makeDate_def)

lemma makeDate_less: "a < b \<Longrightarrow> makeDate a t < makeDate b u"
proof -
  assume "a < b"
  then have "(a + 1) * DAY_MS \<le> b * DAY_MS" by (intro mult_right_mono) (simp_all add: DAY_MS_def)
  moreover have "t mod DAY_MS < DAY_MS" "0 \<le> u mod DAY_MS" by simp_all
  ultimately show ?thesis unfolding makeDate_def distrib_right by linarith
qed

lemma setUTCDate_shift: "setUTCDate (getUTCDate t + k) t = t + k * DAY_MS"
proof -
  have "makeDate (t div DAY_MS + k) t = t + k * DAY_MS"
    by (simp add: makeDate_def distrib_right)
  then show ?thesis
    by (simp add: setUTCDate_def getUTCFullYear_def getUTCMonth_def getUTCDate_def makeDay_of_day)
qed

text \<open>The day a monthly cycle falls on: the start's day, or the last of a shorter month.\<close>

definition monthlyDay :: "int \<Rightarrow> int \<Rightarrow> int" where
  "monthlyDay t k = min (getUTCDate t) (monthLength (getUTCFullYear t) (getUTCMonth t + k))"

lemma monthlyDay_range: "1 \<le> monthlyDay t k" "monthlyDay t k \<le> monthLength (getUTCFullYear t) (getUTCMonth t + k)"
  using monthLength_ge [of "getUTCFullYear t" "getUTCMonth t + k"] civil_of_day(3) [of "t div DAY_MS"]
  by (auto simp: monthlyDay_def getUTCDate_def)

lemma addFrequency_monthly:
  "addFrequency t MONTHLY k = makeDate (makeDay (getUTCFullYear t) (getUTCMonth t + k) (monthlyDay t k)) t"
proof -
  let ?y = "getUTCFullYear t" and ?m = "getUTCMonth t"
  have m: "?m mod 12 = ?m" "monthYear ?y ?m = ?y"
    using civil_of_day(1,2) [of "t div DAY_MS"] by (simp_all add: getUTCMonth_def monthYear_def)
  have r1: "yearOfDay (makeDay y k 1) = monthYear y k \<and> monthOfDay (makeDay y k 1) = k mod 12 \<and> dateOfDay (makeDay y k 1) = 1" for y k
    using makeDay_roundtrip [of 1 y k] monthLength_ge [of y k] by simp
  let ?d1 = "setUTCDate 1 t"
  have d1: "getUTCFullYear ?d1 = ?y" "getUTCMonth ?d1 = ?m" "getUTCDate ?d1 = 1" "?d1 mod DAY_MS = t mod DAY_MS"
    using r1 [of ?y ?m] m by (simp_all add: setUTCDate_def getUTCFullYear_def getUTCMonth_def getUTCDate_def)
  let ?d2 = "setUTCMonth (?m + k) ?d1"
  let ?y2 = "monthYear ?y (?m + k)" and ?m2 = "(?m + k) mod 12"
  have d2: "getUTCFullYear ?d2 = ?y2" "getUTCMonth ?d2 = ?m2" "?d2 mod DAY_MS = t mod DAY_MS"
    using r1 [of ?y "?m + k"] d1
    by (simp_all add: setUTCMonth_def getUTCFullYear_def getUTCMonth_def getUTCDate_def)
  have y2: "monthYear ?y2 ?m2 = ?y2" "monthLength ?y2 ?m2 = monthLength ?y (?m + k)"
    by (simp_all add: monthYear_def monthLength_def)
  have "makeDay ?y2 (?m2 + 1) 0 = makeDay ?y2 ?m2 (monthLength ?y2 ?m2)"
    using makeDay_next_month [of ?y2 ?m2] makeDay_offset [of ?y2 "?m2 + 1" 0] makeDay_offset [of ?y2 ?m2 "monthLength ?y2 ?m2"]
    by simp
  then have last: "getUTCDate (dateUTC ?y2 (?m2 + 1) 0) = monthLength ?y (?m + k)"
    using makeDay_roundtrip [of "monthLength ?y2 ?m2" ?y2 ?m2] monthLength_ge [of ?y2 ?m2] y2
    by (simp add: getUTCDate_def dateUTC_def)
  have "makeDay ?y2 ?m2 d = makeDay ?y (?m + k) d" for d
    by (simp add: makeDay_def monthYear_def Let_def)
  then show ?thesis
    using d1 d2 last
    by (simp add: addFrequency_def Let_def monthlyDay_def setUTCDate_def [of "min _ _" "?d2"] makeDate_def)
qed

lemma addFrequency_mono_Suc: "addFrequency t f k < addFrequency t f (k + 1)"
proof (cases f)
  case DAILY
  then show ?thesis
    using setUTCDate_shift [of t k] setUTCDate_shift [of t "k + 1"] by (simp add: addFrequency_def distrib_right)
next
  case WEEKLY
  then show ?thesis
    using setUTCDate_shift [of t "k * 7"] setUTCDate_shift [of t "(k + 1) * 7"] by (simp add: addFrequency_def distrib_right)
next
  case MONTHLY
  let ?y = "getUTCFullYear t" and ?m = "getUTCMonth t"
  have "makeDay ?y (?m + k) (monthlyDay t k) < makeDay ?y (?m + k + 1) (monthlyDay t (k + 1))"
    using makeDay_next_month [of ?y "?m + k"] makeDay_offset [of ?y "?m + k" "monthlyDay t k"]
      makeDay_offset [of ?y "?m + k + 1" "monthlyDay t (k + 1)"] monthlyDay_range [of t k] monthlyDay_range [of t "k + 1"]
    by linarith
  with MONTHLY makeDate_less show ?thesis by (simp add: addFrequency_monthly add.assoc)
qed


lemma addFrequency_0: "addFrequency t f 0 = t"
proof (cases f)
  case DAILY
  then show ?thesis using setUTCDate_shift [of t 0] by (simp add: addFrequency_def)
next
  case WEEKLY
  then show ?thesis using setUTCDate_shift [of t 0] by (simp add: addFrequency_def)
next
  case MONTHLY
  have "monthlyDay t 0 = getUTCDate t"
    using civil_of_day [of "t div DAY_MS"]
    by (simp add: monthlyDay_def monthLength_def monthYear_def getUTCDate_def getUTCMonth_def getUTCFullYear_def)
  with MONTHLY show ?thesis
    by (simp add: addFrequency_monthly getUTCDate_def getUTCMonth_def getUTCFullYear_def makeDay_of_day makeDate_def)
qed

lemma addFrequency_mono: "k < l \<Longrightarrow> addFrequency t f k < addFrequency t f l"
proof (induction l rule: int_gr_induct)
  case base
  show ?case by (rule addFrequency_mono_Suc)
next
  case (step l)
  then show ?case using addFrequency_mono_Suc [of t f l] by linarith
qed

section \<open>The schedule\<close>

lemma rotationCycles_shape:
  "rotationCycles input pay k slots = Inr cycles \<Longrightarrow>
     cycles = map (\<lambda>(i, slot). rotationCycle input pay (k + int i) slot) (enumerate 0 slots)
     \<and> (\<forall>c \<in> set cycles. cy_contributionDueAt c \<le> ri_endDate input)"
proof (induction slots arbitrary: k cycles)
  case (Cons slot slots)
  then obtain rest where rest: "rotationCycles input pay (k + 1) slots = Inr rest"
    and c: "cycles = rotationCycle input pay k slot # rest"
    and due: "addFrequency (ri_startDate input) (ri_frequency input) k \<le> ri_endDate input"
    by (auto simp: res_iffs split: if_splits)
  have "map (\<lambda>(i, slot). rotationCycle input pay (k + 1 + int i) slot) (enumerate 0 slots) =
      map (\<lambda>(i, slot). rotationCycle input pay (k + int i) slot) (enumerate (Suc 0) slots)"
    by (simp add: enumerate_Suc_eq o_def case_prod_unfold add.assoc)
  with Cons.IH [OF rest] c due show ?case by (simp add: rotationCycle_def Let_def)
qed simp

lemma rotationCycle_simps [simp]:
  "cy_sequence (rotationCycle i p k slot) = k + 1" "cy_payoutSlotId (rotationCycle i p k slot) = si_id slot"
  "cy_payoutAmount (rotationCycle i p k slot) = p" "cy_contributionAmount (rotationCycle i p k slot) = ri_contributionAmount i"
  "cy_contributionDueAt (rotationCycle i p k slot) = addFrequency (ri_startDate i) (ri_frequency i) k"
  by (simp_all add: rotationCycle_def Let_def)

lemma generateRotationSchedule_Inr:
  assumes "generateRotationSchedule input = Inr cycles"
  defines "ordered \<equiv> sort_key si_position (ri_slots input)"
  shows "2 \<le> length ordered" "0 < ri_contributionAmount input"
    "cycles = map (\<lambda>(i, slot). rotationCycle input (ri_contributionAmount input * int (length ordered)) (int i) slot) (enumerate 0 ordered)"
    "\<forall>c \<in> set cycles. cy_contributionDueAt c \<le> ri_endDate input"
    "map si_position ordered = map (\<lambda>i. int i + 1) [0..<length ordered]"
proof -
  from assms have r: "rotationCycles input (ri_contributionAmount input * int (length ordered)) 0 ordered = Inr cycles"
    and n: "2 \<le> length ordered" and a: "0 < ri_contributionAmount input"
    and pos: "positionsContiguous ordered"
    by (simp_all add: generateRotationSchedule_def Let_def flip: ordered_def split: if_split_asm) (simp add: ordered_def)
  from rotationCycles_shape [OF r]
  show "cycles = map (\<lambda>(i, slot). rotationCycle input (ri_contributionAmount input * int (length ordered)) (int i) slot) (enumerate 0 ordered)"
    "\<forall>c \<in> set cycles. cy_contributionDueAt c \<le> ri_endDate input" by simp_all
  show "2 \<le> length ordered" "0 < ri_contributionAmount input" by (fact n, fact a)
  have "si_position (ordered ! i) = int i + 1" if "i < length ordered" for i
    using pos that by (auto simp: positionsContiguous_def list_ex_iff in_set_enumerate_eq)
  then show "map si_position ordered = map (\<lambda>i. int i + 1) [0..<length ordered]"
    by (auto intro: nth_equalityI)
qed

section \<open>Properties\<close>

text \<open>
  C18. A generated rotation pays every slot exactly once and only with what the group collects: it
  has one cycle per slot, numbered from one, in the order of the slots' positions, which are
  exactly 1 to n; the cycle of each slot pays one contribution from every slot; the first
  contribution is due at the start and the due dates strictly increase up to the end date.
\<close>

theorem rotation_schedule_sound:
  assumes "generateRotationSchedule input = Inr cycles"
  shows "length cycles = length (ri_slots input)
    \<and> mset (map cy_payoutSlotId cycles) = mset (map si_id (ri_slots input))
    \<and> map si_position (sort_key si_position (ri_slots input)) = map (\<lambda>i. int i + 1) [0..<length cycles]
    \<and> map cy_sequence cycles = map (\<lambda>i. int i + 1) [0..<length cycles]
    \<and> cy_contributionDueAt (hd cycles) = ri_startDate input
    \<and> sorted_wrt (<) (map cy_contributionDueAt cycles)
    \<and> (\<forall>c \<in> set cycles. cy_contributionDueAt c \<le> ri_endDate input
         \<and> cy_payoutAmount c = sum_list (map (\<lambda>_. cy_contributionAmount c) (ri_slots input)))"
proof -
  define ordered where "ordered = sort_key si_position (ri_slots input)"
  note g = generateRotationSchedule_Inr [OF assms, folded ordered_def]
  have len: "length ordered = length (ri_slots input)" by (simp add: ordered_def)
  have lc: "length cycles = length ordered" using g(3) by simp
  have nth: "cycles ! i = rotationCycle input (ri_contributionAmount input * int (length ordered)) (int i) (ordered ! i)"
    if "i < length ordered" for i using g(3) that by (simp add: nth_enumerate_eq)
  have ids: "map cy_payoutSlotId cycles = map si_id ordered" using lc nth by (auto intro: nth_equalityI)
  have "mset (map cy_payoutSlotId cycles) = mset (map si_id (ri_slots input))"
    unfolding ids ordered_def mset_map mset_sort ..
  moreover have "map cy_sequence cycles = map (\<lambda>i. int i + 1) [0..<length cycles]"
    using lc nth by (auto intro: nth_equalityI)
  moreover have "cy_contributionDueAt (hd cycles) = ri_startDate input"
    using lc nth [of 0] g(1) by (simp add: hd_conv_nth addFrequency_0 flip: length_greater_0_conv)
  moreover have "sorted_wrt (<) (map cy_contributionDueAt cycles)"
    using lc nth by (auto simp: sorted_wrt_iff_nth_less intro: addFrequency_mono)
  moreover have "cy_payoutAmount c = sum_list (map (\<lambda>_. cy_contributionAmount c) (ri_slots input))" if "c \<in> set cycles" for c
    using that g(3) len by (auto simp: sum_list_triv mult.commute)
  ultimately show ?thesis using g lc len by (simp add: ordered_def)
qed

definition demo_rotation :: rotation_input where
  "demo_rotation = \<lparr>ri_slots = [\<lparr>si_id = ''b'', si_position = 2\<rparr>, \<lparr>si_id = ''a'', si_position = 1\<rparr>],
     ri_startDate = 1706695200000, ri_endDate = 1717236000000, ri_frequency = MONTHLY, ri_contributionAmount = 500000,
     ri_contributionOpenOffset = None, ri_contributionCloseOffset = None, ri_gracePeriod = None,
     ri_payoutEligibilityCutoff = None, ri_payoutOffset = None, ri_payoutProcessingWindow = None\<rparr>"

theorem rotation_schedule_sound_witness:
  "\<exists>cycles. generateRotationSchedule demo_rotation = Inr cycles \<and> length cycles = 2
     \<and> map cy_payoutSlotId cycles = [''a'', ''b''] \<and> map cy_payoutAmount cycles = [1000000, 1000000]"
proof -
  let ?r = "generateRotationSchedule demo_rotation"
  have "\<not> isl ?r" and ids: "map cy_payoutSlotId (projr ?r) = [''a'', ''b'']" "map cy_payoutAmount (projr ?r) = [1000000, 1000000]"
    by code_simp+
  then have e: "?r = Inr (projr ?r)" by simp
  from rotation_schedule_sound [OF e] e ids show ?thesis by (auto simp: demo_rotation_def)
qed

text \<open>
  Monthly cycles keep to the calendar: the k-th contribution falls in the k-th month after the
  start's, at the same time of day, on the same date, or on the last day of a shorter month.
\<close>

theorem monthly_due_date:
  "let due = addFrequency t MONTHLY k; m = getUTCMonth t + k; y = getUTCFullYear t + m div 12 in
     getUTCFullYear due = y \<and> getUTCMonth due = m mod 12 \<and> due mod DAY_MS = t mod DAY_MS
     \<and> getUTCDate due = min (getUTCDate t) (daysInMonth (leap y) (m mod 12))"
  using makeDay_roundtrip [OF monthlyDay_range [of t k]]
  by (simp add: addFrequency_monthly Let_def getUTCFullYear_def getUTCMonth_def getUTCDate_def monthYear_def
      monthLength_def monthlyDay_def)

text \<open>The units of the plans and of the payouts, when the loops accept them.\<close>

lemma totalPlanUnits_Inr:
  "totalPlanUnits plans members n = Inr r \<Longrightarrow>
     r = n + sum_list (map fp_unitQuantity plans) \<and> distinct (map fp_memberId plans)
     \<and> fp_memberId ` set plans \<inter> set members = {} \<and> (\<forall>p \<in> set plans. 1 \<le> fp_unitQuantity p)"
  by (induction plans members n rule: totalPlanUnits.induct) (auto split: if_splits)

lemma scheduledPayoutUnits_Inr:
  "scheduledPayoutUnits c ps n = Inr r \<Longrightarrow>
     r = n + sum_list (map fy_unitCount ps) \<and> (\<forall>p \<in> set ps. 1 \<le> fy_cycle p \<and> fy_cycle p \<le> c \<and> 1 \<le> fy_unitCount p)"
  by (induction c ps n rule: scheduledPayoutUnits.induct) (auto split: if_splits)

text \<open>
  A flexible group that reconciles needs no platform money: what its members' units bring over all
  cycles is exactly what its payouts pay; each member has one plan and every payout falls in a
  cycle of the group.
\<close>

theorem flexible_reconciles:
  assumes "reconcileFlexibleAjo unit cycles plans payouts = Inr r"
  shows "fx_expectedInflow r = unit * cycles * sum_list (map fp_unitQuantity plans)
    \<and> fx_expectedOutflow r = unit * sum_list (map fy_unitCount payouts) \<and> fx_expectedInflow r = fx_expectedOutflow r
    \<and> 0 < fx_expectedInflow r \<and> distinct (map fp_memberId plans) \<and> 2 \<le> length plans
    \<and> (\<forall>p \<in> set payouts. 1 \<le> fy_cycle p \<and> fy_cycle p \<le> cycles)"
proof -
  from assms obtain tot sched where t: "totalPlanUnits plans [] 0 = Inr tot" and sc: "scheduledPayoutUnits cycles payouts 0 = Inr sched"
    and pos: "0 < unit" "1 \<le> cycles" "2 \<le> length plans"
    and r: "fx_expectedInflow r = unit * tot * cycles" "fx_expectedOutflow r = unit * sched" "unit * tot * cycles = unit * sched"
    by (auto simp: reconcileFlexibleAjo_def res_iffs Let_def not_le not_less split: if_splits)
  note T = totalPlanUnits_Inr [OF t] and S = scheduledPayoutUnits_Inr [OF sc]
  obtain p ps where p: "plans = p # ps" using pos(3) by (cases plans) auto
  have "0 \<le> sum_list (map fp_unitQuantity ps)" using T p by (intro sum_list_nonneg) auto
  with T p have "0 < tot" by auto
  then have "0 < unit * tot * cycles" using pos by (intro mult_pos_pos) simp_all
  with r(1) have "0 < fx_expectedInflow r" by simp
  with T S r pos show ?thesis by (auto simp: ac_simps)
qed

theorem flexible_reconciles_witness:
  "\<exists>r. reconcileFlexibleAjo 1000 3
     [\<lparr>fp_memberId = ''a'', fp_unitQuantity = 1\<rparr>, \<lparr>fp_memberId = ''b'', fp_unitQuantity = 2\<rparr>]
     [\<lparr>fy_cycle = 1, fy_unitCount = 3\<rparr>, \<lparr>fy_cycle = 2, fy_unitCount = 3\<rparr>, \<lparr>fy_cycle = 3, fy_unitCount = 3\<rparr>] = Inr r
     \<and> fx_expectedInflow r = 9000"
proof -
  let ?r = "reconcileFlexibleAjo 1000 3
     [\<lparr>fp_memberId = ''a'', fp_unitQuantity = 1\<rparr>, \<lparr>fp_memberId = ''b'', fp_unitQuantity = 2\<rparr>]
     [\<lparr>fy_cycle = 1, fy_unitCount = 3\<rparr>, \<lparr>fy_cycle = 2, fy_unitCount = 3\<rparr>, \<lparr>fy_cycle = 3, fy_unitCount = 3\<rparr>]"
  have "\<not> isl ?r" by code_simp
  then have e: "?r = Inr (projr ?r)" by simp
  from flexible_reconciles [OF e] have "fx_expectedInflow (projr ?r) = 9000" by simp
  with e show ?thesis by blast
qed

end
