(* ===== verification/Ajo_Groups.thy ===== *)
theory Ajo_Groups
  imports Webhooks Ajo_Schedule
begin

text \<open>
  Ajo groups: \<^verbatim>\<open>src/modules/ajo-groups/ajo-groups.service.ts\<close>, the codes that admit to a group
  (\<^verbatim>\<open>domain/invitation-code.ts\<close>, \<^verbatim>\<open>src/common/links/share-code.ts\<close>) and the tables of the Ajo
  product. A group is created by its administrator, joined with an invitation or, when listed, its
  public code, and locked, which writes the cycles, the contributions of every slot and one payout
  per cycle. Row ids are supplied by \<open>newId table index\<close>; the HMAC of a code is \<open>hmac\<close>.
\<close>

section \<open>Codes\<close>

definition SHARE_CODE_ALPHABET :: string where
  "SHARE_CODE_ALPHABET = ''2345679ACDEFGHJKMNPQRTUVWXYZ''"

definition PUBLIC_CODE_LENGTH :: nat where "PUBLIC_CODE_LENGTH = 7"
definition INVITATION_CODE_LENGTH :: nat where "INVITATION_CODE_LENGTH = 10"

definition SHARE_CODE_LIMIT :: nat where
  "SHARE_CODE_LIMIT = (256 div length SHARE_CODE_ALPHABET) * length SHARE_CODE_ALPHABET"

text \<open>The inner loop over one batch of random bytes; it stops when the code is complete.\<close>

fun appendBytes :: "nat \<Rightarrow> nat list \<Rightarrow> string \<Rightarrow> string" where
  "appendBytes len [] code = code"
| "appendBytes len (b # bs) code =
     (if b \<ge> SHARE_CODE_LIMIT then appendBytes len bs code
      else let code' = code @ [SHARE_CODE_ALPHABET ! (b mod length SHARE_CODE_ALPHABET)] in
        if length code' = len then code' else appendBytes len bs code')"

text \<open>The outer loop draws a batch at a time; \<open>None\<close> when the supplied batches do not suffice.\<close>

fun randomShareCode :: "nat \<Rightarrow> nat list list \<Rightarrow> string \<Rightarrow> string option" where
  "randomShareCode len [] code = (if length code < len then None else Some code)"
| "randomShareCode len (batch # rest) code =
     (if length code < len then randomShareCode len rest (appendBytes len batch code) else Some code)"

definition normaliseShareCode :: "string \<Rightarrow> nat \<Rightarrow> string option" where
  "normaliseShareCode input len =
     (let code = filter (\<lambda>c. \<not> (is_space c \<or> c = CHR ''-'')) (toUpperCase (trim input)) in
      if length code \<noteq> len then None
      else if list_all (\<lambda>c. c \<in> set SHARE_CODE_ALPHABET) code then Some code else None)"

definition normalisePublicCode :: "string \<Rightarrow> string option" where
  "normalisePublicCode input = normaliseShareCode input PUBLIC_CODE_LENGTH"

text \<open>The regular expression \<^verbatim>\<open>/^[A-Za-z0-9_-]{32,128}$/\<close>.\<close>

definition isLegacyInvitationCode :: "string \<Rightarrow> bool" where
  "isLegacyInvitationCode input \<longleftrightarrow> 32 \<le> length input \<and> length input \<le> 128
     \<and> list_all (\<lambda>c. is_upper c \<or> is_lower c \<or> is_digit c \<or> c = CHR ''_'' \<or> c = CHR ''-'') input"

definition canonicalInvitationCode :: "string \<Rightarrow> string option" where
  "canonicalInvitationCode input =
     (case normaliseShareCode input INVITATION_CODE_LENGTH of
        Some short \<Rightarrow> Some short
      | None \<Rightarrow> if isLegacyInvitationCode input then Some input else None)"

section \<open>Tables\<close>

datatype contribution_mode = CM_FIXED | CM_FLEXIBLE_UNIT
datatype member_role = GROUP_ADMIN | MEMBER
datatype member_status = MS_INVITED | MS_ACTIVE | MS_SUSPENDED | MS_LEFT | MS_REMOVED
datatype slot_status = SL_RESERVED | SL_ACTIVE | SL_COMPLETED | SL_CANCELLED
datatype cycle_status = CY_PENDING | CY_OPEN | CY_PROCESSING | CY_COMPLETED | CY_FAILED | CY_CANCELLED
datatype contribution_schedule_status =
  CSS_PENDING | CSS_DUE | CSS_PARTIALLY_PAID | CSS_PAID | CSS_OVERDUE | CSS_WAIVED | CSS_CANCELLED
datatype invitation_status = GI_ACTIVE | GI_REVOKED | GI_EXPIRED | GI_EXHAUSTED

record ajo_group =
  ag_id :: string
  ag_name :: string
  ag_description :: "string option"
  ag_status :: group_status
  ag_frequency :: ajo_frequency
  ag_mode :: contribution_mode
  ag_baseContribution :: int
  ag_contributionUnit :: "int option"
  ag_currency :: string
  ag_maxMembers :: int
  ag_maxSlots :: int
  ag_minSlotsPerMember :: int
  ag_maxSlotsPerMember :: int
  ag_businessTimezone :: string
  ag_openOffset :: int
  ag_closeOffset :: int
  ag_gracePeriod :: int
  ag_lateThreshold :: int
  ag_payoutCutoff :: int
  ag_payoutOffset :: int
  ag_payoutWindow :: int
  ag_startDate :: int
  ag_endDate :: int
  ag_createdByUserId :: string
  ag_scheduleVersion :: int
  ag_lockedAt :: "int option"
  ag_shortCode :: string
  ag_publiclyListed :: bool

record ajo_member =
  am_id :: string
  am_groupId :: string
  am_userId :: string
  am_role :: member_role
  am_status :: member_status
  am_joinedAt :: "int option"

record ajo_slot =
  sl_id :: string
  sl_groupId :: string
  sl_memberId :: string
  sl_position :: int
  sl_status :: slot_status
  sl_activatedAt :: "int option"

record ajo_plan =
  ap_id :: string
  ap_groupId :: string
  ap_memberId :: string
  ap_unit :: int
  ap_quantity :: int
  ap_expectedPerCycle :: int
  ap_totalExpected :: int
  ap_outstanding :: int
  ap_entitlement :: int
  ap_currency :: string
  ap_lockedAt :: "int option"

record group_invitation =
  gi_id :: string
  gi_groupId :: string
  gi_createdByMemberId :: string
  gi_tokenDigest :: string
  gi_status :: invitation_status
  gi_maxUses :: int
  gi_useCount :: int
  gi_expiresAt :: int

record ajo_cycle =
  ac_id :: string
  ac_groupId :: string
  ac_status :: cycle_status
  ac_sequence :: int
  ac_contributionDueAt :: int
  ac_contributionOpensAt :: int
  ac_contributionClosesAt :: int
  ac_graceEndsAt :: int
  ac_payoutEligibilityCutoffAt :: int
  ac_payoutDueAt :: int
  ac_payoutProcessingEndsAt :: int

record contribution_schedule =
  cs_id :: string
  cs_groupId :: string
  cs_cycleId :: string
  cs_slotId :: string
  cs_amountDue :: int
  cs_amountPaid :: int
  cs_currency :: string
  cs_dueAt :: int
  cs_status :: contribution_schedule_status
  cs_version :: int

record payout_schedule =
  pos_id :: string
  pos_groupId :: string
  pos_cycleId :: string
  pos_slotId :: string
  pos_amountDue :: int
  pos_amountPaid :: int
  pos_currency :: string
  pos_dueAt :: int
  pos_status :: payout_schedule_status
  pos_version :: int

datatype version_reason = INITIAL_LOCK | APPROVED_SWAP | ADMINISTRATIVE_CORRECTION

record schedule_version_row =
  svr_id :: string
  svr_groupId :: string
  svr_version :: int
  svr_previousId :: "string option"
  svr_reason :: version_reason
  svr_createdBy :: string
  svr_expectedInflow :: "int option"
  svr_expectedOutflow :: "int option"

record contribution_row =
  co_id :: string
  co_groupId :: string
  co_scheduleId :: string
  co_memberId :: string
  co_slotId :: string
  co_amount :: int
  co_currency :: string
  co_idempotencyKey :: string
  co_ledgerTransactionId :: string

record payout_row =
  pr_id :: string
  pr_groupId :: string
  pr_scheduleId :: string
  pr_memberId :: string
  pr_slotId :: string
  pr_amount :: int
  pr_currency :: string
  pr_idempotencyKey :: string
  pr_ledgerTransactionId :: string

datatype swap_status = SW_PENDING | SW_APPROVED | SW_REJECTED | SW_CANCELLED | SW_EXECUTED | SW_EXPIRED

record swap_request =
  sw_id :: string
  sw_groupId :: string
  sw_requestedByMemberId :: string
  sw_initiatedByUserId :: string
  sw_byAdministrator :: bool
  sw_fromSlotId :: string
  sw_toSlotId :: string
  sw_originalFromPosition :: int
  sw_originalToPosition :: int
  sw_proposedFromPosition :: int
  sw_proposedToPosition :: int
  sw_status :: swap_status
  sw_previousVersion :: int
  sw_scheduleVersion :: int
  sw_resultingVersion :: "int option"
  sw_feeAssessmentId :: "string option"
  sw_expiresAt :: "int option"
  sw_decidedAt :: "int option"
  sw_executedAt :: "int option"

record swap_approval =
  sa_swapRequestId :: string
  sa_approverMemberId :: string
  sa_decision :: swap_decision

record fee_assessment =
  fe_id :: string
  fe_feeDefinitionId :: string
  fe_subjectId :: string
  fe_amount :: int
  fe_currency :: string
  fe_base :: int

record ajo_db = webhook_db +
  ajo_groups :: "ajo_group list"
  ajo_members :: "ajo_member list"
  ajo_slots :: "ajo_slot list"
  ajo_plans :: "ajo_plan list"
  group_invitations :: "group_invitation list"
  ajo_cycles :: "ajo_cycle list"
  contribution_schedules :: "contribution_schedule list"
  payout_schedules :: "payout_schedule list"
  schedule_versions :: "schedule_version_row list"
  contributions :: "contribution_row list"
  payouts :: "payout_row list"
  swap_requests :: "swap_request list"
  swap_approvals :: "swap_approval list"
  fee_assessments :: "fee_assessment list"

definition group_clash :: "ajo_group \<Rightarrow> ajo_group \<Rightarrow> bool" where
  "group_clash a b \<longleftrightarrow> ag_id a = ag_id b \<or> ag_shortCode a = ag_shortCode b"

definition member_clash :: "ajo_member \<Rightarrow> ajo_member \<Rightarrow> bool" where
  "member_clash a b \<longleftrightarrow> am_id a = am_id b \<or> (am_groupId a = am_groupId b \<and> am_userId a = am_userId b)"

definition slot_clash :: "ajo_slot \<Rightarrow> ajo_slot \<Rightarrow> bool" where
  "slot_clash a b \<longleftrightarrow> sl_id a = sl_id b \<or> (sl_groupId a = sl_groupId b \<and> sl_position a = sl_position b)"

definition plan_clash :: "ajo_plan \<Rightarrow> ajo_plan \<Rightarrow> bool" where
  "plan_clash a b \<longleftrightarrow> ap_id a = ap_id b \<or> ap_memberId a = ap_memberId b"

definition invitation_clash :: "group_invitation \<Rightarrow> group_invitation \<Rightarrow> bool" where
  "invitation_clash a b \<longleftrightarrow> gi_id a = gi_id b \<or> gi_tokenDigest a = gi_tokenDigest b"

definition cycle_clash :: "ajo_cycle \<Rightarrow> ajo_cycle \<Rightarrow> bool" where
  "cycle_clash a b \<longleftrightarrow> ac_id a = ac_id b \<or> (ac_groupId a = ac_groupId b \<and> ac_sequence a = ac_sequence b)"

definition contribution_clash :: "contribution_schedule \<Rightarrow> contribution_schedule \<Rightarrow> bool" where
  "contribution_clash a b \<longleftrightarrow> cs_id a = cs_id b \<or> (cs_cycleId a = cs_cycleId b \<and> cs_slotId a = cs_slotId b)"

definition payout_clash :: "payout_schedule \<Rightarrow> payout_schedule \<Rightarrow> bool" where
  "payout_clash a b \<longleftrightarrow> pos_id a = pos_id b
     \<or> (pos_slotId a = pos_slotId b \<and> pos_version a = pos_version b
        \<and> (pos_cycleId a = pos_cycleId b \<or> pos_groupId a = pos_groupId b))"

definition version_clash :: "schedule_version_row \<Rightarrow> schedule_version_row \<Rightarrow> bool" where
  "version_clash a b \<longleftrightarrow> svr_id a = svr_id b \<or> (svr_groupId a = svr_groupId b \<and> svr_version a = svr_version b)"


section \<open>AjoGroupsService\<close>

definition findGroup :: "string \<Rightarrow> 'm ajo_db_scheme \<Rightarrow> ajo_group option" where
  "findGroup groupId s = List.find (\<lambda>g. ag_id g = groupId) (ajo_groups s)"

definition findMember :: "string \<Rightarrow> string \<Rightarrow> 'm ajo_db_scheme \<Rightarrow> ajo_member option" where
  "findMember groupId userId s = List.find (\<lambda>m. am_groupId m = groupId \<and> am_userId m = userId) (ajo_members s)"

definition groupSlots :: "string \<Rightarrow> 'm ajo_db_scheme \<Rightarrow> ajo_slot list" where
  "groupSlots groupId s = filter (\<lambda>x. sl_groupId x = groupId) (ajo_slots s)"

definition activeMembers :: "string \<Rightarrow> 'm ajo_db_scheme \<Rightarrow> ajo_member list" where
  "activeMembers groupId s = filter (\<lambda>m. am_groupId m = groupId \<and> am_status m = MS_ACTIVE) (ajo_members s)"

definition updateGroup :: "string \<Rightarrow> (ajo_group \<Rightarrow> ajo_group) \<Rightarrow> 'm ajo_db_scheme \<Rightarrow> 'm ajo_db_scheme" where
  "updateGroup groupId f s = s\<lparr>ajo_groups := update_where (\<lambda>g. ag_id g = groupId) f (ajo_groups s)\<rparr>"

text \<open>The check every administrator's operation starts with; only its message varies.\<close>

definition requireAdmin :: "string \<Rightarrow> string \<Rightarrow> string \<Rightarrow> 'm ajo_db_scheme \<Rightarrow> ajo_member res" where
  "requireAdmin msg userId groupId s =
     (case findMember groupId userId s of
        None \<Rightarrow> Inl (Forbidden msg)
      | Some m \<Rightarrow> if am_role m \<noteq> GROUP_ADMIN \<or> am_status m \<noteq> MS_ACTIVE then Inl (Forbidden msg) else Inr m)"

definition requireMembership :: "string \<Rightarrow> string \<Rightarrow> 'm ajo_db_scheme \<Rightarrow> ajo_member res" where
  "requireMembership userId groupId s =
     (case findMember groupId userId s of
        None \<Rightarrow> Inl (Forbidden ''You do not have access to this group'')
      | Some m \<Rightarrow> if am_status m \<noteq> MS_ACTIVE then Inl (Forbidden ''You do not have access to this group'') else Inr m)"

definition acceptsMembers :: "ajo_group \<Rightarrow> bool" where
  "acceptsMembers g \<longleftrightarrow> ag_status g = GS_DRAFT \<or> ag_status g = GS_OPEN"

record create_group_dto =
  cg_name :: string
  cg_frequency :: ajo_frequency
  cg_mode :: contribution_mode
  cg_baseContribution :: int
  cg_contributionUnit :: "int option"
  cg_maxMembers :: int
  cg_maxSlots :: int
  cg_requestedSlots :: int
  cg_minSlotsPerMember :: int
  cg_maxSlotsPerMember :: "int option"
  cg_businessTimezone :: string
  cg_openOffset :: int
  cg_closeOffset :: int
  cg_gracePeriod :: int
  cg_lateThreshold :: int
  cg_payoutCutoff :: int
  cg_payoutOffset :: int
  cg_payoutWindow :: int
  cg_startDate :: int
  cg_endDate :: int

definition newGroup :: "string \<Rightarrow> string \<Rightarrow> string \<Rightarrow> create_group_dto \<Rightarrow> int \<Rightarrow> int \<Rightarrow> ajo_group" where
  "newGroup gid shortCode userId dto unitMinor maxPer =
     \<lparr>ag_id = gid, ag_name = trim (cg_name dto), ag_description = None, ag_status = GS_DRAFT,
      ag_frequency = cg_frequency dto, ag_mode = cg_mode dto, ag_baseContribution = unitMinor,
      ag_contributionUnit = (if cg_mode dto = CM_FLEXIBLE_UNIT then Some unitMinor else None), ag_currency = ''NGN'',
      ag_maxMembers = cg_maxMembers dto, ag_maxSlots = cg_maxSlots dto, ag_minSlotsPerMember = cg_minSlotsPerMember dto,
      ag_maxSlotsPerMember = maxPer, ag_businessTimezone = cg_businessTimezone dto, ag_openOffset = cg_openOffset dto,
      ag_closeOffset = cg_closeOffset dto, ag_gracePeriod = cg_gracePeriod dto, ag_lateThreshold = cg_lateThreshold dto,
      ag_payoutCutoff = cg_payoutCutoff dto, ag_payoutOffset = cg_payoutOffset dto, ag_payoutWindow = cg_payoutWindow dto,
      ag_startDate = dateColumn (cg_startDate dto), ag_endDate = dateColumn (cg_endDate dto), ag_createdByUserId = userId,
      ag_scheduleVersion = 0, ag_lockedAt = None, ag_shortCode = shortCode, ag_publiclyListed = False\<rparr>"

text \<open>\<^verbatim>\<open>Array.from\<close>: the slots of a new member, after the positions already taken.\<close>

definition newSlots :: "(string \<Rightarrow> nat \<Rightarrow> string) \<Rightarrow> string \<Rightarrow> string \<Rightarrow> nat \<Rightarrow> int \<Rightarrow> ajo_slot list" where
  "newSlots newId groupId memberId taken requested =
     map (\<lambda>index. \<lparr>sl_id = newId ''slot'' index, sl_groupId = groupId, sl_memberId = memberId,
        sl_position = int taken + int index + 1, sl_status = SL_RESERVED, sl_activatedAt = None\<rparr>) [0..<nat requested]"

definition newPlan :: "string \<Rightarrow> string \<Rightarrow> string \<Rightarrow> int \<Rightarrow> int \<Rightarrow> string \<Rightarrow> ajo_plan" where
  "newPlan pid groupId memberId unitMinor quantity currency =
     \<lparr>ap_id = pid, ap_groupId = groupId, ap_memberId = memberId, ap_unit = unitMinor, ap_quantity = quantity,
      ap_expectedPerCycle = unitMinor * quantity, ap_totalExpected = 0, ap_outstanding = 0,
      ap_entitlement = unitMinor * quantity, ap_currency = currency, ap_lockedAt = None\<rparr>"

text \<open>The checks before the transaction; they give the contribution unit.\<close>

definition createChecks :: "create_group_dto \<Rightarrow> int res" where
  "createChecks dto =
     bind_res (assertAjoGroupBounds (cg_startDate dto) (cg_endDate dto) (cg_maxSlots dto)) (\<lambda>_.
     bind_res (assertSlotCapacity (cg_minSlotsPerMember dto) (resolveMaxSlotsPerMember (cg_maxSlotsPerMember dto) (cg_maxSlots dto))
         (cg_requestedSlots dto) (cg_maxSlots dto)) (\<lambda>_.
     case (if cg_mode dto = CM_FLEXIBLE_UNIT then cg_contributionUnit dto else Some (cg_baseContribution dto)) of
       None \<Rightarrow> Inl (Unprocessable ''Flexible Ajo requires a contribution unit'')
     | Some unitMinor \<Rightarrow> Inr unitMinor))"

text \<open>The transaction: the group, its administrator with slots and plan, and the first invitation.\<close>

definition openGroup ::
  "(string \<Rightarrow> string) \<Rightarrow> (string \<Rightarrow> nat \<Rightarrow> string) \<Rightarrow> string \<Rightarrow> string \<Rightarrow> int \<Rightarrow> string \<Rightarrow> create_group_dto \<Rightarrow> int \<Rightarrow>
     ('m ajo_db_scheme, string) tx" where
  "openGroup hmac newId shortCode invitationCode now userId dto unitMinor s =
     (let gid = newId ''group'' 0; mid = newId ''member'' 0;
          g = newGroup gid shortCode userId dto unitMinor (resolveMaxSlotsPerMember (cg_maxSlotsPerMember dto) (cg_maxSlots dto)) in
      bind_res (insertRow group_clash g (ajo_groups s)) (\<lambda>gs.
      bind_res (insertRow member_clash \<lparr>am_id = mid, am_groupId = gid, am_userId = userId, am_role = GROUP_ADMIN,
          am_status = MS_ACTIVE, am_joinedAt = Some now\<rparr> (ajo_members s)) (\<lambda>ms.
      bind_res (insertRows slot_clash (newSlots newId gid mid 0 (cg_requestedSlots dto)) (ajo_slots s)) (\<lambda>ss.
      bind_res (insertRow plan_clash (newPlan (newId ''plan'' 0) gid mid unitMinor (cg_requestedSlots dto) (ag_currency g)) (ajo_plans s)) (\<lambda>ps.
      bind_res (insertRow invitation_clash \<lparr>gi_id = newId ''invitation'' 0, gi_groupId = gid, gi_createdByMemberId = mid,
          gi_tokenDigest = hmac invitationCode, gi_status = GI_ACTIVE, gi_maxUses = cg_maxSlots dto - cg_requestedSlots dto,
          gi_useCount = 0, gi_expiresAt = cg_startDate dto\<rparr> (group_invitations s)) (\<lambda>is.
      Inr (gid, audit (Some userId) ''ajo.group.created'' ''AjoGroup'' (Some gid) (Some gid)
        (s\<lparr>ajo_groups := gs, ajo_members := ms, ajo_slots := ss, ajo_plans := ps, group_invitations := is\<rparr>))))))))"

definition createGroup ::
  "(string \<Rightarrow> string) \<Rightarrow> (string \<Rightarrow> nat \<Rightarrow> string) \<Rightarrow> string \<Rightarrow> string \<Rightarrow> int \<Rightarrow> string \<Rightarrow> create_group_dto \<Rightarrow>
     ('m ajo_db_scheme, string) handler" where
  "createGroup hmac newId shortCode invitationCode now userId dto s =
     (case createChecks dto of
        Inl e \<Rightarrow> (Inl e, s)
      | Inr unitMinor \<Rightarrow> serializable (openGroup hmac newId shortCode invitationCode now userId dto unitMinor) s)"

record join_dto =
  jd_invitationCode :: string
  jd_requestedSlots :: int

definition invitationAdmits :: "string \<Rightarrow> int \<Rightarrow> group_invitation \<Rightarrow> bool" where
  "invitationAdmits groupId now i \<longleftrightarrow> gi_groupId i = groupId \<and> gi_status i = GI_ACTIVE
     \<and> \<not> gi_expiresAt i \<le> now \<and> \<not> gi_useCount i \<ge> gi_maxUses i"

definition joinInvitation :: "(string \<Rightarrow> string) \<Rightarrow> join_dto \<Rightarrow> ajo_group \<Rightarrow> 'm ajo_db_scheme \<Rightarrow> bool \<times> group_invitation option" where
  "joinInvitation hmac dto g s =
     (let viaListing = (case normalisePublicCode (jd_invitationCode dto) of
            None \<Rightarrow> False | Some c \<Rightarrow> ag_publiclyListed g \<and> ag_shortCode g = c)
      in (viaListing,
          if viaListing then None
          else case canonicalInvitationCode (jd_invitationCode dto) of
            None \<Rightarrow> None
          | Some c \<Rightarrow> List.find (\<lambda>i. gi_tokenDigest i = hmac c) (group_invitations s)))"

definition admitMember ::
  "(string \<Rightarrow> nat \<Rightarrow> string) \<Rightarrow> int \<Rightarrow> string \<Rightarrow> ajo_group \<Rightarrow> int \<Rightarrow> group_invitation option \<Rightarrow> ('m ajo_db_scheme, string) tx" where
  "admitMember newId now userId g requested invitation s =
     (let gid = ag_id g; mid = newId ''member'' 0; unitMinor = or_default (ag_contributionUnit g) (ag_baseContribution g) in
      bind_res (insertRow member_clash \<lparr>am_id = mid, am_groupId = gid, am_userId = userId, am_role = MEMBER,
          am_status = MS_ACTIVE, am_joinedAt = Some now\<rparr> (ajo_members s)) (\<lambda>ms.
      bind_res (insertRows slot_clash (newSlots newId gid mid (length (groupSlots gid s)) requested) (ajo_slots s)) (\<lambda>ss.
      bind_res (insertRow plan_clash (newPlan (newId ''plan'' 0) gid mid unitMinor requested (ag_currency g)) (ajo_plans s)) (\<lambda>ps.
      Inr (mid, audit (Some userId) ''ajo.membership.joined'' ''AjoGroupMember'' (Some mid) (Some gid)
        (s\<lparr>ajo_members := ms, ajo_slots := ss, ajo_plans := ps,
           group_invitations := (case invitation of
             None \<Rightarrow> group_invitations s
           | Some i \<Rightarrow> update_where (\<lambda>j. gi_id j = gi_id i) (\<lambda>j. j\<lparr>gi_useCount := gi_useCount j + 1\<rparr>) (group_invitations s))\<rparr>))))))"

definition joinGroup ::
  "(string \<Rightarrow> string) \<Rightarrow> (string \<Rightarrow> nat \<Rightarrow> string) \<Rightarrow> int \<Rightarrow> string \<Rightarrow> string \<Rightarrow> join_dto \<Rightarrow> ('m ajo_db_scheme, string) handler" where
  "joinGroup hmac newId now userId groupId dto = serializable (\<lambda>s.
     case findGroup groupId s of
       None \<Rightarrow> Inl (NotFound ''Ajo group was not found'')
     | Some g \<Rightarrow>
     if \<not> acceptsMembers g then Inl (Conflict ''This group no longer accepts members'')
     else
       (let admin = List.find (\<lambda>m. am_groupId m = groupId \<and> am_role m = GROUP_ADMIN \<and> am_status m = MS_ACTIVE) (ajo_members s) in
        bind_res (assertOrganiserVerified s (case admin of Some m \<Rightarrow> am_userId m | None \<Rightarrow> ag_createdByUserId g)) (\<lambda>_.
        let (viaListing, invitation) = joinInvitation hmac dto g s in
        if \<not> viaListing \<and> (case invitation of None \<Rightarrow> True | Some i \<Rightarrow> \<not> invitationAdmits groupId now i)
        then Inl (Forbidden ''Invitation is invalid or expired'')
        else if int (length (groupSlots groupId s)) + jd_requestedSlots dto > ag_maxSlots g
        then Inl (Conflict ''Requested slots exceed remaining group capacity'')
        else if int (length (activeMembers groupId s)) \<ge> ag_maxMembers g
        then Inl (Conflict ''Group member capacity has been reached'')
        else if jd_requestedSlots dto < ag_minSlotsPerMember g \<or> jd_requestedSlots dto > ag_maxSlotsPerMember g
        then Inl (Conflict ''Requested slots violate this group's per-member limits'')
        else admitMember newId now userId g (jd_requestedSlots dto) invitation s)))"

definition setListing :: "string \<Rightarrow> string \<Rightarrow> bool \<Rightarrow> ('m ajo_db_scheme, unit) handler" where
  "setListing userId groupId listed = serializable (\<lambda>s.
     bind_res (requireAdmin ''Only this group's active administrator can list it'' userId groupId s) (\<lambda>_.
     case findGroup groupId s of
       None \<Rightarrow> Inl (NotFound ''Ajo group was not found'')
     | Some g \<Rightarrow>
     if listed \<and> \<not> acceptsMembers g then Inl (Conflict ''Only a group that is still taking members can be listed'')
     else (let s1 = updateGroup groupId (\<lambda>g. g\<lparr>ag_publiclyListed := listed\<rparr>) s in
       Inr ((), if ag_publiclyListed g \<noteq> listed
                then audit (Some userId) (if listed then ''ajo.group.listed'' else ''ajo.group.unlisted'') ''AjoGroup''
                  (Some groupId) (Some groupId) s1
                else s1))))"

definition updateProfile :: "string \<Rightarrow> string \<Rightarrow> string option \<Rightarrow> string option \<Rightarrow> ('m ajo_db_scheme, unit) handler" where
  "updateProfile userId groupId newName newDescription = serializable (\<lambda>s.
     bind_res (requireAdmin ''Only this group's active administrator can edit it'' userId groupId s) (\<lambda>_.
     case findGroup groupId s of
       None \<Rightarrow> Inl (NotFound ''Ajo group was not found'')
     | Some g \<Rightarrow>
     if \<not> acceptsMembers g then Inl (Conflict ''Only a group that is still taking members can be edited'')
     else if newName = None \<and> newDescription = None then Inl (Unprocessable ''Provide a group name or description'')
     else if (case newName of None \<Rightarrow> False | Some n \<Rightarrow> length (trim n) < 3)
     then Inl (Unprocessable ''Group name must contain at least three characters'')
     else Inr ((), audit (Some userId) ''ajo.group.profile.updated'' ''AjoGroup'' (Some groupId) (Some groupId)
       (updateGroup groupId (\<lambda>g. g\<lparr>ag_name := (case newName of None \<Rightarrow> ag_name g | Some n \<Rightarrow> trim n),
          ag_description := (case newDescription of None \<Rightarrow> ag_description g | Some d \<Rightarrow> truthy (Some (trim d)))\<rparr>) s))))"

text \<open>What \<^verbatim>\<open>lock\<close> passes to the schedule generator.\<close>

definition rotationInput :: "ajo_group \<Rightarrow> ajo_slot list \<Rightarrow> rotation_input" where
  "rotationInput g slots =
     \<lparr>ri_slots = map (\<lambda>x. \<lparr>si_id = sl_id x, si_position = sl_position x\<rparr>) slots, ri_startDate = ag_startDate g,
      ri_endDate = ag_endDate g, ri_frequency = ag_frequency g, ri_contributionAmount = ag_baseContribution g,
      ri_contributionOpenOffset = Some (ag_openOffset g), ri_contributionCloseOffset = Some (ag_closeOffset g),
      ri_gracePeriod = Some (ag_gracePeriod g), ri_payoutEligibilityCutoff = Some (ag_payoutCutoff g),
      ri_payoutOffset = Some (ag_payoutOffset g), ri_payoutProcessingWindow = Some (ag_payoutWindow g)\<rparr>"

definition cycleRow :: "(string \<Rightarrow> nat \<Rightarrow> string) \<Rightarrow> string \<Rightarrow> nat \<Rightarrow> rotation_cycle \<Rightarrow> ajo_cycle" where
  "cycleRow newId groupId k c =
     \<lparr>ac_id = newId ''cycle'' k, ac_groupId = groupId, ac_status = CY_PENDING, ac_sequence = cy_sequence c,
      ac_contributionDueAt = cy_contributionDueAt c, ac_contributionOpensAt = cy_contributionOpensAt c,
      ac_contributionClosesAt = cy_contributionClosesAt c, ac_graceEndsAt = cy_graceEndsAt c,
      ac_payoutEligibilityCutoffAt = cy_payoutEligibilityCutoffAt c, ac_payoutDueAt = cy_payoutDueAt c,
      ac_payoutProcessingEndsAt = cy_payoutProcessingEndsAt c\<rparr>"

definition contributionRows :: "(string \<Rightarrow> nat \<Rightarrow> string) \<Rightarrow> ajo_group \<Rightarrow> int \<Rightarrow> ajo_slot list \<Rightarrow> nat \<Rightarrow> rotation_cycle \<Rightarrow> contribution_schedule list" where
  "contributionRows newId g version slots k c =
     map (\<lambda>(j, slot). \<lparr>cs_id = newId ''contribution'' (k * length slots + j), cs_groupId = ag_id g, cs_cycleId = newId ''cycle'' k,
        cs_slotId = sl_id slot, cs_amountDue = cy_contributionAmount c, cs_amountPaid = 0, cs_currency = ag_currency g,
        cs_dueAt = cy_contributionDueAt c, cs_status = CSS_PENDING, cs_version = version\<rparr>) (enumerate 0 slots)"

definition payoutRow :: "(string \<Rightarrow> nat \<Rightarrow> string) \<Rightarrow> ajo_group \<Rightarrow> int \<Rightarrow> nat \<Rightarrow> rotation_cycle \<Rightarrow> payout_schedule" where
  "payoutRow newId g version k c =
     \<lparr>pos_id = newId ''payout'' k, pos_groupId = ag_id g, pos_cycleId = newId ''cycle'' k, pos_slotId = cy_payoutSlotId c,
      pos_amountDue = cy_payoutAmount c, pos_amountPaid = 0, pos_currency = ag_currency g, pos_dueAt = cy_payoutDueAt c,
      pos_status = PS_PENDING, pos_version = version\<rparr>"

definition lockPlan :: "int \<Rightarrow> ajo_group \<Rightarrow> nat \<Rightarrow> nat \<Rightarrow> ajo_plan \<Rightarrow> ajo_plan" where
  "lockPlan now g slotCount cycleCount p =
     p\<lparr>ap_totalExpected := ap_expectedPerCycle p * int cycleCount, ap_outstanding := ap_expectedPerCycle p * int cycleCount,
       ap_entitlement := ag_baseContribution g * int slotCount * ap_quantity p, ap_lockedAt := Some now\<rparr>"

text \<open>Writing the schedule: the rows of all cycles, the slots, the plans, the version and the group.\<close>

definition writeSchedule ::
  "(string \<Rightarrow> nat \<Rightarrow> string) \<Rightarrow> int \<Rightarrow> string \<Rightarrow> ajo_group \<Rightarrow> ajo_slot list \<Rightarrow> rotation_cycle list \<Rightarrow> ('m ajo_db_scheme, nat) tx" where
  "writeSchedule newId now userId g slots cycles s =
     (let version = ag_scheduleVersion g + 1; gid = ag_id g; numbered = enumerate 0 cycles in
      bind_res (insertRows cycle_clash (map (\<lambda>(k, c). cycleRow newId gid k c) numbered) (ajo_cycles s)) (\<lambda>cys.
      bind_res (insertRows contribution_clash (concat (map (\<lambda>(k, c). contributionRows newId g version slots k c) numbered))
          (contribution_schedules s)) (\<lambda>css.
      bind_res (insertRows payout_clash (map (\<lambda>(k, c). payoutRow newId g version k c) numbered) (payout_schedules s)) (\<lambda>pss.
      bind_res (insertRow version_clash
          \<lparr>svr_id = newId ''version'' 0, svr_groupId = gid, svr_version = version, svr_previousId = None, svr_reason = INITIAL_LOCK,
           svr_createdBy = userId,
           svr_expectedInflow = Some (ag_baseContribution g * int (length slots) * int (length cycles)),
           svr_expectedOutflow = Some (sum_list (map cy_payoutAmount cycles))\<rparr> (schedule_versions s)) (\<lambda>vs.
      Inr (length cycles, audit (Some userId) ''ajo.group.locked'' ''AjoGroup'' (Some gid) (Some gid)
        (updateGroup gid (\<lambda>g. g\<lparr>ag_status := GS_LOCKED, ag_lockedAt := Some now, ag_scheduleVersion := version\<rparr>)
          (s\<lparr>ajo_cycles := cys, contribution_schedules := css, payout_schedules := pss, schedule_versions := vs,
             ajo_slots := update_where (\<lambda>x. sl_groupId x = gid) (\<lambda>x. x\<lparr>sl_status := SL_ACTIVE, sl_activatedAt := Some now\<rparr>) (ajo_slots s),
             ajo_plans := update_where (\<lambda>p. ap_groupId p = gid) (lockPlan now g (length slots) (length cycles)) (ajo_plans s)\<rparr>))))))))"

definition lockGroup :: "(string \<Rightarrow> nat \<Rightarrow> string) \<Rightarrow> int \<Rightarrow> string \<Rightarrow> string \<Rightarrow> ('m ajo_db_scheme, nat) handler" where
  "lockGroup newId now userId groupId = serializable (\<lambda>s.
     bind_res (requireAdmin ''Only this group's active administrator can lock it'' userId groupId s) (\<lambda>_.
     case findGroup groupId s of
       None \<Rightarrow> Inl (NotFound ''Ajo group was not found'')
     | Some g \<Rightarrow>
     if \<not> acceptsMembers g then Inl (Conflict ''Only a draft or open group can be locked'')
     else
       (let slots = sort_key sl_position (groupSlots groupId s);
            plans = filter (\<lambda>p. ap_groupId p = groupId) (ajo_plans s); members = activeMembers groupId s in
        bind_res (generateRotationSchedule (rotationInput g slots)) (\<lambda>cycles.
        if int (length members) > ag_maxMembers g then Inl (Unprocessable ''Active member count exceeds group capacity'')
        else if length plans \<noteq> length members \<or> sum_list (map ap_quantity plans) \<noteq> int (length slots)
        then Inl (Unprocessable ''Contribution plans do not match active slots'')
        else writeSchedule newId now userId g slots cycles s))))"

text \<open>
  \<^verbatim>\<open>schedule\<close>: per cycle, the contributions the caller may see and the payouts of the current
  version; an administrator sees every member's.
\<close>

definition viewSchedule :: "string \<Rightarrow> string \<Rightarrow> 'm ajo_db_scheme \<Rightarrow>
    (ajo_cycle \<times> contribution_schedule list \<times> payout_schedule list) list res" where
  "viewSchedule userId groupId s =
     bind_res (requireMembership userId groupId s) (\<lambda>m.
     case findGroup groupId s of
       None \<Rightarrow> Inl (NotFound ''Ajo group was not found'')
     | Some g \<Rightarrow>
         Inr (map (\<lambda>c. (c,
             filter (\<lambda>x. cs_cycleId x = ac_id c \<and> (am_role m = GROUP_ADMIN
               \<or> (\<exists>slot \<in> set (ajo_slots s). sl_id slot = cs_slotId x \<and> sl_memberId slot = am_id m))) (contribution_schedules s),
             filter (\<lambda>x. pos_cycleId x = ac_id c \<and> pos_version x = ag_scheduleVersion g) (payout_schedules s)))
           (sort_key ac_sequence (filter (\<lambda>c. ac_groupId c = groupId) (ajo_cycles s)))))"


section \<open>Requests and their validation\<close>

text \<open>The constraints the validation pipe enforces on the body of \<^verbatim>\<open>POST /ajo-groups\<close> before the service runs.\<close>

definition validCreateGroup :: "create_group_dto \<Rightarrow> bool" where
  "validCreateGroup dto \<longleftrightarrow>
     3 \<le> length (cg_name dto) \<and> length (cg_name dto) \<le> 160
     \<and> 1 \<le> cg_baseContribution dto \<and> (case cg_contributionUnit dto of None \<Rightarrow> True | Some u \<Rightarrow> 1 \<le> u)
     \<and> 2 \<le> cg_maxMembers dto \<and> cg_maxMembers dto \<le> 1000 \<and> 2 \<le> cg_maxSlots dto \<and> cg_maxSlots dto \<le> 1000
     \<and> 1 \<le> cg_requestedSlots dto \<and> cg_requestedSlots dto \<le> 1000
     \<and> 1 \<le> cg_minSlotsPerMember dto \<and> cg_minSlotsPerMember dto \<le> 1000
     \<and> (case cg_maxSlotsPerMember dto of None \<Rightarrow> True | Some m \<Rightarrow> 1 \<le> m \<and> m \<le> 1000)
     \<and> length (cg_businessTimezone dto) \<le> 64 \<and> 0 \<le> cg_openOffset dto \<and> 0 \<le> cg_closeOffset dto
     \<and> 0 \<le> cg_gracePeriod dto \<and> 0 \<le> cg_lateThreshold dto \<and> 0 \<le> cg_payoutCutoff dto \<and> 0 \<le> cg_payoutOffset dto
     \<and> 1 \<le> cg_payoutWindow dto"

definition validJoin :: "join_dto \<Rightarrow> bool" where
  "validJoin dto \<longleftrightarrow> 7 \<le> length (jd_invitationCode dto) \<and> length (jd_invitationCode dto) \<le> 128
     \<and> 1 \<le> jd_requestedSlots dto \<and> jd_requestedSlots dto \<le> 1000"

datatype group_request =
    CreateGroup string string create_group_dto
  | JoinGroup string join_dto
  | SetListing string bool
  | UpdateProfile string "string option" "string option"
  | LockGroup string

text \<open>One request: who sends it, when, the ids the database gives its rows, and what it asks for.\<close>

record group_call =
  gc_user :: string
  gc_now :: int
  gc_ids :: "string \<Rightarrow> nat \<Rightarrow> string"
  gc_request :: group_request

definition serveGroup :: "(string \<Rightarrow> string) \<Rightarrow> group_call \<Rightarrow> 'm ajo_db_scheme \<Rightarrow> 'm ajo_db_scheme" where
  "serveGroup hmac c s =
     (case gc_request c of
        CreateGroup shortCode invitationCode dto \<Rightarrow>
          if validCreateGroup dto then snd (createGroup hmac (gc_ids c) shortCode invitationCode (gc_now c) (gc_user c) dto s) else s
      | JoinGroup gid dto \<Rightarrow> if validJoin dto then snd (joinGroup hmac (gc_ids c) (gc_now c) (gc_user c) gid dto s) else s
      | SetListing gid listed \<Rightarrow> snd (setListing (gc_user c) gid listed s)
      | UpdateProfile gid newName newDescription \<Rightarrow> snd (updateProfile (gc_user c) gid newName newDescription s)
      | LockGroup gid \<Rightarrow> snd (lockGroup (gc_ids c) (gc_now c) (gc_user c) gid s))"

end
