(* ===== verification/Ajo_Rotation.thy ===== *)
theory Ajo_Rotation
  imports Ajo_Groups
begin

text \<open>
  What the operations on Ajo groups keep and establish: the rotation invariant of the slots, what
  locking a group writes, and the codes that admit members.
\<close>

section \<open>The rotation invariant\<close>

text \<open>
  What the schedule generator needs of the tables: the positions of a group's slots are exactly
  1 to their number, which the group's capacity bounds, its active members are within its limit,
  and every slot and member belongs to a group. It depends on three columns of each table.
\<close>

definition rotation_tables :: "(string \<times> int \<times> int) list \<Rightarrow> (string \<times> int) list \<Rightarrow> (string \<times> member_status) list \<Rightarrow> bool" where
  "rotation_tables gs xs ms \<longleftrightarrow>
     (\<forall>(gid, maxSlots, maxMembers) \<in> set gs.
        let ps = map snd (filter (\<lambda>x. fst x = gid) xs) in
        mset ps = mset (map (\<lambda>i. int i + 1) [0..<length ps]) \<and> int (length ps) \<le> maxSlots
        \<and> int (length (filter (\<lambda>m. m = (gid, MS_ACTIVE)) ms)) \<le> maxMembers)
     \<and> fst ` set xs \<subseteq> fst ` set gs \<and> fst ` set ms \<subseteq> fst ` set gs"

abbreviation groupLimits :: "ajo_group \<Rightarrow> string \<times> int \<times> int" where
  "groupLimits g \<equiv> (ag_id g, ag_maxSlots g, ag_maxMembers g)"

abbreviation slotPlace :: "ajo_slot \<Rightarrow> string \<times> int" where
  "slotPlace x \<equiv> (sl_groupId x, sl_position x)"

abbreviation memberState :: "ajo_member \<Rightarrow> string \<times> member_status" where
  "memberState m \<equiv> (am_groupId m, am_status m)"

definition rotation_ok :: "'m ajo_db_scheme \<Rightarrow> bool" where
  "rotation_ok s \<longleftrightarrow>
     rotation_tables (map groupLimits (ajo_groups s)) (map slotPlace (ajo_slots s)) (map memberState (ajo_members s))"

lemma rotation_ok_cong:
  "map groupLimits (ajo_groups s) = map groupLimits (ajo_groups t) \<Longrightarrow> map slotPlace (ajo_slots s) = map slotPlace (ajo_slots t) \<Longrightarrow>
   map memberState (ajo_members s) = map memberState (ajo_members t) \<Longrightarrow> rotation_ok s = rotation_ok t"
  by (simp only: rotation_ok_def)

lemma mset_upt_append:
  "mset (map (\<lambda>i. int i + 1) [0..<m]) + mset (map (\<lambda>i. int m + int i + 1) [0..<n]) = mset (map (\<lambda>i. int i + 1) [0..<m + n])"
proof -
  have "map (\<lambda>i. int i + 1) [0..<m + n] = map (\<lambda>i. int i + 1) [0..<m] @ map (\<lambda>i. int m + int i + 1) [0..<n]"
    by (auto intro!: nth_equalityI simp: nth_append)
  then show ?thesis by simp
qed

lemma groupSlots_places:
  "map snd (filter (\<lambda>x. fst x = gid) (map slotPlace xs)) = map sl_position (filter (\<lambda>x. sl_groupId x = gid) xs)"
  by (simp add: filter_map o_def)

lemma activeMembers_states:
  "length (filter (\<lambda>m. m = (gid, MS_ACTIVE)) (map memberState ms)) =
   length (filter (\<lambda>m. am_groupId m = gid \<and> am_status m = MS_ACTIVE) ms)"
  by (simp add: filter_map o_def)

lemma rotation_okD:
  assumes "rotation_ok s" "g \<in> set (ajo_groups s)"
  shows "mset (map sl_position (groupSlots (ag_id g) s)) = mset (map (\<lambda>i. int i + 1) [0..<length (groupSlots (ag_id g) s)])"
    "int (length (groupSlots (ag_id g) s)) \<le> ag_maxSlots g" "int (length (activeMembers (ag_id g) s)) \<le> ag_maxMembers g"
proof -
  let ?ps = "map sl_position (groupSlots (ag_id g) s)"
  have "groupLimits g \<in> set (map groupLimits (ajo_groups s))" using assms(2) by simp
  with assms(1) have "mset ?ps = mset (map (\<lambda>i. int i + 1) [0..<length ?ps]) \<and> int (length ?ps) \<le> ag_maxSlots g
      \<and> int (length (activeMembers (ag_id g) s)) \<le> ag_maxMembers g"
    unfolding rotation_ok_def rotation_tables_def groupSlots_def activeMembers_def Let_def
    by (fastforce simp only: groupSlots_places activeMembers_states case_prod_conv)
  then show "mset ?ps = mset (map (\<lambda>i. int i + 1) [0..<length (groupSlots (ag_id g) s)])"
    "int (length (groupSlots (ag_id g) s)) \<le> ag_maxSlots g" "int (length (activeMembers (ag_id g) s)) \<le> ag_maxMembers g"
    by simp_all
qed

lemma rotation_tables_join:
  assumes ok: "rotation_tables gs xs ms" and g: "(gid, maxSlots, maxMembers) \<in> set gs"
    and unique: "\<And>a b. (gid, a, b) \<in> set gs \<Longrightarrow> a = maxSlots \<and> b = maxMembers"
    and taken: "taken = length (filter (\<lambda>x. fst x = gid) xs)" and cap: "int (taken + n) \<le> maxSlots"
    and room: "int (length (filter (\<lambda>m. m = (gid, MS_ACTIVE)) ms)) < maxMembers"
  shows "rotation_tables gs (xs @ map (\<lambda>i. (gid, int taken + int i + 1)) [0..<n]) (ms @ [(gid, MS_ACTIVE)])"
proof -
  have e: "mset (map snd (filter (\<lambda>x. fst x = gid) xs)) = mset (map (\<lambda>i. int i + 1) [0..<taken])"
    using ok g by (auto simp: rotation_tables_def Let_def taken)
  have f: "filter (\<lambda>x. fst x = h) (map (\<lambda>i. (gid, int taken + int i + 1)) [0..<n]) =
      (if h = gid then map (\<lambda>i. (gid, int taken + int i + 1)) [0..<n] else [])" for h
    by (auto simp: filter_map o_def)
  have one: "let ps = map snd (filter (\<lambda>x. fst x = h) (xs @ map (\<lambda>i. (gid, int taken + int i + 1)) [0..<n])) in
        mset ps = mset (map (\<lambda>i. int i + 1) [0..<length ps]) \<and> int (length ps) \<le> a
        \<and> int (length (filter (\<lambda>m. m = (h, MS_ACTIVE)) (ms @ [(gid, MS_ACTIVE)]))) \<le> b"
    if h: "(h, a, b) \<in> set gs" for h a b
  proof (cases "h = gid")
    case True
    with unique h have "a = maxSlots" "b = maxMembers" by auto
    with True f e cap room mset_upt_append [of taken n] show ?thesis
      by (simp add: Let_def o_def taken [symmetric])
  next
    case False
    have "mset (map snd (filter (\<lambda>x. fst x = h) xs)) = mset (map (\<lambda>i. int i + 1) [0..<length (filter (\<lambda>x. fst x = h) xs)])
        \<and> int (length (filter (\<lambda>x. fst x = h) xs)) \<le> a \<and> int (length (filter (\<lambda>m. m = (h, MS_ACTIVE)) ms)) \<le> b"
      using ok h by (auto simp: rotation_tables_def Let_def)
    with False f show ?thesis by (simp add: Let_def)
  qed
  have "fst ` set xs \<subseteq> fst ` set gs" "fst ` set ms \<subseteq> fst ` set gs" using ok by (simp_all add: rotation_tables_def)
  moreover have "gid \<in> fst ` set gs" using imageI [OF g, of fst] by simp
  ultimately have "fst ` set (xs @ map (\<lambda>i. (gid, int taken + int i + 1)) [0..<n]) \<subseteq> fst ` set gs"
    "fst ` set (ms @ [(gid, MS_ACTIVE)]) \<subseteq> fst ` set gs"
    by (simp_all add: image_Un image_image image_subset_iff)
  with one show ?thesis unfolding rotation_tables_def by blast
qed

lemma rotation_tables_new_group:
  assumes ok: "rotation_tables gs xs ms" and new: "gid \<notin> fst ` set gs"
    and cap: "int n \<le> maxSlots" and room: "1 \<le> maxMembers"
  shows "rotation_tables (gs @ [(gid, maxSlots, maxMembers)]) (xs @ map (\<lambda>i. (gid, int i + 1)) [0..<n]) (ms @ [(gid, MS_ACTIVE)])"
proof -
  have "fst ` set xs \<subseteq> fst ` set gs" "fst ` set ms \<subseteq> fst ` set gs" using ok by (simp_all only: rotation_tables_def)
  with new have n: "gid \<notin> fst ` set xs" "gid \<notin> fst ` set ms" by blast+
  have xs: "filter (\<lambda>x. fst x = gid) xs = []" and ms: "filter (\<lambda>m. m = (gid, MS_ACTIVE)) ms = []"
    using n by (auto simp: filter_empty_conv image_iff)
  have t: "rotation_tables (gs @ [(gid, maxSlots, maxMembers)]) xs ms"
    unfolding rotation_tables_def
  proof (intro conjI ballI)
    fix g assume "g \<in> set (gs @ [(gid, maxSlots, maxMembers)])"
    then consider "g \<in> set gs" | "g = (gid, maxSlots, maxMembers)" by auto
    then show "case g of (gid, maxSlots, maxMembers) \<Rightarrow>
        let ps = map snd (filter (\<lambda>x. fst x = gid) xs) in
        mset ps = mset (map (\<lambda>i. int i + 1) [0..<length ps]) \<and> int (length ps) \<le> maxSlots
        \<and> int (length (filter (\<lambda>m. m = (gid, MS_ACTIVE)) ms)) \<le> maxMembers"
    proof cases
      case 1
      with ok [unfolded rotation_tables_def, THEN conjunct1] show ?thesis by (rule bspec)
    next
      case 2
      with cap room show ?thesis by (simp only: case_prod_conv Let_def xs ms list.map) simp
    qed
  qed (use ok in \<open>auto simp: rotation_tables_def\<close>)
  have u: "a = maxSlots \<and> b = maxMembers" if "(gid, a, b) \<in> set (gs @ [(gid, maxSlots, maxMembers)])" for a b
    using that new by force
  have z: "0 = length (filter (\<lambda>x. fst x = gid) xs)" "int (0 + n) \<le> maxSlots"
    "int (length (filter (\<lambda>m. m = (gid, MS_ACTIVE)) ms)) < maxMembers"
    using cap room by (simp_all only: xs ms) simp_all
  from rotation_tables_join [OF t _ u z] show ?thesis by simp
qed

text \<open>What a successful creation and a successful join append to the tables.\<close>

lemma newSlots_places:
  "map slotPlace (newSlots newId gid mid taken requested) = map (\<lambda>i. (gid, int taken + int i + 1)) [0..<nat requested]"
  by (simp add: newSlots_def o_def)

lemma createGroup_Inr:
  assumes "createGroup hmac newId shortCode invitationCode now userId dto s = (Inr gid, s')"
  obtains g m xs where "ajo_groups s' = ajo_groups s @ [g]" "groupLimits g = (gid, cg_maxSlots dto, cg_maxMembers dto)"
    "ajo_members s' = ajo_members s @ [m]" "memberState m = (gid, MS_ACTIVE)"
    "ajo_slots s' = ajo_slots s @ xs" "map slotPlace xs = map (\<lambda>i. (gid, int i + 1)) [0..<nat (cg_requestedSlots dto)]"
    "gid \<notin> ag_id ` set (ajo_groups s)" "cg_requestedSlots dto \<le> cg_maxSlots dto"
proof -
  define maxPer where "maxPer = resolveMaxSlotsPerMember (cg_maxSlotsPerMember dto) (cg_maxSlots dto)"
  from assms obtain u where c: "createChecks dto = Inr u"
    and o: "openGroup hmac newId shortCode invitationCode now userId dto u s = Inr (gid, s')"
    by (auto simp: createGroup_def serializable_iffs split: sum.splits)
  from o have gid: "gid = newId ''group'' 0"
    and gs: "ajo_groups s' = ajo_groups s @ [newGroup gid shortCode userId dto u maxPer]"
    and ms: "\<exists>m. ajo_members s' = ajo_members s @ [m] \<and> memberState m = (gid, MS_ACTIVE)"
    and ss: "ajo_slots s' = ajo_slots s @ newSlots newId gid (newId ''member'' 0) 0 (cg_requestedSlots dto)"
    by (auto simp: openGroup_def Let_def res_iffs insertRows_Inr_iff audit_def maxPer_def)
  from o have "\<forall>r \<in> set (ajo_groups s). \<not> group_clash (newGroup gid shortCode userId dto u maxPer) r"
    by (auto simp: openGroup_def Let_def res_iffs maxPer_def)
  then have fresh: "gid \<notin> ag_id ` set (ajo_groups s)" by (auto simp: group_clash_def newGroup_def)
  have cap: "cg_requestedSlots dto \<le> cg_maxSlots dto"
    using c by (auto simp: createChecks_def res_iffs assertSlotCapacity_def split: if_splits)
  have lim: "groupLimits (newGroup gid shortCode userId dto u maxPer) = (gid, cg_maxSlots dto, cg_maxMembers dto)"
    by (simp add: newGroup_def)
  from ms obtain m where m: "ajo_members s' = ajo_members s @ [m]" "memberState m = (gid, MS_ACTIVE)" by blast
  have pl: "map slotPlace (newSlots newId gid (newId ''member'' 0) 0 (cg_requestedSlots dto)) =
      map (\<lambda>i. (gid, int i + 1)) [0..<nat (cg_requestedSlots dto)]" by (simp add: newSlots_places)
  show ?thesis by (rule that [OF gs lim m ss pl fresh cap])
qed

lemma createGroup_rotation:
  assumes ok: "rotation_ok s" and v: "validCreateGroup dto"
  shows "rotation_ok (snd (createGroup hmac newId shortCode invitationCode now userId dto s))"
proof (cases "createGroup hmac newId shortCode invitationCode now userId dto s")
  case (Pair r s')
  show ?thesis
  proof (cases r)
    case (Inl e)
    with Pair ok show ?thesis
      by (auto simp: createGroup_def serializable_iffs Let_def split: sum.splits)
  next
    case (Inr gid)
    from createGroup_Inr [OF Pair [unfolded Inr]] obtain g m xs where
      t: "ajo_groups s' = ajo_groups s @ [g]" "groupLimits g = (gid, cg_maxSlots dto, cg_maxMembers dto)"
        "ajo_members s' = ajo_members s @ [m]" "memberState m = (gid, MS_ACTIVE)"
        "ajo_slots s' = ajo_slots s @ xs" "map slotPlace xs = map (\<lambda>i. (gid, int i + 1)) [0..<nat (cg_requestedSlots dto)]"
      and n: "gid \<notin> ag_id ` set (ajo_groups s)" "cg_requestedSlots dto \<le> cg_maxSlots dto" .
    have "gid \<notin> fst ` set (map groupLimits (ajo_groups s))" using n(1) by (simp add: image_image)
    from rotation_tables_new_group [OF ok [unfolded rotation_ok_def] this, of "nat (cg_requestedSlots dto)" "cg_maxSlots dto" "cg_maxMembers dto"]
    show ?thesis using Pair n(2) v by (simp add: rotation_ok_def t(1,3,5) t(2,4,6) validCreateGroup_def)
  qed
qed


lemma joinGroup_Inr:
  assumes "joinGroup hmac newId now userId groupId dto s = (Inr mid, s')"
  obtains g i where "g \<in> set (ajo_groups s)" "ag_id g = groupId" "acceptsMembers g"
    "int (length (groupSlots groupId s)) + jd_requestedSlots dto \<le> ag_maxSlots g"
    "int (length (activeMembers groupId s)) < ag_maxMembers g"
    "ag_minSlotsPerMember g \<le> jd_requestedSlots dto" "jd_requestedSlots dto \<le> ag_maxSlotsPerMember g"
    "admitMember newId now userId g (jd_requestedSlots dto) i s = Inr (mid, s')"
    "case i of None \<Rightarrow> ag_publiclyListed g \<and> normalisePublicCode (jd_invitationCode dto) = Some (ag_shortCode g)
       | Some v \<Rightarrow> v \<in> set (group_invitations s) \<and> invitationAdmits groupId now v"
    "completedLevel (readKycFacts s (case List.find (\<lambda>m. am_groupId m = groupId \<and> am_role m = GROUP_ADMIN \<and> am_status m = MS_ACTIVE) (ajo_members s)
        of Some m \<Rightarrow> am_userId m | None \<Rightarrow> ag_createdByUserId g)) = 3"
proof -
  from assms obtain g where g: "findGroup groupId s = Some g" and acc: "acceptsMembers g"
    by (auto simp: joinGroup_def serializable_iffs split: option.splits if_splits)
  obtain v i where vi: "joinInvitation hmac dto g s = (v, i)" by fastforce
  define admin where "admin = (case List.find (\<lambda>m. am_groupId m = groupId \<and> am_role m = GROUP_ADMIN \<and> am_status m = MS_ACTIVE) (ajo_members s)
      of Some m \<Rightarrow> am_userId m | None \<Rightarrow> ag_createdByUserId g)"
  from assms have a: "assertOrganiserVerified s admin = Inr ()"
    and adm: "v \<or> (\<exists>j. i = Some j \<and> invitationAdmits groupId now j)"
    and cap: "int (length (groupSlots groupId s)) + jd_requestedSlots dto \<le> ag_maxSlots g"
    and room: "int (length (activeMembers groupId s)) < ag_maxMembers g"
    and per: "ag_minSlotsPerMember g \<le> jd_requestedSlots dto" "jd_requestedSlots dto \<le> ag_maxSlotsPerMember g"
    and r: "admitMember newId now userId g (jd_requestedSlots dto) i s = Inr (mid, s')"
    unfolding joinGroup_def admin_def
    by (auto simp: serializable_iffs g acc vi res_iffs Let_def split: if_splits option.splits)
  have way: "case i of None \<Rightarrow> ag_publiclyListed g \<and> normalisePublicCode (jd_invitationCode dto) = Some (ag_shortCode g)
       | Some j \<Rightarrow> j \<in> set (group_invitations s) \<and> invitationAdmits groupId now j"
    using vi adm by (auto simp: joinInvitation_def Let_def dest: find_SomeD split: option.splits if_splits)
  have k: "completedLevel (readKycFacts s admin) = 3" using a by (simp add: assertOrganiserVerified_iff)
  have "g \<in> set (ajo_groups s)" "ag_id g = groupId" using g by (auto simp: findGroup_def dest: find_SomeD)
  then show ?thesis using that [OF _ _ acc cap room per r way k [unfolded admin_def]] by blast
qed

lemma admitMember_Inr:
  assumes "admitMember newId now userId g requested i s = Inr (mid, s')"
  shows "mid = newId ''member'' 0" "ajo_groups s' = ajo_groups s"
    "map memberState (ajo_members s') = map memberState (ajo_members s) @ [(ag_id g, MS_ACTIVE)]"
    "map slotPlace (ajo_slots s') = map slotPlace (ajo_slots s)
       @ map (\<lambda>k. (ag_id g, int (length (groupSlots (ag_id g) s)) + int k + 1)) [0..<nat requested]"
  using assms by (auto simp: admitMember_def Let_def res_iffs insertRows_Inr_iff audit_def newSlots_def)

definition groups_keyed :: "'m ajo_db_scheme \<Rightarrow> bool" where
  "groups_keyed s \<longleftrightarrow> distinct (map ag_id (ajo_groups s))"

lemma groups_keyed_cong: "map ag_id (ajo_groups s) = map ag_id (ajo_groups t) \<Longrightarrow> groups_keyed s = groups_keyed t"
  by (simp add: groups_keyed_def)

lemma joinGroup_rotation:
  assumes ok: "rotation_ok s" and key: "groups_keyed s" and v: "validJoin dto"
  shows "rotation_ok (snd (joinGroup hmac newId now userId groupId dto s))"
proof (cases "joinGroup hmac newId now userId groupId dto s")
  case (Pair r s')
  show ?thesis
  proof (cases r)
    case (Inl e)
    with Pair have "s' = s" by (simp only: joinGroup_def serializable_Inl_iff)
    with Pair ok show ?thesis by simp
  next
    case (Inr mid)
    from Pair [unfolded Inr] show ?thesis
    proof (rule joinGroup_Inr)
      fix g i assume g: "g \<in> set (ajo_groups s)" and id: "ag_id g = groupId"
        and cap: "int (length (groupSlots groupId s)) + jd_requestedSlots dto \<le> ag_maxSlots g"
        and room: "int (length (activeMembers groupId s)) < ag_maxMembers g"
        and r: "admitMember newId now userId g (jd_requestedSlots dto) i s = Inr (mid, s')"
      have t: "length (groupSlots groupId s) = length (filter (\<lambda>x. fst x = groupId) (map slotPlace (ajo_slots s)))"
        by (simp add: groupSlots_def filter_map o_def)
      have m: "groupLimits g \<in> set (map groupLimits (ajo_groups s))" using g by simp
      have u: "a = ag_maxSlots g \<and> b = ag_maxMembers g" if "(ag_id g, a, b) \<in> set (map groupLimits (ajo_groups s))" for a b
        using that g key by (auto simp: groups_keyed_def distinct_map inj_on_def)
      have cap': "int (length (groupSlots groupId s) + nat (jd_requestedSlots dto)) \<le> ag_maxSlots g"
        using cap v by (simp add: validJoin_def)
      have room': "int (length (filter (\<lambda>m. m = (groupId, MS_ACTIVE)) (map memberState (ajo_members s)))) < ag_maxMembers g"
        using room by (simp only: activeMembers_states activeMembers_def)
      from rotation_tables_join [OF ok [unfolded rotation_ok_def] m u t [folded id] cap' [folded id] room' [folded id]]
      show ?thesis using Pair admitMember_Inr [OF r] by (simp only: rotation_ok_def snd_conv)
    qed
  qed
qed


text \<open>The other operations leave the three columns alone.\<close>

definition rotation_frame :: "'m ajo_db_scheme \<Rightarrow> 'm ajo_db_scheme \<Rightarrow> bool" where
  "rotation_frame s t \<longleftrightarrow> map groupLimits (ajo_groups t) = map groupLimits (ajo_groups s)
     \<and> map slotPlace (ajo_slots t) = map slotPlace (ajo_slots s) \<and> map memberState (ajo_members t) = map memberState (ajo_members s)"

lemma rotation_frame_ok: "rotation_frame s t \<Longrightarrow> rotation_ok t = rotation_ok s"
  by (simp add: rotation_frame_def rotation_ok_def)

lemma rotation_frame_keyed: "rotation_frame s t \<Longrightarrow> groups_keyed t = groups_keyed s"
proof -
  assume "rotation_frame s t"
  then have "map fst (map groupLimits (ajo_groups t)) = map fst (map groupLimits (ajo_groups s))"
    by (simp only: rotation_frame_def)
  then show ?thesis by (simp add: groups_keyed_def o_def)
qed

lemma rotation_frame_refl [simp]: "rotation_frame s s"
  by (simp add: rotation_frame_def)

lemma rotation_frame_updateGroup:
  assumes "\<And>g. groupLimits (f g) = groupLimits g"
  shows "rotation_frame s (updateGroup gid f s)"
  using assms by (auto simp: rotation_frame_def updateGroup_def intro!: map_update_where)

lemma rotation_frame_audit [simp]: "rotation_frame s (audit a b c d e t) = rotation_frame s t"
  by (simp add: rotation_frame_def audit_def)

text \<open>A handler whose successful runs keep the columns keeps them always.\<close>

lemma serializable_frame:
  "(\<And>a s'. operation s = Inr (a, s') \<Longrightarrow> P s') \<Longrightarrow> P s \<Longrightarrow> P (snd (serializable operation s))"
  by (auto simp: serializable_def split: sum.splits)

lemma setListing_frame: "rotation_frame s (snd (setListing userId gid listed s))"
proof -
  have u: "rotation_frame s (updateGroup gid (\<lambda>g. g\<lparr>ag_publiclyListed := listed\<rparr>) s)"
    by (rule rotation_frame_updateGroup) simp
  show ?thesis unfolding setListing_def
    by (rule serializable_frame [where P = "rotation_frame s"]) (auto simp: u res_iffs Let_def split: option.splits if_splits)
qed

lemma updateProfile_frame: "rotation_frame s (snd (updateProfile userId gid n d s))"
  unfolding updateProfile_def
  by (rule serializable_frame [where P = "rotation_frame s"])
    (auto simp: res_iffs intro!: rotation_frame_updateGroup split: option.splits if_splits)

text \<open>What a lock writes.\<close>

lemma lockGroup_Inr:
  assumes "lockGroup newId now userId groupId s = (Inr n, s')"
  obtains g m cycles where "findGroup groupId s = Some g" "acceptsMembers g"
    "requireAdmin ''Only this group's active administrator can lock it'' userId groupId s = Inr m"
    "generateRotationSchedule (rotationInput g (sort_key sl_position (groupSlots groupId s))) = Inr cycles"
    "length (filter (\<lambda>p. ap_groupId p = groupId) (ajo_plans s)) = length (activeMembers groupId s)"
    "sum_list (map ap_quantity (filter (\<lambda>p. ap_groupId p = groupId) (ajo_plans s))) = int (length (groupSlots groupId s))"
    "writeSchedule newId now userId g (sort_key sl_position (groupSlots groupId s)) cycles s = Inr (n, s')"
  using assms unfolding lockGroup_def serializable_Inr_iff
  by (auto simp: res_iffs Let_def split: option.splits if_splits)

lemma writeSchedule_Inr:
  assumes "writeSchedule newId now userId g slots cycles s = Inr (n, s')"
  shows "n = length cycles"
    "ajo_groups s' = update_where (\<lambda>x. ag_id x = ag_id g)
       (\<lambda>x. x\<lparr>ag_status := GS_LOCKED, ag_lockedAt := Some now, ag_scheduleVersion := ag_scheduleVersion g + 1\<rparr>) (ajo_groups s)"
    "ajo_cycles s' = ajo_cycles s @ map (\<lambda>(k, c). cycleRow newId (ag_id g) k c) (enumerate 0 cycles)"
    "contribution_schedules s' = contribution_schedules s
       @ concat (map (\<lambda>(k, c). contributionRows newId g (ag_scheduleVersion g + 1) slots k c) (enumerate 0 cycles))"
    "payout_schedules s' = payout_schedules s @ map (\<lambda>(k, c). payoutRow newId g (ag_scheduleVersion g + 1) k c) (enumerate 0 cycles)"
    "ajo_slots s' = update_where (\<lambda>x. sl_groupId x = ag_id g) (\<lambda>x. x\<lparr>sl_status := SL_ACTIVE, sl_activatedAt := Some now\<rparr>) (ajo_slots s)"
    "ajo_plans s' = update_where (\<lambda>p. ap_groupId p = ag_id g) (lockPlan now g (length slots) (length cycles)) (ajo_plans s)"
    "ajo_members s' = ajo_members s" "ledger_txs s' = ledger_txs s"
  using assms by (auto simp: writeSchedule_def Let_def res_iffs insertRows_Inr_iff audit_def updateGroup_def)

lemma lockGroup_frame: "rotation_frame s (snd (lockGroup newId now userId gid s))"
proof (cases "lockGroup newId now userId gid s")
  case (Pair r s')
  show ?thesis
  proof (cases r)
    case (Inl e)
    with Pair have "s' = s" by (simp only: lockGroup_def serializable_Inl_iff)
    with Pair show ?thesis by simp
  next
    case (Inr n)
    from Pair [unfolded Inr] show ?thesis
      by (rule lockGroup_Inr) (auto simp: Pair rotation_frame_def writeSchedule_Inr intro!: map_update_where)
  qed
qed

lemma createGroup_keyed:
  assumes "groups_keyed s" shows "groups_keyed (snd (createGroup hmac newId shortCode invitationCode now userId dto s))"
proof (cases "createGroup hmac newId shortCode invitationCode now userId dto s")
  case (Pair r s')
  show ?thesis
  proof (cases r)
    case (Inl e)
    with Pair assms show ?thesis by (auto simp: createGroup_def serializable_iffs split: sum.splits)
  next
    case (Inr gid)
    from Pair [unfolded Inr] show ?thesis
    proof (rule createGroup_Inr)
      fix g assume "ajo_groups s' = ajo_groups s @ [g]" "groupLimits g = (gid, cg_maxSlots dto, cg_maxMembers dto)"
        "gid \<notin> ag_id ` set (ajo_groups s)"
      then show ?thesis using assms by (simp add: Pair groups_keyed_def)
    qed
  qed
qed

lemma joinGroup_groups: "ajo_groups (snd (joinGroup hmac newId now userId gid dto s)) = ajo_groups s"
proof (cases "joinGroup hmac newId now userId gid dto s")
  case (Pair r s')
  show ?thesis
  proof (cases r)
    case (Inl e)
    with Pair have "s' = s" by (simp only: joinGroup_def serializable_Inl_iff)
    with Pair show ?thesis by simp
  next
    case (Inr mid)
    from Pair [unfolded Inr] show ?thesis by (rule joinGroup_Inr) (simp add: Pair admitMember_Inr(2))
  qed
qed

definition groups_ok :: "'m ajo_db_scheme \<Rightarrow> bool" where
  "groups_ok s \<longleftrightarrow> rotation_ok s \<and> groups_keyed s"

lemma rotation_frame_groups_ok: "rotation_frame s t \<Longrightarrow> groups_ok t = groups_ok s"
  by (simp add: groups_ok_def rotation_frame_ok rotation_frame_keyed)

lemma serveGroup_ok: "groups_ok s \<Longrightarrow> groups_ok (serveGroup hmac c s)"
proof (cases "gc_request c")
  case (JoinGroup gid dto)
  assume "groups_ok s"
  then show ?thesis using joinGroup_groups [of hmac "gc_ids c" "gc_now c" "gc_user c" gid dto s]
    by (auto simp: serveGroup_def JoinGroup groups_ok_def joinGroup_rotation groups_keyed_def)
qed (auto simp: serveGroup_def groups_ok_def createGroup_rotation createGroup_keyed
    rotation_frame_ok [OF setListing_frame] rotation_frame_keyed [OF setListing_frame]
    rotation_frame_ok [OF updateProfile_frame] rotation_frame_keyed [OF updateProfile_frame]
    rotation_frame_ok [OF lockGroup_frame] rotation_frame_keyed [OF lockGroup_frame])


section \<open>Properties\<close>

lemma sum_list_const: "(\<And>x. x \<in> set xs \<Longrightarrow> f x = (b :: int)) \<Longrightarrow> sum_list (map f xs) = b * int (length xs)"
  by (induction xs) (auto simp: algebra_simps)

lemma map_enumerate_snd: "map (\<lambda>(k, x). f x) (enumerate n xs) = map f xs"
  by (induction xs arbitrary: n) auto



text \<open>A group of one, its administrator, and the same group once a second person has joined.\<close>

definition demo_newId :: "string \<Rightarrow> string \<Rightarrow> nat \<Rightarrow> string" where
  "demo_newId p t i = p @ t @ replicate i (CHR ''x'')"

definition demo_ajo_db :: ajo_db where
  "demo_ajo_db = webhook_db.extend
     (demo_hook_db\<lparr>profiles := [demo_profile ''ada''],
       kyc_profiles := [demo_kyc_profile ''ada'' [demo_check ''c2'' VT_NIN CK_PASSED 2, demo_check ''c3'' VT_ADDRESS CK_PASSED 3]]\<rparr>)
     (ajo_db.fields [] [] [] [] [] [] [] [] [] [] [] [] [] [])"

definition demo_group_dto :: create_group_dto where
  "demo_group_dto = \<lparr>cg_name = ''Market women'', cg_frequency = MONTHLY, cg_mode = CM_FIXED, cg_baseContribution = 500,
     cg_contributionUnit = None, cg_maxMembers = 2, cg_maxSlots = 3, cg_requestedSlots = 1, cg_minSlotsPerMember = 1,
     cg_maxSlotsPerMember = None, cg_businessTimezone = ''Africa/Lagos'', cg_openOffset = 0, cg_closeOffset = 0, cg_gracePeriod = 0,
     cg_lateThreshold = 0, cg_payoutCutoff = 0, cg_payoutOffset = 0, cg_payoutWindow = 1440,
     cg_startDate = 1706695200000, cg_endDate = 1722420000000\<rparr>"

definition demo_member :: "string \<Rightarrow> string \<Rightarrow> member_role \<Rightarrow> ajo_member" where
  "demo_member i u r = \<lparr>am_id = i, am_groupId = ''g1'', am_userId = u, am_role = r, am_status = MS_ACTIVE, am_joinedAt = Some 10\<rparr>"

definition demo_slot :: "string \<Rightarrow> string \<Rightarrow> int \<Rightarrow> ajo_slot" where
  "demo_slot i m p = \<lparr>sl_id = i, sl_groupId = ''g1'', sl_memberId = m, sl_position = p, sl_status = SL_RESERVED, sl_activatedAt = None\<rparr>"

definition demo_open_db :: ajo_db where
  "demo_open_db = demo_ajo_db\<lparr>ajo_groups := [newGroup ''g1'' ''7Q3KMTP'' ''ada'' demo_group_dto 500 3],
     ajo_members := [demo_member ''m1'' ''ada'' GROUP_ADMIN], ajo_slots := [demo_slot ''s1'' ''m1'' 1],
     ajo_plans := [newPlan ''p1'' ''g1'' ''m1'' 500 1 ''NGN''],
     group_invitations := [\<lparr>gi_id = ''i1'', gi_groupId = ''g1'', gi_createdByMemberId = ''m1'', gi_tokenDigest = ''K7QM4TXP2R'',
       gi_status = GI_ACTIVE, gi_maxUses = 2, gi_useCount = 0, gi_expiresAt = 1706695200000\<rparr>]\<rparr>"

definition demo_full_db :: ajo_db where
  "demo_full_db = demo_open_db\<lparr>ajo_members := ajo_members demo_open_db @ [demo_member ''m2'' ''bola'' MEMBER],
     ajo_slots := ajo_slots demo_open_db @ [demo_slot ''s2'' ''m2'' 2],
     ajo_plans := ajo_plans demo_open_db @ [newPlan ''p2'' ''g1'' ''m2'' 500 1 ''NGN'']\<rparr>"

definition demo_join_dto :: join_dto where
  "demo_join_dto = \<lparr>jd_invitationCode = ''k7qm-4txp-2r'', jd_requestedSlots = 1\<rparr>"

definition demo_joined :: "(exn + string) \<times> ajo_db" where
  "demo_joined = joinGroup (\<lambda>c. c) (demo_newId ''b'') 20 ''bola'' ''g1'' demo_join_dto demo_open_db"

definition demo_locked :: "(exn + nat) \<times> ajo_db" where
  "demo_locked = lockGroup (demo_newId ''c'') 30 ''ada'' ''g1'' demo_full_db"





text \<open>The characters of a code read back as themselves, also from lower case.\<close>

lemma alphabet_chars:
  "list_all (\<lambda>c. to_upper c = c \<and> to_upper (to_lower c) = c \<and> \<not> is_space c \<and> \<not> is_space (to_lower c) \<and> c \<noteq> CHR ''-'') SHARE_CODE_ALPHABET"
  by code_simp

lemma alphabet_length: "length SHARE_CODE_ALPHABET = 28" "SHARE_CODE_LIMIT = 252"
  by code_simp+

lemma letter_count:
  assumes "c \<in> set SHARE_CODE_ALPHABET"
  shows "length (filter (\<lambda>b. b < SHARE_CODE_LIMIT \<and> SHARE_CODE_ALPHABET ! (b mod length SHARE_CODE_ALPHABET) = c) [0..<256]) = 9"
proof -
  have d: "distinct SHARE_CODE_ALPHABET" by code_simp
  from assms obtain i where i: "i < 28" "SHARE_CODE_ALPHABET ! i = c" by (auto simp: in_set_conv_nth alphabet_length)
  have e: "SHARE_CODE_ALPHABET ! (b mod 28) = c \<longleftrightarrow> b mod 28 = i" for b :: nat
    using nth_eq_iff_index_eq [OF d, of "b mod 28" i] i by (simp add: alphabet_length)
  have "{b. b < 256 \<and> b < 252 \<and> b mod 28 = i} = (\<lambda>q. i + 28 * q) ` {..<9}"
  proof (rule set_eqI)
    fix b :: nat
    have "b = i + 28 * (b div 28)" "b div 28 < 9" if "b < 252" "b mod 28 = i"
      using that by (auto simp: less_mult_imp_div_less)
    then show "b \<in> {b. b < 256 \<and> b < 252 \<and> b mod 28 = i} \<longleftrightarrow> b \<in> (\<lambda>q. i + 28 * q) ` {..<9}"
      using i by auto
  qed
  moreover have "card ((\<lambda>q. i + 28 * q) ` {..<9}) = 9" by (subst card_image) (auto simp: inj_on_def)
  moreover have "set (filter (\<lambda>b. b < 252 \<and> b mod 28 = i) [0..<256]) = {b. b < 256 \<and> b < 252 \<and> b mod 28 = i}" by auto
  moreover have "length (filter (\<lambda>b. b < 252 \<and> b mod 28 = i) [0..<256]) = card (set (filter (\<lambda>b. b < 252 \<and> b mod 28 = i) [0..<256]))"
    by (rule distinct_card [symmetric]) simp
  ultimately show ?thesis by (simp only: alphabet_length e)
qed

lemma trim_id: "list_all (\<lambda>c. \<not> is_space c) s \<Longrightarrow> trim s = s"
proof -
  have d: "list_all (\<lambda>c. \<not> is_space c) xs \<Longrightarrow> dropWhile is_space xs = xs" for xs by (cases xs) auto
  assume "list_all (\<lambda>c. \<not> is_space c) s"
  then show ?thesis by (simp add: trim_def d list_all_iff)
qed

lemma normalise_alphabet:
  assumes "set code \<subseteq> set SHARE_CODE_ALPHABET" "f = (\<lambda>x. x) \<or> f = toLowerCase"
  shows "normaliseShareCode (f code) (length code) = Some code"
proof -
  have a: "\<forall>c \<in> set code. to_upper c = c \<and> to_upper (to_lower c) = c \<and> \<not> is_space c \<and> \<not> is_space (to_lower c) \<and> c \<noteq> CHR ''-''"
    using alphabet_chars assms(1) by (auto simp: list_all_iff)
  have t: "trim (f code) = f code" 
    by (rule trim_id, use assms(2) a in \<open>elim disjE; simp add: list_all_iff toLowerCase_def\<close>)
  have u: "toUpperCase (f code) = code" 
    using assms(2) a by (elim disjE; simp add: toUpperCase_def toLowerCase_def map_idI)
  have "filter (\<lambda>c. \<not> (is_space c \<or> c = CHR ''-'')) code = code" using a by (simp add: filter_id_conv)
  then show ?thesis using assms(1) unfolding normaliseShareCode_def t u by (auto simp: list_all_iff)
qed

lemma appendBytes_shape:
  "length code < len \<Longrightarrow> set code \<subseteq> set SHARE_CODE_ALPHABET \<Longrightarrow>
     length (appendBytes len bs code) = min len (length code + length (filter (\<lambda>b. b < SHARE_CODE_LIMIT) bs))
     \<and> set (appendBytes len bs code) \<subseteq> set SHARE_CODE_ALPHABET"
proof (induction len bs code rule: appendBytes.induct)
  case (2 len b bs code)
  have "SHARE_CODE_ALPHABET ! (b mod length SHARE_CODE_ALPHABET) \<in> set SHARE_CODE_ALPHABET"
    by (rule nth_mem) (simp add: alphabet_length)
  then show ?case using 2 by (auto simp: Let_def)
qed auto

lemma randomShareCode_shape:
  "set code \<subseteq> set SHARE_CODE_ALPHABET \<Longrightarrow> length code \<le> len \<Longrightarrow> randomShareCode len batches code = Some c \<Longrightarrow>
     length c = len \<and> set c \<subseteq> set SHARE_CODE_ALPHABET"
proof (induction len batches code rule: randomShareCode.induct)
  case (2 len batch rest code)
  then show ?case using appendBytes_shape [of code len batch] by (auto split: if_splits)
qed (auto split: if_splits)

lemma randomShareCode_returns:
  "set code \<subseteq> set SHARE_CODE_ALPHABET \<Longrightarrow> length code \<le> len \<Longrightarrow>
     len \<le> length code + length (filter (\<lambda>b. b < SHARE_CODE_LIMIT) (concat batches)) \<Longrightarrow>
     \<exists>c. randomShareCode len batches code = Some c"
proof (induction len batches code rule: randomShareCode.induct)
  case (2 len batch rest code)
  then show ?case using appendBytes_shape [of code len batch] by (cases "length code < len") auto
qed auto



end
