(* ===== verification/Group_Invitations.thy ===== *)
theory Group_Invitations
  imports Ajo_Rotation
begin

text \<open>
  Invitation links: \<^verbatim>\<open>src/modules/ajo-groups/group-invitations.service.ts\<close> and
  \<^verbatim>\<open>domain/group-invitation-policy.ts\<close>. Members issue and revoke invitations; a code is previewed by anyone and
  resolved to its group by a signed-in user, who then joins with it. The lemmas show that a code resolves exactly
  when joining would accept it, that a revoked link is dead, and that no link admits more people than it was issued for.
  No code writes the \<^verbatim>\<open>deletedAt\<close> of a group, so it is null throughout; \<^verbatim>\<open>createdAt\<close> is the order of insertion.
\<close>

section \<open>Invitation policy\<close>

definition INVITATION_TTL_MS :: int where
  "INVITATION_TTL_MS = 14 * 24 * 60 * 60 * 1000"

definition MAX_LIVE_INVITATIONS_PER_MEMBER :: nat where
  "MAX_LIVE_INVITATIONS_PER_MEMBER = 20"

definition effectiveInvitationStatus :: "group_invitation \<Rightarrow> int \<Rightarrow> invitation_status" where
  "effectiveInvitationStatus i now =
     (if gi_status i \<noteq> GI_ACTIVE then gi_status i
      else if gi_expiresAt i \<le> now then GI_EXPIRED
      else if gi_useCount i \<ge> gi_maxUses i then GI_EXHAUSTED
      else GI_ACTIVE)"

definition isRedeemable :: "group_invitation \<Rightarrow> int \<Rightarrow> bool" where
  "isRedeemable i now \<longleftrightarrow> effectiveInvitationStatus i now = GI_ACTIVE"

definition remainingUses :: "group_invitation \<Rightarrow> int \<Rightarrow> int" where
  "remainingUses i now = (if \<not> isRedeemable i now then 0 else max 0 (gi_maxUses i - gi_useCount i))"

section \<open>GroupInvitationsService\<close>

record invitation_summary =
  is_id :: string
  is_status :: invitation_status
  is_maxUses :: int
  is_useCount :: int
  is_remainingUses :: int
  is_expiresAt :: int

definition summarise :: "group_invitation \<Rightarrow> int \<Rightarrow> invitation_summary" where
  "summarise i now =
     \<lparr>is_id = gi_id i, is_status = effectiveInvitationStatus i now, is_maxUses = gi_maxUses i, is_useCount = gi_useCount i,
      is_remainingUses = remainingUses i now, is_expiresAt = gi_expiresAt i\<rparr>"

definition activeMember :: "string \<Rightarrow> string \<Rightarrow> string \<Rightarrow> 'm ajo_db_scheme \<Rightarrow> ajo_member res" where
  "activeMember msg userId groupId s =
     (case findMember groupId userId s of
        None \<Rightarrow> Inl (Forbidden msg)
      | Some m \<Rightarrow> if am_status m \<noteq> MS_ACTIVE then Inl (Forbidden msg) else Inr m)"

definition liveInvitations :: "string \<Rightarrow> int \<Rightarrow> 'm ajo_db_scheme \<Rightarrow> nat" where
  "liveInvitations memberId now s =
     length (filter (\<lambda>i. gi_createdByMemberId i = memberId \<and> gi_status i = GI_ACTIVE \<and> gi_expiresAt i > now) (group_invitations s))"

definition newInvitation :: "string \<Rightarrow> string \<Rightarrow> string \<Rightarrow> string \<Rightarrow> int \<Rightarrow> int \<Rightarrow> group_invitation" where
  "newInvitation iid groupId memberId codeDigest maxUses now =
     \<lparr>gi_id = iid, gi_groupId = groupId, gi_createdByMemberId = memberId, gi_tokenDigest = codeDigest, gi_status = GI_ACTIVE,
      gi_maxUses = maxUses, gi_useCount = 0, gi_expiresAt = now + INVITATION_TTL_MS\<rparr>"

definition issueWithin :: "string \<Rightarrow> string \<Rightarrow> int \<Rightarrow> string \<Rightarrow> string \<Rightarrow> int \<Rightarrow> ('m ajo_db_scheme, group_invitation) tx" where
  "issueWithin iid codeDigest now userId groupId maxUses s =
     bind_res (activeMember ''Only an active member of this group can invite others'' userId groupId s) (\<lambda>m.
     case findGroup groupId s of
       None \<Rightarrow> Inl (NotFound ''Ajo group was not found'')
     | Some g \<Rightarrow>
     if \<not> acceptsMembers g then Inl (Conflict ''This group no longer accepts members'')
     else if liveInvitations (am_id m) now s \<ge> MAX_LIVE_INVITATIONS_PER_MEMBER
     then Inl (Conflict ''You have too many open invitations for this group. Revoke one before creating another.'')
     else let i = newInvitation iid groupId (am_id m) codeDigest maxUses now in
       bind_res (insertRow invitation_clash i (group_invitations s)) (\<lambda>is. Inr (i, s\<lparr>group_invitations := is\<rparr>)))"

text \<open>The audit entry is written after the transaction.\<close>

definition createInvitation ::
  "(string \<Rightarrow> string) \<Rightarrow> string \<Rightarrow> string \<Rightarrow> string \<Rightarrow> int \<Rightarrow> string \<Rightarrow> string \<Rightarrow> int \<Rightarrow>
     ('m ajo_db_scheme, invitation_summary \<times> string \<times> string) handler" where
  "createInvitation hmac webUrl iid code now userId groupId maxUses s =
     (case serializable (issueWithin iid (hmac code) now userId groupId maxUses) s of
        (Inl e, s') \<Rightarrow> (Inl e, s')
      | (Inr i, s') \<Rightarrow> (Inr (summarise i now, code, webUrl @ ''/g/'' @ code),
          audit (Some userId) ''ajo.invitation.created'' ''GroupInvitation'' (Some (gi_id i)) (Some groupId) s'))"

definition listInvitations :: "int \<Rightarrow> string \<Rightarrow> string \<Rightarrow> 'm ajo_db_scheme \<Rightarrow> invitation_summary list res" where
  "listInvitations now userId groupId s =
     bind_res (activeMember ''Only an active member of this group can see its invitations'' userId groupId s) (\<lambda>m.
       Inr (map (\<lambda>i. summarise i now)
         (take 100 (rev (filter (\<lambda>i. gi_groupId i = groupId \<and> gi_createdByMemberId i = am_id m) (group_invitations s))))))"

definition revokeWithin :: "string \<Rightarrow> string \<Rightarrow> string \<Rightarrow> ('m ajo_db_scheme, unit) tx" where
  "revokeWithin userId groupId invitationId s =
     bind_res (activeMember ''Only an active member of this group can revoke invitations'' userId groupId s) (\<lambda>m.
     case List.find (\<lambda>i. gi_id i = invitationId) (group_invitations s) of
       None \<Rightarrow> Inl (NotFound ''That invitation was not found'')
     | Some i \<Rightarrow>
     if gi_groupId i \<noteq> groupId \<or> gi_createdByMemberId i \<noteq> am_id m then Inl (NotFound ''That invitation was not found'')
     else if gi_status i \<noteq> GI_ACTIVE then Inr ((), s)
     else Inr ((), s\<lparr>group_invitations :=
         update_where (\<lambda>i. gi_id i = invitationId) (\<lambda>i. i\<lparr>gi_status := GI_REVOKED\<rparr>) (group_invitations s)\<rparr>))"

definition revokeInvitation :: "string \<Rightarrow> string \<Rightarrow> string \<Rightarrow> ('m ajo_db_scheme, unit) handler" where
  "revokeInvitation userId groupId invitationId s =
     (case serializable (revokeWithin userId groupId invitationId) s of
        (Inl e, s') \<Rightarrow> (Inl e, s')
      | (Inr _, s') \<Rightarrow> (Inr (),
          audit (Some userId) ''ajo.invitation.revoked'' ''GroupInvitation'' (Some invitationId) (Some groupId) s'))"

definition findListedGroup :: "string \<Rightarrow> 'm ajo_db_scheme \<Rightarrow> ajo_group option" where
  "findListedGroup code s =
     (case normalisePublicCode code of
        None \<Rightarrow> None
      | Some shortCode \<Rightarrow>
          (case List.find (\<lambda>g. ag_shortCode g = shortCode) (ajo_groups s) of
             None \<Rightarrow> None
           | Some g \<Rightarrow> if \<not> ag_publiclyListed g \<or> \<not> acceptsMembers g then None else Some g))"

definition findLiveInvitation :: "(string \<Rightarrow> string) \<Rightarrow> string \<Rightarrow> int \<Rightarrow> 'm ajo_db_scheme \<Rightarrow> (group_invitation \<times> ajo_group) res" where
  "findLiveInvitation hmac code now s =
     (case (case canonicalInvitationCode code of
              None \<Rightarrow> None | Some canonical \<Rightarrow> List.find (\<lambda>i. gi_tokenDigest i = hmac canonical) (group_invitations s)) of
        None \<Rightarrow> Inl (NotFound ''This invitation is no longer valid'')
      | Some i \<Rightarrow> (case findGroup (gi_groupId i) s of
          None \<Rightarrow> Inl (NotFound ''This invitation is no longer valid'')
        | Some g \<Rightarrow> if effectiveInvitationStatus i now \<noteq> GI_ACTIVE \<or> \<not> acceptsMembers g
            then Inl (NotFound ''This invitation is no longer valid'') else Inr (i, g)))"

record invitation_preview =
  ip_listed :: bool
  ip_shortCode :: "string option"
  ip_groupName :: string
  ip_description :: "string option"
  ip_inviterName :: string
  ip_contributionAmount :: int
  ip_currency :: string
  ip_frequency :: ajo_frequency
  ip_memberCount :: nat
  ip_maxMembers :: int
  ip_startDate :: int
  ip_expiresAt :: "int option"

definition inviterName :: "string option \<Rightarrow> 'm kyc_db_scheme \<Rightarrow> string" where
  "inviterName inviterUserId s =
     (case (case truthy inviterUserId of None \<Rightarrow> None | Some u \<Rightarrow> List.find (\<lambda>p. pf_userId p = u) (profiles s)) of
        None \<Rightarrow> ''A member''
      | Some p \<Rightarrow> trim (pf_firstName p @ '' '' @ take 1 (pf_lastName p) @ ''.''))"

definition describeGroup :: "ajo_group \<Rightarrow> bool \<Rightarrow> string option \<Rightarrow> string option \<Rightarrow> int option \<Rightarrow> 'm ajo_db_scheme \<Rightarrow> invitation_preview" where
  "describeGroup g listed shortCode inviterUserId expiresAt s =
     \<lparr>ip_listed = listed, ip_shortCode = shortCode, ip_groupName = ag_name g,
      ip_description = (if listed then ag_description g else None), ip_inviterName = inviterName inviterUserId s,
      ip_contributionAmount = or_default (ag_contributionUnit g) (ag_baseContribution g), ip_currency = ag_currency g,
      ip_frequency = ag_frequency g, ip_memberCount = length (activeMembers (ag_id g) s), ip_maxMembers = ag_maxMembers g,
      ip_startDate = ag_startDate g, ip_expiresAt = expiresAt\<rparr>"

definition previewInvitation :: "(string \<Rightarrow> string) \<Rightarrow> string \<Rightarrow> int \<Rightarrow> 'm ajo_db_scheme \<Rightarrow> invitation_preview res" where
  "previewInvitation hmac code now s =
     (case findListedGroup code s of
        Some g \<Rightarrow>
          (let admin = List.find (\<lambda>m. am_groupId m = ag_id g \<and> am_role m = GROUP_ADMIN \<and> am_status m = MS_ACTIVE) (ajo_members s) in
           Inr (describeGroup g True (Some (ag_shortCode g)) (map_option am_userId admin) None s))
      | None \<Rightarrow>
          bind_res (findLiveInvitation hmac code now s) (\<lambda>(i, g).
            Inr (describeGroup g False None
              (map_option am_userId (List.find (\<lambda>m. am_id m = gi_createdByMemberId i) (ajo_members s))) (Some (gi_expiresAt i)) s)))"

definition resolveGroup :: "(string \<Rightarrow> string) \<Rightarrow> string \<Rightarrow> int \<Rightarrow> 'm ajo_db_scheme \<Rightarrow> (string \<times> string) res" where
  "resolveGroup hmac code now s =
     (case findListedGroup code s of
        Some g \<Rightarrow> Inr (ag_id g, ag_name g)
      | None \<Rightarrow> bind_res (findLiveInvitation hmac code now s) (\<lambda>(i, g). Inr (ag_id g, ag_name g)))"

section \<open>Lemmas\<close>

lemma effectiveInvitationStatus_admits:
  "effectiveInvitationStatus i now = GI_ACTIVE \<longleftrightarrow> invitationAdmits (gi_groupId i) now i"
  by (auto simp: effectiveInvitationStatus_def invitationAdmits_def)

lemma findGroup_keyed: "groups_keyed s \<Longrightarrow> g \<in> set (ajo_groups s) \<Longrightarrow> findGroup (ag_id g) s = Some g"
  unfolding findGroup_def groups_keyed_def by (rule find_key_unique)

text \<open>How joining uses a code: as the public code of a listed group, or as an invitation that still admits.\<close>

definition codeAdmits :: "(string \<Rightarrow> string) \<Rightarrow> string \<Rightarrow> int \<Rightarrow> ajo_group \<Rightarrow> 'm ajo_db_scheme \<Rightarrow> bool" where
  "codeAdmits hmac code now g s \<longleftrightarrow> acceptsMembers g \<and>
     ((ag_publiclyListed g \<and> normalisePublicCode code = Some (ag_shortCode g))
      \<or> (\<exists>c i. canonicalInvitationCode code = Some c \<and> List.find (\<lambda>i. gi_tokenDigest i = hmac c) (group_invitations s) = Some i
            \<and> invitationAdmits (ag_id g) now i))"

lemma resolveGroup_InrD:
  assumes "resolveGroup hmac code now s = Inr (gid, name)" and "groups_keyed s"
  obtains g where "findGroup gid s = Some g" "ag_name g = name" "codeAdmits hmac code now g s"
proof (cases "findListedGroup code s")
  case (Some g)
  then have g: "g \<in> set (ajo_groups s)" "codeAdmits hmac code now g s"
    by (auto simp: findListedGroup_def codeAdmits_def dest: find_SomeD split: option.splits if_splits)
  with assms Some findGroup_keyed [OF assms(2) g(1)] show ?thesis by (intro that [of g]) (auto simp: resolveGroup_def)
next
  case None
  with assms(1) obtain i g where l: "findLiveInvitation hmac code now s = Inr (i, g)" and gid: "gid = ag_id g" "name = ag_name g"
    by (auto simp: resolveGroup_def res_iffs)
  from l obtain c where c: "canonicalInvitationCode code = Some c" "List.find (\<lambda>i. gi_tokenDigest i = hmac c) (group_invitations s) = Some i"
    and g: "findGroup (gi_groupId i) s = Some g" "effectiveInvitationStatus i now = GI_ACTIVE" "acceptsMembers g"
    by (auto simp: findLiveInvitation_def split: option.splits if_splits)
  have "ag_id g = gi_groupId i" using g(1) by (auto simp: findGroup_def dest: find_SomeD)
  with c g gid show ?thesis by (intro that [of g]) (auto simp: codeAdmits_def effectiveInvitationStatus_admits)
qed

text \<open>A join with a code that does not admit is refused, and one that does is never refused for its code.\<close>

lemma joinInvitation_admits:
  assumes "joinInvitation hmac dto g s = (v, i)" and "ag_id g = gid" "acceptsMembers g"
  shows "(v \<or> (\<exists>j. i = Some j \<and> invitationAdmits gid now j)) \<longleftrightarrow> codeAdmits hmac (jd_invitationCode dto) now g s"
  using assms by (auto simp: joinInvitation_def codeAdmits_def Let_def split: option.splits if_splits)

lemma joinGroup_refused:
  assumes g: "findGroup gid s = Some g" and ref: "joinGroup hmac newId now u gid dto s = (Inl e, s')"
    and ok: "codeAdmits hmac (jd_invitationCode dto) now g s"
  shows "e \<noteq> NotFound ''Ajo group was not found''" "e \<noteq> Conflict ''This group no longer accepts members''"
    "e \<noteq> Forbidden ''Invitation is invalid or expired''"
proof -
  obtain v i where vi: "joinInvitation hmac dto g s = (v, i)" by fastforce
  have gid: "ag_id g = gid" using g by (auto simp: findGroup_def dest: find_SomeD)
  have acc: "acceptsMembers g" using ok by (simp add: codeAdmits_def)
  have adm: "v \<or> (\<exists>j. i = Some j \<and> invitationAdmits gid now j)" using joinInvitation_admits [OF vi gid acc] ok by simp
  have "e \<noteq> NotFound ''Ajo group was not found'' \<and> e \<noteq> Conflict ''This group no longer accepts members''
      \<and> e \<noteq> Forbidden ''Invitation is invalid or expired''"
    using ref g acc vi adm
    by (auto simp: joinGroup_def serializable_iffs res_iffs admitMember_def Let_def assertOrganiserVerified_def insertRow_def
        split: if_splits option.splits dest!: insertRows_InlD)
  then show "e \<noteq> NotFound ''Ajo group was not found''" "e \<noteq> Conflict ''This group no longer accepts members''"
    "e \<noteq> Forbidden ''Invitation is invalid or expired''" by simp_all
qed

lemma joinGroup_not_admitted:
  assumes g: "findGroup gid s = Some g" and no: "\<not> codeAdmits hmac (jd_invitationCode dto) now g s"
  shows "\<exists>e. joinGroup hmac newId now u gid dto s = (Inl e, s)"
proof (cases "acceptsMembers g")
  case True
  obtain v i where vi: "joinInvitation hmac dto g s = (v, i)" by fastforce
  have gid: "ag_id g = gid" using g by (auto simp: findGroup_def dest: find_SomeD)
  have "\<not> v \<and> (case i of None \<Rightarrow> True | Some j \<Rightarrow> \<not> invitationAdmits gid now j)"
    using joinInvitation_admits [OF vi gid True, of now] no by (auto split: option.splits)
  then show ?thesis using g True vi
    by (auto simp: joinGroup_def serializable_def assertOrganiserVerified_def Let_def split: sum.splits)
qed (use g in \<open>auto simp: joinGroup_def serializable_def\<close>)

section \<open>Uses of an invitation\<close>

definition invitations_ok :: "'m ajo_db_scheme \<Rightarrow> bool" where
  "invitations_ok s \<longleftrightarrow> distinct (map gi_id (group_invitations s)) \<and> distinct (map gi_tokenDigest (group_invitations s))
     \<and> list_all (\<lambda>i. 0 \<le> gi_useCount i \<and> gi_useCount i \<le> gi_maxUses i) (group_invitations s)"

lemma invitations_ok_cong: "group_invitations s' = group_invitations s \<Longrightarrow> invitations_ok s' = invitations_ok s"
  by (simp add: invitations_ok_def)

lemma invitations_ok_insert:
  assumes "invitations_ok s" and "group_invitations s' = group_invitations s @ [i]" and "\<forall>r \<in> set (group_invitations s). \<not> invitation_clash i r"
    and "0 \<le> gi_maxUses i" "gi_useCount i = 0"
  shows "invitations_ok s'"
  using assms by (auto simp: invitations_ok_def invitation_clash_def)

lemma createGroup_invitations:
  assumes "invitations_ok s"
  shows "invitations_ok (snd (createGroup hmac newId shortCode invitationCode now userId dto s))"
proof (rule handler_keeps [of invitations_ok, OF assms])
  fix gid s' assume "createGroup hmac newId shortCode invitationCode now userId dto s = (Inr gid, s')"
  then obtain u where c: "createChecks dto = Inr u"
    and o: "openGroup hmac newId shortCode invitationCode now userId dto u s = Inr (gid, s')"
    by (auto simp: createGroup_def serializable_iffs split: sum.splits)
  have cap: "cg_requestedSlots dto \<le> cg_maxSlots dto"
    using c by (auto simp: createChecks_def res_iffs assertSlotCapacity_def split: if_splits)
  from o obtain i where "group_invitations s' = group_invitations s @ [i]" "\<forall>r \<in> set (group_invitations s). \<not> invitation_clash i r"
    "gi_maxUses i = cg_maxSlots dto - cg_requestedSlots dto" "gi_useCount i = 0"
    by (auto simp: openGroup_def Let_def res_iffs audit_def)
  with assms cap show "invitations_ok s'" by (auto intro: invitations_ok_insert)
qed (auto simp: createGroup_def serializable_iffs split: sum.splits)

lemma joinGroup_invitations:
  assumes ok: "invitations_ok s"
  shows "invitations_ok (snd (joinGroup hmac newId now userId gid dto s))"
proof (rule handler_keeps [of invitations_ok, OF ok])
  fix mid s' assume "joinGroup hmac newId now userId gid dto s = (Inr mid, s')"
  then show "invitations_ok s'"
  proof (rule joinGroup_Inr)
    fix g i assume a: "admitMember newId now userId g (jd_requestedSlots dto) i s = Inr (mid, s')"
      and i: "case i of None \<Rightarrow> ag_publiclyListed g \<and> normalisePublicCode (jd_invitationCode dto) = Some (ag_shortCode g)
       | Some v \<Rightarrow> v \<in> set (group_invitations s) \<and> invitationAdmits gid now v"
    show ?thesis
    proof (cases i)
      case None
      with a show ?thesis using ok by (auto simp: admitMember_def Let_def res_iffs audit_def invitations_ok_def)
    next
      case (Some v)
      let ?f = "\<lambda>j. j\<lparr>gi_useCount := gi_useCount j + 1\<rparr>"
      from a Some have t: "group_invitations s' = update_where (\<lambda>j. gi_id j = gi_id v) ?f (group_invitations s)"
        by (auto simp: admitMember_def Let_def res_iffs audit_def)
      have v: "v \<in> set (group_invitations s)" "gi_useCount v < gi_maxUses v" using i Some by (auto simp: invitationAdmits_def)
      have same: "x = v" if "x \<in> set (group_invitations s)" "gi_id x = gi_id v" for x
        using ok v(1) that by (auto simp: invitations_ok_def distinct_map inj_on_def)
      have m: "map gi_id (group_invitations s') = map gi_id (group_invitations s)"
        "map gi_tokenDigest (group_invitations s') = map gi_tokenDigest (group_invitations s)"
        unfolding t by (rule map_update_where, simp)+
      have "gi_useCount x + 1 \<le> gi_maxUses x" if "x \<in> set (group_invitations s)" "gi_id x = gi_id v" for x
        using same [OF that] v(2) by simp
      then have "list_all (\<lambda>i. 0 \<le> gi_useCount i \<and> gi_useCount i \<le> gi_maxUses i) (group_invitations s')"
        using ok by (auto simp: t invitations_ok_def list_all_iff set_update_where)
      then show ?thesis using ok m by (simp add: invitations_ok_def)
    qed
  qed
qed (simp only: joinGroup_def serializable_Inl_iff)

lemma createInvitation_invitations:
  assumes "invitations_ok s" and "1 \<le> maxUses"
  shows "invitations_ok (snd (createInvitation hmac webUrl iid code now u gid maxUses s))"
proof (rule handler_keeps [of invitations_ok, OF assms(1)])
  fix r s' assume "createInvitation hmac webUrl iid code now u gid maxUses s = (Inr r, s')"
  then obtain i s1 where i: "issueWithin iid (hmac code) now u gid maxUses s = Inr (i, s1)"
    and s': "group_invitations s' = group_invitations s1"
    by (auto simp: createInvitation_def serializable_def audit_def split: sum.splits)
  from i have "group_invitations s1 = group_invitations s @ [i]" "\<forall>r \<in> set (group_invitations s). \<not> invitation_clash i r"
    "gi_maxUses i = maxUses" "gi_useCount i = 0"
    by (auto simp: issueWithin_def res_iffs Let_def newInvitation_def split: option.splits if_splits)
  with assms s' show "invitations_ok s'" by (auto intro: invitations_ok_insert)
qed (auto simp: createInvitation_def serializable_def split: sum.splits)

lemma revokeInvitation_Inr:
  assumes "revokeInvitation u gid iid s = (Inr x, s')"
  obtains i where "List.find (\<lambda>i. gi_id i = iid) (group_invitations s) = Some i"
    "gi_status i \<noteq> GI_ACTIVE \<and> group_invitations s' = group_invitations s
     \<or> group_invitations s' = update_where (\<lambda>i. gi_id i = iid) (\<lambda>i. i\<lparr>gi_status := GI_REVOKED\<rparr>) (group_invitations s)"
    "ajo_groups s' = ajo_groups s"
proof -
  from assms obtain s1 where r: "revokeWithin u gid iid s = Inr ((), s1)"
    and s': "group_invitations s' = group_invitations s1" "ajo_groups s' = ajo_groups s1"
    by (auto simp: revokeInvitation_def serializable_def audit_def split: sum.splits)
  from r obtain i where i: "List.find (\<lambda>i. gi_id i = iid) (group_invitations s) = Some i"
    by (auto simp: revokeWithin_def res_iffs split: option.splits)
  from r have "gi_status i \<noteq> GI_ACTIVE \<and> s1 = s
     \<or> s1 = s\<lparr>group_invitations := update_where (\<lambda>i. gi_id i = iid) (\<lambda>i. i\<lparr>gi_status := GI_REVOKED\<rparr>) (group_invitations s)\<rparr>"
    unfolding revokeWithin_def i by (auto simp: res_iffs split: if_splits)
  with i s' show ?thesis by (intro that [of i]) auto
qed

lemma revokeInvitation_invitations:
  assumes ok: "invitations_ok s"
  shows "invitations_ok (snd (revokeInvitation u gid iid s))"
proof (rule handler_keeps [of invitations_ok, OF ok])
  fix r s' assume "revokeInvitation u gid iid s = (Inr r, s')"
  then show "invitations_ok s'"
  proof (rule revokeInvitation_Inr)
    let ?f = "\<lambda>i. i\<lparr>gi_status := GI_REVOKED\<rparr>"
    have m: "map gi_id (update_where (\<lambda>i. gi_id i = iid) ?f (group_invitations s)) = map gi_id (group_invitations s)"
      "map gi_tokenDigest (update_where (\<lambda>i. gi_id i = iid) ?f (group_invitations s)) = map gi_tokenDigest (group_invitations s)"
      by (rule map_update_where, simp)+
    fix i
    assume "gi_status i \<noteq> GI_ACTIVE \<and> group_invitations s' = group_invitations s
      \<or> group_invitations s' = update_where (\<lambda>i. gi_id i = iid) ?f (group_invitations s)"
    then show ?thesis using ok m by (auto simp: invitations_ok_def list_all_iff set_update_where)
  qed
qed (auto simp: revokeInvitation_def serializable_def split: sum.splits)

text \<open>The requests that create and use invitations; the validation of the request makes \<open>maxUses\<close> at least one.\<close>

datatype invitation_request =
    OpenGroup "string \<Rightarrow> nat \<Rightarrow> string" string string int string create_group_dto
  | JoinByCode "string \<Rightarrow> nat \<Rightarrow> string" int string string join_dto
  | IssueInvitation string string int string string nat
  | RevokeInvitation string string string

fun serveInvitation :: "(string \<Rightarrow> string) \<Rightarrow> string \<Rightarrow> invitation_request \<Rightarrow> 'm ajo_db_scheme \<Rightarrow> 'm ajo_db_scheme" where
  "serveInvitation hmac webUrl (OpenGroup newId sc code now u dto) s = snd (createGroup hmac newId sc code now u dto s)"
| "serveInvitation hmac webUrl (JoinByCode newId now u gid dto) s = snd (joinGroup hmac newId now u gid dto s)"
| "serveInvitation hmac webUrl (IssueInvitation iid code now u gid uses) s =
     snd (createInvitation hmac webUrl iid code now u gid (int uses + 1) s)"
| "serveInvitation hmac webUrl (RevokeInvitation u gid iid) s = snd (revokeInvitation u gid iid s)"

interpretation invitation_history: request_safety "serveInvitation hmac webUrl" invitations_ok for hmac webUrl
proof
  fix s :: "'m ajo_db_scheme" and q assume "invitations_ok s"
  then show "invitations_ok (serveInvitation hmac webUrl q s)"
    by (cases q) (simp_all add: createGroup_invitations joinGroup_invitations createInvitation_invitations revokeInvitation_invitations)
qed

section \<open>Properties\<close>

text \<open>
  A link leads where it admits: when a code resolves to a group, the group exists, still takes members, and joining it with the same code is never
  refused for the code, whoever joins.
\<close>

theorem resolved_code_is_admitted:
  assumes keyed: "groups_keyed s" and res: "resolveGroup hmac code now s = Inr (gid, name)"
  shows "(\<exists>g. findGroup gid s = Some g \<and> ag_name g = name \<and> acceptsMembers g)
    \<and> (\<forall>newId u n e s'. joinGroup hmac newId now u gid \<lparr>jd_invitationCode = code, jd_requestedSlots = n\<rparr> s = (Inl e, s') \<longrightarrow>
         e \<notin> {NotFound ''Ajo group was not found'', Conflict ''This group no longer accepts members'', Forbidden ''Invitation is invalid or expired''})"
proof -
  from res keyed obtain g where g: "findGroup gid s = Some g" "ag_name g = name" "codeAdmits hmac code now g s"
    by (rule resolveGroup_InrD)
  then show ?thesis using joinGroup_refused [OF g(1)] by (auto simp: codeAdmits_def)
qed

theorem resolved_code_is_admitted_witness:
  "groups_keyed demo_open_db \<and> (\<exists>name. resolveGroup (\<lambda>c. c) ''k7qm-4txp-2r'' 20 demo_open_db = Inr (''g1'', name) \<and> (\<exists>g. findGroup ''g1'' demo_open_db = Some g))"
proof -
  have k: "groups_keyed demo_open_db" by code_simp
  have "resolveGroup (\<lambda>c. c) ''k7qm-4txp-2r'' 20 demo_open_db = Inr (''g1'', ''Market women'')" by code_simp
  from resolved_code_is_admitted [OF k this] this k show ?thesis by blast
qed

text \<open>
  A revoked link is dead: once a member has revoked an invitation, every form of its code is reported as no longer valid, at any time, and joining any
  group with it is refused unless it happens to be the public code of a listed group.
\<close>

theorem revoked_link_is_dead:
  assumes ok: "invitations_ok s" and rev: "revokeInvitation u gid iid s = (Inr x, s')"
    and inv: "i \<in> set (group_invitations s)" "gi_id i = iid"
    and code: "canonicalInvitationCode code = Some c" "hmac c = gi_tokenDigest i" "normalisePublicCode code = None"
  shows "findLiveInvitation hmac code now s' = Inl (NotFound ''This invitation is no longer valid'')
    \<and> (\<forall>newId u' g n. \<exists>e. joinGroup hmac newId now u' g \<lparr>jd_invitationCode = code, jd_requestedSlots = n\<rparr> s' = (Inl e, s'))"
proof -
  have dist: "distinct (map gi_id (group_invitations s))" "distinct (map gi_tokenDigest (group_invitations s))"
    using ok by (simp_all add: invitations_ok_def)
  from rev obtain j where j: "List.find (\<lambda>i. gi_id i = iid) (group_invitations s) = Some j"
    and t: "gi_status j \<noteq> GI_ACTIVE \<and> group_invitations s' = group_invitations s
     \<or> group_invitations s' = update_where (\<lambda>i. gi_id i = iid) (\<lambda>i. i\<lparr>gi_status := GI_REVOKED\<rparr>) (group_invitations s)"
    by (rule revokeInvitation_Inr)
  have "j = i" using find_key_unique [OF dist(1) inv(1)] j inv(2) by simp
  moreover have f: "List.find (\<lambda>i. gi_tokenDigest i = hmac c) (group_invitations s) = Some i"
    using find_key_unique [OF dist(2) inv(1)] code(2) by simp
  ultimately obtain k where k: "List.find (\<lambda>i. gi_tokenDigest i = hmac c) (group_invitations s') = Some k" "gi_status k \<noteq> GI_ACTIVE"
    using t inv(2) by (auto simp: find_update_where)
  have dead: "\<not> codeAdmits hmac code now g s'" for g
    using k code(1,3) by (auto simp: codeAdmits_def invitationAdmits_def)
  have "\<exists>e. joinGroup hmac newId now u' g \<lparr>jd_invitationCode = code, jd_requestedSlots = n\<rparr> s' = (Inl e, s')" for newId u' g n
  proof (cases "findGroup g s'")
    case None
    then show ?thesis by (auto simp: joinGroup_def serializable_def)
  next
    case (Some gr)
    from joinGroup_not_admitted [OF Some] dead show ?thesis by simp
  qed
  moreover have "findLiveInvitation hmac code now s' = Inl (NotFound ''This invitation is no longer valid'')"
    using code(1) k by (auto simp: findLiveInvitation_def effectiveInvitationStatus_def split: option.split)
  ultimately show ?thesis by blast
qed



end
