(* ===== verification/Kyc_Service.thy ===== *)
theory Kyc_Service
  imports Kyc_Stages Ajo_Schedule
begin

text \<open>
  Identity verification: \<^verbatim>\<open>src/modules/kyc/kyc.service.ts\<close>, \<^verbatim>\<open>kyc-review.service.ts\<close> and the domain rules
  \<^verbatim>\<open>identity-verification-policy.ts\<close>, \<^verbatim>\<open>identity-redaction.ts\<close>, \<^verbatim>\<open>address-match.ts\<close> and \<^verbatim>\<open>identity-document.ts\<close>. The identity
  provider, the keyed digest and the cipher of \<^verbatim>\<open>node:crypto\<close> are arguments; generated ids and the clock are too. Texts are ASCII, so
  the removal of combining marks changes nothing; years are added in UTC.
\<close>

section \<open>Rules for identity numbers\<close>

datatype identity_kind = ID_BVN | ID_NIN | ID_VNIN

definition is_alnum :: "char \<Rightarrow> bool" where
  "is_alnum c \<longleftrightarrow> is_digit c \<or> is_upper c \<or> is_lower c"

definition normalizeIdentityNumber :: "string \<Rightarrow> string" where
  "normalizeIdentityNumber value = filter (\<lambda>c. \<not> (is_space c \<or> c = CHR ''-'')) value"

definition isValidIdentityNumber :: "identity_kind \<Rightarrow> string \<Rightarrow> bool" where
  "isValidIdentityNumber kind value =
     (let normalized = normalizeIdentityNumber value in
      if kind = ID_VNIN then length normalized = 16 \<and> list_all is_alnum normalized else length normalized = 11 \<and> list_all is_digit normalized)"

definition withoutSpaces :: "string \<Rightarrow> string" where
  "withoutSpaces value = filter (\<lambda>c. \<not> is_space c) value"

definition isValidAccountNumber :: "string \<Rightarrow> bool" where
  "isValidAccountNumber value \<longleftrightarrow> length (withoutSpaces value) = 10 \<and> list_all is_digit (withoutSpaces value)"

definition accountNumberDigest :: "(string \<Rightarrow> string \<Rightarrow> string) \<Rightarrow> string \<Rightarrow> string \<Rightarrow> string" where
  "accountNumberDigest hmac accountNumber pepper = hmac pepper (''bank-account:'' @ withoutSpaces accountNumber)"

definition IDENTITY_MAX_FAILED_ATTEMPTS :: nat where
  "IDENTITY_MAX_FAILED_ATTEMPTS = 5"

definition IDENTITY_ATTEMPT_WINDOW_MS :: int where
  "IDENTITY_ATTEMPT_WINDOW_MS = 24 * 60 * 60 * 1000"

definition hasExhaustedAttempts :: "int list \<Rightarrow> int \<Rightarrow> bool" where
  "hasExhaustedAttempts failedAttemptTimes now =
     (let cutoff = now - IDENTITY_ATTEMPT_WINDOW_MS in length (filter (\<lambda>at. at \<ge> cutoff) failedAttemptTimes) \<ge> IDENTITY_MAX_FAILED_ATTEMPTS)"

text \<open>\<^verbatim>\<open>split\<close> at the longest runs of characters outside \<open>P\<close>.\<close>

function splitRuns :: "(char \<Rightarrow> bool) \<Rightarrow> string \<Rightarrow> string list" where
  "splitRuns P t = takeWhile P t # (case dropWhile P t of [] \<Rightarrow> [] | c # rest \<Rightarrow> splitRuns P (dropWhile (\<lambda>x. \<not> P x) rest))"
  by pat_completeness auto
termination
proof (relation "measure (\<lambda>(P, t). length t)")
  fix P t c rest assume "dropWhile P t = c # rest"
  then have "length rest < length t" by (metis length_Cons length_dropWhile_le less_eq_Suc_le)
  then show "((P, dropWhile (\<lambda>x. \<not> P x) rest), P, t) \<in> measure (\<lambda>(P, t). length t)"
    by (simp add: le_less_trans [OF length_dropWhile_le])
qed simp

declare splitRuns.simps [simp del]

definition nameTokens :: "string \<Rightarrow> string list" where
  "nameTokens value = filter (\<lambda>t. length t > 1) (splitRuns is_lower (toLowerCase value))"

definition namesMatch :: "string \<Rightarrow> string \<Rightarrow> bool" where
  "namesMatch providerName profileName =
     (let a = nameTokens providerName; b = nameTokens profileName in
      if a = [] \<or> b = [] then False else length (filter (\<lambda>t. t \<in> set b) a) \<ge> min 2 (min (length a) (length b)))"

definition MINIMUM_AGE_YEARS :: int where
  "MINIMUM_AGE_YEARS = 18"

definition isOldEnough :: "int \<Rightarrow> int \<Rightarrow> bool" where
  "isOldEnough dateOfBirth now \<longleftrightarrow> setUTCFullYear (getUTCFullYear dateOfBirth + MINIMUM_AGE_YEARS) dateOfBirth \<le> now"

definition maskIdentityValue :: "string \<Rightarrow> string" where
  "maskIdentityValue value =
     (let normalized = withoutSpaces value in
      if length normalized \<le> 4 then replicate (length normalized) (CHR ''*'')
      else replicate (length normalized - 4) (CHR ''*'') @ drop (length normalized - 4) normalized)"

section \<open>Addresses\<close>

definition ABBREVIATIONS :: "(string \<times> string) list" where
  "ABBREVIATIONS = [(''st'', ''street''), (''str'', ''street''), (''rd'', ''road''), (''ave'', ''avenue''), (''av'', ''avenue''),
     (''cl'', ''close''), (''cres'', ''crescent''), (''cresc'', ''crescent''), (''est'', ''estate''), (''ext'', ''extension''), (''off'', ''off''),
     (''opp'', ''opposite''), (''hse'', ''house''), (''blk'', ''block''), (''apt'', ''apartment''), (''dr'', ''drive''), (''ln'', ''lane''), (''wy'', ''way'')]"

definition NOISE :: "string list" where
  "NOISE = [''no'', ''number'', ''the'', ''of'', ''and'', ''by'', ''at'', ''along'', ''beside'', ''near'']"

definition addressTokens :: "string option \<Rightarrow> string list" where
  "addressTokens value =
     (case truthy value of
        None \<Rightarrow> []
      | Some t \<Rightarrow> filter (\<lambda>w. length w > 0 \<and> w \<notin> set NOISE)
          (map (\<lambda>w. or_default (map_of ABBREVIATIONS w) w) (splitRuns (\<lambda>c. is_lower c \<or> is_digit c) (toLowerCase t))))"

definition has_digit :: "string \<Rightarrow> bool" where
  "has_digit t = list_ex is_digit t"

definition numbers :: "string \<Rightarrow> string list" where
  "numbers value = filter has_digit (addressTokens (Some value))"

fun joinSpace :: "string list \<Rightarrow> string" where
  "joinSpace [] = []"
| "joinSpace [x] = x"
| "joinSpace (x # y # ys) = x @ '' '' @ joinSpace (y # ys)"

definition normaliseState :: "string option \<Rightarrow> string" where
  "normaliseState value =
     (let joined = joinSpace (filter (\<lambda>w. w \<noteq> ''state'') (addressTokens value)) in
      if joined = ''fct'' \<or> joined = ''federal capital territory'' \<or> joined = ''abuja'' then ''fct'' else joined)"

datatype address_mismatch = AM_STATE | AM_HOUSE_NUMBER | AM_STREET

text \<open>
  The comparison; \<open>None\<close> is a match. The share of words, at least 0.6 of those expected, is compared in whole numbers, which agrees with
  the quotient of two such counts.
\<close>

definition compareAddresses :: "postal_address \<Rightarrow> postal_address \<Rightarrow> address_mismatch option" where
  "compareAddresses submitted registered =
     (let registeredState = normaliseState (pa_state registered) in
      if registeredState \<noteq> [] \<and> normaliseState (pa_state submitted) \<noteq> registeredState then Some AM_STATE
      else if list_ex (\<lambda>n. n \<notin> set (numbers (pa_line submitted))) (numbers (pa_line registered)) then Some AM_HOUSE_NUMBER
      else let typed = set (addressTokens (Some (pa_line submitted)) @ addressTokens (pa_city submitted) @ addressTokens (pa_lga submitted));
               expected = filter (\<lambda>w. \<not> has_digit w) (remdups (addressTokens (Some (pa_line registered)))) in
        if expected \<noteq> [] \<and> 5 * length (filter (\<lambda>w. w \<in> typed) expected) < 3 * length expected then Some AM_STREET
        else None)"

definition isComparable :: "postal_address option \<Rightarrow> bool" where
  "isComparable address = (case address of None \<Rightarrow> False | Some a \<Rightarrow> addressTokens (Some (pa_line a)) \<noteq> [])"

section \<open>Documents\<close>

text \<open>
  Base64 as \<^verbatim>\<open>Buffer\<close> reads it: characters outside the alphabet are skipped, padding ends the text, an incomplete group gives what whole bytes it has.
  Bytes are numbers below 256.
\<close>

definition base64Value :: "char \<Rightarrow> nat option" where
  "base64Value c =
     (if is_upper c then Some (char_code c - 65) else if is_lower c then Some (char_code c - 71) else if is_digit c then Some (char_code c + 4)
      else if c = CHR ''+'' \<or> c = CHR ''-'' then Some 62 else if c = CHR ''/'' \<or> c = CHR ''_'' then Some 63 else None)"

fun base64Bytes :: "nat list \<Rightarrow> nat list" where
  "base64Bytes (a # b # c # d # rest) =
     (a * 4 + b div 16) # ((b mod 16) * 16 + c div 4) # ((c mod 4) * 64 + d) # base64Bytes rest"
| "base64Bytes [a, b, c] = [a * 4 + b div 16, (b mod 16) * 16 + c div 4]"
| "base64Bytes [a, b] = [a * 4 + b div 16]"
| "base64Bytes [a] = []"
| "base64Bytes [] = []"

definition fromBase64 :: "string \<Rightarrow> nat list" where
  "fromBase64 t = base64Bytes (List.map_filter base64Value (takeWhile (\<lambda>c. c \<noteq> CHR ''='') t))"

text \<open>The optional prefix of a data URL is dropped.\<close>

definition dropDataUrl :: "string \<Rightarrow> string" where
  "dropDataUrl t =
     (let rest = dropWhile (\<lambda>c. c \<noteq> CHR '';'') (drop 5 t) in
      if take 5 t = ''data:'' \<and> takeWhile (\<lambda>c. c \<noteq> CHR '';'') (drop 5 t) \<noteq> [] \<and> take 8 rest = '';base64,'' then drop 8 rest else t)"

definition MAX_DOCUMENT_BYTES :: int where
  "MAX_DOCUMENT_BYTES = 1536 * 1024"

definition SIGNATURES :: "(string \<times> nat list) list" where
  "SIGNATURES = [(''image/jpeg'', [255, 216, 255]), (''image/png'', [137, 80, 78, 71, 13, 10, 26, 10]), (''application/pdf'', [37, 80, 68, 70])]"

datatype document_problem = DP_EMPTY | DP_TOO_LARGE | DP_UNSUPPORTED_TYPE | DP_TYPE_MISMATCH

definition inspectDocument :: "string \<Rightarrow> string \<Rightarrow> document_problem + nat list \<times> string" where
  "inspectDocument base64 declaredType =
     (let bytes = fromBase64 (dropDataUrl base64) in
      if bytes = [] then Inl DP_EMPTY
      else if int (length bytes) > MAX_DOCUMENT_BYTES then Inl DP_TOO_LARGE
      else case List.find (\<lambda>(type, sig). take (length sig) bytes = sig) SIGNATURES of
          None \<Rightarrow> Inl DP_UNSUPPORTED_TYPE
        | Some (type, sig) \<Rightarrow> if type \<noteq> declaredType then Inl DP_TYPE_MISMATCH else Inr (bytes, type))"

record document_cipher =
  dc_seal :: "nat list \<Rightarrow> nat list \<Rightarrow> nat list \<times> nat list"
  dc_open :: "nat list \<Rightarrow> nat list \<Rightarrow> nat list \<Rightarrow> nat list option"

text \<open>Version, nonce, tag and ciphertext in one text; the cipher is used under the key derived for documents.\<close>

definition encryptDocument :: "document_cipher \<Rightarrow> nat list \<Rightarrow> nat list \<Rightarrow> nat list" where
  "encryptDocument cipher iv plain = (case dc_seal cipher iv plain of (body, tag) \<Rightarrow> [1] @ iv @ tag @ body)"

definition decryptDocument :: "document_cipher \<Rightarrow> nat list \<Rightarrow> nat list res" where
  "decryptDocument cipher sealed =
     (if take 1 sealed \<noteq> [1] then Inl (PlainError ''Unknown document format'')
      else case dc_open cipher (take 12 (drop 1 sealed)) (take 16 (drop 13 sealed)) (drop 29 sealed) of
        None \<Rightarrow> Inl (PlainError ''Unsupported state or unable to authenticate data'')
      | Some plain \<Rightarrow> Inr plain)"


section \<open>Tables and the provider\<close>

record user_consent =
  uc_userId :: string
  uc_type :: string
  uc_version :: string

record linked_bank_account =
  lb_id :: string
  lb_userId :: string
  lb_bankCode :: string
  lb_bankName :: string
  lb_accountMasked :: string
  lb_accountDigest :: string
  lb_accountName :: string
  lb_provider :: string
  lb_providerRef :: "string option"
  lb_verifiedAt :: int

record compliance_review =
  cr_id :: string
  cr_profileId :: string
  cr_reviewerId :: "string option"
  cr_status :: review_status
  cr_reason :: "string option"
  cr_decidedAt :: "int option"
  cr_createdAt :: int

record identity_db = kyc_db +
  user_consents :: "user_consent list"
  linked_bank_accounts :: "linked_bank_account list"
  compliance_reviews :: "compliance_review list"

record identity_outcome =
  io_provider :: string
  io_providerReference :: string
  io_passed :: bool
  io_resultCode :: string
  io_verifiedName :: "string option"
  io_registeredAddress :: "postal_address option"
  io_riskFlags :: "string list"

record account_outcome =
  ao_provider :: string
  ao_providerReference :: string
  ao_passed :: bool
  ao_resultCode :: string
  ao_accountName :: "string option"

text \<open>The provider gets the date of birth as a date; the source passes its ISO text.\<close>

record identity_provider =
  ip_verifyIdentity :: "identity_kind \<Rightarrow> string \<Rightarrow> string \<Rightarrow> int option \<Rightarrow> identity_outcome res"
  ip_inquireAccount :: "string \<Rightarrow> string \<Rightarrow> account_outcome res"
  ip_listBanks :: "(string \<times> string) list res"

record kyc_ids =
  ki_profile :: string
  ki_row :: string
  ki_storage :: string
  ki_iv :: "nat list"

section \<open>The profile and its level\<close>

text \<open>Two handlers in a row: the second runs on the state the first left, unless that refused.\<close>

definition and_then :: "(exn + 'a) \<times> 's \<Rightarrow> ('a \<Rightarrow> ('s, 'b) handler) \<Rightarrow> (exn + 'b) \<times> 's" where
  "and_then r f = (case r of (Inl e, s) \<Rightarrow> (Inl e, s) | (Inr x, s) \<Rightarrow> f x s)"

definition createKyc :: "kyc_profile \<Rightarrow> ('m kyc_db_scheme, kyc_profile) handler" where
  "createKyc k s =
     (case insertRow (\<lambda>a b. kp_id a = kp_id b \<or> kp_userId a = kp_userId b) k (kyc_profiles s) of
        Inl e \<Rightarrow> (Inl e, s) | Inr rows \<Rightarrow> (Inr k, s\<lparr>kyc_profiles := rows\<rparr>))"

definition findKyc :: "string \<Rightarrow> 'm kyc_db_scheme \<Rightarrow> kyc_profile option" where
  "findKyc userId s = List.find (\<lambda>k. kp_userId k = userId) (kyc_profiles s)"

definition updateKyc :: "string \<Rightarrow> (kyc_profile \<Rightarrow> kyc_profile) \<Rightarrow> 'm kyc_db_scheme \<Rightarrow> 'm kyc_db_scheme" where
  "updateKyc profileId f s = s\<lparr>kyc_profiles := update_where (\<lambda>k. kp_id k = profileId) f (kyc_profiles s)\<rparr>"

definition newKyc :: "string \<Rightarrow> string \<Rightarrow> int \<Rightarrow> kyc_status \<Rightarrow> kyc_tier \<Rightarrow> nat \<Rightarrow> int option \<Rightarrow> kyc_profile" where
  "newKyc newId userId now status tier level submittedAt =
     \<lparr>kp_id = newId, kp_userId = userId, kp_status = status, kp_tier = tier, kp_level = level, kp_submittedAt = submittedAt, kp_verifiedAt = None,
      kp_restrictedAt = None, kp_checks = [], kp_documents = [], kp_createdAt = now\<rparr>"

definition syncKyc :: "string \<Rightarrow> int \<Rightarrow> string \<Rightarrow> ('m kyc_db_scheme, unit) handler" where
  "syncKyc newId now userId s =
     (let level = completedLevel (readKycFacts s userId); tier = tierForLevel level in
      case findKyc userId s of
        None \<Rightarrow> if level = 0 then (Inr (), s)
          else and_then (createKyc (newKyc newId userId now KS_NOT_STARTED tier level None) s) (\<lambda>_ s1. (Inr (), s1))
      | Some existing \<Rightarrow>
          (let verified = (level = 3 \<and> kp_status existing \<noteq> KS_REQUIRES_REVIEW) in
           if kp_tier existing = tier \<and> kp_level existing = level \<and> (\<not> verified \<or> kp_status existing = KS_VERIFIED) then (Inr (), s)
           else let s1 = updateKyc (kp_id existing) (\<lambda>k. if verified \<and> kp_status existing \<noteq> KS_VERIFIED
                  then k\<lparr>kp_tier := tier, kp_level := level, kp_status := KS_VERIFIED, kp_verifiedAt := Some now\<rparr>
                  else k\<lparr>kp_tier := tier, kp_level := level\<rparr>) s in
             (Inr (), if level > kp_level existing then audit None ''kyc.stage.completed'' ''user'' (Some userId) None s1 else s1)))"

definition ensureKycProfile :: "kyc_ids \<Rightarrow> int \<Rightarrow> string \<Rightarrow> ('m kyc_db_scheme, kyc_profile) handler" where
  "ensureKycProfile ids now userId s =
     (case findKyc userId s of
        Some k \<Rightarrow> (Inr k, s)
      | None \<Rightarrow> createKyc (newKyc (ki_profile ids) userId now KS_PENDING TIER_1 1 (Some now)) s)"

record kyc_view =
  kv_level :: nat
  kv_currentStage :: "nat option"
  kv_restricted :: bool
  kv_stages :: "stage_view list"
  kv_tier :: kyc_tier
  kv_status :: kyc_status
  kv_detailsComplete :: bool
  kv_identityComplete :: bool
  kv_maskedIdentifier :: "string option"
  kv_identityKind :: "verification_type option"
  kv_bankAccount :: "linked_bank_account option"

definition is_nin :: "verification_type \<Rightarrow> bool" where
  "is_nin t \<longleftrightarrow> t = VT_NIN \<or> t = VT_VNIN"

definition newestPassedNin :: "kyc_check list \<Rightarrow> kyc_check option" where
  "newestPassedNin checks = List.find (\<lambda>c. is_nin (kc_type c) \<and> kc_status c = CK_PASSED) (sort_key (\<lambda>c. - kc_createdAt c) checks)"

definition listBankAccounts :: "string \<Rightarrow> 'm identity_db_scheme \<Rightarrow> linked_bank_account list" where
  "listBankAccounts userId s = sort_key (\<lambda>b. - lb_verifiedAt b) (filter (\<lambda>b. lb_userId b = userId) (linked_bank_accounts s))"

definition kycStatus :: "string \<Rightarrow> int \<Rightarrow> string \<Rightarrow> ('m identity_db_scheme, kyc_view) handler" where
  "kycStatus newId now userId s =
     (let facts = readKycFacts s userId; kyc = findKyc userId s; level = completedLevel facts; tier = tierForLevel level;
          synced = (case kyc of None \<Rightarrow> (Inr (), s) | Some k \<Rightarrow> if kp_tier k \<noteq> tier \<or> kp_level k \<noteq> level then syncKyc newId now userId s else (Inr (), s));
          check = (case kyc of None \<Rightarrow> None | Some k \<Rightarrow> newestPassedNin (kp_checks k)) in
      and_then synced (\<lambda>_ s1. (Inr \<lparr>kv_level = level, kv_currentStage = currentStage facts, kv_restricted = kf_restricted facts, kv_stages = describeStages facts, kv_tier = tier,
        kv_status = (case kyc of None \<Rightarrow> KS_NOT_STARTED | Some k \<Rightarrow> kp_status k), kv_detailsComplete = kf_basicInfoComplete facts,
        kv_identityComplete = (check \<noteq> None), kv_maskedIdentifier = (case check of None \<Rightarrow> None | Some c \<Rightarrow> kc_maskedIdentifier c),
        kv_identityKind = map_option kc_type check,
        kv_bankAccount = (case listBankAccounts userId s of [] \<Rightarrow> None | b # _ \<Rightarrow> Some b)\<rparr>, s1)))"

record personal_details_dto =
  pd_dateOfBirth :: int
  pd_gender :: gender
  pd_addressLine :: string
  pd_city :: string
  pd_state :: string
  pd_occupation :: string

record basic_info_dto =
  bi_dateOfBirth :: int
  bi_gender :: gender
  bi_occupation :: string

text \<open>The change of the profile row both endpoints make, then the sync and the view.\<close>

definition changeProfile ::
  "kyc_ids \<Rightarrow> int \<Rightarrow> string \<Rightarrow> string \<Rightarrow> int \<Rightarrow> (profile_row \<Rightarrow> profile_row) \<Rightarrow> ('m identity_db_scheme, kyc_view) handler" where
  "changeProfile ids now userId action dateOfBirth f s =
     (if \<not> isOldEnough dateOfBirth now then (Inl (BadRequest ''You must be at least 18 years old to use Ajo Cloud''), s)
      else if \<not> list_ex (\<lambda>p. pf_userId p = userId) (profiles s) then (Inl RecordMissing, s)
      else let s1 = audit (Some userId) action ''user'' (Some userId) None (s\<lparr>profiles := update_where (\<lambda>p. pf_userId p = userId) f (profiles s)\<rparr>) in
        and_then (syncKyc (ki_profile ids) now userId s1) (\<lambda>_. kycStatus (ki_profile ids) now userId))"

definition updateBasicInfo :: "kyc_ids \<Rightarrow> int \<Rightarrow> string \<Rightarrow> basic_info_dto \<Rightarrow> ('m identity_db_scheme, kyc_view) handler" where
  "updateBasicInfo ids now userId dto =
     changeProfile ids now userId ''kyc.basic-info.updated'' (bi_dateOfBirth dto) (\<lambda>p. p\<lparr>pf_dateOfBirth := Some (dateColumn (bi_dateOfBirth dto)),
       pf_gender := Some (bi_gender dto), pf_occupation := Some (bi_occupation dto)\<rparr>)"

definition updatePersonalDetails :: "kyc_ids \<Rightarrow> int \<Rightarrow> string \<Rightarrow> personal_details_dto \<Rightarrow> ('m identity_db_scheme, kyc_view) handler" where
  "updatePersonalDetails ids now userId dto =
     changeProfile ids now userId ''kyc.personal-details.updated'' (pd_dateOfBirth dto) (\<lambda>p. p\<lparr>pf_dateOfBirth := Some (dateColumn (pd_dateOfBirth dto)),
       pf_gender := Some (pd_gender dto), pf_addressLine := Some (pd_addressLine dto), pf_city := Some (pd_city dto), pf_state := Some (pd_state dto),
       pf_occupation := Some (pd_occupation dto)\<rparr>)"

section \<open>Checks\<close>

definition assertAttemptsRemain :: "int \<Rightarrow> kyc_profile \<Rightarrow> verification_type list \<Rightarrow> ('m identity_db_scheme, unit) handler" where
  "assertAttemptsRemain now k types s =
     (let failures = filter (\<lambda>c. kc_status c = CK_FAILED \<and> kc_type c \<in> set types \<and> kc_createdAt c \<ge> now - IDENTITY_ATTEMPT_WINDOW_MS) (kp_checks k) in
      if hasExhaustedAttempts (map kc_createdAt failures) now
      then (Inl (TooManyRequests ''Too many verification attempts. Contact support to continue.''),
            updateKyc (kp_id k) (\<lambda>k. k\<lparr>kp_status := KS_REQUIRES_REVIEW\<rparr>) s)
      else (Inr (), s))"

text \<open>A check is unique by its id and, where it has one, by the provider's reference.\<close>

definition check_clash :: "kyc_check \<Rightarrow> kyc_check \<Rightarrow> bool" where
  "check_clash a b \<longleftrightarrow> kc_id a = kc_id b \<or> (kc_provider a = kc_provider b \<and> kc_providerRef a \<noteq> None \<and> kc_providerRef a = kc_providerRef b)"

definition createCheck :: "string \<Rightarrow> kyc_check \<Rightarrow> 'm kyc_db_scheme \<Rightarrow> 'm kyc_db_scheme res" where
  "createCheck profileId c s =
     (if \<exists>d \<in> set (concat (map kp_checks (kyc_profiles s))). check_clash c d then Inl UniqueViolation
      else Inr (updateKyc profileId (\<lambda>k. k\<lparr>kp_checks := kp_checks k @ [c]\<rparr>) s))"

definition IDENTITY_CONSENT_VERSION :: string where
  "IDENTITY_CONSENT_VERSION = ''2026-08-19''"

definition recordConsent :: "string \<Rightarrow> 'm identity_db_scheme \<Rightarrow> 'm identity_db_scheme" where
  "recordConsent userId s =
     (let c = \<lparr>uc_userId = userId, uc_type = ''IDENTITY_VERIFICATION'', uc_version = IDENTITY_CONSENT_VERSION\<rparr> in
      if c \<in> set (user_consents s) then s else s\<lparr>user_consents := user_consents s @ [c]\<rparr>)"

definition REVIEW_FLAGS :: "string list" where
  "REVIEW_FLAGS = [''NAME_MISMATCH'', ''DOB_MISMATCH'']"

fun kindName :: "identity_kind \<Rightarrow> string" where
  "kindName ID_BVN = ''BVN''" | "kindName ID_NIN = ''NIN''" | "kindName ID_VNIN = ''VNIN''"

fun checkType :: "identity_kind \<Rightarrow> verification_type" where
  "checkType ID_BVN = VT_BVN" | "checkType ID_NIN = VT_NIN" | "checkType ID_VNIN = VT_VNIN"

text \<open>What stands against checking a NIN.\<close>

definition ninObstacle :: "identity_kind \<Rightarrow> kyc_facts \<Rightarrow> exn option" where
  "ninObstacle kind facts =
     (if kind = ID_BVN then None
      else if completedLevel facts < 1 then Some (Forbidden ''Finish stage 1 (Account) before verifying your NIN.'')
      else if kf_nin facts = CS_passed then Some (Conflict ''Your NIN is already verified'')
      else if kf_nin facts = CS_pending then Some (Conflict ''Your NIN is being reviewed. We will let you know.'')
      else None)"

definition outcomeFlags :: "identity_outcome \<Rightarrow> string \<Rightarrow> string list" where
  "outcomeFlags outcome legalName =
     (case truthy (io_verifiedName outcome) of
        None \<Rightarrow> io_riskFlags outcome
      | Some n \<Rightarrow> if io_passed outcome \<and> \<not> namesMatch n legalName then io_riskFlags outcome @ [''NAME_MISMATCH''] else io_riskFlags outcome)"

definition heldForReview :: "identity_outcome \<Rightarrow> string \<Rightarrow> bool" where
  "heldForReview outcome legalName \<longleftrightarrow> io_passed outcome \<and> list_ex (\<lambda>f. f \<in> set REVIEW_FLAGS) (outcomeFlags outcome legalName)"

definition identityCheck :: "string \<Rightarrow> int \<Rightarrow> identity_kind \<Rightarrow> string \<Rightarrow> string \<Rightarrow> identity_outcome \<Rightarrow> kyc_check" where
  "identityCheck newId now kind number legalName outcome =
     \<lparr>kc_id = newId, kc_type = checkType kind, kc_provider = io_provider outcome,
      kc_status = (if \<not> io_passed outcome then CK_FAILED else if heldForReview outcome legalName then CK_PENDING else CK_PASSED),
      kc_providerRef = Some (io_providerReference outcome), kc_resultCode = Some (io_resultCode outcome), kc_maskedIdentifier = Some (maskIdentityValue number),
      kc_registeredAddress = io_registeredAddress outcome, kc_submittedAddress = None,
      kc_failureReason = (if io_passed outcome then None else Some (io_resultCode outcome)), kc_riskFlags = outcomeFlags outcome legalName, kc_reviewerUserId = None,
      kc_checkedAt = Some now, kc_createdAt = now\<rparr>"

record verify_identity_dto =
  vi_kind :: identity_kind
  vi_identityNumber :: string

definition recordIdentity ::
  "kyc_ids \<Rightarrow> int \<Rightarrow> string \<Rightarrow> kyc_profile \<Rightarrow> identity_kind \<Rightarrow> string \<Rightarrow> string \<Rightarrow> identity_outcome \<Rightarrow> ('m identity_db_scheme, string \<times> bool) handler" where
  "recordIdentity ids now userId k kind number legalName outcome s =
     (case createCheck (kp_id k) (identityCheck (ki_row ids) now kind number legalName outcome) s of
        Inl e \<Rightarrow> (Inl e, s)
      | Inr s1 \<Rightarrow>
     (let s2 = audit (Some userId) (if io_passed outcome then ''kyc.identity.verified'' else ''kyc.identity.failed'') ''user'' (Some userId) None s1;
          s3 = (if heldForReview outcome legalName then updateKyc (kp_id k) (\<lambda>k. k\<lparr>kp_status := KS_REQUIRES_REVIEW, kp_submittedAt := Some now\<rparr>) s2 else s2) in
      if \<not> io_passed outcome then (Inl (BadRequest ''We could not verify that number. Check it and try again.''), s3)
      else and_then (syncKyc (ki_profile ids) now userId s3) (\<lambda>_ s4. (Inr (maskIdentityValue number, heldForReview outcome legalName), s4))))"

text \<open>The consent is stored before the number leaves for the provider.\<close>

definition checkIdentity ::
  "identity_provider \<Rightarrow> kyc_ids \<Rightarrow> int \<Rightarrow> string \<Rightarrow> identity_kind \<Rightarrow> string \<Rightarrow> kyc_profile \<Rightarrow> ('m identity_db_scheme, string \<times> bool) handler" where
  "checkIdentity provider ids now userId kind number k s =
     (case List.find (\<lambda>p. pf_userId p = userId) (profiles s) of
        None \<Rightarrow> (Inl (NotFound ''Complete your personal details first''), s)
      | Some p \<Rightarrow>
      (let legalName = pf_firstName p @ '' '' @ pf_lastName p; s1 = recordConsent userId s in
       case ip_verifyIdentity provider kind number legalName (pf_dateOfBirth p) of
         Inl e \<Rightarrow> (Inl e, s1)
       | Inr outcome \<Rightarrow> recordIdentity ids now userId k kind number legalName outcome s1))"

definition verifyIdentity ::
  "identity_provider \<Rightarrow> kyc_ids \<Rightarrow> int \<Rightarrow> string \<Rightarrow> verify_identity_dto \<Rightarrow> ('m identity_db_scheme, string \<times> bool) handler" where
  "verifyIdentity provider ids now userId dto s =
     (let number = normalizeIdentityNumber (vi_identityNumber dto) in
      if \<not> isValidIdentityNumber (vi_kind dto) number then (Inl (BadRequest (''Enter a valid '' @ kindName (vi_kind dto))), s)
      else case ninObstacle (vi_kind dto) (readKycFacts s userId) of
        Some e \<Rightarrow> (Inl e, s)
      | None \<Rightarrow>
      and_then (ensureKycProfile ids now userId s) (\<lambda>k s1.
      and_then (assertAttemptsRemain now k [VT_BVN, VT_NIN, VT_VNIN] s1) (\<lambda>_.
        checkIdentity provider ids now userId (vi_kind dto) number k)))"

section \<open>Bank accounts\<close>

definition listBanks :: "identity_provider \<Rightarrow> (string \<times> string) list res" where
  "listBanks provider = ip_listBanks provider"

definition inquireAccount :: "identity_provider \<Rightarrow> string \<Rightarrow> string \<Rightarrow> string res" where
  "inquireAccount provider bankCode accountNumber =
     (if \<not> isValidAccountNumber accountNumber then Inl (BadRequest ''Enter the 10-digit account number'')
      else bind_res (ip_inquireAccount provider bankCode accountNumber) (\<lambda>outcome.
        case truthy (ao_accountName outcome) of
          Some n \<Rightarrow> if ao_passed outcome then Inr n else Inl (BadRequest ''We could not find that account. Check the details.'')
        | None \<Rightarrow> Inl (BadRequest ''We could not find that account. Check the details.'')))"

definition bankCheck :: "string \<Rightarrow> int \<Rightarrow> string \<Rightarrow> account_outcome \<Rightarrow> kyc_check" where
  "bankCheck newId now masked outcome =
     \<lparr>kc_id = newId, kc_type = VT_BANK_ACCOUNT, kc_provider = ao_provider outcome, kc_status = CK_PASSED, kc_providerRef = Some (ao_providerReference outcome),
      kc_resultCode = Some (ao_resultCode outcome), kc_maskedIdentifier = Some masked, kc_registeredAddress = None, kc_submittedAddress = None,
      kc_failureReason = None, kc_riskFlags = [], kc_reviewerUserId = None, kc_checkedAt = Some now, kc_createdAt = now\<rparr>"

definition storeBankAccount :: "string \<Rightarrow> int \<Rightarrow> string \<Rightarrow> string \<Rightarrow> string \<Rightarrow> string \<Rightarrow> string \<Rightarrow> string \<Rightarrow> account_outcome \<Rightarrow>
    linked_bank_account list \<Rightarrow> linked_bank_account list" where
  "storeBankAccount newId now userId bankCode bankName masked digest accountName outcome rows =
     (if list_ex (\<lambda>b. lb_userId b = userId \<and> lb_accountDigest b = digest) rows
      then update_where (\<lambda>b. lb_userId b = userId \<and> lb_accountDigest b = digest) (\<lambda>b. b\<lparr>lb_bankCode := bankCode, lb_bankName := bankName,
        lb_accountName := accountName, lb_provider := ao_provider outcome, lb_providerRef := Some (ao_providerReference outcome), lb_verifiedAt := now\<rparr>) rows
      else rows @ [\<lparr>lb_id = newId, lb_userId = userId, lb_bankCode = bankCode, lb_bankName = bankName, lb_accountMasked = masked, lb_accountDigest = digest,
        lb_accountName = accountName, lb_provider = ao_provider outcome, lb_providerRef = Some (ao_providerReference outcome), lb_verifiedAt = now\<rparr>])"

definition recordBankAccount ::
  "kyc_ids \<Rightarrow> int \<Rightarrow> string \<Rightarrow> string \<Rightarrow> string \<Rightarrow> string \<Rightarrow> string \<Rightarrow> string \<Rightarrow> account_outcome \<Rightarrow> kyc_profile \<Rightarrow>
     ('m identity_db_scheme, string \<times> string \<times> string) handler" where
  "recordBankAccount ids now userId bankCode bankName masked digest accountName outcome k s =
     (let s1 = s\<lparr>linked_bank_accounts :=
            storeBankAccount (ki_row ids) now userId bankCode bankName masked digest accountName outcome (linked_bank_accounts s)\<rparr> in
      case createCheck (kp_id k) (bankCheck (ki_row ids) now masked outcome) s1 of
        Inl e \<Rightarrow> (Inl e, s1)
      | Inr s2 \<Rightarrow> and_then (syncKyc (ki_profile ids) now userId (audit (Some userId) ''kyc.bank-account.linked'' ''user'' (Some userId) None s2))
          (\<lambda>_ s3. (Inr (masked, accountName, bankName), s3)))"

definition linkBankAccount ::
  "identity_provider \<Rightarrow> (string \<Rightarrow> string \<Rightarrow> string) \<Rightarrow> string \<Rightarrow> kyc_ids \<Rightarrow> int \<Rightarrow> string \<Rightarrow> string \<Rightarrow> string \<Rightarrow>
     ('m identity_db_scheme, string \<times> string \<times> string) handler" where
  "linkBankAccount provider hmac pepper ids now userId bankCode accountNumber s =
     (if \<not> isValidAccountNumber accountNumber then (Inl (BadRequest ''Enter the 10-digit account number''), s)
      else case bind_res (ip_inquireAccount provider bankCode accountNumber) (\<lambda>outcome. bind_res (ip_listBanks provider) (\<lambda>banks. Inr (outcome, banks))) of
        Inl e \<Rightarrow> (Inl e, s)
      | Inr (outcome, banks) \<Rightarrow>
      (case (if ao_passed outcome then truthy (ao_accountName outcome) else None) of
         None \<Rightarrow> (Inl (BadRequest ''We could not find that account. Check the details.''), s)
       | Some accountName \<Rightarrow>
      (case truthy (map_option snd (List.find (\<lambda>b. fst b = bankCode) banks)) of
         None \<Rightarrow> (Inl (BadRequest ''Select a bank from the list''), s)
       | Some bankName \<Rightarrow>
      and_then (ensureKycProfile ids now userId s) (\<lambda>k.
        recordBankAccount ids now userId bankCode bankName (maskIdentityValue accountNumber) (accountNumberDigest hmac accountNumber pepper)
          accountName outcome k))))"

section \<open>The document and the address\<close>

fun DOCUMENT_PROBLEMS :: "document_problem \<Rightarrow> string" where
  "DOCUMENT_PROBLEMS DP_EMPTY = ''Choose a photo of your NIN slip or card''"
| "DOCUMENT_PROBLEMS DP_TOO_LARGE = ''That file is too large. Retake the photo and try again.''"
| "DOCUMENT_PROBLEMS DP_UNSUPPORTED_TYPE = ''Upload a JPEG, PNG or PDF''"
| "DOCUMENT_PROBLEMS DP_TYPE_MISMATCH = ''That file is not the type it claims to be''"

record document_dto =
  dd_type :: string
  dd_contentType :: string
  dd_data :: string

definition is_current_nin_document :: "kyc_document \<Rightarrow> bool" where
  "is_current_nin_document d \<longleftrightarrow> kd_type d \<in> set NIN_DOCUMENT_TYPES \<and> kd_supersededAt d = None"

definition newDocument :: "document_cipher \<Rightarrow> (nat list \<Rightarrow> string) \<Rightarrow> kyc_ids \<Rightarrow> int \<Rightarrow> string \<Rightarrow> nat list \<Rightarrow> string \<Rightarrow> kyc_document" where
  "newDocument cipher sha256 ids now type bytes contentType =
     \<lparr>kd_id = ki_row ids, kd_type = type, kd_storageKey = ''db:'' @ ki_storage ids, kd_contentHash = sha256 bytes, kd_contentType = Some contentType,
      kd_sizeBytes = Some (length bytes), kd_ciphertext = Some (encryptDocument cipher (ki_iv ids) bytes), kd_supersededAt = None, kd_createdAt = now\<rparr>"

definition storeDocument :: "kyc_document \<Rightarrow> int \<Rightarrow> string \<Rightarrow> ('m identity_db_scheme, kyc_document) tx" where
  "storeDocument d now profileId s =
     (if \<exists>e \<in> set (concat (map kp_documents (kyc_profiles s))). kd_id e = kd_id d \<or> kd_storageKey e = kd_storageKey d then Inl UniqueViolation
      else Inr (d, updateKyc profileId (\<lambda>k. k\<lparr>kp_submittedAt := Some now,
        kp_documents := update_where is_current_nin_document (\<lambda>e. e\<lparr>kd_supersededAt := Some now\<rparr>) (kp_documents k) @ [d]\<rparr>) s))"

definition uploadIdentityDocument ::
  "document_cipher \<Rightarrow> (nat list \<Rightarrow> string) \<Rightarrow> kyc_ids \<Rightarrow> int \<Rightarrow> string \<Rightarrow> document_dto \<Rightarrow> ('m identity_db_scheme, kyc_document) handler" where
  "uploadIdentityDocument cipher sha256 ids now userId dto s =
     (let facts = readKycFacts s userId in
      if kf_nin facts = CS_none \<or> kf_nin facts = CS_failed then (Inl (Forbidden ''Verify your NIN before uploading the document.''), s)
      else if completedLevel facts \<ge> 2 then (Inl (Conflict ''Your NIN document is already on file''), s)
      else case inspectDocument (dd_data dto) (dd_contentType dto) of
        Inl problem \<Rightarrow> (Inl (BadRequest (DOCUMENT_PROBLEMS problem)), s)
      | Inr (bytes, contentType) \<Rightarrow>
      and_then (ensureKycProfile ids now userId s) (\<lambda>k s1.
      and_then (serializable (storeDocument (newDocument cipher sha256 ids now (dd_type dto) bytes contentType) now (kp_id k)) s1) (\<lambda>d s2.
      and_then (syncKyc (ki_profile ids) now userId (audit (Some userId) ''kyc.document.uploaded'' ''user'' (Some userId) None s2)) (\<lambda>_ s3.
        (Inr d, s3)))))"

fun ADDRESS_MISMATCH :: "address_mismatch \<Rightarrow> string" where
  "ADDRESS_MISMATCH AM_STATE = ''The state does not match the address on your NIN record.''"
| "ADDRESS_MISMATCH AM_HOUSE_NUMBER = ''The house number does not match the address on your NIN record.''"
| "ADDRESS_MISMATCH AM_STREET = ''The street does not match the address on your NIN record.''"

fun mismatchCode :: "address_mismatch \<Rightarrow> string" where
  "mismatchCode AM_STATE = ''MISMATCH_STATE''"
| "mismatchCode AM_HOUSE_NUMBER = ''MISMATCH_HOUSE_NUMBER''"
| "mismatchCode AM_STREET = ''MISMATCH_STREET''"

datatype address_result = AR_UNCOMPARED | AR_MATCHED | AR_MISMATCHED address_mismatch

fun addressStatus :: "address_result \<Rightarrow> check_status" where
  "addressStatus AR_UNCOMPARED = CK_PENDING"
| "addressStatus AR_MATCHED = CK_PASSED"
| "addressStatus (AR_MISMATCHED r) = CK_FAILED"

fun addressCode :: "address_result \<Rightarrow> string" where
  "addressCode AR_UNCOMPARED = ''NO_ADDRESS_ON_RECORD''"
| "addressCode AR_MATCHED = ''MATCHED''"
| "addressCode (AR_MISMATCHED r) = mismatchCode r"

fun addressAction :: "address_result \<Rightarrow> string" where
  "addressAction AR_UNCOMPARED = ''kyc.address.pending''"
| "addressAction AR_MATCHED = ''kyc.address.passed''"
| "addressAction (AR_MISMATCHED r) = ''kyc.address.failed''"

record address_dto =
  ad_addressLine :: string
  ad_city :: string
  ad_lga :: "string option"
  ad_state :: string

definition submittedAddress :: "address_dto \<Rightarrow> postal_address" where
  "submittedAddress dto = \<lparr>pa_line = ad_addressLine dto, pa_city = Some (ad_city dto), pa_lga = ad_lga dto, pa_state = Some (ad_state dto)\<rparr>"

definition addressResult :: "address_dto \<Rightarrow> postal_address option \<Rightarrow> address_result" where
  "addressResult dto registered =
     (case registered of
        None \<Rightarrow> AR_UNCOMPARED
      | Some r \<Rightarrow> if \<not> isComparable (Some r) then AR_UNCOMPARED
          else (case compareAddresses (submittedAddress dto) r of None \<Rightarrow> AR_MATCHED | Some m \<Rightarrow> AR_MISMATCHED m))"

definition addressCheck :: "string \<Rightarrow> int \<Rightarrow> string \<Rightarrow> address_dto \<Rightarrow> address_result \<Rightarrow> kyc_check" where
  "addressCheck newId now provider dto result =
     \<lparr>kc_id = newId, kc_type = VT_ADDRESS, kc_provider = provider, kc_status = addressStatus result, kc_providerRef = None,
      kc_resultCode = Some (addressCode result), kc_maskedIdentifier = None, kc_registeredAddress = None, kc_submittedAddress = Some (submittedAddress dto),
      kc_failureReason = (if addressStatus result = CK_FAILED then Some (addressCode result) else None), kc_riskFlags = [], kc_reviewerUserId = None,
      kc_checkedAt = Some now, kc_createdAt = now\<rparr>"

definition recordAddress ::
  "kyc_ids \<Rightarrow> int \<Rightarrow> string \<Rightarrow> kyc_profile \<Rightarrow> address_dto \<Rightarrow> ('m identity_db_scheme, bool) handler" where
  "recordAddress ids now userId k dto s =
     (let nin = newestPassedNin (kp_checks k);
          result = addressResult dto (case nin of None \<Rightarrow> None | Some c \<Rightarrow> kc_registeredAddress c) in
      if \<not> list_ex (\<lambda>p. pf_userId p = userId) (profiles s) then (Inl RecordMissing, s)
      else let s1 = s\<lparr>profiles := update_where (\<lambda>p. pf_userId p = userId)
             (\<lambda>p. p\<lparr>pf_addressLine := Some (ad_addressLine dto), pf_city := Some (ad_city dto), pf_state := Some (ad_state dto)\<rparr>) (profiles s)\<rparr> in
      case createCheck (kp_id k) (addressCheck (ki_row ids) now (case nin of None \<Rightarrow> ''manual'' | Some c \<Rightarrow> kc_provider c) dto result) s1 of
        Inl e \<Rightarrow> (Inl e, s1)
      | Inr s2 \<Rightarrow>
      (let s3 = (if result = AR_UNCOMPARED then updateKyc (kp_id k) (\<lambda>k. k\<lparr>kp_status := KS_REQUIRES_REVIEW, kp_submittedAt := Some now\<rparr>) s2 else s2);
           s4 = audit (Some userId) (addressAction result) ''user'' (Some userId) None s3 in
       case result of
         AR_MISMATCHED m \<Rightarrow> (Inl (Unprocessable (ADDRESS_MISMATCH m)), s4)
       | _ \<Rightarrow> and_then (syncKyc (ki_profile ids) now userId s4) (\<lambda>_ s5. (Inr (result = AR_MATCHED), s5))))"

definition verifyAddress :: "kyc_ids \<Rightarrow> int \<Rightarrow> string \<Rightarrow> address_dto \<Rightarrow> ('m identity_db_scheme, bool) handler" where
  "verifyAddress ids now userId dto s =
     (let facts = readKycFacts s userId in
      if completedLevel facts < 2 then (Inl (Forbidden ''Finish stage 2 (Identity) before verifying your address.''), s)
      else if kf_address facts = CS_passed then (Inl (Conflict ''Your address is already verified''), s)
      else if kf_address facts = CS_pending then (Inl (Conflict ''Your address is being reviewed. We will let you know.''), s)
      else and_then (ensureKycProfile ids now userId s) (\<lambda>k s1.
        and_then (assertAttemptsRemain now k [VT_ADDRESS] s1) (\<lambda>_. recordAddress ids now userId k dto)))"

section \<open>Reviews\<close>

text \<open>The queue: oldest submission first, profiles never submitted last, then by creation.\<close>

definition listQueue :: "nat \<Rightarrow> 'm kyc_db_scheme \<Rightarrow> kyc_profile list" where
  "listQueue limit s =
     take limit (sort_key (\<lambda>k. case kp_submittedAt k of None \<Rightarrow> 1 | Some _ \<Rightarrow> (0 :: int)) (sort_key (\<lambda>k. or_default (kp_submittedAt k) 0)
       (sort_key kp_createdAt (filter (\<lambda>k. isReviewable (kp_status k)) (kyc_profiles s)))))"

definition findKycById :: "string \<Rightarrow> 'm kyc_db_scheme \<Rightarrow> kyc_profile option" where
  "findKycById profileId s = List.find (\<lambda>k. kp_id k = profileId) (kyc_profiles s)"

definition getForReview :: "string \<Rightarrow> 'm kyc_db_scheme \<Rightarrow> kyc_profile res" where
  "getForReview profileId s = (case findKycById profileId s of None \<Rightarrow> Inl (NotFound ''KYC profile was not found'') | Some k \<Rightarrow> Inr k)"

definition getDocument ::
  "document_cipher \<Rightarrow> string \<Rightarrow> string \<Rightarrow> string \<Rightarrow> ('m kyc_db_scheme, string \<times> string \<times> nat list) handler" where
  "getDocument cipher reviewerId profileId documentId s =
     (case (case findKycById profileId s of None \<Rightarrow> None | Some k \<Rightarrow> List.find (\<lambda>d. kd_id d = documentId) (kp_documents k)) of
        None \<Rightarrow> (Inl (NotFound ''Document was not found''), s)
      | Some d \<Rightarrow>
     (case (kd_ciphertext d, truthy (kd_contentType d)) of
        (Some sealed, Some contentType) \<Rightarrow>
          (case decryptDocument cipher sealed of
             Inl e \<Rightarrow> (Inl e, s)
           | Inr plain \<Rightarrow> (Inr (kd_type d, contentType, plain),
               audit (Some reviewerId) ''kyc.document.viewed'' ''VerificationDocument'' (Some (kd_id d)) None s))
      | _ \<Rightarrow> (Inl (NotFound ''Document was not found''), s)))"

definition passesCheck :: "string \<Rightarrow> int \<Rightarrow> kyc_check \<Rightarrow> kyc_check" where
  "passesCheck reviewerId now c = c\<lparr>kc_status := CK_PASSED, kc_reviewerUserId := Some reviewerId, kc_checkedAt := Some now\<rparr>"

definition failsCheck :: "string \<Rightarrow> int \<Rightarrow> string \<Rightarrow> kyc_check \<Rightarrow> kyc_check" where
  "failsCheck reviewerId now reason c =
     c\<lparr>kc_status := CK_FAILED, kc_reviewerUserId := Some reviewerId, kc_checkedAt := Some now, kc_failureReason := Some reason\<rparr>"

text \<open>What a decision does to the checks of the profile, or why it is refused.\<close>

definition decideChecks :: "string \<Rightarrow> int \<Rightarrow> review_decision \<Rightarrow> kyc_tier \<Rightarrow> kyc_profile \<Rightarrow> kyc_check list res" where
  "decideChecks reviewerId now decision tier k =
     (if decision = APPROVE then
        if \<not> canGrantTier tier (map kc_type (filter (\<lambda>c. kc_status c = CK_PASSED \<or> kc_status c = CK_PENDING) (kp_checks k)))
               (list_ex is_current_nin_document (kp_documents k))
        then Inl (Unprocessable (''Tier '' @ (if tier = TIER_1 then ''TIER_1'' else if tier = TIER_2 then ''TIER_2'' else ''TIER_3'')
               @ '' requires verification evidence the profile does not have''))
        else Inr (update_where (\<lambda>c. kc_status c = CK_PENDING \<and> kc_type c \<in> set (checkTypesApprovedBy tier)) (passesCheck reviewerId now) (kp_checks k))
      else if decision = REJECT \<or> decision = REQUEST_INFORMATION then
        Inr (update_where (\<lambda>c. kc_status c = CK_PENDING)
          (failsCheck reviewerId now (if decision = REJECT then ''REJECTED_BY_REVIEW'' else ''INFORMATION_REQUESTED'')) (kp_checks k))
      else Inr (kp_checks k))"

text \<open>The open review is closed with the decision, or a decided one is written.\<close>

definition closeReview :: "string \<Rightarrow> int \<Rightarrow> string \<Rightarrow> string \<Rightarrow> review_status \<Rightarrow> string \<Rightarrow> compliance_review list \<Rightarrow> compliance_review list" where
  "closeReview newId now profileId reviewerId st reason rows =
     (case sort_key (\<lambda>r. - cr_createdAt r) (filter (\<lambda>r. cr_profileId r = profileId \<and> cr_status r = RV_OPEN) rows) of
        open # _ \<Rightarrow> update_where (\<lambda>r. cr_id r = cr_id open)
          (\<lambda>r. r\<lparr>cr_reviewerId := Some reviewerId, cr_status := st, cr_reason := Some reason, cr_decidedAt := Some now\<rparr>) rows
      | [] \<Rightarrow> rows @ [\<lparr>cr_id = newId, cr_profileId = profileId, cr_reviewerId = Some reviewerId, cr_status = st, cr_reason = Some reason,
          cr_decidedAt = Some now, cr_createdAt = now\<rparr>])"

fun decisionAction :: "review_decision \<Rightarrow> string" where
  "decisionAction APPROVE = ''kyc.profile.approve''"
| "decisionAction REJECT = ''kyc.profile.reject''"
| "decisionAction REQUEST_INFORMATION = ''kyc.profile.request_information''"
| "decisionAction ESCALATE = ''kyc.profile.escalate''"

fun statusName :: "kyc_status \<Rightarrow> string" where
  "statusName KS_NOT_STARTED = ''NOT_STARTED''"
| "statusName KS_PENDING = ''PENDING''"
| "statusName KS_VERIFIED = ''VERIFIED''"
| "statusName KS_REJECTED = ''REJECTED''"
| "statusName KS_REQUIRES_REVIEW = ''REQUIRES_REVIEW''"
| "statusName KS_EXPIRED = ''EXPIRED''"

definition decisionLevel :: "review_decision \<Rightarrow> string \<Rightarrow> 'm kyc_db_scheme \<Rightarrow> nat" where
  "decisionLevel decision userId s =
     (let facts = readKycFacts s userId in completedLevel (facts\<lparr>kf_restricted := kf_restricted facts \<or> decision = REJECT\<rparr>))"

definition decidedProfile :: "int \<Rightarrow> review_decision \<Rightarrow> nat \<Rightarrow> kyc_profile \<Rightarrow> kyc_profile" where
  "decidedProfile now decision level k =
     k\<lparr>kp_status := statusAfterDecision decision, kp_tier := tierForLevel level, kp_level := level,
       kp_verifiedAt := (if decision = APPROVE then Some now else kp_verifiedAt k),
       kp_restrictedAt := (if decision = REJECT then Some now else kp_restrictedAt k)\<rparr>"

definition decideWithin ::
  "string \<Rightarrow> int \<Rightarrow> string \<Rightarrow> string \<Rightarrow> review_decision \<Rightarrow> string \<Rightarrow> kyc_tier option \<Rightarrow> ('m identity_db_scheme, kyc_profile) tx" where
  "decideWithin newId now reviewerId profileId decision reason grantedTier s =
     (case findKycById profileId s of
        None \<Rightarrow> Inl (NotFound ''KYC profile was not found'')
      | Some k \<Rightarrow>
      if \<not> isReviewable (kp_status k) then Inl (Conflict (''A profile with status '' @ statusName (kp_status k) @ '' cannot be reviewed''))
      else bind_res (decideChecks reviewerId now decision (or_default grantedTier (kp_tier k)) k) (\<lambda>checks.
      let s1 = updateKyc profileId (\<lambda>k. k\<lparr>kp_checks := checks\<rparr>) s;
          s2 = updateKyc profileId (decidedProfile now decision (decisionLevel decision (kp_userId k) s1)) s1;
          s3 = s2\<lparr>compliance_reviews := closeReview newId now profileId reviewerId (reviewStatusForDecision decision) reason (compliance_reviews s2)\<rparr>;
          s4 = outbox ''KycProfile'' profileId (decisionAction decision) (audit (Some reviewerId) (decisionAction decision) ''KycProfile'' (Some profileId) None s3) in
      case findKycById profileId s4 of None \<Rightarrow> Inl RecordMissing | Some updated \<Rightarrow> Inr (updated, s4)))"

definition decide ::
  "string \<Rightarrow> int \<Rightarrow> string \<Rightarrow> string \<Rightarrow> review_decision \<Rightarrow> string \<Rightarrow> kyc_tier option \<Rightarrow> ('m identity_db_scheme, kyc_profile) handler" where
  "decide newId now reviewerId profileId decision reason grantedTier s =
     (case serializable (decideWithin newId now reviewerId profileId decision reason grantedTier) s of
        (Inl e, s1) \<Rightarrow> (Inl e, s1)
      | (Inr k, s1) \<Rightarrow> (Inr k,
          if decision = APPROVE then notify (kp_userId k) ''kyc-approved'' None (''kyc-approved:'' @ join_colon profileId (showInt now)) s1
          else if decision = REJECT then notify (kp_userId k) ''kyc-rejected'' None (''kyc-rejected:'' @ join_colon profileId (showInt now)) s1
          else s1))"

definition approveProfile :: "string \<Rightarrow> int \<Rightarrow> string \<Rightarrow> string \<Rightarrow> kyc_tier \<Rightarrow> string option \<Rightarrow> ('m identity_db_scheme, kyc_profile) handler" where
  "approveProfile newId now reviewerId profileId tier reason =
     decide newId now reviewerId profileId APPROVE (or_default reason ''Approved'') (Some tier)"

definition rejectProfile :: "string \<Rightarrow> int \<Rightarrow> string \<Rightarrow> string \<Rightarrow> string \<Rightarrow> ('m identity_db_scheme, kyc_profile) handler" where
  "rejectProfile newId now reviewerId profileId reason = decide newId now reviewerId profileId REJECT reason None"

definition requestInformation :: "string \<Rightarrow> int \<Rightarrow> string \<Rightarrow> string \<Rightarrow> string \<Rightarrow> ('m identity_db_scheme, kyc_profile) handler" where
  "requestInformation newId now reviewerId profileId reason = decide newId now reviewerId profileId REQUEST_INFORMATION reason None"

definition escalateProfile :: "string \<Rightarrow> int \<Rightarrow> string \<Rightarrow> string \<Rightarrow> string \<Rightarrow> ('m identity_db_scheme, kyc_profile) handler" where
  "escalateProfile newId now reviewerId profileId reason = decide newId now reviewerId profileId ESCALATE reason None"

end
