(* ===== verification/Kyc_Safety.thy ===== *)
theory Kyc_Safety
  imports Kyc_Service
begin

text \<open>
  What is shown of identity verification: a verified NIN is never replaced, the stored tier is the one the evidence supports, an uploaded document
  is read back as it was, wrong numbers are limited, and a review that grants less than a held check asks for leaves that check held for good.
\<close>

section \<open>Handlers in a row\<close>

lemma and_then_simps [simp]: "and_then (Inl e, s) f = (Inl e, s)" "and_then (Inr x, s) f = f x s"
  by (simp_all add: and_then_def)

lemma and_then_keeps:
  assumes "Q (snd r)" and "\<And>x s. r = (Inr x, s) \<Longrightarrow> Q s \<Longrightarrow> Q (snd (f x s))"
  shows "Q (snd (and_then r f))"
  using assms by (cases r; cases "fst r") auto

lemma and_then_Inr_iff: "and_then r f = (Inr y, t) \<longleftrightarrow> (\<exists>x s. r = (Inr x, s) \<and> f x s = (Inr y, t))"
  by (cases r; cases "fst r") auto

section \<open>One NIN per account\<close>

text \<open>What a profile says of the NIN, and the profiles with distinct ids and users.\<close>

definition nin_record :: "kyc_profile \<Rightarrow> (string \<times> verification_type \<times> string option) list" where
  "nin_record k = map (\<lambda>c. (kc_id c, kc_type c, kc_maskedIdentifier c)) (filter (\<lambda>c. is_nin (kc_type c)) (kp_checks k))"

definition nin_passed :: "kyc_profile \<Rightarrow> bool" where
  "nin_passed k \<longleftrightarrow> list_ex (\<lambda>c. is_nin (kc_type c) \<and> kc_status c = CK_PASSED) (kp_checks k)"

definition kyc_wf :: "'m kyc_db_scheme \<Rightarrow> bool" where
  "kyc_wf s \<longleftrightarrow> distinct (map kp_id (kyc_profiles s)) \<and> distinct (map kp_userId (kyc_profiles s))"

definition nin_kept :: "'m kyc_db_scheme \<Rightarrow> 'm kyc_db_scheme \<Rightarrow> bool" where
  "nin_kept s s' \<longleftrightarrow> (\<forall>k \<in> set (kyc_profiles s). nin_passed k \<longrightarrow>
     (\<exists>k' \<in> set (kyc_profiles s'). kp_userId k' = kp_userId k \<and> nin_record k' = nin_record k \<and> nin_passed k'))"

definition kyc_ok :: "'m kyc_db_scheme \<Rightarrow> 'm kyc_db_scheme \<Rightarrow> bool" where
  "kyc_ok s s' \<longleftrightarrow> kyc_wf s' \<and> nin_kept s s'"

lemma nin_kept_trans: "nin_kept s t \<Longrightarrow> nin_kept t u \<Longrightarrow> nin_kept s u"
  unfolding nin_kept_def by (metis (no_types, lifting))

lemma kyc_ok_refl: "kyc_wf s \<Longrightarrow> kyc_ok s s"
  by (auto simp: kyc_ok_def nin_kept_def)

lemma kyc_ok_trans: "kyc_ok s t \<Longrightarrow> kyc_ok t u \<Longrightarrow> kyc_ok s u"
  unfolding kyc_ok_def using nin_kept_trans by blast

lemma kyc_ok_same: "kyc_wf s \<Longrightarrow> kyc_profiles s' = kyc_profiles s \<Longrightarrow> kyc_ok s s'"
  by (auto simp: kyc_ok_def kyc_wf_def nin_kept_def)

lemma updateKyc_simps [simp]:
  "users (updateKyc pid f s) = users s" "kyc_profiles (updateKyc pid f s) = update_where (\<lambda>k. kp_id k = pid) f (kyc_profiles s)"
  "profiles (updateKyc pid f s) = profiles s" "findPin u (updateKyc pid f s) = findPin u s"
  by (simp_all add: updateKyc_def findPin_def)

lemma updateKyc_ok:
  assumes "kyc_wf s" and "\<And>k. kp_id (f k) = kp_id k \<and> kp_userId (f k) = kp_userId k"
    and "\<And>k. k \<in> set (kyc_profiles s) \<Longrightarrow> kp_id k = pid \<Longrightarrow> nin_passed k \<Longrightarrow> nin_record (f k) = nin_record k \<and> nin_passed (f k)"
  shows "kyc_ok s (updateKyc pid f s)"
proof -
  have "kyc_wf (updateKyc pid f s)" using assms(1,2) by (simp add: kyc_wf_def map_update_where)
  moreover have "nin_kept s (updateKyc pid f s)" unfolding nin_kept_def
  proof (intro ballI impI)
    fix k assume k: "k \<in> set (kyc_profiles s)" "nin_passed k"
    show "\<exists>k' \<in> set (kyc_profiles (updateKyc pid f s)). kp_userId k' = kp_userId k \<and> nin_record k' = nin_record k \<and> nin_passed k'"
      using k assms(2,3) by (cases "kp_id k = pid") (auto simp: set_update_where)
  qed
  ultimately show ?thesis by (simp add: kyc_ok_def)
qed

text \<open>A change that leaves the checks alone.\<close>

lemma updateKyc_fields_ok:
  assumes "kyc_wf s" and "\<And>k. kp_id (f k) = kp_id k \<and> kp_userId (f k) = kp_userId k" and "\<And>k. kp_checks (f k) = kp_checks k"
  shows "kyc_ok s (updateKyc pid f s)"
  by (rule updateKyc_ok [OF assms(1,2)]) (simp add: assms(3) nin_record_def nin_passed_def)

lemma createKyc_ok:
  assumes "kyc_wf s"
  shows "kyc_ok s (snd (createKyc k s))"
proof (cases "insertRow (\<lambda>a b. kp_id a = kp_id b \<or> kp_userId a = kp_userId b) k (kyc_profiles s)")
  case (Inl e)
  with assms show ?thesis by (simp add: createKyc_def kyc_ok_refl del: insertRow_Inr_iff)
next
  case (Inr rows)
  then have c: "createKyc k s = (Inr k, s\<lparr>kyc_profiles := rows\<rparr>)" unfolding createKyc_def by (simp del: insertRow_Inr_iff)
  from Inr assms show ?thesis unfolding c by (auto simp: kyc_ok_def kyc_wf_def nin_kept_def)
qed

lemma and_then_ok:
  "kyc_ok s (snd r) \<Longrightarrow> (\<And>x t. r = (Inr x, t) \<Longrightarrow> kyc_ok s t \<Longrightarrow> kyc_ok s (snd (f x t))) \<Longrightarrow> kyc_ok s (snd (and_then r f))"
  by (rule and_then_keeps)

lemma and_then_return_ok: "kyc_ok s (snd r) \<Longrightarrow> kyc_ok s (snd (and_then r (\<lambda>_ t. (x, t))))"
  by (rule and_then_ok) simp_all

lemma syncKyc_ok:
  assumes "kyc_wf s"
  shows "kyc_ok s (snd (syncKyc newId now u s))"
proof (cases "findKyc u s")
  case None
  then show ?thesis using kyc_ok_refl [OF assms] createKyc_ok [OF assms] by (simp add: syncKyc_def Let_def and_then_return_ok)
next
  case (Some e)
  have "kyc_ok s (updateKyc (kp_id e) (\<lambda>k. if b then k\<lparr>kp_tier := t, kp_level := l, kp_status := KS_VERIFIED, kp_verifiedAt := Some now\<rparr>
      else k\<lparr>kp_tier := t, kp_level := l\<rparr>) s)" for b t l by (rule updateKyc_fields_ok [OF assms]) auto
  moreover have "kyc_ok s (audit a1 a2 a3 a4 a5 s1) = kyc_ok s s1" for a1 a2 a3 a4 a5 s1 by (simp add: kyc_ok_def kyc_wf_def nin_kept_def audit_def)
  ultimately show ?thesis using Some kyc_ok_refl [OF assms] by (simp add: syncKyc_def Let_def)
qed

lemma ensureKycProfile_ok: "kyc_wf s \<Longrightarrow> kyc_ok s (snd (ensureKycProfile ids now u s))"
  by (simp add: ensureKycProfile_def kyc_ok_refl createKyc_ok split: option.splits)

lemma ensureKycProfile_Inr:
  assumes "ensureKycProfile ids now u s = (Inr k, s')"
  shows "k \<in> set (kyc_profiles s')" "kp_userId k = u" "findKyc u s = Some k \<or> kp_checks k = []" "users s' = users s"
  using assms by (auto simp: ensureKycProfile_def createKyc_def findKyc_def newKyc_def dest: find_SomeD split: option.splits sum.splits)


lemma kf_nin_passed:
  "kf_nin (readKycFacts s u) = CS_passed \<longleftrightarrow> List.find (\<lambda>r. ur_id r = u) (users s) \<noteq> None \<and> (\<exists>k. findKyc u s = Some k \<and> nin_passed k)"
proof (cases "List.find (\<lambda>r. ur_id r = u) (users s)")
  case None
  then show ?thesis by (simp add: readKycFacts_def stateOf_def)
next
  case (Some r)
  then show ?thesis
    by (cases "findKyc u s") (auto simp: readKycFacts_def Let_def stateOf_passed findKyc_def nin_passed_def list_ex_iff is_nin_def)
qed

lemma level_user: "1 \<le> completedLevel (readKycFacts s u) \<Longrightarrow> List.find (\<lambda>r. ur_id r = u) (users s) \<noteq> None"
  by (auto simp: completedLevel_cases stage_met_def readKycFacts_def Let_def split: if_splits option.splits)

lemma ninObstacle_None:
  assumes "ninObstacle kind (readKycFacts s u) = None" and "findKyc u s = Some k"
  shows "kind \<noteq> ID_BVN \<Longrightarrow> \<not> nin_passed k"
  using assms kf_nin_passed [of s u] level_user [of s u] by (auto simp: ninObstacle_def split: if_splits)

lemma createCheck_ok:
  assumes "createCheck pid c s = Inr s'" and "kyc_wf s"
    and "is_nin (kc_type c) \<Longrightarrow> \<forall>k \<in> set (kyc_profiles s). kp_id k = pid \<longrightarrow> \<not> nin_passed k"
  shows "kyc_ok s s'"
proof -
  from assms(1) have s': "s' = updateKyc pid (\<lambda>k. k\<lparr>kp_checks := kp_checks k @ [c]\<rparr>) s" by (auto simp: createCheck_def split: if_splits)
  show ?thesis unfolding s'
    by (rule updateKyc_ok [OF assms(2)]) (use assms(3) in \<open>auto simp: nin_record_def nin_passed_def\<close>)
qed

lemma assertAttemptsRemain_ok: "kyc_wf s \<Longrightarrow> kyc_ok s (snd (assertAttemptsRemain now k types s))"
  by (auto simp: assertAttemptsRemain_def Let_def kyc_ok_refl intro!: updateKyc_fields_ok)

lemma assertAttemptsRemain_Inr: "assertAttemptsRemain now k types s = (Inr x, s') \<Longrightarrow> s' = s"
  by (auto simp: assertAttemptsRemain_def Let_def split: if_splits)

lemma kyc_ok_audit [simp]: "kyc_ok s (audit a b c d e t) = kyc_ok s t"
  by (simp add: kyc_ok_def kyc_wf_def nin_kept_def audit_def)

lemma kyc_ok_wf: "kyc_ok s t \<Longrightarrow> kyc_wf t"
  by (simp add: kyc_ok_def)

text \<open>What follows a change that is fine is fine when it is fine by itself.\<close>

lemma kyc_ok_step: "kyc_ok s t \<Longrightarrow> (kyc_wf t \<Longrightarrow> kyc_ok t (snd (h t))) \<Longrightarrow> kyc_ok s (snd (h t))"
  using kyc_ok_trans kyc_ok_wf by blast

lemma held_ok:
  assumes "kyc_ok s t"
  shows "kyc_ok s (updateKyc pid (\<lambda>k. k\<lparr>kp_status := st, kp_submittedAt := sub\<rparr>) t)"
proof -
  have "kyc_ok t (updateKyc pid (\<lambda>k. k\<lparr>kp_status := st, kp_submittedAt := sub\<rparr>) t)"
    by (rule updateKyc_fields_ok [OF kyc_ok_wf [OF assms]]) simp_all
  with assms kyc_ok_trans show ?thesis by blast
qed

lemma sync_then_ok:
  assumes "kyc_ok s t"
  shows "kyc_ok s (snd (and_then (syncKyc newId now u t) (\<lambda>_ t'. (r, t'))))"
proof (rule and_then_return_ok)
  show "kyc_ok s (snd (syncKyc newId now u t))" by (rule kyc_ok_step [OF assms]) (rule syncKyc_ok)
qed

lemma recordIdentity_ok:
  assumes "kyc_wf s" and "kind \<noteq> ID_BVN \<Longrightarrow> \<forall>k' \<in> set (kyc_profiles s). kp_id k' = kp_id k \<longrightarrow> \<not> nin_passed k'"
  shows "kyc_ok s (snd (recordIdentity ids now u k kind number name outcome s))"
proof (cases "createCheck (kp_id k) (identityCheck (ki_row ids) now kind number name outcome) s")
  case (Inr s1)
  have "is_nin (kc_type (identityCheck (ki_row ids) now kind number name outcome)) \<longleftrightarrow> kind \<noteq> ID_BVN"
    by (cases kind) (simp_all add: identityCheck_def is_nin_def)
  with createCheck_ok [OF Inr assms(1)] assms(2) have s1: "kyc_ok s s1" by blast
  show ?thesis using s1 held_ok [of s "audit _ _ _ _ _ s1"] by (simp add: recordIdentity_def Inr Let_def sync_then_ok)
qed (simp add: recordIdentity_def kyc_ok_refl assms(1))

lemma recordConsent_profiles [simp]: "kyc_profiles (recordConsent u s) = kyc_profiles s"
  by (simp add: recordConsent_def Let_def)

lemma checkIdentity_ok:
  assumes "kyc_wf s" and "kind \<noteq> ID_BVN \<Longrightarrow> \<forall>k' \<in> set (kyc_profiles s). kp_id k' = kp_id k \<longrightarrow> \<not> nin_passed k'"
  shows "kyc_ok s (snd (checkIdentity provider ids now u kind number k s))"
proof -
  have c: "kyc_ok s (recordConsent u s)" using kyc_ok_same [OF assms(1)] by simp
  have "kyc_ok s (snd (recordIdentity ids now u k kind number l out (recordConsent u s)))" for l out
    by (rule kyc_ok_step [OF c]) (rule recordIdentity_ok, use assms(2) in simp_all)
  with c kyc_ok_refl [OF assms(1)] show ?thesis by (auto simp: checkIdentity_def Let_def split: option.splits sum.splits)
qed

lemma verifyIdentity_ok:
  assumes "kyc_wf s"
  shows "kyc_ok s (snd (verifyIdentity provider ids now u dto s))"
proof -
  let ?types = "[VT_BVN, VT_NIN, VT_VNIN]"
  have "kyc_ok s (snd (and_then (assertAttemptsRemain now k ?types s1) (\<lambda>_. checkIdentity provider ids now u (vi_kind dto) number k)))"
    if ob: "ninObstacle (vi_kind dto) (readKycFacts s u) = None" and en: "ensureKycProfile ids now u s = (Inr k, s1)" for k s1 number
  proof (rule and_then_ok)
    have s1: "kyc_ok s s1" using ensureKycProfile_ok [OF assms, of ids now u] en by simp
    note k = ensureKycProfile_Inr [OF en]
    show "kyc_ok s (snd (assertAttemptsRemain now k ?types s1))" by (rule kyc_ok_step [OF s1]) (rule assertAttemptsRemain_ok)
    fix x s2 assume "assertAttemptsRemain now k ?types s1 = (Inr x, s2)"
    then have s2: "s2 = s1" by (rule assertAttemptsRemain_Inr)
    have "\<not> nin_passed k'" if "vi_kind dto \<noteq> ID_BVN" "k' \<in> set (kyc_profiles s1)" "kp_id k' = kp_id k" for k'
    proof -
      from kyc_ok_wf [OF s1] that(2,3) k(1) have "k' = k" by (auto simp: kyc_wf_def distinct_map dest: inj_onD)
      with k(3) ninObstacle_None [OF ob _ that(1)] show ?thesis by (auto simp: nin_passed_def)
    qed
    then show "kyc_ok s (snd (checkIdentity provider ids now u (vi_kind dto) number k s2))"
      unfolding s2 by (intro kyc_ok_step [OF s1] checkIdentity_ok) auto
  qed
  then have "kyc_ok s (snd (and_then (ensureKycProfile ids now u s) (\<lambda>k s1.
      and_then (assertAttemptsRemain now k ?types s1) (\<lambda>_. checkIdentity provider ids now u (vi_kind dto) number k))))"
    if "ninObstacle (vi_kind dto) (readKycFacts s u) = None" for number
    by (rule and_then_ok [OF ensureKycProfile_ok [OF assms]]) (use that in blast)
  with kyc_ok_refl [OF assms] show ?thesis by (simp add: verifyIdentity_def Let_def split: option.splits)
qed

lemma kycStatus_ok: "kyc_wf s \<Longrightarrow> kyc_ok s (snd (kycStatus newId now u s))"
  unfolding kycStatus_def Let_def by (rule and_then_return_ok) (simp add: kyc_ok_refl syncKyc_ok split: option.splits)

lemma changeProfile_ok:
  assumes "kyc_wf s"
  shows "kyc_ok s (snd (changeProfile ids now u action dob f s))"
proof -
  let ?s1 = "audit (Some u) action ''user'' (Some u) None (s\<lparr>profiles := update_where (\<lambda>p. pf_userId p = u) f (profiles s)\<rparr>)"
  have s1: "kyc_ok s ?s1" using kyc_ok_same [OF assms, of "s\<lparr>profiles := _\<rparr>"] by simp
  have "kyc_ok s (snd (and_then (syncKyc (ki_profile ids) now u ?s1) (\<lambda>_. kycStatus (ki_profile ids) now u)))"
  proof (rule and_then_ok)
    show "kyc_ok s (snd (syncKyc (ki_profile ids) now u ?s1))" by (rule kyc_ok_step [OF s1]) (rule syncKyc_ok)
    show "kyc_ok s (snd (kycStatus (ki_profile ids) now u t))" if "kyc_ok s t" for t
      by (rule kyc_ok_step [OF that]) (rule kycStatus_ok)
  qed
  with kyc_ok_refl [OF assms] show ?thesis by (simp add: changeProfile_def Let_def)
qed

lemma recordBankAccount_ok:
  assumes "kyc_wf s"
  shows "kyc_ok s (snd (recordBankAccount ids now u code name masked digest accountName outcome k s))"
proof -
  let ?s1 = "s\<lparr>linked_bank_accounts := storeBankAccount (ki_row ids) now u code name masked digest accountName outcome (linked_bank_accounts s)\<rparr>"
  have s1: "kyc_ok s ?s1" using kyc_ok_same [OF assms] by simp
  have "kyc_ok s s2" if "createCheck (kp_id k) (bankCheck (ki_row ids) now masked outcome) ?s1 = Inr s2" for s2
    using createCheck_ok [OF that kyc_ok_wf [OF s1]] kyc_ok_trans [OF s1] by (simp add: bankCheck_def is_nin_def)
  with s1 show ?thesis by (simp add: recordBankAccount_def Let_def sync_then_ok split: sum.splits)
qed

lemma linkBankAccount_ok:
  assumes "kyc_wf s"
  shows "kyc_ok s (snd (linkBankAccount provider hmac pepper ids now u code number s))"
proof -
  have "kyc_ok s (snd (and_then (ensureKycProfile ids now u s) (\<lambda>k. recordBankAccount ids now u code name masked digest accountName outcome k)))"
    for name masked digest accountName outcome
  proof (rule and_then_ok [OF ensureKycProfile_ok [OF assms]])
    show "kyc_ok s (snd (recordBankAccount ids now u code name masked digest accountName outcome k t))" if "kyc_ok s t" for k t
      by (rule kyc_ok_step [OF that]) (rule recordBankAccount_ok)
  qed
  with kyc_ok_refl [OF assms] show ?thesis by (simp add: linkBankAccount_def split: sum.splits prod.splits option.splits)
qed

lemma storeDocument_ok:
  assumes "kyc_wf s"
  shows "kyc_ok s (snd (serializable (storeDocument d now pid) s))"
  by (auto simp: serializable_def storeDocument_def kyc_ok_refl [OF assms] intro!: updateKyc_fields_ok [OF assms])

lemma uploadIdentityDocument_ok:
  fixes s :: "'a identity_db_scheme"
  assumes "kyc_wf s"
  shows "kyc_ok s (snd (uploadIdentityDocument cipher sha ids now u dto s))"
proof -
  have "kyc_ok s (snd (and_then (serializable (storeDocument d now pid) s1) (\<lambda>d s2.
      and_then (syncKyc p now u (audit (Some u) ''kyc.document.uploaded'' ''user'' (Some u) None s2)) (\<lambda>_ s3. (Inr d, s3)))))"
    if s1: "kyc_ok s s1" for s1 :: "'a identity_db_scheme" and d pid p
  proof (rule and_then_ok)
    show "kyc_ok s (snd (serializable (storeDocument d now pid) s1))" by (rule kyc_ok_step [OF s1]) (rule storeDocument_ok)
  qed (simp add: sync_then_ok)
  then have "kyc_ok s (snd (and_then (ensureKycProfile ids now u s) (\<lambda>k s1. and_then (serializable (storeDocument d now (kp_id k)) s1) (\<lambda>d s2.
      and_then (syncKyc p now u (audit (Some u) ''kyc.document.uploaded'' ''user'' (Some u) None s2)) (\<lambda>_ s3. (Inr d, s3))))))" for d p
    by (intro and_then_ok [OF ensureKycProfile_ok [OF assms]])
  with kyc_ok_refl [OF assms] show ?thesis by (simp add: uploadIdentityDocument_def Let_def split: sum.splits prod.splits)
qed

lemma recordAddress_ok:
  assumes "kyc_wf s"
  shows "kyc_ok s (snd (recordAddress ids now u k dto s))"
proof -
  have s1: "kyc_ok s (s\<lparr>profiles := ps\<rparr>)" for ps using kyc_ok_same [OF assms] by simp
  have s2: "kyc_ok s s2" if "createCheck (kp_id k) (addressCheck i now pr dto r) (s\<lparr>profiles := ps\<rparr>) = Inr s2" for i pr r ps s2
    using createCheck_ok [OF that kyc_ok_wf [OF s1]] kyc_ok_trans [OF s1] by (simp add: addressCheck_def is_nin_def)
  show ?thesis using kyc_ok_refl [OF assms] s1
    by (auto simp: recordAddress_def Let_def sync_then_ok held_ok dest!: s2 split: sum.splits address_result.splits)
qed

lemma verifyAddress_ok:
  fixes s :: "'a identity_db_scheme"
  assumes "kyc_wf s"
  shows "kyc_ok s (snd (verifyAddress ids now u dto s))"
proof -
  have "kyc_ok s (snd (and_then (assertAttemptsRemain now k types s1) (\<lambda>_. recordAddress ids now u k dto)))"
    if s1: "kyc_ok s s1" for s1 :: "'a identity_db_scheme" and k types
  proof (rule and_then_ok)
    show "kyc_ok s (snd (assertAttemptsRemain now k types s1))" by (rule kyc_ok_step [OF s1]) (rule assertAttemptsRemain_ok)
    show "kyc_ok s (snd (recordAddress ids now u k dto t))" if "kyc_ok s t" for t
      by (rule kyc_ok_step [OF that]) (rule recordAddress_ok)
  qed
  then have "kyc_ok s (snd (and_then (ensureKycProfile ids now u s) (\<lambda>k s1.
      and_then (assertAttemptsRemain now k types s1) (\<lambda>_. recordAddress ids now u k dto))))" for types
    by (intro and_then_ok [OF ensureKycProfile_ok [OF assms]])
  with kyc_ok_refl [OF assms] show ?thesis by (simp add: verifyAddress_def Let_def)
qed


text \<open>A decision changes the status of checks that are held, and nothing else of them.\<close>

lemma decideChecks_nin:
  assumes "decideChecks r now d tier k = Inr cs"
  shows "map (\<lambda>c. (kc_id c, kc_type c, kc_maskedIdentifier c)) cs = map (\<lambda>c. (kc_id c, kc_type c, kc_maskedIdentifier c)) (kp_checks k)"
    "\<forall>c \<in> set (kp_checks k). kc_status c = CK_PASSED \<longrightarrow> c \<in> set cs"
  using assms by (auto simp: decideChecks_def passesCheck_def failsCheck_def map_update_where set_update_where split: if_splits)

lemma map_filter_snd:
  assumes "map g xs = map g ys" and "\<And>x. P x = Q (g x)"
  shows "map g (filter P xs) = map g (filter P ys)"
proof -
  have "map g (filter P zs) = filter Q (map g zs)" for zs using assms(2) by (induction zs) auto
  with assms(1) show ?thesis by simp
qed

lemma decideChecks_kept:
  assumes "decideChecks r now d tier k = Inr cs" and "nin_passed k"
  shows "nin_record (k\<lparr>kp_checks := cs\<rparr>) = nin_record k \<and> nin_passed (k\<lparr>kp_checks := cs\<rparr>)"
proof
  show "nin_record (k\<lparr>kp_checks := cs\<rparr>) = nin_record k" unfolding nin_record_def
    using map_filter_snd [OF decideChecks_nin(1) [OF assms(1)], of "\<lambda>c. is_nin (kc_type c)" "\<lambda>(i, t, m). is_nin t"] by simp
  show "nin_passed (k\<lparr>kp_checks := cs\<rparr>)"
    using assms(2) decideChecks_nin(2) [OF assms(1)] by (auto simp: nin_passed_def list_ex_iff)
qed

lemma findKycById_SomeD: "findKycById pid s = Some k \<Longrightarrow> k \<in> set (kyc_profiles s) \<and> kp_id k = pid"
  by (auto simp: findKycById_def dest: find_SomeD)

lemma decideWithin_Inr:
  assumes "decideWithin newId now r pid d reason tier s = Inr (k', s')"
  obtains k cs s1 where "findKycById pid s = Some k" "isReviewable (kp_status k)" "decideChecks r now d (or_default tier (kp_tier k)) k = Inr cs"
    "s1 = updateKyc pid (\<lambda>k. k\<lparr>kp_checks := cs\<rparr>) s" "findKycById pid s' = Some k'"
    "kyc_profiles s' = update_where (\<lambda>k. kp_id k = pid) (decidedProfile now d (decisionLevel d (kp_userId k) s1)) (kyc_profiles s1)"
    "users s' = users s" "profiles s' = profiles s" "pins s' = pins s"
proof -
  from assms obtain k where k: "findKycById pid s = Some k" "isReviewable (kp_status k)"
    by (auto simp: decideWithin_def split: option.splits if_splits)
  note assms = assms [unfolded decideWithin_def k option.simps not_not if_False bind_res_Inr_iff Let_def]
  from assms k obtain cs where "decideChecks r now d (or_default tier (kp_tier k)) k = Inr cs" by (auto simp: bind_res_Inr_iff split: if_splits)
  with k assms show ?thesis
    by (intro that [of k cs "updateKyc pid (\<lambda>k. k\<lparr>kp_checks := cs\<rparr>) s"])
      (auto simp: updateKyc_def outbox_def audit_def findKycById_def split: option.splits)
qed

lemma decide_ok:
  assumes "kyc_wf s"
  shows "kyc_ok s (snd (decide newId now r pid d reason tier s))"
proof -
  have w: "kyc_ok s s'" if "decideWithin newId now r pid d reason tier s = Inr (k', s')" for k' s'
    using that
  proof (rule decideWithin_Inr)
    fix k cs and s1 :: "'a identity_db_scheme"
    assume k: "findKycById pid s = Some k" and cs: "decideChecks r now d (or_default tier (kp_tier k)) k = Inr cs"
      and s1: "s1 = updateKyc pid (\<lambda>k. k\<lparr>kp_checks := cs\<rparr>) s"
      and rows: "kyc_profiles s' = update_where (\<lambda>k. kp_id k = pid) (decidedProfile now d (decisionLevel d (kp_userId k) s1)) (kyc_profiles s1)"
    have one: "k' = k" if "k' \<in> set (kyc_profiles s)" "kp_id k' = pid" for k'
      using that assms findKycById_SomeD [OF k] by (auto simp: kyc_wf_def distinct_map dest: inj_onD)
    have "kyc_ok s s1" unfolding s1
      by (rule updateKyc_ok [OF assms]) (use one decideChecks_kept [OF cs] in auto)
    moreover have "kyc_ok s1 (updateKyc pid (decidedProfile now d (decisionLevel d (kp_userId k) s1)) s1)"
      by (rule updateKyc_fields_ok [OF kyc_ok_wf [OF \<open>kyc_ok s s1\<close>]]) (simp_all add: decidedProfile_def)
    ultimately have "kyc_ok s (updateKyc pid (decidedProfile now d (decisionLevel d (kp_userId k) s1)) s1)" by (rule kyc_ok_trans)
    with rows show ?thesis by (simp add: kyc_ok_def kyc_wf_def nin_kept_def)
  qed
  have "kyc_ok s (notify a b c e t) = kyc_ok s t" for a b c e t by (simp add: kyc_ok_def kyc_wf_def nin_kept_def notify_def)
  with w kyc_ok_refl [OF assms] show ?thesis by (auto simp: decide_def serializable_def split: sum.splits prod.splits)
qed

section \<open>Requests\<close>

datatype kyc_request =
    BasicInfo kyc_ids int string basic_info_dto
  | PersonalDetails kyc_ids int string personal_details_dto
  | VerifyIdentity identity_provider kyc_ids int string verify_identity_dto
  | LinkBankAccount identity_provider kyc_ids int string string string
  | UploadDocument kyc_ids int string document_dto
  | VerifyAddress kyc_ids int string address_dto
  | KycStatus string int string
  | Decide string int string string review_decision string "kyc_tier option"

text \<open>The provider answers anew at every request; the digests and the cipher stay.\<close>

fun serveKyc ::
  "(string \<Rightarrow> string \<Rightarrow> string) \<Rightarrow> string \<Rightarrow> document_cipher \<Rightarrow> (nat list \<Rightarrow> string) \<Rightarrow> kyc_request \<Rightarrow> 'm identity_db_scheme \<Rightarrow> 'm identity_db_scheme" where
  "serveKyc hmac pepper cipher sha (BasicInfo ids now u dto) s = snd (updateBasicInfo ids now u dto s)"
| "serveKyc hmac pepper cipher sha (PersonalDetails ids now u dto) s = snd (updatePersonalDetails ids now u dto s)"
| "serveKyc hmac pepper cipher sha (VerifyIdentity provider ids now u dto) s = snd (verifyIdentity provider ids now u dto s)"
| "serveKyc hmac pepper cipher sha (LinkBankAccount provider ids now u code number) s = snd (linkBankAccount provider hmac pepper ids now u code number s)"
| "serveKyc hmac pepper cipher sha (UploadDocument ids now u dto) s = snd (uploadIdentityDocument cipher sha ids now u dto s)"
| "serveKyc hmac pepper cipher sha (VerifyAddress ids now u dto) s = snd (verifyAddress ids now u dto s)"
| "serveKyc hmac pepper cipher sha (KycStatus newId now u) s = snd (kycStatus newId now u s)"
| "serveKyc hmac pepper cipher sha (Decide newId now r pid d reason tier) s = snd (decide newId now r pid d reason tier s)"

lemma serveKyc_ok: "kyc_wf s \<Longrightarrow> kyc_ok s (serveKyc hmac pepper cipher sha q s)"
  by (cases q) (simp_all add: updateBasicInfo_def updatePersonalDetails_def changeProfile_ok verifyIdentity_ok linkBankAccount_ok
      uploadIdentityDocument_ok verifyAddress_ok kycStatus_ok decide_ok)

interpretation kyc_history: request_safety "serveKyc hmac pepper cipher sha" "kyc_ok s0" for hmac pepper cipher sha s0
  by unfold_locales (use serveKyc_ok kyc_ok_trans kyc_ok_wf in blast)


section \<open>The stored level\<close>

definition level_matches :: "string \<Rightarrow> 'm kyc_db_scheme \<Rightarrow> bool" where
  "level_matches u s \<longleftrightarrow> (let level = completedLevel (readKycFacts s u) in
     case findKyc u s of None \<Rightarrow> level = 0 | Some k \<Rightarrow> kp_level k = level \<and> kp_tier k = tierForLevel level)"

text \<open>The facts depend on the checks, the documents and whether the profile is restricted.\<close>

definition restricted :: "kyc_profile \<Rightarrow> bool" where
  "restricted k \<longleftrightarrow> kp_status k = KS_REJECTED \<or> kp_restrictedAt k \<noteq> None"

lemma readKycFacts_cong:
  assumes "users s' = users s" "profiles s' = profiles s" "pins s' = pins s"
    and "findKyc u s = Some k" "findKyc u s' = Some k'" "kp_checks k' = kp_checks k" "kp_documents k' = kp_documents k" "restricted k' = restricted k"
  shows "readKycFacts s' u = readKycFacts s u"
  using assms by (simp add: readKycFacts_def Let_def findKyc_def findPin_def restricted_def)

lemma readKycFacts_new:
  assumes "users s' = users s" "profiles s' = profiles s" "pins s' = pins s"
    and "findKyc u s = None" "findKyc u s' = Some k'" "kp_checks k' = []" "kp_documents k' = []" "\<not> restricted k'"
  shows "readKycFacts s' u = readKycFacts s u"
  using assms by (simp add: readKycFacts_def Let_def findKyc_def findPin_def restricted_def)

lemma findKyc_update:
  assumes "findKyc u s = Some k" and "kyc_wf s" and "\<And>k. kp_id (f k) = kp_id k \<and> kp_userId (f k) = kp_userId k"
    and "kyc_profiles s' = update_where (\<lambda>k. kp_id k = pid) f (kyc_profiles s)"
  shows "findKyc u s' = Some (if kp_id k = pid then f k else k)"
  using assms by (simp add: findKyc_def find_update_where)

lemma restricted_level: "findKyc u s = Some k \<Longrightarrow> completedLevel (readKycFacts s u) = 3 \<Longrightarrow> \<not> restricted k"
proof -
  assume k: "findKyc u s = Some k" and l: "completedLevel (readKycFacts s u) = 3"
  from level_user [of s u] l obtain r where "List.find (\<lambda>r. ur_id r = u) (users s) = Some r" by auto
  with k have "kf_restricted (readKycFacts s u) = restricted k" by (simp add: readKycFacts_def Let_def findKyc_def restricted_def)
  with l show "\<not> restricted k" by (auto simp: completedLevel_def split: if_splits)
qed

lemma findKyc_audit [simp]: "findKyc u (audit a b c d e s) = findKyc u s" "readKycFacts (audit a b c d e s) u = readKycFacts s u"
  by (simp_all add: findKyc_def audit_def readKycFacts_def findPin_def Let_def)

lemma syncKyc_level:
  assumes "syncKyc newId now u s = (Inr x, s')" and "kyc_wf s"
  shows "level_matches u s'"
proof (cases "findKyc u s")
  case None
  let ?l = "completedLevel (readKycFacts s u)"
  show ?thesis
  proof (cases "?l = 0")
    case True
    with assms(1) None show ?thesis by (simp add: syncKyc_def level_matches_def Let_def)
  next
    case False
    let ?k = "newKyc newId u now KS_NOT_STARTED (tierForLevel ?l) ?l None"
    from assms(1) None False have s': "s' = s\<lparr>kyc_profiles := kyc_profiles s @ [?k]\<rparr>"
      by (auto simp: syncKyc_def Let_def createKyc_def and_then_Inr_iff split: sum.splits)
    have f: "findKyc u s' = Some ?k" using None by (simp add: s' findKyc_def find_append newKyc_def)
    have "readKycFacts s' u = readKycFacts s u"
      by (rule readKycFacts_new [OF _ _ _ None f]) (simp_all add: s' newKyc_def restricted_def)
    with f show ?thesis by (simp add: level_matches_def newKyc_def)
  qed
next
  case (Some k)
  define l where "l = completedLevel (readKycFacts s u)"
  define v where "v \<longleftrightarrow> l = 3 \<and> kp_status k \<noteq> KS_REQUIRES_REVIEW"
  define f where "f k' = (if v \<and> kp_status k \<noteq> KS_VERIFIED
      then k'\<lparr>kp_tier := tierForLevel l, kp_level := l, kp_status := KS_VERIFIED, kp_verifiedAt := Some now\<rparr>
      else k'\<lparr>kp_tier := tierForLevel l, kp_level := l\<rparr>)" for k' :: kyc_profile
  have cases: "(s' = s \<and> kp_tier k = tierForLevel l \<and> kp_level k = l) \<or> s' = updateKyc (kp_id k) f s
      \<or> s' = audit None ''kyc.stage.completed'' ''user'' (Some u) None (updateKyc (kp_id k) f s)"
    using assms(1) Some unfolding syncKyc_def Let_def l_def [symmetric] f_def v_def
    by (auto split: if_splits)
  have g: "findKyc u (updateKyc (kp_id k) f s) = Some (f k)"
    using findKyc_update [OF Some assms(2), of f "updateKyc (kp_id k) f s" "kp_id k"] by (simp add: f_def)
  have "restricted (f k) = restricted k" using restricted_level [OF Some] by (auto simp: f_def v_def l_def restricted_def)
  then have "readKycFacts (updateKyc (kp_id k) f s) u = readKycFacts s u"
    by (intro readKycFacts_cong [OF _ _ _ Some g]) (simp_all add: updateKyc_def f_def)
  then have "level_matches u (updateKyc (kp_id k) f s)" using g by (simp add: level_matches_def l_def [symmetric]) (simp add: f_def)
  with cases Some show ?thesis by (auto simp: level_matches_def l_def)
qed

lemma decideWithin_level:
  assumes "decideWithin newId now r pid d reason tier s = Inr (k', s')" and "kyc_wf s"
  shows "kp_level k' = completedLevel (readKycFacts s' (kp_userId k')) \<and> kp_tier k' = tierForLevel (kp_level k')"
  using assms(1)
proof (rule decideWithin_Inr)
  fix k cs s1
  assume k: "findKycById pid s = Some k" and rev: "isReviewable (kp_status k)" and s1: "s1 = updateKyc pid (\<lambda>k. k\<lparr>kp_checks := cs\<rparr>) s"
    and k': "findKycById pid s' = Some k'"
    and rows: "kyc_profiles s' = update_where (\<lambda>k. kp_id k = pid) (decidedProfile now d (decisionLevel d (kp_userId k) s1)) (kyc_profiles s1)"
    and t: "users s' = users s" "profiles s' = profiles s" "pins s' = pins s"
  let ?l = "decisionLevel d (kp_userId k) s1" and ?u = "kp_userId k" and ?k1 = "k\<lparr>kp_checks := cs\<rparr>"
  note kid = findKycById_SomeD [OF k]
  have f0: "findKyc ?u s = Some k" using kid assms(2) find_key_unique [of kp_userId "kyc_profiles s" k] by (simp add: findKyc_def kyc_wf_def)
  have f1: "findKyc ?u s1 = Some ?k1" using findKyc_update [OF f0 assms(2), of "\<lambda>k. k\<lparr>kp_checks := cs\<rparr>" s1 pid] kid by (simp add: s1)
  have wf1: "kyc_wf s1" using assms(2) by (simp add: s1 kyc_wf_def map_update_where)
  have f2: "findKyc ?u s' = Some (decidedProfile now d ?l ?k1)"
    using findKyc_update [OF f1 wf1, of "decidedProfile now d ?l" s' pid] kid rows by (simp add: decidedProfile_def)
  have "findKycById pid s' = Some (decidedProfile now d ?l ?k1)"
    using k rows by (simp add: findKycById_def s1 find_update_where decidedProfile_def kid split: option.splits)
  with k' have e: "k' = decidedProfile now d ?l ?k1" by simp
  have "completedLevel (readKycFacts s' ?u) = ?l"
  proof (cases "List.find (\<lambda>r. ur_id r = ?u) (users s)")
    case None
    with t show ?thesis by (simp add: decisionLevel_def Let_def s1 readKycFacts_def completedLevel_cases stage_met_def)
  next
    case (Some r)
    have "kp_status k \<noteq> KS_REJECTED" using rev by (auto simp: isReviewable_def)
    with f1 f2 t Some have "readKycFacts s' ?u = (readKycFacts s1 ?u)\<lparr>kf_restricted := kf_restricted (readKycFacts s1 ?u) \<or> d = REJECT\<rparr>"
      by (cases d) (simp_all add: readKycFacts_def Let_def findKyc_def findPin_def s1 updateKyc_def decidedProfile_def)
    then show ?thesis by (simp add: decisionLevel_def Let_def)
  qed
  with e show ?thesis by (simp add: decidedProfile_def)
qed


section \<open>Documents\<close>

lemma decrypt_encrypt:
  assumes "\<And>iv plain body tag. dc_seal cipher iv plain = (body, tag) \<Longrightarrow> length tag = 16 \<and> dc_open cipher iv tag body = Some plain" and "length iv = 12"
  shows "decryptDocument cipher (encryptDocument cipher iv plain) = Inr plain"
proof -
  obtain body tag where c: "dc_seal cipher iv plain = (body, tag)" by fastforce
  with assms(1) [OF c] assms(2) show ?thesis by (simp add: encryptDocument_def decryptDocument_def)
qed

lemma syncKyc_documents:
  assumes "syncKyc newId now u s = (r, s')" and "findKycById pid s = Some k"
  shows "\<exists>k'. findKycById pid s' = Some k' \<and> kp_documents k' = kp_documents k \<and> kp_id k' = kp_id k"
proof -
  have up: "\<exists>k'. findKycById pid (updateKyc i f s) = Some k' \<and> kp_documents k' = kp_documents k \<and> kp_id k' = kp_id k"
    if "\<And>k. kp_id (f k) = kp_id k \<and> kp_documents (f k) = kp_documents k" for i f
    using assms(2) that by (simp add: findKycById_def find_update_where)
  have au: "findKycById pid (audit a b c d e t) = findKycById pid t" for a b c d e t by (simp add: findKycById_def audit_def)
  show ?thesis
  proof (cases "findKyc u s")
    case None
    with assms show ?thesis
      by (auto simp: syncKyc_def Let_def createKyc_def findKycById_def find_append_Some split: if_splits sum.splits)
  next
    case (Some e)
    with assms up [of _ "kp_id e"] show ?thesis by (auto simp: syncKyc_def Let_def au split: if_splits)
  qed
qed

lemma storeDocument_found:
  assumes "storeDocument d now pid s = Inr (d', s')" and "findKycById pid s = Some k"
  shows "d' = d" "\<exists>k'. findKycById pid s' = Some k' \<and> List.find (\<lambda>e. kd_id e = kd_id d) (kp_documents k') = Some d"
proof -
  from assms(1) have fresh: "\<forall>e \<in> set (concat (map kp_documents (kyc_profiles s))). kd_id e \<noteq> kd_id d" and "d' = d"
    and s': "s' = updateKyc pid (\<lambda>k. k\<lparr>kp_submittedAt := Some now,
      kp_documents := update_where is_current_nin_document (\<lambda>e. e\<lparr>kd_supersededAt := Some now\<rparr>) (kp_documents k) @ [d]\<rparr>) s"
    by (auto simp: storeDocument_def split: if_splits)
  show "d' = d" by fact
  have "List.find (\<lambda>e. kd_id e = kd_id d) (kp_documents k) = None"
    using fresh findKycById_SomeD [OF assms(2)] by (auto simp: find_None_iff)
  then show "\<exists>k'. findKycById pid s' = Some k' \<and> List.find (\<lambda>e. kd_id e = kd_id d) (kp_documents k') = Some d"
    using assms(2) findKycById_SomeD [OF assms(2)] by (simp add: s' findKycById_def find_update_where find_append)
qed

section \<open>Properties\<close>

definition demo_identity_db :: "kyc_check list \<Rightarrow> kyc_status \<Rightarrow> kyc_document list \<Rightarrow> identity_db" where
  "demo_identity_db cs st ds = kyc_db.extend
     (demo_kyc_db\<lparr>kyc_profiles := [(demo_kyc_profile ''u'' cs)\<lparr>kp_status := st, kp_tier := TIER_2, kp_level := 2, kp_documents := ds\<rparr>]\<rparr>)
     (identity_db.fields [] [] [])"

definition demo_kids :: kyc_ids where
  "demo_kids = \<lparr>ki_profile = ''p9'', ki_row = ''r9'', ki_storage = ''s9'', ki_iv = replicate 12 0\<rparr>"


definition demo_passes :: identity_provider where
  "demo_passes = \<lparr>ip_verifyIdentity = (\<lambda>kind n name dob. Inr \<lparr>io_provider = ''mock'', io_providerReference = n, io_passed = True, io_resultCode = ''OK'',
       io_verifiedName = Some name, io_registeredAddress = None, io_riskFlags = []\<rparr>),
     ip_inquireAccount = (\<lambda>_ _. Inl (PlainError [])), ip_listBanks = Inr []\<rparr>"


text \<open>
  C35. A reviewer's decision never stores a tier beyond the evidence, whatever tier was named: after the decision the level and the tier of the profile are the ones
  the facts of its owner support.
\<close>

theorem decision_within_evidence:
  assumes "kyc_wf s" and "decide newId now r pid d reason tier s = (Inr k, s')"
  shows "kp_level k = completedLevel (readKycFacts s' (kp_userId k)) \<and> kp_tier k = tierForLevel (kp_level k)"
proof -
  from assms(2) obtain s1 where w: "decideWithin newId now r pid d reason tier s = Inr (k, s1)"
    and s': "s' = s1 \<or> (\<exists>a b c e. s' = notify a b c e s1)"
    by (auto simp: decide_def serializable_def split: sum.splits prod.splits if_splits)
  have "readKycFacts (notify a b c e s1) u = readKycFacts s1 u" for a b c e u
    by (simp add: notify_def readKycFacts_def findPin_def Let_def)
  with s' decideWithin_level [OF w assms(1)] show ?thesis by auto
qed

definition demo_pending_address :: identity_db where
  "demo_pending_address = demo_identity_db [demo_check ''c2'' VT_NIN CK_PASSED 2, demo_check ''c3'' VT_ADDRESS CK_PENDING 3] KS_REQUIRES_REVIEW [demo_nin_slip]"

definition demo_decided where
  "demo_decided = decide ''d1'' 9 ''rev'' ''kyc-u'' APPROVE ''ok'' (Some TIER_2) demo_pending_address"

lemma demo_decided_eq: "\<exists>k. decide ''d1'' 9 ''rev'' ''kyc-u'' APPROVE ''ok'' (Some TIER_2) demo_pending_address = (Inr k, snd demo_decided) \<and> kp_userId k = ''u'' \<and> kp_tier k = TIER_2"
proof -
  have "case fst demo_decided of Inl _ \<Rightarrow> False | Inr k \<Rightarrow> kp_userId k = ''u'' \<and> kp_tier k = TIER_2" by code_simp
  then show ?thesis by (auto simp: demo_decided_def prod_eq_iff split: sum.splits)
qed

theorem decision_within_evidence_witness: "completedLevel (readKycFacts (snd demo_decided) ''u'') = 2"
proof -
  have wf: "kyc_wf demo_pending_address" by code_simp
  obtain k where k: "decide ''d1'' 9 ''rev'' ''kyc-u'' APPROVE ''ok'' (Some TIER_2) demo_pending_address = (Inr k, snd demo_decided)" "kp_userId k = ''u''" "kp_tier k = TIER_2"
    using demo_decided_eq by blast
  from decision_within_evidence [OF wf k(1)] k(2,3) show ?thesis by (auto simp: tierForLevel_def split: if_splits)
qed


text \<open>
  C36. A document is read back as it was uploaded: when an upload is accepted, a reviewer who opens the document of that profile gets the declared kind, the type
  found in the file and exactly the bytes that were sent. The cipher's law is the one of authenticated encryption: opening what was sealed under the same
  nonce gives the plain text, and tags have sixteen bytes.
\<close>

theorem document_read_back:
  assumes "uploadIdentityDocument cipher sha ids now u dto s = (Inr d, s')" and "findKyc u s = Some k" and "kyc_wf s" and "length (ki_iv ids) = 12"
    and "\<And>iv plain body tag. dc_seal cipher iv plain = (body, tag) \<Longrightarrow> length tag = 16 \<and> dc_open cipher iv tag body = Some plain"
  shows "\<exists>bytes contentType t. inspectDocument (dd_data dto) (dd_contentType dto) = Inr (bytes, contentType)
    \<and> getDocument cipher r (kp_id k) (kd_id d) s' = (Inr (dd_type dto, contentType, bytes), t)"
proof -
  let ?pid = "kp_id k"
  have ens: "ensureKycProfile ids now u s = (Inr k, s)" using assms(2) by (simp add: ensureKycProfile_def)
  from assms(1) obtain bytes type s2 where ins: "inspectDocument (dd_data dto) (dd_contentType dto) = Inr (bytes, type)"
    and st: "storeDocument (newDocument cipher sha ids now (dd_type dto) bytes type) now ?pid s = Inr (d, s2)"
    and sy: "syncKyc (ki_profile ids) now u (audit (Some u) ''kyc.document.uploaded'' ''user'' (Some u) None s2) = (Inr (), s')"
    by (auto simp: uploadIdentityDocument_def Let_def ens and_then_Inr_iff serializable_Inr_iff split: if_splits sum.splits prod.splits)
  have "findKycById ?pid s = Some k"
    using assms(2,3) find_key_unique [of kp_id "kyc_profiles s" k] by (auto simp: findKycById_def findKyc_def kyc_wf_def dest: find_SomeD)
  from storeDocument_found [OF st this] obtain k2 where d: "d = newDocument cipher sha ids now (dd_type dto) bytes type"
    and k2: "findKycById ?pid s2 = Some k2" "List.find (\<lambda>e. kd_id e = kd_id d) (kp_documents k2) = Some d" by blast
  then have "findKycById ?pid (audit (Some u) ''kyc.document.uploaded'' ''user'' (Some u) None s2) = Some k2" by (simp add: findKycById_def audit_def)
  from syncKyc_documents [OF sy this] k2(2) obtain k3 where k3: "findKycById ?pid s' = Some k3" "List.find (\<lambda>e. kd_id e = kd_id d) (kp_documents k3) = Some d" by auto
  from ins have "type \<noteq> []" by (auto simp: inspectDocument_def SIGNATURES_def Let_def split: if_splits option.splits)
  then have "getDocument cipher r ?pid (kd_id d) s' = (Inr (dd_type dto, type, bytes),
      audit (Some r) ''kyc.document.viewed'' ''VerificationDocument'' (Some (kd_id d)) None s')"
    using k3 decrypt_encrypt [OF assms(5,4)] by (simp add: getDocument_def d newDocument_def truthy_def)
  with ins show ?thesis by blast
qed

definition demo_cipher :: document_cipher where
  "demo_cipher = \<lparr>dc_seal = (\<lambda>iv plain. (rev plain, replicate 16 7)), dc_open = (\<lambda>iv tag body. Some (rev body))\<rparr>"

definition demo_upload :: document_dto where
  "demo_upload = \<lparr>dd_type = ''NIN_SLIP'', dd_contentType = ''application/pdf'', dd_data = ''JVBERi0x''\<rparr>"

definition demo_nin_db :: identity_db where
  "demo_nin_db = demo_identity_db [demo_check ''c2'' VT_NIN CK_PASSED 2] KS_PENDING []"

definition demo_uploaded where
  "demo_uploaded = uploadIdentityDocument demo_cipher (\<lambda>_. ''h'') demo_kids 9 ''u'' demo_upload demo_nin_db"

theorem document_read_back_witness:
  "\<exists>t. getDocument demo_cipher ''rev'' ''kyc-u'' ''r9'' (snd demo_uploaded) = (Inr (''NIN_SLIP'', ''application/pdf'', [37, 80, 68, 70, 45, 49]), t)"
proof -
  have "case fst demo_uploaded of Inl _ \<Rightarrow> False | Inr d \<Rightarrow> kd_id d = ''r9''" by code_simp
  then obtain d where d: "uploadIdentityDocument demo_cipher (\<lambda>_. ''h'') demo_kids 9 ''u'' demo_upload demo_nin_db = (Inr d, snd demo_uploaded)" "kd_id d = ''r9''"
    by (auto simp: demo_uploaded_def prod_eq_iff split: sum.splits)
  have k: "findKyc ''u'' demo_nin_db = Some (hd (kyc_profiles demo_nin_db))" "kyc_wf demo_nin_db" "length (ki_iv demo_kids) = 12"
    "kp_id (hd (kyc_profiles demo_nin_db)) = ''kyc-u''" "dd_type demo_upload = ''NIN_SLIP''"
    "inspectDocument (dd_data demo_upload) (dd_contentType demo_upload) = Inr ([37, 80, 68, 70, 45, 49], ''application/pdf'')" by code_simp+
  from document_read_back [OF d(1) k(1,2,3), of "''rev''"] k(4-6) d(2) show ?thesis by (simp add: demo_cipher_def)
qed

text \<open>
  A review that grants less than a held check asks for leaves the check held for good. When a reviewer approves tier 2 for a profile whose address waits for
  review, the address still waits, no further decision on the profile is possible, and the member can neither submit the address again nor be answered.
\<close>

theorem address_review_left_hanging:
  assumes "kyc_wf s" and "decide newId now r pid APPROVE reason (Some TIER_2) s = (Inr k, s')"
    and "kf_address (readKycFacts s (kp_userId k)) = CS_pending" and "2 \<le> completedLevel (readKycFacts s' (kp_userId k))"
  shows "kf_address (readKycFacts s' (kp_userId k)) = CS_pending
    \<and> decide newId' now' r' pid d reason' tier' s' = (Inl (Conflict ''A profile with status VERIFIED cannot be reviewed''), s')
    \<and> verifyAddress ids now' (kp_userId k) dto s' = (Inl (Conflict ''Your address is being reviewed. We will let you know.''), s')"
proof -
  from assms(2) obtain s1 where w: "decideWithin newId now r pid APPROVE reason (Some TIER_2) s = Inr (k, s1)"
    and s': "s' = notify (kp_userId k) ''kyc-approved'' None (''kyc-approved:'' @ join_colon pid (showInt now)) s1"
    by (auto simp: decide_def serializable_def split: sum.splits prod.splits)
  show ?thesis using w
  proof (rule decideWithin_Inr)
    fix k0 cs s0
    assume k0: "findKycById pid s = Some k0" and cs: "decideChecks r now APPROVE (or_default (Some TIER_2) (kp_tier k0)) k0 = Inr cs"
      and s0: "s0 = updateKyc pid (\<lambda>k. k\<lparr>kp_checks := cs\<rparr>) s" and k: "findKycById pid s1 = Some k"
      and rows: "kyc_profiles s1 = update_where (\<lambda>k. kp_id k = pid) (decidedProfile now APPROVE (decisionLevel APPROVE (kp_userId k0) s0)) (kyc_profiles s0)"
      and t: "users s1 = users s" "profiles s1 = profiles s" "pins s1 = pins s"
    note kid = findKycById_SomeD [OF k0]
    have "findKycById pid s1 = Some (decidedProfile now APPROVE (decisionLevel APPROVE (kp_userId k0) s0) (k0\<lparr>kp_checks := cs\<rparr>))"
      using k0 kid rows by (simp add: findKycById_def s0 find_update_where decidedProfile_def)
    with k have e: "k = decidedProfile now APPROVE (decisionLevel APPROVE (kp_userId k0) s0) (k0\<lparr>kp_checks := cs\<rparr>)" by simp
    have u: "kp_userId k = kp_userId k0" by (simp add: e decidedProfile_def)
    have f0: "findKyc (kp_userId k0) s = Some k0" using kid assms(1) find_key_unique [of kp_userId "kyc_profiles s" k0] by (simp add: findKyc_def kyc_wf_def)
    have f1: "findKyc (kp_userId k0) s' = Some k"
      using f0 kid rows by (simp add: s' notify_def findKyc_def s0 find_update_where decidedProfile_def e)
    have "filter (\<lambda>c. kc_type c = VT_ADDRESS) (filter (\<lambda>c. kc_type c \<in> {VT_NIN, VT_VNIN, VT_ADDRESS}) (kp_checks k))
        = filter (\<lambda>c. kc_type c = VT_ADDRESS) (filter (\<lambda>c. kc_type c \<in> {VT_NIN, VT_VNIN, VT_ADDRESS}) (kp_checks k0))"
    proof -
      have "kp_checks k = update_where (\<lambda>c. kc_status c = CK_PENDING \<and> kc_type c \<in> set (checkTypesApprovedBy TIER_2)) (passesCheck r now) (kp_checks k0)"
        using cs by (auto simp: e decidedProfile_def decideChecks_def or_default_def split: if_splits)
      then show ?thesis unfolding filter_filter by (simp only:) (rule filter_update_where, auto simp: passesCheck_def)
    qed
    with assms(3) f0 f1 t u have a: "kf_address (readKycFacts s' (kp_userId k)) = CS_pending"
      by (auto simp: readKycFacts_def Let_def findKyc_def s' notify_def split: if_splits)
    have "kp_status k = KS_VERIFIED" by (simp add: e decidedProfile_def)
    moreover have "findKycById pid s' = Some k" using k by (simp add: s' findKycById_def notify_def)
    ultimately have "decide newId' now' r' pid d reason' tier' s' = (Inl (Conflict ''A profile with status VERIFIED cannot be reviewed''), s')"
      by (simp add: decide_def decideWithin_def serializable_def isReviewable_def)
    with a assms(4) show ?thesis by (simp add: verifyAddress_def)
  qed
qed

theorem address_review_left_hanging_witness:
  "verifyAddress demo_kids 20 ''u'' \<lparr>ad_addressLine = ''5 Allen'', ad_city = ''Ikeja'', ad_lga = None, ad_state = ''Lagos''\<rparr> (snd demo_decided)
     = (Inl (Conflict ''Your address is being reviewed. We will let you know.''), snd demo_decided)"
proof -
  have wf: "kyc_wf demo_pending_address" and p: "kf_address (readKycFacts demo_pending_address ''u'') = CS_pending"
    and l: "2 \<le> completedLevel (readKycFacts (snd demo_decided) ''u'')" by code_simp+
  obtain k where k: "decide ''d1'' 9 ''rev'' ''kyc-u'' APPROVE ''ok'' (Some TIER_2) demo_pending_address = (Inr k, snd demo_decided)" "kp_userId k = ''u''"
    using demo_decided_eq by blast
  from address_review_left_hanging [OF wf k(1)] p l k(2) show ?thesis by simp
qed


text \<open>
  Numbers cannot be tried without end: once five identity checks of an account have failed within a day, a further request answers with an error and its
  whole outcome is the same for every provider, so no number reaches the provider, and no check is added.
\<close>

theorem exhausted_attempts_reach_no_provider:
  assumes "findKyc u s = Some k"
    and "5 \<le> length (filter (\<lambda>c. kc_status c = CK_FAILED \<and> kc_type c \<in> {VT_BVN, VT_NIN, VT_VNIN} \<and> now - 86400000 \<le> kc_createdAt c) (kp_checks k))"
  shows "verifyIdentity provider ids now u dto s = verifyIdentity provider' ids now u dto s
    \<and> isl (fst (verifyIdentity provider ids now u dto s))
    \<and> map kp_checks (kyc_profiles (snd (verifyIdentity provider ids now u dto s))) = map kp_checks (kyc_profiles s)"
proof -
  have "assertAttemptsRemain now k [VT_BVN, VT_NIN, VT_VNIN] s = (Inl (TooManyRequests ''Too many verification attempts. Contact support to continue.''),
      updateKyc (kp_id k) (\<lambda>k. k\<lparr>kp_status := KS_REQUIRES_REVIEW\<rparr>) s)"
    using assms(2) by (simp add: assertAttemptsRemain_def hasExhaustedAttempts_def IDENTITY_MAX_FAILED_ATTEMPTS_def IDENTITY_ATTEMPT_WINDOW_MS_def
        Let_def filter_map o_def conj_ac cong: conj_cong)
  moreover have "ensureKycProfile ids now u s = (Inr k, s)" using assms(1) by (simp add: ensureKycProfile_def)
  ultimately show ?thesis by (simp add: verifyIdentity_def Let_def map_update_where split: option.splits)
qed

definition demo_exhausted :: identity_db where
  "demo_exhausted = demo_identity_db (map (\<lambda>i. demo_check i VT_BVN CK_FAILED 5) [''a'', ''b'', ''c'', ''d'', ''e'']) KS_PENDING []"

theorem exhausted_attempts_reach_no_provider_witness:
  "isl (fst (verifyIdentity demo_passes demo_kids 9 ''u'' \<lparr>vi_kind = ID_BVN, vi_identityNumber = ''12345678901''\<rparr> demo_exhausted))"
proof -
  have k: "findKyc ''u'' demo_exhausted = Some (hd (kyc_profiles demo_exhausted))"
    "5 \<le> length (filter (\<lambda>c. kc_status c = CK_FAILED \<and> kc_type c \<in> {VT_BVN, VT_NIN, VT_VNIN} \<and> (9 :: int) - 86400000 \<le> kc_createdAt c)
       (kp_checks (hd (kyc_profiles demo_exhausted))))" by code_simp+
  from exhausted_attempts_reach_no_provider [OF k, of demo_passes demo_kids] show ?thesis by blast
qed

end
