(* ===== verification/Ajo_Settlement.thy ===== *)
theory Ajo_Settlement
  imports Ajo_Rotation
begin

text \<open>
  Money into and out of an Ajo cycle: \<^verbatim>\<open>src/modules/ajo-groups/domain/ajo-settlement-policy.ts\<close>,
  \<^verbatim>\<open>ajo-settlement.service.ts\<close> and the payment target \<^verbatim>\<open>ajo-contribution.payment-target.ts\<close>. Contributions
  move from the wallet of the slot's holder to the group's pool account; a payout moves a cycle's pool to the
  holder of the slot whose turn it is. The error that holds a payout is \<open>PayoutHeld\<close> with the HTTP error it
  becomes.
\<close>

section \<open>Policy\<close>

definition poolAccountCode :: "string \<Rightarrow> string" where
  "poolAccountCode groupId = ''AJO_GROUP:'' @ groupId @ '':POOL''"

definition isOutstanding :: "contribution_schedule_status \<Rightarrow> bool" where
  "isOutstanding status \<longleftrightarrow> status \<in> {CSS_PENDING, CSS_DUE, CSS_PARTIALLY_PAID, CSS_OVERDUE}"

definition contributionScheduleStatusFor :: "int \<Rightarrow> int \<Rightarrow> int \<Rightarrow> int \<Rightarrow> contribution_schedule_status" where
  "contributionScheduleStatusFor amountDue amountPaid dueAt now =
     (if amountPaid \<ge> amountDue then CSS_PAID
      else if amountPaid > 0 then CSS_PARTIALLY_PAID
      else if now \<ge> dueAt then CSS_OVERDUE else CSS_DUE)"

definition assertContributionAmount :: "int \<Rightarrow> int \<Rightarrow> int \<Rightarrow> unit res" where
  "assertContributionAmount amount amountDue amountPaid =
     (if amount \<le> 0 then Inl (PlainError ''A contribution must be greater than zero'')
      else if amountDue - amountPaid \<le> 0 then Inl (PlainError ''This contribution has already been paid in full'')
      else if amount > amountDue - amountPaid then Inl (PlainError ''That is more than this contribution still owes'')
      else Inr ())"

definition isCycleFullyCollected :: "contribution_schedule_status list \<Rightarrow> bool" where
  "isCycleFullyCollected statuses \<longleftrightarrow> list_all (\<lambda>st. \<not> isOutstanding st) statuses"

definition canExecutePayout :: "payout_schedule_status \<Rightarrow> bool" where
  "canExecutePayout status \<longleftrightarrow> status \<in> {PS_PENDING, PS_READY, PS_HELD}"

definition contributionIdempotencyKey :: "string \<Rightarrow> string \<Rightarrow> string" where
  "contributionIdempotencyKey scheduleId callerKey = ''ajo-contribution:'' @ scheduleId @ '':'' @ callerKey"

definition payoutIdempotencyKey :: "string \<Rightarrow> string" where
  "payoutIdempotencyKey payoutScheduleId = ''ajo-payout:'' @ payoutScheduleId"

section \<open>AjoSettlementService\<close>

definition findContributionSchedule :: "string \<Rightarrow> 'm ajo_db_scheme \<Rightarrow> contribution_schedule option" where
  "findContributionSchedule i s = List.find (\<lambda>c. cs_id c = i) (contribution_schedules s)"

definition findPayoutSchedule :: "string \<Rightarrow> 'm ajo_db_scheme \<Rightarrow> payout_schedule option" where
  "findPayoutSchedule i s = List.find (\<lambda>p. pos_id p = i) (payout_schedules s)"

definition findContribution :: "string \<Rightarrow> 'm ajo_db_scheme \<Rightarrow> contribution_row option" where
  "findContribution key s = List.find (\<lambda>c. co_idempotencyKey c = key) (contributions s)"

definition findPayout :: "string \<Rightarrow> 'm ajo_db_scheme \<Rightarrow> payout_row option" where
  "findPayout key s = List.find (\<lambda>p. pr_idempotencyKey p = key) (payouts s)"

text \<open>The included \<^verbatim>\<open>slot.memberId\<close>; a foreign key makes the slot exist.\<close>

definition slotMember :: "string \<Rightarrow> 'm ajo_db_scheme \<Rightarrow> string res" where
  "slotMember slotId s =
     (case List.find (\<lambda>x. sl_id x = slotId) (ajo_slots s) of None \<Rightarrow> Inl RecordMissing | Some x \<Rightarrow> Inr (sl_memberId x))"

definition contribution_row_clash :: "contribution_row \<Rightarrow> contribution_row \<Rightarrow> bool" where
  "contribution_row_clash a b \<longleftrightarrow> co_id a = co_id b \<or> co_idempotencyKey a = co_idempotencyKey b"

definition payout_row_clash :: "payout_row \<Rightarrow> payout_row \<Rightarrow> bool" where
  "payout_row_clash a b \<longleftrightarrow> pr_id a = pr_id b \<or> pr_idempotencyKey a = pr_idempotencyKey b"

definition poolAccount :: "string \<Rightarrow> string \<Rightarrow> string \<Rightarrow> fin_account" where
  "poolAccount newId groupId currency =
     \<lparr>fa_id = newId, fa_code = poolAccountCode groupId, fa_name = ''Ajo group pool '' @ groupId, fa_type = LIABILITY,
      fa_purpose = Some AJO_GROUP_POOL, fa_currency = currency, fa_walletId = None, fa_isActive = True\<rparr>"

definition poolAccountWithin :: "string \<Rightarrow> string \<Rightarrow> string \<Rightarrow> ('m core_db_scheme, string) tx" where
  "poolAccountWithin newId groupId currency s =
     (case List.find (\<lambda>a. fa_code a = poolAccountCode groupId) (accounts s) of
        Some a \<Rightarrow>
          if \<not> fa_isActive a then Inl (Unprocessable ''This group's pool account is not active'') else Inr (fa_id a, s)
      | None \<Rightarrow> bind_res (insertRow account_clash (poolAccount newId groupId currency) (accounts s)) (\<lambda>as.
          Inr (newId, s\<lparr>accounts := as\<rparr>)))"

definition memberWalletAccount :: "string \<Rightarrow> string \<Rightarrow> 'm core_db_scheme \<Rightarrow> fin_account res" where
  "memberWalletAccount userId currency s =
     (case List.find (\<lambda>w. wl_userId w = userId \<and> wl_currency w = currency) (wallets s) of
        None \<Rightarrow> Inl (Unprocessable ''No wallet in this currency'')
      | Some w \<Rightarrow> requireAccount (Some (wl_id w)) WALLET_AVAILABLE currency s)"

definition assertGroupAdmin :: "string \<Rightarrow> string \<Rightarrow> 'm ajo_db_scheme \<Rightarrow> unit res" where
  "assertGroupAdmin userId groupId s =
     (case findMember groupId userId s of
        None \<Rightarrow> Inl (Forbidden ''Only this group's active administrator can do that'')
      | Some m \<Rightarrow> if am_status m \<noteq> MS_ACTIVE \<or> am_role m \<noteq> GROUP_ADMIN
          then Inl (Forbidden ''Only this group's active administrator can do that'') else Inr ())"

definition contributionRow :: "string \<Rightarrow> string \<Rightarrow> contribution_schedule \<Rightarrow> int \<Rightarrow> string \<Rightarrow> string \<Rightarrow> contribution_row" where
  "contributionRow newId memberId schedule amount key txId =
     \<lparr>co_id = newId, co_groupId = cs_groupId schedule, co_scheduleId = cs_id schedule, co_memberId = memberId,
      co_slotId = cs_slotId schedule, co_amount = amount, co_currency = cs_currency schedule, co_idempotencyKey = key,
      co_ledgerTransactionId = txId\<rparr>"

definition recordContributionWithin ::
  "string \<Rightarrow> int \<Rightarrow> string \<Rightarrow> string \<Rightarrow> contribution_schedule \<Rightarrow> int \<Rightarrow> string \<Rightarrow> string \<Rightarrow> ('m ajo_db_scheme, contribution_row) tx" where
  "recordContributionWithin newId now userId memberId schedule amount key txId s =
     (let row = contributionRow newId memberId schedule amount key txId; paid = cs_amountPaid schedule + amount in
      bind_res (insertRow contribution_row_clash row (contributions s)) (\<lambda>rows.
      Inr (row, audit (Some userId) ''ajo.contribution.paid'' ''Contribution'' (Some newId) (Some (cs_groupId schedule))
        (s\<lparr>contributions := rows,
           contribution_schedules := update_where (\<lambda>c. cs_id c = cs_id schedule)
             (\<lambda>c. c\<lparr>cs_amountPaid := paid,
                     cs_status := contributionScheduleStatusFor (cs_amountDue schedule) paid (cs_dueAt schedule) now\<rparr>)
             (contribution_schedules s)\<rparr>))))"

record pay_contribution_dto =
  pc_amountMinor :: int
  pc_callerKey :: string

definition contributionCommand :: "pay_ids \<Rightarrow> string \<Rightarrow> contribution_schedule \<Rightarrow> int \<Rightarrow> string \<Rightarrow> string \<Rightarrow> string \<Rightarrow> posting_command" where
  "contributionCommand ids userId schedule amount key wallet pool =
     \<lparr>pc_idempotencyKey = key, pc_reference = ''AJO-CONTRIB-'' @ py_hex ids,
      pc_description = ''Ajo contribution for schedule '' @ cs_id schedule, pc_currency = cs_currency schedule,
      pc_initiatedBy = Some userId, pc_correlationId = Some (cs_groupId schedule), pc_entries = two_legs wallet pool amount\<rparr>"

text \<open>The posting and the record of a contribution, once its schedule and member are accepted.\<close>

definition collectContribution ::
  "pay_ids \<Rightarrow> int \<Rightarrow> string \<Rightarrow> ajo_member \<Rightarrow> contribution_schedule \<Rightarrow> int \<Rightarrow> string \<Rightarrow> ('m ajo_db_scheme, contribution_row) tx" where
  "collectContribution ids now userId member schedule amount key s =
     bind_res (memberWalletAccount userId (cs_currency schedule) s) (\<lambda>wallet.
     bind_res (poolAccountWithin (py_account ids) (cs_groupId schedule) (cs_currency schedule) s) (\<lambda>(pool, s1).
     if accountBalanceWithin s1 (fa_id wallet) < amount
     then Inl (Unprocessable ''Your wallet does not have enough for this contribution'')
     else bind_res (postWithin (py_tx ids) now
         (contributionCommand ids userId schedule amount key (fa_id wallet) pool) s1) (\<lambda>(posting, s2).
       recordContributionWithin (py_row ids) now userId (am_id member) schedule amount key (fst posting) s2)))"

definition payContribution ::
  "pay_ids \<Rightarrow> int \<Rightarrow> string \<Rightarrow> string \<Rightarrow> string \<Rightarrow> pay_contribution_dto \<Rightarrow> ('m ajo_db_scheme, contribution_row) handler" where
  "payContribution ids now userId groupId scheduleId dto = serializable (\<lambda>s.
     case findContributionSchedule scheduleId s of
       None \<Rightarrow> Inl (NotFound ''That contribution was not found'')
     | Some schedule \<Rightarrow>
     if cs_groupId schedule \<noteq> groupId then Inl (NotFound ''That contribution was not found'')
     else bind_res (slotMember (cs_slotId schedule) s) (\<lambda>holder.
     case findMember groupId userId s of
       None \<Rightarrow> Inl (Forbidden ''You are not an active member of this group'')
     | Some member \<Rightarrow>
     if am_status member \<noteq> MS_ACTIVE then Inl (Forbidden ''You are not an active member of this group'')
     else if holder \<noteq> am_id member then Inl (Forbidden ''That contribution belongs to another member'')
     else let key = contributionIdempotencyKey scheduleId (pc_callerKey dto) in
     case findContribution key s of
       Some existing \<Rightarrow> Inr (existing, s)
     | None \<Rightarrow>
     if cs_status schedule = CSS_CANCELLED \<or> cs_status schedule = CSS_WAIVED
     then Inl (Conflict ''That contribution is no longer collectable'')
     else bind_res (asUnprocessable (assertContributionAmount (pc_amountMinor dto) (cs_amountDue schedule) (cs_amountPaid schedule))) (\<lambda>_.
       collectContribution ids now userId member schedule (pc_amountMinor dto) key s)))"


record payout_notification =
  pn_userId :: string
  pn_groupName :: string
  pn_amount :: int
  pn_currency :: string
  pn_payoutId :: string

definition cycleStatuses :: "string \<Rightarrow> 'm ajo_db_scheme \<Rightarrow> contribution_schedule_status list" where
  "cycleStatuses cycleId s = map cs_status (filter (\<lambda>c. cs_cycleId c = cycleId) (contribution_schedules s))"

definition newPayout :: "pay_ids \<Rightarrow> string \<Rightarrow> payout_schedule \<Rightarrow> string \<Rightarrow> string \<Rightarrow> payout_row" where
  "newPayout ids groupId schedule holder txId =
     \<lparr>pr_id = py_row ids, pr_groupId = groupId, pr_scheduleId = pos_id schedule, pr_memberId = holder, pr_slotId = pos_slotId schedule,
      pr_amount = pos_amountDue schedule, pr_currency = pos_currency schedule,
      pr_idempotencyKey = payoutIdempotencyKey (pos_id schedule), pr_ledgerTransactionId = txId\<rparr>"

definition payoutCommand :: "pay_ids \<Rightarrow> string \<Rightarrow> string \<Rightarrow> payout_schedule \<Rightarrow> string \<Rightarrow> string \<Rightarrow> posting_command" where
  "payoutCommand ids userId groupId schedule pool wallet =
     \<lparr>pc_idempotencyKey = payoutIdempotencyKey (pos_id schedule), pc_reference = ''AJO-PAYOUT-'' @ py_hex ids,
      pc_description = ''Ajo payout for schedule '' @ pos_id schedule, pc_currency = pos_currency schedule,
      pc_initiatedBy = Some userId, pc_correlationId = Some groupId,
      pc_entries = two_legs pool wallet (pos_amountDue schedule)\<rparr>"

text \<open>Paying the cycle's pool out, once the schedule, its cycle and the recipient are accepted.\<close>

definition payOut ::
  "pay_ids \<Rightarrow> int \<Rightarrow> string \<Rightarrow> string \<Rightarrow> payout_schedule \<Rightarrow> string \<Rightarrow> string \<Rightarrow> string \<Rightarrow>
     ('m ajo_db_scheme, payout_row \<times> payout_notification option) tx" where
  "payOut ids now userId groupId schedule holder recipientUserId groupName s =
     bind_res (poolAccountWithin (py_account ids) groupId (pos_currency schedule) s) (\<lambda>(pool, s1).
     bind_res (memberWalletAccount recipientUserId (pos_currency schedule) s1) (\<lambda>wallet.
     if accountBalanceWithin s1 pool < pos_amountDue schedule
     then Inl (PayoutHeld (Unprocessable ''This group's pool does not hold enough for this payout''))
     else bind_res (postWithin (py_tx ids) now
         (payoutCommand ids userId groupId schedule pool (fa_id wallet)) s1) (\<lambda>(posting, s2).
       let row = newPayout ids groupId schedule holder (fst posting) in
       bind_res (insertRow payout_row_clash row (payouts s2)) (\<lambda>rows.
       Inr ((row, Some \<lparr>pn_userId = recipientUserId, pn_groupName = groupName, pn_amount = pos_amountDue schedule,
               pn_currency = pos_currency schedule, pn_payoutId = pr_id row\<rparr>),
            audit (Some userId) ''ajo.payout.executed'' ''Payout'' (Some (pr_id row)) (Some groupId)
              (s2\<lparr>payouts := rows,
                  payout_schedules := update_where (\<lambda>p. pos_id p = pos_id schedule)
                    (\<lambda>p. p\<lparr>pos_status := PS_PAID, pos_amountPaid := pos_amountDue schedule\<rparr>) (payout_schedules s2)\<rparr>))))))"

definition settlePayoutWithin ::
  "pay_ids \<Rightarrow> int \<Rightarrow> string \<Rightarrow> string \<Rightarrow> string \<Rightarrow> ('m ajo_db_scheme, payout_row \<times> payout_notification option) tx" where
  "settlePayoutWithin ids now userId groupId payoutScheduleId s =
     (case findPayoutSchedule payoutScheduleId s of
       None \<Rightarrow> Inl (NotFound ''That payout was not found'')
     | Some schedule \<Rightarrow>
     if pos_groupId schedule \<noteq> groupId then Inl (NotFound ''That payout was not found'')
     else bind_res (slotMember (pos_slotId schedule) s) (\<lambda>holder.
     bind_res (assertGroupAdmin userId groupId s) (\<lambda>_.
     case findPayout (payoutIdempotencyKey payoutScheduleId) s of
       Some existing \<Rightarrow> Inr ((existing, None), s)
     | None \<Rightarrow>
     if \<not> canExecutePayout (pos_status schedule) then Inl (Conflict ''That payout has already been settled'')
     else if \<not> isCycleFullyCollected (cycleStatuses (pos_cycleId schedule) s)
     then Inl (PayoutHeld (Conflict ''This cycle has not collected every contribution, so it cannot pay out yet''))
     else (case List.find (\<lambda>m. am_id m = holder) (ajo_members s) of
       None \<Rightarrow> Inl (NotFound ''The payout recipient was not found'')
     | Some recipient \<Rightarrow>
     (case findGroup groupId s of
       None \<Rightarrow> Inl RecordMissing
     | Some g \<Rightarrow> payOut ids now userId groupId schedule holder (am_userId recipient) (ag_name g) s)))))"

text \<open>
  \<^verbatim>\<open>executePayout\<close>: a hold is written after the rollback, in its own write; a settled payout notifies
  the recipient after the commit.
\<close>

definition holdPayout :: "string \<Rightarrow> 'm ajo_db_scheme \<Rightarrow> 'm ajo_db_scheme" where
  "holdPayout i s = s\<lparr>payout_schedules := update_where (\<lambda>p. pos_id p = i) (\<lambda>p. p\<lparr>pos_status := PS_HELD\<rparr>) (payout_schedules s)\<rparr>"

definition executePayout :: "pay_ids \<Rightarrow> int \<Rightarrow> string \<Rightarrow> string \<Rightarrow> string \<Rightarrow> ('m ajo_db_scheme, payout_row) handler" where
  "executePayout ids now userId groupId payoutScheduleId s =
     (case serializable (settlePayoutWithin ids now userId groupId payoutScheduleId) s of
        (Inl (PayoutHeld e), s1) \<Rightarrow> (Inl e, holdPayout payoutScheduleId s1)
      | (Inl e, s1) \<Rightarrow> (Inl e, s1)
      | (Inr (row, None), s1) \<Rightarrow> (Inr row, s1)
      | (Inr (row, Some n), s1) \<Rightarrow>
          (Inr row, notify (pn_userId n) ''ajo-payout-sent'' (Some (pn_amount n)) (''ajo-payout-sent:'' @ pn_payoutId n) s1))"

section \<open>AjoContributionTarget\<close>

definition contributionLabel :: "string \<Rightarrow> int \<Rightarrow> string" where
  "contributionLabel groupName sequence = ''Ajo: '' @ groupName @ '', round '' @ showInt sequence"

text \<open>The schedule with its group's name and its cycle's sequence, as the query includes them.\<close>

definition includedSchedule :: "string option \<Rightarrow> 'm ajo_db_scheme \<Rightarrow> (contribution_schedule \<times> string \<times> int) option" where
  "includedSchedule scheduleId s =
     (case truthy scheduleId of None \<Rightarrow> None
      | Some i \<Rightarrow> (case findContributionSchedule i s of None \<Rightarrow> None
          | Some c \<Rightarrow> (case (findGroup (cs_groupId c) s, List.find (\<lambda>y. ac_id y = cs_cycleId c) (ajo_cycles s)) of
              (Some g, Some y) \<Rightarrow> Some (c, ag_name g, ac_sequence y) | _ \<Rightarrow> None)))"

definition owed :: "string \<Rightarrow> string option \<Rightarrow> 'm ajo_db_scheme \<Rightarrow> (contribution_schedule \<times> string \<times> int \<times> string) res" where
  "owed userId scheduleId s =
     (case includedSchedule scheduleId s of
        None \<Rightarrow> Inl (NotFound ''That contribution was not found'')
      | Some (c, groupName, sequence) \<Rightarrow>
          (case findMember (cs_groupId c) userId s of
             None \<Rightarrow> Inl (NotFound ''That contribution was not found'')
           | Some m \<Rightarrow>
               if am_status m \<noteq> MS_ACTIVE \<or> slotMember (cs_slotId c) s \<noteq> Inr (am_id m)
               then Inl (NotFound ''That contribution was not found'') else Inr (c, groupName, sequence, am_id m)))"

definition contributionResolve :: "int \<Rightarrow> string \<Rightarrow> string option \<Rightarrow> int option \<Rightarrow> 'm ajo_db_scheme \<Rightarrow> resolved_target res" where
  "contributionResolve now userId scheduleId requested s =
     bind_res (owed userId scheduleId s) (\<lambda>(c, groupName, sequence, memberId).
     if cs_status c = CSS_CANCELLED \<or> cs_status c = CSS_WAIVED then Inl (Conflict ''That contribution is no longer collectable'')
     else if cs_status c = CSS_PAID then Inl (Conflict ''This contribution has already been paid'')
     else bind_res (asUnprocessable (partialAmount (cs_amountDue c - cs_amountPaid c) requested)) (\<lambda>amount.
       Inr \<lparr>rt_amount = amount, rt_currency = cs_currency c, rt_description = contributionLabel groupName sequence\<rparr>))"

definition contributionCredit :: "pay_ids \<Rightarrow> string option \<Rightarrow> string \<Rightarrow> ('m ajo_db_scheme, string) tx" where
  "contributionCredit ids scheduleId currency s =
     (case truthy scheduleId of None \<Rightarrow> Inl (NotFound ''That contribution was not found'')
      | Some i \<Rightarrow> (case findContributionSchedule i s of
          None \<Rightarrow> Inl (NotFound ''That contribution was not found'')
        | Some c \<Rightarrow> poolAccountWithin (py_account ids) (cs_groupId c) currency s))"

definition contributionSettle :: "pay_ids \<Rightarrow> int \<Rightarrow> settled_payment \<Rightarrow> ('m ajo_db_scheme, unit) tx" where
  "contributionSettle ids now payment s =
     bind_res (owed (sp_userId payment) (sp_targetId payment) s) (\<lambda>(c, groupName, sequence, memberId).
     bind_res (recordContributionWithin (py_row ids) now (sp_userId payment) memberId c (sp_amount payment)
         (contributionIdempotencyKey (cs_id c) (''intent:'' @ sp_intentId payment)) (sp_ledgerTransactionId payment) s) (\<lambda>(row, s1).
       Inr ((), s1)))"

definition contributionDescribe :: "string option \<Rightarrow> 'm ajo_db_scheme \<Rightarrow> string" where
  "contributionDescribe scheduleId s =
     (case includedSchedule scheduleId s of None \<Rightarrow> ''Ajo contribution''
      | Some (c, groupName, sequence) \<Rightarrow> contributionLabel groupName sequence)"

definition AjoContributionTarget :: "'m ajo_db_scheme payment_target" where
  "AjoContributionTarget =
     \<lparr>pt_type = TT_AJO_CONTRIBUTION, pt_methods = [PM_WALLET], pt_amountRule = AR_partial, pt_feeCode = None, pt_holdsFee = False,
      pt_resolve = contributionResolve, pt_creditAccount = contributionCredit, pt_settle = contributionSettle,
      pt_describe = contributionDescribe, pt_verifyConfirmation = None, pt_afterCommit = None\<rparr>"


section \<open>Lemmas\<close>

lemma command_simps [simp]:
  "pc_entries (contributionCommand ids u c n key w p) = two_legs w p n" "pc_idempotencyKey (contributionCommand ids u c n key w p) = key"
  "pc_entries (payoutCommand ids u g q p w) = two_legs p w (pos_amountDue q)"
  "pc_idempotencyKey (payoutCommand ids u g q p w) = payoutIdempotencyKey (pos_id q)"
  by (simp_all add: contributionCommand_def payoutCommand_def)

lemma poolAccount_simps [simp]:
  "fa_id (poolAccount i g c) = i" "fa_code (poolAccount i g c) = poolAccountCode g" "\<not> is_wallet_account (poolAccount i g c)"
  "fa_purpose (poolAccount i g c) = Some AJO_GROUP_POOL"
  by (simp_all add: poolAccount_def is_wallet_account_def)

interpretation pool_account: owned_account poolAccountWithin poolAccountCode poolAccount
  by unfold_locales (auto simp: poolAccountWithin_def res_iffs account_clash_def find_None_iff dest: find_SomeD split: option.splits if_splits)

lemmas poolAccountWithin_cases = pool_account.open_cases
lemmas poolAccountWithin_frame = pool_account.open_frame

interpretation contribution: immediate_target AjoContributionTarget
proof
  fix ids now p u and s s' :: "'m ajo_db_scheme"
  assume "pt_settle AjoContributionTarget ids now p s = Inr (u, s')"
  then show "ledger_txs s' = ledger_txs s \<and> accounts s' = accounts s \<and> wallets s' = wallets s \<and> intents s' = intents s"
    by (auto simp: AjoContributionTarget_def contributionSettle_def recordContributionWithin_def res_iffs Let_def audit_def)
next
  fix ids tid c a and s s' :: "'m ajo_db_scheme"
  assume "pt_creditAccount AjoContributionTarget ids tid c s = Inr (a, s')"
  then obtain i g where p: "poolAccountWithin i g c s = Inr (a, s')"
    by (auto simp: AjoContributionTarget_def contributionCredit_def split: option.splits)
  then have "intents s' = intents s" by (cases rule: poolAccountWithin_cases) simp_all
  with poolAccountWithin_frame [OF p]
  show "ledger_txs s' = ledger_txs s \<and> wallets s' = wallets s \<and> intents s' = intents s \<and> (accounts_wf s \<longrightarrow> accounts_wf s')
      \<and> filter is_wallet_account (accounts s') = filter is_wallet_account (accounts s)" by simp
qed (simp add: AjoContributionTarget_def)


text \<open>What a successful contribution and a successful payout did.\<close>

lemma payContribution_cases:
  assumes "payContribution ids now u gid sid dto s = (Inr row, s')"
  obtains (replay) "findContribution (contributionIdempotencyKey sid (pc_callerKey dto)) s = Some row" "s' = s"
  | (fresh) schedule member where
      "findContribution (contributionIdempotencyKey sid (pc_callerKey dto)) s = None"
      "schedule \<in> set (contribution_schedules s)" "cs_id schedule = sid" "cs_groupId schedule = gid"
      "findMember gid u s = Some member" "am_status member = MS_ACTIVE" "slotMember (cs_slotId schedule) s = Inr (am_id member)"
      "cs_status schedule \<noteq> CSS_CANCELLED" "cs_status schedule \<noteq> CSS_WAIVED"
      "assertContributionAmount (pc_amountMinor dto) (cs_amountDue schedule) (cs_amountPaid schedule) = Inr ()"
      "collectContribution ids now u member schedule (pc_amountMinor dto) (contributionIdempotencyKey sid (pc_callerKey dto)) s = Inr (row, s')"
proof (cases "findContribution (contributionIdempotencyKey sid (pc_callerKey dto)) s")
  case None
  from assms obtain schedule member where
    f: "findContributionSchedule sid s = Some schedule" and m: "findMember gid u s = Some member"
    and r: "cs_groupId schedule = gid" "am_status member = MS_ACTIVE" "slotMember (cs_slotId schedule) s = Inr (am_id member)"
      "cs_status schedule \<noteq> CSS_CANCELLED" "cs_status schedule \<noteq> CSS_WAIVED"
      "assertContributionAmount (pc_amountMinor dto) (cs_amountDue schedule) (cs_amountPaid schedule) = Inr ()"
      "collectContribution ids now u member schedule (pc_amountMinor dto) (contributionIdempotencyKey sid (pc_callerKey dto)) s = Inr (row, s')"
    unfolding payContribution_def serializable_Inr_iff
    by (auto simp: None res_iffs Let_def split: option.splits if_splits)
  from f have "schedule \<in> set (contribution_schedules s)" "cs_id schedule = sid"
    by (auto simp: findContributionSchedule_def dest: find_SomeD)
  then show ?thesis using that(2) [OF None] m r by blast
next
  case (Some old)
  from assms have "row = old" "s' = s"
    unfolding payContribution_def serializable_Inr_iff
    by (auto simp: Some res_iffs Let_def split: option.splits if_splits)
  with Some show ?thesis using that(1) by blast
qed

lemma collectContribution_Inr:
  assumes "collectContribution ids now u member schedule amount key s = Inr (row, s')"
  obtains wallet pool s1 s2 r where
    "memberWalletAccount u (cs_currency schedule) s = Inr wallet"
    "poolAccountWithin (py_account ids) (cs_groupId schedule) (cs_currency schedule) s = Inr (pool, s1)"
    "amount \<le> accountBalanceWithin s1 (fa_id wallet)" 
    "postWithin (py_tx ids) now (contributionCommand ids u schedule amount key (fa_id wallet) pool) s1 = Inr (r, s2)"
    "recordContributionWithin (py_row ids) now u (am_id member) schedule amount key (fst r) s2 = Inr (row, s')"
  using assms unfolding collectContribution_def
  by (auto simp: res_iffs not_less split: if_splits)

lemma settlePayoutWithin_cases:
  assumes "settlePayoutWithin ids now u gid pid s = Inr ((row, n), s')"
  obtains (replay) "findPayout (payoutIdempotencyKey pid) s = Some row" "n = None" "s' = s"
  | (fresh) schedule holder recipient g where
      "findPayout (payoutIdempotencyKey pid) s = None" "findPayoutSchedule pid s = Some schedule" "pos_groupId schedule = gid"
      "slotMember (pos_slotId schedule) s = Inr holder" "assertGroupAdmin u gid s = Inr ()" "canExecutePayout (pos_status schedule)"
      "isCycleFullyCollected (cycleStatuses (pos_cycleId schedule) s)"
      "List.find (\<lambda>m. am_id m = holder) (ajo_members s) = Some recipient" "findGroup gid s = Some g"
      "payOut ids now u gid schedule holder (am_userId recipient) (ag_name g) s = Inr ((row, n), s')"
proof (cases "findPayout (payoutIdempotencyKey pid) s")
  case None
  with assms that(2) show ?thesis
    unfolding settlePayoutWithin_def by (auto simp: res_iffs split: option.splits if_splits)
next
  case (Some old)
  with assms that(1) show ?thesis
    unfolding settlePayoutWithin_def by (auto simp: res_iffs split: option.splits if_splits)
qed

lemma payOut_Inr:
  assumes "payOut ids now u gid schedule holder ru gname s = Inr ((row, n), s')"
  obtains wallet pool s1 s2 r where
    "poolAccountWithin (py_account ids) gid (pos_currency schedule) s = Inr (pool, s1)"
    "memberWalletAccount ru (pos_currency schedule) s1 = Inr wallet"
    "pos_amountDue schedule \<le> accountBalanceWithin s1 pool" 
    "postWithin (py_tx ids) now (payoutCommand ids u gid schedule pool (fa_id wallet)) s1 = Inr (r, s2)"
    "row = newPayout ids gid schedule holder (fst r)"
    "\<exists>note. n = Some note \<and> pn_userId note = ru \<and> pn_amount note = pos_amountDue schedule"
    "ledger_txs s' = ledger_txs s2" "accounts s' = accounts s2" "payouts s' = payouts s2 @ [row]"
    "payout_schedules s' = update_where (\<lambda>p. pos_id p = pos_id schedule)
       (\<lambda>p. p\<lparr>pos_status := PS_PAID, pos_amountPaid := pos_amountDue schedule\<rparr>) (payout_schedules s2)"
    "contribution_schedules s' = contribution_schedules s2" "contributions s' = contributions s2"
    "ajo_members s' = ajo_members s2" "ajo_slots s' = ajo_slots s2" "ajo_groups s' = ajo_groups s2"
  using assms unfolding payOut_def
  by (auto simp: res_iffs not_less Let_def audit_def split: if_splits)


section \<open>Invariants\<close>

text \<open>
  Money: the books are in order, no group's pool is overdrawn, and every posted entry is on an account
  row. Schedules: what a contribution schedule says was paid is the sum of the contributions recorded
  against it, never more than is due, and it is PAID only when all of it is.
\<close>

definition entries_known :: "'m core_db_scheme \<Rightarrow> bool" where
  "entries_known s \<longleftrightarrow> (\<forall>t \<in> set (ledger_txs s). \<forall>e \<in> set (lt_entries t). le_account e \<in> fa_id ` set (accounts s))"

definition pools_ok :: "'m core_db_scheme \<Rightarrow> bool" where
  "pools_ok s \<longleftrightarrow> (\<forall>a \<in> set (accounts s). fa_purpose a = Some AJO_GROUP_POOL \<longrightarrow> 0 \<le> accountBalanceWithin s (fa_id a))"

definition money_ok :: "'m core_db_scheme \<Rightarrow> bool" where
  "money_ok s \<longleftrightarrow> books_ok s \<and> entries_known s \<and> pools_ok s"

definition paidAgainst :: "string \<Rightarrow> contribution_row list \<Rightarrow> int" where
  "paidAgainst sid rows = sum_list (map co_amount (filter (\<lambda>r. co_scheduleId r = sid) rows))"

definition schedules_ok :: "'m ajo_db_scheme \<Rightarrow> bool" where
  "schedules_ok s \<longleftrightarrow> distinct (map cs_id (contribution_schedules s))
     \<and> (\<forall>c \<in> set (contribution_schedules s). cs_amountPaid c = paidAgainst (cs_id c) (contributions s)
          \<and> 0 \<le> cs_amountPaid c \<and> cs_amountPaid c \<le> cs_amountDue c \<and> (cs_status c = CSS_PAID \<longrightarrow> cs_amountPaid c = cs_amountDue c))"

definition settlement_ok :: "'m ajo_db_scheme \<Rightarrow> bool" where
  "settlement_ok s \<longleftrightarrow> money_ok s \<and> schedules_ok s"

lemma money_ok_cong: "ledger_txs t = ledger_txs s \<Longrightarrow> accounts t = accounts s \<Longrightarrow> money_ok t = money_ok s"
  using books_ok_cong [of t s] balance_cong [of t s] by (simp add: money_ok_def entries_known_def pools_ok_def)

lemma schedules_ok_cong:
  "contribution_schedules t = contribution_schedules s \<Longrightarrow> contributions t = contributions s \<Longrightarrow> schedules_ok t = schedules_ok s"
  by (simp add: schedules_ok_def)

lemma balance_unknown: "entries_known s \<Longrightarrow> x \<notin> fa_id ` set (accounts s) \<Longrightarrow> accountBalanceWithin s x = 0"
proof -
  assume a: "entries_known s" "x \<notin> fa_id ` set (accounts s)"
  have "filter (\<lambda>e. le_account e = x) (lt_entries t) = []" if "t \<in> set (ledger_txs s)" for t
    using a that by (fastforce simp: entries_known_def filter_empty_conv)
  then have "concat (map (\<lambda>t. filter (\<lambda>e. le_account e = x) (lt_entries t)) (filter (\<lambda>t. lt_status t = LT_POSTED) (ledger_txs s))) = []"
    by auto
  then show ?thesis by (simp only: accountBalanceWithin_def foldl.simps)
qed

lemma set_entryRows: "le_account ` set (entryRows cur i es) = pe_account ` set es"
  by (induction es arbitrary: i) (auto simp: entryRow_def)

lemma entries_known_post:
  assumes "postWithin i now c s = Inr (r, s')" "entries_known s" "pe_account ` set (pc_entries c) \<subseteq> fa_id ` set (accounts s)"
  shows "entries_known s'"
  using assms(1)
proof (cases rule: postWithin_Inr_cases)
  case new
  then have "ledger_txs s' = ledger_txs s @ [postedTx i now c]" "accounts s' = accounts s"
    by (auto simp: createLedgerTx_def split: if_splits)
  moreover have "le_account ` set (lt_entries (postedTx i now c)) \<subseteq> fa_id ` set (accounts s)"
    using assms(3) by (simp add: postedTx_def set_entryRows)
  ultimately show ?thesis using assms(2) by (auto simp: entries_known_def)
qed (use assms(2) in simp)

text \<open>A posting that covers what it takes keeps the money invariant.\<close>

lemma money_ok_post:
  assumes post: "postWithin i now c s = Inr (r, s')" and ok: "money_ok s"
    and known: "pe_account ` set (pc_entries c) \<subseteq> fa_id ` set (accounts s)"
    and cover: "\<And>a. posting_valid c \<Longrightarrow> a \<in> set (accounts s) \<Longrightarrow> 0 \<le> accountBalanceWithin s (fa_id a) \<Longrightarrow>
      is_wallet_account a \<or> fa_purpose a = Some AJO_GROUP_POOL \<Longrightarrow> 0 \<le> accountBalanceWithin s (fa_id a) + cmd_delta c (fa_id a)"
  shows "money_ok s'"
proof -
  have nonneg: "0 \<le> accountBalanceWithin s (fa_id a)" if "a \<in> set (accounts s)" "is_wallet_account a \<or> fa_purpose a = Some AJO_GROUP_POOL" for a
    using ok that by (auto simp: money_ok_def pools_ok_def books_ok_def no_overdraft_def)
  have acc: "accounts s' = accounts s" using postWithin_frame [OF post] by simp
  have b: "books_ok s'"
  proof (rule books_ok_post [OF post])
    show "books_ok s" using ok by (simp add: money_ok_def)
    fix a assume "posting_valid c" "a \<in> set (accounts s)" "is_wallet_account a"
    then show "0 \<le> accountBalanceWithin s (fa_id a) + cmd_delta c (fa_id a)" using cover nonneg by blast
  qed
  have p: "pools_ok s'"
    using post
  proof (cases rule: postWithin_Inr_cases)
    case new
    have "0 \<le> accountBalanceWithin s' (fa_id a)" if "a \<in> set (accounts s)" "fa_purpose a = Some AJO_GROUP_POOL" for a
      using cover [OF new(1) that(1) nonneg [OF that(1) disjI2 [OF that(2)]] disjI2 [OF that(2)]]
      by (simp add: balance_create [OF new(3)])
    with acc show ?thesis by (simp add: pools_ok_def)
  qed (use ok in \<open>simp add: money_ok_def\<close>)
  have "entries_known s'" using entries_known_post [OF post _ known] ok by (simp add: money_ok_def)
  with b p show ?thesis by (simp add: money_ok_def)
qed

lemma money_ok_two_legs:
  assumes "postWithin i now c s = Inr (r, s')" "pc_entries c = two_legs a b n" "n \<le> accountBalanceWithin s a" "money_ok s"
    "a \<in> fa_id ` set (accounts s)" "b \<in> fa_id ` set (accounts s)"
  shows "money_ok s'"
proof (rule money_ok_post [OF assms(1,4)])
  show "pe_account ` set (pc_entries c) \<subseteq> fa_id ` set (accounts s)" using assms(2,5,6) by (simp add: two_legs_def)
  fix x assume "posting_valid c" and nn: "0 \<le> accountBalanceWithin s (fa_id x)"
  then have "0 < n" using assms(2) by (simp add: posting_valid_def two_legs_def)
  with nn assms(3) cmd_delta_two [OF assms(2) [unfolded two_legs_def], of "fa_id x"]
  show "0 \<le> accountBalanceWithin s (fa_id x) + cmd_delta c (fa_id x)" by auto
qed

lemma poolAccountWithin_money:
  assumes p: "poolAccountWithin newId gid cur s = Inr (pool, s')" and ok: "money_ok s"
  shows "money_ok s'"
  using p
proof (cases rule: poolAccountWithin_cases)
  case new
  have e: "entries_known s" and b: "books_ok s" and q: "pools_ok s" using ok by (simp_all add: money_ok_def)
  have z: "accountBalanceWithin s newId = 0" by (rule balance_unknown [OF e new(3)])
  have bal: "accountBalanceWithin s' x = accountBalanceWithin s x" for x by (rule balance_cong) (simp add: new(1))
  have acc: "accounts s' = accounts s @ [poolAccount newId gid cur]" by (simp add: new(1))
  have "ledger_wf s'" using ledger_wf_cong [of s' s] b by (simp add: books_ok_def new(1))
  moreover have "accounts_wf s'" using poolAccountWithin_frame(4) [OF p] b by (simp add: books_ok_def)
  moreover have "no_overdraft s'" using b by (auto simp: books_ok_def no_overdraft_def bal acc)
  moreover have "entries_known s'" using e by (auto simp: entries_known_def new(1))
  moreover have "pools_ok s'" using q z by (auto simp: pools_ok_def bal acc)
  ultimately show ?thesis by (simp add: money_ok_def books_ok_def)
qed (use ok in simp)

lemma memberWalletAccount_InrD:
  "memberWalletAccount u cur s = Inr a \<Longrightarrow> a \<in> set (accounts s) \<and> is_wallet_account a"
  by (auto simp: memberWalletAccount_def is_wallet_account_def account_matches_def split: option.splits dest!: requireAccount_InrD)

lemma paidAgainst_append [simp]:
  "paidAgainst sid (rows @ [r]) = paidAgainst sid rows + (if co_scheduleId r = sid then co_amount r else 0)"
  by (simp add: paidAgainst_def)

lemma recordContributionWithin_schedules:
  assumes r: "recordContributionWithin newId now u mid schedule amount key txId s = Inr (row, s')"
    and ok: "schedules_ok s" and mem: "schedule \<in> set (contribution_schedules s)"
    and amount: "0 < amount" "amount \<le> cs_amountDue schedule - cs_amountPaid schedule"
  shows "schedules_ok s'"
proof -
  let ?f = "\<lambda>c. c\<lparr>cs_amountPaid := cs_amountPaid schedule + amount,
      cs_status := contributionScheduleStatusFor (cs_amountDue schedule) (cs_amountPaid schedule + amount) (cs_dueAt schedule) now\<rparr>"
  have t: "contributions s' = contributions s @ [contributionRow newId mid schedule amount key txId]"
    "contribution_schedules s' = update_where (\<lambda>c. cs_id c = cs_id schedule) ?f (contribution_schedules s)"
    using r by (auto simp: recordContributionWithin_def Let_def res_iffs audit_def)
  have d: "distinct (map cs_id (contribution_schedules s))" using ok by (simp add: schedules_ok_def)
  have uniq: "c = schedule" if "c \<in> set (contribution_schedules s)" "cs_id c = cs_id schedule" for c
    using d that mem by (auto simp: distinct_map inj_on_def)
  have "map cs_id (contribution_schedules s') = map cs_id (contribution_schedules s)"
    unfolding t(2) by (rule map_update_where) simp
  moreover have "cs_amountPaid c = paidAgainst (cs_id c) (contributions s') \<and> 0 \<le> cs_amountPaid c \<and> cs_amountPaid c \<le> cs_amountDue c
      \<and> (cs_status c = CSS_PAID \<longrightarrow> cs_amountPaid c = cs_amountDue c)" if "c \<in> set (contribution_schedules s')" for c
  proof -
    from that consider (changed) "c = ?f schedule" | (kept) "c \<in> set (contribution_schedules s)" "cs_id c \<noteq> cs_id schedule"
      unfolding t(2) set_update_where using uniq by blast
    then show ?thesis
    proof cases
      case changed
      then show ?thesis using ok amount mem by (auto simp: t(1) schedules_ok_def contributionRow_def contributionScheduleStatusFor_def)
    next
      case kept
      then show ?thesis using ok by (auto simp: t(1) schedules_ok_def contributionRow_def)
    qed
  qed
  ultimately show ?thesis using d unfolding schedules_ok_def by metis
qed

lemma recordContributionWithin_frame:
  assumes "recordContributionWithin newId now u mid schedule amount key txId s = Inr (row, s')"
  shows "ledger_txs s' = ledger_txs s" "accounts s' = accounts s" "row = contributionRow newId mid schedule amount key txId"
    "contributions s' = contributions s @ [row]"
  using assms by (auto simp: recordContributionWithin_def Let_def res_iffs audit_def)


lemma assertContributionAmount_iff:
  "assertContributionAmount n due paid = Inr () \<longleftrightarrow> 0 < n \<and> n \<le> due - paid"
  by (auto simp: assertContributionAmount_def)

lemma collectContribution_ok:
  assumes c: "collectContribution ids now u member schedule amount key s = Inr (row, s')" and ok: "settlement_ok s"
    and mem: "schedule \<in> set (contribution_schedules s)" and amount: "0 < amount" "amount \<le> cs_amountDue schedule - cs_amountPaid schedule"
  shows "settlement_ok s'"
  using c
proof (rule collectContribution_Inr)
  fix wallet pool s1 s2 r
  assume w: "memberWalletAccount u (cs_currency schedule) s = Inr wallet"
    and p: "poolAccountWithin (py_account ids) (cs_groupId schedule) (cs_currency schedule) s = Inr (pool, s1)"
    and bal: "amount \<le> accountBalanceWithin s1 (fa_id wallet)"
    and post: "postWithin (py_tx ids) now (contributionCommand ids u schedule amount key (fa_id wallet) pool) s1 = Inr (r, s2)"
    and rec: "recordContributionWithin (py_row ids) now u (am_id member) schedule amount key (fst r) s2 = Inr (row, s')"
  have m1: "money_ok s1" using poolAccountWithin_money [OF p] ok by (simp add: settlement_ok_def)
  have "fa_id wallet \<in> fa_id ` set (accounts s1)" "pool \<in> fa_id ` set (accounts s1)"
    using memberWalletAccount_InrD [OF w] poolAccountWithin_frame(6,7) [OF p] by auto
  then have "money_ok s2" using money_ok_two_legs [OF post _ bal m1] by simp
  then have m: "money_ok s'" using money_ok_cong recordContributionWithin_frame(1,2) [OF rec] by blast
  have t1: "contribution_schedules s1 = contribution_schedules s" "contributions s1 = contributions s"
    using p by (cases rule: poolAccountWithin_cases; simp)+
  from post obtain txs where s2: "s2 = s1\<lparr>ledger_txs := txs\<rparr>" by (rule postWithin_only_ledger)
  have "schedules_ok s2" using ok schedules_ok_cong [of s2 s] by (simp add: settlement_ok_def s2 t1)
  then have "schedules_ok s'" using recordContributionWithin_schedules [OF rec _ _ amount] mem by (simp add: s2 t1)
  with m show ?thesis by (simp add: settlement_ok_def)
qed

lemma payContribution_ok:
  assumes ok: "settlement_ok s"
  shows "settlement_ok (snd (payContribution ids now u gid sid dto s))"
proof (cases "payContribution ids now u gid sid dto s")
  case (Pair r s')
  show ?thesis
  proof (cases r)
    case (Inl e)
    with Pair have "s' = s" by (simp only: payContribution_def serializable_Inl_iff)
    with Pair ok show ?thesis by simp
  next
    case (Inr row)
    from Pair [unfolded Inr] show ?thesis
    proof (cases rule: payContribution_cases)
      case (fresh schedule member)
      from fresh(10) have "0 < pc_amountMinor dto" "pc_amountMinor dto \<le> cs_amountDue schedule - cs_amountPaid schedule"
        by (simp_all add: assertContributionAmount_iff)
      with collectContribution_ok [OF fresh(11) ok fresh(2)] Pair show ?thesis by simp
    qed (use Pair ok in simp)
  qed
qed

lemma settlePayoutWithin_ok:
  assumes "settlePayoutWithin ids now u gid pid s = Inr ((row, n), s')" and ok: "settlement_ok s"
  shows "settlement_ok s'"
  using assms(1)
proof (cases rule: settlePayoutWithin_cases)
  case (fresh schedule holder recipient g)
  from fresh(10) show ?thesis
  proof (rule payOut_Inr)
    fix wallet pool s1 s2 r
    assume p: "poolAccountWithin (py_account ids) gid (pos_currency schedule) s = Inr (pool, s1)"
      and w: "memberWalletAccount (am_userId recipient) (pos_currency schedule) s1 = Inr wallet"
      and bal: "pos_amountDue schedule \<le> accountBalanceWithin s1 pool"
      and post: "postWithin (py_tx ids) now (payoutCommand ids u gid schedule pool (fa_id wallet)) s1 = Inr (r, s2)"
      and t: "ledger_txs s' = ledger_txs s2" "accounts s' = accounts s2" "contribution_schedules s' = contribution_schedules s2" "contributions s' = contributions s2"
    have m1: "money_ok s1" using poolAccountWithin_money [OF p] ok by (simp add: settlement_ok_def)
    have "fa_id wallet \<in> fa_id ` set (accounts s1)" "pool \<in> fa_id ` set (accounts s1)"
      using memberWalletAccount_InrD [OF w] poolAccountWithin_frame(6) [OF p] by auto
    then have "money_ok s2" using money_ok_two_legs [OF post _ bal m1] by simp
    then have m: "money_ok s'" using money_ok_cong t(1,2) by blast
    have t1: "contribution_schedules s1 = contribution_schedules s" "contributions s1 = contributions s"
      using p by (cases rule: poolAccountWithin_cases; simp)+
    from post obtain txs where s2: "s2 = s1\<lparr>ledger_txs := txs\<rparr>" by (rule postWithin_only_ledger)
    have "schedules_ok s'" using ok schedules_ok_cong [of s' s] by (simp add: settlement_ok_def t s2 t1)
    with m show ?thesis by (simp add: settlement_ok_def)
  qed
qed (use ok in simp)

lemma settlement_ok_cong:
  "ledger_txs t = ledger_txs s \<Longrightarrow> accounts t = accounts s \<Longrightarrow> contribution_schedules t = contribution_schedules s \<Longrightarrow>
   contributions t = contributions s \<Longrightarrow> settlement_ok t = settlement_ok s"
  using money_ok_cong [of t s] schedules_ok_cong [of t s] by (simp add: settlement_ok_def)

lemma settlement_ok_notify [simp]: "settlement_ok (notify a b c d s) = settlement_ok s"
  by (rule settlement_ok_cong) (simp_all add: notify_def)

lemma settlement_ok_hold [simp]: "settlement_ok (holdPayout i s) = settlement_ok s"
  by (rule settlement_ok_cong) (simp_all add: holdPayout_def)

text \<open>What the handler leaves behind, whatever it answers.\<close>

lemma executePayout_cases:
  assumes "executePayout ids now u gid pid s = (r, s')"
  obtains (settled) row n s1 where "settlePayoutWithin ids now u gid pid s = Inr ((row, n), s1)" "r = Inr row"
      "s' = s1 \<or> (\<exists>a b c d. s' = notify a b c d s1)"
  | (held) e where "settlePayoutWithin ids now u gid pid s = Inl (PayoutHeld e)" "r = Inl e" "s' = holdPayout pid s"
  | (refused) e where "settlePayoutWithin ids now u gid pid s = Inl e" "r = Inl e" "s' = s"
proof (cases "settlePayoutWithin ids now u gid pid s")
  case (Inl e)
  show ?thesis
  proof (cases "\<exists>h. e = PayoutHeld h")
    case True
    then obtain h where e: "e = PayoutHeld h" ..
    then have "r = Inl h" "s' = holdPayout pid s" using assms Inl by (simp_all add: executePayout_def serializable_def)
    with Inl e show ?thesis using that(2) by blast
  next
    case False
    then have "r = Inl e" "s' = s" using assms Inl by (auto simp: executePayout_def serializable_def split: exn.splits)
    with Inl show ?thesis using that(3) by blast
  qed
next
  case (Inr x)
  then obtain row n s1 where x: "settlePayoutWithin ids now u gid pid s = Inr ((row, n), s1)" by (cases x) auto
  with assms have "r = Inr row" "s' = s1 \<or> (\<exists>a b c d. s' = notify a b c d s1)"
    by (auto simp: executePayout_def serializable_def split: option.splits)
  with x that(1) show ?thesis by blast
qed

lemma executePayout_ok:
  assumes ok: "settlement_ok s"
  shows "settlement_ok (snd (executePayout ids now u gid pid s))"
proof (cases "executePayout ids now u gid pid s")
  case (Pair r s')
  then show ?thesis
  proof (cases rule: executePayout_cases)
    case (settled row n s1)
    have "settlement_ok s1" by (rule settlePayoutWithin_ok [OF settled(1) ok])
    with settled(3) Pair show ?thesis by auto
  next
    case (held e)
    with Pair ok show ?thesis by simp
  qed (use Pair ok in simp)
qed


text \<open>The same contribution paid through the payment contract.\<close>

lemma owed_cong:
  assumes "contribution_schedules t = contribution_schedules s" "ajo_groups t = ajo_groups s" "ajo_cycles t = ajo_cycles s"
    "ajo_members t = ajo_members s" "ajo_slots t = ajo_slots s"
  shows "owed u i t = owed u i s"
  unfolding owed_def includedSchedule_def findContributionSchedule_def findGroup_def findMember_def slotMember_def assms ..

lemma owed_InrD: "owed u i s = Inr (c, g, q, m) \<Longrightarrow> c \<in> set (contribution_schedules s)"
  by (auto simp: owed_def includedSchedule_def findContributionSchedule_def split: option.splits if_splits dest: find_SomeD)

lemma partialAmount_Inr: "partialAmount due (Some r) = Inr a \<Longrightarrow> a = r \<and> 0 < r \<and> r \<le> due"
  by (auto simp: partialAmount_def split: if_splits)

lemma contribution_payment_ok:
  assumes st: "settleWithin ids now u iid key AjoContributionTarget s = Inr ((j, q), s')" and ok: "settlement_ok s"
  shows "settlement_ok s'"
  using st
proof (cases rule: settleWithin_Inr_cases)
  case (paid i w target av fr dst s1)
  let ?T = "AjoContributionTarget :: 'a ajo_db_scheme payment_target"
  let ?c = "paymentCommand ?T u key i (rt_description target) (fa_id av) dst (fa_id fr)"
  from paid(9) obtain r s2 s3 where p: "postWithin (py_tx ids) now ?c s1 = Inr (r, s2)"
    and set: "pt_settle ?T ids now (settledPayment u i (fst r)) s2 = Inr ((), s3)"
    and upd: "updateIntent (pi_id i) (markPaid (pt_afterCommit ?T \<noteq> None) (fst r) now) s3 = Inr (j, s')"
    by (rule postAndSettle_InrD)
  from paid(4,5) obtain c gn sq m where o: "owed u (pi_targetId i) s = Inr (c, gn, sq, m)"
    and amt: "0 < pi_amount i" "pi_amount i \<le> cs_amountDue c - cs_amountPaid c"
    by (auto simp: AjoContributionTarget_def contributionResolve_def storedRequest_def res_iffs split: if_splits dest!: partialAmount_Inr)
  from paid(7) obtain gid where cr: "poolAccountWithin (py_account ids) gid (pi_currency i) s = Inr (dst, s1)"
    by (auto simp: AjoContributionTarget_def contributionCredit_def split: option.splits)
  have m1: "money_ok s1" using poolAccountWithin_money [OF cr] ok by (simp add: settlement_ok_def)
  have acc: "av \<in> set (accounts s1)" "fr \<in> set (accounts s1)"
    using paid(6) poolAccountWithin_frame(7) [OF cr] by (auto simp: payerAccounts_def res_iffs dest!: requireAccount_InrD)
  have ents: "pc_entries ?c = paymentEntries False i (fa_id av) dst (fa_id fr)" by (simp add: paymentCommand_def AjoContributionTarget_def)
  have m2: "money_ok s2"
  proof (rule money_ok_post [OF p m1])
    show "pe_account ` set (pc_entries ?c) \<subseteq> fa_id ` set (accounts s1)"
      using acc poolAccountWithin_frame(6) [OF cr] by (auto simp: ents paymentEntries_def)
    fix a assume "posting_valid ?c" and nn: "0 \<le> accountBalanceWithin s1 (fa_id a)"
    then have "0 < pi_total i" by (auto simp: posting_valid_def ents paymentEntries_def)
    then show "0 \<le> accountBalanceWithin s1 (fa_id a) + cmd_delta ?c (fa_id a)"
      using nn paid(8) amt by (auto simp: cmd_delta_payment [OF ents])
  qed
  from p obtain txs where s2: "s2 = s1\<lparr>ledger_txs := txs\<rparr>" by (rule postWithin_only_ledger)
  have t1: "contribution_schedules s2 = contribution_schedules s" "contributions s2 = contributions s" "ajo_groups s2 = ajo_groups s"
    "ajo_cycles s2 = ajo_cycles s" "ajo_members s2 = ajo_members s" "ajo_slots s2 = ajo_slots s"
    using cr by (cases rule: poolAccountWithin_cases; simp add: s2)+
  have "owed u (pi_targetId i) s2 = Inr (c, gn, sq, m)" using o owed_cong [of s2 s u "pi_targetId i"] t1 by simp
  with set obtain row key' where rec: "recordContributionWithin (py_row ids) now u m c (pi_amount i) key' (fst r) s2 = Inr (row, s3)"
    by (auto simp: AjoContributionTarget_def contributionSettle_def settledPayment_def res_iffs)
  have "schedules_ok s2" using ok schedules_ok_cong [of s2 s] t1 by (simp add: settlement_ok_def)
  then have "schedules_ok s3" using recordContributionWithin_schedules [OF rec _ _ amt] owed_InrD [OF o] t1 by simp
  moreover have "money_ok s3" using m2 money_ok_cong recordContributionWithin_frame(1,2) [OF rec] by blast
  ultimately have "settlement_ok s3" by (simp add: settlement_ok_def)
  then show ?thesis using updateIntent_InrD [OF upd] settlement_ok_cong [of s' s3] by auto
qed (use ok in simp)


text \<open>The requests that move a group's money: from the group's page, by the administrator, through a payment intent.\<close>

datatype settlement_request =
    ContributeRequest pay_ids int string string string pay_contribution_dto
  | PayoutRequest pay_ids int string string string
  | IntentRequest pay_ids int string string string

fun serveSettlement :: "settlement_request \<Rightarrow> 'm ajo_db_scheme \<Rightarrow> 'm ajo_db_scheme" where
  "serveSettlement (ContributeRequest ids now u gid sid dto) s = snd (payContribution ids now u gid sid dto s)"
| "serveSettlement (PayoutRequest ids now u gid pid) s = snd (executePayout ids now u gid pid s)"
| "serveSettlement (IntentRequest ids now u iid key) s = snd (serializable (settleWithin ids now u iid key AjoContributionTarget) s)"

interpretation settlement_history: request_safety serveSettlement settlement_ok
proof
  fix s :: "'m ajo_db_scheme" and q assume ok: "settlement_ok s"
  show "settlement_ok (serveSettlement q s)"
  proof (cases q)
    case (IntentRequest ids now u iid key)
    have "settlement_ok (snd (serializable (settleWithin ids now u iid key AjoContributionTarget) s))"
      by (rule serializable_frame) (use ok contribution_payment_ok in auto)
    then show ?thesis by (simp add: IntentRequest)
  qed (simp_all add: payContribution_ok executePayout_ok ok)
qed

section \<open>Properties\<close>

definition demo_schedule :: "string \<Rightarrow> string \<Rightarrow> int \<Rightarrow> contribution_schedule" where
  "demo_schedule i slot paid = \<lparr>cs_id = i, cs_groupId = ''g1'', cs_cycleId = ''y1'', cs_slotId = slot, cs_amountDue = 500, cs_amountPaid = paid,
     cs_currency = ''NGN'', cs_dueAt = 100, cs_status = (if paid = 500 then CSS_PAID else CSS_PENDING), cs_version = 1\<rparr>"

definition demo_payout :: payout_schedule where
  "demo_payout = \<lparr>pos_id = ''po1'', pos_groupId = ''g1'', pos_cycleId = ''y1'', pos_slotId = ''s2'', pos_amountDue = 1000, pos_amountPaid = 0,
     pos_currency = ''NGN'', pos_dueAt = 100, pos_status = PS_HELD, pos_version = 1\<rparr>"

definition demo_pool_tx :: ledger_tx where
  "demo_pool_tx = postedTx ''t1'' 0 \<lparr>pc_idempotencyKey = ''k1'', pc_reference = ''r1'', pc_description = ''d'',
     pc_currency = ''NGN'', pc_initiatedBy = None, pc_correlationId = None, pc_entries = two_legs ''wa'' ''pool'' 1000\<rparr>"

text \<open>Both slots have paid their 500 into the pool; the payout of the second slot was held until then.\<close>

definition demo_collected_db :: ajo_db where
  "demo_collected_db = demo_full_db\<lparr>ledger_txs := ledger_txs demo_full_db @ [demo_pool_tx],
     accounts := accounts demo_full_db @ [poolAccount ''pool'' ''g1'' ''NGN''],
     contribution_schedules := [demo_schedule ''c1'' ''s1'' 500, demo_schedule ''c2'' ''s2'' 500],
     contributions := [contributionRow ''r1'' ''m1'' (demo_schedule ''c1'' ''s1'' 0) 500 ''x1'' ''t1'',
       contributionRow ''r2'' ''m2'' (demo_schedule ''c2'' ''s2'' 0) 500 ''x2'' ''t1''],
     payout_schedules := [demo_payout]\<rparr>"

definition demo_paid_out :: "(exn + payout_row) \<times> ajo_db" where
  "demo_paid_out = executePayout demo_pids 200 ''ada'' ''g1'' ''po1'' demo_collected_db"

lemma demo_collected_ok: "settlement_ok demo_collected_db"
  unfolding settlement_ok_def money_ok_def books_ok_def
  by (intro conjI; code_simp)

text \<open>
  The money of Ajo groups stays in order through any history of contributions, payouts and contributions
  paid by payment intents: no wallet and no group's pool is ever overdrawn, the amount a schedule counts as
  paid is exactly the sum of the contributions recorded against it, never above what is due, and a schedule is PAID
  only when it has been paid in full.
\<close>

theorem settlement_history_safe:
  assumes "settlement_ok s"
  shows "let s' = fold serveSettlement qs s in
    (\<forall>a \<in> set (accounts s'). is_wallet_account a \<or> fa_purpose a = Some AJO_GROUP_POOL \<longrightarrow> 0 \<le> accountBalanceWithin s' (fa_id a))
    \<and> ledger_wf s'
    \<and> (\<forall>c \<in> set (contribution_schedules s'). cs_amountPaid c = paidAgainst (cs_id c) (contributions s')
         \<and> cs_amountPaid c \<le> cs_amountDue c \<and> (cs_status c = CSS_PAID \<longrightarrow> cs_amountPaid c = cs_amountDue c))"
  using settlement_history.history_inv [OF assms, of qs]
  unfolding settlement_ok_def money_ok_def books_ok_def no_overdraft_def pools_ok_def schedules_ok_def Let_def by blast

theorem settlement_history_safe_witness:
  "settlement_ok demo_collected_db \<and> ledger_wf (fold serveSettlement [PayoutRequest demo_pids 200 ''ada'' ''g1'' ''po1''] demo_collected_db)"
  using settlement_history_safe [OF demo_collected_ok, of "[PayoutRequest demo_pids 200 ''ada'' ''g1'' ''po1'']"] demo_collected_ok
  by (simp only: Let_def)

lemma memberWalletAccount_pool:
  assumes "poolAccountWithin newId gid cur s = Inr (pool, s')"
  shows "memberWalletAccount u c s' = memberWalletAccount u c s"
  using assms
proof (cases rule: poolAccountWithin_cases)
  case new
  have "\<not> account_matches (Some w) WALLET_AVAILABLE c (poolAccount newId gid cur)" for w by (simp add: account_matches_def)
  then have "findAccount (Some w) WALLET_AVAILABLE c s' = findAccount (Some w) WALLET_AVAILABLE c s" for w
    by (simp add: new(1) findAccount_def find_append split: option.splits)
  then show ?thesis by (simp add: memberWalletAccount_def requireAccount_def new(1) split: option.splits)
qed simp

lemma collected_statuses:
  "isCycleFullyCollected (cycleStatuses y s) \<Longrightarrow> c \<in> set (contribution_schedules s) \<Longrightarrow> cs_cycleId c = y \<Longrightarrow>
     cs_status c \<in> {CSS_PAID, CSS_WAIVED, CSS_CANCELLED}"
  by (cases "cs_status c") (auto simp: isCycleFullyCollected_def cycleStatuses_def isOutstanding_def list_all_iff)

text \<open>Once a payout row exists, executing its schedule changes nothing.\<close>

lemma executePayout_after:
  assumes "findPayout (payoutIdempotencyKey pid) s \<noteq> None"
  shows "snd (executePayout ids now u gid pid s) = s"
proof -
  from assms obtain row where row: "findPayout (payoutIdempotencyKey pid) s = Some row" by auto
  have e: "settlePayoutWithin ids now u gid pid s =
      (case findPayoutSchedule pid s of None \<Rightarrow> Inl (NotFound ''That payout was not found'')
       | Some schedule \<Rightarrow> if pos_groupId schedule \<noteq> gid then Inl (NotFound ''That payout was not found'')
           else bind_res (slotMember (pos_slotId schedule) s) (\<lambda>_. bind_res (assertGroupAdmin u gid s) (\<lambda>_. Inr ((row, None), s))))"
    unfolding settlePayoutWithin_def row option.case ..
  have "settlePayoutWithin ids now u gid pid s = Inr ((row, None), s)
      \<or> (\<exists>e. settlePayoutWithin ids now u gid pid s = Inl e \<and> (\<nexists>h. e = PayoutHeld h))"
    unfolding e by (auto simp: slotMember_def assertGroupAdmin_def split: option.splits if_splits)
  then consider "settlePayoutWithin ids now u gid pid s = Inr ((row, None), s)"
    | e where "settlePayoutWithin ids now u gid pid s = Inl e" "\<nexists>h. e = PayoutHeld h" by blast
  then show ?thesis by cases (auto simp: executePayout_def serializable_def split: exn.splits)
qed




text \<open>
  A cycle with arrears never pays: asked by the administrator to pay out, the request is refused, the schedule is
  left HELD although the transaction rolled back, nothing else changes, and a held schedule can
  still be executed later.
\<close>

theorem payout_held_on_arrears:
  assumes "findPayoutSchedule pid s = Some schedule" "pos_groupId schedule = gid" "slotMember (pos_slotId schedule) s = Inr holder"
    "assertGroupAdmin u gid s = Inr ()" "findPayout (payoutIdempotencyKey pid) s = None" "canExecutePayout (pos_status schedule)"
    and "c \<in> set (contribution_schedules s)" "cs_cycleId c = pos_cycleId schedule" "cs_status c \<in> {CSS_PENDING, CSS_DUE, CSS_PARTIALLY_PAID, CSS_OVERDUE}"
  shows "executePayout ids now u gid pid s =
      (Inl (Conflict ''This cycle has not collected every contribution, so it cannot pay out yet''), holdPayout pid s)
    \<and> canExecutePayout PS_HELD
    \<and> findPayoutSchedule pid (holdPayout pid s) = Some (schedule\<lparr>pos_status := PS_HELD\<rparr>)"
proof -
  have "\<not> isCycleFullyCollected (cycleStatuses (pos_cycleId schedule) s)"
    using assms(7-9) collected_statuses [of "pos_cycleId schedule" s c] by auto
  then have "settlePayoutWithin ids now u gid pid s =
      Inl (PayoutHeld (Conflict ''This cycle has not collected every contribution, so it cannot pay out yet''))"
    using assms(1-6) by (simp add: settlePayoutWithin_def)
  moreover have "pos_id schedule = pid" using assms(1) by (auto simp: findPayoutSchedule_def dest: find_SomeD)
  then have "findPayoutSchedule pid (holdPayout pid s) = Some (schedule\<lparr>pos_status := PS_HELD\<rparr>)"
    using assms(1) by (simp add: findPayoutSchedule_def holdPayout_def find_update_where)
  ultimately show ?thesis by (simp add: executePayout_def serializable_def canExecutePayout_def)
qed

end
