(* ===== verification/Ajo_Swaps.thy ===== *)
theory Ajo_Swaps
  imports Ajo_Settlement
begin

text \<open>
  Swapping payout positions: \<^verbatim>\<open>src/modules/ajo-groups/ajo-swaps.service.ts\<close>. A swap request names two slots of a locked
  group; when the holders of both have approved, the payouts of the current schedule version are copied into a
  new version with the two slots exchanged. \<open>newId table index\<close> gives the ids of new rows.
\<close>

section \<open>AjoSwapsService\<close>

definition SWAP_TTL_MS :: int where
  "SWAP_TTL_MS = 72 * 60 * 60000"

definition findSwap :: "string \<Rightarrow> 'm ajo_db_scheme \<Rightarrow> swap_request option" where
  "findSwap i s = List.find (\<lambda>w. sw_id w = i) (swap_requests s)"

definition updateSwap :: "string \<Rightarrow> (swap_request \<Rightarrow> swap_request) \<Rightarrow> 'm ajo_db_scheme \<Rightarrow> 'm ajo_db_scheme" where
  "updateSwap i f s = s\<lparr>swap_requests := update_where (\<lambda>w. sw_id w = i) f (swap_requests s)\<rparr>"

definition swapEvent :: "string \<Rightarrow> string \<Rightarrow> string \<Rightarrow> string \<Rightarrow> 'm core_db_scheme \<Rightarrow> 'm core_db_scheme" where
  "swapEvent userId groupId swapId eventType s =
     outbox ''SwapRequest'' swapId eventType (audit (Some userId) eventType ''SwapRequest'' (Some swapId) (Some groupId) s)"

text \<open>\<^verbatim>\<open>list\<close>: the requests of a group, newest first, as a member sees them.\<close>

record swap_side =
  sd_slotId :: string
  sd_position :: "int option"
  sd_memberId :: "string option"
  sd_displayName :: string

record swap_view =
  sv_swap :: swap_request
  sv_status :: swap_status
  sv_from :: swap_side
  sv_to :: swap_side
  sv_awaitingMyDecision :: bool

definition displayNameOf :: "string \<Rightarrow> 'm kyc_db_scheme \<Rightarrow> string option" where
  "displayNameOf userId s =
     map_option (\<lambda>p. trim (pf_firstName p @ '' '' @ pf_lastName p)) (List.find (\<lambda>p. pf_userId p = userId) (profiles s))"

definition describeSide :: "string \<Rightarrow> 'm ajo_db_scheme \<Rightarrow> swap_side" where
  "describeSide slotId s =
     (let slot = List.find (\<lambda>x. sl_id x = slotId) (ajo_slots s);
          member = (case slot of None \<Rightarrow> None | Some x \<Rightarrow> List.find (\<lambda>m. am_id m = sl_memberId x) (ajo_members s)) in
      \<lparr>sd_slotId = slotId, sd_position = map_option sl_position slot, sd_memberId = map_option sl_memberId slot,
       sd_displayName = or_default (case member of None \<Rightarrow> None | Some m \<Rightarrow> displayNameOf (am_userId m) s) ''Member''\<rparr>)"

definition swapStatusAt :: "int \<Rightarrow> swap_request \<Rightarrow> swap_status" where
  "swapStatusAt now w =
     (if sw_status w = SW_PENDING \<and> (case sw_expiresAt w of None \<Rightarrow> False | Some e \<Rightarrow> e \<le> now) then SW_EXPIRED else sw_status w)"

definition viewSwap :: "int \<Rightarrow> string \<Rightarrow> 'm ajo_db_scheme \<Rightarrow> swap_request \<Rightarrow> swap_view" where
  "viewSwap now memberId s w =
     (let owners = map sl_memberId (filter (\<lambda>x. sl_id x = sw_fromSlotId w \<or> sl_id x = sw_toSlotId w) (ajo_slots s));
          decided = (\<exists>a \<in> set (swap_approvals s). sa_swapRequestId a = sw_id w \<and> sa_approverMemberId a = memberId) in
      \<lparr>sv_swap = w, sv_status = swapStatusAt now w, sv_from = describeSide (sw_fromSlotId w) s, sv_to = describeSide (sw_toSlotId w) s,
       sv_awaitingMyDecision = (swapStatusAt now w = SW_PENDING \<and> memberId \<in> set owners \<and> \<not> decided)\<rparr>)"

definition listSwaps :: "int \<Rightarrow> string \<Rightarrow> string \<Rightarrow> 'm ajo_db_scheme \<Rightarrow> swap_view list res" where
  "listSwaps now userId groupId s =
     bind_res (requireMembership userId groupId s) (\<lambda>m.
       Inr (map (viewSwap now (am_id m) s) (take 50 (rev (filter (\<lambda>w. sw_groupId w = groupId) (swap_requests s))))))"

text \<open>\<^verbatim>\<open>create\<close>.\<close>

record create_swap_dto =
  csd_fromSlotId :: string
  csd_toSlotId :: string

definition swapTouches :: "string \<Rightarrow> string \<Rightarrow> string \<Rightarrow> bool" where
  "swapTouches a b slotId \<longleftrightarrow> slotId = a \<or> slotId = b"

definition newSwap :: "string \<Rightarrow> int \<Rightarrow> string \<Rightarrow> ajo_group \<Rightarrow> ajo_member \<Rightarrow> ajo_slot \<Rightarrow> ajo_slot \<Rightarrow> swap_request" where
  "newSwap newId now userId g m src dst =
     \<lparr>sw_id = newId, sw_groupId = ag_id g, sw_requestedByMemberId = am_id m, sw_initiatedByUserId = userId,
      sw_byAdministrator = (am_role m = GROUP_ADMIN), sw_fromSlotId = sl_id src, sw_toSlotId = sl_id dst,
      sw_originalFromPosition = sl_position src, sw_originalToPosition = sl_position dst,
      sw_proposedFromPosition = sl_position dst, sw_proposedToPosition = sl_position src, sw_status = SW_PENDING,
      sw_previousVersion = ag_scheduleVersion g, sw_scheduleVersion = ag_scheduleVersion g, sw_resultingVersion = None,
      sw_feeAssessmentId = None, sw_expiresAt = Some (now + SWAP_TTL_MS), sw_decidedAt = None, sw_executedAt = None\<rparr>"

text \<open>The definition is read without its tiers.\<close>

definition assessSwapFee :: "string \<Rightarrow> int \<Rightarrow> string \<Rightarrow> string \<Rightarrow> int \<Rightarrow> ('m ajo_db_scheme, unit) tx" where
  "assessSwapFee newId now swapId currency base s =
     (case activeDefinition ''AJO_SWAP'' now (fee_definitions s) of
        None \<Rightarrow> Inr ((), s)
      | Some d \<Rightarrow> bind_res (assessVersionedFee ((fd_rule d)\<lparr>fr_tiers := None\<rparr>) base) (\<lambda>(amount, snapshot).
          bind_res (insertRow (\<lambda>a b. fe_id a = fe_id b)
              \<lparr>fe_id = newId, fe_feeDefinitionId = fd_id d, fe_subjectId = swapId, fe_amount = amount, fe_currency = currency, fe_base = base\<rparr>
              (fee_assessments s)) (\<lambda>rows.
          Inr ((), updateSwap swapId (\<lambda>w. w\<lparr>sw_feeAssessmentId := Some newId\<rparr>) (s\<lparr>fee_assessments := rows\<rparr>)))))"

definition memberOfSlot :: "ajo_slot \<Rightarrow> 'm ajo_db_scheme \<Rightarrow> ajo_member option" where
  "memberOfSlot x s = List.find (\<lambda>m. am_id m = sl_memberId x) (ajo_members s)"

text \<open>Reasons against a swap of two positions in the current state of the group.\<close>

definition swapObstacles :: "ajo_group \<Rightarrow> string \<Rightarrow> string \<Rightarrow> 'm ajo_db_scheme \<Rightarrow> unit res" where
  "swapObstacles g src dst s =
     (if list_ex (\<lambda>w. sw_groupId w = ag_id g \<and> sw_status w = SW_PENDING
           \<and> (swapTouches src dst (sw_fromSlotId w) \<or> swapTouches src dst (sw_toSlotId w))) (swap_requests s)
      then Inl (Conflict ''A conflicting swap request already exists'')
      else bind_res (case List.find (\<lambda>p. pos_groupId p = ag_id g \<and> pos_version p = ag_scheduleVersion g \<and> swapTouches src dst (pos_slotId p)
             \<and> pos_status p \<in> {PS_PROCESSING, PS_PAID, PS_FAILED, PS_CANCELLED}) (payout_schedules s) of
           None \<Rightarrow> Inr () | Some p \<Rightarrow> assertPayoutAllowsSwap (pos_status p)) (\<lambda>_.
        if list_ex (\<lambda>c. cs_groupId c = ag_id g \<and> swapTouches src dst (cs_slotId c) \<and> cs_status c = CSS_OVERDUE) (contribution_schedules s)
        then Inl (Conflict ''An affected member has an overdue contribution'') else Inr ()))"

definition writeSwapRequest ::
  "(string \<Rightarrow> nat \<Rightarrow> string) \<Rightarrow> int \<Rightarrow> string \<Rightarrow> ajo_group \<Rightarrow> ajo_member \<Rightarrow> ajo_slot \<Rightarrow> ajo_slot \<Rightarrow> ('m ajo_db_scheme, string) tx" where
  "writeSwapRequest newId now userId g m src dst s =
     (let w = newSwap (newId ''swap'' 0) now userId g m src dst in
      bind_res (insertRow (\<lambda>a b. sw_id a = sw_id b) w (swap_requests s)) (\<lambda>ws.
      bind_res (assessSwapFee (newId ''fee'' 0) now (sw_id w) (ag_currency g) (ag_baseContribution g) (s\<lparr>swap_requests := ws\<rparr>)) (\<lambda>(_, s1).
      Inr (sw_id w, swapEvent userId (ag_id g) (sw_id w) ''ajo.swap.requested'' s1))))"

definition createSwapWithin ::
  "(string \<Rightarrow> nat \<Rightarrow> string) \<Rightarrow> int \<Rightarrow> string \<Rightarrow> string \<Rightarrow> create_swap_dto \<Rightarrow> ('m ajo_db_scheme, string) tx" where
  "createSwapWithin newId now userId groupId dto s =
     (case findMember groupId userId s of
        None \<Rightarrow> Inl (Forbidden ''Active group membership is required'')
      | Some m \<Rightarrow>
      if am_status m \<noteq> MS_ACTIVE then Inl (Forbidden ''Active group membership is required'')
      else case findGroup groupId s of
        None \<Rightarrow> Inl (NotFound ''Ajo group was not found'')
      | Some g \<Rightarrow>
      if ag_status g \<noteq> GS_LOCKED \<and> ag_status g \<noteq> GS_ACTIVE then Inl (Conflict ''Group does not permit swaps'')
      else
        (let slots = filter (\<lambda>x. swapTouches (csd_fromSlotId dto) (csd_toSlotId dto) (sl_id x)) (groupSlots groupId s) in
         if length slots \<noteq> 2 \<or> list_ex (\<lambda>x. map_option am_status (memberOfSlot x s) \<noteq> Some MS_ACTIVE) slots
         then Inl (Conflict ''Both swap positions require unrestricted active owners'')
         else case (List.find (\<lambda>x. sl_id x = csd_fromSlotId dto) slots, List.find (\<lambda>x. sl_id x = csd_toSlotId dto) slots) of
           (Some src, Some dst) \<Rightarrow>
             if am_role m \<noteq> GROUP_ADMIN \<and> sl_memberId src \<noteq> am_id m
             then Inl (Forbidden ''Members can initiate swaps only from their own position'')
             else bind_res (swapObstacles g (sl_id src) (sl_id dst) s) (\<lambda>_. writeSwapRequest newId now userId g m src dst s)
         | _ \<Rightarrow> Inl (NotFound ''Swap slot was not found in this group'')))"

definition createSwap ::
  "(string \<Rightarrow> nat \<Rightarrow> string) \<Rightarrow> int \<Rightarrow> string \<Rightarrow> string \<Rightarrow> create_swap_dto \<Rightarrow> ('m ajo_db_scheme, string) handler" where
  "createSwap newId now userId groupId dto s =
     (if csd_fromSlotId dto = csd_toSlotId dto then (Inl (Unprocessable ''Swap positions must be different''), s)
      else serializable (createSwapWithin newId now userId groupId dto) s)"

text \<open>
  \<^verbatim>\<open>requirePending\<close>: for an expired request it writes EXPIRED and then throws, inside the caller's
  transaction, so that the write is rolled back with it.
\<close>

definition requirePending :: "int \<Rightarrow> string \<Rightarrow> string \<Rightarrow> ('m ajo_db_scheme, swap_request) tx" where
  "requirePending now groupId swapId s =
     (case List.find (\<lambda>w. sw_id w = swapId \<and> sw_groupId w = groupId) (swap_requests s) of
        None \<Rightarrow> Inl (NotFound ''Swap request was not found'')
      | Some w \<Rightarrow>
          if sw_status w \<noteq> SW_PENDING then Inl (Conflict ''Swap request is no longer pending'')
          else if (case sw_expiresAt w of None \<Rightarrow> False | Some e \<Rightarrow> e \<le> now)
          then (let s1 = updateSwap swapId (\<lambda>w. w\<lparr>sw_status := SW_EXPIRED, sw_decidedAt := Some now\<rparr>) s in
                bind_res (assertSwapNotExpired (sw_expiresAt w) now) (\<lambda>_. Inr (w, s1)))
          else Inr (w, s))"

definition upsertApproval :: "string \<Rightarrow> string \<Rightarrow> swap_decision \<Rightarrow> 'm ajo_db_scheme \<Rightarrow> 'm ajo_db_scheme" where
  "upsertApproval swapId memberId decision s =
     (if \<exists>a \<in> set (swap_approvals s). sa_swapRequestId a = swapId \<and> sa_approverMemberId a = memberId
      then s\<lparr>swap_approvals := update_where (\<lambda>a. sa_swapRequestId a = swapId \<and> sa_approverMemberId a = memberId)
               (\<lambda>a. a\<lparr>sa_decision := decision\<rparr>) (swap_approvals s)\<rparr>
      else s\<lparr>swap_approvals := swap_approvals s
               @ [\<lparr>sa_swapRequestId = swapId, sa_approverMemberId = memberId, sa_decision = decision\<rparr>]\<rparr>)"

definition swapSlot :: "swap_request \<Rightarrow> string \<Rightarrow> string" where
  "swapSlot w slotId = (if slotId = sw_fromSlotId w then sw_toSlotId w else if slotId = sw_toSlotId w then sw_fromSlotId w else slotId)"

definition swappedPayout :: "(string \<Rightarrow> nat \<Rightarrow> string) \<Rightarrow> swap_request \<Rightarrow> nat \<Rightarrow> payout_schedule \<Rightarrow> payout_schedule" where
  "swappedPayout newId w k p =
     \<lparr>pos_id = newId ''payout'' k, pos_groupId = pos_groupId p, pos_cycleId = pos_cycleId p, pos_slotId = swapSlot w (pos_slotId p),
      pos_amountDue = pos_amountDue p, pos_amountPaid = 0, pos_currency = pos_currency p, pos_dueAt = pos_dueAt p,
      pos_status = PS_PENDING, pos_version = sw_previousVersion w + 1\<rparr>"

definition currentPayouts :: "string \<Rightarrow> int \<Rightarrow> 'm ajo_db_scheme \<Rightarrow> payout_schedule list" where
  "currentPayouts groupId version s =
     sort_key pos_dueAt (filter (\<lambda>p. pos_groupId p = groupId \<and> pos_version p = version) (payout_schedules s))"

text \<open>The writes of \<^verbatim>\<open>execute\<close>, once the request may be executed.\<close>

definition writeSwap ::
  "(string \<Rightarrow> nat \<Rightarrow> string) \<Rightarrow> int \<Rightarrow> string \<Rightarrow> swap_request \<Rightarrow> payout_schedule list \<Rightarrow> ('m ajo_db_scheme, swap_status) tx" where
  "writeSwap newId now userId w current s =
     (let nextVersion = sw_previousVersion w + 1; gid = sw_groupId w;
          previous = List.find (\<lambda>v. svr_groupId v = gid \<and> svr_version v = sw_previousVersion w) (schedule_versions s) in
      bind_res (insertRows payout_clash (map (\<lambda>(k, p). swappedPayout newId w k p) (enumerate 0 current)) (payout_schedules s)) (\<lambda>ps.
      bind_res (insertRow version_clash
          \<lparr>svr_id = newId ''version'' 0, svr_groupId = gid, svr_version = nextVersion, svr_previousId = map_option svr_id previous,
           svr_reason = APPROVED_SWAP, svr_createdBy = userId, svr_expectedInflow = None, svr_expectedOutflow = None\<rparr>
          (schedule_versions s)) (\<lambda>vs.
      Inr (SW_EXECUTED, swapEvent userId gid (sw_id w) ''ajo.swap.executed''
        (updateSwap (sw_id w) (\<lambda>w. w\<lparr>sw_status := SW_EXECUTED, sw_resultingVersion := Some nextVersion, sw_decidedAt := Some now,
            sw_executedAt := Some now\<rparr>)
          (updateGroup gid (\<lambda>g. g\<lparr>ag_scheduleVersion := nextVersion\<rparr>) (s\<lparr>payout_schedules := ps, schedule_versions := vs\<rparr>)))))))"

definition executeSwap :: "(string \<Rightarrow> nat \<Rightarrow> string) \<Rightarrow> int \<Rightarrow> string \<Rightarrow> string \<Rightarrow> ('m ajo_db_scheme, swap_status) tx" where
  "executeSwap newId now userId swapId s =
     (case findSwap swapId s of
        None \<Rightarrow> Inl (Conflict ''Swap is no longer pending'')
      | Some w \<Rightarrow>
      if sw_status w \<noteq> SW_PENDING then Inl (Conflict ''Swap is no longer pending'')
      else case findGroup (sw_groupId w) s of
        None \<Rightarrow> Inl RecordMissing
      | Some g \<Rightarrow>
      if ag_status g = GS_SUSPENDED then Inl (Conflict ''Suspended groups cannot execute swaps'')
      else if ag_scheduleVersion g \<noteq> sw_previousVersion w
      then Inl (Conflict ''Schedule changed after this swap was requested'')
      else if currentPayouts (sw_groupId w) (sw_previousVersion w) s = []
      then Inl (Conflict ''Current payout schedule is missing'')
      else writeSwap newId now userId w (currentPayouts (sw_groupId w) (sw_previousVersion w) s) s)"

definition swapDecisions :: "string \<Rightarrow> 'm ajo_db_scheme \<Rightarrow> (string \<times> swap_decision) list" where
  "swapDecisions swapId s =
     map (\<lambda>a. (sa_approverMemberId a, sa_decision a)) (filter (\<lambda>a. sa_swapRequestId a = swapId) (swap_approvals s))"

text \<open>The holders of the two slots, each once.\<close>

definition requiredApprovers :: "swap_request \<Rightarrow> 'm ajo_db_scheme \<Rightarrow> string list" where
  "requiredApprovers w s =
     remdups (map sl_memberId (filter (\<lambda>x. swapTouches (sw_fromSlotId w) (sw_toSlotId w) (sl_id x)) (ajo_slots s)))"

definition approveSwap ::
  "(string \<Rightarrow> nat \<Rightarrow> string) \<Rightarrow> int \<Rightarrow> string \<Rightarrow> string \<Rightarrow> string \<Rightarrow> ('m ajo_db_scheme, swap_status) handler" where
  "approveSwap newId now userId groupId swapId = serializable (\<lambda>s.
     bind_res (requirePending now groupId swapId s) (\<lambda>(w, s1).
     case findMember groupId userId s1 of
       None \<Rightarrow> Inl (Forbidden ''Active group membership is required'')
     | Some m \<Rightarrow>
     if am_status m \<noteq> MS_ACTIVE then Inl (Forbidden ''Active group membership is required'')
     else if am_id m \<notin> set (requiredApprovers w s1) then Inl (Forbidden ''Only an affected position owner can approve'')
     else
       (let s2 = upsertApproval (sw_id w) (am_id m) SD_APPROVED s1; decisions = swapDecisions (sw_id w) s2 in
        if list_all (\<lambda>i. (i, SD_APPROVED) \<in> set decisions) (requiredApprovers w s1)
        then bind_res (assertAllSwapApprovals (requiredApprovers w s1) decisions) (\<lambda>_. executeSwap newId now userId (sw_id w) s2)
        else Inr (SW_PENDING, swapEvent userId groupId (sw_id w) ''ajo.swap.approved'' s2))))"

definition rejectSwap :: "int \<Rightarrow> string \<Rightarrow> string \<Rightarrow> string \<Rightarrow> ('m ajo_db_scheme, swap_status) handler" where
  "rejectSwap now userId groupId swapId = serializable (\<lambda>s.
     bind_res (requirePending now groupId swapId s) (\<lambda>(w, s1).
     case findMember groupId userId s1 of
       None \<Rightarrow> Inl (Forbidden ''Group membership is required'')
     | Some m \<Rightarrow>
     if \<not> list_ex (\<lambda>x. swapTouches (sw_fromSlotId w) (sw_toSlotId w) (sl_id x) \<and> sl_memberId x = am_id m) (ajo_slots s1)
        \<and> am_role m \<noteq> GROUP_ADMIN
     then Inl (Forbidden ''Only an affected owner or administrator can reject'')
     else Inr (SW_REJECTED, swapEvent userId groupId (sw_id w) ''ajo.swap.rejected''
       (updateSwap (sw_id w) (\<lambda>w. w\<lparr>sw_status := SW_REJECTED, sw_decidedAt := Some now\<rparr>)
         (upsertApproval (sw_id w) (am_id m) SD_REJECTED s1)))))"


section \<open>Lemmas\<close>

lemma swapEvent_frame [simp]:
  "ledger_txs (swapEvent a b c d s) = ledger_txs s" "accounts (swapEvent a b c d s) = accounts s" "core_db.more (swapEvent a b c d s) = core_db.more s"
  by (simp_all add: swapEvent_def)

lemma ajo_tables_of_more:
  "core_db.more s = core_db.more t \<Longrightarrow> ajo_groups s = ajo_groups t \<and> payout_schedules s = payout_schedules t \<and> swap_approvals s = swap_approvals t
     \<and> swap_requests s = swap_requests t \<and> contribution_schedules s = contribution_schedules t \<and> contributions s = contributions t
     \<and> ajo_slots s = ajo_slots t \<and> ajo_members s = ajo_members t"
  by (cases s; cases t) simp

lemma requirePending_Inr:
  assumes "requirePending now gid wid s = Inr (w, s1)"
  shows "s1 = s" "w \<in> set (swap_requests s)" "sw_id w = wid" "sw_groupId w = gid" "sw_status w = SW_PENDING"
    "case sw_expiresAt w of None \<Rightarrow> True | Some e \<Rightarrow> now < e"
  using assms
  by (auto simp: requirePending_def assertSwapNotExpired_def Let_def res_iffs dest: find_SomeD split: option.splits if_splits)

lemma upsertApproval_frame [simp]:
  "payout_schedules (upsertApproval i m d s) = payout_schedules s" "swap_requests (upsertApproval i m d s) = swap_requests s"
  "ajo_groups (upsertApproval i m d s) = ajo_groups s" "ajo_slots (upsertApproval i m d s) = ajo_slots s"
  "contribution_schedules (upsertApproval i m d s) = contribution_schedules s" "ledger_txs (upsertApproval i m d s) = ledger_txs s"
  "accounts (upsertApproval i m d s) = accounts s" "contributions (upsertApproval i m d s) = contributions s"
  "ajo_members (upsertApproval i m d s) = ajo_members s"
  by (simp_all add: upsertApproval_def)

lemma approveSwap_executed:
  assumes "approveSwap newId now u gid wid s = (Inr SW_EXECUTED, s')"
  obtains w m where "w \<in> set (swap_requests s)" "sw_id w = wid" "sw_groupId w = gid" "sw_status w = SW_PENDING"
    "case sw_expiresAt w of None \<Rightarrow> True | Some e \<Rightarrow> now < e"
    "findMember gid u s = Some m" "am_status m = MS_ACTIVE" "am_id m \<in> set (requiredApprovers w s)"
    "\<forall>i \<in> set (requiredApprovers w s). (i, SD_APPROVED) \<in> set (swapDecisions wid (upsertApproval wid (am_id m) SD_APPROVED s))"
    "executeSwap newId now u wid (upsertApproval wid (am_id m) SD_APPROVED s) = Inr (SW_EXECUTED, s')"
proof -
  from assms obtain w s1 where rp: "requirePending now gid wid s = Inr (w, s1)"
    unfolding approveSwap_def serializable_Inr_iff by (auto simp: res_iffs)
  note w = requirePending_Inr [OF rp]
  from assms obtain m where "findMember gid u s = Some m" "am_status m = MS_ACTIVE" "am_id m \<in> set (requiredApprovers w s)"
    "\<forall>i \<in> set (requiredApprovers w s). (i, SD_APPROVED) \<in> set (swapDecisions wid (upsertApproval wid (am_id m) SD_APPROVED s))"
    "executeSwap newId now u wid (upsertApproval wid (am_id m) SD_APPROVED s) = Inr (SW_EXECUTED, s')"
    unfolding approveSwap_def serializable_Inr_iff rp
    by (auto simp: res_iffs Let_def list_all_iff w(1,3) split: option.splits if_splits)
  then show ?thesis by (rule that [OF w(2-6)])
qed

lemma writeSwap_Inr:
  assumes "writeSwap newId now u w current s = Inr (r, s')"
  shows "payout_schedules s' = payout_schedules s @ map (\<lambda>(k, p). swappedPayout newId w k p) (enumerate 0 current)"
    "ajo_groups s' = update_where (\<lambda>g. ag_id g = sw_groupId w) (\<lambda>g. g\<lparr>ag_scheduleVersion := sw_previousVersion w + 1\<rparr>) (ajo_groups s)"
    "swap_requests s' = update_where (\<lambda>v. sw_id v = sw_id w) (\<lambda>w'. w'\<lparr>sw_status := SW_EXECUTED, sw_resultingVersion := Some (sw_previousVersion w + 1),
       sw_decidedAt := Some now, sw_executedAt := Some now\<rparr>) (swap_requests s)"
    "ledger_txs s' = ledger_txs s" "accounts s' = accounts s" "contribution_schedules s' = contribution_schedules s" "contributions s' = contributions s"
    "swap_approvals s' = swap_approvals s" "ajo_slots s' = ajo_slots s" "ajo_members s' = ajo_members s"
  using assms by (auto simp: writeSwap_def Let_def res_iffs insertRows_Inr_iff updateGroup_def updateSwap_def swapEvent_def audit_def outbox_def)

lemma executeSwap_Inr:
  assumes "executeSwap newId now u wid s = Inr (r, s')" and "distinct (map sw_id (swap_requests s))"
    and "w \<in> set (swap_requests s)" "sw_id w = wid"
  obtains g where "findGroup (sw_groupId w) s = Some g" "ag_scheduleVersion g = sw_previousVersion w"
    "writeSwap newId now u w (currentPayouts (sw_groupId w) (sw_previousVersion w) s) s = Inr (r, s')"
proof -
  have "findSwap wid s = Some w" using find_key_unique [OF assms(2,3)] by (simp add: findSwap_def assms(4))
  with assms(1) that show ?thesis by (auto simp: executeSwap_def split: option.splits if_splits)
qed

section \<open>Properties\<close>



text \<open>
  A locked group of three positions after its first cycle: the first payout has been made, the second cycle's
  contributions are in the pool, and the holder of the other two positions asks to swap them.
\<close>

definition demo_move :: "string \<Rightarrow> string \<Rightarrow> string \<Rightarrow> ledger_tx" where
  "demo_move i a b = postedTx i 0 \<lparr>pc_idempotencyKey = ''k'' @ i, pc_reference = ''r'' @ i, pc_description = ''d'',
     pc_currency = ''NGN'', pc_initiatedBy = None, pc_correlationId = None, pc_entries = two_legs a b 1000\<rparr>"

definition demo_swap :: swap_request where
  "demo_swap = \<lparr>sw_id = ''w1'', sw_groupId = ''g1'', sw_requestedByMemberId = ''m1'', sw_initiatedByUserId = ''ada'', sw_byAdministrator = True,
     sw_fromSlotId = ''s1'', sw_toSlotId = ''s3'', sw_originalFromPosition = 1, sw_originalToPosition = 3, sw_proposedFromPosition = 3,
     sw_proposedToPosition = 1, sw_status = SW_PENDING, sw_previousVersion = 0, sw_scheduleVersion = 0, sw_resultingVersion = None,
     sw_feeAssessmentId = None, sw_expiresAt = Some 1000, sw_decidedAt = None, sw_executedAt = None\<rparr>"

definition demo_swap_db :: ajo_db where
  "demo_swap_db = demo_collected_db\<lparr>
     ledger_txs := ledger_txs demo_collected_db @ [demo_move ''t2'' ''pool'' ''wb'', demo_move ''t3'' ''wb'' ''pool''],
     ajo_slots := ajo_slots demo_collected_db @ [demo_slot ''s3'' ''m1'' 3],
     payout_schedules := [demo_payout\<lparr>pos_status := PS_PAID, pos_version := 0\<rparr>,
       demo_payout\<lparr>pos_id := ''po2'', pos_cycleId := ''y2'', pos_slotId := ''s1'', pos_dueAt := 200, pos_version := 0\<rparr>,
       demo_payout\<lparr>pos_id := ''po3'', pos_cycleId := ''y3'', pos_slotId := ''s3'', pos_dueAt := 300, pos_version := 0\<rparr>],
     swap_requests := [demo_swap]\<rparr>"

definition demo_swapped :: "(exn + swap_status) \<times> ajo_db" where
  "demo_swapped = approveSwap (demo_newId ''d'') 400 ''ada'' ''g1'' ''w1'' demo_swap_db"

lemma demo_swapped_eq: "approveSwap (demo_newId ''d'') 400 ''ada'' ''g1'' ''w1'' demo_swap_db = (Inr SW_EXECUTED, snd demo_swapped)"
proof -
  have "fst demo_swapped = Inr SW_EXECUTED" by code_simp
  then show ?thesis by (simp add: prod_eq_iff demo_swapped_def)
qed

lemma demo_swap_keyed: "distinct (map sw_id (swap_requests demo_swap_db))"
  by (simp add: demo_swap_db_def)


text \<open>
  An executed swap opens payouts that were already made: for every payout of the replaced version, a paid one
  included, the new version has one for the same cycle and amount that can be executed. In the witness the administrator then
  pays the first cycle a second time, out of the second cycle's contributions.
\<close>

theorem swap_reopens_paid_payouts:
  assumes ex: "approveSwap newId now u gid wid s = (Inr SW_EXECUTED, s')" and key: "distinct (map sw_id (swap_requests s))"
    and g: "findGroup gid s = Some g" and p: "p \<in> set (payout_schedules s)" "pos_groupId p = gid" "pos_version p = ag_scheduleVersion g" "pos_status p = PS_PAID"
  shows "\<exists>q \<in> set (payout_schedules s'). pos_cycleId q = pos_cycleId p \<and> pos_amountDue q = pos_amountDue p \<and> pos_groupId q = gid
    \<and> pos_version q = ag_scheduleVersion g + 1 \<and> canExecutePayout (pos_status q)"
  using ex
proof (rule approveSwap_executed)
  fix w m
  assume w: "w \<in> set (swap_requests s)" "sw_id w = wid" "sw_groupId w = gid"
    and ex: "executeSwap newId now u wid (upsertApproval wid (am_id m) SD_APPROVED s) = Inr (SW_EXECUTED, s')"
  let ?s = "upsertApproval wid (am_id m) SD_APPROVED s"
  have key': "distinct (map sw_id (swap_requests ?s))" "w \<in> set (swap_requests ?s)" using key w(1) by simp_all
  from executeSwap_Inr [OF ex key' w(2)] g have v: "ag_scheduleVersion g = sw_previousVersion w"
    and wr: "writeSwap newId now u w (currentPayouts gid (sw_previousVersion w) s) ?s = Inr (SW_EXECUTED, s')"
    by (auto simp: w(3) findGroup_def currentPayouts_def)
  have "p \<in> set (currentPayouts gid (sw_previousVersion w) s)" using p v by (simp add: currentPayouts_def)
  then obtain k where k: "k < length (currentPayouts gid (sw_previousVersion w) s)" "currentPayouts gid (sw_previousVersion w) s ! k = p"
    by (auto simp: in_set_conv_nth)
  have "swappedPayout newId w k p \<in> set (payout_schedules s')"
    unfolding writeSwap_Inr(1) [OF wr] using k by (force simp: in_set_enumerate_eq)
  then show ?thesis using p(2) v by (intro bexI [of _ "swappedPayout newId w k p"]) (simp_all add: swappedPayout_def canExecutePayout_def)
qed

text \<open>
  A swap request that ran out of time cannot be cleared: once it has expired, approving and rejecting it are refused with everything
  unchanged, the request still PENDING, and every new request that touches one of its two slots is refused.
\<close>

theorem expired_swap_blocks_its_slots:
  assumes w: "List.find (\<lambda>w. sw_id w = wid \<and> sw_groupId w = gid) (swap_requests s) = Some w" "sw_status w = SW_PENDING" "sw_expiresAt w = Some e" "e \<le> now"
    and touch: "sw_fromSlotId w \<in> {csd_fromSlotId dto, csd_toSlotId dto} \<or> sw_toSlotId w \<in> {csd_fromSlotId dto, csd_toSlotId dto}"
  shows "approveSwap newId now u gid wid s = (Inl (Conflict ''Swap request has expired''), s)
    \<and> rejectSwap now u gid wid s = (Inl (Conflict ''Swap request has expired''), s)
    \<and> (\<exists>err. createSwap newId now u gid dto s = (Inl err, s))"
proof -
  have rp: "requirePending now gid wid s = Inl (Conflict ''Swap request has expired'')"
    using w by (simp add: requirePending_def assertSwapNotExpired_def Let_def)
  have mem: "w \<in> set (swap_requests s)" "sw_groupId w = gid" using w(1) by (auto dest: find_SomeD)
  have "createSwap newId now u gid dto s \<noteq> (Inr r, s')" for r s'
  proof
    assume "createSwap newId now u gid dto s = (Inr r, s')"
    then obtain g where g: "findGroup gid s = Some g" and "swapObstacles g (csd_fromSlotId dto) (csd_toSlotId dto) s = Inr ()"
      unfolding createSwap_def createSwapWithin_def
      by (auto simp: serializable_Inr_iff res_iffs Let_def dest!: find_SomeD split: option.splits if_splits)
    moreover have "ag_id g = gid" using g by (auto simp: findGroup_def dest: find_SomeD)
    ultimately have "\<not> (sw_groupId w = gid \<and> sw_status w = SW_PENDING
        \<and> (swapTouches (csd_fromSlotId dto) (csd_toSlotId dto) (sw_fromSlotId w) \<or> swapTouches (csd_fromSlotId dto) (csd_toSlotId dto) (sw_toSlotId w)))"
      using mem(1) by (auto simp: swapObstacles_def list_ex_iff split: if_splits)
    then show False using mem(2) w(2) touch by (auto simp: swapTouches_def)
  qed
  moreover have "snd (createSwap newId now u gid dto s) = s" if "fst (createSwap newId now u gid dto s) = Inl err" for err
    using that by (auto simp: createSwap_def serializable_def split: sum.splits if_splits)
  ultimately have "\<exists>err. createSwap newId now u gid dto s = (Inl err, s)"
    by (metis prod.collapse sum.exhaust)
  then show ?thesis using rp by (simp add: approveSwap_def rejectSwap_def serializable_def)
qed

theorem expired_swap_blocks_its_slots_witness:
  "\<exists>err. createSwap (demo_newId ''d'') 2000 ''ada'' ''g1'' \<lparr>csd_fromSlotId = ''s3'', csd_toSlotId = ''s2''\<rparr> demo_swap_db = (Inl err, demo_swap_db)"
  using expired_swap_blocks_its_slots [of "''w1''" "''g1''" demo_swap_db demo_swap 1000 2000 "\<lparr>csd_fromSlotId = ''s3'', csd_toSlotId = ''s2''\<rparr>"
      "demo_newId ''d''" "''ada''"]
  by (simp add: demo_swap_db_def demo_swap_def)


section \<open>Histories\<close>

text \<open>Swaps exchange payouts, never positions: the rotation invariant of the slots is untouched.\<close>

lemma rotation_frame_same:
  "ajo_groups t = ajo_groups s \<Longrightarrow> ajo_slots t = ajo_slots s \<Longrightarrow> ajo_members t = ajo_members s \<Longrightarrow> rotation_frame s t"
  by (simp add: rotation_frame_def)

lemma writeSwapRequest_frame:
  assumes "writeSwapRequest newId now u g m src dst s = Inr (i, s')"
  shows "rotation_frame s s'"
  using assms
  by (intro rotation_frame_same)
    (auto simp: writeSwapRequest_def Let_def res_iffs assessSwapFee_def updateSwap_def swapEvent_def audit_def outbox_def split: option.splits)

lemma createSwap_frame: "rotation_frame s (snd (createSwap newId now u gid dto s))"
proof (cases "csd_fromSlotId dto = csd_toSlotId dto")
  case False
  have "rotation_frame s s'" if "createSwapWithin newId now u gid dto s = Inr (a, s')" for a s'
    using that by (auto simp: createSwapWithin_def Let_def res_iffs split: option.splits if_splits intro: writeSwapRequest_frame)
  then show ?thesis using False by (auto simp: createSwap_def intro!: serializable_frame [where P = "rotation_frame s"])
qed (simp add: createSwap_def)

lemma executeSwap_frame:
  assumes "executeSwap newId now u wid s = Inr (r, s')"
  shows "rotation_frame s s'"
proof -
  from assms obtain w where "writeSwap newId now u w (currentPayouts (sw_groupId w) (sw_previousVersion w) s) s = Inr (r, s')"
    by (auto simp: executeSwap_def split: option.splits if_splits)
  from writeSwap_Inr [OF this] show ?thesis by (simp add: rotation_frame_def map_update_where)
qed

lemma approveSwap_frame: "rotation_frame s (snd (approveSwap newId now u gid wid s))"
  unfolding approveSwap_def
proof (rule serializable_frame [where P = "rotation_frame s"], goal_cases)
  case (1 a s')
  then obtain w s1 where rp: "requirePending now gid wid s = Inr (w, s1)" by (auto simp: res_iffs)
  have s1: "s1 = s" by (rule requirePending_Inr(1) [OF rp])
  from 1 obtain m where "executeSwap newId now u (sw_id w) (upsertApproval (sw_id w) m SD_APPROVED s) = Inr (a, s')
      \<or> s' = swapEvent u gid (sw_id w) ''ajo.swap.approved'' (upsertApproval (sw_id w) m SD_APPROVED s)"
    unfolding rp s1 by (auto simp: res_iffs Let_def split: option.splits if_splits)
  then show ?case
  proof
    assume "executeSwap newId now u (sw_id w) (upsertApproval (sw_id w) m SD_APPROVED s) = Inr (a, s')"
    from executeSwap_frame [OF this] show ?thesis by (simp add: rotation_frame_def)
  next
    assume "s' = swapEvent u gid (sw_id w) ''ajo.swap.approved'' (upsertApproval (sw_id w) m SD_APPROVED s)"
    then show ?thesis by (intro rotation_frame_same) (simp_all add: swapEvent_def audit_def outbox_def)
  qed
qed simp

lemma rejectSwap_frame: "rotation_frame s (snd (rejectSwap now u gid wid s))"
  unfolding rejectSwap_def
proof (rule serializable_frame [where P = "rotation_frame s"], goal_cases)
  case (1 a s')
  then obtain w s1 where rp: "requirePending now gid wid s = Inr (w, s1)" by (auto simp: res_iffs)
  have s1: "s1 = s" by (rule requirePending_Inr(1) [OF rp])
  from 1 obtain m f where "s' = swapEvent u gid (sw_id w) ''ajo.swap.rejected'' (updateSwap (sw_id w) f (upsertApproval (sw_id w) m SD_REJECTED s))"
    unfolding rp s1 by (auto simp: res_iffs split: option.splits if_splits)
  then show ?case by (intro rotation_frame_same) (simp_all add: swapEvent_def audit_def outbox_def updateSwap_def)
qed simp

datatype ajo_request =
    GroupRequest group_call
  | CreateSwapRequest "string \<Rightarrow> nat \<Rightarrow> string" int string string create_swap_dto
  | ApproveSwapRequest "string \<Rightarrow> nat \<Rightarrow> string" int string string string
  | RejectSwapRequest int string string string

fun serveAjo :: "(string \<Rightarrow> string) \<Rightarrow> ajo_request \<Rightarrow> 'm ajo_db_scheme \<Rightarrow> 'm ajo_db_scheme" where
  "serveAjo hmac (GroupRequest c) s = serveGroup hmac c s"
| "serveAjo hmac (CreateSwapRequest newId now u gid dto) s = snd (createSwap newId now u gid dto s)"
| "serveAjo hmac (ApproveSwapRequest newId now u gid wid) s = snd (approveSwap newId now u gid wid s)"
| "serveAjo hmac (RejectSwapRequest now u gid wid) s = snd (rejectSwap now u gid wid s)"

interpretation ajo_history: request_safety "serveAjo hmac" groups_ok for hmac
proof
  fix s :: "'m ajo_db_scheme" and q assume "groups_ok s"
  then show "groups_ok (serveAjo hmac q s)"
    by (cases q) (simp_all add: serveGroup_ok rotation_frame_groups_ok [OF createSwap_frame]
        rotation_frame_groups_ok [OF approveSwap_frame] rotation_frame_groups_ok [OF rejectSwap_frame])
qed

lemma map_sort_key: "map f (sort_key f xs) = sort (map f xs)"
  by (rule properties_for_sort [symmetric]) simp_all

text \<open>
  C6. The rotation of every group stays well formed through any history of creating, joining, editing, listing and locking groups and of
  requesting and deciding swaps: the positions of a group's slots are exactly 1 to their number, without gap or
  repetition, and neither its slots nor its active members exceed its limits. So a lock is never refused for its positions.
\<close>

theorem rotation_positions_contiguous:
  assumes "groups_ok s"
  shows "let s' = fold (serveAjo hmac) qs s in
    \<forall>g \<in> set (ajo_groups s').
      map sl_position (sort_key sl_position (groupSlots (ag_id g) s')) = map (\<lambda>i. int i + 1) [0..<length (groupSlots (ag_id g) s')]
      \<and> int (length (groupSlots (ag_id g) s')) \<le> ag_maxSlots g \<and> int (length (activeMembers (ag_id g) s')) \<le> ag_maxMembers g
      \<and> positionsContiguous (map (\<lambda>x. \<lparr>si_id = sl_id x, si_position = sl_position x\<rparr>) (sort_key sl_position (groupSlots (ag_id g) s')))"
  unfolding Let_def
proof
  fix g assume g: "g \<in> set (ajo_groups (fold (serveAjo hmac) qs s))"
  let ?s = "fold (serveAjo hmac) qs s" let ?xs = "sort_key sl_position (groupSlots (ag_id g) ?s)"
  have "rotation_ok ?s" using ajo_history.history_inv [OF assms] by (simp add: groups_ok_def)
  note ok = rotation_okD [OF this g]
  have "sorted (map (\<lambda>i. int i + 1) [0..<length (groupSlots (ag_id g) ?s)])" by (simp add: sorted_iff_nth_mono)
  then have "sort (map sl_position (groupSlots (ag_id g) ?s)) = map (\<lambda>i. int i + 1) [0..<length (groupSlots (ag_id g) ?s)]"
    using ok(1) by (intro properties_for_sort) auto
  then have pos: "map sl_position ?xs = map (\<lambda>i. int i + 1) [0..<length (groupSlots (ag_id g) ?s)]"
    by (simp add: map_sort_key)
  have len: "length ?xs = length (groupSlots (ag_id g) ?s)" by simp
  have at: "sl_position (?xs ! i) = int i + 1" if "i < length ?xs" for i
    using that arg_cong [OF pos, of "\<lambda>ps. ps ! i"] by simp
  have "distinct (map sl_position ?xs)" unfolding pos by (simp add: distinct_map inj_on_def)
  then have "card (set (map sl_position ?xs)) = length ?xs" using distinct_card [of "map sl_position ?xs"] by simp
  then have "positionsContiguous (map (\<lambda>x. \<lparr>si_id = sl_id x, si_position = sl_position x\<rparr>) ?xs)"
    using at by (auto simp: positionsContiguous_def list_ex_iff in_set_enumerate_eq o_def)
  with pos ok(2,3) show "map sl_position ?xs = map (\<lambda>i. int i + 1) [0..<length (groupSlots (ag_id g) ?s)]
      \<and> int (length (groupSlots (ag_id g) ?s)) \<le> ag_maxSlots g \<and> int (length (activeMembers (ag_id g) ?s)) \<le> ag_maxMembers g
      \<and> positionsContiguous (map (\<lambda>x. \<lparr>si_id = sl_id x, si_position = sl_position x\<rparr>) ?xs)" by blast
qed


lemma demo_groups_ok: "groups_ok demo_ajo_db"
  by (simp add: demo_ajo_db_def groups_ok_def rotation_ok_def rotation_tables_def groups_keyed_def webhook_db.defs ajo_db.defs)

definition demo_history :: "ajo_request list" where
  "demo_history = [GroupRequest \<lparr>gc_user = ''ada'', gc_now = 10, gc_ids = demo_newId ''a'',
     gc_request = CreateGroup ''7Q3KMTP'' ''K7QM4TXP2R'' demo_group_dto\<rparr>]"

theorem rotation_positions_contiguous_witness:
  "groups_ok demo_ajo_db \<and>
   list_all (\<lambda>g. int (length (groupSlots (ag_id g) (fold (serveAjo (\<lambda>c. c)) demo_history demo_ajo_db))) \<le> ag_maxSlots g)
     (ajo_groups (fold (serveAjo (\<lambda>c. c)) demo_history demo_ajo_db))"
  using rotation_positions_contiguous [OF demo_groups_ok, of "\<lambda>c. c" demo_history] demo_groups_ok
  unfolding Let_def list_all_iff by blast

end
