(* ===== verification/Pagination.thy ===== *)
theory Pagination
  imports Ajo_Prelude
begin

text \<open>
  Cursor pagination, as every list of the system does it: the query takes one row more than the page from the row after the
  cursor on (\<^verbatim>\<open>take: limit + 1\<close>, \<^verbatim>\<open>cursor: { id }\<close>, \<^verbatim>\<open>skip: 1\<close>), and the page's last id is the next cursor when that
  extra row exists (\<^verbatim>\<open>AdminService.paginate\<close> and its copies in the Akawo statement, the food programme list and the notification feed). The
  lemmas show that a client that follows the cursors receives every row once, in order, and stops.
\<close>

section \<open>Pages\<close>

definition lastId :: "('r \<Rightarrow> string) \<Rightarrow> 'r list \<Rightarrow> string option" where
  "lastId key items = (if items = [] then None else Some (key (last items)))"

definition paginate :: "('r \<Rightarrow> string) \<Rightarrow> 'r list \<Rightarrow> nat \<Rightarrow> 'r list \<times> string option" where
  "paginate key items limit = (let page = take limit items in (page, if length items > limit then lastId key page else None))"

text \<open>The rows Prisma returns for a cursor: none when no row has its id, otherwise those after it.\<close>

definition afterCursor :: "('r \<Rightarrow> string) \<Rightarrow> string option \<Rightarrow> 'r list \<Rightarrow> 'r list" where
  "afterCursor key cursor rows =
     (case truthy cursor of None \<Rightarrow> rows | Some c \<Rightarrow> drop 1 (dropWhile (\<lambda>r. key r \<noteq> c) rows))"

definition findPage :: "('r \<Rightarrow> string) \<Rightarrow> nat \<Rightarrow> string option \<Rightarrow> 'r list \<Rightarrow> 'r list \<times> string option" where
  "findPage key limit cursor rows = paginate key (take (limit + 1) (afterCursor key cursor rows)) limit"

text \<open>A client that follows the cursors for at most \<open>n\<close> requests; it has everything when the last cursor is null.\<close>

fun followCursors :: "nat \<Rightarrow> ('r \<Rightarrow> string) \<Rightarrow> nat \<Rightarrow> string option \<Rightarrow> 'r list \<Rightarrow> 'r list option" where
  "followCursors 0 key limit cursor rows = None"
| "followCursors (Suc n) key limit cursor rows =
     (case findPage key limit cursor rows of
        (items, None) \<Rightarrow> Some items
      | (items, Some c) \<Rightarrow> map_option (\<lambda>rest. items @ rest) (followCursors n key limit (Some c) rows))"

text \<open>The position of an id in the order of its column; the ids have one length.\<close>

definition idRank :: "string \<Rightarrow> int" where
  "idRank uuid = foldl (\<lambda>n c. n * 256 + int (char_code c)) 0 uuid"

section \<open>Lemmas\<close>

lemma dropWhile_key:
  "distinct (map key (xs @ y # ys)) \<Longrightarrow> dropWhile (\<lambda>r. key r \<noteq> key y) (xs @ y # ys) = y # ys"
  by (induction xs) auto

lemma afterCursor_split:
  assumes "distinct (map key (xs @ y # ys))" and "key y \<noteq> []"
  shows "afterCursor key (Some (key y)) (xs @ y # ys) = ys"
  using dropWhile_key [OF assms(1)] assms(2) by (simp add: afterCursor_def truthy_def)

lemma findPage_items: "fst (findPage key limit c rows) = take limit (afterCursor key c rows)"
  by (simp add: findPage_def paginate_def Let_def min_def)

lemma findPage_last:
  assumes "0 < limit"
  shows "snd (findPage key limit c rows) =
    (if length (afterCursor key c rows) \<le> limit then None else Some (key (afterCursor key c rows ! (limit - 1))))"
proof (cases "length (afterCursor key c rows) \<le> limit")
  case False
  then have ne: "take limit (afterCursor key c rows) \<noteq> []" using assms by auto
  then have "last (take limit (afterCursor key c rows)) = afterCursor key c rows ! (limit - 1)"
    using assms False by (simp add: last_conv_nth)
  with ne False show ?thesis by (simp add: findPage_def paginate_def Let_def lastId_def min_def)
qed (simp add: findPage_def paginate_def Let_def)

lemma findPage_cases:
  assumes "0 < limit"
  obtains "length (afterCursor key c rows) \<le> limit" "findPage key limit c rows = (afterCursor key c rows, None)"
  | pre y post where "afterCursor key c rows = pre @ y # post" "length pre + 1 = limit" "post \<noteq> []"
      "findPage key limit c rows = (pre @ [y], Some (key y))"
proof (cases "length (afterCursor key c rows) \<le> limit")
  case True
  then show ?thesis using that(1) findPage_items [of key limit c rows] findPage_last [OF assms, of key c rows]
    by (cases "findPage key limit c rows") simp
next
  case False
  let ?r = "afterCursor key c rows" and ?k = "limit - 1"
  have k: "?k < length ?r" "Suc ?k = limit" using False assms by auto
  then have "?r = take ?k ?r @ ?r ! ?k # drop limit ?r" by (metis id_take_nth_drop)
  moreover have "take limit ?r = take ?k ?r @ [?r ! ?k]" using k take_Suc_conv_app_nth [of ?k ?r] by simp
  ultimately show ?thesis using False k assms findPage_items [of key limit c rows] findPage_last [OF assms, of key c rows]
    by (intro that(2) [of "take ?k ?r" "?r ! ?k" "drop limit ?r"]) (auto simp: prod_eq_iff)
qed

lemma followCursors_from:
  assumes "0 < limit" and "distinct (map key rows)" and "[] \<notin> key ` set rows"
    and "rows = pre @ afterCursor key c rows" and "length (afterCursor key c rows) < n"
  shows "followCursors n key limit c rows = Some (afterCursor key c rows)"
  using assms(4,5)
proof (induction n arbitrary: pre c)
  case (Suc n)
  from assms(1) show ?case
  proof (cases rule: findPage_cases [of limit key c rows])
    case (2 xs y post)
    then have rows: "rows = (pre @ xs) @ y # post" using Suc.prems(1) by simp
    then have "y \<in> set rows" by simp
    then have "key y \<noteq> []" using assms(3) by (metis image_eqI)
    moreover have "distinct (map key ((pre @ xs) @ y # post))" using assms(2) rows by simp
    ultimately have after: "afterCursor key (Some (key y)) rows = post" unfolding rows by (rule afterCursor_split [rotated])
    have "followCursors n key limit (Some (key y)) rows = Some post"
      using Suc.IH [of "pre @ xs @ [y]" "Some (key y)"] rows after Suc.prems(2) 2(1) by simp
    with 2 show ?thesis by simp
  qed simp
qed simp

section \<open>Properties\<close>



end
