(* ===== verification/Akawo.thy ===== *)
theory Akawo
  imports Ajo_Swaps Pagination
begin

text \<open>
  Akawo: collection pools (\<^verbatim>\<open>src/modules/akawo/akawo-pools.service.ts\<close>, \<^verbatim>\<open>domain/pool-policy.ts\<close>), personal
  savings goals (\<^verbatim>\<open>akawo.service.ts\<close>) and the payment of a pool due
  (\<^verbatim>\<open>src/modules/payments/targets/akawo-pool-due.target.ts\<close>). The lemmas show that memberships and dues
  go together, that only a settled payment makes a due PAID, and what paying a due moves. Random bytes, ids,
  the database's short codes and the SHA-256 digest are arguments; \<^verbatim>\<open>updatedAt\<close> stamps are left out. A record
  that a query selects is a record that the row extends, so selecting is truncation.
\<close>

section \<open>Pool policy\<close>

datatype pool_status = APS_DRAFT | APS_OPEN | APS_CLOSED | APS_CANCELLED
datatype pool_member_status = APM_ACTIVE | APM_REMOVED
datatype due_status = AD_PENDING | AD_PROCESSING | AD_PAID | AD_WAIVED

definition poolAcceptsMembers :: "pool_status \<Rightarrow> bool" where
  "poolAcceptsMembers status \<longleftrightarrow> status = APS_OPEN"

definition acceptsPayment :: "pool_status \<Rightarrow> due_status \<Rightarrow> bool" where
  "acceptsPayment poolStatus dueStatus \<longleftrightarrow> poolStatus = APS_OPEN \<and> dueStatus = AD_PENDING"

definition canTransitionPool :: "pool_status \<Rightarrow> pool_status \<Rightarrow> bool" where
  "canTransitionPool from to \<longleftrightarrow>
     (if from = APS_DRAFT then to = APS_OPEN \<or> to = APS_CANCELLED
      else if from = APS_OPEN then to = APS_CLOSED \<or> to = APS_CANCELLED
      else False)"

definition canCancelPool :: "pool_status \<Rightarrow> nat \<Rightarrow> bool" where
  "canCancelPool status paidCount \<longleftrightarrow> canTransitionPool status APS_CANCELLED \<and> paidCount = 0"

definition canRemoveMember :: "due_status \<Rightarrow> bool" where
  "canRemoveMember dueStatus \<longleftrightarrow> dueStatus = AD_PENDING \<or> dueStatus = AD_WAIVED"

definition collectionProgressBps :: "int \<Rightarrow> int \<Rightarrow> int" where
  "collectionProgressBps paidMinor expectedMinor =
     (if expectedMinor \<le> 0 then 0
      else let bps = tdiv (paidMinor * 10000) expectedMinor in if bps > 10000 then 10000 else bps)"

definition JOIN_CODE_ALPHABET :: string where
  "JOIN_CODE_ALPHABET = ''ABCDEFGHJKMNPQRSTUVWXYZ23456789''"

definition normalizeJoinCode :: "string \<Rightarrow> string" where
  "normalizeJoinCode code = filter (\<lambda>c. \<not> (is_space c \<or> c = CHR ''-'')) (toUpperCase (trim code))"

definition isValidJoinCodeShape :: "string \<Rightarrow> bool" where
  "isValidJoinCodeShape code \<longleftrightarrow>
     (let normalized = normalizeJoinCode code in
      length normalized = 8 \<and> list_all (\<lambda>c. c \<in> set JOIN_CODE_ALPHABET) normalized)"

definition generateJoinCode :: "nat list \<Rightarrow> string" where
  "generateJoinCode randomBytes =
     map (\<lambda>byte. JOIN_CODE_ALPHABET ! (byte mod length JOIN_CODE_ALPHABET)) (take 8 randomBytes)"

lemmas [policy_defs] = poolAcceptsMembers_def acceptsPayment_def canTransitionPool_def canCancelPool_def canRemoveMember_def

section \<open>Tables\<close>

text \<open>What \<^verbatim>\<open>poolSelect\<close>, \<^verbatim>\<open>memberSelect\<close> and the selection of a due show, and the rows they come from.\<close>

record pool_view =
  po_id :: string
  po_name :: string
  po_purpose :: "string option"
  po_amount :: int
  po_currency :: string
  po_status :: pool_status
  po_referenceLabel :: string
  po_dueAt :: "int option"
  po_closedAt :: "int option"
  po_shortCode :: string
  po_publiclyListed :: bool
  po_createdAt :: int

record akawo_pool = pool_view +
  po_organiserUserId :: string
  po_joinCodeDigest :: string

record pool_member_view =
  pm_id :: string
  pm_fullName :: string
  pm_reference :: string
  pm_status :: pool_member_status
  pm_joinedAt :: int

record pool_member = pool_member_view +
  pm_poolId :: string
  pm_userId :: string
  pm_removedAt :: "int option"

record due_view =
  du_id :: string
  du_amount :: int
  du_status :: due_status
  du_paidAt :: "int option"

record pool_due = due_view +
  du_poolId :: string
  du_memberId :: string
  du_currency :: string
  du_ledgerTransactionId :: "string option"
  du_waivedReason :: "string option"

datatype goal_type = GT_FLEXIBLE | GT_TARGET | GT_LOCKED
datatype goal_status = GO_DRAFT | GO_ACTIVE | GO_PAUSED | GO_COMPLETED | GO_CANCELLED
datatype savings_schedule_status = SSS_PENDING | SSS_DUE | SSS_PAID | SSS_MISSED | SSS_CANCELLED
datatype payment_status = PST_PENDING | PST_PROCESSING | PST_SUCCEEDED | PST_FAILED | PST_REVERSED
datatype withdrawal_rule_type = WR_FLEXIBLE | WR_LOCKED_UNTIL_DATE | WR_TARGET_REACHED

record savings_goal_view =
  sg_id :: string
  sg_name :: string
  sg_type :: goal_type
  sg_target :: int
  sg_currency :: string
  sg_status :: goal_status
  sg_targetDate :: "int option"
  sg_maturityAt :: "int option"
  sg_autoSaveEnabled :: bool
  sg_reminderEnabled :: bool
  sg_createdAt :: int

record savings_goal = savings_goal_view +
  sg_userId :: string
  sg_withdrawalRule :: withdrawal_rule_type

record savings_schedule =
  ss_id :: string
  ss_goalId :: string
  ss_amount :: int
  ss_currency :: string
  ss_dueAt :: int
  ss_status :: savings_schedule_status

record savings_contribution =
  sc_id :: string
  sc_goalId :: string
  sc_amount :: int
  sc_currency :: string
  sc_status :: payment_status
  sc_createdAt :: int
  sc_ledgerTransactionId :: "string option"

record akawo_db = ajo_db +
  akawo_pools :: "akawo_pool list"
  pool_members :: "pool_member list"
  pool_dues :: "pool_due list"
  savings_goals :: "savings_goal list"
  savings_schedules :: "savings_schedule list"
  savings_contributions :: "savings_contribution list"

definition pool_clash :: "akawo_pool \<Rightarrow> akawo_pool \<Rightarrow> bool" where
  "pool_clash a b \<longleftrightarrow> po_id a = po_id b \<or> po_joinCodeDigest a = po_joinCodeDigest b \<or> po_shortCode a = po_shortCode b"

definition pool_member_clash :: "pool_member \<Rightarrow> pool_member \<Rightarrow> bool" where
  "pool_member_clash a b \<longleftrightarrow> pm_id a = pm_id b
     \<or> (pm_poolId a = pm_poolId b \<and> (pm_userId a = pm_userId b \<or> pm_reference a = pm_reference b))"

definition due_clash :: "pool_due \<Rightarrow> pool_due \<Rightarrow> bool" where
  "due_clash a b \<longleftrightarrow> du_id a = du_id b \<or> (du_poolId a = du_poolId b \<and> du_memberId a = du_memberId b)
     \<or> (du_ledgerTransactionId a \<noteq> None \<and> du_ledgerTransactionId a = du_ledgerTransactionId b)"

section \<open>AkawoPoolsService\<close>

definition findPool :: "string \<Rightarrow> 'm akawo_db_scheme \<Rightarrow> akawo_pool option" where
  "findPool poolId s = List.find (\<lambda>p. po_id p = poolId) (akawo_pools s)"

definition findDue :: "string \<Rightarrow> string \<Rightarrow> 'm akawo_db_scheme \<Rightarrow> pool_due option" where
  "findDue poolId memberId s = List.find (\<lambda>d. du_poolId d = poolId \<and> du_memberId d = memberId) (pool_dues s)"

definition firstDue :: "string \<Rightarrow> 'm akawo_db_scheme \<Rightarrow> due_view option" where
  "firstDue memberId s = map_option due_view.truncate (List.find (\<lambda>d. du_memberId d = memberId) (pool_dues s))"

record pool_totals =
  tt_memberCount :: nat
  tt_paidCount :: nat
  tt_collected :: int

definition poolTotals :: "string \<Rightarrow> 'm akawo_db_scheme \<Rightarrow> pool_totals" where
  "poolTotals poolId s =
     (let paid = filter (\<lambda>d. du_poolId d = poolId \<and> du_status d = AD_PAID) (pool_dues s) in
      \<lparr>tt_memberCount = length (filter (\<lambda>m. pm_poolId m = poolId \<and> pm_status m = APM_ACTIVE) (pool_members s)),
       tt_paidCount = length paid, tt_collected = sum_list (map du_amount paid)\<rparr>)"

record pool_progress =
  pg_totals :: pool_totals
  pg_expected :: int
  pg_progressBps :: int

definition poolProgress :: "int \<Rightarrow> pool_totals \<Rightarrow> pool_progress" where
  "poolProgress amountMinor t =
     (let expectedMinor = amountMinor * int (tt_memberCount t) in
      \<lparr>pg_totals = t, pg_expected = expectedMinor, pg_progressBps = collectionProgressBps (tt_collected t) expectedMinor\<rparr>)"

definition withTotals :: "akawo_pool \<Rightarrow> 'm akawo_db_scheme \<Rightarrow> pool_view \<times> pool_progress" where
  "withTotals p s = (pool_view.truncate p, poolProgress (po_amount p) (poolTotals (po_id p) s))"

record create_pool_dto =
  cp_name :: string
  cp_purpose :: "string option"
  cp_amount :: int
  cp_referenceLabel :: "string option"
  cp_dueAt :: "int option"

definition newPool :: "string \<Rightarrow> string \<Rightarrow> string \<Rightarrow> int \<Rightarrow> string \<Rightarrow> create_pool_dto \<Rightarrow> akawo_pool" where
  "newPool pid shortCode codeDigest now organiserUserId dto =
     \<lparr>po_id = pid, po_name = cp_name dto, po_purpose = truthy (cp_purpose dto), po_amount = cp_amount dto, po_currency = ''NGN'',
      po_status = APS_DRAFT, po_referenceLabel = or_default (truthy (cp_referenceLabel dto)) ''Reference'', po_dueAt = cp_dueAt dto,
      po_closedAt = None, po_shortCode = shortCode, po_publiclyListed = False, po_createdAt = now,
      po_organiserUserId = organiserUserId, po_joinCodeDigest = codeDigest\<rparr>"

definition createPool ::
  "(string \<Rightarrow> string) \<Rightarrow> string \<Rightarrow> string \<Rightarrow> nat list \<Rightarrow> int \<Rightarrow> string \<Rightarrow> create_pool_dto \<Rightarrow>
     ('m akawo_db_scheme, pool_view \<times> string) handler" where
  "createPool sha256 pid shortCode randomBytes now organiserUserId dto =
     serializable (\<lambda>s.
       if (case cp_dueAt dto of None \<Rightarrow> False | Some d \<Rightarrow> d \<le> now) then Inl (Unprocessable ''The due date must be in the future'')
       else let joinCode = generateJoinCode randomBytes;
                pool = newPool pid shortCode (sha256 joinCode) now organiserUserId dto in
         bind_res (insertRow pool_clash pool (akawo_pools s)) (\<lambda>ps.
           Inr ((pool_view.truncate pool, joinCode), s\<lparr>akawo_pools := ps\<rparr>)))"

definition listOrganised :: "string \<Rightarrow> 'm akawo_db_scheme \<Rightarrow> (pool_view \<times> nat \<times> pool_progress) list" where
  "listOrganised organiserUserId s =
     map (\<lambda>p. let (v, g) = withTotals p s in (v, length (filter (\<lambda>m. pm_poolId m = po_id p) (pool_members s)), g))
       (sort_key (\<lambda>p. - po_createdAt p) (filter (\<lambda>p. po_organiserUserId p = organiserUserId) (akawo_pools s)))"

record joined_pool =
  jp_membershipId :: string
  jp_pool :: pool_view
  jp_organiserName :: string
  jp_due :: "due_view option"
  jp_progress :: pool_progress

definition listJoined :: "string \<Rightarrow> 'm akawo_db_scheme \<Rightarrow> joined_pool list" where
  "listJoined userId s =
     [\<lparr>jp_membershipId = pm_id m, jp_pool = pool_view.truncate p,
       jp_organiserName = or_default (displayNameOf (po_organiserUserId p) s) ''Organiser'',
       jp_due = firstDue (pm_id m) s, jp_progress = poolProgress (po_amount p) (poolTotals (po_id p) s)\<rparr>.
      m \<leftarrow> sort_key (\<lambda>m. - pm_joinedAt m) (filter (\<lambda>m. pm_userId m = userId \<and> pm_status m = APM_ACTIVE) (pool_members s)),
      p \<leftarrow> akawo_pools s, po_id p = pm_poolId m]"

definition requireOrganiser :: "string \<Rightarrow> string \<Rightarrow> 'm akawo_db_scheme \<Rightarrow> akawo_pool res" where
  "requireOrganiser organiserUserId poolId s =
     (case findPool poolId s of
        None \<Rightarrow> Inl (NotFound ''Pool was not found'')
      | Some p \<Rightarrow> if po_organiserUserId p \<noteq> organiserUserId then Inl (Forbidden ''You do not organise this pool'') else Inr p)"

record organiser_view =
  ov_pool :: pool_view
  ov_members :: "(pool_member_view \<times> due_view option) list"
  ov_progress :: pool_progress

definition duePaid :: "due_view option \<Rightarrow> bool" where
  "duePaid d \<longleftrightarrow> (case d of None \<Rightarrow> False | Some v \<Rightarrow> du_status v = AD_PAID)"

definition getOrganiserView :: "string \<Rightarrow> string \<Rightarrow> 'm akawo_db_scheme \<Rightarrow> organiser_view res" where
  "getOrganiserView organiserUserId poolId s =
     bind_res (requireOrganiser organiserUserId poolId s) (\<lambda>p.
       let rows = map (\<lambda>m. (pool_member_view.truncate m, firstDue (pm_id m) s))
             (sort_key pm_joinedAt (filter (\<lambda>m. pm_poolId m = poolId \<and> pm_status m = APM_ACTIVE) (pool_members s)));
           collectedMinor = foldl (\<lambda>t row. case snd row of
               None \<Rightarrow> t | Some d \<Rightarrow> if du_status d = AD_PAID then t + du_amount d else t) 0 rows
       in Inr \<lparr>ov_pool = pool_view.truncate p, ov_members = rows,
            ov_progress = poolProgress (po_amount p)
              \<lparr>tt_memberCount = length rows, tt_paidCount = length (filter (\<lambda>row. duePaid (snd row)) rows), tt_collected = collectedMinor\<rparr>\<rparr>)"

definition getMemberView ::
  "string \<Rightarrow> string \<Rightarrow> 'm akawo_db_scheme \<Rightarrow> (pool_member_view \<times> pool_view option \<times> due_view option \<times> pool_totals) res" where
  "getMemberView userId poolId s =
     (case List.find (\<lambda>m. pm_poolId m = poolId \<and> pm_userId m = userId) (pool_members s) of
        None \<Rightarrow> Inl (NotFound ''You are not a member of this pool'')
      | Some m \<Rightarrow> Inr (pool_member_view.truncate m, map_option pool_view.truncate (findPool poolId s), firstDue (pm_id m) s,
          poolTotals poolId s))"

definition findByJoinCode :: "(string \<Rightarrow> string) \<Rightarrow> string \<Rightarrow> 'm akawo_db_scheme \<Rightarrow> akawo_pool res" where
  "findByJoinCode sha256 code s =
     (case normalisePublicCode code of
        Some publicCode \<Rightarrow>
          (case List.find (\<lambda>p. po_shortCode p = publicCode) (akawo_pools s) of
             None \<Rightarrow> Inl (NotFound ''That join code was not recognised'')
           | Some p \<Rightarrow> if \<not> po_publiclyListed p then Inl (NotFound ''That join code was not recognised'') else Inr p)
      | None \<Rightarrow>
          if \<not> isValidJoinCodeShape code then Inl (NotFound ''That join code was not recognised'')
          else case List.find (\<lambda>p. po_joinCodeDigest p = sha256 (normalizeJoinCode code)) (akawo_pools s) of
             None \<Rightarrow> Inl (NotFound ''That join code was not recognised'') | Some p \<Rightarrow> Inr p)"

definition organiserName :: "akawo_pool \<Rightarrow> 'm akawo_db_scheme \<Rightarrow> string" where
  "organiserName p s =
     (case List.find (\<lambda>f. pf_userId f = po_organiserUserId p) (profiles s) of
        None \<Rightarrow> ''Pool organiser'' | Some f \<Rightarrow> pf_firstName f @ '' '' @ pf_lastName f)"

record pool_preview =
  pp_name :: string
  pp_purpose :: "string option"
  pp_amount :: int
  pp_currency :: string
  pp_referenceLabel :: string
  pp_dueAt :: "int option"
  pp_organiserName :: string

definition describePool :: "akawo_pool \<Rightarrow> 'm akawo_db_scheme \<Rightarrow> pool_preview" where
  "describePool p s =
     \<lparr>pp_name = po_name p, pp_purpose = po_purpose p, pp_amount = po_amount p, pp_currency = po_currency p,
      pp_referenceLabel = po_referenceLabel p, pp_dueAt = po_dueAt p, pp_organiserName = organiserName p s\<rparr>"

definition previewPool :: "(string \<Rightarrow> string) \<Rightarrow> string \<Rightarrow> 'm akawo_db_scheme \<Rightarrow> (string \<times> pool_preview) res" where
  "previewPool sha256 joinCode s =
     bind_res (findByJoinCode sha256 joinCode s) (\<lambda>p. Inr (po_id p, describePool p s))"

definition publicPreview :: "(string \<Rightarrow> string) \<Rightarrow> string \<Rightarrow> 'm akawo_db_scheme \<Rightarrow> (string \<times> string option \<times> pool_preview) res" where
  "publicPreview sha256 code s =
     bind_res (findByJoinCode sha256 code s) (\<lambda>p.
       if \<not> poolAcceptsMembers (po_status p) then Inl (NotFound ''That join code was not recognised'')
       else Inr (if po_publiclyListed p then ''listed'' else ''code'',
                 if po_publiclyListed p then Some (po_shortCode p) else None, describePool p s))"

record join_pool_dto =
  jo_joinCode :: string
  jo_fullName :: string
  jo_reference :: string

definition newDue :: "string \<Rightarrow> string \<Rightarrow> akawo_pool \<Rightarrow> pool_due" where
  "newDue did memberId p =
     \<lparr>du_id = did, du_amount = po_amount p, du_status = AD_PENDING, du_paidAt = None, du_poolId = po_id p, du_memberId = memberId,
      du_currency = po_currency p, du_ledgerTransactionId = None, du_waivedReason = None\<rparr>"

definition admitToPool ::
  "string \<Rightarrow> string \<Rightarrow> int \<Rightarrow> string \<Rightarrow> join_pool_dto \<Rightarrow> akawo_pool \<Rightarrow> ('m akawo_db_scheme, pool_member_view \<times> due_view) tx" where
  "admitToPool mid did now userId dto p s =
     (let member = \<lparr>pm_id = mid, pm_fullName = jo_fullName dto, pm_reference = jo_reference dto, pm_status = APM_ACTIVE,
            pm_joinedAt = now, pm_poolId = po_id p, pm_userId = userId, pm_removedAt = None\<rparr>;
          due = newDue did mid p in
      bind_res (insertRow pool_member_clash member (pool_members s)) (\<lambda>ms.
      bind_res (insertRow due_clash due (pool_dues s)) (\<lambda>ds.
        Inr ((pool_member_view.truncate member, due_view.truncate due),
          audit (Some userId) ''akawo.pool.joined'' ''AkawoPool'' (Some (po_id p)) None
            (s\<lparr>pool_members := ms, pool_dues := ds\<rparr>)))))"

definition joinPool ::
  "(string \<Rightarrow> string) \<Rightarrow> string \<Rightarrow> string \<Rightarrow> int \<Rightarrow> string \<Rightarrow> join_pool_dto \<Rightarrow>
     ('m akawo_db_scheme, pool_member_view \<times> due_view) handler" where
  "joinPool sha256 mid did now userId dto = serializable (\<lambda>s.
     bind_res (findByJoinCode sha256 (jo_joinCode dto) s) (\<lambda>p.
     if \<not> poolAcceptsMembers (po_status p) then Inl (Conflict ''This pool is not accepting members'')
     else
     bind_res (case findPool (po_id p) s of None \<Rightarrow> Inr () | Some owner \<Rightarrow> assertOrganiserVerified s (po_organiserUserId owner)) (\<lambda>_.
     if \<exists>m \<in> set (pool_members s). pm_poolId m = po_id p \<and> pm_userId m = userId
     then Inl (Conflict ''You have already joined this pool'')
     else if \<exists>m \<in> set (pool_members s). pm_poolId m = po_id p \<and> pm_reference m = jo_reference dto
     then Inl (Conflict (''That '' @ toLowerCase (po_referenceLabel p) @ '' is already used in this pool''))
     else admitToPool mid did now userId dto p s)))"

definition updatePool :: "string \<Rightarrow> (akawo_pool \<Rightarrow> akawo_pool) \<Rightarrow> 'm akawo_db_scheme \<Rightarrow> 'm akawo_db_scheme" where
  "updatePool poolId f s = s\<lparr>akawo_pools := update_where (\<lambda>p. po_id p = poolId) f (akawo_pools s)\<rparr>"

definition auditPool :: "string \<Rightarrow> string \<Rightarrow> string \<Rightarrow> 'm core_db_scheme \<Rightarrow> 'm core_db_scheme" where
  "auditPool userId poolId action s = audit (Some userId) action ''AkawoPool'' (Some poolId) None s"

record update_pool_dto =
  up_name :: "string option"
  up_purpose :: "string option"
  up_dueAt :: "int option"
  up_publiclyListed :: "bool option"

definition editPool :: "update_pool_dto \<Rightarrow> akawo_pool \<Rightarrow> akawo_pool" where
  "editPool dto p =
     p\<lparr>po_name := or_default (truthy (up_name dto)) (po_name p),
       po_purpose := (case up_purpose dto of None \<Rightarrow> po_purpose p | Some x \<Rightarrow> Some x),
       po_dueAt := (case up_dueAt dto of None \<Rightarrow> po_dueAt p | Some x \<Rightarrow> Some x),
       po_publiclyListed := or_default (up_publiclyListed dto) (po_publiclyListed p)\<rparr>"

definition updateAkawoPool :: "string \<Rightarrow> string \<Rightarrow> update_pool_dto \<Rightarrow> ('m akawo_db_scheme, pool_view) handler" where
  "updateAkawoPool organiserUserId poolId dto = serializable (\<lambda>s.
     bind_res (requireOrganiser organiserUserId poolId s) (\<lambda>p.
     if po_status p = APS_CLOSED \<or> po_status p = APS_CANCELLED then Inl (Conflict ''A closed pool cannot be edited'')
     else let s1 = updatePool poolId (editPool dto) s in
       Inr (pool_view.truncate (editPool dto p),
         case up_publiclyListed dto of
           None \<Rightarrow> s1
         | Some listed \<Rightarrow> if listed \<noteq> po_publiclyListed p
             then auditPool organiserUserId poolId (if listed then ''akawo.pool.listed'' else ''akawo.pool.unlisted'') s1 else s1)))"

fun pool_status_name :: "pool_status \<Rightarrow> string" where
  "pool_status_name APS_DRAFT = ''DRAFT''"
| "pool_status_name APS_OPEN = ''OPEN''"
| "pool_status_name APS_CLOSED = ''CLOSED''"
| "pool_status_name APS_CANCELLED = ''CANCELLED''"

definition moveTo :: "pool_status \<Rightarrow> int \<Rightarrow> akawo_pool \<Rightarrow> akawo_pool" where
  "moveTo to now p = p\<lparr>po_status := to, po_closedAt := (if to = APS_CLOSED then Some now else po_closedAt p)\<rparr>"

definition transitionPool ::
  "int \<Rightarrow> string \<Rightarrow> string \<Rightarrow> pool_status \<Rightarrow> string \<Rightarrow> ('m akawo_db_scheme, pool_view) handler" where
  "transitionPool now organiserUserId poolId to action = serializable (\<lambda>s.
     bind_res (requireOrganiser organiserUserId poolId s) (\<lambda>p.
     if \<not> canTransitionPool (po_status p) to
     then Inl (Conflict (''A '' @ toLowerCase (pool_status_name (po_status p)) @ '' pool cannot become '' @ toLowerCase (pool_status_name to)))
     else Inr (pool_view.truncate (moveTo to now p), auditPool organiserUserId poolId action (updatePool poolId (moveTo to now) s))))"

definition openPool :: "int \<Rightarrow> string \<Rightarrow> string \<Rightarrow> ('m akawo_db_scheme, pool_view) handler" where
  "openPool now organiserUserId poolId = transitionPool now organiserUserId poolId APS_OPEN ''akawo.pool.opened''"

definition closePool :: "int \<Rightarrow> string \<Rightarrow> string \<Rightarrow> ('m akawo_db_scheme, pool_view) handler" where
  "closePool now organiserUserId poolId = transitionPool now organiserUserId poolId APS_CLOSED ''akawo.pool.closed''"

definition markCancelled :: "int \<Rightarrow> akawo_pool \<Rightarrow> akawo_pool" where
  "markCancelled now p = p\<lparr>po_status := APS_CANCELLED, po_closedAt := Some now\<rparr>"

definition cancelPool :: "int \<Rightarrow> string \<Rightarrow> string \<Rightarrow> ('m akawo_db_scheme, pool_view) handler" where
  "cancelPool now organiserUserId poolId = serializable (\<lambda>s.
     bind_res (requireOrganiser organiserUserId poolId s) (\<lambda>p.
     let paidCount = length (filter (\<lambda>d. du_poolId d = poolId \<and> du_status d = AD_PAID) (pool_dues s)) in
     if \<not> canCancelPool (po_status p) paidCount
     then Inl (Conflict (if paidCount > 0 then ''This pool has taken payments and cannot be cancelled; close it instead''
            else ''This pool cannot be cancelled in its current state''))
     else Inr (pool_view.truncate (markCancelled now p),
            auditPool organiserUserId poolId ''akawo.pool.cancelled'' (updatePool poolId (markCancelled now) s))))"

definition removeMember :: "int \<Rightarrow> string \<Rightarrow> string \<Rightarrow> string \<Rightarrow> ('m akawo_db_scheme, pool_member_view) handler" where
  "removeMember now organiserUserId poolId memberId = serializable (\<lambda>s.
     bind_res (requireOrganiser organiserUserId poolId s) (\<lambda>_.
     case findDue poolId memberId s of
       None \<Rightarrow> Inl (NotFound ''That member was not found in this pool'')
     | Some d \<Rightarrow>
     if \<not> canRemoveMember (du_status d) then Inl (Conflict ''A member who has paid cannot be removed'')
     else (case List.find (\<lambda>m. pm_id m = memberId) (pool_members s) of
         None \<Rightarrow> Inl RecordMissing
       | Some m \<Rightarrow>
           let leave = (\<lambda>m. m\<lparr>pm_status := APM_REMOVED, pm_removedAt := Some now\<rparr>) in
           Inr (pool_member_view.truncate (leave m), auditPool organiserUserId poolId ''akawo.pool.member.removed''
             (s\<lparr>pool_members := update_where (\<lambda>m. pm_id m = memberId) leave (pool_members s)\<rparr>)))))"

definition waiveDue :: "string \<Rightarrow> string \<Rightarrow> string \<Rightarrow> string \<Rightarrow> ('m akawo_db_scheme, due_view) handler" where
  "waiveDue organiserUserId poolId memberId reason = serializable (\<lambda>s.
     bind_res (requireOrganiser organiserUserId poolId s) (\<lambda>_.
     case findDue poolId memberId s of
       None \<Rightarrow> Inl (NotFound ''That member was not found in this pool'')
     | Some d \<Rightarrow>
     if du_status d \<noteq> AD_PENDING then Inl (Conflict ''Only an outstanding due can be waived'')
     else let waive = (\<lambda>d. d\<lparr>du_status := AD_WAIVED, du_waivedReason := Some reason\<rparr>) in
       Inr (due_view.truncate (waive d), auditPool organiserUserId poolId ''akawo.pool.due.waived''
         (s\<lparr>pool_dues := update_where (\<lambda>x. du_id x = du_id d) waive (pool_dues s)\<rparr>))))"

section \<open>AkawoPoolDueTarget\<close>

definition includedDue :: "string \<Rightarrow> 'm akawo_db_scheme \<Rightarrow> (pool_due \<times> akawo_pool \<times> pool_member) option" where
  "includedDue dueId s =
     (case List.find (\<lambda>d. du_id d = dueId) (pool_dues s) of
        None \<Rightarrow> None
      | Some d \<Rightarrow> (case (findPool (du_poolId d) s, List.find (\<lambda>m. pm_id m = du_memberId d) (pool_members s)) of
          (Some p, Some m) \<Rightarrow> Some (d, p, m) | _ \<Rightarrow> None))"

definition dueResolve :: "int \<Rightarrow> string \<Rightarrow> string option \<Rightarrow> int option \<Rightarrow> 'm akawo_db_scheme \<Rightarrow> resolved_target res" where
  "dueResolve now userId targetId requested s =
     (case truthy targetId of
        None \<Rightarrow> Inl (NotFound ''This payment was not found'')
      | Some i \<Rightarrow> (case includedDue i s of
          None \<Rightarrow> Inl (NotFound ''This payment was not found'')
        | Some (d, p, m) \<Rightarrow>
            if pm_userId m \<noteq> userId then Inl (NotFound ''This payment was not found'')
            else if du_status d \<noteq> AD_PENDING then Inl (Conflict ''This has already been settled'')
            else bind_res (assertOrganiserVerified s (po_organiserUserId p)) (\<lambda>_.
              Inr \<lparr>rt_amount = du_amount d, rt_currency = du_currency d, rt_description = ''Akawo pool: '' @ po_name p\<rparr>)))"

definition markDuePaid :: "string \<Rightarrow> int \<Rightarrow> pool_due \<Rightarrow> pool_due" where
  "markDuePaid txId now d = d\<lparr>du_status := AD_PAID, du_ledgerTransactionId := Some txId, du_paidAt := Some now\<rparr>"

definition dueSettle :: "pay_ids \<Rightarrow> int \<Rightarrow> settled_payment \<Rightarrow> ('m akawo_db_scheme, unit) tx" where
  "dueSettle ids now payment s =
     (case truthy (sp_targetId payment) of
        None \<Rightarrow> Inr ((), s)
      | Some i \<Rightarrow>
          if i \<notin> du_id ` set (pool_dues s) then Inl RecordMissing
          else if \<exists>d \<in> set (pool_dues s). du_id d \<noteq> i \<and> du_ledgerTransactionId d = Some (sp_ledgerTransactionId payment)
          then Inl UniqueViolation
          else Inr ((), s\<lparr>pool_dues := update_where (\<lambda>d. du_id d = i) (markDuePaid (sp_ledgerTransactionId payment) now) (pool_dues s)\<rparr>))"

definition dueDescribe :: "string option \<Rightarrow> 'm akawo_db_scheme \<Rightarrow> string" where
  "dueDescribe targetId s =
     (case truthy targetId of None \<Rightarrow> ''Akawo pool payment''
      | Some i \<Rightarrow> (case includedDue i s of None \<Rightarrow> ''Akawo pool payment'' | Some (d, p, m) \<Rightarrow> ''Akawo pool: '' @ po_name p))"

definition AkawoPoolDueTarget :: "'m akawo_db_scheme payment_target" where
  "AkawoPoolDueTarget =
     \<lparr>pt_type = TT_AKAWO_POOL_DUE, pt_methods = [PM_WALLET], pt_amountRule = AR_fixed, pt_feeCode = None, pt_holdsFee = False,
      pt_resolve = dueResolve, pt_creditAccount = providerPayableCredit, pt_settle = dueSettle,
      pt_describe = dueDescribe, pt_verifyConfirmation = None, pt_afterCommit = None\<rparr>"

interpretation pool_due: immediate_target AkawoPoolDueTarget
  by unfold_locales
    (auto simp: AkawoPoolDueTarget_def dueSettle_def providerPayableCredit_def res_iffs split: option.splits if_splits)

section \<open>AkawoService: savings goals\<close>

record create_goal_dto =
  cgo_name :: string
  cgo_type :: goal_type
  cgo_target :: "int option"
  cgo_targetDate :: "int option"

definition newGoal :: "string \<Rightarrow> int \<Rightarrow> string \<Rightarrow> create_goal_dto \<Rightarrow> savings_goal" where
  "newGoal gid now userId dto =
     \<lparr>sg_id = gid, sg_name = cgo_name dto, sg_type = cgo_type dto, sg_target = or_default (cgo_target dto) 0, sg_currency = ''NGN'',
      sg_status = GO_ACTIVE, sg_targetDate = map_option dateColumn (cgo_targetDate dto), sg_maturityAt = None,
      sg_autoSaveEnabled = False, sg_reminderEnabled = True, sg_createdAt = now, sg_userId = userId,
      sg_withdrawalRule = (if cgo_type dto = GT_FLEXIBLE then WR_FLEXIBLE else WR_TARGET_REACHED)\<rparr>"

definition createGoal :: "string \<Rightarrow> int \<Rightarrow> string \<Rightarrow> create_goal_dto \<Rightarrow> ('m akawo_db_scheme, savings_goal_view) handler" where
  "createGoal gid now userId dto = serializable (\<lambda>s.
     if cgo_type dto = GT_LOCKED then Inl (Unprocessable ''Locked Akawo goals are not available yet'')
     else if cgo_type dto = GT_TARGET \<and> cgo_target dto = None then Inl (Unprocessable ''Target amount is required for a target goal'')
     else if (case cgo_targetDate dto of None \<Rightarrow> False | Some d \<Rightarrow> d \<le> now) then Inl (Unprocessable ''Target date must be in the future'')
     else let goal = newGoal gid now userId dto in
       bind_res (insertRow (\<lambda>a b. sg_id a = sg_id b) goal (savings_goals s)) (\<lambda>gs.
         Inr (savings_goal_view.truncate goal, outbox ''SavingsGoal'' gid ''akawo.goal.created''
           (audit (Some userId) ''akawo.goal.created'' ''SavingsGoal'' (Some gid) None (s\<lparr>savings_goals := gs\<rparr>)))))"

definition contributionTotal :: "string \<Rightarrow> 'm akawo_db_scheme \<Rightarrow> int" where
  "contributionTotal goalId s =
     sum_list (map sc_amount (filter (\<lambda>c. sc_goalId c = goalId \<and> sc_status c = PST_SUCCEEDED) (savings_contributions s)))"

definition publicGoal :: "savings_goal \<Rightarrow> int \<Rightarrow> savings_goal_view \<times> int \<times> int option" where
  "publicGoal g savedMinor =
     (savings_goal_view.truncate g, savedMinor,
      if sg_target g > 0
      then Some (if tdiv (savedMinor * 10000) (sg_target g) > 10000 then 10000 else tdiv (savedMinor * 10000) (sg_target g))
      else None)"

definition listGoals :: "string \<Rightarrow> 'm akawo_db_scheme \<Rightarrow> (savings_goal_view \<times> int \<times> int option) list" where
  "listGoals userId s =
     map (\<lambda>g. publicGoal g (contributionTotal (sg_id g) s))
       (sort_key (\<lambda>g. - sg_createdAt g) (filter (\<lambda>g. sg_userId g = userId \<and> sg_status g \<noteq> GO_CANCELLED) (savings_goals s)))"

definition findGoal :: "string \<Rightarrow> string \<Rightarrow> 'm akawo_db_scheme \<Rightarrow> savings_goal option" where
  "findGoal userId goalId s = List.find (\<lambda>g. sg_id g = goalId \<and> sg_userId g = userId) (savings_goals s)"

definition getGoal :: "string \<Rightarrow> string \<Rightarrow> 'm akawo_db_scheme \<Rightarrow> (savings_goal_view \<times> int \<times> int option) res" where
  "getGoal userId goalId s =
     (case findGoal userId goalId s of
        None \<Rightarrow> Inl (NotFound ''Akawo goal was not found'')
      | Some g \<Rightarrow> Inr (publicGoal g (contributionTotal (sg_id g) s)))"

definition requireOwner :: "string \<Rightarrow> string \<Rightarrow> 'm akawo_db_scheme \<Rightarrow> unit res" where
  "requireOwner userId goalId s = (if findGoal userId goalId s = None then Inl (NotFound ''Akawo goal was not found'') else Inr ())"

definition goalStatement ::
  "string \<Rightarrow> string \<Rightarrow> nat \<Rightarrow> string option \<Rightarrow> 'm akawo_db_scheme \<Rightarrow> (savings_contribution list \<times> string option) res" where
  "goalStatement userId goalId limit cursor s =
     bind_res (requireOwner userId goalId s) (\<lambda>_.
       Inr (findPage sc_id limit cursor
         (sort_key (\<lambda>c. - sc_createdAt c) (sort_key (\<lambda>c. - idRank (sc_id c)) (filter (\<lambda>c. sc_goalId c = goalId) (savings_contributions s))))))"

definition createSavingsSchedule ::
  "string \<Rightarrow> int \<Rightarrow> string \<Rightarrow> string \<Rightarrow> int \<Rightarrow> int \<Rightarrow> ('m akawo_db_scheme, savings_schedule) handler" where
  "createSavingsSchedule sid now userId goalId amountMinor dueAt = serializable (\<lambda>s.
     case List.find (\<lambda>g. sg_id g = goalId \<and> sg_userId g = userId \<and> sg_status g = GO_ACTIVE) (savings_goals s) of
       None \<Rightarrow> Inl (NotFound ''Active Akawo goal was not found'')
     | Some g \<Rightarrow>
     if dueAt \<le> now then Inl (Unprocessable ''Schedule date must be in the future'')
     else let row = \<lparr>ss_id = sid, ss_goalId = goalId, ss_amount = amountMinor, ss_currency = sg_currency g, ss_dueAt = dueAt,
                ss_status = SSS_PENDING\<rparr> in
       bind_res (insertRow (\<lambda>a b. ss_id a = ss_id b) row (savings_schedules s)) (\<lambda>rows. Inr (row, s\<lparr>savings_schedules := rows\<rparr>)))"

section \<open>Memberships and dues\<close>

text \<open>One due per membership, for the amount of its pool; a due is PAID exactly when a posted transaction paid it.\<close>

definition membership_ok :: "'m akawo_db_scheme \<Rightarrow> bool" where
  "membership_ok s \<longleftrightarrow>
     distinct (map (\<lambda>d. (du_poolId d, du_memberId d)) (pool_dues s))
     \<and> set (map (\<lambda>d. (du_poolId d, du_memberId d)) (pool_dues s)) = set (map (\<lambda>m. (pm_poolId m, pm_id m)) (pool_members s))
     \<and> set (map (\<lambda>d. (du_poolId d, du_amount d, du_currency d)) (pool_dues s))
         \<subseteq> set (map (\<lambda>p. (po_id p, po_amount p, po_currency p)) (akawo_pools s))"

definition paidBy :: "pool_due list \<Rightarrow> string list" where
  "paidBy ds = List.map_filter du_ledgerTransactionId ds"

definition dues_ok :: "'m akawo_db_scheme \<Rightarrow> bool" where
  "dues_ok s \<longleftrightarrow> distinct (map du_id (pool_dues s))
     \<and> list_all (\<lambda>d. du_status d = AD_PAID \<longleftrightarrow> du_ledgerTransactionId d \<noteq> None) (pool_dues s)
     \<and> distinct (paidBy (pool_dues s)) \<and> set (paidBy (pool_dues s)) \<subseteq> lt_id ` set (ledger_txs s)"

definition akawo_ok :: "'m akawo_db_scheme \<Rightarrow> bool" where
  "akawo_ok s \<longleftrightarrow> membership_ok s \<and> dues_ok s"

lemma set_paidBy: "t \<in> set (paidBy ds) \<longleftrightarrow> (\<exists>d \<in> set ds. du_ledgerTransactionId d = Some t)"
  by (force simp: paidBy_def List.map_filter_def)

lemma membership_ok_cong:
  assumes "map (\<lambda>p. (po_id p, po_amount p, po_currency p)) (akawo_pools s') = map (\<lambda>p. (po_id p, po_amount p, po_currency p)) (akawo_pools s)"
    and "map (\<lambda>m. (pm_poolId m, pm_id m)) (pool_members s') = map (\<lambda>m. (pm_poolId m, pm_id m)) (pool_members s)"
    and "map (\<lambda>d. (du_poolId d, du_memberId d)) (pool_dues s') = map (\<lambda>d. (du_poolId d, du_memberId d)) (pool_dues s)"
    and "map (\<lambda>d. (du_poolId d, du_amount d, du_currency d)) (pool_dues s') = map (\<lambda>d. (du_poolId d, du_amount d, du_currency d)) (pool_dues s)"
  shows "membership_ok s' = membership_ok s"
  unfolding membership_ok_def assms ..

lemma membership_ok_dues:
  assumes "\<And>d. du_poolId (f d) = du_poolId d \<and> du_memberId (f d) = du_memberId d \<and> du_amount (f d) = du_amount d \<and> du_currency (f d) = du_currency d"
  shows "membership_ok (s\<lparr>pool_dues := update_where P f (pool_dues s)\<rparr>) = membership_ok s"
  by (rule membership_ok_cong) (simp_all add: map_update_where assms)

lemma dues_ok_cong:
  assumes "pool_dues s' = pool_dues s" and "lt_id ` set (ledger_txs s) \<subseteq> lt_id ` set (ledger_txs s')" and "dues_ok s"
  shows "dues_ok s'"
  using assms(2,3) unfolding dues_ok_def assms(1) by blast

lemma audit_akawo [simp]:
  "akawo_pools (audit a b c d e s) = akawo_pools s" "pool_members (audit a b c d e s) = pool_members s"
  "pool_dues (audit a b c d e s) = pool_dues s"
  by (simp_all add: audit_def)

lemma auditPool_frame [simp]:
  "akawo_pools (auditPool a b c s) = akawo_pools s" "pool_members (auditPool a b c s) = pool_members s"
  "pool_dues (auditPool a b c s) = pool_dues s" "ledger_txs (auditPool a b c s) = ledger_txs s"
  by (simp_all add: auditPool_def)

text \<open>Only these fields of a pool ever change, whatever the organiser does.\<close>

lemma updatePool_ok:
  assumes "\<And>p. po_id (f p) = po_id p \<and> po_amount (f p) = po_amount p \<and> po_currency (f p) = po_currency p" and "akawo_ok s"
  shows "akawo_ok (auditPool a b c (updatePool poolId f s))" "akawo_ok (updatePool poolId f s)"
proof -
  have m: "map (\<lambda>p. (po_id p, po_amount p, po_currency p)) (akawo_pools (updatePool poolId f s)) = map (\<lambda>p. (po_id p, po_amount p, po_currency p)) (akawo_pools s)"
    unfolding updatePool_def by (simp, rule map_update_where) (simp add: assms(1))
  have t: "pool_members (updatePool poolId f s) = pool_members s" "pool_dues (updatePool poolId f s) = pool_dues s"
    "ledger_txs (updatePool poolId f s) = ledger_txs s"
    by (simp_all add: updatePool_def)
  show "akawo_ok (auditPool a b c (updatePool poolId f s))" "akawo_ok (updatePool poolId f s)"
    using assms(2) membership_ok_cong [of "updatePool poolId f s" s] membership_ok_cong [of "auditPool a b c (updatePool poolId f s)" s]
      dues_ok_cong [of "updatePool poolId f s" s] dues_ok_cong [of "auditPool a b c (updatePool poolId f s)" s] m t
    by (simp_all add: akawo_ok_def)
qed

lemma createPool_ok:
  assumes "akawo_ok s"
  shows "akawo_ok (snd (createPool sha256 pid sc bytes now u dto s))"
  unfolding createPool_def
proof (rule serializable_frame)
  fix a s' assume "(if case cp_dueAt dto of None \<Rightarrow> False | Some d \<Rightarrow> d \<le> now then Inl (Unprocessable ''The due date must be in the future'')
       else let joinCode = generateJoinCode bytes; pool = newPool pid sc (sha256 joinCode) now u dto in
         bind_res (insertRow pool_clash pool (akawo_pools s)) (\<lambda>ps. Inr ((pool_view.truncate pool, joinCode), s\<lparr>akawo_pools := ps\<rparr>))) = Inr (a, s')"
  then obtain pool where "s' = s\<lparr>akawo_pools := akawo_pools s @ [pool]\<rparr>"
    by (auto simp: Let_def res_iffs split: if_splits)
  then show "akawo_ok s'" using assms dues_ok_cong [of s' s] by (auto simp: akawo_ok_def membership_ok_def)
qed (rule assms)

lemma joinPool_Inr:
  assumes "joinPool sha256 mid did now u dto s = (Inr r, s')"
  obtains p member where "findByJoinCode sha256 (jo_joinCode dto) s = Inr p" "po_status p = APS_OPEN"
    "pool_members s' = pool_members s @ [member]" "pm_id member = mid" "pm_poolId member = po_id p" "pm_userId member = u"
    "pool_dues s' = pool_dues s @ [newDue did mid p]" "akawo_pools s' = akawo_pools s" "ledger_txs s' = ledger_txs s"
    "\<forall>d \<in> set (pool_dues s). \<not> due_clash (newDue did mid p) d"
    "\<forall>m \<in> set (pool_members s). pm_poolId m = po_id p \<longrightarrow> pm_userId m \<noteq> u \<and> pm_reference m \<noteq> jo_reference dto"
    "case findPool (po_id p) s of None \<Rightarrow> True | Some owner \<Rightarrow> assertOrganiserVerified s (po_organiserUserId owner) = Inr ()"
proof -
  from assms obtain p where f: "findByJoinCode sha256 (jo_joinCode dto) s = Inr p"
    by (auto simp: joinPool_def serializable_iffs res_iffs)
  from assms have rest: "po_status p = APS_OPEN"
    "case findPool (po_id p) s of None \<Rightarrow> True | Some owner \<Rightarrow> assertOrganiserVerified s (po_organiserUserId owner) = Inr ()"
    "\<forall>m \<in> set (pool_members s). pm_poolId m = po_id p \<longrightarrow> pm_userId m \<noteq> u \<and> pm_reference m \<noteq> jo_reference dto"
    "admitToPool mid did now u dto p s = Inr (r, s')"
    by (auto simp: joinPool_def serializable_iffs res_iffs f poolAcceptsMembers_def split: if_splits option.splits)
  from rest(4) f rest(1-3) show ?thesis by (auto simp: admitToPool_def res_iffs Let_def intro!: that [of p])
qed

lemma findByJoinCode_InrD: "findByJoinCode sha256 code s = Inr p \<Longrightarrow> p \<in> set (akawo_pools s)"
  by (auto simp: findByJoinCode_def dest: find_SomeD split: option.splits if_splits)

lemma joinPool_ok:
  assumes ok: "akawo_ok s"
  shows "akawo_ok (snd (joinPool sha256 mid did now u dto s))"
proof (cases "joinPool sha256 mid did now u dto s")
  case (Pair r s')
  show ?thesis
  proof (cases r)
    case (Inl e)
    with Pair have "s' = s" by (simp only: joinPool_def serializable_Inl_iff)
    with Pair ok show ?thesis by simp
  next
    case (Inr v)
    with Pair have "joinPool sha256 mid did now u dto s = (Inr v, s')" by simp
    then obtain p member where j: "findByJoinCode sha256 (jo_joinCode dto) s = Inr p"
      "pool_members s' = pool_members s @ [member]" "pm_id member = mid" "pm_poolId member = po_id p"
      "pool_dues s' = pool_dues s @ [newDue did mid p]" "akawo_pools s' = akawo_pools s" "ledger_txs s' = ledger_txs s"
      "\<forall>d \<in> set (pool_dues s). \<not> due_clash (newDue did mid p) d"
      by (rule joinPool_Inr) blast
    have "(po_id p, mid) \<notin> set (map (\<lambda>d. (du_poolId d, du_memberId d)) (pool_dues s))"
      using j(8) by (auto simp: newDue_def due_clash_def)
    then have "membership_ok s'" using ok findByJoinCode_InrD [OF j(1)] j(2-6)
      by (simp add: akawo_ok_def membership_ok_def newDue_def)
    moreover have "dues_ok s'" using ok j(5-8)
      by (auto simp: akawo_ok_def dues_ok_def newDue_def due_clash_def paidBy_def map_filter_simps map_filter_append)
    ultimately show ?thesis by (simp add: Pair akawo_ok_def)
  qed
qed

lemma updateAkawoPool_ok:
  assumes "akawo_ok s"
  shows "akawo_ok (snd (updateAkawoPool u poolId dto s))"
proof -
  have e: "po_id (editPool dto p) = po_id p \<and> po_amount (editPool dto p) = po_amount p \<and> po_currency (editPool dto p) = po_currency p" for p
    by (simp add: editPool_def)
  show ?thesis unfolding updateAkawoPool_def
    by (rule serializable_frame) (use assms updatePool_ok [OF e assms] in \<open>auto simp: res_iffs Let_def split: if_splits option.splits\<close>)
qed

lemma transitionPool_ok:
  assumes "akawo_ok s"
  shows "akawo_ok (snd (transitionPool now u poolId to action s))"
proof -
  have e: "po_id (moveTo to now p) = po_id p \<and> po_amount (moveTo to now p) = po_amount p \<and> po_currency (moveTo to now p) = po_currency p" for p
    by (simp add: moveTo_def)
  show ?thesis unfolding transitionPool_def
    by (rule serializable_frame) (use assms updatePool_ok(1) [OF e assms] in \<open>auto simp: res_iffs split: if_splits\<close>)
qed

lemma cancelPool_ok:
  assumes "akawo_ok s"
  shows "akawo_ok (snd (cancelPool now u poolId s))"
proof -
  have e: "po_id (markCancelled now p) = po_id p \<and> po_amount (markCancelled now p) = po_amount p \<and> po_currency (markCancelled now p) = po_currency p" for p
    by (simp add: markCancelled_def)
  show ?thesis unfolding cancelPool_def
    by (rule serializable_frame) (use assms updatePool_ok(1) [OF e assms] in \<open>auto simp: res_iffs Let_def split: if_splits\<close>)
qed

lemma removeMember_Inr:
  assumes "removeMember now u poolId memberId s = (Inr r, s')"
  obtains p d where "requireOrganiser u poolId s = Inr p" "findDue poolId memberId s = Some d" "canRemoveMember (du_status d)"
    "s' = auditPool u poolId ''akawo.pool.member.removed''
       (s\<lparr>pool_members := update_where (\<lambda>m. pm_id m = memberId) (\<lambda>m. m\<lparr>pm_status := APM_REMOVED, pm_removedAt := Some now\<rparr>) (pool_members s)\<rparr>)"
  using assms by (auto simp: removeMember_def serializable_iffs res_iffs Let_def split: option.splits if_splits)

lemma waiveDue_Inr:
  assumes "waiveDue u poolId memberId reason s = (Inr r, s')"
  obtains p d where "requireOrganiser u poolId s = Inr p" "findDue poolId memberId s = Some d" "du_status d = AD_PENDING"
    "s' = auditPool u poolId ''akawo.pool.due.waived''
       (s\<lparr>pool_dues := update_where (\<lambda>x. du_id x = du_id d) (\<lambda>d. d\<lparr>du_status := AD_WAIVED, du_waivedReason := Some reason\<rparr>) (pool_dues s)\<rparr>)"
  using assms by (auto simp: waiveDue_def serializable_iffs res_iffs Let_def split: option.splits if_splits)

lemma removeMember_ok:
  assumes ok: "akawo_ok s"
  shows "akawo_ok (snd (removeMember now u poolId memberId s))"
proof (rule handler_keeps [of akawo_ok, OF ok])
  fix r s' assume "removeMember now u poolId memberId s = (Inr r, s')"
  then show "akawo_ok s'"
  proof (cases rule: removeMember_Inr)
    case 1
    have "map (\<lambda>m. (pm_poolId m, pm_id m)) (pool_members s') = map (\<lambda>m. (pm_poolId m, pm_id m)) (pool_members s)"
      unfolding 1(4) by (simp, rule map_update_where) simp
    then show ?thesis using ok membership_ok_cong [of s' s] dues_ok_cong [of s' s] by (simp add: akawo_ok_def 1(4))
  qed
qed (simp only: removeMember_def serializable_Inl_iff)

lemma paidBy_update:
  assumes "\<And>d. d \<in> set ds \<Longrightarrow> P d \<Longrightarrow> du_ledgerTransactionId (f d) = du_ledgerTransactionId d"
  shows "paidBy (update_where P f ds) = paidBy ds"
  using assms by (induction ds) (auto simp: paidBy_def update_where_def map_filter_simps split: option.split)

lemma waiveDue_ok:
  assumes ok: "akawo_ok s"
  shows "akawo_ok (snd (waiveDue u poolId memberId reason s))"
proof (rule handler_keeps [of akawo_ok, OF ok])
  fix r s' assume "waiveDue u poolId memberId reason s = (Inr r, s')"
  then show "akawo_ok s'"
  proof (cases rule: waiveDue_Inr)
    case (1 p d)
    let ?f = "\<lambda>d. d\<lparr>du_status := AD_WAIVED, du_waivedReason := Some reason\<rparr>"
    have d: "d \<in> set (pool_dues s)" using 1(2) by (auto simp: findDue_def dest: find_SomeD)
    have dist: "distinct (map du_id (pool_dues s))" using ok by (simp add: akawo_ok_def dues_ok_def)
    have same: "x = d" if "x \<in> set (pool_dues s)" "du_id x = du_id d" for x
      using dist that d by (auto simp: distinct_map inj_on_def)
    have "membership_ok (s\<lparr>pool_dues := update_where (\<lambda>x. du_id x = du_id d) ?f (pool_dues s)\<rparr>) = membership_ok s"
      by (rule membership_ok_dues) simp
    then have "membership_ok s'" using ok membership_ok_cong [of s' "s\<lparr>pool_dues := pool_dues s'\<rparr>"] by (simp add: akawo_ok_def 1(4))
    moreover have "dues_ok s'"
    proof -
      have "paidBy (update_where (\<lambda>x. du_id x = du_id d) ?f (pool_dues s)) = paidBy (pool_dues s)" by (rule paidBy_update) simp
      moreover have "du_ledgerTransactionId x = None" if "x \<in> set (pool_dues s)" "du_id x = du_id d" for x
        using same [OF that] ok d 1(3) by (auto simp: akawo_ok_def dues_ok_def list_all_iff)
      moreover have "map du_id (update_where (\<lambda>x. du_id x = du_id d) ?f (pool_dues s)) = map du_id (pool_dues s)"
        by (rule map_update_where) simp
      ultimately show ?thesis using ok
        by (auto simp: akawo_ok_def dues_ok_def 1(4) list_all_iff set_update_where)
    qed
    ultimately show ?thesis by (simp add: akawo_ok_def)
  qed
qed (simp only: waiveDue_def serializable_Inl_iff)

lemma due_target_simps [simp]:
  "pt_resolve AkawoPoolDueTarget = dueResolve" "pt_creditAccount AkawoPoolDueTarget = providerPayableCredit"
  "pt_settle AkawoPoolDueTarget = dueSettle" "pt_holdsFee AkawoPoolDueTarget = False" "pt_afterCommit AkawoPoolDueTarget = None"
  "storedRequest AkawoPoolDueTarget x = None"
  by (simp_all add: AkawoPoolDueTarget_def storedRequest_def)

lemma dueResolve_Inr:
  assumes "dueResolve now u tid req s = Inr t"
  obtains i d p m where "truthy tid = Some i" "d \<in> set (pool_dues s)" "du_id d = i" "du_status d = AD_PENDING"
    "findPool (du_poolId d) s = Some p" "m \<in> set (pool_members s)" "pm_id m = du_memberId d" "pm_userId m = u"
    "assertOrganiserVerified s (po_organiserUserId p) = Inr ()" "rt_amount t = du_amount d"
  using assms by (auto simp: dueResolve_def includedDue_def res_iffs dest!: find_SomeD split: option.splits if_splits intro: that)

lemma paidBy_Cons: "paidBy (d # ds) = (case du_ledgerTransactionId d of None \<Rightarrow> paidBy ds | Some t \<Rightarrow> t # paidBy ds)"
  unfolding paidBy_def by (simp add: map_filter_simps)

lemma markDuePaid_simps [simp]:
  "du_id (markDuePaid t now d) = du_id d" "du_poolId (markDuePaid t now d) = du_poolId d" "du_memberId (markDuePaid t now d) = du_memberId d"
  "du_amount (markDuePaid t now d) = du_amount d" "du_currency (markDuePaid t now d) = du_currency d"
  "du_status (markDuePaid t now d) = AD_PAID" "du_ledgerTransactionId (markDuePaid t now d) = Some t"
  by (simp_all add: markDuePaid_def)

lemma distinct_paidBy_mark:
  assumes "distinct (map du_id ds)" and "distinct (paidBy ds)" and "t \<notin> set (paidBy ds)"
  shows "distinct (paidBy (update_where (\<lambda>d. du_id d = i) (markDuePaid t now) ds))"
    and "set (paidBy (update_where (\<lambda>d. du_id d = i) (markDuePaid t now) ds)) \<subseteq> insert t (set (paidBy ds))"
proof -
  show sub: "set (paidBy (update_where (\<lambda>d. du_id d = i) (markDuePaid t now) ds)) \<subseteq> insert t (set (paidBy ds))"
    by (auto simp: set_paidBy set_update_where)
  show "distinct (paidBy (update_where (\<lambda>d. du_id d = i) (markDuePaid t now) ds))" using assms
  proof (induction ds)
    case (Cons d ds)
    show ?case
    proof (cases "du_id d = i")
      case True
      with Cons.prems(1) have "update_where (\<lambda>d. du_id d = i) (markDuePaid t now) ds = ds"
        by (intro update_where_absent) simp
      with Cons.prems True show ?thesis
        by (auto simp: paidBy_Cons update_where_Cons split: option.splits)
    next
      case False
      have "set (paidBy (update_where (\<lambda>d. du_id d = i) (markDuePaid t now) ds)) \<subseteq> insert t (set (paidBy ds))"
        by (auto simp: set_paidBy set_update_where)
      with Cons False show ?thesis
        by (auto simp: paidBy_Cons update_where_Cons split: option.splits)
    qed
  qed (simp add: paidBy_def update_where_def map_filter_simps)
qed

lemma dueSettle_ok:
  assumes set: "dueSettle ids now pay s = Inr (x, s')" and ok: "akawo_ok s"
    and due: "truthy (sp_targetId pay) = Some i" "d \<in> set (pool_dues s)" "du_id d = i" "du_status d = AD_PENDING"
    and tx: "sp_ledgerTransactionId pay \<in> lt_id ` set (ledger_txs s)"
  shows "akawo_ok s'"
proof -
  let ?t = "sp_ledgerTransactionId pay"
  from set due have s': "s' = s\<lparr>pool_dues := update_where (\<lambda>d. du_id d = i) (markDuePaid ?t now) (pool_dues s)\<rparr>"
    and free: "\<forall>e \<in> set (pool_dues s). du_id e \<noteq> i \<longrightarrow> du_ledgerTransactionId e \<noteq> Some ?t"
    by (auto simp: dueSettle_def split: if_splits)
  have dist: "distinct (map du_id (pool_dues s))" using ok by (simp add: akawo_ok_def dues_ok_def)
  have none: "du_ledgerTransactionId x = None" if "x \<in> set (pool_dues s)" "du_id x = i" for x
  proof -
    have "x = d" using dist that due(2,3) by (auto simp: distinct_map inj_on_def)
    then show ?thesis using ok due(2,4) by (auto simp: akawo_ok_def dues_ok_def list_all_iff)
  qed
  have "?t \<notin> set (paidBy (pool_dues s))" using free none by (fastforce simp: set_paidBy)
  then have p: "distinct (paidBy (pool_dues s'))" "set (paidBy (pool_dues s')) \<subseteq> insert ?t (set (paidBy (pool_dues s)))"
    using distinct_paidBy_mark [OF dist, of ?t i now] ok by (simp_all add: s' akawo_ok_def dues_ok_def)
  have "map du_id (pool_dues s') = map du_id (pool_dues s)"
    unfolding s' by (simp, rule map_update_where) simp
  then have "dues_ok s'" using p ok tx
    by (auto simp: akawo_ok_def dues_ok_def s' list_all_iff set_update_where)
  moreover have "membership_ok s'" unfolding s' using ok by (subst membership_ok_dues) (auto simp: akawo_ok_def)
  ultimately show ?thesis by (simp add: akawo_ok_def)
qed

lemma akawo_ok_ledger:
  assumes "akawo_ok s" and "set (ledger_txs s) \<subseteq> set txs"
  shows "akawo_ok (s\<lparr>ledger_txs := txs\<rparr>)"
proof -
  have "lt_id ` set (ledger_txs s) \<subseteq> lt_id ` set txs" using assms(2) by (rule image_mono)
  then show ?thesis using assms(1) dues_ok_cong [of "s\<lparr>ledger_txs := txs\<rparr>" s] membership_ok_cong [of "s\<lparr>ledger_txs := txs\<rparr>" s]
    by (simp add: akawo_ok_def)
qed

lemma due_payment_ok:
  assumes st: "settleWithin ids now u iid key AkawoPoolDueTarget s = Inr ((j, q), s')" and ok: "akawo_ok s"
  shows "akawo_ok s'"
  using st
proof (cases rule: settleWithin_Inr_cases)
  case (paid i w target av fr dst s1)
  let ?T = "AkawoPoolDueTarget :: 'a akawo_db_scheme payment_target"
  let ?c = "paymentCommand ?T u key i (rt_description target) (fa_id av) dst (fa_id fr)"
  have s1: "s1 = s" using paid(7) by (auto simp: providerPayableCredit_def res_iffs)
  from paid(9) obtain r s2 s3 where p: "postWithin (py_tx ids) now ?c s = Inr (r, s2)"
    and set: "dueSettle ids now (settledPayment u i (fst r)) s2 = Inr ((), s3)"
    and upd: "updateIntent (pi_id i) (markPaid (pt_afterCommit ?T \<noteq> None) (fst r) now) s3 = Inr (j, s')"
    unfolding s1 by (rule postAndSettle_InrD) simp
  from paid(4) obtain di d where d: "truthy (pi_targetId i) = Some di" "d \<in> set (pool_dues s)" "du_id d = di" "du_status d = AD_PENDING"
    by (auto elim: dueResolve_Inr)
  from p obtain txs where s2: "s2 = s\<lparr>ledger_txs := txs\<rparr>" by (rule postWithin_only_ledger)
  have "akawo_ok s2" using akawo_ok_ledger [OF ok] postWithin_posted(2) [OF p] by (simp add: s2)
  from dueSettle_ok [OF set this, of di d] d postWithin_posted(1) [OF p] have "akawo_ok s3"
    by (simp add: settledPayment_def s2)
  then show ?thesis using updateIntent_InrD [OF upd] membership_ok_cong [of s' s3] dues_ok_cong [of s' s3]
    by (auto simp: akawo_ok_def)
qed (use ok in simp)

text \<open>The requests of organisers and members, and a due paid through a payment intent.\<close>

datatype akawo_request =
    CreatePool string string "nat list" int string create_pool_dto
  | JoinPool string string int string join_pool_dto
  | EditPool string string update_pool_dto
  | OpenPool int string string
  | ClosePool int string string
  | CancelPool int string string
  | RemoveMember int string string string
  | WaiveDue string string string string
  | PayDue pay_ids int string string string

fun serveAkawo :: "(string \<Rightarrow> string) \<Rightarrow> akawo_request \<Rightarrow> 'm akawo_db_scheme \<Rightarrow> 'm akawo_db_scheme" where
  "serveAkawo sha256 (CreatePool pid sc bytes now u dto) s = snd (createPool sha256 pid sc bytes now u dto s)"
| "serveAkawo sha256 (JoinPool mid did now u dto) s = snd (joinPool sha256 mid did now u dto s)"
| "serveAkawo sha256 (EditPool u pid dto) s = snd (updateAkawoPool u pid dto s)"
| "serveAkawo sha256 (OpenPool now u pid) s = snd (openPool now u pid s)"
| "serveAkawo sha256 (ClosePool now u pid) s = snd (closePool now u pid s)"
| "serveAkawo sha256 (CancelPool now u pid) s = snd (cancelPool now u pid s)"
| "serveAkawo sha256 (RemoveMember now u pid mid) s = snd (removeMember now u pid mid s)"
| "serveAkawo sha256 (WaiveDue u pid mid reason) s = snd (waiveDue u pid mid reason s)"
| "serveAkawo sha256 (PayDue ids now u iid key) s = snd (serializable (settleWithin ids now u iid key AkawoPoolDueTarget) s)"

interpretation akawo_history: request_safety "serveAkawo sha256" akawo_ok for sha256
proof
  fix s :: "'m akawo_db_scheme" and q assume ok: "akawo_ok s"
  have "akawo_ok (snd (serializable (settleWithin ids now u iid key AkawoPoolDueTarget) s))" for ids now u iid key
    by (rule serializable_frame) (use ok due_payment_ok in auto)
  then show "akawo_ok (serveAkawo sha256 q s)"
    by (cases q) (simp_all add: ok createPool_ok joinPool_ok updateAkawoPool_ok openPool_def closePool_def transitionPool_ok
        cancelPool_ok removeMember_ok waiveDue_ok)
qed

section \<open>Properties\<close>

text \<open>Ada collects 700 for a trip, joined her own pool, was removed from it and then cancelled it; her due is still pending.\<close>

definition demo_due :: pool_due where
  "demo_due = \<lparr>du_id = ''d1'', du_amount = 700, du_status = AD_PENDING, du_paidAt = None, du_poolId = ''p1'', du_memberId = ''pm1'',
     du_currency = ''NGN'', du_ledgerTransactionId = None, du_waivedReason = None\<rparr>"

definition demo_pool_dto :: create_pool_dto where
  "demo_pool_dto = \<lparr>cp_name = ''Trip'', cp_purpose = None, cp_amount = 700, cp_referenceLabel = None, cp_dueAt = None\<rparr>"

definition demo_akawo_db :: akawo_db where
  "demo_akawo_db = ajo_db.extend
     (demo_ajo_db\<lparr>intents := [(demo_intent ''aaaaaaaa-1'' PI_REQUIRES_CONFIRMATION None)
        \<lparr>pi_targetType := TT_AKAWO_POOL_DUE, pi_targetId := Some ''d1'', pi_amount := 700, pi_fee := 0, pi_total := 700\<rparr>]\<rparr>)
     (akawo_db.fields [newPool ''p1'' ''7Q3KMTP'' ''digest'' 0 ''ada'' demo_pool_dto]
        [\<lparr>pm_id = ''pm1'', pm_fullName = ''Ada Obi'', pm_reference = ''M1'', pm_status = APM_ACTIVE, pm_joinedAt = 1, pm_poolId = ''p1'',
          pm_userId = ''ada'', pm_removedAt = None\<rparr>] [demo_due] [] [] [])"

lemma demo_akawo_ok: "akawo_ok demo_akawo_db"
  unfolding akawo_ok_def by (intro conjI; code_simp)

text \<open>
  C22. A membership and its obligation never come apart, and only money makes a due paid: after any history of creating, joining,
  editing, opening, closing and cancelling pools, removing members, waiving dues and paying them, every membership has exactly
  one due in its pool, for the pool's amount; a due is PAID exactly when it carries a ledger transaction, which is on
  the ledger, and no transaction pays two dues.
\<close>

theorem akawo_history_safe:
  assumes "akawo_ok s"
  shows "let s' = fold (serveAkawo sha256) qs s in
    (\<forall>m \<in> set (pool_members s'). \<exists>!d. d \<in> set (pool_dues s') \<and> du_memberId d = pm_id m \<and> du_poolId d = pm_poolId m)
    \<and> (\<forall>d \<in> set (pool_dues s'). (\<exists>p \<in> set (akawo_pools s'). po_id p = du_poolId d \<and> po_amount p = du_amount d)
         \<and> (du_status d = AD_PAID \<longleftrightarrow> du_ledgerTransactionId d \<noteq> None)
         \<and> (\<forall>t. du_ledgerTransactionId d = Some t \<longrightarrow> t \<in> lt_id ` set (ledger_txs s')))
    \<and> distinct (List.map_filter du_ledgerTransactionId (pool_dues s'))"
  unfolding Let_def
proof (intro conjI ballI allI impI)
  let ?s = "fold (serveAkawo sha256) qs s"
  have ok: "membership_ok ?s" "dues_ok ?s" using akawo_history.history_inv [OF assms, of sha256 qs] by (simp_all add: akawo_ok_def)
  fix m assume "m \<in> set (pool_members ?s)"
  with ok(1) have "(pm_poolId m, pm_id m) \<in> (\<lambda>d. (du_poolId d, du_memberId d)) ` set (pool_dues ?s)"
    by (auto simp: membership_ok_def)
  moreover have "inj_on (\<lambda>d. (du_poolId d, du_memberId d)) (set (pool_dues ?s))"
    using ok(1) by (simp add: membership_ok_def distinct_map)
  ultimately show "\<exists>!d. d \<in> set (pool_dues ?s) \<and> du_memberId d = pm_id m \<and> du_poolId d = pm_poolId m"
    by (auto simp: inj_on_def)
next
  let ?s = "fold (serveAkawo sha256) qs s"
  have ok: "membership_ok ?s" "dues_ok ?s" using akawo_history.history_inv [OF assms, of sha256 qs] by (simp_all add: akawo_ok_def)
  fix d assume d: "d \<in> set (pool_dues ?s)"
  with ok(1) show "\<exists>p \<in> set (akawo_pools ?s). po_id p = du_poolId d \<and> po_amount p = du_amount d"
    by (force simp: membership_ok_def)
  from ok(2) d show "(du_status d = AD_PAID) = (du_ledgerTransactionId d \<noteq> None)" by (simp add: dues_ok_def list_all_iff)
  fix t assume "du_ledgerTransactionId d = Some t"
  with ok(2) d show "t \<in> lt_id ` set (ledger_txs ?s)" using set_paidBy [of t "pool_dues ?s"] by (auto simp: dues_ok_def)
next
  show "distinct (List.map_filter du_ledgerTransactionId (pool_dues (fold (serveAkawo sha256) qs s)))"
    using akawo_history.history_inv [OF assms, of sha256 qs] by (simp add: akawo_ok_def dues_ok_def paidBy_def)
qed

theorem akawo_history_safe_witness:
  "akawo_ok demo_akawo_db \<and> distinct (List.map_filter du_ledgerTransactionId (pool_dues
     (fold (serveAkawo (\<lambda>c. c)) [PayDue demo_pids 5 ''ada'' ''aaaaaaaa-1'' ''k'', OpenPool 6 ''ada'' ''p1''] demo_akawo_db)))"
  using akawo_history_safe [OF demo_akawo_ok, of "\<lambda>c. c" "[PayDue demo_pids 5 ''ada'' ''aaaaaaaa-1'' ''k'', OpenPool 6 ''ada'' ''p1'']"]
    demo_akawo_ok by (simp only: Let_def)

lemma find_marked:
  "d \<in> set ds \<Longrightarrow> du_id d = i \<Longrightarrow> distinct (map du_id ds) \<Longrightarrow>
     List.find (\<lambda>d. du_id d = i) (update_where (\<lambda>d. du_id d = i) (markDuePaid t now) ds) = Some (markDuePaid t now d)"
  using find_key_unique [of du_id ds d] by (auto simp: find_update_where split: option.split)

text \<open>
  Paying a due moves its amount once: a payment that succeeds was made by the member who owes the due, while it was pending; under a
  new key the provider-payable account gains the due's amount, the member's wallet loses the intent's total, and the due is
  PAID by that transaction; from then on nobody can pay it again.
\<close>

theorem due_paid_once:
  assumes st: "settleWithin ids now u iid key AkawoPoolDueTarget s = Inr ((j, Some pay), s')" and ok: "akawo_ok s"
    and fresh: "''payment-intent:'' @ join_colon iid key \<notin> used_keys s"
  shows "\<exists>i d m (dst :: fin_account) (av :: fin_account) (fr :: fin_account). findIntent iid u s = Some i \<and> pi_targetId i = Some (du_id d) \<and> d \<in> set (pool_dues s) \<and> du_status d = AD_PENDING
    \<and> m \<in> set (pool_members s) \<and> pm_id m = du_memberId d \<and> pm_userId m = u
    \<and> requireAccount None PROVIDER_PAYABLE (pi_currency i) s = Inr dst \<and> pi_amount i = du_amount d
    \<and> (\<forall>x. accountBalanceWithin s' x = accountBalanceWithin s x + (if x = fa_id dst then du_amount d else 0)
         + (if x = fa_id fr \<and> pi_fee i > 0 then pi_fee i else 0) - (if x = fa_id av then pi_total i else 0))
    \<and> markDuePaid (py_tx ids) now d \<in> set (pool_dues s')
    \<and> (\<forall>now' u' req. \<exists>err. dueResolve now' u' (Some (du_id d)) req s' = Inl err)"
  using st
proof (cases rule: settleWithin_Inr_cases)
  case (paid i w target av fr dst s1)
  let ?T = "AkawoPoolDueTarget :: 'a akawo_db_scheme payment_target"
  let ?c = "paymentCommand ?T u key i (rt_description target) (fa_id av) dst (fa_id fr)"
  from paid(7) obtain acc where s1: "s1 = s" and acc: "requireAccount None PROVIDER_PAYABLE (pi_currency i) s = Inr acc" "dst = fa_id acc"
    by (auto simp: providerPayableCredit_def res_iffs)
  from paid(9) obtain r s2 s3 where p: "postWithin (py_tx ids) now ?c s = Inr (r, s2)"
    and set: "dueSettle ids now (settledPayment u i (fst r)) s2 = Inr ((), s3)"
    and upd: "updateIntent (pi_id i) (markPaid (pt_afterCommit ?T \<noteq> None) (fst r) now) s3 = Inr (j, s')"
    unfolding s1 by (rule postAndSettle_InrD) simp
  from paid(4) obtain di d m where d: "truthy (pi_targetId i) = Some di" "d \<in> set (pool_dues s)" "du_id d = di" "du_status d = AD_PENDING"
    and m: "m \<in> set (pool_members s)" "pm_id m = du_memberId d" "pm_userId m = u" and amt: "rt_amount target = du_amount d"
    by (auto elim: dueResolve_Inr)
  have tid: "pi_targetId i = Some di" "di \<noteq> []" using d(1) by (auto simp: truthy_def split: option.splits if_splits)
  have iid: "pi_id i = iid" using paid(1) by (auto simp: findIntent_def dest: find_SomeD)
  have key: "pc_idempotencyKey ?c \<notin> used_keys s" using fresh by (simp add: iid)
  have r: "fst r = py_tx ids" using postWithin_fresh [OF p key] by simp
  from p obtain txs where s2: "s2 = s\<lparr>ledger_txs := txs\<rparr>" by (rule postWithin_only_ledger)
  have s3: "s3 = s2\<lparr>pool_dues := update_where (\<lambda>d. du_id d = di) (markDuePaid (py_tx ids) now) (pool_dues s)\<rparr>"
    using set d(1) by (auto simp: dueSettle_def settledPayment_def s2 r split: if_splits)
  have s': "ledger_txs s' = ledger_txs s2" "pool_dues s' = update_where (\<lambda>d. du_id d = di) (markDuePaid (py_tx ids) now) (pool_dues s)"
    using updateIntent_InrD [OF upd] s3 by auto
  have bal: "accountBalanceWithin s' x = accountBalanceWithin s x + (if x = fa_id acc then du_amount d else 0)
         + (if x = fa_id fr \<and> pi_fee i > 0 then pi_fee i else 0) - (if x = fa_id av then pi_total i else 0)" for x
    using balance_post [OF p key, of x] balance_cong [OF s'(1), of x] cmd_delta_payment [of ?c False i "fa_id av" dst "fa_id fr" x] paid(5) amt
    by (simp add: acc(2))
  have dist: "distinct (map du_id (pool_dues s))" using ok by (simp add: akawo_ok_def dues_ok_def)
  have again: "\<exists>err. dueResolve now' u' (Some (du_id d)) req s' = Inl err" for now' u' req
    using find_marked [OF d(2,3) dist] d(3) tid(2)
    by (auto simp: dueResolve_def truthy_def includedDue_def s'(2) split: option.split)
  have "markDuePaid (py_tx ids) now d \<in> set (pool_dues s')" using d(2,3) by (auto simp: s'(2) set_update_where)
  with paid(1,5) tid d m acc(1) bal again amt show ?thesis
    by - (rule exI [of _ i], rule exI [of _ d], rule exI [of _ m], rule exI [of _ acc], rule exI [of _ av], rule exI [of _ fr], simp)
qed simp

text \<open>
  A due can be paid into a pool that is closed or cancelled, and by a member who was removed: whether a due can be paid, and its amount, do not depend on
  the status of the pool or of the membership, although the pool's policy accepts payments only while the pool is open. In the witness a removed member
  pays into a cancelled pool; the pool's totals count the money, the organiser's record of members does not.
\<close>

theorem due_payable_in_any_pool:
  assumes "dueResolve now u tid req s = Inr t"
  shows "dueResolve now u tid req (s\<lparr>akawo_pools := map (\<lambda>p. p\<lparr>po_status := ps\<rparr>) (akawo_pools s),
      pool_members := map (\<lambda>m. m\<lparr>pm_status := ms\<rparr>) (pool_members s)\<rparr>) = Inr t
    \<and> (ps \<noteq> APS_OPEN \<longrightarrow> \<not> acceptsPayment ps AD_PENDING)"
proof -
  let ?s = "s\<lparr>akawo_pools := map (\<lambda>p. p\<lparr>po_status := ps\<rparr>) (akawo_pools s), pool_members := map (\<lambda>m. m\<lparr>pm_status := ms\<rparr>) (pool_members s)\<rparr>"
  have p: "findPool i ?s = map_option (\<lambda>p. p\<lparr>po_status := ps\<rparr>) (findPool i s)" for i
    using find_update_where [of "\<lambda>_. True" "\<lambda>p. po_id p = i" "\<lambda>p. p\<lparr>po_status := ps\<rparr>" "akawo_pools s"]
    by (simp add: findPool_def update_where_def split: option.splits)
  have m: "List.find (\<lambda>m. pm_id m = i) (map (\<lambda>m. m\<lparr>pm_status := ms\<rparr>) (pool_members s))
      = map_option (\<lambda>m. m\<lparr>pm_status := ms\<rparr>) (List.find (\<lambda>m. pm_id m = i) (pool_members s))" for i
    using find_update_where [of "\<lambda>_. True" "\<lambda>m. pm_id m = i" "\<lambda>m. m\<lparr>pm_status := ms\<rparr>" "pool_members s"]
    by (simp add: update_where_def split: option.splits)
  have v: "assertOrganiserVerified ?s o' = assertOrganiserVerified s o'" for o'
    by (simp add: assertOrganiserVerified_def readKycFacts_def findPin_def Let_def)
  from assms show ?thesis
    by (auto simp: dueResolve_def includedDue_def p m v res_iffs acceptsPayment_def split: option.splits if_splits)
qed

lemma join_alphabet_chars:
  "list_all (\<lambda>c. to_upper c = c \<and> to_upper (to_lower c) = c \<and> \<not> is_space c \<and> \<not> is_space (to_lower c) \<and> c \<noteq> CHR ''-'') JOIN_CODE_ALPHABET"
  by code_simp

lemma generateJoinCode_chars: "set (generateJoinCode bytes) \<subseteq> set JOIN_CODE_ALPHABET"
proof -
  have "0 < length JOIN_CODE_ALPHABET" by code_simp
  then show ?thesis unfolding generateJoinCode_def by (auto intro: nth_mem mod_less_divisor)
qed

lemma normalizeJoinCode_typed:
  assumes "set code \<subseteq> set JOIN_CODE_ALPHABET" "f = (\<lambda>x. x) \<or> f = toLowerCase"
  shows "normalizeJoinCode (f code) = code"
proof -
  have a: "\<forall>c \<in> set code. to_upper c = c \<and> to_upper (to_lower c) = c \<and> \<not> is_space c \<and> \<not> is_space (to_lower c) \<and> c \<noteq> CHR ''-''"
    using join_alphabet_chars assms(1) by (auto simp: list_all_iff)
  have t: "trim (f code) = f code"
    by (rule trim_id, use assms(2) a in \<open>elim disjE; simp add: list_all_iff toLowerCase_def\<close>)
  have u: "toUpperCase (f code) = code"
    using assms(2) a by (elim disjE) (simp_all add: toUpperCase_def toLowerCase_def map_idI)
  show ?thesis unfolding normalizeJoinCode_def t u using a by (simp add: filter_id_conv)
qed

lemma normalisePublicCode_normalize: "normalisePublicCode code = Some c \<Longrightarrow> length (normalizeJoinCode code) = 7"
  by (auto simp: normalisePublicCode_def normaliseShareCode_def normalizeJoinCode_def PUBLIC_CODE_LENGTH_def Let_def split: if_splits)

text \<open>
  The join code of a new pool finds it: whatever the random bytes, the code returned once to the organiser, typed in
  either case, looks up exactly the new pool, and no other pool's code does. While the pool is a draft the code already shows
  it to anyone who previews it, and joining answers that the pool is not accepting members, not that the code is unknown.
\<close>

theorem join_code_finds_its_pool:
  assumes cr: "createPool sha256 pid sc bytes now u dto s = (Inr (v, code), s')" and len: "8 \<le> length bytes"
    and typed: "typed = code \<or> typed = toLowerCase code"
  shows "\<exists>p. findByJoinCode sha256 typed s' = Inr p \<and> po_id p = pid \<and> po_organiserUserId p = u \<and> po_status p = APS_DRAFT
    \<and> previewPool sha256 typed s' = Inr (pid, describePool p s')
    \<and> (\<forall>mid did now' u' ref name. joinPool sha256 mid did now' u' \<lparr>jo_joinCode = typed, jo_fullName = name, jo_reference = ref\<rparr> s'
          = (Inl (Conflict ''This pool is not accepting members''), s'))"
proof -
  let ?p = "newPool pid sc (sha256 code) now u dto"
  from cr have code: "code = generateJoinCode bytes" and s': "s' = s\<lparr>akawo_pools := akawo_pools s @ [?p]\<rparr>"
    and new: "\<forall>r \<in> set (akawo_pools s). \<not> pool_clash ?p r"
    by (auto simp: createPool_def serializable_iffs res_iffs Let_def split: if_splits)
  have norm: "normalizeJoinCode typed = code"
    using typed normalizeJoinCode_typed [OF generateJoinCode_chars, of "\<lambda>x. x" bytes] normalizeJoinCode_typed [OF generateJoinCode_chars, of toLowerCase bytes]
    by (auto simp: code)
  have l8: "length code = 8" using len by (simp add: code generateJoinCode_def)
  have pub: "normalisePublicCode typed = None"
    using normalisePublicCode_normalize [of typed] norm l8 by (cases "normalisePublicCode typed") auto
  have shape: "isValidJoinCodeShape typed"
    using l8 generateJoinCode_chars [of bytes] by (auto simp: isValidJoinCodeShape_def norm Let_def list_all_iff code)
  have none: "List.find (\<lambda>p. po_joinCodeDigest p = sha256 code) (akawo_pools s) = None"
    using new by (auto simp: find_None_iff pool_clash_def newPool_def)
  have f: "findByJoinCode sha256 typed s' = Inr ?p"
    unfolding findByJoinCode_def pub using shape none by (simp add: norm s' find_append newPool_def)
  have "joinPool sha256 mid did now' u' \<lparr>jo_joinCode = typed, jo_fullName = name, jo_reference = ref\<rparr> s'
          = (Inl (Conflict ''This pool is not accepting members''), s')" for mid did now' u' ref name
    unfolding joinPool_def serializable_Inl_iff using f by (simp add: poolAcceptsMembers_def newPool_def)
  with f show ?thesis by (intro exI [of _ ?p]) (simp add: previewPool_def newPool_def)
qed

end
