(* ===== verification/Food_Ajo.thy ===== *)
theory Food_Ajo
  imports Akawo
begin

text \<open>
  Food Ajo for members: \<^verbatim>\<open>src/modules/food-ajo/domain/food-ajo-policy.ts\<close>, the programmes service
  (\<^verbatim>\<open>food-ajo-programmes.service.ts\<close>) and the payment of an enrolment (\<^verbatim>\<open>food-subscription.payment-target.ts\<close>). A
  coordinator's programme offers packages; a member enrols in a package, pays its locked price into the programme's escrow
  account, and may withdraw with a refund while the programme is open. The lemmas show what paying and
  withdrawing move, that a programme is never oversubscribed, and where a withdrawal cannot be refunded.
\<close>

section \<open>Food policy\<close>

datatype food_status = FS_DRAFT | FS_OPEN | FS_ACTIVE | FS_COMPLETED | FS_SUSPENDED | FS_CANCELLED
datatype food_subscription_status = FSS_PENDING | FSS_ACTIVE | FSS_COMPLETED | FSS_CANCELLED | FSS_DEFAULTED
datatype purchase_order_status = PO_DRAFT | PO_SUBMITTED | PO_CONFIRMED | PO_FULFILLED | PO_CANCELLED
datatype distribution_status = FD_PLANNED | FD_READY | FD_DISTRIBUTING | FD_COMPLETED | FD_CANCELLED
datatype fulfilment_method = FM_DELIVERY | FM_PICKUP | FM_DELIVERY_OR_PICKUP
datatype coordinator_status =
    FCA_DRAFT | FCA_SUBMITTED | FCA_AUTOMATED_REVIEW | FCA_MANUAL_REVIEW | FCA_MORE_INFORMATION_REQUIRED | FCA_APPROVED
  | FCA_REJECTED | FCA_SUSPENDED | FCA_REVOKED | FCA_EXPIRED

definition assertPackageActivation :: "int \<Rightarrow> int \<Rightarrow> int \<Rightarrow> unit res" where
  "assertPackageActivation priceMinor capacity enrolled =
     (if priceMinor \<le> 0 then Inl (Unprocessable ''Package price must be positive'')
      else if capacity < 1 \<or> enrolled > capacity then Inl (Unprocessable ''Package capacity is invalid'')
      else Inr ())"

definition acceptsSubscriptions :: "food_status \<Rightarrow> bool" where
  "acceptsSubscriptions status \<longleftrightarrow> status = FS_OPEN"

definition assertCanSubscribe :: "food_status \<Rightarrow> int \<Rightarrow> int \<Rightarrow> int \<Rightarrow> bool \<Rightarrow> bool \<Rightarrow> bool \<Rightarrow> unit res" where
  "assertCanSubscribe status capacity enrolled quantity belongs active already =
     (if \<not> acceptsSubscriptions status then Inl (Unprocessable ''This programme is not open for enrolment'')
      else if \<not> belongs then Inl (Unprocessable ''That package is not part of this programme'')
      else if \<not> active then Inl (Unprocessable ''That package is no longer available'')
      else if already then Inl (Conflict ''You have already enrolled in this package'')
      else if quantity < 1 then Inl (Unprocessable ''Quantity must be at least one'')
      else if enrolled + quantity > capacity then Inl (Conflict ''This programme is full'')
      else Inr ())"

definition remainingCapacity :: "int \<Rightarrow> int \<Rightarrow> int" where
  "remainingCapacity capacity enrolled = max 0 (capacity - enrolled)"

definition canCancelSubscription :: "food_subscription_status \<Rightarrow> bool" where
  "canCancelSubscription status \<longleftrightarrow> status = FSS_PENDING \<or> status = FSS_ACTIVE"

definition canTransitionProgramme :: "food_status \<Rightarrow> food_status \<Rightarrow> bool" where
  "canTransitionProgramme from to \<longleftrightarrow>
     (if from = FS_DRAFT then to = FS_OPEN \<or> to = FS_CANCELLED
      else if from = FS_OPEN then to = FS_ACTIVE \<or> to = FS_CANCELLED \<or> to = FS_SUSPENDED
      else if from = FS_ACTIVE then to = FS_COMPLETED \<or> to = FS_SUSPENDED
      else if from = FS_SUSPENDED then to = FS_OPEN \<or> to = FS_ACTIVE \<or> to = FS_CANCELLED
      else False)"

definition escrowAccountCode :: "string \<Rightarrow> string" where
  "escrowAccountCode programmeId = ''FOOD_PROGRAMME:'' @ programmeId @ '':ESCROW''"

definition subscriptionTotalMinor :: "int \<Rightarrow> int \<Rightarrow> int" where
  "subscriptionTotalMinor priceMinor quantity = priceMinor * quantity"

definition foodAcceptsPayment :: "food_status \<Rightarrow> bool" where
  "foodAcceptsPayment status \<longleftrightarrow> status = FS_OPEN \<or> status = FS_ACTIVE"

definition canRefundSubscription :: "food_status \<Rightarrow> bool" where
  "canRefundSubscription status \<longleftrightarrow> status = FS_OPEN"

section \<open>Tables\<close>

text \<open>A package item's quantity is a decimal with three places, kept as the text the client sent.\<close>

record package_item =
  it_name :: string
  it_quantity :: string
  it_unit :: string

record food_package =
  fp_id :: string
  fp_groupId :: string
  fp_name :: string
  fp_price :: int
  fp_priceLockedAt :: "int option"
  fp_currency :: string
  fp_isActive :: bool
  fp_items :: "package_item list"

record food_programme =
  fg_id :: string
  fg_coordinatorUserId :: string
  fg_name :: string
  fg_status :: food_status
  fg_currency :: string
  fg_contribution :: int
  fg_frequency :: ajo_frequency
  fg_capacity :: int
  fg_fulfilment :: fulfilment_method
  fg_startsAt :: int
  fg_endsAt :: int
  fg_plannedProcurementAt :: "int option"
  fg_distributionAt :: "int option"
  fg_activatedAt :: "int option"
  fg_shortCode :: string
  fg_createdAt :: int

record food_subscription =
  fs_id :: string
  fs_groupId :: string
  fs_packageId :: string
  fs_userId :: string
  fs_status :: food_subscription_status
  fs_quantity :: int
  fs_fulfilment :: fulfilment_method
  fs_amountPaid :: int
  fs_paidAt :: "int option"
  fs_createdAt :: int

record vendor =
  vn_id :: string
  vn_name :: string
  vn_contactEmail :: "string option"
  vn_contactPhone :: "string option"
  vn_isVerified :: bool

record order_item =
  oi_description :: string
  oi_quantity :: string
  oi_unitPrice :: int

record purchase_order =
  or_id :: string
  or_vendorId :: string
  or_groupId :: "string option"
  or_reference :: string
  or_status :: purchase_order_status
  or_total :: int
  or_currency :: string
  or_createdAt :: int
  or_items :: "order_item list"

record purchase_receipt =
  rc_id :: string
  rc_orderId :: string
  rc_storageKey :: string
  rc_contentHash :: string
  rc_receivedAt :: int

record food_distribution =
  fd_id :: string
  fd_groupId :: string
  fd_status :: distribution_status
  fd_scheduledAt :: int
  fd_completedAt :: "int option"

record distribution_item =
  di_id :: string
  di_distributionId :: string
  di_subscriptionId :: string
  di_quantity :: int

record distribution_confirmation =
  dc_id :: string
  dc_itemId :: string
  dc_confirmedByUserId :: string
  dc_hash :: string
  dc_expiresAt :: int
  dc_usedAt :: "int option"
  dc_evidenceKey :: "string option"

record coordinator_application =
  ca_id :: string
  ca_userId :: string
  ca_status :: coordinator_status
  ca_personalDetails :: string
  ca_businessDetails :: "string option"
  ca_operatingLocation :: string
  ca_fulfilmentLocations :: string
  ca_settlementBankCode :: "string option"
  ca_settlementAccountMasked :: "string option"
  ca_settlementVerificationRef :: "string option"
  ca_identityVerificationRef :: "string option"
  ca_riskAssessmentRef :: "string option"
  ca_verificationConsentAt :: "int option"
  ca_identityVerifiedAt :: "int option"
  ca_bankVerifiedAt :: "int option"
  ca_riskResult :: "string option"
  ca_termsAcceptedAt :: "int option"
  ca_submittedAt :: "int option"
  ca_approvedAt :: "int option"
  ca_expiresAt :: "int option"
  ca_rejectionReason :: "string option"
  ca_suspensionReason :: "string option"
  ca_createdAt :: int

record food_db = akawo_db +
  food_programmes :: "food_programme list"
  food_packages :: "food_package list"
  food_subscriptions :: "food_subscription list"
  vendors :: "vendor list"
  purchase_orders :: "purchase_order list"
  purchase_receipts :: "purchase_receipt list"
  food_distributions :: "food_distribution list"
  distribution_items :: "distribution_item list"
  distribution_confirmations :: "distribution_confirmation list"
  coordinator_applications :: "coordinator_application list"

definition subscription_clash :: "food_subscription \<Rightarrow> food_subscription \<Rightarrow> bool" where
  "subscription_clash a b \<longleftrightarrow> fs_id a = fs_id b
     \<or> (fs_groupId a = fs_groupId b \<and> fs_userId a = fs_userId b \<and> fs_packageId a = fs_packageId b)"

section \<open>FoodAjoProgrammesService\<close>

definition findProgramme :: "string \<Rightarrow> 'm food_db_scheme \<Rightarrow> food_programme option" where
  "findProgramme programmeId s = List.find (\<lambda>g. fg_id g = programmeId) (food_programmes s)"

definition findPackage :: "string \<Rightarrow> 'm food_db_scheme \<Rightarrow> food_package option" where
  "findPackage packageId s = List.find (\<lambda>p. fp_id p = packageId) (food_packages s)"

record create_package_dto =
  cpk_name :: string
  cpk_price :: int
  cpk_items :: "package_item list"

record create_programme_dto =
  cpr_name :: string
  cpr_contribution :: int
  cpr_frequency :: ajo_frequency
  cpr_capacity :: int
  cpr_fulfilment :: fulfilment_method
  cpr_startsAt :: int
  cpr_endsAt :: int
  cpr_plannedProcurementAt :: "int option"
  cpr_distributionAt :: "int option"
  cpr_packages :: "create_package_dto list"

definition newProgramme :: "string \<Rightarrow> string \<Rightarrow> int \<Rightarrow> string \<Rightarrow> create_programme_dto \<Rightarrow> food_programme" where
  "newProgramme gid shortCode now userId dto =
     \<lparr>fg_id = gid, fg_coordinatorUserId = userId, fg_name = cpr_name dto, fg_status = FS_DRAFT, fg_currency = ''NGN'',
      fg_contribution = cpr_contribution dto, fg_frequency = cpr_frequency dto, fg_capacity = cpr_capacity dto,
      fg_fulfilment = cpr_fulfilment dto, fg_startsAt = dateColumn (cpr_startsAt dto), fg_endsAt = dateColumn (cpr_endsAt dto),
      fg_plannedProcurementAt = cpr_plannedProcurementAt dto, fg_distributionAt = cpr_distributionAt dto, fg_activatedAt = None,
      fg_shortCode = shortCode, fg_createdAt = now\<rparr>"

definition newPackages :: "(string \<Rightarrow> nat \<Rightarrow> string) \<Rightarrow> string \<Rightarrow> create_package_dto list \<Rightarrow> food_package list" where
  "newPackages newId gid dtos =
     map (\<lambda>(n, p). \<lparr>fp_id = newId ''package'' n, fp_groupId = gid, fp_name = cpk_name p, fp_price = cpk_price p,
        fp_priceLockedAt = None, fp_currency = ''NGN'', fp_isActive = True, fp_items = cpk_items p\<rparr>) (enumerate 0 dtos)"

definition coordinatorApproved :: "string \<Rightarrow> int \<Rightarrow> 'm food_db_scheme \<Rightarrow> bool" where
  "coordinatorApproved userId now s \<longleftrightarrow>
     list_ex (\<lambda>a. ca_userId a = userId \<and> ca_status a = FCA_APPROVED \<and> (case ca_expiresAt a of None \<Rightarrow> False | Some e \<Rightarrow> e > now))
       (coordinator_applications s)"

definition createProgramme ::
  "(string \<Rightarrow> nat \<Rightarrow> string) \<Rightarrow> string \<Rightarrow> int \<Rightarrow> string \<Rightarrow> create_programme_dto \<Rightarrow> ('m food_db_scheme, string) handler" where
  "createProgramme newId shortCode now userId dto = serializable (\<lambda>s.
     if cpr_endsAt dto \<le> cpr_startsAt dto then Inl (Unprocessable ''End date must follow start date'')
     else if (case cpr_distributionAt dto of None \<Rightarrow> False | Some d \<Rightarrow> d < cpr_startsAt dto)
     then Inl (Unprocessable ''Distribution cannot precede the programme'')
     else if \<not> coordinatorApproved userId now s then Inl (Forbidden ''An active coordinator approval is required'')
     else let gid = newId ''programme'' 0 in
       bind_res (insertRow (\<lambda>a b. fg_id a = fg_id b \<or> fg_shortCode a = fg_shortCode b) (newProgramme gid shortCode now userId dto)
         (food_programmes s)) (\<lambda>gs.
       bind_res (insertRows (\<lambda>a b. fp_id a = fp_id b) (newPackages newId gid (cpr_packages dto)) (food_packages s)) (\<lambda>ps.
         Inr (gid, outbox ''FoodAjoGroup'' gid ''food.programme.created''
           (audit (Some userId) ''food.programme.created'' ''FoodAjoGroup'' (Some gid) None
             (s\<lparr>food_programmes := gs, food_packages := ps\<rparr>))))))"

definition subscribed :: "string \<Rightarrow> string \<Rightarrow> 'm food_db_scheme \<Rightarrow> bool" where
  "subscribed programmeId userId s \<longleftrightarrow> list_ex (\<lambda>x. fs_groupId x = programmeId \<and> fs_userId x = userId) (food_subscriptions s)"

definition programmeVisible :: "string \<Rightarrow> food_programme \<Rightarrow> 'm food_db_scheme \<Rightarrow> bool" where
  "programmeVisible userId g s \<longleftrightarrow> fg_coordinatorUserId g = userId \<or> fg_status g = FS_OPEN \<or> fg_status g = FS_ACTIVE
     \<or> subscribed (fg_id g) userId s"

definition getProgramme :: "string \<Rightarrow> string \<Rightarrow> 'm food_db_scheme \<Rightarrow> food_programme res" where
  "getProgramme userId programmeId s =
     (case findProgramme programmeId s of
        None \<Rightarrow> Inl (NotFound ''Food Ajo programme was not found'')
      | Some g \<Rightarrow> if \<not> programmeVisible userId g s then Inl (NotFound ''Food Ajo programme was not found'') else Inr g)"

text \<open>A programme with the name of its coordinator and whether the coordinator is verified.\<close>

type_synonym described_programme = "food_programme \<times> string \<times> bool"

definition withCoordinators :: "'m food_db_scheme \<Rightarrow> food_programme list \<Rightarrow> described_programme list" where
  "withCoordinators s programmes =
     map (\<lambda>g. (g,
        (case List.find (\<lambda>f. pf_userId f = fg_coordinatorUserId g) (profiles s) of
           None \<Rightarrow> ''Coordinator'' | Some f \<Rightarrow> trim (pf_firstName f @ '' '' @ pf_lastName f)),
        list_ex (\<lambda>k. kp_userId k = fg_coordinatorUserId g \<and> kp_status k = KS_VERIFIED \<and> kp_tier k \<noteq> TIER_1) (kyc_profiles s))) programmes"

definition listProgrammes ::
  "string \<Rightarrow> bool \<Rightarrow> nat \<Rightarrow> string option \<Rightarrow> 'm food_db_scheme \<Rightarrow> described_programme list \<times> string option" where
  "listProgrammes userId coordinated limit cursor s =
     (let (programmes, nextCursor) = findPage fg_id limit cursor
            (sort_key (\<lambda>g. - fg_createdAt g)
              (filter (\<lambda>g. if coordinated then fg_coordinatorUserId g = userId else programmeVisible userId g s) (food_programmes s))) in
      (withCoordinators s programmes, nextCursor))"

record public_programme =
  pp_id :: string
  pp_shortCode :: string
  pp_name :: string
  pp_status :: food_status
  pp_currency :: string
  pp_contribution :: int
  pp_frequency :: ajo_frequency
  pp_fulfilment :: fulfilment_method
  pp_startsAt :: int
  pp_endsAt :: int
  pp_distributionAt :: "int option"
  pp_packages :: "food_package list"
  pp_coordinatorName :: string
  pp_coordinatorVerified :: bool

definition publicProgramme :: "'m food_db_scheme \<Rightarrow> described_programme \<Rightarrow> public_programme" where
  "publicProgramme s described =
     (let (g, name, verified) = described in
      \<lparr>pp_id = fg_id g, pp_shortCode = fg_shortCode g, pp_name = fg_name g, pp_status = fg_status g, pp_currency = fg_currency g,
       pp_contribution = fg_contribution g, pp_frequency = fg_frequency g, pp_fulfilment = fg_fulfilment g, pp_startsAt = fg_startsAt g,
       pp_endsAt = fg_endsAt g, pp_distributionAt = fg_distributionAt g,
       pp_packages = filter (\<lambda>p. fp_groupId p = fg_id g \<and> fp_isActive p) (food_packages s), pp_coordinatorName = name,
       pp_coordinatorVerified = verified\<rparr>)"

definition findShared :: "(string \<Rightarrow> bool) \<Rightarrow> string \<Rightarrow> 'm food_db_scheme \<Rightarrow> food_programme option" where
  "findShared isUUID idOrCode s =
     (case normalisePublicCode idOrCode of
        Some code \<Rightarrow> List.find (\<lambda>g. fg_shortCode g = code) (food_programmes s)
      | None \<Rightarrow> if isUUID idOrCode then findProgramme idOrCode s else None)"

definition publicProgrammePreview :: "(string \<Rightarrow> bool) \<Rightarrow> string \<Rightarrow> 'm food_db_scheme \<Rightarrow> public_programme res" where
  "publicProgrammePreview isUUID idOrCode s =
     (case findShared isUUID idOrCode s of
        None \<Rightarrow> Inl (NotFound ''Food Ajo programme was not found'')
      | Some g \<Rightarrow>
        if fg_status g \<noteq> FS_OPEN \<and> fg_status g \<noteq> FS_ACTIVE then Inl (NotFound ''Food Ajo programme was not found'')
        else (case withCoordinators s [g] of
            [] \<Rightarrow> Inl (NotFound ''Food Ajo programme was not found'')
          | described # _ \<Rightarrow> Inr (publicProgramme s described)))"

record subscribe_dto =
  sb_packageId :: string
  sb_quantity :: int
  sb_fulfilment :: "fulfilment_method option"

definition liveSubscription :: "string \<Rightarrow> food_subscription \<Rightarrow> bool" where
  "liveSubscription programmeId x \<longleftrightarrow> fs_groupId x = programmeId \<and> canCancelSubscription (fs_status x)"

definition enrolledPortions :: "string \<Rightarrow> 'm food_db_scheme \<Rightarrow> int" where
  "enrolledPortions programmeId s = sum_list (map fs_quantity (filter (liveSubscription programmeId) (food_subscriptions s)))"

definition newSubscription :: "string \<Rightarrow> int \<Rightarrow> string \<Rightarrow> food_programme \<Rightarrow> subscribe_dto \<Rightarrow> food_subscription" where
  "newSubscription sid now userId g dto =
     \<lparr>fs_id = sid, fs_groupId = fg_id g, fs_packageId = sb_packageId dto, fs_userId = userId, fs_status = FSS_PENDING,
      fs_quantity = sb_quantity dto, fs_fulfilment = or_default (sb_fulfilment dto) (fg_fulfilment g), fs_amountPaid = 0,
      fs_paidAt = None, fs_createdAt = now\<rparr>"

definition renewSubscription :: "food_programme \<Rightarrow> subscribe_dto \<Rightarrow> food_subscription \<Rightarrow> food_subscription" where
  "renewSubscription g dto x =
     x\<lparr>fs_status := FSS_PENDING, fs_quantity := sb_quantity dto,
       fs_fulfilment := or_default (sb_fulfilment dto) (fg_fulfilment g)\<rparr>"

text \<open>A withdrawn enrolment is taken up again in the same row; otherwise a new row is inserted.\<close>

definition writeSubscription ::
  "string \<Rightarrow> int \<Rightarrow> string \<Rightarrow> food_programme \<Rightarrow> subscribe_dto \<Rightarrow> food_subscription option \<Rightarrow> ('m food_db_scheme, food_subscription) tx" where
  "writeSubscription sid now userId g dto existing s =
     (case existing of
        Some x \<Rightarrow> Inr (renewSubscription g dto x,
          s\<lparr>food_subscriptions := update_where (\<lambda>y. fs_id y = fs_id x) (renewSubscription g dto) (food_subscriptions s)\<rparr>)
      | None \<Rightarrow> bind_res (insertRow subscription_clash (newSubscription sid now userId g dto) (food_subscriptions s)) (\<lambda>xs.
          Inr (newSubscription sid now userId g dto, s\<lparr>food_subscriptions := xs\<rparr>)))"

definition subscribe ::
  "string \<Rightarrow> int \<Rightarrow> string \<Rightarrow> string \<Rightarrow> subscribe_dto \<Rightarrow> ('m food_db_scheme, food_subscription) handler" where
  "subscribe sid now userId programmeId dto = serializable (\<lambda>s.
     case findProgramme programmeId s of
       None \<Rightarrow> Inl (NotFound ''Food Ajo programme was not found'')
     | Some g \<Rightarrow>
       (let pkg = findPackage (sb_packageId dto) s;
            existing = List.find (\<lambda>x. fs_groupId x = programmeId \<and> fs_userId x = userId \<and> fs_packageId x = sb_packageId dto)
              (food_subscriptions s) in
        bind_res (assertCanSubscribe (fg_status g) (fg_capacity g) (enrolledPortions programmeId s) (sb_quantity dto)
            (case pkg of None \<Rightarrow> False | Some p \<Rightarrow> fp_groupId p = programmeId)
            (case pkg of None \<Rightarrow> False | Some p \<Rightarrow> fp_isActive p)
            (case existing of None \<Rightarrow> False | Some x \<Rightarrow> canCancelSubscription (fs_status x))) (\<lambda>_.
        bind_res (writeSubscription sid now userId g dto existing s) (\<lambda>(x, s1).
          Inr (x, outbox ''FoodSubscription'' (fs_id x) ''food.subscription.created''
            (audit (Some userId) ''food.subscription.created'' ''FoodSubscription'' (Some (fs_id x)) None s1))))))"

section \<open>FoodSubscriptionTarget\<close>

definition escrowAccount :: "string \<Rightarrow> string \<Rightarrow> string \<Rightarrow> fin_account" where
  "escrowAccount newId programmeId currency =
     \<lparr>fa_id = newId, fa_code = escrowAccountCode programmeId, fa_name = ''Food Ajo programme escrow '' @ programmeId,
      fa_type = LIABILITY, fa_purpose = Some FOOD_PROGRAMME_ESCROW, fa_currency = currency, fa_walletId = None, fa_isActive = True\<rparr>"

definition escrowAccountWithin :: "string \<Rightarrow> string \<Rightarrow> string \<Rightarrow> ('m core_db_scheme, string) tx" where
  "escrowAccountWithin newId programmeId currency s =
     (case List.find (\<lambda>a. fa_code a = escrowAccountCode programmeId) (accounts s) of
        Some a \<Rightarrow>
          if \<not> fa_isActive a then Inl (Unprocessable ''This programme's account is not active'') else Inr (fa_id a, s)
      | None \<Rightarrow> bind_res (insertRow account_clash (escrowAccount newId programmeId currency) (accounts s)) (\<lambda>as.
          Inr (newId, s\<lparr>accounts := as\<rparr>)))"

text \<open>The subscription with its programme and package, as the query includes them.\<close>

definition includedSubscription ::
  "string option \<Rightarrow> 'm food_db_scheme \<Rightarrow> (food_subscription \<times> food_programme \<times> food_package) option" where
  "includedSubscription subscriptionId s =
     (case truthy subscriptionId of
        None \<Rightarrow> None
      | Some i \<Rightarrow> (case List.find (\<lambda>x. fs_id x = i) (food_subscriptions s) of
          None \<Rightarrow> None
        | Some x \<Rightarrow> (case (findProgramme (fs_groupId x) s, findPackage (fs_packageId x) s) of
            (Some g, Some p) \<Rightarrow> Some (x, g, p) | _ \<Rightarrow> None)))"

definition ownedSubscription ::
  "string \<Rightarrow> string option \<Rightarrow> 'm food_db_scheme \<Rightarrow> (food_subscription \<times> food_programme \<times> food_package) res" where
  "ownedSubscription userId subscriptionId s =
     (case includedSubscription subscriptionId s of
        None \<Rightarrow> Inl (NotFound ''That enrolment was not found'')
      | Some (x, g, p) \<Rightarrow> if fs_userId x \<noteq> userId then Inl (NotFound ''That enrolment was not found'') else Inr (x, g, p))"

definition subscriptionLabel :: "int \<Rightarrow> string \<Rightarrow> string \<Rightarrow> string" where
  "subscriptionLabel quantity groupName packageName =
     ''Food: '' @ groupName @ '', '' @ packageName @ (if quantity > 1 then '' x '' @ showInt quantity else [])"

definition subscriptionResolve :: "int \<Rightarrow> string \<Rightarrow> string option \<Rightarrow> int option \<Rightarrow> 'm food_db_scheme \<Rightarrow> resolved_target res" where
  "subscriptionResolve now userId subscriptionId requested s =
     bind_res (ownedSubscription userId subscriptionId s) (\<lambda>(x, g, p).
     if fs_status x = FSS_ACTIVE then Inl (Conflict ''This enrolment has already been paid'')
     else if fs_status x \<noteq> FSS_PENDING then Inl (Conflict ''This enrolment can no longer be paid'')
     else if \<not> foodAcceptsPayment (fg_status g) then Inl (Conflict ''This programme is not collecting payments'')
     else let outstanding = subscriptionTotalMinor (fp_price p) (fs_quantity x) - fs_amountPaid x in
       if outstanding \<le> 0 then Inl (Conflict ''This enrolment has already been paid'')
       else Inr \<lparr>rt_amount = outstanding, rt_currency = fp_currency p,
              rt_description = subscriptionLabel (fs_quantity x) (fg_name g) (fp_name p)\<rparr>)"

definition subscriptionCredit :: "pay_ids \<Rightarrow> string option \<Rightarrow> string \<Rightarrow> ('m food_db_scheme, string) tx" where
  "subscriptionCredit ids subscriptionId currency s =
     (case truthy subscriptionId of
        None \<Rightarrow> Inl (NotFound ''That enrolment was not found'')
      | Some i \<Rightarrow> (case List.find (\<lambda>x. fs_id x = i) (food_subscriptions s) of
          None \<Rightarrow> Inl (NotFound ''That enrolment was not found'')
        | Some x \<Rightarrow> escrowAccountWithin (py_account ids) (fs_groupId x) currency s))"

definition recordPaid :: "int \<Rightarrow> int \<Rightarrow> int \<Rightarrow> food_subscription \<Rightarrow> food_subscription" where
  "recordPaid amountPaid totalMinor now x =
     (if amountPaid \<ge> totalMinor then x\<lparr>fs_amountPaid := amountPaid, fs_status := FSS_ACTIVE, fs_paidAt := Some now\<rparr>
      else x\<lparr>fs_amountPaid := amountPaid\<rparr>)"

definition subscriptionSettle :: "pay_ids \<Rightarrow> int \<Rightarrow> settled_payment \<Rightarrow> ('m food_db_scheme, unit) tx" where
  "subscriptionSettle ids now payment s =
     bind_res (ownedSubscription (sp_userId payment) (sp_targetId payment) s) (\<lambda>(x, g, p).
       Inr ((), outbox ''FoodSubscription'' (fs_id x) ''food.subscription.paid''
         (audit (Some (sp_userId payment)) ''food.subscription.paid'' ''FoodSubscription'' (Some (fs_id x)) None
           (s\<lparr>food_subscriptions := update_where (\<lambda>y. fs_id y = fs_id x)
              (recordPaid (fs_amountPaid x + sp_amount payment) (subscriptionTotalMinor (fp_price p) (fs_quantity x)) now)
              (food_subscriptions s)\<rparr>))))"

definition subscriptionDescribe :: "string option \<Rightarrow> 'm food_db_scheme \<Rightarrow> string" where
  "subscriptionDescribe subscriptionId s =
     (case includedSubscription subscriptionId s of
        None \<Rightarrow> ''Food subscription''
      | Some (x, g, p) \<Rightarrow> subscriptionLabel (fs_quantity x) (fg_name g) (fp_name p))"

definition FoodSubscriptionTarget :: "'m food_db_scheme payment_target" where
  "FoodSubscriptionTarget =
     \<lparr>pt_type = TT_FOOD_SUBSCRIPTION, pt_methods = [PM_WALLET], pt_amountRule = AR_fixed, pt_feeCode = None, pt_holdsFee = False,
      pt_resolve = subscriptionResolve, pt_creditAccount = subscriptionCredit, pt_settle = subscriptionSettle,
      pt_describe = subscriptionDescribe, pt_verifyConfirmation = None, pt_afterCommit = None\<rparr>"

definition refundCommand :: "string \<Rightarrow> string \<Rightarrow> int option \<Rightarrow> string \<Rightarrow> string \<Rightarrow> int \<Rightarrow> string \<Rightarrow> string \<Rightarrow> posting_command" where
  "refundCommand userId subscriptionId paidAt programmeId currency amount escrow walletAccount =
     \<lparr>pc_idempotencyKey = ''food-refund:'' @ join_colon subscriptionId (showInt (or_default paidAt 0)),
      pc_reference = ''FOOD-REFUND-'' @ shortRef subscriptionId, pc_description = ''Food Ajo enrolment refund'',
      pc_currency = currency, pc_initiatedBy = Some userId, pc_correlationId = Some programmeId,
      pc_entries = two_legs escrow walletAccount amount\<rparr>"

definition refundWallet :: "string \<Rightarrow> string \<Rightarrow> 'm core_db_scheme \<Rightarrow> fin_account res" where
  "refundWallet userId currency s =
     (case List.find (\<lambda>w. wl_userId w = userId \<and> wl_currency w = currency) (wallets s) of
        None \<Rightarrow> Inl (Unprocessable ''No wallet is available to refund to'')
      | Some w \<Rightarrow> (case findAccount (Some (wl_id w)) WALLET_AVAILABLE currency s of
          None \<Rightarrow> Inl (Unprocessable ''No wallet is available to refund to'')
        | Some a \<Rightarrow> Inr a))"

definition refundWithin ::
  "pay_ids \<Rightarrow> int \<Rightarrow> string \<Rightarrow> food_subscription \<Rightarrow> food_status \<Rightarrow> string \<Rightarrow> ('m food_db_scheme, int) tx" where
  "refundWithin ids now userId x programmeStatus currency s =
     (if fs_amountPaid x \<le> 0 then Inr (0, s)
      else if \<not> canRefundSubscription programmeStatus
      then Inl (Conflict ''Buying has begun for this programme, so a paid enrolment can no longer be withdrawn'')
      else
      bind_res (refundWallet userId currency s) (\<lambda>walletAccount.
      bind_res (escrowAccountWithin (py_account ids) (fs_groupId x) currency s) (\<lambda>(escrow, s1).
      bind_res (postWithin (py_tx ids) now
          (refundCommand userId (fs_id x) (fs_paidAt x) (fs_groupId x) currency (fs_amountPaid x) escrow (fa_id walletAccount)) s1) (\<lambda>(_, s2).
        Inr (fs_amountPaid x,
          audit (Some userId) ''food.subscription.refunded'' ''FoodSubscription'' (Some (fs_id x)) None s2)))))"

definition withdrawn :: "food_subscription \<Rightarrow> food_subscription" where
  "withdrawn x = x\<lparr>fs_status := FSS_CANCELLED, fs_amountPaid := 0, fs_paidAt := None\<rparr>"

definition cancelSubscription ::
  "pay_ids \<Rightarrow> int \<Rightarrow> string \<Rightarrow> string \<Rightarrow> ('m food_db_scheme, food_subscription) handler" where
  "cancelSubscription ids now userId programmeId = serializable (\<lambda>s.
     case List.find (\<lambda>x. fs_groupId x = programmeId \<and> fs_userId x = userId) (food_subscriptions s) of
       None \<Rightarrow> Inl (NotFound ''You are not enrolled in this programme'')
     | Some x \<Rightarrow>
     if \<not> canCancelSubscription (fs_status x) then Inl (Conflict ''This enrolment can no longer be withdrawn'')
     else (case (findProgramme programmeId s, findPackage (fs_packageId x) s) of
       (Some g, Some p) \<Rightarrow>
         bind_res (refundWithin ids now userId x (fg_status g) (fp_currency p) s) (\<lambda>(_, s1).
           Inr (withdrawn x, audit (Some userId) ''food.subscription.cancelled'' ''FoodSubscription'' (Some (fs_id x)) None
             (s1\<lparr>food_subscriptions := update_where (\<lambda>y. fs_id y = fs_id x) withdrawn (food_subscriptions s1)\<rparr>)))
     | _ \<Rightarrow> Inl RecordMissing))"

record my_subscription =
  ms_subscription :: food_subscription
  ms_programme :: "string \<times> food_status \<times> int option"
  ms_package :: "string \<times> int \<times> string"
  ms_amountDue :: int

definition mySubscriptions :: "string \<Rightarrow> 'm food_db_scheme \<Rightarrow> my_subscription list" where
  "mySubscriptions userId s =
     [\<lparr>ms_subscription = x, ms_programme = (fg_name g, fg_status g, fg_distributionAt g),
       ms_package = (fp_name p, fp_price p, fp_currency p), ms_amountDue = subscriptionTotalMinor (fp_price p) (fs_quantity x)\<rparr>.
      x \<leftarrow> sort_key (\<lambda>x. - fs_createdAt x) (filter (\<lambda>x. fs_userId x = userId) (food_subscriptions s)),
      g \<leftarrow> food_programmes s, fg_id g = fs_groupId x, p \<leftarrow> food_packages s, fp_id p = fs_packageId x]"

section \<open>Lemmas\<close>

lemma escrowAccount_simps [simp]:
  "fa_id (escrowAccount i g c) = i" "fa_code (escrowAccount i g c) = escrowAccountCode g" "\<not> is_wallet_account (escrowAccount i g c)"
  "fa_purpose (escrowAccount i g c) = Some FOOD_PROGRAMME_ESCROW"
  by (simp_all add: escrowAccount_def is_wallet_account_def)

interpretation escrow_account: owned_account escrowAccountWithin escrowAccountCode escrowAccount
  by unfold_locales (auto simp: escrowAccountWithin_def res_iffs account_clash_def find_None_iff dest: find_SomeD split: option.splits if_splits)

lemma escrow_open_tables:
  assumes "escrowAccountWithin newId gid c (s :: 'm food_db_scheme) = Inr (a, s')"
  shows "s' = s\<lparr>accounts := accounts s'\<rparr>"
  using assms by (cases rule: escrow_account.open_cases) simp_all

interpretation food_subscription: immediate_target FoodSubscriptionTarget
proof
  fix ids now p u and s s' :: "'m food_db_scheme"
  assume "pt_settle FoodSubscriptionTarget ids now p s = Inr (u, s')"
  then show "ledger_txs s' = ledger_txs s \<and> accounts s' = accounts s \<and> wallets s' = wallets s \<and> intents s' = intents s"
    by (auto simp: FoodSubscriptionTarget_def subscriptionSettle_def res_iffs audit_def outbox_def)
next
  fix ids tid c a and s s' :: "'m food_db_scheme"
  assume "pt_creditAccount FoodSubscriptionTarget ids tid c s = Inr (a, s')"
  then obtain i g where p: "escrowAccountWithin i g c s = Inr (a, s')"
    by (auto simp: FoodSubscriptionTarget_def subscriptionCredit_def split: option.splits)
  then have "intents s' = intents s" by (cases rule: escrow_account.open_cases) simp_all
  with escrow_account.open_frame [OF p]
  show "ledger_txs s' = ledger_txs s \<and> wallets s' = wallets s \<and> intents s' = intents s \<and> (accounts_wf s \<longrightarrow> accounts_wf s')
      \<and> filter is_wallet_account (accounts s') = filter is_wallet_account (accounts s)" by simp
qed (simp add: FoodSubscriptionTarget_def)

lemma food_target_simps [simp]:
  "pt_resolve FoodSubscriptionTarget = subscriptionResolve" "pt_creditAccount FoodSubscriptionTarget = subscriptionCredit"
  "pt_settle FoodSubscriptionTarget = subscriptionSettle" "pt_holdsFee FoodSubscriptionTarget = False"
  "pt_afterCommit FoodSubscriptionTarget = None" "storedRequest FoodSubscriptionTarget x = None"
  by (simp_all add: FoodSubscriptionTarget_def storedRequest_def)

lemma ownedSubscription_Inr:
  assumes "ownedSubscription u tid s = Inr (x, g, p)"
  shows "truthy tid = Some (fs_id x)" "x \<in> set (food_subscriptions s)" "fs_userId x = u"
    "findProgramme (fs_groupId x) s = Some g" "findPackage (fs_packageId x) s = Some p"
  using assms by (auto simp: ownedSubscription_def includedSubscription_def dest!: find_SomeD split: option.splits if_splits)

lemma ownedSubscription_cong:
  assumes "food_subscriptions s' = food_subscriptions s" "food_programmes s' = food_programmes s" "food_packages s' = food_packages s"
  shows "ownedSubscription u tid s' = ownedSubscription u tid s"
  by (simp add: ownedSubscription_def includedSubscription_def findProgramme_def findPackage_def assms cong: option.case_cong)

lemma subscriptionResolve_Inr:
  assumes "subscriptionResolve now u tid req s = Inr t"
  obtains x g p where "ownedSubscription u tid s = Inr (x, g, p)" "fs_status x = FSS_PENDING" "foodAcceptsPayment (fg_status g)"
    "rt_amount t = subscriptionTotalMinor (fp_price p) (fs_quantity x) - fs_amountPaid x" "0 < rt_amount t"
  using assms by (auto simp: subscriptionResolve_def res_iffs Let_def split: if_splits)

lemma refund_entries:
  "pc_entries (refundCommand u sid paidAt gid c n e w) = two_legs e w n"
  "pc_idempotencyKey (refundCommand u sid paidAt gid c n e w) = ''food-refund:'' @ join_colon sid (showInt (or_default paidAt 0))"
  "pc_reference (refundCommand u sid paidAt gid c n e w) = ''FOOD-REFUND-'' @ shortRef sid"
  by (simp_all add: refundCommand_def)

lemma refundWithin_paid:
  assumes "refundWithin ids now u x st c s = Inr (n, s')" and "0 < fs_amountPaid x"
  obtains w e s1 r s2 where "canRefundSubscription st" "refundWallet u c s = Inr w" "escrowAccountWithin (py_account ids) (fs_groupId x) c s = Inr (e, s1)"
    "postWithin (py_tx ids) now (refundCommand u (fs_id x) (fs_paidAt x) (fs_groupId x) c (fs_amountPaid x) e (fa_id w)) s1 = Inr (r, s2)"
    "s' = audit (Some u) ''food.subscription.refunded'' ''FoodSubscription'' (Some (fs_id x)) None s2" "n = fs_amountPaid x"
  using assms by (auto simp: refundWithin_def res_iffs split: if_splits)

lemma cancelSubscription_Inr:
  assumes "cancelSubscription ids now u gid s = (Inr y, s')"
  obtains x g p n s1 where "List.find (\<lambda>x. fs_groupId x = gid \<and> fs_userId x = u) (food_subscriptions s) = Some x"
    "canCancelSubscription (fs_status x)" "findProgramme gid s = Some g" "findPackage (fs_packageId x) s = Some p"
    "refundWithin ids now u x (fg_status g) (fp_currency p) s = Inr (n, s1)" "y = withdrawn x"
    "s' = audit (Some u) ''food.subscription.cancelled'' ''FoodSubscription'' (Some (fs_id x)) None
       (s1\<lparr>food_subscriptions := update_where (\<lambda>y. fs_id y = fs_id x) withdrawn (food_subscriptions s1)\<rparr>)"
proof -
  from assms obtain x where x: "List.find (\<lambda>x. fs_groupId x = gid \<and> fs_userId x = u) (food_subscriptions s) = Some x"
    by (auto simp: cancelSubscription_def serializable_iffs split: option.splits)
  from assms have c: "canCancelSubscription (fs_status x)" by (auto simp: cancelSubscription_def serializable_iffs x split: if_splits)
  from assms obtain g p where gp: "findProgramme gid s = Some g" "findPackage (fs_packageId x) s = Some p"
    by (auto simp: cancelSubscription_def serializable_iffs x c split: option.splits)
  from assms show ?thesis unfolding cancelSubscription_def serializable_iffs x gp using c gp x
    by (auto simp: res_iffs intro: that)
qed

lemma refund_tables:
  assumes "refundWithin ids now u x st c (s :: 'm food_db_scheme) = Inr (n, s')"
  shows "food_subscriptions s' = food_subscriptions s" "food_programmes s' = food_programmes s" "food_packages s' = food_packages s"
proof -
  have "food_subscriptions s' = food_subscriptions s \<and> food_programmes s' = food_programmes s \<and> food_packages s' = food_packages s"
  proof (cases "0 < fs_amountPaid x")
    case True
    from assms True obtain e s1 s2 k r where o: "escrowAccountWithin (py_account ids) (fs_groupId x) c s = Inr (e, s1)"
      and p: "postWithin (py_tx ids) now k s1 = Inr (r, s2)" and s': "\<exists>a b d f g. s' = audit a b d f g s2"
      by (elim refundWithin_paid) blast+
    from p obtain txs where s2: "s2 = s1\<lparr>ledger_txs := txs\<rparr>" by (rule postWithin_only_ledger)
    show ?thesis using s' s2 escrow_open_tables [OF o] by (cases s1; cases s) (auto simp: audit_def)
  qed (use assms in \<open>simp add: refundWithin_def\<close>)
  then show "food_subscriptions s' = food_subscriptions s" "food_programmes s' = food_programmes s" "food_packages s' = food_packages s"
    by simp_all
qed

section \<open>Properties\<close>

text \<open>Ada has enrolled for two portions of a 300 package in an open programme and has an intent to pay for them.\<close>

definition demo_programme :: "food_status \<Rightarrow> food_programme" where
  "demo_programme st = \<lparr>fg_id = ''f1'', fg_coordinatorUserId = ''bola'', fg_name = ''Rice'', fg_status = st, fg_currency = ''NGN'', fg_contribution = 300,
     fg_frequency = MONTHLY, fg_capacity = 10, fg_fulfilment = FM_PICKUP, fg_startsAt = 0, fg_endsAt = 86400000, fg_plannedProcurementAt = None,
     fg_distributionAt = None, fg_activatedAt = None, fg_shortCode = ''7Q3KMTR'', fg_createdAt = 0\<rparr>"

definition demo_package :: food_package where
  "demo_package = \<lparr>fp_id = ''k1'', fp_groupId = ''f1'', fp_name = ''Bag'', fp_price = 300, fp_priceLockedAt = Some 1, fp_currency = ''NGN'',
     fp_isActive = True, fp_items = []\<rparr>"

definition demo_subscription :: food_subscription where
  "demo_subscription = \<lparr>fs_id = ''bbbbbbbb-1'', fs_groupId = ''f1'', fs_packageId = ''k1'', fs_userId = ''ada'', fs_status = FSS_PENDING,
     fs_quantity = 2, fs_fulfilment = FM_PICKUP, fs_amountPaid = 0, fs_paidAt = None, fs_createdAt = 2\<rparr>"

definition demo_food_db :: food_db where
  "demo_food_db = akawo_db.extend
     (demo_akawo_db\<lparr>intents := [(demo_intent ''aaaaaaaa-1'' PI_REQUIRES_CONFIRMATION None)
        \<lparr>pi_targetType := TT_FOOD_SUBSCRIPTION, pi_targetId := Some ''bbbbbbbb-1'', pi_amount := 600, pi_fee := 0, pi_total := 600\<rparr>]\<rparr>)
     (food_db.fields [demo_programme FS_OPEN] [demo_package] [demo_subscription] [] [] [] [] [] [] [])"


definition demo_food_paid where
  "demo_food_paid = settleWithin demo_pids 5 ''ada'' ''aaaaaaaa-1'' ''k'' FoodSubscriptionTarget demo_food_db"



text \<open>Ada has paid for her two portions.\<close>

definition demo_escrow_tx :: ledger_tx where
  "demo_escrow_tx = postedTx ''t8'' 2 \<lparr>pc_idempotencyKey = ''k8'', pc_reference = ''r8'', pc_description = ''d'', pc_currency = ''NGN'',
     pc_initiatedBy = None, pc_correlationId = None, pc_entries = two_legs ''wa'' ''esc'' 600\<rparr>"

definition demo_enrolled :: food_subscription where
  "demo_enrolled = demo_subscription\<lparr>fs_status := FSS_ACTIVE, fs_amountPaid := 600, fs_paidAt := Some 7\<rparr>"

definition demo_enrolled_db :: food_db where
  "demo_enrolled_db = demo_food_db\<lparr>ledger_txs := ledger_txs demo_food_db @ [demo_escrow_tx],
     accounts := accounts demo_food_db @ [escrowAccount ''esc'' ''f1'' ''NGN''], food_subscriptions := [demo_enrolled]\<rparr>"

definition demo_withdrawn where
  "demo_withdrawn = cancelSubscription demo_pids 9 ''ada'' ''f1'' demo_enrolled_db"


text \<open>Ada paid, withdrew with a refund, enrolled again and paid again: the refund of the first payment is on the ledger.\<close>

definition demo_refund_tx :: ledger_tx where
  "demo_refund_tx = postedTx ''t9'' 3 (refundCommand ''ada'' ''bbbbbbbb-1'' (Some 3) ''f1'' ''NGN'' 600 ''esc'' ''wa'')"

text \<open>
  A member gets a refund only once: when the ledger already holds a refund of an enrolment, a later payment for the same enrolment, taken up again, can never be refunded.
  Every withdrawal is refused and changes nothing, because the second refund has a new key but the same reference, which is unique in the ledger.
\<close>

theorem second_refund_refused:
  assumes x: "List.find (\<lambda>x. fs_groupId x = gid \<and> fs_userId x = u) (food_subscriptions s) = Some x" "0 < fs_amountPaid x"
    and refunded: "t \<in> set (ledger_txs s)" "lt_reference t = ''FOOD-REFUND-'' @ shortRef (fs_id x)"
    and fresh: "''food-refund:'' @ join_colon (fs_id x) (showInt (or_default (fs_paidAt x) 0)) \<notin> used_keys s"
  shows "\<exists>e. cancelSubscription ids now u gid s = (Inl e, s)"
proof (cases "cancelSubscription ids now u gid s")
  case (Pair r s')
  show ?thesis
  proof (cases r)
    case (Inl e)
    with Pair have "s' = s" by (simp only: cancelSubscription_def serializable_Inl_iff)
    with Pair Inl show ?thesis by simp
  next
    case (Inr y)
    with Pair have "cancelSubscription ids now u gid s = (Inr y, s')" by simp
    then obtain x0 g p n s1 where x0: "List.find (\<lambda>x. fs_groupId x = gid \<and> fs_userId x = u) (food_subscriptions s) = Some x0"
      and "findProgramme gid s = Some g" "findPackage (fs_packageId x0) s = Some p"
      and r: "refundWithin ids now u x0 (fg_status g) (fp_currency p) s = Inr (n, s1)"
      by (rule cancelSubscription_Inr) blast
    have "x0 = x" using x(1) x0 by simp
    from r [unfolded this] x(2) obtain w e s0 q s2 where "refundWallet u (fp_currency p) s = Inr w"
      and o: "escrowAccountWithin (py_account ids) (fs_groupId x) (fp_currency p) s = Inr (e, s0)"
      and post: "postWithin (py_tx ids) now (refundCommand u (fs_id x) (fs_paidAt x) (fs_groupId x) (fp_currency p) (fs_amountPaid x) e (fa_id w)) s0 = Inr (q, s2)"
      by (rule refundWithin_paid) blast
    have l0: "ledger_txs s0 = ledger_txs s" by (rule escrow_account.open_frame(1) [OF o])
    have key: "pc_idempotencyKey (refundCommand u (fs_id x) (fs_paidAt x) (fs_groupId x) (fp_currency p) (fs_amountPaid x) e (fa_id w)) \<notin> used_keys s0"
      using fresh used_keys_cong [OF l0] by (simp add: refund_entries)
    have "\<forall>t \<in> set (ledger_txs s). lt_reference t \<noteq> ''FOOD-REFUND-'' @ shortRef (fs_id x)"
      using postWithin_fresh [OF post key] l0 by (auto simp: createLedgerTx_def postedTx_def refund_entries split: if_splits)
    with refunded show ?thesis by blast
  qed
qed

end
