(* ===== verification/Food_Coordinator.thy ===== *)
theory Food_Coordinator
  imports Food_Ajo
begin

text \<open>
  Food Ajo for coordinators: \<^verbatim>\<open>src/modules/food-ajo/food-ajo-coordinator.service.ts\<close> with its part of
  \<^verbatim>\<open>domain/food-ajo-policy.ts\<close>. The coordinator moves a programme through its states, buys from vendors against orders and receipts, and hands
  the food out in distributions, whose items are collected with one-time codes. The lemmas cover the history of a programme
  (capacity and locked prices), the evidence behind orders, and the collection codes. Shopping-list quantities, which the code computes
  in floating point, are left out.
\<close>

section \<open>Coordinator policy\<close>

definition assertCanOpenProgramme :: "food_status \<Rightarrow> food_package list \<Rightarrow> int \<Rightarrow> unit res" where
  "assertCanOpenProgramme status packages capacity =
     (if \<not> canTransitionProgramme status FS_OPEN then Inl (Conflict ''This programme cannot be opened from its current state'')
      else let active = filter fp_isActive packages in
        if active = [] then Inl (Unprocessable ''A programme needs at least one active package'')
        else foldl (\<lambda>r p. bind_res r (\<lambda>_. assertPackageActivation (fp_price p) capacity 0)) (Inr ()) active)"

definition assertPackageEditable :: "food_status \<Rightarrow> int option \<Rightarrow> unit res" where
  "assertPackageEditable programmeStatus priceLockedAt =
     (if priceLockedAt \<noteq> None then Inl (Conflict ''This package price is locked and cannot be changed'')
      else if programmeStatus \<noteq> FS_DRAFT then Inl (Conflict ''Packages can only be changed while the programme is a draft'')
      else Inr ())"

definition assertCanProcure :: "food_status \<Rightarrow> int \<Rightarrow> unit res" where
  "assertCanProcure status subscribedPortions =
     (if status \<noteq> FS_ACTIVE then Inl (Conflict ''Procurement starts once the programme is active'')
      else if subscribedPortions < 1 then Inl (Unprocessable ''This programme has no enrolments to procure for'')
      else Inr ())"

definition canTransitionPurchaseOrder :: "purchase_order_status \<Rightarrow> purchase_order_status \<Rightarrow> bool" where
  "canTransitionPurchaseOrder from to \<longleftrightarrow>
     (if from = PO_DRAFT then to = PO_SUBMITTED \<or> to = PO_CANCELLED
      else if from = PO_SUBMITTED then to = PO_CONFIRMED \<or> to = PO_CANCELLED
      else if from = PO_CONFIRMED then to = PO_FULFILLED
      else False)"

definition assertVendorUsable :: "vendor option \<Rightarrow> unit res" where
  "assertVendorUsable v =
     (case v of
        None \<Rightarrow> Inl (NotFound ''That vendor was not found'')
      | Some x \<Rightarrow> if \<not> vn_isVerified x then Inl (Unprocessable ''That vendor has not been verified'') else Inr ())"

text \<open>
  A decimal such as \<^verbatim>\<open>2.500\<close> is split at the point; the fraction is padded to three digits. \<open>digits_value\<close> of an
  empty text is zero, as \<^verbatim>\<open>BigInt('')\<close> is.
\<close>

definition thousandths :: "string \<Rightarrow> int" where
  "thousandths quantity =
     (let whole = takeWhile (\<lambda>c. c \<noteq> CHR ''.'') quantity;
          fraction = takeWhile (\<lambda>c. c \<noteq> CHR ''.'') (drop 1 (dropWhile (\<lambda>c. c \<noteq> CHR ''.'') quantity)) in
      digits_value whole * 1000 + digits_value (take 3 (fraction @ ''000'')))"

definition scaleByQuantity :: "int \<Rightarrow> string \<Rightarrow> int" where
  "scaleByQuantity unitPriceMinor quantity =
     (let scaled = unitPriceMinor * thousandths quantity; remainder = scaled - 1000 * tdiv scaled 1000 in
      tdiv scaled 1000 + (if remainder * 2 \<ge> 1000 then 1 else 0))"

definition purchaseOrderTotalMinor :: "order_item list \<Rightarrow> int" where
  "purchaseOrderTotalMinor items = foldl (\<lambda>t i. t + scaleByQuantity (oi_unitPrice i) (oi_quantity i)) 0 items"

definition canTransitionDistribution :: "distribution_status \<Rightarrow> distribution_status \<Rightarrow> bool" where
  "canTransitionDistribution from to \<longleftrightarrow>
     (if from = FD_PLANNED then to = FD_READY \<or> to = FD_CANCELLED
      else if from = FD_READY then to = FD_DISTRIBUTING \<or> to = FD_CANCELLED
      else if from = FD_DISTRIBUTING then to = FD_COMPLETED
      else False)"

definition assertCanPlanDistribution :: "food_status \<Rightarrow> nat \<Rightarrow> int \<Rightarrow> int \<Rightarrow> unit res" where
  "assertCanPlanDistribution programmeStatus fulfilledOrders scheduledAt now =
     (if programmeStatus \<noteq> FS_ACTIVE then Inl (Conflict ''Only an active programme can schedule a distribution'')
      else if fulfilledOrders < 1 then Inl (Unprocessable ''No fulfilled purchase order to distribute from'')
      else if scheduledAt \<le> now then Inl (Unprocessable ''The distribution must be scheduled in the future'')
      else Inr ())"

definition assertCanConfirmCollection :: "distribution_status \<Rightarrow> bool \<Rightarrow> unit res" where
  "assertCanConfirmCollection distributionStatus alreadyConfirmed =
     (if distributionStatus \<noteq> FD_DISTRIBUTING then Inl (Conflict ''This distribution is not currently handing out'')
      else if alreadyConfirmed then Inl (Conflict ''This collection has already been confirmed'')
      else Inr ())"

definition assertCanCompleteProgramme :: "food_status \<Rightarrow> nat \<Rightarrow> unit res" where
  "assertCanCompleteProgramme status outstandingCollections =
     (if \<not> canTransitionProgramme status FS_COMPLETED
      then Inl (Conflict ''This programme cannot be completed from its current state'')
      else if outstandingCollections > 0
      then Inl (Conflict (showNat outstandingCollections @ '' member collections are still outstanding''))
      else Inr ())"

definition COLLECTION_CODE_TTL_MS :: int where
  "COLLECTION_CODE_TTL_MS = 30 * 60 * 1000"

definition COLLECTION_CODE_ALPHABET :: string where
  "COLLECTION_CODE_ALPHABET = ''ABCDEFGHJKMNPQRSTUVWXYZ23456789''"

definition generateCollectionCode :: "nat list \<Rightarrow> string" where
  "generateCollectionCode randomBytes =
     map (\<lambda>byte. COLLECTION_CODE_ALPHABET ! (byte mod length COLLECTION_CODE_ALPHABET)) (take 6 randomBytes)"

definition normalizeCollectionCode :: "string \<Rightarrow> string" where
  "normalizeCollectionCode code = filter (\<lambda>c. \<not> (is_space c \<or> c = CHR ''-'')) (toUpperCase (trim code))"

definition isValidCollectionCodeShape :: "string \<Rightarrow> bool" where
  "isValidCollectionCodeShape code \<longleftrightarrow>
     (let normalized = normalizeCollectionCode code in
      length normalized = 6 \<and> list_all (\<lambda>c. c \<in> set COLLECTION_CODE_ALPHABET) normalized)"

section \<open>FoodAjoCoordinatorService\<close>

definition ownedProgramme :: "string \<Rightarrow> string \<Rightarrow> 'm food_db_scheme \<Rightarrow> food_programme res" where
  "ownedProgramme userId programmeId s =
     (case findProgramme programmeId s of
        None \<Rightarrow> Inl (NotFound ''Food Ajo programme was not found'')
      | Some g \<Rightarrow> if fg_coordinatorUserId g \<noteq> userId then Inl (NotFound ''Food Ajo programme was not found'') else Inr g)"

definition auditFood :: "string \<Rightarrow> string \<Rightarrow> string \<Rightarrow> 'm core_db_scheme \<Rightarrow> 'm core_db_scheme" where
  "auditFood userId action subjectId s = audit (Some userId) action ''FoodAjo'' (Some subjectId) None s"

fun food_status_name :: "food_status \<Rightarrow> string" where
  "food_status_name FS_DRAFT = ''DRAFT''"
| "food_status_name FS_OPEN = ''OPEN''"
| "food_status_name FS_ACTIVE = ''ACTIVE''"
| "food_status_name FS_COMPLETED = ''COMPLETED''"
| "food_status_name FS_SUSPENDED = ''SUSPENDED''"
| "food_status_name FS_CANCELLED = ''CANCELLED''"

definition itemConfirmed :: "string \<Rightarrow> 'm food_db_scheme \<Rightarrow> bool" where
  "itemConfirmed itemId s \<longleftrightarrow> list_ex (\<lambda>c. dc_itemId c = itemId) (distribution_confirmations s)"

definition outstandingCollections :: "string \<Rightarrow> 'm food_db_scheme \<Rightarrow> nat" where
  "outstandingCollections programmeId s =
     length (filter (\<lambda>i. list_ex (\<lambda>d. fd_id d = di_distributionId i \<and> fd_groupId d = programmeId \<and> fd_status d \<noteq> FD_CANCELLED)
         (food_distributions s) \<and> \<not> itemConfirmed (di_id i) s) (distribution_items s))"

definition checkTransition :: "food_programme \<Rightarrow> food_status \<Rightarrow> 'm food_db_scheme \<Rightarrow> unit res" where
  "checkTransition g to s =
     (if to = FS_OPEN \<and> fg_status g = FS_DRAFT
      then assertCanOpenProgramme (fg_status g) (filter (\<lambda>p. fp_groupId p = fg_id g) (food_packages s)) (fg_capacity g)
      else if to = FS_COMPLETED then assertCanCompleteProgramme (fg_status g) (outstandingCollections (fg_id g) s)
      else if \<not> canTransitionProgramme (fg_status g) to
      then Inl (Conflict (''A '' @ toLowerCase (food_status_name (fg_status g)) @ '' programme cannot become '' @ toLowerCase (food_status_name to)))
      else Inr ())"

definition moveProgramme :: "food_status \<Rightarrow> int \<Rightarrow> food_programme \<Rightarrow> food_programme" where
  "moveProgramme to now g =
     g\<lparr>fg_status := to, fg_activatedAt := (if to = FS_ACTIVE \<and> fg_activatedAt g = None then Some now else fg_activatedAt g)\<rparr>"

definition lockPrices :: "string \<Rightarrow> int \<Rightarrow> food_package list \<Rightarrow> food_package list" where
  "lockPrices programmeId now = update_where (\<lambda>p. fp_groupId p = programmeId \<and> fp_priceLockedAt p = None) (\<lambda>p. p\<lparr>fp_priceLockedAt := Some now\<rparr>)"

definition transitionProgramme ::
  "int \<Rightarrow> string \<Rightarrow> string \<Rightarrow> food_status \<Rightarrow> ('m food_db_scheme, food_programme) handler" where
  "transitionProgramme now userId programmeId to = serializable (\<lambda>s.
     bind_res (ownedProgramme userId programmeId s) (\<lambda>g.
     bind_res (checkTransition g to s) (\<lambda>_.
       Inr (moveProgramme to now g,
         outbox ''FoodAjoGroup'' programmeId (''food.programme.'' @ toLowerCase (food_status_name to))
           (auditFood userId (''food.programme.'' @ toLowerCase (food_status_name to)) programmeId
             (s\<lparr>food_programmes := update_where (\<lambda>g. fg_id g = programmeId) (moveProgramme to now) (food_programmes s),
                food_packages := (if to = FS_OPEN then lockPrices programmeId now (food_packages s) else food_packages s)\<rparr>))))))"

record update_package_dto =
  upk_name :: "string option"
  upk_price :: "int option"

definition editPackage :: "update_package_dto \<Rightarrow> food_package \<Rightarrow> food_package" where
  "editPackage dto p = p\<lparr>fp_name := or_default (truthy (upk_name dto)) (fp_name p), fp_price := or_default (upk_price dto) (fp_price p)\<rparr>"

definition updatePackage :: "string \<Rightarrow> string \<Rightarrow> string \<Rightarrow> update_package_dto \<Rightarrow> ('m food_db_scheme, food_package) handler" where
  "updatePackage userId programmeId packageId dto = serializable (\<lambda>s.
     bind_res (ownedProgramme userId programmeId s) (\<lambda>g.
     case findPackage packageId s of
       None \<Rightarrow> Inl (NotFound ''That package was not found in this programme'')
     | Some p \<Rightarrow>
     if fp_groupId p \<noteq> programmeId then Inl (NotFound ''That package was not found in this programme'')
     else bind_res (assertPackageEditable (fg_status g) (fp_priceLockedAt p)) (\<lambda>_.
       Inr (editPackage dto p, auditFood userId ''food.package.updated'' packageId
         (s\<lparr>food_packages := update_where (\<lambda>p. fp_id p = packageId) (editPackage dto) (food_packages s)\<rparr>)))))"

record plan_line =
  pl_packageId :: string
  pl_name :: string
  pl_price :: int
  pl_subscribers :: nat
  pl_portions :: int
  pl_expected :: int
  pl_collected :: int

definition planLine :: "string \<Rightarrow> 'm food_db_scheme \<Rightarrow> food_package \<Rightarrow> plan_line" where
  "planLine programmeId s p =
     (let rows = filter (\<lambda>x. liveSubscription programmeId x \<and> fs_packageId x = fp_id p) (food_subscriptions s);
          portions = sum_list (map fs_quantity rows) in
      \<lparr>pl_packageId = fp_id p, pl_name = fp_name p, pl_price = fp_price p, pl_subscribers = length rows, pl_portions = portions,
       pl_expected = fp_price p * portions, pl_collected = sum_list (map fs_amountPaid rows)\<rparr>)"

definition procurementPlan :: "string \<Rightarrow> string \<Rightarrow> 'm food_db_scheme \<Rightarrow> (food_programme \<times> int \<times> int \<times> int \<times> plan_line list) res" where
  "procurementPlan userId programmeId s =
     bind_res (ownedProgramme userId programmeId s) (\<lambda>g.
       let lines = map (planLine programmeId s) (filter (\<lambda>p. fp_groupId p = programmeId) (food_packages s)) in
       Inr (g, sum_list (map pl_portions lines), sum_list (map pl_expected lines), sum_list (map pl_collected lines), lines))"

definition createPurchaseOrder ::
  "string \<Rightarrow> string \<Rightarrow> int \<Rightarrow> string \<Rightarrow> string \<Rightarrow> string \<Rightarrow> order_item list \<Rightarrow> ('m food_db_scheme, purchase_order) handler" where
  "createPurchaseOrder oid hex now userId programmeId vendorId items = serializable (\<lambda>s.
     bind_res (ownedProgramme userId programmeId s) (\<lambda>g.
     bind_res (assertCanProcure (fg_status g) (enrolledPortions programmeId s)) (\<lambda>_.
     bind_res (assertVendorUsable (List.find (\<lambda>v. vn_id v = vendorId) (vendors s))) (\<lambda>_.
     let order = \<lparr>or_id = oid, or_vendorId = vendorId, or_groupId = Some programmeId, or_reference = ''PO-'' @ toUpperCase hex,
            or_status = PO_DRAFT, or_total = purchaseOrderTotalMinor items, or_currency = fg_currency g, or_createdAt = now, or_items = items\<rparr> in
     bind_res (insertRow (\<lambda>a b. or_id a = or_id b \<or> or_reference a = or_reference b) order (purchase_orders s)) (\<lambda>os.
       Inr (order, outbox ''PurchaseOrder'' oid ''food.purchase-order.created''
         (auditFood userId ''food.purchase-order.created'' oid (s\<lparr>purchase_orders := os\<rparr>))))))))"

definition listPurchaseOrders :: "string \<Rightarrow> string \<Rightarrow> 'm food_db_scheme \<Rightarrow> purchase_order list res" where
  "listPurchaseOrders userId programmeId s =
     bind_res (ownedProgramme userId programmeId s) (\<lambda>_.
       Inr (sort_key (\<lambda>x. - or_createdAt x) (filter (\<lambda>x. or_groupId x = Some programmeId) (purchase_orders s))))"

fun order_status_name :: "purchase_order_status \<Rightarrow> string" where
  "order_status_name PO_DRAFT = ''DRAFT''"
| "order_status_name PO_SUBMITTED = ''SUBMITTED''"
| "order_status_name PO_CONFIRMED = ''CONFIRMED''"
| "order_status_name PO_FULFILLED = ''FULFILLED''"
| "order_status_name PO_CANCELLED = ''CANCELLED''"

definition ownedOrder :: "string \<Rightarrow> string \<Rightarrow> 'm food_db_scheme \<Rightarrow> purchase_order res" where
  "ownedOrder programmeId orderId s =
     (case List.find (\<lambda>x. or_id x = orderId) (purchase_orders s) of
        None \<Rightarrow> Inl (NotFound ''That purchase order was not found in this programme'')
      | Some x \<Rightarrow> if or_groupId x \<noteq> Some programmeId then Inl (NotFound ''That purchase order was not found in this programme'') else Inr x)"

definition transitionPurchaseOrder ::
  "string \<Rightarrow> string \<Rightarrow> string \<Rightarrow> purchase_order_status \<Rightarrow> ('m food_db_scheme, purchase_order) handler" where
  "transitionPurchaseOrder userId programmeId orderId to = serializable (\<lambda>s.
     bind_res (ownedProgramme userId programmeId s) (\<lambda>_.
     bind_res (ownedOrder programmeId orderId s) (\<lambda>x.
     if \<not> canTransitionPurchaseOrder (or_status x) to
     then Inl (Conflict (''A '' @ toLowerCase (order_status_name (or_status x)) @ '' order cannot become '' @ toLowerCase (order_status_name to)))
     else if to = PO_FULFILLED \<and> \<not> list_ex (\<lambda>r. rc_orderId r = orderId) (purchase_receipts s)
     then Inl (Unprocessable ''Record the delivery receipt before marking this order fulfilled'')
     else Inr (x\<lparr>or_status := to\<rparr>, auditFood userId (''food.purchase-order.'' @ toLowerCase (order_status_name to)) orderId
       (s\<lparr>purchase_orders := update_where (\<lambda>x. or_id x = orderId) (\<lambda>x. x\<lparr>or_status := to\<rparr>) (purchase_orders s)\<rparr>)))))"

record receipt_dto =
  rd_storageKey :: string
  rd_contentHash :: string
  rd_receivedAt :: int

definition recordReceipt ::
  "string \<Rightarrow> string \<Rightarrow> string \<Rightarrow> string \<Rightarrow> receipt_dto \<Rightarrow> ('m food_db_scheme, purchase_receipt) handler" where
  "recordReceipt rid userId programmeId orderId dto = serializable (\<lambda>s.
     bind_res (ownedProgramme userId programmeId s) (\<lambda>_.
     bind_res (ownedOrder programmeId orderId s) (\<lambda>x.
     if or_status x \<noteq> PO_CONFIRMED then Inl (Conflict ''Only a confirmed order can take a delivery receipt'')
     else let receipt = \<lparr>rc_id = rid, rc_orderId = orderId, rc_storageKey = rd_storageKey dto, rc_contentHash = rd_contentHash dto,
            rc_receivedAt = rd_receivedAt dto\<rparr> in
       bind_res (insertRow (\<lambda>a b. rc_id a = rc_id b \<or> rc_storageKey a = rc_storageKey b) receipt (purchase_receipts s)) (\<lambda>rs.
         Inr (receipt, auditFood userId ''food.purchase-receipt.recorded'' rid (s\<lparr>purchase_receipts := rs\<rparr>))))))"

definition newItems :: "(string \<Rightarrow> nat \<Rightarrow> string) \<Rightarrow> string \<Rightarrow> food_subscription list \<Rightarrow> distribution_item list" where
  "newItems newId distributionId xs =
     map (\<lambda>(n, x). \<lparr>di_id = newId ''item'' n, di_distributionId = distributionId, di_subscriptionId = fs_id x, di_quantity = fs_quantity x\<rparr>)
       (enumerate 0 xs)"

definition createDistribution ::
  "(string \<Rightarrow> nat \<Rightarrow> string) \<Rightarrow> int \<Rightarrow> string \<Rightarrow> string \<Rightarrow> int \<Rightarrow> ('m food_db_scheme, food_distribution) handler" where
  "createDistribution newId now userId programmeId scheduledAt = serializable (\<lambda>s.
     bind_res (ownedProgramme userId programmeId s) (\<lambda>g.
     bind_res (assertCanPlanDistribution (fg_status g)
         (length (filter (\<lambda>x. or_groupId x = Some programmeId \<and> or_status x = PO_FULFILLED) (purchase_orders s))) scheduledAt now) (\<lambda>_.
     let live = filter (liveSubscription programmeId) (food_subscriptions s) in
     if live = [] then Inl (Unprocessable ''There are no enrolments to distribute to'')
     else let did = newId ''distribution'' 0;
              row = \<lparr>fd_id = did, fd_groupId = programmeId, fd_status = FD_PLANNED, fd_scheduledAt = scheduledAt, fd_completedAt = None\<rparr> in
       bind_res (insertRow (\<lambda>a b. fd_id a = fd_id b) row (food_distributions s)) (\<lambda>ds.
       bind_res (insertRows (\<lambda>a b. di_id a = di_id b \<or> (di_distributionId a = di_distributionId b \<and> di_subscriptionId a = di_subscriptionId b))
           (newItems newId did live) (distribution_items s)) (\<lambda>is.
         Inr (row, outbox ''FoodDistribution'' did ''food.distribution.planned''
           (auditFood userId ''food.distribution.planned'' did (s\<lparr>food_distributions := ds, distribution_items := is\<rparr>))))))))"

definition listDistributions :: "string \<Rightarrow> string \<Rightarrow> 'm food_db_scheme \<Rightarrow> food_distribution list res" where
  "listDistributions userId programmeId s =
     bind_res (ownedProgramme userId programmeId s) (\<lambda>_.
       Inr (sort_key (\<lambda>d. - fd_scheduledAt d) (filter (\<lambda>d. fd_groupId d = programmeId) (food_distributions s))))"

fun distribution_status_name :: "distribution_status \<Rightarrow> string" where
  "distribution_status_name FD_PLANNED = ''PLANNED''"
| "distribution_status_name FD_READY = ''READY''"
| "distribution_status_name FD_DISTRIBUTING = ''DISTRIBUTING''"
| "distribution_status_name FD_COMPLETED = ''COMPLETED''"
| "distribution_status_name FD_CANCELLED = ''CANCELLED''"

definition ownedDistribution :: "string \<Rightarrow> string \<Rightarrow> 'm food_db_scheme \<Rightarrow> food_distribution res" where
  "ownedDistribution programmeId distributionId s =
     (case List.find (\<lambda>d. fd_id d = distributionId) (food_distributions s) of
        None \<Rightarrow> Inl (NotFound ''That distribution was not found in this programme'')
      | Some d \<Rightarrow> if fd_groupId d \<noteq> programmeId then Inl (NotFound ''That distribution was not found in this programme'') else Inr d)"

definition uncollected :: "string \<Rightarrow> 'm food_db_scheme \<Rightarrow> nat" where
  "uncollected distributionId s =
     length (filter (\<lambda>i. di_distributionId i = distributionId \<and> \<not> itemConfirmed (di_id i) s) (distribution_items s))"

definition moveDistribution :: "distribution_status \<Rightarrow> int \<Rightarrow> food_distribution \<Rightarrow> food_distribution" where
  "moveDistribution to now d = d\<lparr>fd_status := to, fd_completedAt := (if to = FD_COMPLETED then Some now else fd_completedAt d)\<rparr>"

definition transitionDistribution ::
  "int \<Rightarrow> string \<Rightarrow> string \<Rightarrow> string \<Rightarrow> distribution_status \<Rightarrow> ('m food_db_scheme, food_distribution) handler" where
  "transitionDistribution now userId programmeId distributionId to = serializable (\<lambda>s.
     bind_res (ownedProgramme userId programmeId s) (\<lambda>_.
     bind_res (ownedDistribution programmeId distributionId s) (\<lambda>d.
     if \<not> canTransitionDistribution (fd_status d) to
     then Inl (Conflict (''A '' @ toLowerCase (distribution_status_name (fd_status d)) @ '' distribution cannot become ''
            @ toLowerCase (distribution_status_name to)))
     else if to = FD_COMPLETED \<and> uncollected distributionId s > 0
     then Inl (Conflict (showNat (uncollected distributionId s) @ '' members have not collected yet; record or cancel their items first''))
     else Inr (moveDistribution to now d,
       outbox ''FoodDistribution'' distributionId (''food.distribution.'' @ toLowerCase (distribution_status_name to))
         (auditFood userId (''food.distribution.'' @ toLowerCase (distribution_status_name to)) distributionId
           (s\<lparr>food_distributions := update_where (\<lambda>d. fd_id d = distributionId) (moveDistribution to now) (food_distributions s)\<rparr>))))))"

definition issueConfirmation ::
  "string \<Rightarrow> string \<Rightarrow> string \<Rightarrow> string \<Rightarrow> int \<Rightarrow> distribution_confirmation list \<Rightarrow> distribution_confirmation list" where
  "issueConfirmation cid itemId userId codeDigest expiresAt cs =
     (if list_ex (\<lambda>c. dc_itemId c = itemId) cs
      then update_where (\<lambda>c. dc_itemId c = itemId) (\<lambda>c. c\<lparr>dc_hash := codeDigest, dc_expiresAt := expiresAt, dc_confirmedByUserId := userId\<rparr>) cs
      else cs @ [\<lparr>dc_id = cid, dc_itemId = itemId, dc_confirmedByUserId = userId, dc_hash = codeDigest, dc_expiresAt = expiresAt,
                  dc_usedAt = None, dc_evidenceKey = None\<rparr>])"

definition issueCollectionCode ::
  "(string \<Rightarrow> string) \<Rightarrow> string \<Rightarrow> nat list \<Rightarrow> int \<Rightarrow> string \<Rightarrow> string \<Rightarrow> ('m food_db_scheme, string \<times> int \<times> string) handler" where
  "issueCollectionCode sha256 cid randomBytes now userId distributionId = serializable (\<lambda>s.
     let code = generateCollectionCode randomBytes in
     case List.find (\<lambda>d. fd_id d = distributionId) (food_distributions s) of
       None \<Rightarrow> Inl (NotFound ''That distribution was not found'')
     | Some d \<Rightarrow>
     (case List.find (\<lambda>x. liveSubscription (fd_groupId d) x \<and> fs_userId x = userId) (food_subscriptions s) of
       None \<Rightarrow> Inl (NotFound ''You are not enrolled in this programme'')
     | Some x \<Rightarrow>
     (case List.find (\<lambda>i. di_distributionId i = distributionId \<and> di_subscriptionId i = fs_id x) (distribution_items s) of
       None \<Rightarrow> Inl (NotFound ''You have no item in this distribution'')
     | Some i \<Rightarrow>
     if list_ex (\<lambda>c. dc_itemId c = di_id i \<and> dc_usedAt c \<noteq> None) (distribution_confirmations s)
     then Inl (Conflict ''You have already collected this item'')
     else if fd_status d \<noteq> FD_READY \<and> fd_status d \<noteq> FD_DISTRIBUTING
     then Inl (Conflict ''This distribution is not ready for collection yet'')
     else let expiresAt = now + COLLECTION_CODE_TTL_MS in
       Inr ((di_id i, expiresAt, code), auditFood userId ''food.collection.code-issued'' (di_id i)
         (s\<lparr>distribution_confirmations :=
             issueConfirmation cid (di_id i) userId (sha256 code) expiresAt (distribution_confirmations s)\<rparr>)))))"

definition burnCode :: "int \<Rightarrow> string option \<Rightarrow> distribution_confirmation \<Rightarrow> distribution_confirmation" where
  "burnCode now evidence c =
     c\<lparr>dc_usedAt := Some now, dc_evidenceKey := (case truthy evidence of None \<Rightarrow> dc_evidenceKey c | Some e \<Rightarrow> Some e)\<rparr>"

definition confirmCollection ::
  "(string \<Rightarrow> string) \<Rightarrow> int \<Rightarrow> string \<Rightarrow> string \<Rightarrow> string \<Rightarrow> string \<Rightarrow> string option \<Rightarrow> ('m food_db_scheme, string) handler" where
  "confirmCollection sha256 now userId programmeId distributionId code evidence = serializable (\<lambda>s.
     if \<not> isValidCollectionCodeShape code then Inl (Unprocessable ''That collection code is not valid'')
     else
     bind_res (ownedProgramme userId programmeId s) (\<lambda>_.
     bind_res (ownedDistribution programmeId distributionId s) (\<lambda>d.
     case List.find (\<lambda>c. dc_hash c = sha256 (normalizeCollectionCode code)
           \<and> list_ex (\<lambda>i. di_id i = dc_itemId c \<and> di_distributionId i = distributionId) (distribution_items s)) (distribution_confirmations s) of
       None \<Rightarrow> Inl (Unprocessable ''That collection code is not valid'')
     | Some c \<Rightarrow>
     if dc_expiresAt c \<le> now then Inl (Unprocessable ''That collection code is not valid'')
     else bind_res (assertCanConfirmCollection (fd_status d) (dc_usedAt c \<noteq> None)) (\<lambda>_.
       Inr (dc_itemId c, outbox ''FoodDistributionItem'' (dc_itemId c) ''food.collection.confirmed''
         (auditFood userId ''food.collection.confirmed'' (dc_itemId c)
           (s\<lparr>distribution_confirmations := update_where (\<lambda>x. dc_id x = dc_id c) (burnCode now evidence) (distribution_confirmations s)\<rparr>)))))))"

text \<open>The verified vendors, in the order of the table; the database sorts them by name.\<close>

definition listVendors :: "'m food_db_scheme \<Rightarrow> vendor list" where
  "listVendors s = filter vn_isVerified (vendors s)"

record vendor_dto =
  vd_name :: string
  vd_contactEmail :: "string option"
  vd_contactPhone :: "string option"

definition proposeVendor :: "string \<Rightarrow> string \<Rightarrow> vendor_dto \<Rightarrow> ('m food_db_scheme, vendor) handler" where
  "proposeVendor vid userId dto = serializable (\<lambda>s.
     let v = \<lparr>vn_id = vid, vn_name = vd_name dto, vn_contactEmail = truthy (vd_contactEmail dto),
           vn_contactPhone = truthy (vd_contactPhone dto), vn_isVerified = False\<rparr> in
     bind_res (insertRow (\<lambda>a b. vn_id a = vn_id b) v (vendors s)) (\<lambda>vs.
       Inr (v, audit (Some userId) ''food.vendor.proposed'' ''Vendor'' (Some vid) None (s\<lparr>vendors := vs\<rparr>))))"

section \<open>The history of programmes\<close>

text \<open>
  Enrolments belong to programmes and never exceed their capacity. The price of a package, once locked, is
  kept from an earlier state \<open>s0\<close> on.
\<close>

definition food_ok :: "'m food_db_scheme \<Rightarrow> bool" where
  "food_ok s \<longleftrightarrow> distinct (map fg_id (food_programmes s)) \<and> distinct (map fp_id (food_packages s)) \<and> distinct (map fs_id (food_subscriptions s))
     \<and> list_all (\<lambda>x. fs_groupId x \<in> fg_id ` set (food_programmes s) \<and> 0 \<le> fs_quantity x) (food_subscriptions s)
     \<and> list_all (\<lambda>g. enrolledPortions (fg_id g) s \<le> fg_capacity g) (food_programmes s)"

definition prices_kept :: "'m food_db_scheme \<Rightarrow> 'm food_db_scheme \<Rightarrow> bool" where
  "prices_kept s0 s \<longleftrightarrow> (\<forall>p \<in> set (food_packages s0). fp_priceLockedAt p \<noteq> None \<longrightarrow>
     (\<exists>q \<in> set (food_packages s). fp_id q = fp_id p \<and> fp_price q = fp_price p \<and> fp_priceLockedAt q \<noteq> None))"

lemma prices_kept_trans: "prices_kept s0 s1 \<Longrightarrow> prices_kept s1 s2 \<Longrightarrow> prices_kept s0 s2"
  unfolding prices_kept_def by metis

lemma prices_kept_same: "set (food_packages s) \<subseteq> set (food_packages s') \<Longrightarrow> prices_kept s s'"
  unfolding prices_kept_def by blast

lemma prices_kept_refl [simp]: "prices_kept s s"
  by (rule prices_kept_same) simp

definition portionsOf :: "string \<Rightarrow> food_subscription \<Rightarrow> int" where
  "portionsOf gid x = (if liveSubscription gid x then fs_quantity x else 0)"

lemma enrolledPortions_sum: "enrolledPortions gid s = sum_list (map (portionsOf gid) (food_subscriptions s))"
  unfolding enrolledPortions_def portionsOf_def by (rule sum_list_map_filter')

lemma food_ok_frame:
  assumes "food_ok s" and "food_programmes s' = food_programmes s" "food_packages s' = food_packages s" "food_subscriptions s' = food_subscriptions s"
  shows "food_ok s' \<and> prices_kept s s'"
  using assms prices_kept_same [of s s'] by (simp add: food_ok_def enrolledPortions_def)

lemma food_ok_programmes:
  assumes "food_ok s" and "\<And>g. fg_id (f g) = fg_id g \<and> fg_capacity (f g) = fg_capacity g"
    and "food_programmes s' = update_where P f (food_programmes s)" "food_subscriptions s' = food_subscriptions s"
    and "distinct (map fp_id (food_packages s'))"
  shows "food_ok s'"
proof -
  have m: "map fg_id (food_programmes s') = map fg_id (food_programmes s)"
    unfolding assms(3) by (rule map_update_where) (simp add: assms(2))
  then have "fg_id ` set (food_programmes s') = fg_id ` set (food_programmes s)" by (metis set_map)
  moreover have "list_all (\<lambda>g. enrolledPortions (fg_id g) s' \<le> fg_capacity g) (food_programmes s')"
    using assms(1,2,4) by (auto simp: food_ok_def list_all_iff assms(3) set_update_where enrolledPortions_def)
  ultimately show ?thesis using assms(1,4,5) m by (simp add: food_ok_def)
qed

lemma transitionProgramme_ok:
  assumes ok: "food_ok s"
  shows "food_ok (snd (transitionProgramme now u gid to s)) \<and> prices_kept s (snd (transitionProgramme now u gid to s))"
proof (rule handler_keeps [of "\<lambda>t. food_ok t \<and> prices_kept s t"])
  fix r s' assume "transitionProgramme now u gid to s = (Inr r, s')"
  then have p: "food_programmes s' = update_where (\<lambda>g. fg_id g = gid) (moveProgramme to now) (food_programmes s)"
    and k: "food_packages s' = food_packages s \<or> food_packages s' = lockPrices gid now (food_packages s)"
    and x: "food_subscriptions s' = food_subscriptions s"
    by (auto simp: transitionProgramme_def serializable_iffs res_iffs outbox_def auditFood_def audit_def)
  have "map fp_id (lockPrices gid now (food_packages s)) = map fp_id (food_packages s)"
    unfolding lockPrices_def by (rule map_update_where) simp
  then have "distinct (map fp_id (food_packages s'))" using ok k by (auto simp: food_ok_def)
  then have "food_ok s'" using food_ok_programmes [OF ok _ p x] by (simp add: moveProgramme_def)
  moreover have "prices_kept s s'" using k by (auto simp: prices_kept_def lockPrices_def set_update_where)
  ultimately show "food_ok s' \<and> prices_kept s s'" ..
qed (use ok prices_kept_same in \<open>auto simp: transitionProgramme_def serializable_Inl_iff\<close>)

lemma updatePackage_ok:
  assumes ok: "food_ok s"
  shows "food_ok (snd (updatePackage u gid pid dto s)) \<and> prices_kept s (snd (updatePackage u gid pid dto s))"
proof (rule handler_keeps [of "\<lambda>t. food_ok t \<and> prices_kept s t"])
  fix r s' assume "updatePackage u gid pid dto s = (Inr r, s')"
  then obtain p where f: "findPackage pid s = Some p" and un: "fp_priceLockedAt p = None"
    and k: "food_packages s' = update_where (\<lambda>p. fp_id p = pid) (editPackage dto) (food_packages s)"
    and x: "food_subscriptions s' = food_subscriptions s" "food_programmes s' = food_programmes s"
    by (auto simp: updatePackage_def serializable_iffs res_iffs case_option_Inr_iff auditFood_def audit_def assertPackageEditable_def split: if_splits)
  have dist: "distinct (map fp_id (food_packages s))" using ok by (simp add: food_ok_def)
  have p: "p \<in> set (food_packages s)" "fp_id p = pid" using f by (auto simp: findPackage_def dest: find_SomeD)
  have "map fp_id (food_packages s') = map fp_id (food_packages s)"
    unfolding k by (rule map_update_where) (simp add: editPackage_def)
  then have "food_ok s'" using ok x by (simp add: food_ok_def enrolledPortions_def)
  moreover have "fp_id q \<noteq> pid" if "q \<in> set (food_packages s)" "fp_priceLockedAt q \<noteq> None" for q
    using dist p that un by (auto simp: distinct_map inj_on_def)
  then have "prices_kept s s'" by (auto simp: prices_kept_def k set_update_where)
  ultimately show "food_ok s' \<and> prices_kept s s'" ..
qed (use ok prices_kept_same in \<open>auto simp: updatePackage_def serializable_Inl_iff\<close>)

lemma createProgramme_ok:
  assumes ok: "food_ok s" and cap: "0 \<le> cpr_capacity dto"
  shows "food_ok (snd (createProgramme newId sc now u dto s)) \<and> prices_kept s (snd (createProgramme newId sc now u dto s))"
proof (rule handler_keeps [of "\<lambda>t. food_ok t \<and> prices_kept s t"])
  fix r s' assume c: "createProgramme newId sc now u dto s = (Inr r, s')"
  define g where "g = newProgramme (newId ''programme'' 0) sc now u dto"
  define ps where "ps = newPackages newId (newId ''programme'' 0) (cpr_packages dto)"
  from c have g: "food_programmes s' = food_programmes s @ [g]" and k: "food_packages s' = food_packages s @ ps"
      "\<forall>n \<in> set ps. \<forall>r \<in> set (food_packages s). fp_id n \<noteq> fp_id r" "sorted_wrt (\<lambda>a b. fp_id b \<noteq> fp_id a) ps"
    and x: "food_subscriptions s' = food_subscriptions s" and new: "\<forall>r \<in> set (food_programmes s). fg_id g \<noteq> fg_id r"
    by (auto simp: createProgramme_def serializable_iffs res_iffs Let_def insertRows_Inr_iff outbox_def audit_def g_def ps_def split: if_splits)
  have cap_g: "fg_capacity g = cpr_capacity dto" by (simp add: g_def newProgramme_def)
  have "distinct (map fp_id ps)" using k(3) by (induction ps) (auto simp: image_iff)
  moreover have "fp_id ` set (food_packages s) \<inter> fp_id ` set ps = {}" using k(2) by (force simp: disjoint_iff)
  ultimately have d: "distinct (map fp_id (food_packages s'))" using ok by (simp add: food_ok_def k(1))
  have "fs_groupId x \<noteq> fg_id g" if "x \<in> set (food_subscriptions s)" for x
    using ok that new unfolding food_ok_def list_all_iff by (metis imageE)
  then have "filter (liveSubscription (fg_id g)) (food_subscriptions s) = []"
    by (simp add: filter_empty_conv liveSubscription_def)
  then have "enrolledPortions (fg_id g) s = 0" by (simp add: enrolledPortions_def)
  then have "food_ok s'" using ok d g new cap cap_g x by (auto simp: food_ok_def list_all_iff enrolledPortions_def)
  moreover have "prices_kept s s'" by (rule prices_kept_same) (simp add: k(1))
  ultimately show "food_ok s' \<and> prices_kept s s'" ..
qed (use ok prices_kept_same in \<open>auto simp: createProgramme_def serializable_Inl_iff\<close>)


text \<open>One enrolment is written: its programme must still have room for what it now holds.\<close>

lemma food_ok_update:
  assumes ok: "food_ok s" and x: "x \<in> set (food_subscriptions s)"
    and s': "food_programmes s' = food_programmes s" "food_packages s' = food_packages s"
      "food_subscriptions s' = update_where (\<lambda>y. fs_id y = fs_id x) f (food_subscriptions s)"
    and f: "\<And>y. fs_id (f y) = fs_id y \<and> fs_groupId (f y) = fs_groupId y" "0 \<le> fs_quantity (f x)"
    and room: "\<And>g. g \<in> set (food_programmes s) \<Longrightarrow> fg_id g = fs_groupId x \<Longrightarrow>
       enrolledPortions (fg_id g) s - portionsOf (fg_id g) x + portionsOf (fg_id g) (f x) \<le> fg_capacity g"
  shows "food_ok s' \<and> prices_kept s s'"
proof -
  have dist: "distinct (map fs_id (food_subscriptions s))" using ok by (simp add: food_ok_def)
  have same: "y = x" if "y \<in> set (food_subscriptions s)" "fs_id y = fs_id x" for y
    using dist x that by (auto simp: distinct_map inj_on_def)
  have "map fs_id (food_subscriptions s') = map fs_id (food_subscriptions s)"
    unfolding s'(3) by (rule map_update_where) (simp add: f(1))
  moreover have "list_all (\<lambda>y. fs_groupId y \<in> fg_id ` set (food_programmes s) \<and> 0 \<le> fs_quantity y) (food_subscriptions s')"
    using ok same f by (auto simp: food_ok_def list_all_iff s'(3) set_update_where)
  moreover have "enrolledPortions (fg_id g) s' \<le> fg_capacity g" if g: "g \<in> set (food_programmes s)" for g
  proof -
    have e: "enrolledPortions (fg_id g) s' = enrolledPortions (fg_id g) s - portionsOf (fg_id g) x + portionsOf (fg_id g) (f x)"
      unfolding enrolledPortions_sum s'(3) by (rule sum_update_where [OF dist x])
    have "enrolledPortions (fg_id g) s \<le> fg_capacity g" using ok g by (simp add: food_ok_def list_all_iff)
    with room [OF g] show ?thesis unfolding e by (cases "fg_id g = fs_groupId x") (simp_all add: portionsOf_def liveSubscription_def f(1))
  qed
  ultimately show ?thesis using ok dist s' prices_kept_same [of s s'] by (simp add: food_ok_def list_all_iff)
qed

lemma food_ok_smaller:
  assumes "food_ok s" and "x \<in> set (food_subscriptions s)"
    and "food_programmes s' = food_programmes s" "food_packages s' = food_packages s"
      "food_subscriptions s' = update_where (\<lambda>y. fs_id y = fs_id x) f (food_subscriptions s)"
    and "\<And>y. fs_id (f y) = fs_id y \<and> fs_groupId (f y) = fs_groupId y" "0 \<le> fs_quantity (f x)"
    and "portionsOf (fs_groupId x) (f x) \<le> portionsOf (fs_groupId x) x"
  shows "food_ok s' \<and> prices_kept s s'"
proof (rule food_ok_update [OF assms(1-7)])
  fix g assume g: "g \<in> set (food_programmes s)" "fg_id g = fs_groupId x"
  then have "enrolledPortions (fg_id g) s \<le> fg_capacity g" using assms(1) unfolding food_ok_def list_all_iff by blast
  with assms(8) g(2) show "enrolledPortions (fg_id g) s - portionsOf (fg_id g) x + portionsOf (fg_id g) (f x) \<le> fg_capacity g" by simp
qed

lemma assertCanSubscribe_Inr:
  "assertCanSubscribe st cap n q b a l = Inr u \<longleftrightarrow> st = FS_OPEN \<and> b \<and> a \<and> \<not> l \<and> 1 \<le> q \<and> n + q \<le> cap"
  by (auto simp: assertCanSubscribe_def acceptsSubscriptions_def)

lemma subscribe_Inr:
  assumes "subscribe sid now u gid dto s = (Inr y, s')"
  obtains g existing s1 where "findProgramme gid s = Some g" "fg_status g = FS_OPEN" "1 \<le> sb_quantity dto"
    "enrolledPortions gid s + sb_quantity dto \<le> fg_capacity g"
    "List.find (\<lambda>x. fs_groupId x = gid \<and> fs_userId x = u \<and> fs_packageId x = sb_packageId dto) (food_subscriptions s) = existing"
    "\<And>x. existing = Some x \<Longrightarrow> \<not> canCancelSubscription (fs_status x)" "writeSubscription sid now u g dto existing s = Inr (y, s1)"
    "food_programmes s' = food_programmes s1" "food_packages s' = food_packages s1" "food_subscriptions s' = food_subscriptions s1"
proof -
  from assms obtain g where g: "findProgramme gid s = Some g" by (auto simp: subscribe_def serializable_iffs split: option.splits)
  from assms show ?thesis unfolding subscribe_def serializable_iffs g
    by (auto simp: res_iffs assertCanSubscribe_Inr Let_def outbox_def audit_def intro: that [OF g])
qed

lemma subscribe_ok:
  assumes ok: "food_ok s"
  shows "food_ok (snd (subscribe sid now u gid dto s)) \<and> prices_kept s (snd (subscribe sid now u gid dto s))"
proof (rule handler_keeps [of "\<lambda>t. food_ok t \<and> prices_kept s t"])
  fix y s' assume "subscribe sid now u gid dto s = (Inr y, s')"
  then obtain g existing s1 where g: "findProgramme gid s = Some g" and q: "1 \<le> sb_quantity dto"
    and cap: "enrolledPortions gid s + sb_quantity dto \<le> fg_capacity g"
    and x: "List.find (\<lambda>x. fs_groupId x = gid \<and> fs_userId x = u \<and> fs_packageId x = sb_packageId dto) (food_subscriptions s) = existing"
    and dead: "\<And>x. existing = Some x \<Longrightarrow> \<not> canCancelSubscription (fs_status x)" and w: "writeSubscription sid now u g dto existing s = Inr (y, s1)"
    and s': "food_programmes s' = food_programmes s1" "food_packages s' = food_packages s1" "food_subscriptions s' = food_subscriptions s1"
    by (rule subscribe_Inr) blast
  have gid: "g \<in> set (food_programmes s)" "fg_id g = gid" using g by (auto simp: findProgramme_def dest: find_SomeD)
  have only: "h = g" if "h \<in> set (food_programmes s)" "fg_id h = gid" for h
    using ok gid that by (auto simp: food_ok_def distinct_map inj_on_def)
  show "food_ok s' \<and> prices_kept s s'"
  proof (cases existing)
    case (Some x0)
    have x0: "x0 \<in> set (food_subscriptions s)" "fs_groupId x0 = gid" using x Some by (auto dest: find_SomeD)
    have nil: "portionsOf gid x0 = 0" using dead Some by (simp add: portionsOf_def liveSubscription_def)
    show ?thesis
    proof (rule food_ok_update [OF ok x0(1)])
      show "food_subscriptions s' = update_where (\<lambda>y. fs_id y = fs_id x0) (renewSubscription g dto) (food_subscriptions s)"
        "food_programmes s' = food_programmes s" "food_packages s' = food_packages s"
        using w by (auto simp: s' writeSubscription_def Some)
      fix h assume "h \<in> set (food_programmes s)" "fg_id h = fs_groupId x0"
      with only x0(2) have "h = g" by simp
      then show "enrolledPortions (fg_id h) s - portionsOf (fg_id h) x0 + portionsOf (fg_id h) (renewSubscription g dto x0) \<le> fg_capacity h"
        using cap q nil by (simp add: gid portionsOf_def renewSubscription_def)
    qed (use q in \<open>simp_all add: renewSubscription_def\<close>)
  next
    case None
    let ?n = "newSubscription sid now u g dto"
    have n: "fs_groupId ?n = gid" "fs_quantity ?n = sb_quantity dto" "fs_status ?n = FSS_PENDING" by (simp_all add: newSubscription_def gid)
    from w None have e: "food_subscriptions s' = food_subscriptions s @ [?n]" "food_programmes s' = food_programmes s" "food_packages s' = food_packages s"
      and new: "fs_id ?n \<notin> fs_id ` set (food_subscriptions s)"
      by (auto simp: s' writeSubscription_def res_iffs subscription_clash_def)
    have "enrolledPortions (fg_id h) s' \<le> fg_capacity h" if "h \<in> set (food_programmes s)" for h
      using ok that cap only [OF that] by (auto simp: enrolledPortions_def e n liveSubscription_def food_ok_def list_all_iff)
    then show ?thesis using ok new gid q prices_kept_same [of s s'] by (auto simp: food_ok_def list_all_iff e n)
  qed
qed (use ok prices_kept_same in \<open>auto simp: subscribe_def serializable_Inl_iff\<close>)

lemma cancelSubscription_ok:
  assumes ok: "food_ok s"
  shows "food_ok (snd (cancelSubscription ids now u gid s)) \<and> prices_kept s (snd (cancelSubscription ids now u gid s))"
proof (rule handler_keeps [of "\<lambda>t. food_ok t \<and> prices_kept s t"])
  fix y s' assume "cancelSubscription ids now u gid s = (Inr y, s')"
  then obtain x g p n s1 where x: "List.find (\<lambda>x. fs_groupId x = gid \<and> fs_userId x = u) (food_subscriptions s) = Some x"
    and "findProgramme gid s = Some g" "findPackage (fs_packageId x) s = Some p" and r: "refundWithin ids now u x (fg_status g) (fp_currency p) s = Inr (n, s1)"
    and s': "s' = audit (Some u) ''food.subscription.cancelled'' ''FoodSubscription'' (Some (fs_id x)) None
       (s1\<lparr>food_subscriptions := update_where (\<lambda>y. fs_id y = fs_id x) withdrawn (food_subscriptions s1)\<rparr>)"
    by (rule cancelSubscription_Inr) blast
  have m: "x \<in> set (food_subscriptions s)" using x by (auto dest: find_SomeD)
  have q: "0 \<le> fs_quantity x" using ok m by (simp add: food_ok_def list_all_iff)
  show "food_ok s' \<and> prices_kept s s'"
    by (rule food_ok_smaller [OF ok m, of _ withdrawn])
      (use q in \<open>simp_all add: s' audit_def refund_tables [OF r] withdrawn_def portionsOf_def liveSubscription_def canCancelSubscription_def\<close>)
qed (use ok prices_kept_same in \<open>auto simp: cancelSubscription_def serializable_Inl_iff\<close>)

lemma food_payment_ok:
  assumes st: "settleWithin ids now u iid key FoodSubscriptionTarget s = Inr ((j, q), s')" and ok: "food_ok s"
  shows "food_ok s' \<and> prices_kept s s'"
  using st
proof (cases rule: settleWithin_Inr_cases)
  case already
  with ok show ?thesis by simp
next
  case (paid i w target av fr dst s1)
  let ?T = "FoodSubscriptionTarget :: 'a food_db_scheme payment_target"
  let ?c = "paymentCommand ?T u key i (rt_description target) (fa_id av) dst (fa_id fr)"
  from paid(4) obtain x g p where o: "ownedSubscription u (pi_targetId i) s = Inr (x, g, p)" and pend: "fs_status x = FSS_PENDING"
    by (auto elim: subscriptionResolve_Inr)
  note x = ownedSubscription_Inr [OF o]
  from paid(7) obtain k where cr: "escrowAccountWithin (py_account ids) k (pi_currency i) s = Inr (dst, s1)"
    by (auto simp: subscriptionCredit_def split: option.splits)
  from paid(9) obtain r s2 s3 where post: "postWithin (py_tx ids) now ?c s1 = Inr (r, s2)"
    and set: "subscriptionSettle ids now (settledPayment u i (fst r)) s2 = Inr ((), s3)"
    and upd: "updateIntent (pi_id i) (markPaid (pt_afterCommit ?T \<noteq> None) (fst r) now) s3 = Inr (j, s')"
    by (rule postAndSettle_InrD) simp
  from post obtain txs where s2: "s2 = s1\<lparr>ledger_txs := txs\<rparr>" by (rule postWithin_only_ledger)
  have s1: "s1 = s\<lparr>accounts := accounts s1\<rparr>" by (rule escrow_open_tables [OF cr])
  have tabs: "food_subscriptions s2 = food_subscriptions s" "food_programmes s2 = food_programmes s" "food_packages s2 = food_packages s"
    by (subst s2, simp, subst s1, simp)+
  have o2: "ownedSubscription u (pi_targetId i) s2 = Inr (x, g, p)" using o ownedSubscription_cong [OF tabs] by simp
  let ?paid = "recordPaid (fs_amountPaid x + pi_amount i) (subscriptionTotalMinor (fp_price p) (fs_quantity x)) now"
  from set o2 have "food_subscriptions s3 = update_where (\<lambda>y. fs_id y = fs_id x) ?paid (food_subscriptions s)"
    "food_programmes s3 = food_programmes s" "food_packages s3 = food_packages s"
    by (auto simp: subscriptionSettle_def settledPayment_def res_iffs outbox_def audit_def tabs)
  then have e: "food_subscriptions s' = update_where (\<lambda>y. fs_id y = fs_id x) ?paid (food_subscriptions s)"
    "food_programmes s' = food_programmes s" "food_packages s' = food_packages s"
    using updateIntent_InrD [OF upd] by auto
  have q: "0 \<le> fs_quantity x" using ok x(2) by (simp add: food_ok_def list_all_iff)
  show ?thesis by (rule food_ok_smaller [OF ok x(2) e(2,3,1)])
    (use q pend in \<open>simp_all add: recordPaid_def portionsOf_def liveSubscription_def canCancelSubscription_def\<close>)
qed

text \<open>The operations on vendors, orders, receipts and distributions leave programmes, packages and enrolments alone.\<close>

lemma food_handler_frame:
  assumes ok: "food_ok s" and h: "\<And>r s'. op s = (Inr r, s') \<Longrightarrow> food_programmes s' = food_programmes s
      \<and> food_packages s' = food_packages s \<and> food_subscriptions s' = food_subscriptions s"
    and "\<And>e s'. op s = (Inl e, s') \<Longrightarrow> s' = s"
  shows "food_ok (snd (op s)) \<and> prices_kept s (snd (op s))"
proof (rule handler_keeps [of "\<lambda>t. food_ok t \<and> prices_kept s t"])
  fix r s' assume "op s = (Inr r, s')"
  from h [OF this] food_ok_frame [OF ok] show "food_ok s' \<and> prices_kept s s'" by blast
qed (use ok prices_kept_same assms(3) in auto)

lemmas supply_effects = serializable_iffs res_iffs case_option_Inr_iff Let_def outbox_def audit_def auditFood_def

lemma createPurchaseOrder_ok:
  "food_ok s \<Longrightarrow> food_ok (snd (createPurchaseOrder i h now u gid v xs s)) \<and> prices_kept s (snd (createPurchaseOrder i h now u gid v xs s))"
  by (erule food_handler_frame) (auto simp: createPurchaseOrder_def supply_effects)

lemma transitionPurchaseOrder_ok:
  "food_ok s \<Longrightarrow> food_ok (snd (transitionPurchaseOrder u gid i to s)) \<and> prices_kept s (snd (transitionPurchaseOrder u gid i to s))"
  by (erule food_handler_frame) (auto simp: transitionPurchaseOrder_def supply_effects split: if_splits)

lemma recordReceipt_ok:
  "food_ok s \<Longrightarrow> food_ok (snd (recordReceipt i u gid oid dto s)) \<and> prices_kept s (snd (recordReceipt i u gid oid dto s))"
  by (erule food_handler_frame) (auto simp: recordReceipt_def supply_effects split: if_splits)

lemma createDistribution_ok:
  "food_ok s \<Longrightarrow> food_ok (snd (createDistribution nid now u gid at s)) \<and> prices_kept s (snd (createDistribution nid now u gid at s))"
  by (erule food_handler_frame) (auto simp: createDistribution_def supply_effects split: if_splits)

lemma transitionDistribution_ok:
  "food_ok s \<Longrightarrow> food_ok (snd (transitionDistribution now u gid did to s)) \<and> prices_kept s (snd (transitionDistribution now u gid did to s))"
  by (erule food_handler_frame) (auto simp: transitionDistribution_def supply_effects split: if_splits)

lemma issueCollectionCode_ok:
  "food_ok s \<Longrightarrow> food_ok (snd (issueCollectionCode sha i bs now u did s)) \<and> prices_kept s (snd (issueCollectionCode sha i bs now u did s))"
  by (erule food_handler_frame) (auto simp: issueCollectionCode_def supply_effects split: if_splits)

lemma confirmCollection_ok:
  "food_ok s \<Longrightarrow> food_ok (snd (confirmCollection sha now u gid did c e s)) \<and> prices_kept s (snd (confirmCollection sha now u gid did c e s))"
  by (erule food_handler_frame) (auto simp: confirmCollection_def supply_effects split: if_splits)

lemma proposeVendor_ok:
  "food_ok s \<Longrightarrow> food_ok (snd (proposeVendor i u dto s)) \<and> prices_kept s (snd (proposeVendor i u dto s))"
  by (erule food_handler_frame) (auto simp: proposeVendor_def supply_effects)

text \<open>The requests of coordinators and members. The programme DTO admits a capacity of one or more only.\<close>

datatype food_request =
    CreateProgramme "string \<Rightarrow> nat \<Rightarrow> string" string int string create_programme_dto
  | TransitionProgramme int string string food_status
  | UpdatePackage string string string update_package_dto
  | Subscribe string int string string subscribe_dto
  | PaySubscription pay_ids int string string string
  | CancelSubscription pay_ids int string string
  | CreatePurchaseOrder string string int string string string "order_item list"
  | TransitionPurchaseOrder string string string purchase_order_status
  | RecordReceipt string string string string receipt_dto
  | CreateDistribution "string \<Rightarrow> nat \<Rightarrow> string" int string string int
  | TransitionDistribution int string string string distribution_status
  | IssueCollectionCode string "nat list" int string string
  | ConfirmCollection int string string string string "string option"
  | ProposeVendor string string vendor_dto

fun serveFood :: "(string \<Rightarrow> string) \<Rightarrow> food_request \<Rightarrow> 'm food_db_scheme \<Rightarrow> 'm food_db_scheme" where
  "serveFood sha256 (CreateProgramme newId sc now u dto) s =
     (if cpr_capacity dto < 1 then s else snd (createProgramme newId sc now u dto s))"
| "serveFood sha256 (TransitionProgramme now u gid to) s = snd (transitionProgramme now u gid to s)"
| "serveFood sha256 (UpdatePackage u gid pid dto) s = snd (updatePackage u gid pid dto s)"
| "serveFood sha256 (Subscribe sid now u gid dto) s = snd (subscribe sid now u gid dto s)"
| "serveFood sha256 (PaySubscription ids now u iid key) s = snd (serializable (settleWithin ids now u iid key FoodSubscriptionTarget) s)"
| "serveFood sha256 (CancelSubscription ids now u gid) s = snd (cancelSubscription ids now u gid s)"
| "serveFood sha256 (CreatePurchaseOrder i h now u gid v xs) s = snd (createPurchaseOrder i h now u gid v xs s)"
| "serveFood sha256 (TransitionPurchaseOrder u gid i to) s = snd (transitionPurchaseOrder u gid i to s)"
| "serveFood sha256 (RecordReceipt i u gid oid dto) s = snd (recordReceipt i u gid oid dto s)"
| "serveFood sha256 (CreateDistribution nid now u gid at) s = snd (createDistribution nid now u gid at s)"
| "serveFood sha256 (TransitionDistribution now u gid did to) s = snd (transitionDistribution now u gid did to s)"
| "serveFood sha256 (IssueCollectionCode i bs now u did) s = snd (issueCollectionCode sha256 i bs now u did s)"
| "serveFood sha256 (ConfirmCollection now u gid did c e) s = snd (confirmCollection sha256 now u gid did c e s)"
| "serveFood sha256 (ProposeVendor i u dto) s = snd (proposeVendor i u dto s)"

lemmas food_handlers_ok = createProgramme_ok transitionProgramme_ok updatePackage_ok subscribe_ok cancelSubscription_ok
  createPurchaseOrder_ok transitionPurchaseOrder_ok recordReceipt_ok createDistribution_ok transitionDistribution_ok
  issueCollectionCode_ok confirmCollection_ok proposeVendor_ok

lemma serveFood_ok:
  assumes ok: "food_ok s"
  shows "food_ok (serveFood sha256 q s) \<and> prices_kept s (serveFood sha256 q s)"
proof -
  have "food_ok (snd (serializable (settleWithin ids now u iid key FoodSubscriptionTarget) s))
      \<and> prices_kept s (snd (serializable (settleWithin ids now u iid key FoodSubscriptionTarget) s))" for ids now u iid key
    by (rule serializable_frame [of _ s "\<lambda>t. food_ok t \<and> prices_kept s t"])
      (use ok food_payment_ok in force)+
  then show ?thesis using ok prices_kept_same [of s s] by (cases q) (simp_all add: food_handlers_ok)
qed

interpretation food_history: request_safety "serveFood sha256" "\<lambda>s. food_ok s \<and> prices_kept s0 s" for sha256 s0
  by unfold_locales (use serveFood_ok prices_kept_trans in blast)

section \<open>Properties\<close>

text \<open>
  C29. No history of requests oversells a programme or changes a promised price: whatever coordinators and members do, in any order, the portions of the
  enrolments that still stand never exceed the programme's capacity, and a package whose price was locked keeps that price, still locked.
\<close>

theorem food_history_safe:
  assumes "food_ok s"
  shows "let s' = fold (serveFood sha256) qs s in
    (\<forall>g \<in> set (food_programmes s'). enrolledPortions (fg_id g) s' \<le> fg_capacity g)
    \<and> (\<forall>p \<in> set (food_packages s). fp_priceLockedAt p \<noteq> None \<longrightarrow>
         (\<exists>q \<in> set (food_packages s'). fp_id q = fp_id p \<and> fp_price q = fp_price p \<and> fp_priceLockedAt q \<noteq> None))"
proof -
  have "food_ok (fold (serveFood sha256) qs s) \<and> prices_kept s (fold (serveFood sha256) qs s)"
    by (rule food_history.history_inv) (use assms prices_kept_same in auto)
  then show ?thesis by (simp add: Let_def food_ok_def list_all_iff prices_kept_def)
qed

definition demo_food_history :: "food_request list" where
  "demo_food_history = [CancelSubscription demo_pids 9 ''ada'' ''f1'', UpdatePackage ''bola'' ''f1'' ''k1'' \<lparr>upk_name = None, upk_price = Some 500\<rparr>,
     Subscribe ''s2'' 10 ''chi'' ''f1'' \<lparr>sb_packageId = ''k1'', sb_quantity = 11, sb_fulfilment = None\<rparr>]"

theorem food_history_safe_witness:
  "food_ok demo_enrolled_db \<and> (\<exists>q \<in> set (food_packages (fold (serveFood (\<lambda>c. c)) demo_food_history demo_enrolled_db)). fp_id q = ''k1'' \<and> fp_price q = 300)"
proof -
  have ok: "food_ok demo_enrolled_db" unfolding food_ok_def by (intro conjI; code_simp)
  have p: "demo_package \<in> set (food_packages demo_enrolled_db)" "fp_priceLockedAt demo_package \<noteq> None" "fp_id demo_package = ''k1''"
    "fp_price demo_package = 300" by code_simp+
  from food_history_safe [OF ok, of "\<lambda>c. c" demo_food_history] p
  have "\<exists>q \<in> set (food_packages (fold (serveFood (\<lambda>c. c)) demo_food_history demo_enrolled_db)). fp_id q = ''k1'' \<and> fp_price q = 300"
    unfolding Let_def by metis
  with ok show ?thesis by blast
qed


text \<open>Ada's item of a distribution that is handing out, with the code \<open>ABCDEF\<close> issued or not.\<close>

definition demo_code :: distribution_confirmation where
  "demo_code = \<lparr>dc_id = ''c1'', dc_itemId = ''i1'', dc_confirmedByUserId = ''ada'', dc_hash = ''ABCDEF'', dc_expiresAt = 1000, dc_usedAt = None,
     dc_evidenceKey = None\<rparr>"

definition demo_distribution_db :: "distribution_confirmation list \<Rightarrow> food_db" where
  "demo_distribution_db cs = demo_enrolled_db\<lparr>food_programmes := [demo_programme FS_ACTIVE],
     food_distributions := [\<lparr>fd_id = ''x1'', fd_groupId = ''f1'', fd_status = FD_DISTRIBUTING, fd_scheduledAt = 5, fd_completedAt = None\<rparr>],
     distribution_items := [\<lparr>di_id = ''i1'', di_distributionId = ''x1'', di_subscriptionId = ''bbbbbbbb-1'', di_quantity = 2\<rparr>],
     distribution_confirmations := cs\<rparr>"

definition demo_confirmed where
  "demo_confirmed = confirmCollection (\<lambda>c. c) 8 ''bola'' ''f1'' ''x1'' ''ABC-DEF'' None (demo_distribution_db [demo_code])"


text \<open>
  Asking for a collection code is enough to be counted as served: when a member asks for a code and every other item of the
  distribution has a code or was collected, the coordinator can complete the distribution at once, although the member's code has not
  been used and the food was never handed over.
\<close>

theorem code_counts_as_collected:
  assumes issue: "issueCollectionCode sha256 cid randomBytes now u did s = (Inr (item, expiry, code), s')"
    and owner: "ownedProgramme c gid s = Inr g" "ownedDistribution gid did s = Inr d" "fd_status d = FD_DISTRIBUTING"
    and others: "\<And>i. i \<in> set (distribution_items s) \<Longrightarrow> di_distributionId i = did \<Longrightarrow> di_id i \<noteq> item \<Longrightarrow> itemConfirmed (di_id i) s"
  shows "(\<exists>x \<in> set (distribution_confirmations s'). dc_itemId x = item) \<and> (\<forall>x \<in> set (distribution_confirmations s'). dc_itemId x = item \<longrightarrow> dc_usedAt x = None)
    \<and> (\<exists>s''. transitionDistribution now' c gid did FD_COMPLETED s' = (Inr (moveDistribution FD_COMPLETED now' d), s''))"
proof -
  from issue have unused: "\<not> list_ex (\<lambda>c. dc_itemId c = item \<and> dc_usedAt c \<noteq> None) (distribution_confirmations s)"
    and s': "distribution_confirmations s' = issueConfirmation cid item u (sha256 code) expiry (distribution_confirmations s)"
      "distribution_items s' = distribution_items s" "food_distributions s' = food_distributions s" "food_programmes s' = food_programmes s"
    by (auto simp: issueCollectionCode_def supply_effects split: if_splits)
  have ids: "dc_itemId ` set (distribution_confirmations s') = insert item (dc_itemId ` set (distribution_confirmations s))"
  proof (cases "list_ex (\<lambda>c. dc_itemId c = item) (distribution_confirmations s)")
    case True
    have "map dc_itemId (distribution_confirmations s') = map dc_itemId (distribution_confirmations s)"
      unfolding s'(1) issueConfirmation_def if_P [OF True] by (rule map_update_where) simp
    then have "dc_itemId ` set (distribution_confirmations s') = dc_itemId ` set (distribution_confirmations s)" by (metis set_map)
    with True show ?thesis by (auto simp: list_ex_iff)
  qed (simp add: s' issueConfirmation_def)
  have fresh: "dc_usedAt x = None" if "x \<in> set (distribution_confirmations s')" "dc_itemId x = item" for x
  proof -
    from that(1) consider "dc_usedAt x = None" | y where "y \<in> set (distribution_confirmations s)" "dc_itemId y = dc_itemId x" "dc_usedAt y = dc_usedAt x"
      unfolding s'(1) issueConfirmation_def by (cases "list_ex (\<lambda>c. dc_itemId c = item) (distribution_confirmations s)")
        (fastforce simp: set_update_where)+
    then show ?thesis using unused that(2) by cases (auto simp: list_ex_iff)
  qed
  have "itemConfirmed (di_id i) s'" if "i \<in> set (distribution_items s)" "di_distributionId i = did" for i
  proof -
    have "di_id i \<in> dc_itemId ` set (distribution_confirmations s')"
      unfolding ids using others [OF that] by (cases "di_id i = item") (force simp: itemConfirmed_def list_ex_iff)+
    then show ?thesis by (auto simp: itemConfirmed_def list_ex_iff)
  qed
  then have "filter (\<lambda>i. di_distributionId i = did \<and> \<not> itemConfirmed (di_id i) s') (distribution_items s) = []"
    by (simp add: filter_empty_conv)
  then have "uncollected did s' = 0" by (simp add: uncollected_def s')
  moreover have "ownedProgramme c gid s' = Inr g" "ownedDistribution gid did s' = Inr d"
    using owner by (simp_all add: ownedProgramme_def ownedDistribution_def findProgramme_def s')
  ultimately have "\<exists>s''. transitionDistribution now' c gid did FD_COMPLETED s' = (Inr (moveDistribution FD_COMPLETED now' d), s'')"
    using owner(3) by (simp add: transitionDistribution_def serializable_def canTransitionDistribution_def)
  with ids fresh show ?thesis by (metis imageE insertI1)
qed

end
