(* ===== verification/Bills.thy ===== *)
theory Bills
  imports Food_Coordinator
begin

text \<open>
  Bill payments: \<^verbatim>\<open>src/modules/bill-payments/bill-payments.service.ts\<close> with \<^verbatim>\<open>domain/bill-reference.ts\<close>,
  \<^verbatim>\<open>domain/bill-payment-policy.ts\<close>, \<^verbatim>\<open>bill-catalog-sync.ts\<close> and \<^verbatim>\<open>bill-payment.payment-target.ts\<close>. The amount of a bill and its
  fee are held in the payer's reserved account until the provider answers; success pays them out, failure returns them, anything else
  keeps them held for reconciliation. This theory holds the tables and operations; \<^verbatim>\<open>Bill_Safety\<close> holds what is shown of
  them. The provider, the keyed digest and the generated ids are arguments. The JSON columns are the fields the code
  reads from them, and the time stamps nothing reads are left out.
\<close>

section \<open>References\<close>

datatype bill_reference_kind = RK_phone | RK_meter | RK_smartcard | RK_account_number

fun defaultReferenceLabel :: "bill_reference_kind \<Rightarrow> string" where
  "defaultReferenceLabel RK_phone = ''Phone number''"
| "defaultReferenceLabel RK_meter = ''Meter number''"
| "defaultReferenceLabel RK_smartcard = ''Smartcard number''"
| "defaultReferenceLabel RK_account_number = ''Account number''"

definition compact :: "string \<Rightarrow> string" where
  "compact raw = filter (\<lambda>c. \<not> (is_space c \<or> c = CHR ''-'')) (trim raw)"

definition digitsBetween :: "nat \<Rightarrow> nat \<Rightarrow> string \<Rightarrow> bool" where
  "digitsBetween low high t \<longleftrightarrow> low \<le> length t \<and> length t \<le> high \<and> list_all is_digit t"

definition normaliseBillReference :: "bill_reference_kind \<Rightarrow> string \<Rightarrow> string" where
  "normaliseBillReference kind raw =
     (if kind \<noteq> RK_phone then toUpperCase (compact raw)
      else let digits = (if take 1 (compact raw) = ''+'' then drop 1 (compact raw) else compact raw) in
        if take 3 digits = ''234'' \<and> digitsBetween 10 10 (drop 3 digits) then ''0'' @ drop 3 digits else digits)"

definition phoneShape :: "string \<Rightarrow> bool" where
  "phoneShape t \<longleftrightarrow> (case t of
       a # b # c # rest \<Rightarrow> a = CHR ''0'' \<and> b \<in> set ''789'' \<and> c \<in> set ''01'' \<and> digitsBetween 8 8 rest
     | _ \<Rightarrow> False)"

fun billReferenceProblem :: "bill_reference_kind \<Rightarrow> string \<Rightarrow> string option" where
  "billReferenceProblem RK_phone t =
     (if phoneShape t then None else Some ''Enter an 11-digit Nigerian phone number, for example 08031234567.'')"
| "billReferenceProblem RK_meter t = (if digitsBetween 11 13 t then None else Some ''A meter number is 11 to 13 digits.'')"
| "billReferenceProblem RK_smartcard t = (if digitsBetween 10 12 t then None else Some ''A smartcard or IUC number is 10 to 12 digits.'')"
| "billReferenceProblem RK_account_number t =
     (if 6 \<le> length t \<and> length t \<le> 20 \<and> list_all (\<lambda>c. is_upper c \<or> is_digit c) t then None
      else Some ''An account number is 6 to 20 letters or digits.'')"

section \<open>The provider\<close>

datatype provider_state = PV_PENDING | PV_SUCCESSFUL | PV_FAILED | PV_UNKNOWN | PV_REVERSED

datatype reserve_action = SETTLE | RELEASE | HOLD_FOR_RECONCILIATION

definition reserveActionForProviderState :: "provider_state \<Rightarrow> reserve_action" where
  "reserveActionForProviderState state =
     (if state = PV_SUCCESSFUL then SETTLE else if state = PV_FAILED then RELEASE else HOLD_FOR_RECONCILIATION)"

record provider_bill =
  pb_providerReference :: "string option"
  pb_state :: provider_state
  pb_providerStatus :: string
  pb_failureCode :: "string option"

record provider_validation =
  pvl_valid :: bool
  pvl_providerReference :: "string option"
  pvl_customerName :: "string option"
  pvl_resultCode :: string

record create_bill_input =
  ci_reference :: string
  ci_billerCode :: string
  ci_productCode :: "string option"
  ci_customerReference :: string
  ci_amountMinor :: int
  ci_currencyCode :: string

record provider_product =
  pd_code :: string
  pd_name :: string
  pd_currency :: string
  pd_validity :: "string option"
  pd_minimum :: "int option"
  pd_maximum :: "int option"
  pd_fixed :: "int option"

record provider_biller =
  pr_code :: string
  pr_name :: string
  pr_referenceKind :: bill_reference_kind
  pr_referenceLabel :: "string option"
  pr_products :: "provider_product list"

record bill_provider =
  bv_name :: string
  bv_catalogRevision :: "string option"
  bv_listCategories :: "(string \<times> string) list res"
  bv_listBillers :: "string \<Rightarrow> provider_biller list res"
  bv_validateCustomer :: "string \<Rightarrow> string option \<Rightarrow> string \<Rightarrow> provider_validation res"
  bv_createPayment :: "create_bill_input \<Rightarrow> provider_bill res"
  bv_queryPayment :: "string \<Rightarrow> provider_bill res"

section \<open>Tables\<close>

datatype catalog_status = CT_ACTIVE | CT_INACTIVE
datatype bill_status =
    BS_CREATED | BS_VALIDATING | BS_VALIDATED | BS_PENDING | BS_PROCESSING | BS_SUCCESSFUL | BS_FAILED | BS_REVERSED
  | BS_REFUND_PENDING | BS_REFUNDED | BS_RECONCILIATION_REQUIRED
datatype attempt_status = AT_PENDING | AT_SENT | AT_CONFIRMED | AT_FAILED | AT_UNKNOWN
datatype reconciliation_state = RC_NOT_REQUIRED | RC_PENDING | RC_MATCHED | RC_MISMATCHED | RC_RESOLVED

record bill_category =
  bc_id :: string
  bc_provider :: string
  bc_code :: string
  bc_name :: string
  bc_status :: catalog_status
  bc_position :: "nat option"
  bc_revision :: "string option"
  bc_expiresAt :: int

record bill_biller =
  bb_id :: string
  bb_categoryId :: string
  bb_code :: string
  bb_name :: string
  bb_status :: catalog_status
  bb_referenceKind :: "bill_reference_kind option"
  bb_referenceLabel :: "string option"
  bb_expiresAt :: int

record bill_product =
  bp_id :: string
  bp_billerId :: string
  bp_code :: string
  bp_name :: string
  bp_status :: catalog_status
  bp_minimum :: "int option"
  bp_maximum :: "int option"
  bp_fixed :: "int option"
  bp_currency :: string
  bp_validity :: "string option"

record bill_validation =
  va_id :: string
  va_userId :: string
  va_billerId :: string
  va_productId :: "string option"
  va_provider :: string
  va_providerReference :: "string option"
  va_digest :: string
  va_masked :: string
  va_customerName :: "string option"
  va_resultCode :: string
  va_valid :: bool
  va_expiresAt :: int

record bill_payment =
  bl_id :: string
  bl_internalReference :: string
  bl_provider :: string
  bl_providerReference :: "string option"
  bl_idempotencyKey :: string
  bl_requestHash :: string
  bl_userId :: string
  bl_walletId :: string
  bl_billerId :: string
  bl_productId :: "string option"
  bl_validationId :: string
  bl_digest :: string
  bl_masked :: string
  bl_customerName :: "string option"
  bl_amount :: int
  bl_fee :: int
  bl_total :: int
  bl_currency :: string
  bl_status :: bill_status
  bl_providerStatus :: "string option"
  bl_reconciliation :: reconciliation_state
  bl_failureCode :: "string option"
  bl_failureReason :: "string option"
  bl_paymentIntentId :: "string option"
  bl_reserveTx :: "string option"
  bl_settleTx :: "string option"
  bl_releaseTx :: "string option"
  bl_reversalTx :: "string option"
  bl_createdAt :: int
  bl_completedAt :: "int option"

record bill_attempt =
  bt_paymentId :: string
  bt_number :: nat
  bt_providerReference :: "string option"
  bt_status :: attempt_status
  bt_requestHash :: string
  bt_completedAt :: "int option"

record bill_receipt =
  br_paymentId :: string
  br_number :: string

record bill_reversal =
  bx_paymentId :: string
  bx_providerReference :: "string option"
  bx_amount :: int
  bx_currency :: string
  bx_idempotencyKey :: string
  bx_ledgerTransactionId :: string

record bills_db = food_db +
  bill_categories :: "bill_category list"
  bill_billers :: "bill_biller list"
  bill_products :: "bill_product list"
  bill_validations :: "bill_validation list"
  bill_payments :: "bill_payment list"
  bill_attempts :: "bill_attempt list"
  bill_receipts :: "bill_receipt list"
  bill_reversals :: "bill_reversal list"


section \<open>Catalogue\<close>

text \<open>An upsert by a unique key: the row is changed where it exists and inserted where it does not.\<close>

definition upsert :: "('r \<Rightarrow> bool) \<Rightarrow> 'r \<Rightarrow> ('r \<Rightarrow> 'r) \<Rightarrow> 'r list \<Rightarrow> 'r list" where
  "upsert P new change rows = (if list_ex P rows then update_where P change rows else rows @ [new])"

definition storeProduct :: "string \<Rightarrow> string \<Rightarrow> provider_product \<Rightarrow> bill_product list \<Rightarrow> bill_product list" where
  "storeProduct newId billerId p =
     upsert (\<lambda>r. bp_billerId r = billerId \<and> bp_code r = pd_code p)
       \<lparr>bp_id = newId, bp_billerId = billerId, bp_code = pd_code p, bp_name = pd_name p, bp_status = CT_ACTIVE,
        bp_minimum = pd_minimum p, bp_maximum = pd_maximum p, bp_fixed = pd_fixed p, bp_currency = pd_currency p, bp_validity = pd_validity p\<rparr>
       (\<lambda>r. r\<lparr>bp_name := pd_name p, bp_status := CT_ACTIVE, bp_minimum := pd_minimum p, bp_maximum := pd_maximum p,
            bp_fixed := pd_fixed p, bp_currency := pd_currency p, bp_validity := pd_validity p\<rparr>)"

definition retireProducts :: "string \<Rightarrow> string list \<Rightarrow> bill_product list \<Rightarrow> bill_product list" where
  "retireProducts billerId codes =
     update_where (\<lambda>r. bp_billerId r = billerId \<and> bp_code r \<notin> set codes) (\<lambda>r. r\<lparr>bp_status := CT_INACTIVE\<rparr>)"

definition storeBiller :: "string \<Rightarrow> int \<Rightarrow> string \<Rightarrow> provider_biller \<Rightarrow> bill_biller list \<Rightarrow> bill_biller list" where
  "storeBiller newId expiresAt categoryId b =
     upsert (\<lambda>r. bb_categoryId r = categoryId \<and> bb_code r = pr_code b)
       \<lparr>bb_id = newId, bb_categoryId = categoryId, bb_code = pr_code b, bb_name = pr_name b, bb_status = CT_ACTIVE,
        bb_referenceKind = Some (pr_referenceKind b), bb_referenceLabel = pr_referenceLabel b, bb_expiresAt = expiresAt\<rparr>
       (\<lambda>r. r\<lparr>bb_name := pr_name b, bb_status := CT_ACTIVE, bb_referenceKind := Some (pr_referenceKind b),
            bb_referenceLabel := pr_referenceLabel b, bb_expiresAt := expiresAt\<rparr>)"

definition retireBillers :: "string \<Rightarrow> string list \<Rightarrow> bill_biller list \<Rightarrow> bill_biller list" where
  "retireBillers categoryId codes =
     update_where (\<lambda>r. bb_categoryId r = categoryId \<and> bb_code r \<notin> set codes) (\<lambda>r. r\<lparr>bb_status := CT_INACTIVE\<rparr>)"

definition storeCategory :: "string \<Rightarrow> string \<Rightarrow> string option \<Rightarrow> int \<Rightarrow> nat \<Rightarrow> string \<times> string \<Rightarrow> bill_category list \<Rightarrow> bill_category list" where
  "storeCategory newId provider revision expiresAt position c =
     upsert (\<lambda>r. bc_provider r = provider \<and> bc_code r = fst c)
       \<lparr>bc_id = newId, bc_provider = provider, bc_code = fst c, bc_name = snd c, bc_status = CT_ACTIVE, bc_position = Some position,
        bc_revision = revision, bc_expiresAt = expiresAt\<rparr>
       (\<lambda>r. r\<lparr>bc_name := snd c, bc_status := CT_ACTIVE, bc_position := Some position, bc_revision := revision, bc_expiresAt := expiresAt\<rparr>)"

definition retireCategories :: "string \<Rightarrow> string list \<Rightarrow> bill_category list \<Rightarrow> bill_category list" where
  "retireCategories provider codes =
     update_where (\<lambda>r. bc_provider r = provider \<and> bc_code r \<notin> set codes) (\<lambda>r. r\<lparr>bc_status := CT_INACTIVE\<rparr>)"

text \<open>The id of the row an upsert left behind, which the database returns.\<close>

definition storedCategoryId :: "string \<Rightarrow> string \<Rightarrow> 'm bills_db_scheme \<Rightarrow> string" where
  "storedCategoryId provider code s =
     (case List.find (\<lambda>r. bc_provider r = provider \<and> bc_code r = code) (bill_categories s) of None \<Rightarrow> [] | Some r \<Rightarrow> bc_id r)"

definition storedBillerId :: "string \<Rightarrow> string \<Rightarrow> 'm bills_db_scheme \<Rightarrow> string" where
  "storedBillerId categoryId code s =
     (case List.find (\<lambda>r. bb_categoryId r = categoryId \<and> bb_code r = code) (bill_billers s) of None \<Rightarrow> [] | Some r \<Rightarrow> bb_id r)"

text \<open>Generated ids are named by the codes of the row they are for.\<close>

definition syncBiller :: "(string list \<Rightarrow> string) \<Rightarrow> int \<Rightarrow> string \<Rightarrow> provider_biller \<Rightarrow> 'm bills_db_scheme \<Rightarrow> 'm bills_db_scheme" where
  "syncBiller newId expiresAt categoryId b s =
     (let s1 = s\<lparr>bill_billers := storeBiller (newId [categoryId, pr_code b]) expiresAt categoryId b (bill_billers s)\<rparr>;
          billerId = storedBillerId categoryId (pr_code b) s1 in
      s1\<lparr>bill_products := retireProducts billerId (map pd_code (pr_products b))
        (fold (\<lambda>p. storeProduct (newId [billerId, pd_code p]) billerId p) (pr_products b) (bill_products s1))\<rparr>)"

fun syncCategories ::
  "(string list \<Rightarrow> string) \<Rightarrow> bill_provider \<Rightarrow> int \<Rightarrow> (nat \<times> string \<times> string) list \<Rightarrow> ('m bills_db_scheme, unit) handler" where
  "syncCategories newId provider expiresAt [] s = (Inr (), s)"
| "syncCategories newId provider expiresAt ((position, c) # cs) s =
     (let s1 = s\<lparr>bill_categories := storeCategory (newId [fst c]) (bv_name provider) (bv_catalogRevision provider) expiresAt position c
            (bill_categories s)\<rparr>;
          categoryId = storedCategoryId (bv_name provider) (fst c) s1 in
      case bv_listBillers provider (fst c) of
        Inl e \<Rightarrow> (Inl e, s1)
      | Inr billers \<Rightarrow>
          (let s2 = fold (syncBiller newId expiresAt categoryId) billers s1 in
           syncCategories newId provider expiresAt cs
             (s2\<lparr>bill_billers := retireBillers categoryId (map pr_code billers) (bill_billers s2)\<rparr>)))"

definition syncBillCatalog :: "(string list \<Rightarrow> string) \<Rightarrow> bill_provider \<Rightarrow> int \<Rightarrow> ('m bills_db_scheme, unit) handler" where
  "syncBillCatalog newId provider expiresAt s =
     (case bv_listCategories provider of
        Inl e \<Rightarrow> (Inl e, s)
      | Inr categories \<Rightarrow>
          (case syncCategories newId provider expiresAt (enumerate 0 categories) s of
             (Inl e, s1) \<Rightarrow> (Inl e, s1)
           | (Inr _, s1) \<Rightarrow>
               (Inr (), s1\<lparr>bill_categories := retireCategories (bv_name provider) (map fst categories) (bill_categories s1)\<rparr>)))"

definition CATALOG_TTL_MS :: int where
  "CATALOG_TTL_MS = 6 * 60 * 60000"

definition catalogCurrent :: "bill_provider \<Rightarrow> int \<Rightarrow> 'm bills_db_scheme \<Rightarrow> bool" where
  "catalogCurrent provider now s \<longleftrightarrow>
     list_ex (\<lambda>r. bc_provider r = bv_name provider \<and> bc_status r = CT_ACTIVE \<and> bc_expiresAt r > now
       \<and> (case truthy (bv_catalogRevision provider) of None \<Rightarrow> True | Some v \<Rightarrow> bc_revision r = Some v)) (bill_categories s)"

definition refreshCatalogIfNeeded :: "(string list \<Rightarrow> string) \<Rightarrow> bill_provider \<Rightarrow> int \<Rightarrow> ('m bills_db_scheme, unit) handler" where
  "refreshCatalogIfNeeded newId provider now s =
     (if catalogCurrent provider now s then (Inr (), s) else syncBillCatalog newId provider (now + CATALOG_TTL_MS) s)"

definition referenceOf :: "bill_biller option \<Rightarrow> bill_reference_kind option \<times> string" where
  "referenceOf b =
     (let kind = (case b of None \<Rightarrow> None | Some x \<Rightarrow> bb_referenceKind x) in
      (kind, case (case b of None \<Rightarrow> None | Some x \<Rightarrow> bb_referenceLabel x) of
         Some label \<Rightarrow> label
       | None \<Rightarrow> (case kind of Some k \<Rightarrow> defaultReferenceLabel k | None \<Rightarrow> ''Customer reference'')))"

text \<open>The categories shown, in the provider's order; rows without a position come last.\<close>

definition categoryList :: "bill_provider \<Rightarrow> 'm bills_db_scheme \<Rightarrow> bill_category list" where
  "categoryList provider s =
     (let rows = filter (\<lambda>r. bc_provider r = bv_name provider \<and> bc_status r = CT_ACTIVE) (bill_categories s) in
      sort_key (\<lambda>r. or_default (bc_position r) 9007199254740991) rows)"

definition billerActive :: "bill_provider \<Rightarrow> bill_biller \<Rightarrow> 'm bills_db_scheme \<Rightarrow> bool" where
  "billerActive provider b s \<longleftrightarrow> bb_status b = CT_ACTIVE
     \<and> list_ex (\<lambda>c. bc_id c = bb_categoryId b \<and> bc_provider c = bv_name provider \<and> bc_status c = CT_ACTIVE) (bill_categories s)"

record biller_view =
  bw_biller :: bill_biller
  bw_referenceKind :: "bill_reference_kind option"
  bw_referenceLabel :: string
  bw_products :: "bill_product list"

definition billerList :: "bill_provider \<Rightarrow> string \<Rightarrow> 'm bills_db_scheme \<Rightarrow> biller_view list" where
  "billerList provider categoryId s =
     map (\<lambda>b. \<lparr>bw_biller = b, bw_referenceKind = fst (referenceOf (Some b)), bw_referenceLabel = snd (referenceOf (Some b)),
        bw_products = filter (\<lambda>p. bp_billerId p = bb_id b \<and> bp_status p = CT_ACTIVE) (bill_products s)\<rparr>)
       (filter (\<lambda>b. bb_categoryId b = categoryId \<and> billerActive provider b s) (bill_billers s))"

definition billCategories :: "(string list \<Rightarrow> string) \<Rightarrow> bill_provider \<Rightarrow> int \<Rightarrow> ('m bills_db_scheme, bill_category list) handler" where
  "billCategories newId provider now s =
     (case refreshCatalogIfNeeded newId provider now s of
        (Inl e, s1) \<Rightarrow> (Inl e, s1) | (Inr _, s1) \<Rightarrow> (Inr (categoryList provider s1), s1))"

definition billBillers :: "(string list \<Rightarrow> string) \<Rightarrow> bill_provider \<Rightarrow> int \<Rightarrow> string \<Rightarrow> ('m bills_db_scheme, biller_view list) handler" where
  "billBillers newId provider now categoryId s =
     (case refreshCatalogIfNeeded newId provider now s of
        (Inl e, s1) \<Rightarrow> (Inl e, s1) | (Inr _, s1) \<Rightarrow> (Inr (billerList provider categoryId s1), s1))"

section \<open>Validation of a customer\<close>

definition normaliseReference :: "bill_reference_kind option \<Rightarrow> string \<Rightarrow> string" where
  "normaliseReference kind raw = (case kind of Some k \<Rightarrow> normaliseBillReference k raw | None \<Rightarrow> trim raw)"

definition maskReference :: "string \<Rightarrow> string" where
  "maskReference t = (if length t \<le> 4 then replicate (length t) (CHR ''*'') else replicate (length t - 4) (CHR ''*'') @ drop (length t - 4) t)"

record validate_dto =
  vd_billerId :: string
  vd_productId :: "string option"
  vd_customerReference :: string

definition VALIDATION_TTL_MS :: int where
  "VALIDATION_TTL_MS = 15 * 60000"

definition validatedProduct :: "bill_biller \<Rightarrow> string option \<Rightarrow> 'm bills_db_scheme \<Rightarrow> bill_product option res" where
  "validatedProduct b productId s =
     (case truthy productId of
        None \<Rightarrow> Inr None
      | Some p \<Rightarrow> (case List.find (\<lambda>r. bp_id r = p \<and> bp_billerId r = bb_id b \<and> bp_status r = CT_ACTIVE) (bill_products s) of
          None \<Rightarrow> Inl (NotFound ''Biller product was not found'') | Some r \<Rightarrow> Inr (Some r)))"

definition findBiller :: "string \<Rightarrow> 'm bills_db_scheme \<Rightarrow> bill_biller option" where
  "findBiller billerId s = List.find (\<lambda>b. bb_id b = billerId) (bill_billers s)"

definition findProduct :: "string \<Rightarrow> 'm bills_db_scheme \<Rightarrow> bill_product option" where
  "findProduct productId s = List.find (\<lambda>p. bp_id p = productId) (bill_products s)"

definition newValidation ::
  "(string \<Rightarrow> string) \<Rightarrow> string \<Rightarrow> string \<Rightarrow> int \<Rightarrow> string \<Rightarrow> string option \<Rightarrow> bill_biller \<Rightarrow> string \<Rightarrow> provider_validation \<Rightarrow> bill_validation" where
  "newValidation hmac provider vid now userId productId b reference result =
     \<lparr>va_id = vid, va_userId = userId, va_billerId = bb_id b, va_productId = truthy productId, va_provider = provider,
      va_providerReference = truthy (pvl_providerReference result), va_digest = hmac reference, va_masked = maskReference reference,
      va_customerName = truthy (pvl_customerName result), va_resultCode = pvl_resultCode result, va_valid = pvl_valid result,
      va_expiresAt = now + VALIDATION_TTL_MS\<rparr>"

text \<open>The row is kept for a refused reference too; only the answer is an error then.\<close>

definition validateCustomer ::
  "bill_provider \<Rightarrow> (string \<Rightarrow> string) \<Rightarrow> string \<Rightarrow> int \<Rightarrow> string \<Rightarrow> validate_dto \<Rightarrow> ('m bills_db_scheme, bill_validation) handler" where
  "validateCustomer provider hmac vid now userId dto s =
     (case List.find (\<lambda>b. bb_id b = vd_billerId dto \<and> billerActive provider b s) (bill_billers s) of
        None \<Rightarrow> (Inl (NotFound ''Biller was not found''), s)
      | Some b \<Rightarrow>
     (case validatedProduct b (vd_productId dto) s of
        Inl e \<Rightarrow> (Inl e, s)
      | Inr product \<Rightarrow>
     let (kind, label) = referenceOf (Some b); reference = normaliseReference kind (vd_customerReference dto) in
     case (case kind of None \<Rightarrow> None | Some k \<Rightarrow> billReferenceProblem k reference) of
        Some problem \<Rightarrow> (Inl (Unprocessable problem), s)
      | None \<Rightarrow>
     (case bv_validateCustomer provider (bb_code b) (map_option bp_code product) reference of
        Inl e \<Rightarrow> (Inl e, s)
      | Inr result \<Rightarrow>
     (case insertRow (\<lambda>x y. va_id x = va_id y) (newValidation hmac (bv_name provider) vid now userId (vd_productId dto) b reference result)
             (bill_validations s) of
        Inl e \<Rightarrow> (Inl e, s)
      | Inr rows \<Rightarrow>
          (if pvl_valid result then Inr (newValidation hmac (bv_name provider) vid now userId (vd_productId dto) b reference result)
           else Inl (Unprocessable (bb_name b @ '' did not recognise this '' @ toLowerCase label @ ''. Check it and try again.'')),
           s\<lparr>bill_validations := rows\<rparr>)))))"

section \<open>Paying a bill\<close>

definition assertAmount :: "int \<Rightarrow> string \<Rightarrow> bill_product option \<Rightarrow> unit res" where
  "assertAmount amount currency product =
     (if amount \<le> 0 then Inl (Unprocessable ''Amount must be positive'')
      else case product of None \<Rightarrow> Inr () | Some p \<Rightarrow>
        if bp_currency p \<noteq> currency then Inl (Unprocessable ''Product and wallet currencies do not match'')
        else if (case bp_minimum p of None \<Rightarrow> False | Some m \<Rightarrow> amount < m) then Inl (Unprocessable ''Amount is below the product minimum'')
        else if (case bp_maximum p of None \<Rightarrow> False | Some m \<Rightarrow> amount > m) then Inl (Unprocessable ''Amount exceeds the product maximum'')
        else if (case bp_fixed p of None \<Rightarrow> False | Some f \<Rightarrow> amount \<noteq> f)
        then Inl (Unprocessable ''Amount must match the product fixed amount'')
        else Inr ())"

record bill_accounts =
  ba_available :: fin_account
  ba_reserved :: fin_account
  ba_providerPayable :: fin_account
  ba_feeRevenue :: fin_account

definition billAccounts :: "string \<Rightarrow> string \<Rightarrow> 'm core_db_scheme \<Rightarrow> bill_accounts res" where
  "billAccounts walletId currency s =
     bind_res (requireAccount (Some walletId) WALLET_AVAILABLE currency s) (\<lambda>available.
     bind_res (requireAccount (Some walletId) WALLET_RESERVED currency s) (\<lambda>reserved.
     bind_res (requireAccount None PROVIDER_PAYABLE currency s) (\<lambda>providerPayable.
     bind_res (requireAccount None PLATFORM_FEE_REVENUE currency s) (\<lambda>feeRevenue.
       Inr \<lparr>ba_available = available, ba_reserved = reserved, ba_providerPayable = providerPayable, ba_feeRevenue = feeRevenue\<rparr>))))"

definition recordBillEvent :: "string \<Rightarrow> string \<Rightarrow> string \<Rightarrow> 'm core_db_scheme \<Rightarrow> 'm core_db_scheme" where
  "recordBillEvent actor paymentId eventType s =
     outbox ''BillPayment'' paymentId eventType (audit (Some actor) eventType ''BillPayment'' (Some paymentId) None s)"

definition findBill :: "string \<Rightarrow> 'm bills_db_scheme \<Rightarrow> bill_payment option" where
  "findBill paymentId s = List.find (\<lambda>p. bl_id p = paymentId) (bill_payments s)"

definition bill_clash :: "bill_payment \<Rightarrow> bill_payment \<Rightarrow> bool" where
  "bill_clash a b \<longleftrightarrow> bl_id a = bl_id b \<or> bl_internalReference a = bl_internalReference b
     \<or> (bl_userId a = bl_userId b \<and> bl_idempotencyKey a = bl_idempotencyKey b)"

definition updateBill :: "string \<Rightarrow> (bill_payment \<Rightarrow> bill_payment) \<Rightarrow> ('m bills_db_scheme, bill_payment) tx" where
  "updateBill paymentId f s =
     (case findBill paymentId s of
        None \<Rightarrow> Inl RecordMissing
      | Some p \<Rightarrow> Inr (f p, s\<lparr>bill_payments := update_where (\<lambda>q. bl_id q = paymentId) f (bill_payments s)\<rparr>))"

definition updateAttempt :: "string \<Rightarrow> (bill_attempt \<Rightarrow> bill_attempt) \<Rightarrow> ('m bills_db_scheme, unit) tx" where
  "updateAttempt paymentId f s =
     (if \<not> list_ex (\<lambda>a. bt_paymentId a = paymentId \<and> bt_number a = 1) (bill_attempts s) then Inl RecordMissing
      else Inr ((), s\<lparr>bill_attempts := update_where (\<lambda>a. bt_paymentId a = paymentId \<and> bt_number a = 1) f (bill_attempts s)\<rparr>))"

definition newAttempt :: "string \<Rightarrow> string \<Rightarrow> bill_attempt" where
  "newAttempt paymentId requestHash =
     \<lparr>bt_paymentId = paymentId, bt_number = 1, bt_providerReference = None, bt_status = AT_PENDING, bt_requestHash = requestHash,
      bt_completedAt = None\<rparr>"

definition attempt_clash :: "bill_attempt \<Rightarrow> bill_attempt \<Rightarrow> bool" where
  "attempt_clash a b \<longleftrightarrow> bt_paymentId a = bt_paymentId b \<and> bt_number a = bt_number b"

record create_bill_dto =
  cb_walletId :: string
  cb_validationId :: string
  cb_customerReference :: string
  cb_amountMinor :: int

record bill_ids =
  bi_row :: string
  bi_uuid :: string
  bi_tx :: string
  bi_tx2 :: string

definition newBill ::
  "string \<Rightarrow> bill_ids \<Rightarrow> int \<Rightarrow> string \<Rightarrow> string \<Rightarrow> string \<Rightarrow> bill_validation \<Rightarrow> string \<Rightarrow> int \<Rightarrow> int \<Rightarrow> string \<Rightarrow> bill_payment" where
  "newBill provider ids now userId key requestHash v walletId amount fee currency =
     \<lparr>bl_id = bi_row ids, bl_internalReference = ''BILL-'' @ bi_uuid ids, bl_provider = provider, bl_providerReference = None,
      bl_idempotencyKey = key, bl_requestHash = requestHash, bl_userId = userId, bl_walletId = walletId, bl_billerId = va_billerId v,
      bl_productId = truthy (va_productId v), bl_validationId = va_id v, bl_digest = va_digest v, bl_masked = va_masked v,
      bl_customerName = truthy (va_customerName v), bl_amount = amount, bl_fee = fee, bl_total = amount + fee, bl_currency = currency,
      bl_status = BS_PENDING, bl_providerStatus = None, bl_reconciliation = RC_NOT_REQUIRED, bl_failureCode = None, bl_failureReason = None,
      bl_paymentIntentId = None, bl_reserveTx = None, bl_settleTx = None, bl_releaseTx = None, bl_reversalTx = None,
      bl_createdAt = now, bl_completedAt = None\<rparr>"

definition reserveCommand :: "bill_payment \<Rightarrow> string \<Rightarrow> string \<Rightarrow> posting_command" where
  "reserveCommand p available reserved =
     \<lparr>pc_idempotencyKey = ''bill-reserve:'' @ bl_id p, pc_reference = bl_internalReference p @ ''-RESERVE'',
      pc_description = ''Reserve wallet funds for Bill Payment'', pc_currency = bl_currency p, pc_initiatedBy = Some (bl_userId p),
      pc_correlationId = Some (bl_id p), pc_entries = two_legs available reserved (bl_total p)\<rparr>"

definition assessBill :: "string \<Rightarrow> int \<Rightarrow> string \<Rightarrow> string \<Rightarrow> int \<Rightarrow> int \<Rightarrow> fee_definition \<Rightarrow> ('m ajo_db_scheme, unit) tx" where
  "assessBill newId now subjectId currency base amount d s =
     bind_res (insertRow (\<lambda>a b. fe_id a = fe_id b)
         \<lparr>fe_id = newId, fe_feeDefinitionId = fee_definition.fd_id d, fe_subjectId = subjectId, fe_amount = amount, fe_currency = currency, fe_base = base\<rparr>
         (fee_assessments s)) (\<lambda>rows. Inr ((), s\<lparr>fee_assessments := rows\<rparr>))"

text \<open>The row, its fee assessment, the reserve posting and the attempt, written together.\<close>

definition reserveBill :: "bill_ids \<Rightarrow> int \<Rightarrow> bill_payment \<Rightarrow> fee_definition \<Rightarrow> bill_accounts \<Rightarrow> ('m bills_db_scheme, bill_payment) tx" where
  "reserveBill ids now p d a s =
     bind_res (insertRow bill_clash p (bill_payments s)) (\<lambda>rows.
     bind_res (assessBill (bi_row ids) now (bl_id p) (bl_currency p) (bl_amount p) (bl_fee p) d (s\<lparr>bill_payments := rows\<rparr>)) (\<lambda>(_, s1).
     bind_res (postWithin (bi_tx ids) now (reserveCommand p (fa_id (ba_available a)) (fa_id (ba_reserved a))) s1) (\<lambda>(r, s2).
     bind_res (updateBill (bl_id p) (\<lambda>q. q\<lparr>bl_reserveTx := Some (fst r)\<rparr>) s2) (\<lambda>(q, s3).
     bind_res (insertRow attempt_clash (newAttempt (bl_id p) (bl_requestHash p)) (bill_attempts s3)) (\<lambda>attempts.
       Inr (q, recordBillEvent (bl_userId p) (bl_id p) ''bill-payment.reserved'' (s3\<lparr>bill_attempts := attempts\<rparr>)))))))"

definition prepareBill ::
  "bill_provider \<Rightarrow> bill_ids \<Rightarrow> int \<Rightarrow> string \<Rightarrow> string \<Rightarrow> string \<Rightarrow> bill_validation \<Rightarrow> create_bill_dto \<Rightarrow>
     ('m bills_db_scheme, bill_payment \<times> bool) tx" where
  "prepareBill provider ids now userId key requestHash v dto s =
     (case List.find (\<lambda>p. bl_userId p = userId \<and> bl_idempotencyKey p = key) (bill_payments s) of
        Some p \<Rightarrow>
          if bl_requestHash p \<noteq> requestHash then Inl (Conflict ''Idempotency key was used for a different bill payment'') else Inr ((p, True), s)
      | None \<Rightarrow>
     (case List.find (\<lambda>w. wl_id w = cb_walletId dto \<and> wl_userId w = userId \<and> wl_status w = WS_ACTIVE) (wallets s) of
        None \<Rightarrow> Inl (NotFound ''Wallet was not found'')
      | Some w \<Rightarrow>
     bind_res (assertAmount (cb_amountMinor dto) (wl_currency w)
         (case truthy (va_productId v) of None \<Rightarrow> None | Some p \<Rightarrow> findProduct p s)) (\<lambda>_.
     case activeDefinition ''BILL_PAYMENT'' now (fee_definitions s) of
        None \<Rightarrow> Inl (Unprocessable ''Bill Payment fee is not configured'')
      | Some d \<Rightarrow>
     bind_res (assessVersionedFee ((fd_rule d)\<lparr>fr_tiers := None\<rparr>) (cb_amountMinor dto)) (\<lambda>(fee, snapshot).
     bind_res (billAccounts (wl_id w) (wl_currency w) s) (\<lambda>a.
     if accountBalanceWithin s (fa_id (ba_available a)) < cb_amountMinor dto + fee then Inl (Unprocessable ''Insufficient wallet funds'')
     else bind_res (reserveBill ids now
            (newBill (bv_name provider) ids now userId key requestHash v (wl_id w) (cb_amountMinor dto) fee (wl_currency w)) d a s) (\<lambda>(p, s1).
       Inr ((p, False), s1)))))))"

definition uncertain :: "provider_bill option \<Rightarrow> bill_payment \<Rightarrow> bill_payment" where
  "uncertain result p =
     p\<lparr>bl_status := BS_RECONCILIATION_REQUIRED, bl_reconciliation := RC_PENDING,
       bl_providerReference := (case result of None \<Rightarrow> bl_providerReference p
         | Some r \<Rightarrow> (case truthy (pb_providerReference r) of None \<Rightarrow> bl_providerReference p | Some x \<Rightarrow> Some x)),
       bl_providerStatus := (case result of None \<Rightarrow> bl_providerStatus p | Some r \<Rightarrow> Some (pb_providerStatus r))\<rparr>"

definition attemptDone :: "attempt_status \<Rightarrow> int \<Rightarrow> string option \<Rightarrow> bill_attempt \<Rightarrow> bill_attempt" where
  "attemptDone st now reference a =
     a\<lparr>bt_status := st, bt_completedAt := Some now,
       bt_providerReference := (case truthy reference of None \<Rightarrow> bt_providerReference a | Some x \<Rightarrow> Some x)\<rparr>"

definition markUncertain :: "int \<Rightarrow> string \<Rightarrow> provider_bill option \<Rightarrow> ('m bills_db_scheme, unit) handler" where
  "markUncertain now paymentId result = serializable (\<lambda>s.
     bind_res (updateBill paymentId (uncertain result) s) (\<lambda>(p, s1).
     bind_res (updateAttempt paymentId (attemptDone AT_UNKNOWN now (case result of None \<Rightarrow> None | Some r \<Rightarrow> pb_providerReference r)) s1) (\<lambda>(_, s2).
       Inr ((), recordBillEvent (bl_userId p) (bl_id p) ''bill-payment.reconciliation-required'' s2))))"

text \<open>What the intent of a bill says once the bill is finished; bills paid directly have none.\<close>

definition syncIntent :: "int \<Rightarrow> string option \<Rightarrow> bool \<Rightarrow> 'm payments_db_scheme \<Rightarrow> 'm payments_db_scheme" where
  "syncIntent now intentId succeeded s =
     (case intentId of
        None \<Rightarrow> s
      | Some i \<Rightarrow> s\<lparr>intents := update_where (\<lambda>j. pi_id j = i \<and> pi_status j = PI_PROCESSING)
          (\<lambda>j. if succeeded then j\<lparr>pi_status := PI_SUCCEEDED, pi_settledAt := Some now\<rparr>
             else j\<lparr>pi_status := PI_FAILED,
                    pi_failureReason := Some ''The provider could not complete this payment. Your money is back in your wallet.''\<rparr>) (intents s)\<rparr>)"

definition releaseCommand :: "bill_payment \<Rightarrow> bill_accounts \<Rightarrow> posting_command" where
  "releaseCommand p a =
     \<lparr>pc_idempotencyKey = ''bill-release:'' @ bl_id p, pc_reference = bl_internalReference p @ ''-RELEASE'',
      pc_description = ''Release Bill Payment wallet reserve'', pc_currency = bl_currency p, pc_initiatedBy = None,
      pc_correlationId = Some (bl_id p), pc_entries = two_legs (fa_id (ba_reserved a)) (fa_id (ba_available a)) (bl_total p)\<rparr>"

definition settleEntries :: "bill_payment \<Rightarrow> bill_accounts \<Rightarrow> posting_entry list" where
  "settleEntries p a =
     [\<lparr>pe_account = fa_id (ba_reserved a), pe_direction = DEBIT, pe_amount = bl_total p\<rparr>,
      \<lparr>pe_account = fa_id (ba_providerPayable a), pe_direction = CREDIT, pe_amount = bl_amount p\<rparr>]
     @ (if bl_fee p > 0 then [\<lparr>pe_account = fa_id (ba_feeRevenue a), pe_direction = CREDIT, pe_amount = bl_fee p\<rparr>] else [])"

definition settleCommand :: "bill_payment \<Rightarrow> bill_accounts \<Rightarrow> posting_command" where
  "settleCommand p a =
     \<lparr>pc_idempotencyKey = ''bill-settle:'' @ bl_id p, pc_reference = bl_internalReference p @ ''-SETTLE'',
      pc_description = ''Settle successful Bill Payment'', pc_currency = bl_currency p, pc_initiatedBy = None,
      pc_correlationId = Some (bl_id p), pc_entries = settleEntries p a\<rparr>"

definition billFailed :: "provider_bill \<Rightarrow> string \<Rightarrow> bill_payment \<Rightarrow> bill_payment" where
  "billFailed result txId p =
     p\<lparr>bl_status := BS_FAILED,
       bl_providerReference := (case truthy (pb_providerReference result) of None \<Rightarrow> bl_providerReference p | Some x \<Rightarrow> Some x),
       bl_providerStatus := Some (pb_providerStatus result),
       bl_failureCode := (case truthy (pb_failureCode result) of None \<Rightarrow> bl_failureCode p | Some x \<Rightarrow> Some x),
       bl_failureReason := Some ''Provider confirmed failure'', bl_releaseTx := Some txId\<rparr>"

definition billSucceeded :: "int \<Rightarrow> provider_bill \<Rightarrow> string \<Rightarrow> bill_payment \<Rightarrow> bill_payment" where
  "billSucceeded now result txId p =
     p\<lparr>bl_status := BS_SUCCESSFUL,
       bl_providerReference := (case truthy (pb_providerReference result) of None \<Rightarrow> bl_providerReference p | Some x \<Rightarrow> Some x),
       bl_providerStatus := Some (pb_providerStatus result), bl_reconciliation := RC_NOT_REQUIRED,
       bl_completedAt := Some now, bl_settleTx := Some txId\<rparr>"

definition releaseBill :: "string \<Rightarrow> int \<Rightarrow> string \<Rightarrow> bill_payment \<Rightarrow> bill_accounts \<Rightarrow> provider_bill \<Rightarrow> ('m bills_db_scheme, unit) tx" where
  "releaseBill txId now userId p a result s =
     bind_res (postWithin txId now (releaseCommand p a) s) (\<lambda>(r, s1).
     bind_res (updateBill (bl_id p) (billFailed result (fst r)) s1) (\<lambda>(_, s2).
     bind_res (updateAttempt (bl_id p) (attemptDone AT_FAILED now None) s2) (\<lambda>(_, s3).
       Inr ((), recordBillEvent userId (bl_id p) ''bill-payment.failed'' (syncIntent now (bl_paymentIntentId p) False s3)))))"

definition settleBill :: "string \<Rightarrow> int \<Rightarrow> string \<Rightarrow> bill_payment \<Rightarrow> bill_accounts \<Rightarrow> provider_bill \<Rightarrow> ('m bills_db_scheme, unit) tx" where
  "settleBill txId now userId p a result s =
     bind_res (postWithin txId now (settleCommand p a) s) (\<lambda>(r, s1).
     bind_res (updateBill (bl_id p) (billSucceeded now result (fst r)) s1) (\<lambda>(_, s2).
     bind_res (updateAttempt (bl_id p) (attemptDone AT_CONFIRMED now (pb_providerReference result)) s2) (\<lambda>(_, s3).
     bind_res (insertRow (\<lambda>x y. br_paymentId x = br_paymentId y \<or> br_number x = br_number y)
         \<lparr>br_paymentId = bl_id p, br_number = ''RCP-'' @ bl_internalReference p\<rparr> (bill_receipts s3)) (\<lambda>receipts.
       Inr ((), recordBillEvent userId (bl_id p) ''bill-payment.successful''
         (syncIntent now (bl_paymentIntentId p) True (s3\<lparr>bill_receipts := receipts\<rparr>)))))))"

definition reversalCommand :: "string \<Rightarrow> bill_payment \<Rightarrow> bill_accounts \<Rightarrow> posting_command" where
  "reversalCommand actor p a =
     \<lparr>pc_idempotencyKey = ''bill-reversal:'' @ bl_id p, pc_reference = bl_internalReference p @ ''-REVERSAL'',
      pc_description = ''Reverse successful Bill Payment'', pc_currency = bl_currency p, pc_initiatedBy = Some actor,
      pc_correlationId = Some (bl_id p),
      pc_entries = [\<lparr>pe_account = fa_id (ba_providerPayable a), pe_direction = DEBIT, pe_amount = bl_amount p\<rparr>]
        @ (if bl_fee p > 0 then [\<lparr>pe_account = fa_id (ba_feeRevenue a), pe_direction = DEBIT, pe_amount = bl_fee p\<rparr>] else [])
        @ [\<lparr>pe_account = fa_id (ba_available a), pe_direction = CREDIT, pe_amount = bl_total p\<rparr>]\<rparr>"

definition billReversed :: "provider_bill \<Rightarrow> string \<Rightarrow> bill_payment \<Rightarrow> bill_payment" where
  "billReversed result txId p =
     p\<lparr>bl_status := BS_REVERSED, bl_reconciliation := RC_RESOLVED, bl_providerStatus := Some (pb_providerStatus result), bl_reversalTx := Some txId\<rparr>"

definition applyReversal :: "string \<Rightarrow> int \<Rightarrow> string \<Rightarrow> string \<Rightarrow> provider_bill \<Rightarrow> ('m bills_db_scheme, bill_payment) handler" where
  "applyReversal txId now paymentId actor result = serializable (\<lambda>s.
     case findBill paymentId s of
       None \<Rightarrow> Inl (NotFound ''Bill payment was not found'')
     | Some p \<Rightarrow>
     if bl_status p = BS_REVERSED then Inr (p, s)
     else if bl_status p \<noteq> BS_SUCCESSFUL then Inl (Conflict ''Only a successful Bill Payment can be reversed'')
     else
     bind_res (billAccounts (bl_walletId p) (bl_currency p) s) (\<lambda>a.
     bind_res (postWithin txId now (reversalCommand actor p a) s) (\<lambda>(r, s1).
     bind_res (insertRow (\<lambda>x y. bx_idempotencyKey x = bx_idempotencyKey y \<or> bx_ledgerTransactionId x = bx_ledgerTransactionId y)
         \<lparr>bx_paymentId = bl_id p, bx_providerReference = truthy (pb_providerReference result), bx_amount = bl_total p, bx_currency = bl_currency p,
          bx_idempotencyKey = ''bill-reversal:'' @ bl_id p, bx_ledgerTransactionId = fst r\<rparr> (bill_reversals s1)) (\<lambda>reversals.
     bind_res (updateBill (bl_id p) (billReversed result (fst r)) (s1\<lparr>bill_reversals := reversals\<rparr>)) (\<lambda>(q, s2).
       Inr (q, recordBillEvent actor (bl_id p) ''bill-payment.reversed'' s2))))))"

definition getBill :: "string \<Rightarrow> string \<Rightarrow> 'm bills_db_scheme \<Rightarrow> bill_payment res" where
  "getBill userId paymentId s =
     (case List.find (\<lambda>p. bl_id p = paymentId \<and> bl_userId p = userId) (bill_payments s) of
        None \<Rightarrow> Inl (NotFound ''Bill payment was not found'') | Some p \<Rightarrow> Inr p)"

definition listBills :: "string \<Rightarrow> 'm bills_db_scheme \<Rightarrow> bill_payment list" where
  "listBills userId s = take 100 (sort_key (\<lambda>p. - bl_createdAt p) (filter (\<lambda>p. bl_userId p = userId) (bill_payments s)))"

definition isHeld :: "bill_status \<Rightarrow> bool" where
  "isHeld st \<longleftrightarrow> st = BS_PENDING \<or> st = BS_RECONCILIATION_REQUIRED"

definition finishBill :: "string \<Rightarrow> int \<Rightarrow> string \<Rightarrow> string \<Rightarrow> provider_bill \<Rightarrow> ('m bills_db_scheme, bill_payment) handler" where
  "finishBill txId now paymentId userId result = serializable (\<lambda>s.
     case findBill paymentId s of
       None \<Rightarrow> Inl (NotFound ''Bill payment was not found'')
     | Some p \<Rightarrow>
     if \<not> isHeld (bl_status p) then Inr (p, s)
     else
     bind_res (billAccounts (bl_walletId p) (bl_currency p) s) (\<lambda>a.
     bind_res (if pb_state result = PV_FAILED then releaseBill txId now userId p a result s else settleBill txId now userId p a result s) (\<lambda>(_, s1).
       case findBill paymentId s1 of None \<Rightarrow> Inl RecordMissing | Some q \<Rightarrow> Inr (q, s1))))"

definition applyProviderResult :: "string \<Rightarrow> int \<Rightarrow> string \<Rightarrow> string \<Rightarrow> provider_bill \<Rightarrow> ('m bills_db_scheme, bill_payment) handler" where
  "applyProviderResult txId now paymentId userId result s =
     (if pb_state result = PV_REVERSED then applyReversal txId now paymentId userId result s
      else if pb_state result = PV_PENDING \<or> pb_state result = PV_UNKNOWN
      then (case markUncertain now paymentId (Some result) s of
              (Inl e, s1) \<Rightarrow> (Inl e, s1) | (Inr _, s1) \<Rightarrow> (getBill userId paymentId s1, s1))
      else finishBill txId now paymentId userId result s)"

definition billInput :: "string \<Rightarrow> bill_biller \<Rightarrow> bill_product option \<Rightarrow> bill_payment \<Rightarrow> create_bill_input" where
  "billInput customerReference b product p =
     \<lparr>ci_reference = bl_internalReference p, ci_billerCode = bb_code b, ci_productCode = map_option bp_code product,
      ci_customerReference = customerReference, ci_amountMinor = bl_amount p, ci_currencyCode = bl_currency p\<rparr>"

text \<open>The request the hash is taken of, with the digest in place of the reference.\<close>

definition requestText :: "create_bill_dto \<Rightarrow> string \<Rightarrow> string" where
  "requestText dto digest =
     ''{\"walletId\":\"'' @ cb_walletId dto @ ''\",\"validationId\":\"'' @ cb_validationId dto @ ''\",\"customerReference\":\"'' @ digest
       @ ''\",\"amountMinor\":\"'' @ showInt (cb_amountMinor dto) @ ''\"}''"

definition sendBill ::
  "bill_provider \<Rightarrow> bill_ids \<Rightarrow> int \<Rightarrow> string \<Rightarrow> string \<Rightarrow> bill_payment \<Rightarrow> ('m bills_db_scheme, bill_payment) handler" where
  "sendBill provider ids now userId customerReference p s =
     (case (case findBiller (bl_billerId p) s of
              None \<Rightarrow> Inl (PlainError ''Persisted biller is missing'')
            | Some b \<Rightarrow> bv_createPayment provider
                (billInput customerReference b (case truthy (bl_productId p) of None \<Rightarrow> None | Some i \<Rightarrow> findProduct i s) p)) of
        Inr result \<Rightarrow> applyProviderResult (bi_tx2 ids) now (bl_id p) userId result s
      | Inl _ \<Rightarrow>
          (case markUncertain now (bl_id p) None s of
             (Inl e, s1) \<Rightarrow> (Inl e, s1)
           | (Inr _, s1) \<Rightarrow> (Inl (BadGateway ''Provider result is uncertain; payment is being reconciled''), s1)))"

definition createBill ::
  "bill_provider \<Rightarrow> (string \<Rightarrow> string) \<Rightarrow> bill_ids \<Rightarrow> int \<Rightarrow> string \<Rightarrow> string \<Rightarrow> create_bill_dto \<Rightarrow> ('m bills_db_scheme, bill_payment) handler" where
  "createBill provider hmac ids now userId key dto s =
     (let validation = List.find (\<lambda>v. va_id v = cb_validationId dto \<and> va_userId v = userId \<and> va_valid v \<and> va_expiresAt v > now) (bill_validations s);
          biller = (case validation of None \<Rightarrow> None | Some v \<Rightarrow> findBiller (va_billerId v) s);
          customerReference = normaliseReference (fst (referenceOf biller)) (cb_customerReference dto);
          requestHash = hmac (requestText dto (hmac customerReference)) in
      case validation of
        None \<Rightarrow> (Inl (Unprocessable ''A current matching customer validation is required''), s)
      | Some v \<Rightarrow>
      if va_digest v \<noteq> hmac customerReference then (Inl (Unprocessable ''A current matching customer validation is required''), s)
      else case serializable (prepareBill provider ids now userId key requestHash v dto) s of
        (Inl e, s1) \<Rightarrow> (Inl e, s1)
      | (Inr (p, True), s1) \<Rightarrow> (Inr p, s1)
      | (Inr (p, False), s1) \<Rightarrow> sendBill provider ids now userId customerReference p s1)"

definition reconcile :: "bill_provider \<Rightarrow> string \<Rightarrow> int \<Rightarrow> string \<Rightarrow> string \<Rightarrow> ('m bills_db_scheme, bill_payment) handler" where
  "reconcile provider txId now actor paymentId s =
     (case findBill paymentId s of
        None \<Rightarrow> (Inl (NotFound ''Bill payment was not found''), s)
      | Some p \<Rightarrow>
      if bl_reconciliation p \<noteq> RC_PENDING then (Inl (Conflict ''Bill payment is not awaiting reconciliation''), s)
      else case bv_queryPayment provider (or_default (bl_providerReference p) (bl_internalReference p)) of
        Inl _ \<Rightarrow> (Inl (BadGateway ''Provider inquiry failed; reserved funds remain held''), s)
      | Inr result \<Rightarrow> applyProviderResult txId now (bl_id p) actor result s)"

section \<open>BillPaymentTarget\<close>

text \<open>The label of a bill; the middle dot of the source is written as a hyphen.\<close>

definition billDescription :: "string \<Rightarrow> string option \<Rightarrow> string \<Rightarrow> string" where
  "billDescription biller product masked =
     (case truthy product of
        None \<Rightarrow> biller
      | Some p \<Rightarrow> if p = ''Airtime top-up'' then biller else biller @ '' '' @ p) @ '' - '' @ masked"

definition findValidation :: "string option \<Rightarrow> 'm bills_db_scheme \<Rightarrow> bill_validation option" where
  "findValidation validationId s =
     (case truthy validationId of None \<Rightarrow> None | Some i \<Rightarrow> List.find (\<lambda>v. va_id v = i) (bill_validations s))"

definition quoteForIntent ::
  "bill_provider \<Rightarrow> int \<Rightarrow> string \<Rightarrow> string option \<Rightarrow> int option \<Rightarrow> 'm bills_db_scheme \<Rightarrow> resolved_target res" where
  "quoteForIntent provider now userId validationId requested s =
     (case findValidation validationId s of
        None \<Rightarrow> Inl (NotFound ''This payment was not found'')
      | Some v \<Rightarrow>
      if va_userId v \<noteq> userId \<or> va_provider v \<noteq> bv_name provider then Inl (NotFound ''This payment was not found'')
      else if \<not> va_valid v \<or> va_expiresAt v \<le> now then Inl (Unprocessable ''Check the number again before paying'')
      else case List.find (\<lambda>b. bb_id b = va_billerId v \<and> bb_status b = CT_ACTIVE
             \<and> list_ex (\<lambda>c. bc_id c = bb_categoryId b \<and> bc_status c = CT_ACTIVE) (bill_categories s)) (bill_billers s) of
        None \<Rightarrow> Inl (NotFound ''This biller is no longer available'')
      | Some b \<Rightarrow>
      (let product = (case truthy (va_productId v) of None \<Rightarrow> None
             | Some i \<Rightarrow> List.find (\<lambda>p. bp_id p = i \<and> bp_status p = CT_ACTIVE) (bill_products s)) in
       if truthy (va_productId v) \<noteq> None \<and> product = None then Inl (NotFound ''This package is no longer available'')
       else let currency = (case product of None \<Rightarrow> ''NGN'' | Some p \<Rightarrow> bp_currency p) in
       case (case requested of Some r \<Rightarrow> Some r | None \<Rightarrow> (case product of None \<Rightarrow> None | Some p \<Rightarrow> bp_fixed p)) of
         None \<Rightarrow> Inl (Unprocessable ''Choose how much to pay'')
       | Some amount \<Rightarrow> bind_res (assertAmount amount currency product) (\<lambda>_.
           Inr \<lparr>rt_amount = amount, rt_currency = currency,
                rt_description = billDescription (bb_name b) (map_option bp_name product) (va_masked v)\<rparr>)))"

definition describeBillIntent :: "string option \<Rightarrow> 'm bills_db_scheme \<Rightarrow> string" where
  "describeBillIntent validationId s =
     (case findValidation validationId s of
        None \<Rightarrow> ''Bill payment''
      | Some v \<Rightarrow> (case findBiller (va_billerId v) s of
          None \<Rightarrow> ''Bill payment''
        | Some b \<Rightarrow> billDescription (bb_name b)
            (case truthy (va_productId v) of None \<Rightarrow> None | Some i \<Rightarrow> map_option bp_name (findProduct i s)) (va_masked v)))"

definition verifyIntentReference ::
  "(string \<Rightarrow> string) \<Rightarrow> string \<Rightarrow> string option \<Rightarrow> string option \<Rightarrow> 'm bills_db_scheme \<Rightarrow> unit res" where
  "verifyIntentReference hmac userId validationId customerReference s =
     (case truthy customerReference of
        None \<Rightarrow> Inl (Unprocessable ''The number being paid for is missing'')
      | Some reference \<Rightarrow> (case findValidation validationId s of
          None \<Rightarrow> Inl (NotFound ''This payment was not found'')
        | Some v \<Rightarrow>
          if va_userId v \<noteq> userId then Inl (NotFound ''This payment was not found'')
          else if hmac (normaliseReference (fst (referenceOf (findBiller (va_billerId v) s))) reference) \<noteq> va_digest v
          then Inl (Unprocessable ''This number is not the one that was checked. Start the payment again.'')
          else Inr ()))"

definition reservedAccountForIntent :: "string option \<Rightarrow> string \<Rightarrow> 'm bills_db_scheme \<Rightarrow> fin_account res" where
  "reservedAccountForIntent validationId currency s =
     (case findValidation validationId s of
        None \<Rightarrow> Inl (NotFound ''This payment was not found'')
      | Some v \<Rightarrow>
      (case List.find (\<lambda>a. fa_purpose a = Some WALLET_RESERVED \<and> fa_currency a = currency \<and> fa_isActive a
             \<and> list_ex (\<lambda>w. fa_walletId a = Some (wl_id w) \<and> wl_userId w = va_userId v \<and> wl_currency w = currency) (wallets s)) (accounts s) of
        None \<Rightarrow> Inl (Unprocessable ''Required financial accounts are not configured'')
      | Some a \<Rightarrow> Inr a))"

definition intentPaymentKey :: "string \<Rightarrow> string" where
  "intentPaymentKey intentId = ''intent:'' @ intentId"

definition recordIntentPayment :: "bill_provider \<Rightarrow> (string \<Rightarrow> string) \<Rightarrow> pay_ids \<Rightarrow> int \<Rightarrow> settled_payment \<Rightarrow> ('m bills_db_scheme, unit) tx" where
  "recordIntentPayment provider hmac ids now payment s =
     (case findValidation (sp_targetId payment) s of
        None \<Rightarrow> Inl (NotFound ''This payment was not found'')
      | Some v \<Rightarrow>
     (case List.find (\<lambda>w. wl_userId w = sp_userId payment \<and> wl_currency w = sp_currency payment) (wallets s) of
        None \<Rightarrow> Inl (Unprocessable ''No wallet is available for this currency'')
      | Some w \<Rightarrow>
     let p = (newBill (bv_name provider) \<lparr>bi_row = py_row ids, bi_uuid = py_hex ids, bi_tx = [], bi_tx2 = []\<rparr> now (sp_userId payment)
            (intentPaymentKey (sp_intentId payment)) (hmac (sp_intentId payment)) v (wl_id w) (sp_amount payment) (sp_fee payment)
            (sp_currency payment))\<lparr>bl_reserveTx := Some (sp_ledgerTransactionId payment), bl_paymentIntentId := Some (sp_intentId payment)\<rparr> in
     bind_res (insertRow bill_clash p (bill_payments s)) (\<lambda>rows.
     bind_res (case activeDefinition ''BILL_PAYMENT'' now (fee_definitions s) of
           None \<Rightarrow> Inr ((), s\<lparr>bill_payments := rows\<rparr>)
         | Some d \<Rightarrow> assessBill (py_row ids) now (bl_id p) (sp_currency payment) (sp_amount payment) (sp_fee payment) d (s\<lparr>bill_payments := rows\<rparr>)) (\<lambda>(_, s1).
     bind_res (insertRow attempt_clash (newAttempt (bl_id p) (bl_requestHash p)) (bill_attempts s1)) (\<lambda>attempts.
       Inr ((), recordBillEvent (sp_userId payment) (bl_id p) ''bill-payment.reserved'' (s1\<lparr>bill_attempts := attempts\<rparr>)))))))"

definition outcomeOf :: "bill_status \<Rightarrow> after_commit_outcome" where
  "outcomeOf st = (if st = BS_SUCCESSFUL then AC_SUCCEEDED else if st = BS_FAILED then AC_FAILED else AC_PROCESSING)"

definition completeIntentPayment ::
  "bill_provider \<Rightarrow> string \<Rightarrow> int \<Rightarrow> string \<Rightarrow> string \<Rightarrow> string option \<Rightarrow> ('m bills_db_scheme, after_commit_outcome) handler" where
  "completeIntentPayment provider txId now userId intentId customerReference s =
     (case List.find (\<lambda>p. bl_userId p = userId \<and> bl_idempotencyKey p = intentPaymentKey intentId) (bill_payments s) of
        None \<Rightarrow> (Inr AC_PROCESSING, s)
      | Some p \<Rightarrow>
     if bl_status p \<noteq> BS_PENDING then (Inr (outcomeOf (bl_status p)), s)
     else case (case truthy customerReference of
            None \<Rightarrow> Inl (PlainError [])
          | Some reference \<Rightarrow> (case findBiller (bl_billerId p) s of
              None \<Rightarrow> Inl RecordMissing
            | Some b \<Rightarrow> bv_createPayment provider (billInput (normaliseReference (fst (referenceOf (Some b))) reference) b
                (case bl_productId p of None \<Rightarrow> None | Some i \<Rightarrow> findProduct i s) p))) of
        Inl _ \<Rightarrow>
          (case markUncertain now (bl_id p) None s of (Inl e, s1) \<Rightarrow> (Inl e, s1) | (Inr _, s1) \<Rightarrow> (Inr AC_PROCESSING, s1))
      | Inr result \<Rightarrow>
          (case applyProviderResult txId now (bl_id p) userId result s of
             (Inl e, s1) \<Rightarrow> (Inl e, s1)
           | (Inr _, s1) \<Rightarrow> (case findBill (bl_id p) s1 of None \<Rightarrow> (Inl RecordMissing, s1) | Some q \<Rightarrow> (Inr (outcomeOf (bl_status q)), s1))))"

text \<open>The target with the provider, the digest, and the clock and transaction id of the work after the commit.\<close>

definition BillPaymentTarget ::
  "bill_provider \<Rightarrow> (string \<Rightarrow> string) \<Rightarrow> string \<Rightarrow> int \<Rightarrow> 'm bills_db_scheme payment_target" where
  "BillPaymentTarget provider hmac txId later =
     \<lparr>pt_type = TT_BILL_PAYMENT, pt_methods = [PM_WALLET], pt_amountRule = AR_chosen, pt_feeCode = Some FC_BILL_PAYMENT, pt_holdsFee = True,
      pt_resolve = quoteForIntent provider,
      pt_creditAccount = (\<lambda>ids targetId currency s. bind_res (reservedAccountForIntent targetId currency s) (\<lambda>a. Inr (fa_id a, s))),
      pt_settle = recordIntentPayment provider hmac, pt_describe = describeBillIntent,
      pt_verifyConfirmation = Some (verifyIntentReference hmac),
      pt_afterCommit = Some (\<lambda>payment details. completeIntentPayment provider txId later (sp_userId payment) (sp_intentId payment) details)\<rparr>"

end
