(* ===== verification/Bill_Safety.thy ===== *)
theory Bill_Safety
  imports Bills
begin

text \<open>
  What is shown of bill payments: the provider's answer to a held bill moves the reserved money the way the policy says, the
  target keeps the contract of the payment mechanics, no history of requests overdraws a wallet, no history reverses a bill, and
  a bill that failed can be charged a second time.
\<close>

section \<open>What the steps change\<close>

lemma recordBillEvent_frame [simp]:
  "ledger_txs (recordBillEvent u i e s) = ledger_txs s" "accounts (recordBillEvent u i e s) = accounts s"
  "wallets (recordBillEvent u i e s) = wallets s" "core_db.more (recordBillEvent u i e s) = core_db.more s"
  by (simp_all add: recordBillEvent_def outbox_def audit_def)

lemma recordBillEvent_tables [simp]:
  "intents (recordBillEvent u i e s) = intents s" "bill_payments (recordBillEvent u i e t) = bill_payments t"
  "bill_attempts (recordBillEvent u i e t) = bill_attempts t" "bill_reversals (recordBillEvent u i e t) = bill_reversals t"
  by (simp_all add: recordBillEvent_def outbox_def audit_def)

lemma syncIntent_frame [simp]:
  "ledger_txs (syncIntent now i b s) = ledger_txs s" "accounts (syncIntent now i b s) = accounts s"
  "bill_payments (syncIntent now i b t) = bill_payments t" "bill_attempts (syncIntent now i b t) = bill_attempts t"
  "bill_reversals (syncIntent now i b t) = bill_reversals t"
  by (simp_all add: syncIntent_def split: option.splits)

lemma updateBill_Inr_iff:
  "updateBill pid f s = Inr (q, s') \<longleftrightarrow> (\<exists>p. findBill pid s = Some p \<and> q = f p
     \<and> s' = s\<lparr>bill_payments := update_where (\<lambda>q. bl_id q = pid) f (bill_payments s)\<rparr>)"
  by (auto simp: updateBill_def split: option.splits)

lemma updateAttempt_Inr_iff:
  "updateAttempt pid f s = Inr (u, s') \<longleftrightarrow> list_ex (\<lambda>a. bt_paymentId a = pid \<and> bt_number a = 1) (bill_attempts s)
     \<and> s' = s\<lparr>bill_attempts := update_where (\<lambda>a. bt_paymentId a = pid \<and> bt_number a = 1) f (bill_attempts s)\<rparr>"
  by (auto simp: updateAttempt_def)

lemma findBill_id: "findBill pid s = Some p \<Longrightarrow> bl_id p = pid \<and> p \<in> set (bill_payments s)"
  by (auto simp: findBill_def dest: find_SomeD)

lemma findBill_update:
  assumes "findBill pid s = Some p" and "\<And>q. bl_id (f q) = bl_id q"
    and "bill_payments s' = update_where (\<lambda>q. bl_id q = pid) f (bill_payments s)"
  shows "findBill pid s' = Some (f p)"
  using assms findBill_id [OF assms(1)] by (simp add: findBill_def find_update_where)

lemma bill_posting_frame:
  assumes "postWithin i now c s = Inr (r, s')"
  shows "bill_payments s' = bill_payments s" "bill_attempts s' = bill_attempts s" "bill_reversals s' = bill_reversals s"
    "bill_receipts s' = bill_receipts s" "accounts s' = accounts s"
  by (rule postWithin_only_ledger [OF assms]; simp)+

lemmas bill_step_iffs = bind_res_Inr_iff updateBill_Inr_iff updateAttempt_Inr_iff serializable_Inr_iff

text \<open>The attempt row survives every change of its status.\<close>

definition attempted :: "string \<Rightarrow> 'm bills_db_scheme \<Rightarrow> bool" where
  "attempted pid s \<longleftrightarrow> list_ex (\<lambda>a. bt_paymentId a = pid \<and> bt_number a = 1) (bill_attempts s)"

lemma list_ex_update_where: "(\<And>x. P x \<Longrightarrow> Q (f x) = Q x) \<Longrightarrow> list_ex Q (update_where P f xs) = list_ex Q xs"
  by (induction xs) (auto simp: update_where_def)

lemma attempted_update:
  "bill_attempts s' = update_where P (attemptDone st now ref) (bill_attempts s) \<Longrightarrow> attempted pid s' = attempted pid s"
  by (simp add: attempted_def list_ex_update_where attemptDone_def)

lemma releaseBill_InrD:
  assumes "releaseBill txId now u p a result s = Inr (x, s')"
  obtains r s1 where "postWithin txId now (releaseCommand p a) s = Inr (r, s1)" "ledger_txs s' = ledger_txs s1" "accounts s' = accounts s"
    "bill_payments s' = update_where (\<lambda>q. bl_id q = bl_id p) (billFailed result (fst r)) (bill_payments s)"
    "bill_reversals s' = bill_reversals s" "attempted (bl_id p) s'"
proof -
  from assms obtain r s1 q s2 s3 where post: "postWithin txId now (releaseCommand p a) s = Inr (r, s1)"
    and upd: "updateBill (bl_id p) (billFailed result (fst r)) s1 = Inr (q, s2)"
    and att: "updateAttempt (bl_id p) (attemptDone AT_FAILED now None) s2 = Inr ((), s3)"
    and s': "s' = recordBillEvent u (bl_id p) ''bill-payment.failed'' (syncIntent now (bl_paymentIntentId p) False s3)"
    by (auto simp: releaseBill_def bind_res_Inr_iff)
  from att have "attempted (bl_id p) s2" by (simp add: updateAttempt_Inr_iff attempted_def)
  moreover from att have "attempted (bl_id p) s' = attempted (bl_id p) s2"
    by (intro attempted_update) (auto simp: s' updateAttempt_Inr_iff)
  ultimately show ?thesis using that [OF post] upd att bill_posting_frame [OF post] by (auto simp: s' updateBill_Inr_iff updateAttempt_Inr_iff)
qed

lemma settleBill_InrD:
  assumes "settleBill txId now u p a result s = Inr (x, s')"
  obtains r s1 where "postWithin txId now (settleCommand p a) s = Inr (r, s1)" "ledger_txs s' = ledger_txs s1" "accounts s' = accounts s"
    "bill_payments s' = update_where (\<lambda>q. bl_id q = bl_id p) (billSucceeded now result (fst r)) (bill_payments s)"
    "bill_reversals s' = bill_reversals s"
proof -
  from assms obtain r s1 q s2 s3 where post: "postWithin txId now (settleCommand p a) s = Inr (r, s1)"
    and upd: "updateBill (bl_id p) (billSucceeded now result (fst r)) s1 = Inr (q, s2)"
    and att: "updateAttempt (bl_id p) (attemptDone AT_CONFIRMED now (pb_providerReference result)) s2 = Inr ((), s3)"
    and s': "s' = recordBillEvent u (bl_id p) ''bill-payment.successful''
      (syncIntent now (bl_paymentIntentId p) True (s3\<lparr>bill_receipts := bill_receipts s3 @ [\<lparr>br_paymentId = bl_id p, br_number = ''RCP-'' @ bl_internalReference p\<rparr>]\<rparr>))"
    by (auto simp: settleBill_def bind_res_Inr_iff)
  show ?thesis using that [OF post] upd att bill_posting_frame [OF post] by (auto simp: s' updateBill_Inr_iff updateAttempt_Inr_iff)
qed

lemma markUncertain_cases:
  obtains (gone) e where "markUncertain now pid result s = (Inl e, s)" "findBill pid s = None \<or> \<not> attempted pid s"
  | (marked) s' p where "markUncertain now pid result s = (Inr (), s')" "findBill pid s = Some p" "ledger_txs s' = ledger_txs s"
    "accounts s' = accounts s" "bill_payments s' = update_where (\<lambda>q. bl_id q = pid) (uncertain result) (bill_payments s)"
    "bill_reversals s' = bill_reversals s"
proof (cases "findBill pid s")
  case None
  with gone show ?thesis by (simp add: markUncertain_def serializable_def updateBill_def)
next
  case (Some p)
  show ?thesis
  proof (cases "attempted pid s")
    case False
    with Some gone show ?thesis by (simp add: markUncertain_def serializable_def updateBill_def updateAttempt_def attempted_def)
  next
    case True
    with Some marked [of _ p] show ?thesis
      by (simp add: markUncertain_def serializable_def updateBill_def updateAttempt_def attempted_def)
  qed
qed

lemma finishBill_cases:
  assumes "finishBill txId now pid u result s = (x, s')"
  obtains (unchanged) "s' = s"
  | (released) p a q where "findBill pid s = Some p" "isHeld (bl_status p)" "billAccounts (bl_walletId p) (bl_currency p) s = Inr a"
      "pb_state result = PV_FAILED" "releaseBill txId now u p a result s = Inr ((), s')" "x = Inr q" "findBill pid s' = Some q"
  | (settled) p a q where "findBill pid s = Some p" "isHeld (bl_status p)" "billAccounts (bl_walletId p) (bl_currency p) s = Inr a"
      "pb_state result \<noteq> PV_FAILED" "settleBill txId now u p a result s = Inr ((), s')" "x = Inr q" "findBill pid s' = Some q"
proof (cases x)
  case (Inl e)
  with assms unchanged show ?thesis by (simp add: finishBill_def serializable_Inl_iff)
next
  case (Inr q)
  with assms unchanged released settled show ?thesis
    by (auto simp: finishBill_def serializable_Inr_iff bind_res_Inr_iff split: option.splits if_splits)
qed


section \<open>The books\<close>

text \<open>
  What a member can spend. The reserved accounts are left out: a bill that is charged a second time, shown below, takes
  money out of them that is not there.
\<close>

definition spendable :: "fin_account \<Rightarrow> bool" where
  "spendable a \<longleftrightarrow> fa_purpose a = Some WALLET_AVAILABLE"

lemma billAccounts_InrD:
  assumes "billAccounts w c s = Inr a"
  shows "ba_available a \<in> set (accounts s)" "ba_reserved a \<in> set (accounts s)"
    "ba_providerPayable a \<in> set (accounts s)" "ba_feeRevenue a \<in> set (accounts s)"
    "fa_purpose (ba_available a) = Some WALLET_AVAILABLE" "fa_purpose (ba_reserved a) = Some WALLET_RESERVED"
    "fa_purpose (ba_providerPayable a) = Some PROVIDER_PAYABLE" "fa_purpose (ba_feeRevenue a) = Some PLATFORM_FEE_REVENUE"
  using assms by (auto simp: billAccounts_def bind_res_Inr_iff account_matches_def dest!: requireAccount_InrD)

lemma purpose_id: "accounts_wf s \<Longrightarrow> a \<in> set (accounts s) \<Longrightarrow> b \<in> set (accounts s) \<Longrightarrow> fa_purpose a \<noteq> fa_purpose b \<Longrightarrow> fa_id a \<noteq> fa_id b"
  using account_id_inject by blast

text \<open>The accounts of a bill have different purposes, so different ids.\<close>

lemma billAccounts_ids:
  assumes "billAccounts w c s = Inr a" and "accounts_wf s"
  shows "distinct [fa_id (ba_available a), fa_id (ba_reserved a), fa_id (ba_providerPayable a), fa_id (ba_feeRevenue a)]"
proof -
  note f = billAccounts_InrD [OF assms(1)] and p = purpose_id [OF assms(2)]
  from p [OF f(1) f(2)] p [OF f(1) f(3)] p [OF f(1) f(4)] p [OF f(2) f(3)] p [OF f(2) f(4)] p [OF f(3) f(4)] f(5-8)
  show ?thesis by simp
qed

lemma billAccounts_spendable:
  assumes "billAccounts w c s = Inr a" and "accounts_wf s" and "x \<in> set (accounts s)" and "spendable x"
  shows "fa_id x \<noteq> fa_id (ba_reserved a)" "fa_id x \<noteq> fa_id (ba_providerPayable a)" "fa_id x \<noteq> fa_id (ba_feeRevenue a)"
proof -
  note f = billAccounts_InrD [OF assms(1)] and p = purpose_id [OF assms(2,3)]
  from p [OF f(2)] f(6) assms(4) show "fa_id x \<noteq> fa_id (ba_reserved a)" by (simp add: spendable_def)
  from p [OF f(3)] f(7) assms(4) show "fa_id x \<noteq> fa_id (ba_providerPayable a)" by (simp add: spendable_def)
  from p [OF f(4)] f(8) assms(4) show "fa_id x \<noteq> fa_id (ba_feeRevenue a)" by (simp add: spendable_def)
qed

lemma cmd_delta_reserve:
  "cmd_delta (reserveCommand p av re) x = (if x = re then bl_total p else 0) - (if x = av then bl_total p else 0)"
  by (simp add: cmd_delta_two reserveCommand_def two_legs_def)

lemma cmd_delta_release:
  "cmd_delta (releaseCommand p a) x =
     (if x = fa_id (ba_available a) then bl_total p else 0) - (if x = fa_id (ba_reserved a) then bl_total p else 0)"
  by (simp add: cmd_delta_two releaseCommand_def two_legs_def)

lemma cmd_delta_settle:
  "cmd_delta (settleCommand p a) x =
     (if x = fa_id (ba_providerPayable a) then bl_amount p else 0) + (if x = fa_id (ba_feeRevenue a) \<and> bl_fee p > 0 then bl_fee p else 0)
       - (if x = fa_id (ba_reserved a) then bl_total p else 0)"
  by (simp add: cmd_delta_def signed_cmd_def settleCommand_def settleEntries_def)

lemma cmd_delta_reversal:
  "cmd_delta (reversalCommand u p a) x =
     (if x = fa_id (ba_available a) then bl_total p else 0) - (if x = fa_id (ba_providerPayable a) then bl_amount p else 0)
       - (if x = fa_id (ba_feeRevenue a) \<and> bl_fee p > 0 then bl_fee p else 0)"
  by (simp add: cmd_delta_def signed_cmd_def reversalCommand_def)

lemmas bill_deltas = cmd_delta_reserve cmd_delta_release cmd_delta_settle cmd_delta_reversal

lemma applyReversal_InrD:
  assumes "applyReversal txId now pid u result s = (Inr q, s')"
  obtains (again) "s' = s" "findBill pid s = Some q" "bl_status q = BS_REVERSED"
  | (reversed) p a r s1 where "findBill pid s = Some p" "bl_status p = BS_SUCCESSFUL" "billAccounts (bl_walletId p) (bl_currency p) s = Inr a"
      "postWithin txId now (reversalCommand u p a) s = Inr (r, s1)" "ledger_txs s' = ledger_txs s1" "accounts s' = accounts s1"
  using assms unfolding applyReversal_def serializable_Inr_iff
  by (auto simp: bind_res_Inr_iff updateBill_Inr_iff split: option.splits if_splits)

lemma reserveBill_InrD:
  fixes s :: "'m bills_db_scheme"
  assumes "reserveBill ids now p d a s = Inr (q, s')"
  obtains r and s1 s2 :: "'m bills_db_scheme" where "ledger_txs s1 = ledger_txs s" "accounts s1 = accounts s" "bill_payments s1 = bill_payments s @ [p]"
    "postWithin (bi_tx ids) now (reserveCommand p (fa_id (ba_available a)) (fa_id (ba_reserved a))) s1 = Inr (r, s2)"
    "ledger_txs s' = ledger_txs s2" "accounts s' = accounts s2" "bill_reversals s' = bill_reversals s"
    "bill_payments s' = update_where (\<lambda>q. bl_id q = bl_id p) (\<lambda>q. q\<lparr>bl_reserveTx := Some (fst r)\<rparr>) (bill_payments s @ [p])"
proof -
  from assms obtain r s1 s2 where s1: "assessBill (bi_row ids) now (bl_id p) (bl_currency p) (bl_amount p) (bl_fee p) d
        (s\<lparr>bill_payments := bill_payments s @ [p]\<rparr>) = Inr ((), s1)"
    and post: "postWithin (bi_tx ids) now (reserveCommand p (fa_id (ba_available a)) (fa_id (ba_reserved a))) s1 = Inr (r, s2)"
    and s': "ledger_txs s' = ledger_txs s2" "accounts s' = accounts s2" "bill_reversals s' = bill_reversals s2"
      "bill_payments s' = update_where (\<lambda>q. bl_id q = bl_id p) (\<lambda>q. q\<lparr>bl_reserveTx := Some (fst r)\<rparr>) (bill_payments s2)"
    by (auto simp: reserveBill_def bind_res_Inr_iff updateBill_Inr_iff)
  from s1 have "ledger_txs s1 = ledger_txs s" "accounts s1 = accounts s" "bill_reversals s1 = bill_reversals s" "bill_payments s1 = bill_payments s @ [p]"
    by (auto simp: assessBill_def bind_res_Inr_iff)
  with that [OF _ _ _ post] s' bill_posting_frame [OF post] show ?thesis by simp
qed

lemma prepareBill_InrD:
  assumes "prepareBill provider ids now u key h v dto s = Inr (x, s')"
  obtains (replayed) p where "x = (p, True)" "s' = s" "p \<in> set (bill_payments s)"
  | (reserved) p w d a fee where "x = (p, False)" "w \<in> set (wallets s)" "billAccounts (wl_id w) (wl_currency w) s = Inr a"
      "cb_amountMinor dto + fee \<le> accountBalanceWithin s (fa_id (ba_available a))"
      "reserveBill ids now (newBill (bv_name provider) ids now u key h v (wl_id w) (cb_amountMinor dto) fee (wl_currency w)) d a s = Inr (p, s')"
proof (cases "List.find (\<lambda>p. bl_userId p = u \<and> bl_idempotencyKey p = key) (bill_payments s)")
  case (Some p)
  with assms replayed [of p] show ?thesis by (auto simp: prepareBill_def dest: find_SomeD split: if_splits)
next
  case None
  note assms = assms [unfolded prepareBill_def None option.simps]
  from assms obtain w where w: "List.find (\<lambda>w. wl_id w = cb_walletId dto \<and> wl_userId w = u \<and> wl_status w = WS_ACTIVE) (wallets s) = Some w"
    by (auto split: option.splits)
  note assms = assms [unfolded w option.simps]
  from assms obtain d where d: "activeDefinition ''BILL_PAYMENT'' now (fee_definitions s) = Some d"
    by (auto simp: bind_res_Inr_iff split: option.splits)
  note assms = assms [unfolded d option.simps]
  from assms obtain fee a p where a: "billAccounts (wl_id w) (wl_currency w) s = Inr a"
    and fee: "\<not> accountBalanceWithin s (fa_id (ba_available a)) < cb_amountMinor dto + fee"
    and p: "reserveBill ids now (newBill (bv_name provider) ids now u key h v (wl_id w) (cb_amountMinor dto) fee (wl_currency w)) d a s = Inr (p, s')"
    and x: "x = (p, False)"
    by (auto simp: bind_res_Inr_iff split: if_splits)
  from reserved [OF x _ a _ p] find_SomeD [OF w] fee show ?thesis by simp
qed

text \<open>Creating a bill refuses, or prepares it and sends what is new.\<close>

lemma createBill_cases:
  obtains (refused) e where "createBill provider hmac ids now u key dto s = (Inl e, s)"
  | (replayed) h v p where "serializable (prepareBill provider ids now u key h v dto) s = (Inr (p, True), s)"
      "createBill provider hmac ids now u key dto s = (Inr p, s)"
  | (sent) h v p s1 ref where "serializable (prepareBill provider ids now u key h v dto) s = (Inr (p, False), s1)"
      "createBill provider hmac ids now u key dto s = sendBill provider ids now u ref p s1"
proof -
  define validation where "validation = List.find (\<lambda>v. va_id v = cb_validationId dto \<and> va_userId v = u \<and> va_valid v \<and> va_expiresAt v > now) (bill_validations s)"
  define ref where "ref = normaliseReference (fst (referenceOf (case validation of None \<Rightarrow> None | Some v \<Rightarrow> findBiller (va_billerId v) s))) (cb_customerReference dto)"
  define h where "h = hmac (requestText dto (hmac ref))"
  note def = createBill_def [of provider hmac ids now u key dto s, unfolded Let_def, folded validation_def, folded ref_def, folded h_def]
  show ?thesis
  proof (cases validation)
    case None
    with def refused show ?thesis by simp
  next
    case (Some v)
    obtain x s1 where x: "serializable (prepareBill provider ids now u key h v dto) s = (x, s1)" by fastforce
    have same: "s1 = s" if "x = Inl e \<or> x = Inr (p, True)" for e p
      using x that prepareBill_InrD [of provider ids now u key h v dto s "(p, True)" s1] by (auto simp: serializable_iffs)
    show ?thesis
    proof (cases "va_digest v = hmac ref")
      case False
      with def Some refused show ?thesis by simp
    next
      case True
      then show ?thesis
        using def Some x same refused replayed [of h v] sent [of h v _ s1 ref]
        by (cases x) (auto split: prod.splits bool.splits)
    qed
  qed
qed

text \<open>
  The accounts the books are kept for: a choice among what members can spend. A posting that credits them, or leaves them alone, keeps the books.
\<close>

locale spendable_accounts =
  fixes P :: "fin_account \<Rightarrow> bool"
  assumes P_spendable: "P a \<Longrightarrow> spendable a"
begin

lemma bill_post_books:
  assumes "postWithin i now c s = Inr (r, s')" and "books_hold P s"
    and "\<And>a. posting_valid c \<Longrightarrow> a \<in> set (accounts s) \<Longrightarrow> P a \<Longrightarrow> 0 \<le> cmd_delta c (fa_id a)"
  shows "books_hold P s'"
  by (rule books_hold_post [OF assms(1,2)]) (use assms(2,3) in \<open>force simp: books_hold_def intro: add_nonneg_nonneg\<close>)

lemma release_post_books:
  assumes "postWithin i now (releaseCommand p a) s = Inr (r, s')" and "books_hold P s" and "billAccounts w c s = Inr a"
  shows "books_hold P s'"
proof (rule bill_post_books [OF assms(1,2)])
  fix x assume "posting_valid (releaseCommand p a)" and x: "x \<in> set (accounts s)" "P x"
  then have "0 < bl_total p" by (simp add: posting_valid_def releaseCommand_def two_legs_def)
  with billAccounts_spendable [OF assms(3) _ x(1) P_spendable [OF x(2)]] assms(2) show "0 \<le> cmd_delta (releaseCommand p a) (fa_id x)"
    by (simp add: cmd_delta_release books_hold_def)
qed

lemma settle_post_books:
  assumes "postWithin i now (settleCommand p a) s = Inr (r, s')" and "books_hold P s" and "billAccounts w c s = Inr a"
  shows "books_hold P s'"
proof (rule bill_post_books [OF assms(1,2)])
  fix x assume x: "x \<in> set (accounts s)" "P x"
  with billAccounts_spendable [OF assms(3) _ x(1) P_spendable [OF x(2)]] assms(2) show "0 \<le> cmd_delta (settleCommand p a) (fa_id x)"
    by (simp add: cmd_delta_settle books_hold_def)
qed

lemma reversal_post_books:
  assumes "postWithin i now (reversalCommand u p a) s = Inr (r, s')" and "books_hold P s" and "billAccounts w c s = Inr a"
  shows "books_hold P s'"
proof (rule bill_post_books [OF assms(1,2)])
  fix x assume "posting_valid (reversalCommand u p a)" and x: "x \<in> set (accounts s)" "P x"
  then have "0 < bl_total p" by (simp add: posting_valid_def reversalCommand_def)
  with billAccounts_spendable [OF assms(3) _ x(1) P_spendable [OF x(2)]] assms(2) show "0 \<le> cmd_delta (reversalCommand u p a) (fa_id x)"
    by (simp add: cmd_delta_reversal books_hold_def)
qed

lemma markUncertain_books:
  assumes "books_hold P s"
  shows "books_hold P (snd (markUncertain now pid result s))"
proof (cases rule: markUncertain_cases [of now pid result s])
  case (marked s' p)
  from books_hold_cong [OF marked(3,4), of P] assms show ?thesis by (simp add: marked(1))
qed (use assms in simp)

lemma finishBill_books:
  assumes "books_hold P s"
  shows "books_hold P (snd (finishBill txId now pid u result s))"
proof (cases "finishBill txId now pid u result s")
  case (Pair x s')
  then show ?thesis
  proof (cases rule: finishBill_cases)
    case (released p a q)
    from released(5) obtain r s1 where "postWithin txId now (releaseCommand p a) s = Inr (r, s1)" "ledger_txs s' = ledger_txs s1" "accounts s' = accounts s"
      by (rule releaseBill_InrD)
    with release_post_books [OF this(1) assms released(3)] Pair bill_posting_frame(5) show ?thesis
      by (metis books_hold_cong snd_conv)
  next
    case (settled p a q)
    from settled(5) obtain r s1 where "postWithin txId now (settleCommand p a) s = Inr (r, s1)" "ledger_txs s' = ledger_txs s1" "accounts s' = accounts s"
      by (rule settleBill_InrD)
    with settle_post_books [OF this(1) assms settled(3)] Pair bill_posting_frame(5) show ?thesis
      by (metis books_hold_cong snd_conv)
  qed (use assms Pair in simp)
qed

lemma applyReversal_books:
  assumes "books_hold P s"
  shows "books_hold P (snd (applyReversal txId now pid u result s))"
proof (rule handler_keeps [of "books_hold P", OF assms])
  show "applyReversal txId now pid u result s = (Inl e, s') \<Longrightarrow> s' = s" for e s'
    by (simp only: applyReversal_def serializable_Inl_iff)
  fix q s' assume "applyReversal txId now pid u result s = (Inr q, s')"
  then show "books_hold P s'"
  proof (cases rule: applyReversal_InrD)
    case (reversed p a r s1)
    with reversal_post_books [OF reversed(4) assms reversed(3)] show ?thesis by (metis books_hold_cong)
  qed (use assms in simp)
qed

lemma applyProviderResult_books:
  assumes "books_hold P s"
  shows "books_hold P (snd (applyProviderResult txId now pid u result s))"
  using applyReversal_books [OF assms] finishBill_books [OF assms] markUncertain_books [OF assms, of now pid "Some result"]
  by (auto simp: applyProviderResult_def split: prod.splits sum.splits)


lemma prepareBill_books:
  fixes s :: "'m bills_db_scheme"
  assumes "prepareBill provider ids now u key h v dto s = Inr (x, s')" and "books_hold P s"
  shows "books_hold P s'"
  using assms(1)
proof (cases rule: prepareBill_InrD)
  case (reserved p w d a fee)
  let ?p = "newBill (bv_name provider) ids now u key h v (wl_id w) (cb_amountMinor dto) fee (wl_currency w)"
  from reserved(5) obtain r and s1 s2 :: "'m bills_db_scheme" where s1: "ledger_txs s1 = ledger_txs s" "accounts s1 = accounts s" "bill_payments s1 = bill_payments s @ [?p]"
    and post: "postWithin (bi_tx ids) now (reserveCommand ?p (fa_id (ba_available a)) (fa_id (ba_reserved a))) s1 = Inr (r, s2)"
    and s': "ledger_txs s' = ledger_txs s2" "accounts s' = accounts s2" by (rule reserveBill_InrD)
  have bal: "accountBalanceWithin s1 x = accountBalanceWithin s x" for x using s1(1) by (simp add: accountBalanceWithin_def)
  have "books_hold P s2"
  proof (rule books_hold_post [OF post])
    show "books_hold P s1" using assms(2) books_hold_cong [OF s1(1,2)] by simp
    fix x assume x: "x \<in> set (accounts s1)" "P x" "is_wallet_account x"
    then have "0 \<le> accountBalanceWithin s (fa_id x)" using assms(2) s1(2) by (simp add: books_hold_def)
    moreover have "bl_total ?p = cb_amountMinor dto + fee" by (simp add: newBill_def)
    ultimately show "0 \<le> accountBalanceWithin s1 (fa_id x) + cmd_delta (reserveCommand ?p (fa_id (ba_available a)) (fa_id (ba_reserved a))) (fa_id x)"
      using billAccounts_spendable(1) [OF reserved(3) _ _ P_spendable [OF x(2)]] x(1) s1(2) assms(2) reserved(4)
      by (auto simp: cmd_delta_reserve bal books_hold_def)
  qed
  with books_hold_cong [OF s'] show ?thesis by simp
qed (use assms(2) in simp)

lemma sendBill_books:
  assumes "books_hold P s"
  shows "books_hold P (snd (sendBill provider ids now u ref p s))"
  using applyProviderResult_books [OF assms] markUncertain_books [OF assms, of now "bl_id p" None]
  by (auto simp: sendBill_def split: sum.splits prod.splits)

lemma createBill_books:
  assumes "books_hold P s"
  shows "books_hold P (snd (createBill provider hmac ids now u key dto s))"
proof (cases rule: createBill_cases [of provider hmac ids now u key dto s])
  case (sent h v p s1 ref)
  then have "books_hold P s1" by (auto simp: serializable_Inr_iff intro: prepareBill_books [OF _ assms])
  with sent sendBill_books show ?thesis by simp
qed (use assms in simp_all)

lemma reconcile_books:
  assumes "books_hold P s"
  shows "books_hold P (snd (reconcile provider txId now u pid s))"
  using assms applyProviderResult_books [OF assms] by (auto simp: reconcile_def split: option.splits sum.splits)

lemma completeIntentPayment_books:
  assumes "books_hold P s"
  shows "books_hold P (snd (completeIntentPayment provider txId now u iid ref s))"
proof -
  have a: "books_hold P s1" if "applyProviderResult txId now pid u result s = (r, s1)" for pid result r s1
    using applyProviderResult_books [OF assms, of txId now pid u result] that by simp
  have m: "books_hold P s1" if "markUncertain now pid result s = (r, s1)" for pid result r s1
    using markUncertain_books [OF assms, of now pid result] that by simp
  show ?thesis using assms unfolding completeIntentPayment_def
    by (auto split: option.splits sum.splits prod.splits dest: a m)
qed

end

sublocale spendable_accounts \<subseteq> bill_payment: safe_target "BillPaymentTarget provider hmac txId later" P for provider hmac txId later
proof unfold_locales
  let ?T = "BillPaymentTarget provider hmac txId later :: 'm bills_db_scheme payment_target"
  show "ledger_txs s' = ledger_txs s \<and> accounts s' = accounts s \<and> wallets s' = wallets s \<and> intents s' = intents s"
    if "pt_settle ?T ids now p s = Inr (u, s')" for ids now p s u s'
    using that by (auto simp: BillPaymentTarget_def recordIntentPayment_def assessBill_def bind_res_Inr_iff Let_def split: option.splits)
  show "ledger_txs s' = ledger_txs s \<and> wallets s' = wallets s \<and> intents s' = intents s \<and> (accounts_wf s \<longrightarrow> accounts_wf s')
      \<and> filter is_wallet_account (accounts s') = filter is_wallet_account (accounts s)"
    if "pt_creditAccount ?T ids tid c s = Inr (a, s')" for ids tid c s a s'
    using that by (auto simp: BillPaymentTarget_def bind_res_Inr_iff)
  show "books_hold P (snd (f p d s))" if "pt_afterCommit ?T = Some f" "books_hold P s" for f p d s
    using that by (auto simp: BillPaymentTarget_def completeIntentPayment_books)
qed

section \<open>Histories\<close>

text \<open>
  Reversing needs a successful bill that is waiting for reconciliation, and settling ends the wait: no bill is both.
\<close>

definition unreversed :: "bill_payment \<Rightarrow> bool" where
  "unreversed p \<longleftrightarrow> bl_status p \<noteq> BS_REVERSED \<and> (bl_status p = BS_SUCCESSFUL \<longrightarrow> bl_reconciliation p = RC_NOT_REQUIRED)"

definition none_reversed :: "'m bills_db_scheme \<Rightarrow> bool" where
  "none_reversed s \<longleftrightarrow> distinct (map bl_id (bill_payments s)) \<and> list_all unreversed (bill_payments s) \<and> bill_reversals s = []"

lemma unreversed_steps [simp]:
  "unreversed (uncertain result p)" "unreversed (billFailed b tx p)" "unreversed (billSucceeded now b tx p)"
  "unreversed (newBill pr ids now u key h v w amount fee c)" "unreversed (p\<lparr>bl_reserveTx := reserve\<rparr>) = unreversed p"
  "unreversed (p\<lparr>bl_paymentIntentId := i\<rparr>) = unreversed p"
  by (simp_all add: unreversed_def uncertain_def billFailed_def billSucceeded_def newBill_def)

lemma bill_steps_id [simp]:
  "bl_id (uncertain result p) = bl_id p" "bl_id (billFailed b tx p) = bl_id p" "bl_id (billSucceeded now b tx p) = bl_id p"
  by (simp_all add: uncertain_def billFailed_def billSucceeded_def)

lemma none_reversed_cong:
  "bill_payments s' = bill_payments s \<Longrightarrow> bill_reversals s' = bill_reversals s \<Longrightarrow> none_reversed s' = none_reversed s"
  by (simp add: none_reversed_def)

lemma none_reversed_append:
  assumes "none_reversed s" and "insertRow bill_clash p (bill_payments s) = Inr rows" and "unreversed p"
  shows "none_reversed (s\<lparr>bill_payments := rows\<rparr>)"
  using assms by (auto simp: none_reversed_def bill_clash_def)

lemma none_reversed_update:
  assumes "none_reversed s" and "bill_payments s' = update_where P f (bill_payments s)" and "bill_reversals s' = bill_reversals s"
    and "\<And>p. unreversed p \<Longrightarrow> unreversed (f p)" and "\<And>p. bl_id (f p) = bl_id p"
  shows "none_reversed s'"
  using assms by (auto simp: none_reversed_def list_all_iff set_update_where map_update_where)

lemma markUncertain_unreversed:
  assumes "none_reversed s"
  shows "none_reversed (snd (markUncertain now pid result s))"
proof (cases rule: markUncertain_cases [of now pid result s])
  case (marked s' p)
  have "none_reversed s'" by (rule none_reversed_update [OF assms marked(5,6)]) simp_all
  with marked(1) show ?thesis by simp
qed (use assms in simp)

lemma finishBill_unreversed:
  assumes "none_reversed s"
  shows "none_reversed (snd (finishBill txId now pid u result s))"
proof (cases "finishBill txId now pid u result s")
  case (Pair x s')
  then show ?thesis
  proof (cases rule: finishBill_cases)
    case (released p a q)
    from released(5) obtain r :: "string \<times> string" where "bill_payments s' = update_where (\<lambda>q. bl_id q = bl_id p) (billFailed result (fst r)) (bill_payments s)"
      "bill_reversals s' = bill_reversals s" by (rule releaseBill_InrD) blast
    from none_reversed_update [OF assms this] Pair show ?thesis by simp
  next
    case (settled p a q)
    from settled(5) obtain r :: "string \<times> string" where "bill_payments s' = update_where (\<lambda>q. bl_id q = bl_id p) (billSucceeded now result (fst r)) (bill_payments s)"
      "bill_reversals s' = bill_reversals s" by (rule settleBill_InrD) blast
    from none_reversed_update [OF assms this] Pair show ?thesis by simp
  qed (use assms Pair in simp)
qed

text \<open>Unless the bill is successful, a reversal is refused.\<close>

lemma applyReversal_refused:
  assumes "none_reversed s" and "\<And>p. findBill pid s = Some p \<Longrightarrow> bl_status p \<noteq> BS_SUCCESSFUL"
  shows "snd (applyReversal txId now pid u result s) = s"
proof (cases "findBill pid s")
  case (Some p)
  with assms(1) have "bl_status p \<noteq> BS_REVERSED" by (auto simp: none_reversed_def list_all_iff unreversed_def dest!: findBill_id)
  with assms(2) [OF Some] Some show ?thesis by (simp add: applyReversal_def serializable_def)
qed (simp add: applyReversal_def serializable_def)

lemma applyProviderResult_unreversed:
  assumes "none_reversed s" and "\<And>p. findBill pid s = Some p \<Longrightarrow> bl_status p \<noteq> BS_SUCCESSFUL"
  shows "none_reversed (snd (applyProviderResult txId now pid u result s))"
  using assms(1) applyReversal_refused [OF assms] finishBill_unreversed [OF assms(1), of txId now pid u result]
    markUncertain_unreversed [OF assms(1), of now pid "Some result"]
  by (auto simp: applyProviderResult_def split: prod.splits sum.splits)

lemma findBill_append_new:
  assumes "insertRow bill_clash p rows = Inr rows'" and "rows' = rows @ [p]"
  shows "List.find (\<lambda>q. bl_id q = bl_id p) rows' = Some p"
proof -
  from assms have "List.find (\<lambda>q. bl_id q = bl_id p) rows = None" by (auto simp: find_None_iff bill_clash_def)
  with assms(2) show ?thesis by (simp add: find_append_None)
qed

lemma reserveBill_new:
  assumes "reserveBill ids now p d a s = Inr (q, s')" and "bl_status p = BS_PENDING" and "unreversed p" and "none_reversed s"
  shows "bl_id q = bl_id p \<and> none_reversed s' \<and> (\<exists>b. findBill (bl_id q) s' = Some b \<and> bl_status b = BS_PENDING)"
proof -
  from assms(1) obtain r :: "string \<times> string" where rows: "bill_payments s' = update_where (\<lambda>q. bl_id q = bl_id p) (\<lambda>q. q\<lparr>bl_reserveTx := Some (fst r)\<rparr>) (bill_payments s @ [p])"
    and rev: "bill_reversals s' = bill_reversals s" by (rule reserveBill_InrD) blast
  from assms(1) have ins: "insertRow bill_clash p (bill_payments s) = Inr (bill_payments s @ [p])" and q: "bl_id q = bl_id p"
    by (auto simp: reserveBill_def bind_res_Inr_iff updateBill_Inr_iff dest!: findBill_id)
  have "none_reversed s'"
    by (rule none_reversed_update [where f = "\<lambda>q. q\<lparr>bl_reserveTx := Some (fst r)\<rparr>", OF none_reversed_append [OF assms(4) ins assms(3)]])
      (simp_all add: rows rev del: update_where_append)
  moreover have "findBill (bl_id q) s' = Some (p\<lparr>bl_reserveTx := Some (fst r)\<rparr>)"
    using findBill_append_new [OF ins refl] by (simp add: findBill_def rows q find_update_where del: update_where_append)
  ultimately show ?thesis using assms(2) q by simp
qed

lemma createBill_unreversed:
  assumes "none_reversed s"
  shows "none_reversed (snd (createBill provider hmac ids now u key dto s))"
proof (cases rule: createBill_cases [of provider hmac ids now u key dto s])
  case (sent h v p s1 ref)
  from sent(1) have "prepareBill provider ids now u key h v dto s = Inr ((p, False), s1)" by (simp add: serializable_Inr_iff)
  then obtain w d a fee where "reserveBill ids now (newBill (bv_name provider) ids now u key h v (wl_id w) (cb_amountMinor dto) fee (wl_currency w)) d a s
      = Inr (p, s1)" "w \<in> set (wallets s)" by (cases rule: prepareBill_InrD) auto
  then obtain b where s1: "none_reversed s1" "findBill (bl_id p) s1 = Some b" "bl_status b = BS_PENDING"
    using reserveBill_new [OF _ _ _ assms] by (fastforce simp: newBill_def unreversed_def)
  have "none_reversed (snd (applyProviderResult tx now (bl_id p) u result s1))" for tx result
    by (rule applyProviderResult_unreversed [OF s1(1)]) (use s1(2,3) in simp)
  with markUncertain_unreversed [OF s1(1), of now "bl_id p" None] sent(2) show ?thesis
    by (auto simp: sendBill_def split: sum.splits prod.splits)
qed (use assms in simp_all)

lemma reconcile_unreversed:
  assumes "none_reversed s"
  shows "none_reversed (snd (reconcile provider txId now u pid s))"
proof (cases "findBill pid s")
  case (Some p)
  show ?thesis
  proof (cases "bl_reconciliation p = RC_PENDING")
    case True
    with Some assms have "bl_status p \<noteq> BS_SUCCESSFUL" by (auto simp: none_reversed_def list_all_iff unreversed_def dest!: findBill_id)
    with Some findBill_id [OF Some] applyProviderResult_unreversed [OF assms, of pid] assms True show ?thesis
      by (auto simp: reconcile_def split: sum.splits)
  qed (use Some assms in \<open>simp add: reconcile_def\<close>)
qed (use assms in \<open>simp add: reconcile_def\<close>)


lemma completeIntentPayment_unreversed:
  assumes "none_reversed s"
  shows "none_reversed (snd (completeIntentPayment provider txId now u iid ref s))"
proof (cases "List.find (\<lambda>p. bl_userId p = u \<and> bl_idempotencyKey p = intentPaymentKey iid) (bill_payments s)")
  case (Some p)
  show ?thesis
  proof (cases "bl_status p = BS_PENDING")
    case True
    from Some assms have "findBill (bl_id p) s = Some p"
      unfolding findBill_def none_reversed_def by (metis find_SomeD find_key_unique)
    with True have pend: "bl_status q \<noteq> BS_SUCCESSFUL" if "findBill (bl_id p) s = Some q" for q using that by simp
    have a: "none_reversed s1" if "applyProviderResult txId now (bl_id p) u result s = (r, s1)" for result r s1
    proof -
      have "none_reversed (snd (applyProviderResult txId now (bl_id p) u result s))"
        by (rule applyProviderResult_unreversed [OF assms pend])
      with that show ?thesis by simp
    qed
    have m: "none_reversed s1" if "markUncertain now (bl_id p) None s = (r, s1)" for r s1
      using markUncertain_unreversed [OF assms, of now "bl_id p" None] that by simp
    show ?thesis using assms Some True unfolding completeIntentPayment_def
      by (auto split: option.splits sum.splits prod.splits dest: a m)
  qed (use assms Some in \<open>simp add: completeIntentPayment_def\<close>)
qed (use assms in \<open>simp add: completeIntentPayment_def\<close>)

lemma recordIntentPayment_unreversed:
  assumes "recordIntentPayment provider hmac ids now pay s = Inr (x, s')" and "none_reversed s"
  shows "none_reversed s'"
proof -
  from assms(1) obtain v w rows where ins: "insertRow bill_clash ((newBill (bv_name provider) \<lparr>bi_row = py_row ids, bi_uuid = py_hex ids, bi_tx = [], bi_tx2 = []\<rparr> now
        (sp_userId pay) (intentPaymentKey (sp_intentId pay)) (hmac (sp_intentId pay)) v (wl_id w) (sp_amount pay) (sp_fee pay) (sp_currency pay))
        \<lparr>bl_reserveTx := Some (sp_ledgerTransactionId pay), bl_paymentIntentId := Some (sp_intentId pay)\<rparr>) (bill_payments s) = Inr rows"
    and s': "bill_payments s' = rows" "bill_reversals s' = bill_reversals s" and w: "w \<in> set (wallets s)"
    by (auto simp: recordIntentPayment_def assessBill_def bind_res_Inr_iff Let_def dest: find_SomeD split: option.splits)
  from none_reversed_append [OF assms(2) ins] s' show ?thesis by (simp add: none_reversed_def)
qed

lemma settleWithin_unreversed:
  assumes "settleWithin ids now u iid key (BillPaymentTarget provider hmac txId later) s = Inr ((j, q), s')" and "none_reversed s"
  shows "none_reversed s'"
  using assms(1)
proof (cases rule: settleWithin_Inr_cases)
  case (paid i w target av fr dst s1)
  from paid(7) have s1: "s1 = s" by (auto simp: BillPaymentTarget_def bind_res_Inr_iff)
  from paid(9) obtain c r s2 s3 where post: "postWithin (py_tx ids) now c s = Inr (r, s2)"
    and set: "recordIntentPayment provider hmac ids now (settledPayment u i (fst r)) s2 = Inr ((), s3)"
    and upd: "updateIntent (pi_id i) (markPaid True (fst r) now) s3 = Inr (j, s')"
    unfolding s1 by (rule postAndSettle_InrD) (simp add: BillPaymentTarget_def)
  have "none_reversed s2" using none_reversed_cong bill_posting_frame [OF post] assms(2) by blast
  then have "none_reversed s3" by (rule recordIntentPayment_unreversed [OF set])
  moreover from updateIntent_InrD [OF upd] have "bill_payments s' = bill_payments s3" "bill_reversals s' = bill_reversals s3" by auto
  ultimately show ?thesis using none_reversed_cong by blast
qed (use assms(2) in simp)

datatype bill_request =
    BillCategories bill_provider "string list \<Rightarrow> string" int
  | BillBillers bill_provider "string list \<Rightarrow> string" int string
  | ValidateCustomer bill_provider string int string validate_dto
  | CreateBill bill_provider bill_ids int string string create_bill_dto
  | PayIntent bill_provider string int pay_ids int string string string "string option"
  | Reconcile bill_provider string int string string

text \<open>The provider answers anew at every request.\<close>

fun serveBill :: "(string \<Rightarrow> string) \<Rightarrow> bill_request \<Rightarrow> 'm bills_db_scheme \<Rightarrow> 'm bills_db_scheme" where
  "serveBill hmac (BillCategories provider newId now) s = snd (billCategories newId provider now s)"
| "serveBill hmac (BillBillers provider newId now categoryId) s = snd (billBillers newId provider now categoryId s)"
| "serveBill hmac (ValidateCustomer provider vid now u dto) s = snd (validateCustomer provider hmac vid now u dto s)"
| "serveBill hmac (CreateBill provider ids now u key dto) s = snd (createBill provider hmac ids now u key dto s)"
| "serveBill hmac (PayIntent provider txId later ids now u intentId key details) s =
     snd (settleFromWallet (\<lambda>_. BillPaymentTarget provider hmac txId later) ids now u intentId key (BillPaymentTarget provider hmac txId later) details s)"
| "serveBill hmac (Reconcile provider txId now u pid) s = snd (reconcile provider txId now u pid s)"

text \<open>The catalogue and the checks of a customer touch neither money nor bills.\<close>

definition same_bills :: "'m bills_db_scheme \<Rightarrow> 'm bills_db_scheme \<Rightarrow> bool" where
  "same_bills s s' \<longleftrightarrow> ledger_txs s' = ledger_txs s \<and> accounts s' = accounts s \<and> bill_payments s' = bill_payments s \<and> bill_reversals s' = bill_reversals s"

lemma same_bills_fold: "(\<And>x s. same_bills s (f x s)) \<Longrightarrow> same_bills s (fold f xs s)"
  by (induction xs arbitrary: s) (simp_all add: same_bills_def)

lemma syncBiller_same: "same_bills s (syncBiller newId ex cid b s)"
  by (simp add: syncBiller_def same_bills_def Let_def)

lemma syncCategories_same: "same_bills s (snd (syncCategories newId provider ex cs s))"
proof (induction newId provider ex cs s rule: syncCategories.induct)
  case (2 newId provider ex position c cs s)
  show ?case
  proof (cases "bv_listBillers provider (fst c)")
    case (Inr billers)
    have f: "same_bills s1 (fold (syncBiller newId ex cid) billers s1)" for s1 :: "'a bills_db_scheme" and cid
      by (rule same_bills_fold) (rule syncBiller_same)
    have "same_bills s (snd (syncCategories newId provider ex ((position, c) # cs) s))"
      using 2 [OF refl refl Inr refl] f [of "s\<lparr>bill_categories := _\<rparr>"] by (simp add: Let_def Inr same_bills_def)
    then show ?thesis by simp
  qed (simp add: Let_def same_bills_def)
qed (simp add: same_bills_def)

lemma refreshCatalog_same: "same_bills s (snd (refreshCatalogIfNeeded newId provider now s))"
  using syncCategories_same [of s newId provider "now + CATALOG_TTL_MS"]
  by (auto simp: refreshCatalogIfNeeded_def syncBillCatalog_def same_bills_def split: sum.splits prod.splits) (metis snd_conv)+

lemma catalogue_same:
  "same_bills s (snd (billCategories newId provider now s))" "same_bills s (snd (billBillers newId provider now cid s))"
  using refreshCatalog_same [of s newId provider now]
  by (auto simp: billCategories_def billBillers_def split: sum.splits prod.splits)

lemma validateCustomer_same: "same_bills s (snd (validateCustomer provider hmac vid now u dto s))"
  by (auto simp: validateCustomer_def same_bills_def Let_def split: option.splits sum.splits prod.splits)

lemma same_bills_keeps:
  assumes "same_bills s s'"
  shows "books_hold P s \<Longrightarrow> books_hold P s'" "none_reversed s \<Longrightarrow> none_reversed s'"
  using assms books_hold_cong [of s' s P] none_reversed_cong [of s' s] by (simp_all add: same_bills_def)

lemma settleFromWallet_unreversed:
  assumes "none_reversed s"
  shows "none_reversed (snd (settleFromWallet targets ids now u iid key (BillPaymentTarget provider hmac txId later) details s))"
proof (cases "settleFromWallet targets ids now u iid key (BillPaymentTarget provider hmac txId later) details s")
  case (Pair r s')
  then show ?thesis
  proof (cases rule: settleFromWallet_state)
    case (settled j q s1 s2)
    have "none_reversed s2" using settleWithin_unreversed [OF settled(1) assms] settled(2) by (simp add: none_reversed_def audit_def)
    with settled(4) completeIntentPayment_unreversed [of s2] Pair show ?thesis by (auto simp: BillPaymentTarget_def)
  qed (use assms Pair in simp)
qed

context spendable_accounts
begin

lemma serveBill_books: "books_hold P s \<Longrightarrow> books_hold P (serveBill hmac q s)"
  by (cases q) (simp_all add: createBill_books reconcile_books bill_payment.settleFromWallet_books
      same_bills_keeps(1) [OF catalogue_same(1)] same_bills_keeps(1) [OF catalogue_same(2)] same_bills_keeps(1) [OF validateCustomer_same])

end

interpretation members: spendable_accounts spendable
  by unfold_locales

lemma serveBill_unreversed: "none_reversed s \<Longrightarrow> none_reversed (serveBill hmac q s)"
  by (cases q) (simp_all add: createBill_unreversed reconcile_unreversed settleFromWallet_unreversed
      same_bills_keeps(2) [OF catalogue_same(1)] same_bills_keeps(2) [OF catalogue_same(2)] same_bills_keeps(2) [OF validateCustomer_same])

interpretation bill_history: request_safety "serveBill hmac" "\<lambda>s. books_hold spendable s \<and> none_reversed s" for hmac
  by unfold_locales (simp add: members.serveBill_books serveBill_unreversed)


section \<open>The policy as a specification\<close>

text \<open>
  What the policy's action means for the status of a held bill and for the balance of an account: paying out moves the total
  from the reserve to the provider and the platform, releasing moves it back, holding moves nothing.
\<close>

fun specStatus :: "reserve_action \<Rightarrow> bill_status" where
  "specStatus SETTLE = BS_SUCCESSFUL"
| "specStatus RELEASE = BS_FAILED"
| "specStatus HOLD_FOR_RECONCILIATION = BS_RECONCILIATION_REQUIRED"

fun specMoves :: "reserve_action \<Rightarrow> bill_payment \<Rightarrow> bill_accounts \<Rightarrow> string \<Rightarrow> int" where
  "specMoves SETTLE p a x = (if x = fa_id (ba_reserved a) then - bl_total p else if x = fa_id (ba_providerPayable a) then bl_amount p
     else if x = fa_id (ba_feeRevenue a) then max 0 (bl_fee p) else 0)"
| "specMoves RELEASE p a x = (if x = fa_id (ba_reserved a) then - bl_total p else if x = fa_id (ba_available a) then bl_total p else 0)"
| "specMoves HOLD_FOR_RECONCILIATION p a x = 0"

lemma specMoves_settle:
  "distinct [fa_id (ba_available a), fa_id (ba_reserved a), fa_id (ba_providerPayable a), fa_id (ba_feeRevenue a)] \<Longrightarrow>
     cmd_delta (settleCommand p a) x = specMoves SETTLE p a x"
  by (auto simp: cmd_delta_settle)

lemma specMoves_release:
  "distinct [fa_id (ba_available a), fa_id (ba_reserved a), fa_id (ba_providerPayable a), fa_id (ba_feeRevenue a)] \<Longrightarrow>
     cmd_delta (releaseCommand p a) x = specMoves RELEASE p a x"
  by (auto simp: cmd_delta_release)

lemma balance_same_ledger: "ledger_txs s' = ledger_txs s \<Longrightarrow> accountBalanceWithin s' x = accountBalanceWithin s x"
  by (simp add: accountBalanceWithin_def)

lemma used_keys_post:
  assumes "postWithin i now c s = Inr (r, s')"
  shows "used_keys s' = insert (pc_idempotencyKey c) (used_keys s)"
  using assms
proof (cases rule: postWithin_Inr_cases)
  case (old t)
  then show ?thesis using findByKey_None_iff [of "pc_idempotencyKey c" s] by auto
next
  case new
  from used_keys_create [OF new(3)] show ?thesis by (simp add: postedTx_def)
qed

lemma finishBill_released:
  assumes "findBill pid s = Some p" and "isHeld (bl_status p)" and "billAccounts (bl_walletId p) (bl_currency p) s = Inr a" and "accounts_wf s"
    and "pb_state result = PV_FAILED" and "''bill-release:'' @ pid \<notin> used_keys s" and "finishBill txId now pid u result s = (Inr q, s')"
  shows "findBill pid s' = Some q" "\<exists>tx. q = billFailed result tx p" "attempted pid s'" "accounts s' = accounts s"
    "accountBalanceWithin s' x = accountBalanceWithin s x + specMoves RELEASE p a x"
    "used_keys s' = insert (''bill-release:'' @ pid) (used_keys s)"
proof -
  from assms(1,2,3,5,7) have rel: "releaseBill txId now u p a result s = Inr ((), s')" and f: "findBill pid s' = Some q"
    by (auto simp: finishBill_def serializable_Inr_iff bind_res_Inr_iff split: option.splits)
  from rel obtain r s1 where post: "postWithin txId now (releaseCommand p a) s = Inr (r, s1)" and led: "ledger_txs s' = ledger_txs s1" "accounts s' = accounts s"
    and rows: "bill_payments s' = update_where (\<lambda>q. bl_id q = bl_id p) (billFailed result (fst r)) (bill_payments s)"
    and att: "attempted (bl_id p) s'" by (rule releaseBill_InrD) blast
  have pid: "bl_id p = pid" using findBill_id [OF assms(1)] by simp
  have key: "pc_idempotencyKey (releaseCommand p a) = ''bill-release:'' @ pid" by (simp add: releaseCommand_def pid)
  from findBill_update [OF assms(1) _ rows [unfolded pid]] f show "\<exists>tx. q = billFailed result tx p" by auto
  show "findBill pid s' = Some q" "attempted pid s'" "accounts s' = accounts s" using f att led pid by simp_all
  show "accountBalanceWithin s' x = accountBalanceWithin s x + specMoves RELEASE p a x"
    using balance_post [OF post, of x] assms(6) key balance_same_ledger [OF led(1)] specMoves_release [OF billAccounts_ids [OF assms(3,4)], of p x] by simp
  show "used_keys s' = insert (''bill-release:'' @ pid) (used_keys s)"
    using used_keys_post [OF post] key used_keys_cong [OF led(1)] by simp
qed

lemma finishBill_settled:
  assumes "findBill pid s = Some p" and "isHeld (bl_status p)" and "billAccounts (bl_walletId p) (bl_currency p) s = Inr a" and "accounts_wf s"
    and "pb_state result \<noteq> PV_FAILED" and "''bill-settle:'' @ pid \<notin> used_keys s" and "finishBill txId now pid u result s = (Inr q, s')"
  shows "findBill pid s' = Some q" "\<exists>tx. q = billSucceeded now result tx p"
    "accountBalanceWithin s' x = accountBalanceWithin s x + specMoves SETTLE p a x"
proof -
  from assms(1,2,3,5,7) have rel: "settleBill txId now u p a result s = Inr ((), s')" and f: "findBill pid s' = Some q"
    by (auto simp: finishBill_def serializable_Inr_iff bind_res_Inr_iff split: option.splits)
  from rel obtain r s1 where post: "postWithin txId now (settleCommand p a) s = Inr (r, s1)" and led: "ledger_txs s' = ledger_txs s1"
    and rows: "bill_payments s' = update_where (\<lambda>q. bl_id q = bl_id p) (billSucceeded now result (fst r)) (bill_payments s)" by (rule settleBill_InrD) blast
  have pid: "bl_id p = pid" using findBill_id [OF assms(1)] by simp
  have key: "pc_idempotencyKey (settleCommand p a) = ''bill-settle:'' @ pid" by (simp add: settleCommand_def pid)
  from findBill_update [OF assms(1) _ rows [unfolded pid]] f show "\<exists>tx. q = billSucceeded now result tx p" by auto
  show "findBill pid s' = Some q" by (rule f)
  show "accountBalanceWithin s' x = accountBalanceWithin s x + specMoves SETTLE p a x"
    using balance_post [OF post, of x] assms(6) key balance_same_ledger [OF led] specMoves_settle [OF billAccounts_ids [OF assms(3,4)], of p x] by simp
qed


lemma billAccounts_cong: "accounts s' = accounts s \<Longrightarrow> billAccounts w c s' = billAccounts w c s"
  by (simp add: billAccounts_def requireAccount_def findAccount_def)

lemma reconcile_queried:
  assumes "findBill pid s = Some p" and "bl_reconciliation p = RC_PENDING" and "bv_queryPayment provider = (\<lambda>_. Inr result)"
  shows "reconcile provider txId now u pid s = applyProviderResult txId now pid u result s"
  using assms findBill_id [OF assms(1)] by (simp add: reconcile_def)

lemma applyProviderResult_uncertain:
  assumes "findBill pid s = Some p" and "attempted pid s" and "pb_state result = PV_UNKNOWN"
    and "applyProviderResult txId now pid u result s = (x, s')"
  shows "findBill pid s' = Some (uncertain (Some result) p)" "ledger_txs s' = ledger_txs s" "accounts s' = accounts s"
proof -
  have "findBill pid s' = Some (uncertain (Some result) p) \<and> ledger_txs s' = ledger_txs s \<and> accounts s' = accounts s"
  proof (cases rule: markUncertain_cases [of now pid "Some result" s])
    case (marked s1 q)
    with assms(3,4) have "s1 = s'" by (simp add: applyProviderResult_def)
    with marked findBill_update [OF assms(1) _ marked(5)] show ?thesis by simp
  qed (use assms(1,2) in simp)
  then show "findBill pid s' = Some (uncertain (Some result) p)" "ledger_txs s' = ledger_txs s" "accounts s' = accounts s" by simp_all
qed

section \<open>Properties\<close>

definition demo_bill :: bill_payment where
  "demo_bill = (newBill ''MOCK'' \<lparr>bi_row = ''b1'', bi_uuid = ''u1'', bi_tx = [], bi_tx2 = []\<rparr> 5 ''ada'' ''k'' ''h''
     \<lparr>va_id = ''v1'', va_userId = ''ada'', va_billerId = ''mtn'', va_productId = None, va_provider = ''MOCK'', va_providerReference = None,
      va_digest = ''d'', va_masked = ''m'', va_customerName = None, va_resultCode = ''OK'', va_valid = True, va_expiresAt = 9\<rparr> ''w1'' 200 10 ''NGN'')
     \<lparr>bl_status := BS_RECONCILIATION_REQUIRED, bl_reconciliation := RC_PENDING\<rparr>"

definition demo_bill_db :: bills_db where
  "demo_bill_db = food_db.extend demo_food_db (bills_db.fields [] [] [] [] [demo_bill] [newAttempt ''b1'' ''h''] [] [])"

definition demo_result :: "provider_state \<Rightarrow> provider_bill" where
  "demo_result st = \<lparr>pb_providerReference = None, pb_state = st, pb_providerStatus = ''x'', pb_failureCode = None\<rparr>"

definition demo_provider :: "provider_state \<Rightarrow> bill_provider" where
  "demo_provider st = \<lparr>bv_name = ''MOCK'', bv_catalogRevision = None, bv_listCategories = Inr [], bv_listBillers = (\<lambda>_. Inr []),
     bv_validateCustomer = (\<lambda>_ _ _. Inl (PlainError [])), bv_createPayment = (\<lambda>_. Inr (demo_result st)), bv_queryPayment = (\<lambda>_. Inr (demo_result st))\<rparr>"



definition demo_released where
  "demo_released = reconcile (demo_provider PV_FAILED) ''t1'' 10 ''ada'' ''b1'' demo_bill_db"

lemma demo_bill_facts:
  "findBill ''b1'' demo_bill_db = Some demo_bill" "isHeld (bl_status demo_bill)" "bl_reconciliation demo_bill = RC_PENDING" "accounts_wf demo_bill_db"
  "''bill-settle:'' @ ''b1'' \<notin> used_keys demo_bill_db" "''bill-release:'' @ ''b1'' \<notin> used_keys demo_bill_db"
  "billAccounts (bl_walletId demo_bill) (bl_currency demo_bill) demo_bill_db = Inr \<lparr>ba_available = demo_account ''wa'' WALLET_AVAILABLE (Some ''w1''),
     ba_reserved = demo_account ''wr'' WALLET_RESERVED (Some ''w1''), ba_providerPayable = demo_account ''prov'' PROVIDER_PAYABLE None,
     ba_feeRevenue = demo_account ''fee'' PLATFORM_FEE_REVENUE None\<rparr>"
  by code_simp+



text \<open>
  C33. A bill whose reserve was released can be charged again. A failed bill keeps waiting for reconciliation; when the provider is asked again and
  does not know, the bill is held once more although its reserve is gone, and when the provider then reports success the total leaves the
  reserved account a second time while the payer keeps what was returned.
\<close>

theorem released_bill_charged_again:
  assumes "findBill pid s = Some p" and "isHeld (bl_status p)" and "bl_reconciliation p = RC_PENDING"
    and "billAccounts (bl_walletId p) (bl_currency p) s = Inr a" and "accounts_wf s"
    and "''bill-settle:'' @ pid \<notin> used_keys s" and "''bill-release:'' @ pid \<notin> used_keys s"
    and "bv_queryPayment v1 = (\<lambda>_. Inr r1)" and "pb_state r1 = PV_FAILED" and "reconcile v1 t1 n1 u pid s = (Inr q1, s1)"
    and "bv_queryPayment v2 = (\<lambda>_. Inr r2)" and "pb_state r2 = PV_UNKNOWN" and "reconcile v2 t2 n2 u pid s1 = (x2, s2)"
    and "bv_queryPayment v3 = (\<lambda>_. Inr r3)" and "pb_state r3 = PV_SUCCESSFUL" and "reconcile v3 t3 n3 u pid s2 = (Inr q3, s3)"
  shows "bl_status q1 = BS_FAILED \<and> bl_status q3 = BS_SUCCESSFUL
    \<and> accountBalanceWithin s3 (fa_id (ba_reserved a)) = accountBalanceWithin s (fa_id (ba_reserved a)) - 2 * bl_total p
    \<and> accountBalanceWithin s3 (fa_id (ba_available a)) = accountBalanceWithin s (fa_id (ba_available a)) + bl_total p"
proof -
  have ids: "fa_id (ba_available a) \<noteq> fa_id (ba_reserved a)" "fa_id (ba_available a) \<noteq> fa_id (ba_providerPayable a)" "fa_id (ba_available a) \<noteq> fa_id (ba_feeRevenue a)"
    using billAccounts_ids [OF assms(4,5)] by simp_all
  have "finishBill t1 n1 pid u r1 s = (Inr q1, s1)"
    using assms(9,10) reconcile_queried [OF assms(1,3,8)] by (simp add: applyProviderResult_def)
  note one = finishBill_released [OF assms(1,2,4,5,9,7) this]
  then obtain tx where q1: "q1 = billFailed r1 tx p" by blast
  have "bl_reconciliation q1 = RC_PENDING" by (simp add: q1 billFailed_def assms(3))
  from assms(13) reconcile_queried [OF one(1) this assms(11)] have "applyProviderResult t2 n2 pid u r2 s1 = (x2, s2)" by simp
  note two = applyProviderResult_uncertain [OF one(1,3) assms(12) this]
  let ?p = "uncertain (Some r2) q1"
  have p: "bl_walletId ?p = bl_walletId p" "bl_currency ?p = bl_currency p" "bl_total ?p = bl_total p" "isHeld (bl_status ?p)"
    "bl_reconciliation ?p = RC_PENDING"
    by (simp_all add: uncertain_def q1 billFailed_def isHeld_def)
  have acc: "billAccounts (bl_walletId ?p) (bl_currency ?p) s2 = Inr a" "accounts_wf s2"
    using assms(4,5) billAccounts_cong [of s2 s] two(3) one(4) p by (simp_all add: accounts_wf_def)
  have key: "''bill-settle:'' @ pid \<notin> used_keys s2" using assms(6) one(6) used_keys_cong [OF two(2)] by simp
  have "finishBill t3 n3 pid u r3 s2 = (Inr q3, s3)"
    using assms(15,16) reconcile_queried [OF two(1) p(5) assms(14)] by (simp add: applyProviderResult_def)
  note three = finishBill_settled [OF two(1) p(4) acc _ key this]
  show ?thesis using one(5) three(2,3) balance_same_ledger [OF two(2)] ids p(3) assms(15)
    by (auto simp: q1 billFailed_def billSucceeded_def)
qed

definition demo_reopened where
  "demo_reopened = reconcile (demo_provider PV_UNKNOWN) ''t2'' 11 ''ada'' ''b1'' (snd demo_released)"

definition demo_charged where
  "demo_charged = reconcile (demo_provider PV_SUCCESSFUL) ''t3'' 12 ''ada'' ''b1'' (snd demo_reopened)"

theorem released_bill_charged_again_witness:
  "accountBalanceWithin (snd demo_charged) ''wr'' = accountBalanceWithin demo_bill_db ''wr'' - 420
    \<and> accountBalanceWithin (snd demo_charged) ''wa'' = accountBalanceWithin demo_bill_db ''wa'' + 210"
proof -
  have "\<not> isl (fst demo_released)" "\<not> isl (fst demo_charged)" by code_simp+
  then obtain q1 q3 where q: "fst demo_released = Inr q1" "fst demo_charged = Inr q3" by (metis isl_def old.sum.exhaust)
  have r1: "reconcile (demo_provider PV_FAILED) ''t1'' 10 ''ada'' ''b1'' demo_bill_db = (Inr q1, snd demo_released)"
    using q(1) by (simp add: demo_released_def prod_eq_iff)
  have r2: "reconcile (demo_provider PV_UNKNOWN) ''t2'' 11 ''ada'' ''b1'' (snd demo_released) = (fst demo_reopened, snd demo_reopened)"
    by (simp add: demo_reopened_def)
  have r3: "reconcile (demo_provider PV_SUCCESSFUL) ''t3'' 12 ''ada'' ''b1'' (snd demo_reopened) = (Inr q3, snd demo_charged)"
    using q(2) by (simp add: demo_charged_def prod_eq_iff)
  from released_bill_charged_again [OF demo_bill_facts(1,2,3,7,4,5,6) _ _ r1 _ _ r2 _ _ r3, of "demo_result PV_FAILED" "demo_result PV_UNKNOWN" "demo_result PV_SUCCESSFUL"]
  show ?thesis by (simp add: demo_provider_def demo_result_def demo_account_def demo_bill_def newBill_def)
qed

text \<open>
  No history of bill requests overdraws what a member can spend: whatever the provider answers and in whatever order bills are created, paid
  from intents and reconciled, the ledger stays well formed and no available balance is negative.
\<close>

theorem bill_history_safe:
  assumes "books_hold spendable s" and "none_reversed s"
  shows "let s' = fold (serveBill hmac) qs s in
    ledger_wf s' \<and> (\<forall>a \<in> set (accounts s'). fa_purpose a = Some WALLET_AVAILABLE \<longrightarrow> 0 \<le> accountBalanceWithin s' (fa_id a))"
proof -
  have "books_hold spendable (fold (serveBill hmac) qs s)" using bill_history.history_inv [of s hmac qs] assms by blast
  then show ?thesis by (simp add: Let_def books_hold_def spendable_def is_wallet_account_def)
qed

definition demo_bill_history :: "bill_request list" where
  "demo_bill_history = [Reconcile (demo_provider PV_FAILED) ''t1'' 10 ''ada'' ''b1'', Reconcile (demo_provider PV_REVERSED) ''t2'' 11 ''ada'' ''b1'']"

lemma demo_bill_ok: "books_hold spendable demo_bill_db \<and> none_reversed demo_bill_db"
proof -
  have "ledger_wf demo_bill_db" by code_simp
  moreover have "accounts_wf demo_bill_db" by code_simp
  moreover have "list_all (\<lambda>a. 0 \<le> accountBalanceWithin demo_bill_db (fa_id a)) (filter (\<lambda>a. fa_purpose a = Some WALLET_AVAILABLE) (accounts demo_bill_db))" by code_simp
  moreover have "none_reversed demo_bill_db" by code_simp
  ultimately show ?thesis by (auto simp: books_hold_def spendable_def list_all_iff)
qed

theorem bill_history_safe_witness: "ledger_wf (fold (serveBill (\<lambda>t. t)) demo_bill_history demo_bill_db)"
  using bill_history_safe [of demo_bill_db "\<lambda>t. t" demo_bill_history] demo_bill_ok by (simp add: Let_def)

text \<open>
  No bill is ever reversed. Settling ends the wait for reconciliation and only bills that wait are asked about again, so a provider that reverses a
  successful payment is never heard: no history of requests reaches the status REVERSED or writes a reversal.
\<close>

theorem bills_never_reversed:
  assumes "books_hold spendable s" and "none_reversed s"
  shows "let s' = fold (serveBill hmac) qs s in (\<forall>p \<in> set (bill_payments s'). bl_status p \<noteq> BS_REVERSED) \<and> bill_reversals s' = []"
proof -
  have "none_reversed (fold (serveBill hmac) qs s)" using bill_history.history_inv [of s hmac qs] assms by blast
  then show ?thesis by (simp add: Let_def none_reversed_def list_all_iff unreversed_def)
qed

theorem bills_never_reversed_witness: "bill_reversals (fold (serveBill (\<lambda>t. t)) demo_bill_history demo_bill_db) = []"
  using bills_never_reversed [of demo_bill_db "\<lambda>t. t" demo_bill_history] demo_bill_ok by (simp add: Let_def)

end
