(* ===== verification/Money_Flows.thy ===== *)
theory Money_Flows
  imports Bill_Safety
begin

text \<open>
  The requests of all components that move money, together: wallet transfers and withdrawals, payment intents for every product
  (\<^verbatim>\<open>src/modules/payments/payments.module.ts\<close> registers the targets), Ajo contributions and payouts, Food Ajo refunds and bills.
\<close>

section \<open>The registered products\<close>

definition PAYMENT_TARGET_TYPES :: "target_type list" where
  "PAYMENT_TARGET_TYPES = [TT_AKAWO_POOL_DUE, TT_AJO_CONTRIBUTION, TT_FOOD_SUBSCRIPTION, TT_WALLET_TOPUP, TT_BILL_PAYMENT]"

definition PAYMENT_TARGETS ::
  "bill_provider \<Rightarrow> (string \<Rightarrow> string) \<Rightarrow> string \<Rightarrow> int \<Rightarrow> (target_type \<Rightarrow> 'm bills_db_scheme payment_target option) res" where
  "PAYMENT_TARGETS provider hmac txId later = paymentTargetRegistry PAYMENT_TARGET_TYPES
     [AkawoPoolDueTarget, AjoContributionTarget, FoodSubscriptionTarget, WalletTopUpTarget, BillPaymentTarget provider hmac txId later]"

fun productTarget :: "bill_provider \<Rightarrow> (string \<Rightarrow> string) \<Rightarrow> string \<Rightarrow> int \<Rightarrow> 'm bills_db_scheme registry" where
  "productTarget provider hmac txId later TT_AKAWO_POOL_DUE = AkawoPoolDueTarget"
| "productTarget provider hmac txId later TT_AJO_CONTRIBUTION = AjoContributionTarget"
| "productTarget provider hmac txId later TT_FOOD_SUBSCRIPTION = FoodSubscriptionTarget"
| "productTarget provider hmac txId later TT_WALLET_TOPUP = WalletTopUpTarget"
| "productTarget provider hmac txId later TT_BILL_PAYMENT = BillPaymentTarget provider hmac txId later"

lemma products_types: "pt_type (productTarget provider hmac txId later t) = t"
  by (cases t) (simp_all add: AkawoPoolDueTarget_def AjoContributionTarget_def FoodSubscriptionTarget_def WalletTopUpTarget_def BillPaymentTarget_def)

lemma registerTargets_map:
  assumes "\<And>t. pt_type (T t) = t" and "distinct ts" and "\<forall>t \<in> set ts. m t = None"
  shows "registerTargets (map T ts) m = Inr (\<lambda>t. if t \<in> set ts then Some (T t) else m t)"
  using assms(2,3)
proof (induction ts arbitrary: m)
  case (Cons t ts)
  then have "registerTargets (map T ts) (m(t \<mapsto> T t)) = Inr (\<lambda>u. if u \<in> set ts then Some (T u) else (m(t \<mapsto> T t)) u)"
    by (intro Cons.IH) auto
  also have "(\<lambda>u. if u \<in> set ts then Some (T u) else (m(t \<mapsto> T t)) u) = (\<lambda>u. if u \<in> set (t # ts) then Some (T u) else m u)" by auto
  finally show ?case using Cons.prems by (simp add: assms(1) fun_upd_def)
qed simp

lemma products_registered:
  "(PAYMENT_TARGETS provider hmac txId later :: (target_type \<Rightarrow> 'm bills_db_scheme payment_target option) res) = Inr (\<lambda>t. Some (productTarget provider hmac txId later t))"
proof -
  let ?T = "productTarget provider hmac txId later :: 'm bills_db_scheme registry"
  have all: "t \<in> set PAYMENT_TARGET_TYPES" for t by (cases t) (simp_all add: PAYMENT_TARGET_TYPES_def)
  have "distinct PAYMENT_TARGET_TYPES" by (simp add: PAYMENT_TARGET_TYPES_def)
  from registerTargets_map [of ?T _ "\<lambda>_. None", OF products_types this] have "registerTargets (map ?T PAYMENT_TARGET_TYPES) (\<lambda>_. None) = Inr (\<lambda>t. Some (?T t))"
    by (simp add: all)
  then have "paymentTargetRegistry PAYMENT_TARGET_TYPES (map ?T PAYMENT_TARGET_TYPES) = Inr (\<lambda>t. Some (?T t))"
    by (simp add: paymentTargetRegistry_def)
  moreover have "[AkawoPoolDueTarget, AjoContributionTarget, FoodSubscriptionTarget, WalletTopUpTarget, BillPaymentTarget provider hmac txId later]
      = map ?T PAYMENT_TARGET_TYPES" by (simp only: PAYMENT_TARGET_TYPES_def list.map productTarget.simps)
  ultimately show ?thesis by (simp only: PAYMENT_TARGETS_def)
qed

context spendable_accounts
begin

lemma products_safe: "safe_target (productTarget provider hmac txId later t) P"
  by (cases t) (simp_all add: bill_payment.safe_target_axioms contribution.safe_target_axioms pool_due.safe_target_axioms
      food_subscription.safe_target_axioms topup.safe_target_axioms)

end

sublocale spendable_accounts \<subseteq> products: payment_products "productTarget provider hmac txId later" P for provider hmac txId later
  by (rule payment_products.intro) (rule products_safe)

section \<open>Every flow keeps the books\<close>

lemma books_hold_open:
  assumes "books_hold P s" and "ledger_txs s' = ledger_txs s" and "accounts_wf s \<Longrightarrow> accounts_wf s'"
    and "filter is_wallet_account (accounts s') = filter is_wallet_account (accounts s)"
  shows "books_hold P s'"
proof -
  have "accountBalanceWithin s' x = accountBalanceWithin s x" for x using assms(2) by (simp add: accountBalanceWithin_def)
  with assms ledger_wf_cong [OF assms(2)] show ?thesis unfolding books_hold_def by simp
qed

lemma poolAccountWithin_books:
  assumes "poolAccountWithin newId gid c s = Inr (a, s')" and "books_hold P s"
  shows "books_hold P s'"
  by (rule books_hold_open [OF assms(2)]) (use pool_account.open_frame [OF assms(1)] in simp_all)

lemma payContribution_books:
  assumes "books_hold P s"
  shows "books_hold P (snd (payContribution ids now u gid sid dto s))"
proof (rule handler_keeps [of "books_hold P", OF assms])
  show "payContribution ids now u gid sid dto s = (Inl e, s') \<Longrightarrow> s' = s" for e s'
    by (simp only: payContribution_def serializable_Inl_iff)
  fix row s' assume "payContribution ids now u gid sid dto s = (Inr row, s')"
  then show "books_hold P s'"
  proof (cases rule: payContribution_cases)
    case (fresh schedule member)
    from fresh(11) show ?thesis
    proof (rule collectContribution_Inr)
      fix wallet pool s1 s2 r
      assume pool: "poolAccountWithin (py_account ids) (cs_groupId schedule) (cs_currency schedule) s = Inr (pool, s1)"
        and bal: "pc_amountMinor dto \<le> accountBalanceWithin s1 (fa_id wallet)"
        and post: "postWithin (py_tx ids) now (contributionCommand ids u schedule (pc_amountMinor dto)
          (contributionIdempotencyKey sid (pc_callerKey dto)) (fa_id wallet) pool) s1 = Inr (r, s2)"
        and rec: "recordContributionWithin (py_row ids) now u (am_id member) schedule (pc_amountMinor dto)
          (contributionIdempotencyKey sid (pc_callerKey dto)) (fst r) s2 = Inr (row, s')"
      have "books_hold P s2"
        by (rule books_hold_two_legs [OF post _ bal poolAccountWithin_books [OF pool assms]]) (simp add: contributionCommand_def)
      then show ?thesis using books_hold_cong [OF recordContributionWithin_frame(1,2) [OF rec]] by simp
    qed
  qed (use assms in simp)
qed

lemma settlePayoutWithin_books:
  assumes "settlePayoutWithin ids now u gid pid s = Inr ((row, n), s')" and "books_hold P s"
  shows "books_hold P s'"
  using assms(1)
proof (cases rule: settlePayoutWithin_cases)
  case (fresh schedule holder recipient g)
  from fresh(10) show ?thesis
  proof (rule payOut_Inr)
    fix wallet pool s1 s2 r
    assume pool: "poolAccountWithin (py_account ids) gid (pos_currency schedule) s = Inr (pool, s1)"
      and bal: "pos_amountDue schedule \<le> accountBalanceWithin s1 pool"
      and post: "postWithin (py_tx ids) now (payoutCommand ids u gid schedule pool (fa_id wallet)) s1 = Inr (r, s2)"
      and t: "ledger_txs s' = ledger_txs s2" "accounts s' = accounts s2"
    have "books_hold P s2"
      by (rule books_hold_two_legs [OF post _ bal poolAccountWithin_books [OF pool assms(2)]]) (simp add: payoutCommand_def)
    then show ?thesis using books_hold_cong [OF t] by simp
  qed
qed (use assms(2) in simp)

lemma executePayout_books:
  assumes "books_hold P s"
  shows "books_hold P (snd (executePayout ids now u gid pid s))"
proof (cases "executePayout ids now u gid pid s")
  case (Pair r s')
  then show ?thesis
  proof (cases rule: executePayout_cases)
    case (settled row n s1)
    have "books_hold P s1" by (rule settlePayoutWithin_books [OF settled(1) assms])
    moreover have "books_hold P (notify a b c d s1) = books_hold P s1" for a b c d by (rule books_hold_cong) (simp_all add: notify_def)
    ultimately show ?thesis using settled(3) Pair by auto
  next
    case (held e)
    have "books_hold P (holdPayout pid s) = books_hold P s" by (rule books_hold_cong) (simp_all add: holdPayout_def)
    with held Pair assms show ?thesis by simp
  qed (use Pair assms in simp)
qed

text \<open>
  A refund does not look at what the escrow account holds, so it is safe for accounts that are not a programme's escrow account, which
  its code tells.
\<close>

definition member_money :: "fin_account \<Rightarrow> bool" where
  "member_money a \<longleftrightarrow> spendable a \<and> take 15 (fa_code a) \<noteq> ''FOOD_PROGRAMME:''"

interpretation money: spendable_accounts member_money
  by unfold_locales (simp add: member_money_def)

lemma escrow_not_member_money:
  assumes "escrowAccountWithin newId gid c s = Inr (e, s')" and "accounts_wf s" and "x \<in> set (accounts s')" and "member_money x"
  shows "fa_id x \<noteq> e"
proof -
  have wf: "accounts_wf s'" by (rule escrow_account.open_frame(4) [OF assms(1,2)])
  from assms(1) obtain a where "a \<in> set (accounts s')" "fa_id a = e" "fa_code a = escrowAccountCode gid"
  proof (cases rule: escrow_account.open_cases)
    case new
    with that [of "escrowAccount newId gid c"] show ?thesis by (simp add: escrow_account.row_simps)
  qed (use that in blast)
  with account_id_inject [OF wf _ assms(3), of a] have "fa_id x = e \<Longrightarrow> fa_code x = escrowAccountCode gid" by metis
  with assms(4) show ?thesis by (auto simp: member_money_def escrowAccountCode_def)
qed

lemma refundWithin_books:
  assumes "refundWithin ids now u x st c s = Inr (n, s')" and "books_hold member_money s"
  shows "books_hold member_money s'"
proof (cases "0 < fs_amountPaid x")
  case True
  from assms(1) True show ?thesis
  proof (rule refundWithin_paid)
    fix w e s1 r s2
    let ?c = "refundCommand u (fs_id x) (fs_paidAt x) (fs_groupId x) c (fs_amountPaid x) e (fa_id w)"
    assume esc: "escrowAccountWithin (py_account ids) (fs_groupId x) c s = Inr (e, s1)"
      and post: "postWithin (py_tx ids) now ?c s1 = Inr (r, s2)"
      and s': "s' = audit (Some u) ''food.subscription.refunded'' ''FoodSubscription'' (Some (fs_id x)) None s2"
    have s1: "books_hold member_money s1" by (rule books_hold_open [OF assms(2)]) (use escrow_account.open_frame [OF esc] in simp_all)
    have "books_hold member_money s2"
    proof (rule books_hold_post [OF post s1])
      fix y assume y: "y \<in> set (accounts s1)" "is_wallet_account y" "member_money y"
      then have "0 \<le> accountBalanceWithin s1 (fa_id y)" using s1 by (simp add: books_hold_def)
      moreover have "fa_id y \<noteq> e" using escrow_not_member_money [OF esc _ y(1,3)] assms(2) by (simp add: books_hold_def)
      ultimately show "0 \<le> accountBalanceWithin s1 (fa_id y) + cmd_delta ?c (fa_id y)"
        using True cmd_delta_two [OF refund_entries(1) [unfolded two_legs_def]] by simp
    qed
    then show ?thesis using books_hold_cong [of s' s2] s' by (simp add: audit_def)
  qed
qed (use assms in \<open>simp add: refundWithin_def\<close>)

lemma cancelSubscription_books:
  assumes "books_hold member_money s"
  shows "books_hold member_money (snd (cancelSubscription ids now u gid s))"
proof (rule handler_keeps [of "books_hold member_money", OF assms])
  show "cancelSubscription ids now u gid s = (Inl e, s') \<Longrightarrow> s' = s" for e s'
    by (simp only: cancelSubscription_def serializable_Inl_iff)
  fix y s' assume "cancelSubscription ids now u gid s = (Inr y, s')"
  then show "books_hold member_money s'"
  proof (rule cancelSubscription_Inr)
    fix x g p n s1
    assume ref: "refundWithin ids now u x (fg_status g) (fp_currency p) s = Inr (n, s1)"
      and s': "s' = audit (Some u) ''food.subscription.cancelled'' ''FoodSubscription'' (Some (fs_id x)) None
        (s1\<lparr>food_subscriptions := update_where (\<lambda>y. fs_id y = fs_id x) withdrawn (food_subscriptions s1)\<rparr>)"
    from refundWithin_books [OF ref assms] show ?thesis using books_hold_cong [of s' s1] s' by (simp add: audit_def)
  qed
qed

section \<open>Histories\<close>

datatype money_request =
    WalletRequest wallet_request
  | PaymentRequest bill_provider string int payment_request
  | SettlementRequest settlement_request
  | WithdrawEnrolment pay_ids int string string
  | BillRequest bill_request

fun serveMoney ::
  "(string \<Rightarrow> string \<Rightarrow> bool) \<Rightarrow> (payment_method \<Rightarrow> charge_input \<Rightarrow> provider_charge res) \<Rightarrow> (string \<Rightarrow> string) \<Rightarrow>
     money_request \<Rightarrow> 'm bills_db_scheme \<Rightarrow> 'm bills_db_scheme" where
  "serveMoney verify charge hmac (WalletRequest q) s = serveWallet verify q s"
| "serveMoney verify charge hmac (PaymentRequest provider txId later q) s = servePayment verify charge (productTarget provider hmac txId later) q s"
| "serveMoney verify charge hmac (SettlementRequest q) s = serveSettlement q s"
| "serveMoney verify charge hmac (WithdrawEnrolment ids now u gid) s = snd (cancelSubscription ids now u gid s)"
| "serveMoney verify charge hmac (BillRequest q) s = serveBill hmac q s"

lemma serveSettlement_books: "books_hold P s \<Longrightarrow> books_hold P (serveSettlement q s)"
proof (cases q)
  case (IntentRequest ids now u iid key)
  assume ok: "books_hold P s"
  have "books_hold P (snd (serializable (settleWithin ids now u iid key AjoContributionTarget) s))"
    by (rule serializable_frame) (use ok contribution.settleWithin_books in auto)
  then show ?thesis by (simp add: IntentRequest)
qed (simp_all add: payContribution_books executePayout_books)

interpretation money_history: request_safety "serveMoney verify charge hmac" "books_hold member_money" for verify charge hmac
proof
  show "books_hold member_money (serveMoney verify charge hmac q s)" if "books_hold member_money s" for q s
    using that by (cases q) (simp_all add: serveWallet_books money.products.servePayment_books serveSettlement_books cancelSubscription_books money.serveBill_books)
qed

section \<open>Properties\<close>

text \<open>
  The payment module starts and every kind of target has its own handler: the boot-time check accepts the registered targets, and the registry maps each type
  to a target that says it is of that type.
\<close>

theorem payment_products_registered:
  "\<exists>reg. PAYMENT_TARGETS provider hmac txId later = Inr reg \<and> (\<forall>t. \<exists>T. reg t = Some T \<and> pt_type T = t)"
  using products_registered products_types by fast


definition demo_money_history :: "money_request list" where
  "demo_money_history = [WalletRequest (SendRequest (demo_ids ''1'') 50 ''ada'' demo_send ''key1''),
     PaymentRequest (demo_provider PV_FAILED) ''t9'' 60 (ConfirmRequest demo_pids 55 ''ada'' ''aaaaaaaa-1'' (demo_confirm_dto PM_WALLET) ''key2''),
     WithdrawEnrolment demo_pids 70 ''ada'' ''f1'', BillRequest (Reconcile (demo_provider PV_FAILED) ''t10'' 80 ''ada'' ''b1'')]"


end
