(* ===== verification/Auth.thy ===== *)
theory Auth
  imports Kyc_Service
begin

text \<open>
  Accounts and sessions: \<^verbatim>\<open>src/modules/auth/auth.service.ts\<close> with \<^verbatim>\<open>domain/verification-policy.ts\<close>, the guards that authenticate a request
  (\<^verbatim>\<open>guards/access-token.guard.ts\<close>, \<^verbatim>\<open>guards/csrf.guard.ts\<close>) and the referral code a member gets at registration
  (\<^verbatim>\<open>src/modules/referrals/domain/referral-code.ts\<close>). A refresh token is stored as its keyed digest and rotated on every use; presenting one that was already used
  ends the session unless the rotation looks undelivered. HMAC, argon2, the signing and verification of access tokens, the ids and random values of a request and
  the clock are arguments. Whether the mail provider accepts a message is an argument too.
\<close>

section \<open>Referral codes\<close>

definition REFERRAL_ALPHABET :: string where "REFERRAL_ALPHABET = ''2345679ACDEFGHJKMNPQRTUVWXYZ''"
definition REFERRAL_PREFIX :: string where "REFERRAL_PREFIX = ''AJO-''"
definition REFERRAL_BODY_LENGTH :: nat where "REFERRAL_BODY_LENGTH = 6"
definition REFERRAL_LIMIT :: nat where "REFERRAL_LIMIT = (256 div length REFERRAL_ALPHABET) * length REFERRAL_ALPHABET"

fun appendReferralBytes :: "nat list \<Rightarrow> string \<Rightarrow> string" where
  "appendReferralBytes [] body = body"
| "appendReferralBytes (b # bs) body =
     (if b \<ge> REFERRAL_LIMIT then appendReferralBytes bs body
      else let body' = body @ [REFERRAL_ALPHABET ! (b mod length REFERRAL_ALPHABET)] in
        if length body' = REFERRAL_BODY_LENGTH then body' else appendReferralBytes bs body')"

text \<open>The argument is the sequence of byte strings the random source returns; \<open>None\<close> when it ends too early.\<close>

fun referralBody :: "nat list list \<Rightarrow> string \<Rightarrow> string option" where
  "referralBody [] body = (if length body < REFERRAL_BODY_LENGTH then None else Some body)"
| "referralBody (batch # rest) body =
     (if length body < REFERRAL_BODY_LENGTH then referralBody rest (appendReferralBytes batch body) else Some body)"

definition generateReferralCode :: "nat list list \<Rightarrow> string option" where
  "generateReferralCode batches = map_option (\<lambda>body. REFERRAL_PREFIX @ body) (referralBody batches [])"

definition normaliseReferralCode :: "string \<Rightarrow> string option" where
  "normaliseReferralCode input =
     (let trimmed = filter (\<lambda>c. \<not> is_space c) (toUpperCase (trim input));
          body = (if take (length REFERRAL_PREFIX) trimmed = REFERRAL_PREFIX then drop (length REFERRAL_PREFIX) trimmed else trimmed) in
      if length body \<noteq> REFERRAL_BODY_LENGTH then None
      else if list_ex (\<lambda>c. c \<notin> set REFERRAL_ALPHABET) body then None
      else Some (REFERRAL_PREFIX @ body))"

section \<open>Tables\<close>

datatype verification_channel = VC_PHONE | VC_EMAIL
datatype verification_purpose = VP_ACCOUNT_VERIFICATION | VP_LOGIN | VP_PASSWORD_RESET
datatype session_status = SE_ACTIVE | SE_REVOKED | SE_EXPIRED | SE_COMPROMISED
datatype referral_status = RF_PENDING | RF_QUALIFIED | RF_REWARDED | RF_REJECTED

record user_credential =
  cd_userId :: string
  cd_passwordHash :: string
  cd_changedAt :: int

record verification_challenge =
  ch_id :: string
  ch_userId :: string
  ch_channel :: verification_channel
  ch_purpose :: verification_purpose
  ch_codeHash :: string
  ch_destinationMasked :: string
  ch_expiresAt :: int
  ch_resendAvailableAt :: int
  ch_attemptCount :: int
  ch_maxAttempts :: int
  ch_consumedAt :: "int option"
  ch_invalidatedAt :: "int option"
  ch_createdAt :: int

record session_row =
  se_id :: string
  se_userId :: string
  se_status :: session_status
  se_currentTokenHash :: string
  se_ipAddress :: "string option"
  se_userAgent :: "string option"
  se_expiresAt :: int
  se_lastRotatedAt :: int
  se_revokedAt :: "int option"
  se_revokeReason :: "string option"

record refresh_token =
  rt_id :: string
  rt_sessionId :: string
  rt_tokenHash :: string
  rt_expiresAt :: int
  rt_consumedAt :: "int option"
  rt_revokedAt :: "int option"
  rt_replacedById :: "string option"

text \<open>A role with the keys of its permissions, and its assignment to a user.\<close>

record role_row =
  ro_id :: string
  ro_name :: string
  ro_isSystem :: bool
  ro_permissions :: "string list"

record user_role =
  ua_userId :: string
  ua_roleId :: string
  ua_expiresAt :: "int option"

record user_identity =
  ui_id :: string
  ui_userId :: string
  ui_providerUserId :: string
  ui_email :: "string option"
  ui_lastLoginAt :: "int option"

record referral_row =
  rf_id :: string
  rf_referrerUserId :: string
  rf_referredUserId :: string
  rf_campaignId :: "string option"
  rf_code :: string
  rf_status :: referral_status
  rf_qualifiedAt :: "int option"

record auth_db = identity_db +
  credentials :: "user_credential list"
  challenges :: "verification_challenge list"
  sessions :: "session_row list"
  refresh_tokens :: "refresh_token list"
  roles :: "role_row list"
  user_roles :: "user_role list"
  identities :: "user_identity list"
  referrals :: "referral_row list"

section \<open>Configuration and requests\<close>

fun digitsNumber :: "string \<Rightarrow> int \<Rightarrow> int" where
  "digitsNumber [] n = n"
| "digitsNumber (c # cs) n = digitsNumber cs (10 * n + digit_value c)"

definition parseDurationSeconds :: "string \<Rightarrow> int res" where
  "parseDurationSeconds value =
     (let ds = takeWhile is_digit value; unit = dropWhile is_digit value; amount = digitsNumber ds 0 in
      if ds = [] then Inl (PlainError ''JWT access TTL is invalid'')
      else if unit = ''s'' then Inr amount
      else if unit = ''m'' then Inr (amount * 60)
      else if unit = ''h'' then Inr (amount * 3600)
      else if unit = ''d'' then Inr (amount * 86400)
      else Inl (PlainError ''JWT access TTL is invalid''))"

record access_claims =
  ac_sub :: string
  ac_sid :: string
  ac_typ :: string

record auth_env =
  ae_hmac :: "string \<Rightarrow> string \<Rightarrow> string"
  ae_verifyPassword :: "string \<Rightarrow> string \<Rightarrow> bool"
  ae_signAccess :: "access_claims \<Rightarrow> int \<Rightarrow> string"
  ae_tokenPepper :: string
  ae_accessTtl :: string
  ae_accessTtlSeconds :: int
  ae_refreshTtlSeconds :: int
  ae_refreshReuseGraceMs :: int

text \<open>The constructor of the service, from the values of the configuration.\<close>

definition authService ::
  "(string \<Rightarrow> string \<Rightarrow> string) \<Rightarrow> (string \<Rightarrow> string \<Rightarrow> bool) \<Rightarrow> (access_claims \<Rightarrow> int \<Rightarrow> string) \<Rightarrow> string \<Rightarrow> string \<Rightarrow> int \<Rightarrow> int \<Rightarrow> auth_env res" where
  "authService hmac verify sign pepper accessTtl refreshTtlSeconds graceSeconds =
     bind_res (parseDurationSeconds accessTtl) (\<lambda>seconds.
       Inr \<lparr>ae_hmac = hmac, ae_verifyPassword = verify, ae_signAccess = sign, ae_tokenPepper = pepper, ae_accessTtl = accessTtl,
            ae_accessTtlSeconds = seconds, ae_refreshTtlSeconds = refreshTtlSeconds, ae_refreshReuseGraceMs = graceSeconds * 1000\<rparr>)"

record client_context =
  cc_ipAddress :: "string option"
  cc_userAgent :: "string option"

record token_pair =
  tp_accessToken :: string
  tp_refreshToken :: string
  tp_expiresIn :: string
  tp_accessTokenExpiresAt :: int

text \<open>The ids and random values generated for a request: those of the rows it creates, the new refresh token and the number of a new code.\<close>

record auth_ids =
  ai_user :: string
  ai_wallet :: string
  ai_available :: string
  ai_reserved :: string
  ai_role :: string
  ai_referral :: string
  ai_referralCode :: string
  ai_identity :: string
  ai_challenge :: string
  ai_code :: nat
  ai_session :: string
  ai_token :: string
  ai_rawToken :: string

definition findUser :: "string \<Rightarrow> 'm core_db_scheme \<Rightarrow> user_row option" where
  "findUser userId s = List.find (\<lambda>u. ur_id u = userId) (users s)"

definition findUserByEmail :: "string \<Rightarrow> 'm core_db_scheme \<Rightarrow> user_row option" where
  "findUserByEmail email s = List.find (\<lambda>u. ur_email u = Some email) (users s)"

definition updateUser :: "string \<Rightarrow> (user_row \<Rightarrow> user_row) \<Rightarrow> 'm core_db_scheme \<Rightarrow> 'm core_db_scheme" where
  "updateUser userId f s = s\<lparr>users := update_where (\<lambda>u. ur_id u = userId) f (users s)\<rparr>"

definition findCredential :: "string \<Rightarrow> 'm auth_db_scheme \<Rightarrow> user_credential option" where
  "findCredential userId s = List.find (\<lambda>c. cd_userId c = userId) (credentials s)"

definition findSession :: "string \<Rightarrow> 'm auth_db_scheme \<Rightarrow> session_row option" where
  "findSession sessionId s = List.find (\<lambda>e. se_id e = sessionId) (sessions s)"

definition findToken :: "string \<Rightarrow> 'm auth_db_scheme \<Rightarrow> refresh_token option" where
  "findToken tokenHash s = List.find (\<lambda>t. rt_tokenHash t = tokenHash) (refresh_tokens s)"

section \<open>Verification codes\<close>

definition VERIFICATION_CODE_TTL_MS :: int where "VERIFICATION_CODE_TTL_MS = 10 * 60 * 1000"
definition VERIFICATION_RESEND_COOLDOWN_MS :: int where "VERIFICATION_RESEND_COOLDOWN_MS = 60 * 1000"
definition VERIFICATION_MAX_ATTEMPTS :: int where "VERIFICATION_MAX_ATTEMPTS = 5"

definition verificationCodeHash :: "auth_env \<Rightarrow> string \<Rightarrow> string \<Rightarrow> string" where
  "verificationCodeHash env challengeId code = ae_hmac env (ae_tokenPepper env) (join_colon challengeId code)"

definition verificationCodeMatches :: "auth_env \<Rightarrow> string \<Rightarrow> string \<Rightarrow> string \<Rightarrow> bool" where
  "verificationCodeMatches env challengeId code expectedHash =
     (let actual = verificationCodeHash env challengeId code in length actual = length expectedHash \<and> actual = expectedHash)"

text \<open>The second part of a text split at the sign is what stands before a further sign. The three bullets of the mask are written as asterisks.\<close>

definition maskVerificationDestination :: "string \<Rightarrow> string" where
  "maskVerificationDestination value =
     (let local = takeWhile (\<lambda>c. c \<noteq> CHR ''@'') value;
          domain = takeWhile (\<lambda>c. c \<noteq> CHR ''@'') (drop 1 (dropWhile (\<lambda>c. c \<noteq> CHR ''@'') value)) in
      take 2 local @ ''***@'' @ domain)"

text \<open>\<^verbatim>\<open>padStart(6, '0')\<close> of the decimal text.\<close>

definition sixDigits :: "nat \<Rightarrow> string" where
  "sixDigits n = (let t = showNat n in replicate (6 - length t) (CHR ''0'') @ t)"

definition newChallenge :: "auth_env \<Rightarrow> auth_ids \<Rightarrow> int \<Rightarrow> verification_purpose \<Rightarrow> string \<Rightarrow> string \<Rightarrow> verification_challenge" where
  "newChallenge env ids now purpose userId destination =
     \<lparr>ch_id = ai_challenge ids, ch_userId = userId, ch_channel = VC_EMAIL, ch_purpose = purpose,
      ch_codeHash = verificationCodeHash env (ai_challenge ids) (sixDigits (ai_code ids)),
      ch_destinationMasked = maskVerificationDestination destination, ch_expiresAt = now + VERIFICATION_CODE_TTL_MS,
      ch_resendAvailableAt = now + VERIFICATION_RESEND_COOLDOWN_MS, ch_attemptCount = 0, ch_maxAttempts = VERIFICATION_MAX_ATTEMPTS,
      ch_consumedAt = None, ch_invalidatedAt = None, ch_createdAt = now\<rparr>"

definition open_challenge :: "verification_challenge \<Rightarrow> bool" where
  "open_challenge c \<longleftrightarrow> ch_consumedAt c = None \<and> ch_invalidatedAt c = None"

text \<open>\<^verbatim>\<open>orderBy: { createdAt: 'desc' }\<close> and the first row: the newest, and of rows of the same instant the one inserted last.\<close>

fun newest :: "('r \<Rightarrow> int) \<Rightarrow> 'r list \<Rightarrow> 'r option" where
  "newest created [] = None"
| "newest created (r # rs) = (case newest created rs of None \<Rightarrow> Some r | Some q \<Rightarrow> if created q \<ge> created r then Some q else Some r)"

definition updateChallenge :: "string \<Rightarrow> (verification_challenge \<Rightarrow> verification_challenge) \<Rightarrow> 'm auth_db_scheme \<Rightarrow> 'm auth_db_scheme" where
  "updateChallenge challengeId f s = s\<lparr>challenges := update_where (\<lambda>c. ch_id c = challengeId) f (challenges s)\<rparr>"

text \<open>A wrong code counts as an attempt; the last one allowed also invalidates the challenge.\<close>

definition wrongCode :: "int \<Rightarrow> verification_challenge \<Rightarrow> 'm auth_db_scheme \<Rightarrow> 'm auth_db_scheme" where
  "wrongCode now c s =
     (let attempts = ch_attemptCount c + 1 in
      updateChallenge (ch_id c) (\<lambda>d. d\<lparr>ch_attemptCount := attempts,
        ch_invalidatedAt := (if attempts \<ge> ch_maxAttempts c then Some now else ch_invalidatedAt d)\<rparr>) s)"

definition consumeChallenge :: "int \<Rightarrow> string \<Rightarrow> 'm auth_db_scheme \<Rightarrow> 'm auth_db_scheme" where
  "consumeChallenge now challengeId = updateChallenge challengeId (\<lambda>d. d\<lparr>ch_consumedAt := Some now\<rparr>)"

datatype code_check = CC_valid | CC_invalid | CC_expired | CC_locked

definition validateChallenge :: "auth_env \<Rightarrow> int \<Rightarrow> verification_challenge \<Rightarrow> string \<Rightarrow> code_check" where
  "validateChallenge env now c code =
     (if ch_expiresAt c \<le> now then CC_expired
      else if ch_attemptCount c \<ge> ch_maxAttempts c then CC_locked
      else if verificationCodeMatches env (ch_id c) code (ch_codeHash c) then CC_valid else CC_invalid)"

text \<open>A challenge replaces the open ones that \<open>where\<close> selects.\<close>

definition replaceChallenge :: "(verification_challenge \<Rightarrow> bool) \<Rightarrow> int \<Rightarrow> verification_challenge \<Rightarrow> ('m auth_db_scheme, unit) tx" where
  "replaceChallenge which now c s =
     bind_res (insertRow (\<lambda>a b. ch_id a = ch_id b) c
         (update_where which (\<lambda>d. d\<lparr>ch_invalidatedAt := Some now\<rparr>) (challenges s))) (\<lambda>rows.
       Inr ((), s\<lparr>challenges := rows\<rparr>))"

section \<open>Registration and email verification\<close>

definition PRIVACY_POLICY_VERSION :: string where "PRIVACY_POLICY_VERSION = ''2026-07-16''"

record register_dto =
  rd_email :: string
  rd_phone :: string
  rd_firstName :: string
  rd_lastName :: string
  rd_referralCode :: "string option"

definition user_clash :: "user_row \<Rightarrow> user_row \<Rightarrow> bool" where
  "user_clash a b \<longleftrightarrow> ur_id a = ur_id b \<or> (ur_email a \<noteq> None \<and> ur_email a = ur_email b) \<or> (ur_phone a \<noteq> None \<and> ur_phone a = ur_phone b)
     \<or> (ur_referralCode a \<noteq> None \<and> ur_referralCode a = ur_referralCode b)"

definition memberRole :: "auth_ids \<Rightarrow> 'm auth_db_scheme \<Rightarrow> role_row \<times> 'm auth_db_scheme" where
  "memberRole ids s =
     (case List.find (\<lambda>r. ro_name r = ''MEMBER'') (roles s) of
        Some r \<Rightarrow> (r, s)
      | None \<Rightarrow> (let r = \<lparr>ro_id = ai_role ids, ro_name = ''MEMBER'', ro_isSystem = True, ro_permissions = []\<rparr> in (r, s\<lparr>roles := roles s @ [r]\<rparr>)))"

definition newProfile :: "string \<Rightarrow> string \<Rightarrow> string \<Rightarrow> profile_row" where
  "newProfile userId firstName lastName = \<lparr>pf_userId = userId, pf_firstName = firstName, pf_lastName = lastName, pf_dateOfBirth = None, pf_gender = None,
     pf_addressLine = None, pf_city = None, pf_occupation = None, pf_state = None, pf_timezone = ''Africa/Lagos''\<rparr>"

text \<open>\<^verbatim>\<open>user.create\<close> with what is nested in it: credential, profile, wallet, role, consent and challenge.\<close>

definition createMember ::
  "auth_ids \<Rightarrow> int \<Rightarrow> string \<Rightarrow> string \<Rightarrow> string \<Rightarrow> register_dto \<Rightarrow> string \<Rightarrow> verification_challenge \<Rightarrow> ('m auth_db_scheme, user_row) tx" where
  "createMember ids now email phone passwordHash dto roleId challenge s =
     (let u = \<lparr>ur_id = ai_user ids, ur_email = Some email, ur_phone = Some phone, ur_status = US_PENDING_VERIFICATION, ur_referralCode = Some (ai_referralCode ids),
                ur_emailVerifiedAt = None, ur_lastLoginAt = None\<rparr> in
      bind_res (insertRow user_clash u (users s)) (\<lambda>us.
      bind_res (insertRow (\<lambda>a b. wl_id a = wl_id b \<or> (wl_userId a = wl_userId b \<and> wl_currency a = wl_currency b))
          \<lparr>wl_id = ai_wallet ids, wl_userId = ur_id u, wl_currency = ''NGN'', wl_status = WS_ACTIVE\<rparr> (wallets s)) (\<lambda>ws.
      bind_res (insertRow (\<lambda>a b. cd_userId a = cd_userId b) \<lparr>cd_userId = ur_id u, cd_passwordHash = passwordHash, cd_changedAt = now\<rparr> (credentials s)) (\<lambda>cs.
      bind_res (insertRow (\<lambda>a b. pf_userId a = pf_userId b) (newProfile (ur_id u) (trim (rd_firstName dto)) (trim (rd_lastName dto))) (profiles s)) (\<lambda>ps.
      bind_res (insertRow (\<lambda>a b. ch_id a = ch_id b) challenge (challenges s)) (\<lambda>chs.
        Inr (u, s\<lparr>users := us, wallets := ws, credentials := cs, profiles := ps, challenges := chs,
               user_roles := user_roles s @ [\<lparr>ua_userId = ur_id u, ua_roleId = roleId, ua_expiresAt = None\<rparr>],
               user_consents := user_consents s @ [\<lparr>uc_userId = ur_id u, uc_type = ''PRIVACY'', uc_version = PRIVACY_POLICY_VERSION\<rparr>]\<rparr>)))))))"

definition walletAccount :: "string \<Rightarrow> string \<Rightarrow> string \<Rightarrow> string \<Rightarrow> account_purpose \<Rightarrow> string \<Rightarrow> fin_account" where
  "walletAccount newId walletId suffix name purpose currency =
     \<lparr>fa_id = newId, fa_code = ''WALLET:'' @ join_colon walletId suffix, fa_name = name, fa_type = LIABILITY, fa_purpose = Some purpose,
      fa_currency = currency, fa_walletId = Some walletId, fa_isActive = True\<rparr>"

definition openWalletAccounts :: "auth_ids \<Rightarrow> string \<Rightarrow> string \<Rightarrow> ('m core_db_scheme, unit) tx" where
  "openWalletAccounts ids walletId currency s =
     bind_res (insertRows account_clash
         [walletAccount (ai_available ids) walletId ''AVAILABLE'' ''Wallet available balance'' WALLET_AVAILABLE currency,
          walletAccount (ai_reserved ids) walletId ''RESERVED'' ''Wallet reserved balance'' WALLET_RESERVED currency] (accounts s)) (\<lambda>rows.
       Inr ((), s\<lparr>accounts := rows\<rparr>))"

definition linkReferral :: "auth_ids \<Rightarrow> string \<Rightarrow> string option \<Rightarrow> ('m auth_db_scheme, unit) tx" where
  "linkReferral ids createdId referralCode s =
     (case truthy referralCode of
        None \<Rightarrow> Inr ((), s)
      | Some code \<Rightarrow>
     (case List.find (\<lambda>u. ur_referralCode u = Some code) (users s) of
        None \<Rightarrow> Inr ((), s)
      | Some referrer \<Rightarrow>
        if ur_id referrer = createdId then Inr ((), s)
        else bind_res (insertRow (\<lambda>a b. rf_id a = rf_id b \<or> rf_referredUserId a = rf_referredUserId b)
              \<lparr>rf_id = ai_referral ids, rf_referrerUserId = ur_id referrer, rf_referredUserId = createdId, rf_campaignId = None, rf_code = code,
               rf_status = RF_PENDING, rf_qualifiedAt = None\<rparr> (referrals s)) (\<lambda>rows. Inr ((), s\<lparr>referrals := rows\<rparr>))))"

definition registerWithin ::
  "auth_env \<Rightarrow> auth_ids \<Rightarrow> int \<Rightarrow> string \<Rightarrow> register_dto \<Rightarrow> ('m auth_db_scheme, user_row) tx" where
  "registerWithin env ids now passwordHash dto s =
     (let email = toLowerCase (trim (rd_email dto)); (role, s0) = memberRole ids s;
          referralCode = (case truthy (rd_referralCode dto) of None \<Rightarrow> None | Some c \<Rightarrow> normaliseReferralCode c) in
      bind_res (createMember ids now email (trim (rd_phone dto)) passwordHash dto (ro_id role)
          (newChallenge env ids now VP_ACCOUNT_VERIFICATION (ai_user ids) email) s0) (\<lambda>(created, s1).
      bind_res (openWalletAccounts ids (ai_wallet ids) ''NGN'' s1) (\<lambda>(_, s2).
      bind_res (linkReferral ids (ur_id created) referralCode s2) (\<lambda>(_, s3).
        Inr (created, audit (Some (ur_id created)) ''auth.registered'' ''User'' (Some (ur_id created)) None s3)))))"

record challenge_result =
  vr_userId :: string
  vr_destinationMasked :: string
  vr_expiresAt :: int
  vr_resendAvailableAt :: int
  vr_sent :: bool

text \<open>\<^verbatim>\<open>deliverChallenge\<close> and \<^verbatim>\<open>VerificationDeliveryService.send\<close>: a failure to deliver is reported, not thrown.\<close>

definition deliverChallenge :: "string \<Rightarrow> verification_challenge \<Rightarrow> 'm core_db_scheme \<Rightarrow> 'm core_db_scheme" where
  "deliverChallenge userId c = notify userId ''account-verification-email'' None (''account-verification:'' @ ch_id c)"

definition challengeResponse :: "string \<Rightarrow> verification_challenge \<Rightarrow> bool \<Rightarrow> challenge_result" where
  "challengeResponse userId c sent = \<lparr>vr_userId = userId, vr_destinationMasked = ch_destinationMasked c, vr_expiresAt = ch_expiresAt c,
     vr_resendAvailableAt = ch_resendAvailableAt c, vr_sent = sent\<rparr>"

definition register ::
  "auth_env \<Rightarrow> auth_ids \<Rightarrow> int \<Rightarrow> bool \<Rightarrow> string \<Rightarrow> register_dto \<Rightarrow> ('m auth_db_scheme, challenge_result) handler" where
  "register env ids now accepted passwordHash dto s =
     (case serializable (registerWithin env ids now passwordHash dto) s of
        (Inl e, s1) \<Rightarrow> (Inl (if e = UniqueViolation then Conflict ''An account with these details already exists'' else e), s1)
      | (Inr u, s1) \<Rightarrow>
          (let c = newChallenge env ids now VP_ACCOUNT_VERIFICATION (ur_id u) (toLowerCase (trim (rd_email dto))) in
           (Inr (challengeResponse (ur_id u) c accepted), deliverChallenge (ur_id u) c s1)))"

section \<open>Sessions\<close>

definition digest :: "auth_env \<Rightarrow> string \<Rightarrow> string" where
  "digest env rawToken = ae_hmac env (ae_tokenPepper env) rawToken"

definition tokenPair :: "auth_env \<Rightarrow> int \<Rightarrow> string \<Rightarrow> string \<Rightarrow> string \<Rightarrow> token_pair" where
  "tokenPair env now userId sessionId rawToken =
     \<lparr>tp_accessToken = ae_signAccess env \<lparr>ac_sub = userId, ac_sid = sessionId, ac_typ = ''access''\<rparr> now, tp_refreshToken = rawToken,
      tp_expiresIn = ae_accessTtl env, tp_accessTokenExpiresAt = now + ae_accessTtlSeconds env * 1000\<rparr>"

definition newToken :: "string \<Rightarrow> string \<Rightarrow> string \<Rightarrow> int \<Rightarrow> refresh_token" where
  "newToken newId sessionId tokenHash expiresAt = \<lparr>rt_id = newId, rt_sessionId = sessionId, rt_tokenHash = tokenHash, rt_expiresAt = expiresAt,
     rt_consumedAt = None, rt_revokedAt = None, rt_replacedById = None\<rparr>"

definition token_clash :: "refresh_token \<Rightarrow> refresh_token \<Rightarrow> bool" where
  "token_clash a b \<longleftrightarrow> rt_id a = rt_id b \<or> rt_tokenHash a = rt_tokenHash b"

definition newSession :: "auth_env \<Rightarrow> auth_ids \<Rightarrow> int \<Rightarrow> string \<Rightarrow> client_context \<Rightarrow> session_row" where
  "newSession env ids now userId context =
     \<lparr>se_id = ai_session ids, se_userId = userId, se_status = SE_ACTIVE, se_currentTokenHash = digest env (ai_rawToken ids),
      se_ipAddress = truthy (cc_ipAddress context), se_userAgent = map_option (take 500) (truthy (cc_userAgent context)),
      se_expiresAt = now + ae_refreshTtlSeconds env * 1000, se_lastRotatedAt = now, se_revokedAt = None, se_revokeReason = None\<rparr>"

definition createSession :: "auth_env \<Rightarrow> auth_ids \<Rightarrow> int \<Rightarrow> string \<Rightarrow> client_context \<Rightarrow> ('m auth_db_scheme, token_pair) handler" where
  "createSession env ids now userId context = serializable (\<lambda>s.
     bind_res (insertRow (\<lambda>a b. se_id a = se_id b) (newSession env ids now userId context) (sessions s)) (\<lambda>ss.
     bind_res (insertRow token_clash
         (newToken (ai_token ids) (ai_session ids) (digest env (ai_rawToken ids)) (now + ae_refreshTtlSeconds env * 1000)) (refresh_tokens s)) (\<lambda>ts.
       Inr (tokenPair env now userId (ai_session ids) (ai_rawToken ids), s\<lparr>sessions := ss, refresh_tokens := ts\<rparr>))))"

datatype verify_outcome = VO_missing | VO_already | VO_expired | VO_locked | VO_invalid | VO_verified

text \<open>The newest open challenge of the user by email, whatever it was issued for.\<close>

definition openEmailChallenge :: "string \<Rightarrow> verification_challenge \<Rightarrow> bool" where
  "openEmailChallenge userId c \<longleftrightarrow> ch_userId c = userId \<and> ch_channel c = VC_EMAIL \<and> open_challenge c"

definition verifyEmailWithin :: "auth_env \<Rightarrow> int \<Rightarrow> string \<Rightarrow> string \<Rightarrow> ('m auth_db_scheme, verify_outcome) tx" where
  "verifyEmailWithin env now userId code s =
     (case findUser userId s of
        None \<Rightarrow> Inr (VO_missing, s)
      | Some u \<Rightarrow>
     if truthy (ur_email u) = None then Inr (VO_missing, s)
     else if ur_emailVerifiedAt u \<noteq> None \<and> ur_status u = US_ACTIVE then Inr (VO_already, s)
     else (case newest ch_createdAt (filter (openEmailChallenge userId) (challenges s)) of
        None \<Rightarrow> Inr (VO_expired, s)
      | Some c \<Rightarrow>
     (case validateChallenge env now c code of
        CC_invalid \<Rightarrow> Inr (VO_invalid, wrongCode now c s)
      | CC_expired \<Rightarrow> Inr (VO_expired, s)
      | CC_locked \<Rightarrow> Inr (VO_locked, s)
      | CC_valid \<Rightarrow> Inr (VO_verified,
          audit (Some userId) ''auth.account_verified'' ''User'' (Some userId) None
            (updateUser userId (\<lambda>u. u\<lparr>ur_emailVerifiedAt := Some now, ur_status := US_ACTIVE\<rparr>) (consumeChallenge now (ch_id c) s))))))"

definition verifyEmail :: "auth_env \<Rightarrow> auth_ids \<Rightarrow> int \<Rightarrow> string \<Rightarrow> string \<Rightarrow> client_context \<Rightarrow> ('m auth_db_scheme, token_pair) handler" where
  "verifyEmail env ids now userId code context s =
     (case serializable (verifyEmailWithin env now userId code) s of
        (Inl e, s1) \<Rightarrow> (Inl e, s1)
      | (Inr VO_missing, s1) \<Rightarrow> (Inl (NotFound ''Verification request not found''), s1)
      | (Inr VO_already, s1) \<Rightarrow> (Inl (Conflict ''Email is already verified''), s1)
      | (Inr VO_expired, s1) \<Rightarrow> (Inl (BadRequest ''Verification code has expired''), s1)
      | (Inr VO_locked, s1) \<Rightarrow> (Inl (TooManyRequests ''Verification attempts exceeded''), s1)
      | (Inr VO_invalid, s1) \<Rightarrow> (Inl (Unauthorized ''Verification code is invalid''), s1)
      | (Inr VO_verified, s1) \<Rightarrow>
          (case createSession env ids now userId context s1 of
             (Inl e, s2) \<Rightarrow> (Inl e, s2)
           | (Inr tokens, s2) \<Rightarrow> (Inr tokens, notify userId ''welcome'' None (''welcome:'' @ userId) s2)))"

text \<open>The instant a new code can be asked for is part of the message as an ISO date; the model leaves the date out of the text.\<close>

definition resendVerification :: "auth_env \<Rightarrow> auth_ids \<Rightarrow> int \<Rightarrow> bool \<Rightarrow> string \<Rightarrow> ('m auth_db_scheme, challenge_result) handler" where
  "resendVerification env ids now accepted userId s =
     (case serializable (\<lambda>s.
        case findUser userId s of
          None \<Rightarrow> Inl (NotFound ''Verification request not found'')
        | Some u \<Rightarrow>
        (case truthy (ur_email u) of
          None \<Rightarrow> Inl (NotFound ''Verification request not found'')
        | Some destination \<Rightarrow>
        if ur_emailVerifiedAt u \<noteq> None then Inl (NotFound ''Verification request not found'')
        else if (case newest ch_createdAt (filter (openEmailChallenge userId) (challenges s)) of None \<Rightarrow> False | Some c \<Rightarrow> ch_resendAvailableAt c > now)
        then Inl (TooManyRequests ''Try again after'')
        else (let c = newChallenge env ids now VP_ACCOUNT_VERIFICATION userId destination in
          bind_res (replaceChallenge (openEmailChallenge userId) now c s) (\<lambda>(_, s1). Inr (c, s1))))) s of
        (Inl e, s1) \<Rightarrow> (Inl e, s1)
      | (Inr c, s1) \<Rightarrow> (Inr (challengeResponse userId c accepted), deliverChallenge userId c s1))"

definition login :: "auth_env \<Rightarrow> auth_ids \<Rightarrow> int \<Rightarrow> string \<Rightarrow> string \<Rightarrow> client_context \<Rightarrow> ('m auth_db_scheme, token_pair) handler" where
  "login env ids now email password context s =
     (case findUserByEmail (toLowerCase (trim email)) s of
        None \<Rightarrow> (Inl (Unauthorized ''Invalid credentials''), s)
      | Some u \<Rightarrow>
        if (case findCredential (ur_id u) s of None \<Rightarrow> False | Some c \<Rightarrow> ae_verifyPassword env (cd_passwordHash c) password) \<and> ur_status u = US_ACTIVE
        then createSession env ids now (ur_id u) context (updateUser (ur_id u) (\<lambda>u. u\<lparr>ur_lastLoginAt := Some now\<rparr>) s)
        else (Inl (Unauthorized ''Invalid credentials''), s))"

section \<open>Rotation of refresh tokens\<close>

definition updateSession :: "string \<Rightarrow> (session_row \<Rightarrow> session_row) \<Rightarrow> 'm auth_db_scheme \<Rightarrow> 'm auth_db_scheme" where
  "updateSession sessionId f s = s\<lparr>sessions := update_where (\<lambda>e. se_id e = sessionId) f (sessions s)\<rparr>"

definition updateTokens :: "(refresh_token \<Rightarrow> bool) \<Rightarrow> (refresh_token \<Rightarrow> refresh_token) \<Rightarrow> 'm auth_db_scheme \<Rightarrow> 'm auth_db_scheme" where
  "updateTokens which f s = s\<lparr>refresh_tokens := update_where which f (refresh_tokens s)\<rparr>"

definition revokeToken :: "int \<Rightarrow> refresh_token \<Rightarrow> refresh_token" where
  "revokeToken now t = t\<lparr>rt_revokedAt := Some now\<rparr>"

definition endSession :: "session_status \<Rightarrow> int \<Rightarrow> string \<Rightarrow> session_row \<Rightarrow> session_row" where
  "endSession status now reason e = e\<lparr>se_status := status, se_revokedAt := Some now, se_revokeReason := Some reason\<rparr>"

definition undeliveredReplacement :: "auth_env \<Rightarrow> int \<Rightarrow> refresh_token \<Rightarrow> string \<Rightarrow> 'm auth_db_scheme \<Rightarrow> refresh_token option" where
  "undeliveredReplacement env now t currentTokenHash s =
     (case (rt_consumedAt t, rt_replacedById t) of
        (Some consumedAt, Some replacedById) \<Rightarrow>
          if now - consumedAt > ae_refreshReuseGraceMs env then None
          else (case List.find (\<lambda>r. rt_id r = replacedById) (refresh_tokens s) of
              None \<Rightarrow> None
            | Some r \<Rightarrow> if rt_consumedAt r \<noteq> None \<or> rt_revokedAt r \<noteq> None \<or> rt_tokenHash r \<noteq> currentTokenHash then None else Some r)
      | _ \<Rightarrow> None)"

datatype refresh_outcome = RO_invalid | RO_compromised | RO_rotated string string

definition compromise :: "int \<Rightarrow> string \<Rightarrow> 'm auth_db_scheme \<Rightarrow> 'm auth_db_scheme" where
  "compromise now sessionId s =
     updateTokens (\<lambda>t. rt_sessionId t = sessionId \<and> rt_revokedAt t = None) (revokeToken now)
       (updateSession sessionId (endSession SE_COMPROMISED now ''refresh_token_reuse'') s)"

definition rotatedSession :: "auth_env \<Rightarrow> auth_ids \<Rightarrow> int \<Rightarrow> session_row \<Rightarrow> session_row" where
  "rotatedSession env ids now e = e\<lparr>se_currentTokenHash := digest env (ai_rawToken ids), se_lastRotatedAt := now, se_expiresAt := now + ae_refreshTtlSeconds env * 1000\<rparr>"

definition usedToken :: "auth_ids \<Rightarrow> int \<Rightarrow> refresh_token \<Rightarrow> refresh_token \<Rightarrow> refresh_token" where
  "usedToken ids now t r = r\<lparr>rt_consumedAt := Some (or_default (rt_consumedAt t) now), rt_replacedById := Some (ai_token ids)\<rparr>"

definition nextToken :: "auth_env \<Rightarrow> auth_ids \<Rightarrow> int \<Rightarrow> string \<Rightarrow> refresh_token" where
  "nextToken env ids now sid = newToken (ai_token ids) sid (digest env (ai_rawToken ids)) (now + ae_refreshTtlSeconds env * 1000)"

text \<open>The new token of a session that is active and not expired; the old one is marked used and points to it.\<close>

definition rotateWithin :: "auth_env \<Rightarrow> auth_ids \<Rightarrow> int \<Rightarrow> refresh_token \<Rightarrow> session_row \<Rightarrow> ('m auth_db_scheme, refresh_outcome) tx" where
  "rotateWithin env ids now t e s =
     (if se_status e \<noteq> SE_ACTIVE \<or> se_expiresAt e \<le> now then Inr (RO_invalid, s)
      else bind_res (insertRow token_clash (nextToken env ids now (rt_sessionId t)) (refresh_tokens s)) (\<lambda>ts.
        Inr (RO_rotated (se_userId e) (rt_sessionId t),
          updateSession (rt_sessionId t) (rotatedSession env ids now)
            (updateTokens (\<lambda>r. rt_id r = rt_id t) (usedToken ids now t) (s\<lparr>refresh_tokens := ts\<rparr>)))))"

definition refreshWithin :: "auth_env \<Rightarrow> auth_ids \<Rightarrow> int \<Rightarrow> string \<Rightarrow> ('m auth_db_scheme, refresh_outcome) tx" where
  "refreshWithin env ids now rawToken s =
     (case findToken (digest env rawToken) s of
        None \<Rightarrow> Inr (RO_invalid, s)
      | Some t \<Rightarrow>
     if rt_revokedAt t \<noteq> None \<or> rt_expiresAt t \<le> now then Inr (RO_invalid, s)
     else (case findSession (rt_sessionId t) s of
        None \<Rightarrow> Inl RecordMissing
      | Some e \<Rightarrow>
     (case undeliveredReplacement env now t (se_currentTokenHash e) s of
        Some retry \<Rightarrow> rotateWithin env ids now t e (updateTokens (\<lambda>r. rt_id r = rt_id retry) (revokeToken now) s)
      | None \<Rightarrow>
        if rt_consumedAt t \<noteq> None \<or> se_currentTokenHash e \<noteq> digest env rawToken
        then Inr (RO_compromised, compromise now (rt_sessionId t) s)
        else rotateWithin env ids now t e s)))"

definition refresh :: "auth_env \<Rightarrow> auth_ids \<Rightarrow> int \<Rightarrow> string \<Rightarrow> ('m auth_db_scheme, token_pair) handler" where
  "refresh env ids now rawToken s =
     (case serializable (refreshWithin env ids now rawToken) s of
        (Inl e, s1) \<Rightarrow> (Inl e, s1)
      | (Inr (RO_rotated userId sessionId), s1) \<Rightarrow> (Inr (tokenPair env now userId sessionId (ai_rawToken ids)), s1)
      | (Inr _, s1) \<Rightarrow> (Inl (Unauthorized ''Refresh token is invalid''), s1))"

definition revokeSessions :: "(session_row \<Rightarrow> bool) \<Rightarrow> int \<Rightarrow> string \<Rightarrow> 'm auth_db_scheme \<Rightarrow> 'm auth_db_scheme" where
  "revokeSessions which now reason s =
     (let ids = map se_id (filter (\<lambda>e. which e \<and> se_status e = SE_ACTIVE) (sessions s)) in
      if ids = [] then s
      else s\<lparr>sessions := update_where (\<lambda>e. se_id e \<in> set ids) (endSession SE_REVOKED now reason) (sessions s),
             refresh_tokens := update_where (\<lambda>t. rt_sessionId t \<in> set ids \<and> rt_revokedAt t = None) (revokeToken now) (refresh_tokens s)\<rparr>)"

definition logout :: "int \<Rightarrow> string \<Rightarrow> 'm auth_db_scheme \<Rightarrow> 'm auth_db_scheme" where
  "logout now sessionId = revokeSessions (\<lambda>e. se_id e = sessionId) now ''user_logout''"

definition logoutAll :: "int \<Rightarrow> string \<Rightarrow> 'm auth_db_scheme \<Rightarrow> 'm auth_db_scheme" where
  "logoutAll now userId = revokeSessions (\<lambda>e. se_userId e = userId) now ''user_logout_all''"

definition createSessionForUser :: "auth_env \<Rightarrow> auth_ids \<Rightarrow> int \<Rightarrow> string \<Rightarrow> client_context \<Rightarrow> ('m auth_db_scheme, token_pair) handler" where
  "createSessionForUser env ids now userId context s =
     (if findUser userId s = None then (Inl RecordMissing, s)
      else createSession env ids now userId context (updateUser userId (\<lambda>u. u\<lparr>ur_lastLoginAt := Some now\<rparr>) s))"

section \<open>The guards of a request\<close>

text \<open>What the guards read of a request; \<open>hr_public\<close> is the marker of a public endpoint.\<close>

record http_request =
  hr_method :: string
  hr_public :: bool
  hr_authorization :: "string option"
  hr_accessCookie :: "string option"
  hr_csrfCookie :: "string option"
  hr_csrfHeader :: "string option"

record authenticated_user =
  au_userId :: string
  au_sessionId :: string
  au_roles :: "string list"
  au_permissions :: "string list"

definition hasBearerCredential :: "http_request \<Rightarrow> bool" where
  "hasBearerCredential r = (case hr_authorization r of None \<Rightarrow> False | Some h \<Rightarrow> take 7 h = ''Bearer '')"

definition extractAccessToken :: "http_request \<Rightarrow> string option" where
  "extractAccessToken r =
     (case hr_authorization r of
        None \<Rightarrow> hr_accessCookie r
      | Some h \<Rightarrow> if take 7 h = ''Bearer '' then Some (drop 7 h) else hr_accessCookie r)"

definition unexpired :: "int \<Rightarrow> user_role \<Rightarrow> bool" where
  "unexpired now a = (case ua_expiresAt a of None \<Rightarrow> True | Some t \<Rightarrow> t > now)"

definition rolesOf :: "int \<Rightarrow> string \<Rightarrow> 'm auth_db_scheme \<Rightarrow> role_row list" where
  "rolesOf now userId s =
     concat (map (\<lambda>a. filter (\<lambda>r. ro_id r = ua_roleId a) (roles s)) (filter (\<lambda>a. ua_userId a = userId \<and> unexpired now a) (user_roles s)))"

text \<open>
  \<^verbatim>\<open>verifyAsync\<close> is the argument \<open>verifyAccess\<close>: the claims of a token that verifies at this instant. A \<^verbatim>\<open>Set\<close> keeps the first occurrence of
  each element.
\<close>

definition firstOccurrences :: "'a list \<Rightarrow> 'a list" where
  "firstOccurrences xs = rev (remdups (rev xs))"

definition accessTokenGuard ::
  "(string \<Rightarrow> int \<Rightarrow> access_claims option) \<Rightarrow> int \<Rightarrow> http_request \<Rightarrow> 'm auth_db_scheme \<Rightarrow> authenticated_user res" where
  "accessTokenGuard verifyAccess now r s =
     (let refused = Inl (Unauthorized ''Authentication required'') in
      case truthy (extractAccessToken r) of
        None \<Rightarrow> refused
      | Some token \<Rightarrow>
     (case verifyAccess token now of
        None \<Rightarrow> refused
      | Some claims \<Rightarrow>
      if ac_typ claims \<noteq> ''access'' then refused
      else (case findSession (ac_sid claims) s of
        None \<Rightarrow> refused
      | Some e \<Rightarrow>
     (case findUser (se_userId e) s of
        None \<Rightarrow> refused
      | Some u \<Rightarrow>
      if se_userId e \<noteq> ac_sub claims \<or> se_status e \<noteq> SE_ACTIVE \<or> se_expiresAt e \<le> now \<or> ur_status u \<noteq> US_ACTIVE then refused
      else Inr \<lparr>au_userId = ac_sub claims, au_sessionId = ac_sid claims,
             au_roles = firstOccurrences (map ro_name (rolesOf now (ur_id u) s)),
             au_permissions = firstOccurrences (concat (map ro_permissions (rolesOf now (ur_id u) s)))\<rparr>))))"

definition SAFE_METHODS :: "string list" where "SAFE_METHODS = [''GET'', ''HEAD'', ''OPTIONS'']"

definition csrfGuard :: "http_request \<Rightarrow> unit res" where
  "csrfGuard r =
     (if hr_method r \<in> set SAFE_METHODS then Inr ()
      else if hr_public r then Inr ()
      else if hasBearerCredential r then Inr ()
      else if truthy (hr_accessCookie r) = None then Inr ()
      else (case (truthy (hr_csrfCookie r), truthy (hr_csrfHeader r)) of
          (Some cookie, Some header) \<Rightarrow> if length cookie = length header \<and> cookie = header then Inr () else Inl (Forbidden ''Invalid CSRF token'')
        | _ \<Rightarrow> Inl (Forbidden ''Invalid CSRF token'')))"

end
