(* ===== verification/Sign_In.thy ===== *)
theory Sign_In
  imports Auth
begin

text \<open>
  The other ways into an account: one-time codes for the console (\<^verbatim>\<open>src/modules/auth/passwordless.service.ts\<close>), password reset
  (\<^verbatim>\<open>password-reset.service.ts\<close>) and Google (\<^verbatim>\<open>google-oauth.service.ts\<close>). A request for an address that has no eligible account is answered with a
  decoy of the same shape. The claims that Google's token endpoint answers with are an argument.
\<close>

section \<open>One-time codes and password reset\<close>

definition ADMIN_PERMISSIONS :: "string list" where "ADMIN_PERMISSIONS = [''audit.read'', ''users.read'']"

definition eligibleAdmin :: "int \<Rightarrow> 'm auth_db_scheme \<Rightarrow> user_row \<Rightarrow> bool" where
  "eligibleAdmin now s u \<longleftrightarrow> ur_status u = US_ACTIVE
     \<and> list_ex (\<lambda>r. list_ex (\<lambda>p. p \<in> set ADMIN_PERMISSIONS) (ro_permissions r)) (rolesOf now (ur_id u) s)"

definition findEligibleAdmin :: "int \<Rightarrow> string \<Rightarrow> 'm auth_db_scheme \<Rightarrow> user_row option" where
  "findEligibleAdmin now email s = List.find (\<lambda>u. ur_email u = Some email \<and> eligibleAdmin now s u) (users s)"

definition openLogin :: "string \<Rightarrow> verification_challenge \<Rightarrow> bool" where
  "openLogin userId c \<longleftrightarrow> ch_userId c = userId \<and> ch_channel c = VC_EMAIL \<and> ch_purpose c = VP_LOGIN \<and> open_challenge c"

definition openReset :: "string \<Rightarrow> verification_challenge \<Rightarrow> bool" where
  "openReset userId c \<longleftrightarrow> ch_userId c = userId \<and> ch_purpose c = VP_PASSWORD_RESET \<and> open_challenge c"

record challenge_view =
  cv_challengeId :: string
  cv_destinationMasked :: string
  cv_expiresAt :: int
  cv_resendAvailableAt :: int

definition describeChallenge :: "verification_challenge \<Rightarrow> challenge_view" where
  "describeChallenge c = \<lparr>cv_challengeId = ch_id c, cv_destinationMasked = ch_destinationMasked c, cv_expiresAt = ch_expiresAt c,
     cv_resendAvailableAt = ch_resendAvailableAt c\<rparr>"

definition decoyChallenge :: "auth_ids \<Rightarrow> int \<Rightarrow> string \<Rightarrow> challenge_view" where
  "decoyChallenge ids now destination = \<lparr>cv_challengeId = ai_challenge ids, cv_destinationMasked = maskVerificationDestination destination,
     cv_expiresAt = now + VERIFICATION_CODE_TTL_MS, cv_resendAvailableAt = now + VERIFICATION_RESEND_COOLDOWN_MS\<rparr>"

text \<open>Replacing the open challenges of the user and sending the code of the new one.\<close>

definition issueCode ::
  "(verification_challenge \<Rightarrow> bool) \<Rightarrow> int \<Rightarrow> verification_challenge \<Rightarrow> string \<Rightarrow> string \<Rightarrow> ('m auth_db_scheme, challenge_view) handler" where
  "issueCode which now c template dedupe s =
     (case serializable (replaceChallenge which now c) s of
        (Inl e, s1) \<Rightarrow> (Inl e, s1)
      | (Inr _, s1) \<Rightarrow> (Inr (describeChallenge c), notify (ch_userId c) template None (dedupe @ ch_id c) s1))"

definition requestCode :: "auth_env \<Rightarrow> auth_ids \<Rightarrow> int \<Rightarrow> string \<Rightarrow> ('m auth_db_scheme, challenge_view) handler" where
  "requestCode env ids now rawEmail s =
     (let email = toLowerCase (trim rawEmail) in
      case findEligibleAdmin now email s of
        None \<Rightarrow> (Inr (decoyChallenge ids now email), s)
      | Some u \<Rightarrow>
        (let fresh = issueCode (openLogin (ur_id u)) now (newChallenge env ids now VP_LOGIN (ur_id u) email) ''sign-in-code'' ''sign-in-code:'' s in
         case newest ch_createdAt (filter (openLogin (ur_id u)) (challenges s)) of
           None \<Rightarrow> fresh
         | Some existing \<Rightarrow> if ch_resendAvailableAt existing > now then (Inr (describeChallenge existing), s) else fresh))"

definition findChallenge :: "string \<Rightarrow> 'm auth_db_scheme \<Rightarrow> verification_challenge option" where
  "findChallenge challengeId s = List.find (\<lambda>c. ch_id c = challengeId) (challenges s)"

definition resendCode :: "auth_env \<Rightarrow> auth_ids \<Rightarrow> int \<Rightarrow> string \<Rightarrow> ('m auth_db_scheme, challenge_view) handler" where
  "resendCode env ids now challengeId s =
     (let gone = (Inl (Unauthorized ''Sign-in request is no longer valid''), s) in
      case findChallenge challengeId s of
        None \<Rightarrow> gone
      | Some current \<Rightarrow>
      if ch_purpose current \<noteq> VP_LOGIN \<or> ch_consumedAt current \<noteq> None then gone
      else if ch_resendAvailableAt current > now then (Inl (TooManyRequests ''Another code can be sent after''), s)
      else (case findUser (ch_userId current) s of
        None \<Rightarrow> gone
      | Some u \<Rightarrow>
     (case truthy (ur_email u) of
        None \<Rightarrow> gone
      | Some email \<Rightarrow> issueCode (openLogin (ur_id u)) now (newChallenge env ids now VP_LOGIN (ur_id u) email) ''sign-in-code'' ''sign-in-code:'' s)))"

datatype redeem_outcome = RD_invalid | RD_expired | RD_locked | RD_ok string

text \<open>The check the two services share: a wrong code is counted, a right one consumes the challenge and runs what follows.\<close>

definition redeemWithin ::
  "auth_env \<Rightarrow> verification_purpose \<Rightarrow> int \<Rightarrow> string \<Rightarrow> string \<Rightarrow> (string \<Rightarrow> ('m auth_db_scheme, unit) tx) \<Rightarrow> ('m auth_db_scheme, redeem_outcome) tx" where
  "redeemWithin env purpose now challengeId code andThen s =
     (case findChallenge challengeId s of
        None \<Rightarrow> Inr (RD_invalid, s)
      | Some c \<Rightarrow>
      if ch_purpose c \<noteq> purpose \<or> \<not> open_challenge c then Inr (RD_invalid, s)
      else if ch_expiresAt c \<le> now then Inr (RD_expired, s)
      else if ch_attemptCount c \<ge> ch_maxAttempts c then Inr (RD_locked, s)
      else if \<not> verificationCodeMatches env (ch_id c) code (ch_codeHash c) then Inr (RD_invalid, wrongCode now c s)
      else bind_res (andThen (ch_userId c) (consumeChallenge now (ch_id c) s)) (\<lambda>(_, s1). Inr (RD_ok (ch_userId c), s1)))"

definition requireUser :: "string \<Rightarrow> (user_row \<Rightarrow> user_row) \<Rightarrow> ('m core_db_scheme, unit) tx" where
  "requireUser userId f s = (if findUser userId s = None then Inl RecordMissing else Inr ((), updateUser userId f s))"

definition signInEffects :: "int \<Rightarrow> string \<Rightarrow> ('m auth_db_scheme, unit) tx" where
  "signInEffects now userId s =
     bind_res (requireUser userId (\<lambda>u. u\<lparr>ur_lastLoginAt := Some now\<rparr>) s) (\<lambda>(_, s1).
       Inr ((), audit (Some userId) ''auth.passwordless_login'' ''User'' (Some userId) None s1))"

definition verifyCode :: "auth_env \<Rightarrow> auth_ids \<Rightarrow> int \<Rightarrow> string \<Rightarrow> string \<Rightarrow> client_context \<Rightarrow> ('m auth_db_scheme, token_pair) handler" where
  "verifyCode env ids now challengeId code context s =
     (case serializable (redeemWithin env VP_LOGIN now challengeId code (signInEffects now)) s of
        (Inl e, s1) \<Rightarrow> (Inl e, s1)
      | (Inr RD_expired, s1) \<Rightarrow> (Inl (Unauthorized ''That code has expired - request a new one''), s1)
      | (Inr RD_locked, s1) \<Rightarrow> (Inl (TooManyRequests ''Too many incorrect codes''), s1)
      | (Inr RD_invalid, s1) \<Rightarrow> (Inl (Unauthorized ''That code is not correct''), s1)
      | (Inr (RD_ok userId), s1) \<Rightarrow>
          if list_ex (\<lambda>u. ur_id u = userId \<and> eligibleAdmin now s1 u) (users s1) then createSession env ids now userId context s1
          else (Inl (Unauthorized ''This account cannot access the console''), s1))"

definition eligibleForReset :: "'m auth_db_scheme \<Rightarrow> user_row \<Rightarrow> bool" where
  "eligibleForReset s u \<longleftrightarrow> findCredential (ur_id u) s \<noteq> None \<and> ur_status u \<noteq> US_SUSPENDED \<and> ur_status u \<noteq> US_DEACTIVATED"

definition requestReset :: "auth_env \<Rightarrow> auth_ids \<Rightarrow> int \<Rightarrow> string \<Rightarrow> ('m auth_db_scheme, challenge_view) handler" where
  "requestReset env ids now rawEmail s =
     (let email = toLowerCase (trim rawEmail) in
      case findUserByEmail email s of
        None \<Rightarrow> (Inr (decoyChallenge ids now email), s)
      | Some u \<Rightarrow>
      if \<not> eligibleForReset s u then (Inr (decoyChallenge ids now email), s)
      else (let fresh = issueCode (openReset (ur_id u)) now (newChallenge env ids now VP_PASSWORD_RESET (ur_id u) email) ''account-verification-email'' ''password-reset:'' s in
        case newest ch_createdAt (filter (openReset (ur_id u)) (challenges s)) of
          None \<Rightarrow> fresh
        | Some existing \<Rightarrow> if ch_resendAvailableAt existing > now then (Inr (describeChallenge existing), s) else fresh))"

definition storePassword :: "int \<Rightarrow> string \<Rightarrow> string \<Rightarrow> user_credential list \<Rightarrow> user_credential list" where
  "storePassword now userId passwordHash rows =
     (if list_ex (\<lambda>c. cd_userId c = userId) rows
      then update_where (\<lambda>c. cd_userId c = userId) (\<lambda>c. c\<lparr>cd_passwordHash := passwordHash, cd_changedAt := now\<rparr>) rows
      else rows @ [\<lparr>cd_userId = userId, cd_passwordHash = passwordHash, cd_changedAt = now\<rparr>])"

text \<open>The sessions are ended; their refresh tokens are left as they are.\<close>

definition resetEffects :: "int \<Rightarrow> string \<Rightarrow> string \<Rightarrow> ('m auth_db_scheme, unit) tx" where
  "resetEffects now passwordHash userId s =
     bind_res (requireUser userId (\<lambda>u. u\<lparr>ur_status := US_ACTIVE, ur_emailVerifiedAt := Some now\<rparr>)
         (s\<lparr>credentials := storePassword now userId passwordHash (credentials s)\<rparr>)) (\<lambda>(_, s1).
       Inr ((), s1\<lparr>sessions := update_where (\<lambda>e. se_userId e = userId \<and> se_status e = SE_ACTIVE) (endSession SE_REVOKED now ''password_reset'') (sessions s1)\<rparr>))"

definition completeReset :: "auth_env \<Rightarrow> int \<Rightarrow> string \<Rightarrow> string \<Rightarrow> string \<Rightarrow> ('m auth_db_scheme, unit) handler" where
  "completeReset env now challengeId code passwordHash s =
     (case serializable (redeemWithin env VP_PASSWORD_RESET now challengeId code (resetEffects now passwordHash)) s of
        (Inl e, s1) \<Rightarrow> (Inl e, s1)
      | (Inr RD_expired, s1) \<Rightarrow> (Inl (BadRequest ''This code has expired''), s1)
      | (Inr RD_locked, s1) \<Rightarrow> (Inl (BadRequest ''Too many attempts. Request a new code''), s1)
      | (Inr RD_invalid, s1) \<Rightarrow> (Inl (Unauthorized ''Invalid or expired code''), s1)
      | (Inr (RD_ok _), s1) \<Rightarrow> (Inr (), s1))"

section \<open>Google\<close>

record google_claims =
  gc_sub :: string
  gc_email :: "string option"
  gc_emailVerified :: bool
  gc_givenName :: "string option"
  gc_familyName :: "string option"
  gc_name :: "string option"

text \<open>The dash that stands for a missing last name is written as a hyphen.\<close>

definition splitName :: "google_claims \<Rightarrow> string \<times> string" where
  "splitName claims =
     (let given = truthy (map_option trim (gc_givenName claims)); family = truthy (map_option trim (gc_familyName claims)) in
      if given \<noteq> None \<or> family \<noteq> None then (or_default given (or_default family ''Member''), or_default family ''-'')
      else let parts = (case gc_name claims of None \<Rightarrow> [] | Some n \<Rightarrow> filter (\<lambda>w. w \<noteq> []) (splitRuns (\<lambda>c. \<not> is_space c) (trim n))) in
        case parts of
          [] \<Rightarrow> (''Member'', ''-'')
        | first # rest \<Rightarrow> (first, if rest = [] then ''-'' else joinSpace rest))"

definition identity_clash :: "user_identity \<Rightarrow> user_identity \<Rightarrow> bool" where
  "identity_clash a b \<longleftrightarrow> ui_id a = ui_id b \<or> ui_providerUserId a = ui_providerUserId b \<or> ui_userId a = ui_userId b"

definition googleIdentity :: "auth_ids \<Rightarrow> int \<Rightarrow> string \<Rightarrow> string \<Rightarrow> string \<Rightarrow> user_identity" where
  "googleIdentity ids now userId sub email = \<lparr>ui_id = ai_identity ids, ui_userId = userId, ui_providerUserId = sub, ui_email = Some email, ui_lastLoginAt = Some now\<rparr>"

definition linkIdentity :: "auth_ids \<Rightarrow> int \<Rightarrow> user_row \<Rightarrow> string \<Rightarrow> string \<Rightarrow> ('m auth_db_scheme, unit) tx" where
  "linkIdentity ids now u sub email s =
     bind_res (insertRow identity_clash (googleIdentity ids now (ur_id u) sub email) (identities s)) (\<lambda>rows.
       requireUser (ur_id u) (\<lambda>v. v\<lparr>ur_status := US_ACTIVE, ur_emailVerifiedAt := Some (or_default (ur_emailVerifiedAt u) now)\<rparr>) (s\<lparr>identities := rows\<rparr>))"

definition createGoogleMember :: "auth_ids \<Rightarrow> int \<Rightarrow> google_claims \<Rightarrow> string \<Rightarrow> ('m auth_db_scheme, unit) tx" where
  "createGoogleMember ids now claims email s =
     (let u = \<lparr>ur_id = ai_user ids, ur_email = Some email, ur_phone = None, ur_status = US_ACTIVE, ur_referralCode = None,
                ur_emailVerifiedAt = Some now, ur_lastLoginAt = None\<rparr>; (firstName, lastName) = splitName claims in
      bind_res (insertRow user_clash u (users s)) (\<lambda>us.
      bind_res (insertRow (\<lambda>a b. wl_id a = wl_id b \<or> (wl_userId a = wl_userId b \<and> wl_currency a = wl_currency b))
          \<lparr>wl_id = ai_wallet ids, wl_userId = ur_id u, wl_currency = ''NGN'', wl_status = WS_ACTIVE\<rparr> (wallets s)) (\<lambda>ws.
      bind_res (insertRow (\<lambda>a b. pf_userId a = pf_userId b) (newProfile (ur_id u) firstName lastName) (profiles s)) (\<lambda>ps.
      bind_res (insertRow identity_clash (googleIdentity ids now (ur_id u) (gc_sub claims) email) (identities s)) (\<lambda>is.
        Inr ((), s\<lparr>users := us, wallets := ws, profiles := ps, identities := is\<rparr>))))))"

text \<open>A transaction followed by a session for the user.\<close>

definition thenSession :: "auth_env \<Rightarrow> auth_ids \<Rightarrow> int \<Rightarrow> string \<Rightarrow> client_context \<Rightarrow> ('m auth_db_scheme, unit) tx \<Rightarrow> ('m auth_db_scheme, token_pair) handler" where
  "thenSession env ids now userId context body s =
     (case serializable body s of (Inl e, s1) \<Rightarrow> (Inl e, s1) | (Inr _, s1) \<Rightarrow> createSessionForUser env ids now userId context s1)"

definition resolveUser :: "auth_env \<Rightarrow> auth_ids \<Rightarrow> int \<Rightarrow> google_claims \<Rightarrow> client_context \<Rightarrow> ('m auth_db_scheme, token_pair) handler" where
  "resolveUser env ids now claims context s =
     (case truthy (map_option (\<lambda>e. toLowerCase (trim e)) (gc_email claims)) of
        None \<Rightarrow> (Inl (BadRequest ''A verified Google email address is required''), s)
      | Some email \<Rightarrow>
      if \<not> gc_emailVerified claims then (Inl (BadRequest ''A verified Google email address is required''), s)
      else (case List.find (\<lambda>i. ui_providerUserId i = gc_sub claims) (identities s) of
        Some i \<Rightarrow>
          (case findUser (ui_userId i) s of
             None \<Rightarrow> (Inl RecordMissing, s)
           | Some u \<Rightarrow>
             if ur_status u \<noteq> US_ACTIVE then (Inl (BadRequest ''This account is not available''), s)
             else createSessionForUser env ids now (ui_userId i) context
               (s\<lparr>identities := update_where (\<lambda>j. ui_id j = ui_id i) (\<lambda>j. j\<lparr>ui_lastLoginAt := Some now, ui_email := Some email\<rparr>) (identities s)\<rparr>))
      | None \<Rightarrow>
     (case findUserByEmail email s of
        Some u \<Rightarrow>
          if ur_status u = US_SUSPENDED \<or> ur_status u = US_DEACTIVATED then (Inl (BadRequest ''This account is not available''), s)
          else thenSession env ids now (ur_id u) context (linkIdentity ids now u (gc_sub claims) email) s
      | None \<Rightarrow> thenSession env ids now (ai_user ids) context (createGoogleMember ids now claims email) s)))"

section \<open>The state of a started sign-in and the handoff to the app\<close>

definition STATE_TTL_MS :: int where "STATE_TTL_MS = 10 * 60 * 1000"
definition HANDOFF_TTL_MS :: int where "HANDOFF_TTL_MS = 2 * 60 * 1000"

datatype oauth_client = WEB | MOBILE

definition clientName :: "oauth_client \<Rightarrow> string" where
  "clientName c = (case c of WEB \<Rightarrow> ''web'' | MOBILE \<Rightarrow> ''mobile'')"

definition dot :: "char \<Rightarrow> bool" where "dot c \<longleftrightarrow> c = CHR ''.''"

definition stateSignature :: "auth_env \<Rightarrow> string \<Rightarrow> string" where
  "stateSignature env payload = ae_hmac env (ae_tokenPepper env) payload"

text \<open>\<open>nonce\<close> is the random part, in hexadecimal.\<close>

definition signState :: "auth_env \<Rightarrow> int \<Rightarrow> string \<Rightarrow> oauth_client \<Rightarrow> string" where
  "signState env now nonce client =
     (let payload = clientName client @ ''.'' @ showInt (now + STATE_TTL_MS) @ ''.'' @ nonce in payload @ ''.'' @ stateSignature env payload)"

definition afterLastDot :: "string \<Rightarrow> string" where
  "afterLastDot t = rev (takeWhile (\<lambda>c. \<not> dot c) (rev t))"

definition beforeLastDot :: "string \<Rightarrow> string" where
  "beforeLastDot t = rev (drop 1 (dropWhile (\<lambda>c. \<not> dot c) (rev t)))"

text \<open>
  \<^verbatim>\<open>Number\<close> of the second part: the model reads the decimal digits the service writes there (the empty text is 0); a signed payload has no other form. \<open>None\<close> is \<^verbatim>\<open>NaN\<close>, which
  is not smaller than any number.
\<close>

definition readDecimal :: "string \<Rightarrow> int option" where
  "readDecimal t = (if list_all is_digit t then Some (digitsNumber t 0) else None)"

definition verifyState :: "auth_env \<Rightarrow> int \<Rightarrow> string \<Rightarrow> oauth_client res" where
  "verifyState env now state =
     (if \<not> list_ex dot state then Inl (BadRequest ''Google sign-in failed'')
      else let payload = beforeLastDot state; provided = afterLastDot state; expected = stateSignature env payload in
      if length provided \<noteq> length expected \<or> provided \<noteq> expected then Inl (BadRequest ''Google sign-in failed'')
      else let client = takeWhile (\<lambda>c. \<not> dot c) payload; expiresAt = takeWhile (\<lambda>c. \<not> dot c) (drop 1 (dropWhile (\<lambda>c. \<not> dot c) payload)) in
      if (case readDecimal expiresAt of None \<Rightarrow> False | Some t \<Rightarrow> t < now) then Inl (BadRequest ''Google sign-in expired'')
      else Inr (if client = ''mobile'' then MOBILE else WEB))"

text \<open>The in-memory map of one-time codes, in insertion order.\<close>

type_synonym handoffs = "(string \<times> token_pair \<times> int) list"

definition pruneHandoffs :: "int \<Rightarrow> handoffs \<Rightarrow> handoffs" where
  "pruneHandoffs now m = filter (\<lambda>(code, tokens, expiresAt). expiresAt > now) m"

definition createHandoff :: "string \<Rightarrow> int \<Rightarrow> token_pair \<Rightarrow> handoffs \<Rightarrow> string \<times> handoffs" where
  "createHandoff code now tokens m = (code, filter (\<lambda>e. fst e \<noteq> code) (pruneHandoffs now m) @ [(code, tokens, now + HANDOFF_TTL_MS)])"

definition redeemHandoff :: "int \<Rightarrow> string \<Rightarrow> handoffs \<Rightarrow> token_pair res \<times> handoffs" where
  "redeemHandoff now code m =
     (let m1 = pruneHandoffs now m in
      case map_of m1 code of
        None \<Rightarrow> (Inl (BadRequest ''This sign-in link is no longer valid''), m1)
      | Some (tokens, _) \<Rightarrow> (Inr tokens, filter (\<lambda>e. fst e \<noteq> code) m1))"

end
