(* ===== verification/Auth_Safety.thy ===== *)
theory Auth_Safety
  imports Sign_In
begin

text \<open>
  What is shown of accounts and sessions: a session has one live refresh token at a time and never resumes once it has ended; a token used a second time ends its
  session, except where the answer to the first use was lost; registration and verification lead to a session; a password reset ends all sessions and lets the new
  password in; and the two ways in which an account made through Google differs from a registered one.
\<close>

section \<open>Tables\<close>

lemma newest_in: "newest f rs = Some r \<Longrightarrow> r \<in> set rs"
  by (induction rs arbitrary: r) (auto split: option.splits if_splits)

lemma newest_single: "newest f [r] = Some r"
  by simp

lemma updateUser_frame [simp]:
  "sessions (updateUser u f s) = sessions s" "refresh_tokens (updateUser u f s) = refresh_tokens s" "challenges (updateUser u f s) = challenges s"
  "credentials (updateUser u f s) = credentials s" "identities (updateUser u f s) = identities s"
  by (simp_all add: updateUser_def)

lemma updateChallenge_frame [simp]:
  "sessions (updateChallenge i f s) = sessions s" "refresh_tokens (updateChallenge i f s) = refresh_tokens s"
  "users (updateChallenge i f s) = users s" "credentials (updateChallenge i f s) = credentials s"
  by (simp_all add: updateChallenge_def)

lemma log_frame [simp]:
  fixes s :: "'m auth_db_scheme"
  shows "sessions (audit a b c d e s) = sessions s" "refresh_tokens (audit a b c d e s) = refresh_tokens s"
    "challenges (audit a b c d e s) = challenges s" "credentials (audit a b c d e s) = credentials s"
    "sessions (notify f g h i s) = sessions s" "refresh_tokens (notify f g h i s) = refresh_tokens s"
    "challenges (notify f g h i s) = challenges s" "credentials (notify f g h i s) = credentials s"
  by (simp_all add: audit_def notify_def)

section \<open>Sessions and their tokens\<close>

definition live :: "refresh_token \<Rightarrow> bool" where
  "live t \<longleftrightarrow> rt_consumedAt t = None \<and> rt_revokedAt t = None"

text \<open>Ids and digests are unique, every token belongs to a session, and a live token is the current one of its session.\<close>

definition tokens_fit :: "session_row list \<Rightarrow> refresh_token list \<Rightarrow> bool" where
  "tokens_fit ss ts \<longleftrightarrow> distinct (map se_id ss) \<and> distinct (map rt_id ts) \<and> distinct (map rt_tokenHash ts)
     \<and> list_all (\<lambda>t. list_ex (\<lambda>e. se_id e = rt_sessionId t \<and> (live t \<longrightarrow> se_currentTokenHash e = rt_tokenHash t)) ss) ts"

definition sessions_wf :: "'m auth_db_scheme \<Rightarrow> bool" where
  "sessions_wf s \<longleftrightarrow> tokens_fit (sessions s) (refresh_tokens s)"

text \<open>A session that had ended in \<open>ss0\<close> is still there and still not active.\<close>

definition stay_ended :: "session_row list \<Rightarrow> session_row list \<Rightarrow> bool" where
  "stay_ended ss0 ss \<longleftrightarrow> (\<forall>e0 \<in> set ss0. se_status e0 \<noteq> SE_ACTIVE \<longrightarrow> (\<exists>e \<in> set ss. se_id e = se_id e0 \<and> se_status e \<noteq> SE_ACTIVE))"

definition sess_ok :: "session_row list \<Rightarrow> session_row list \<Rightarrow> refresh_token list \<Rightarrow> bool" where
  "sess_ok ss0 ss ts \<longleftrightarrow> tokens_fit ss ts \<and> stay_ended ss0 ss"

lemma tokens_fitD:
  assumes "tokens_fit ss ts" and "t \<in> set ts"
  obtains e where "e \<in> set ss" "se_id e = rt_sessionId t" "live t \<Longrightarrow> se_currentTokenHash e = rt_tokenHash t"
  using assms by (auto simp: tokens_fit_def list_all_iff list_ex_iff)

text \<open>Changing sessions without touching id, current digest or an ended status, and tokens without reviving one, keeps everything.\<close>

lemma sess_ok_update:
  assumes "sess_ok ss0 ss ts"
    and "\<And>e. se_id (f e) = se_id e \<and> se_currentTokenHash (f e) = se_currentTokenHash e \<and> (se_status e \<noteq> SE_ACTIVE \<longrightarrow> se_status (f e) \<noteq> SE_ACTIVE)"
    and "\<And>t. rt_id (g t) = rt_id t \<and> rt_sessionId (g t) = rt_sessionId t \<and> rt_tokenHash (g t) = rt_tokenHash t \<and> (live (g t) \<longrightarrow> live t)"
  shows "sess_ok ss0 (update_where P f ss) (update_where Q g ts)"
proof -
  have "list_ex (\<lambda>e. se_id e = rt_sessionId t \<and> (live t \<longrightarrow> se_currentTokenHash e = rt_tokenHash t)) (update_where P f ss)"
    if "t \<in> set (update_where Q g ts)" for t
  proof -
    from that obtain r where r: "r \<in> set ts" "rt_sessionId t = rt_sessionId r" "rt_tokenHash t = rt_tokenHash r" "live t \<longrightarrow> live r"
      using assms(3) by (auto simp: update_where_def split: if_splits)
    from tokens_fitD [OF _ r(1)] assms(1) obtain e where e: "e \<in> set ss" "se_id e = rt_sessionId r" "live r \<Longrightarrow> se_currentTokenHash e = rt_tokenHash r"
      unfolding sess_ok_def by metis
    then have "(if P e then f e else e) \<in> set (update_where P f ss)" by (auto simp: update_where_def)
    then show ?thesis unfolding list_ex_iff by (rule bexI [rotated]) (use e r assms(2) [of e] in auto)
  qed
  moreover have "stay_ended ss0 (update_where P f ss)"
    unfolding stay_ended_def
  proof (intro ballI impI)
    fix e0 assume "e0 \<in> set ss0" "se_status e0 \<noteq> SE_ACTIVE"
    with assms(1) obtain e where e: "e \<in> set ss" "se_id e = se_id e0" "se_status e \<noteq> SE_ACTIVE" by (auto simp: sess_ok_def stay_ended_def)
    then have "(if P e then f e else e) \<in> set (update_where P f ss)" by (auto simp: update_where_def)
    then show "\<exists>e \<in> set (update_where P f ss). se_id e = se_id e0 \<and> se_status e \<noteq> SE_ACTIVE"
      by (rule bexI [rotated]) (use e assms(2) [of e] in auto)
  qed
  ultimately show ?thesis
    using assms by (simp add: sess_ok_def tokens_fit_def list_all_iff map_update_where)
qed

lemma sess_ok_insert:
  assumes "sess_ok ss0 ss ts" and "se_id e \<notin> se_id ` set ss" and "\<forall>r \<in> set ts. \<not> token_clash t r"
    and "rt_sessionId t = se_id e" and "rt_tokenHash t = se_currentTokenHash e"
  shows "sess_ok ss0 (ss @ [e]) (ts @ [t])"
  using assms by (auto simp: sess_ok_def tokens_fit_def stay_ended_def token_clash_def list_all_iff list_ex_iff)

text \<open>Rotation: the session points to the new token, and no other token of the session is live.\<close>

lemma sess_ok_rotate:
  assumes "sess_ok ss0 ss ts" and "\<forall>r \<in> set ts. \<not> token_clash n r" and "t \<in> set ts" and "rt_sessionId n = rt_sessionId t"
    and only: "\<And>r. r \<in> set ts \<Longrightarrow> rt_sessionId r = rt_sessionId t \<Longrightarrow> live r \<Longrightarrow> rt_id r = rt_id t"
    and f: "\<And>e. se_id (f e) = se_id e \<and> se_currentTokenHash (f e) = rt_tokenHash n \<and> se_status (f e) = se_status e"
    and g: "\<And>r. rt_id (g r) = rt_id r \<and> rt_sessionId (g r) = rt_sessionId r \<and> rt_tokenHash (g r) = rt_tokenHash r \<and> \<not> live (g r)"
  shows "sess_ok ss0 (update_where (\<lambda>e. se_id e = rt_sessionId t) f ss) (update_where (\<lambda>r. rt_id r = rt_id t) g (ts @ [n]))"
proof -
  let ?ss = "update_where (\<lambda>e. se_id e = rt_sessionId t) f ss"
  let ?ts = "update_where (\<lambda>r. rt_id r = rt_id t) g (ts @ [n])"
  have dist: "distinct (map rt_id (ts @ [n]))" "distinct (map rt_tokenHash (ts @ [n]))" "distinct (map se_id ss)"
    using assms(1,2) by (auto simp: sess_ok_def tokens_fit_def token_clash_def)
  have "rt_id n \<noteq> rt_id t" using assms(2,3) by (auto simp: token_clash_def)
  then have ts: "?ts = update_where (\<lambda>r. rt_id r = rt_id t) g ts @ [n]" by (simp add: update_where_def)
  have upd: "(if se_id e = rt_sessionId t then f e else e) \<in> set ?ss" if "e \<in> set ss" for e using that by (auto simp: update_where_def)
  have "list_ex (\<lambda>e. se_id e = rt_sessionId r \<and> (live r \<longrightarrow> se_currentTokenHash e = rt_tokenHash r)) ?ss" if "r \<in> set ?ts" for r
  proof (cases "r = n")
    case True
    from tokens_fitD [OF _ assms(3)] assms(1) obtain e where "e \<in> set ss" "se_id e = rt_sessionId t" unfolding sess_ok_def by metis
    with upd [of e] have "f e \<in> set ?ss" by simp
    then show ?thesis unfolding list_ex_iff by (rule bexI [rotated]) (use f [of e] True assms(4) \<open>se_id e = rt_sessionId t\<close> in auto)
  next
    case False
    with that ts obtain q where q: "q \<in> set ts" "r = (if rt_id q = rt_id t then g q else q)" by (auto simp: update_where_def)
    from tokens_fitD [OF _ q(1)] assms(1) obtain e where e: "e \<in> set ss" "se_id e = rt_sessionId q" "live q \<Longrightarrow> se_currentTokenHash e = rt_tokenHash q"
      unfolding sess_ok_def by metis
    have r: "live r \<Longrightarrow> rt_sessionId q \<noteq> rt_sessionId t \<and> r = q" "rt_sessionId r = rt_sessionId q"
      using q(2) g [of q] only [OF q(1)] by (cases "rt_id q = rt_id t"; simp; blast)+
    have hash: "live r \<Longrightarrow> se_currentTokenHash e = rt_tokenHash r \<and> se_id e \<noteq> rt_sessionId t" using r(1) e(2,3) by auto
    from upd [OF e(1)] show ?thesis unfolding list_ex_iff
      by (rule bexI [rotated]) (use hash e(2) r(2) f [of e] in \<open>cases "se_id e = rt_sessionId t"; simp; blast\<close>)
  qed
  moreover have "stay_ended ss0 ?ss"
    unfolding stay_ended_def
  proof (intro ballI impI)
    fix e0 assume "e0 \<in> set ss0" "se_status e0 \<noteq> SE_ACTIVE"
    with assms(1) obtain e where e: "e \<in> set ss" "se_id e = se_id e0" "se_status e \<noteq> SE_ACTIVE" by (auto simp: sess_ok_def stay_ended_def)
    from upd [OF e(1)] show "\<exists>e \<in> set ?ss. se_id e = se_id e0 \<and> se_status e \<noteq> SE_ACTIVE" by (rule bexI [rotated]) (use e f [of e] in auto)
  qed
  moreover have "map rt_id ?ts = map rt_id (ts @ [n])" "map rt_tokenHash ?ts = map rt_tokenHash (ts @ [n])" "map se_id ?ss = map se_id ss"
    using f g by (simp_all add: map_update_where)
  ultimately show ?thesis using dist by (simp add: sess_ok_def tokens_fit_def list_all_iff del: update_where_append)
qed

section \<open>Every request keeps the sessions\<close>

definition session_ok :: "session_row list \<Rightarrow> 'm auth_db_scheme \<Rightarrow> bool" where
  "session_ok ss0 s \<longleftrightarrow> sess_ok ss0 (sessions s) (refresh_tokens s)"

lemma session_ok_log [simp]:
  "session_ok ss0 (notify a b c d s) = session_ok ss0 s" "session_ok ss0 (audit f g h i j s) = session_ok ss0 s"
  "session_ok ss0 (updateUser u k s) = session_ok ss0 s"
  by (simp_all add: session_ok_def)

lemma createSession_cases:
  assumes "createSession env ids now u ctx s = (r, s')"
  obtains (failed) e where "r = Inl e" "s' = s"
  | (made) "r = Inr (tokenPair env now u (ai_session ids) (ai_rawToken ids))"
      "s' = s\<lparr>sessions := sessions s @ [newSession env ids now u ctx], refresh_tokens := refresh_tokens s @
         [newToken (ai_token ids) (ai_session ids) (digest env (ai_rawToken ids)) (now + ae_refreshTtlSeconds env * 1000)]\<rparr>"
      "ai_session ids \<notin> se_id ` set (sessions s)"
      "\<forall>t \<in> set (refresh_tokens s). \<not> token_clash (newToken (ai_token ids) (ai_session ids) (digest env (ai_rawToken ids)) (now + ae_refreshTtlSeconds env * 1000)) t"
  using assms by (force simp: createSession_def serializable_def newSession_def res_iffs split: sum.splits prod.splits)

lemma createSession_fresh:
  assumes "ai_session ids \<notin> se_id ` set (sessions s)" and "ai_token ids \<notin> rt_id ` set (refresh_tokens s)"
    and "digest env (ai_rawToken ids) \<notin> rt_tokenHash ` set (refresh_tokens s)"
  shows "fst (createSession env ids now u ctx s) = Inr (tokenPair env now u (ai_session ids) (ai_rawToken ids))"
proof -
  have "insertRow (\<lambda>a b. se_id a = se_id b) (newSession env ids now u ctx) (sessions s) = Inr (sessions s @ [newSession env ids now u ctx])"
    using assms(1) by (auto simp: newSession_def)
  moreover have "insertRow token_clash (newToken (ai_token ids) (ai_session ids) (digest env (ai_rawToken ids)) x) (refresh_tokens s)
      = Inr (refresh_tokens s @ [newToken (ai_token ids) (ai_session ids) (digest env (ai_rawToken ids)) x])" for x
    using assms(2,3) by (auto simp: token_clash_def newToken_def image_iff)
  ultimately show ?thesis by (simp add: createSession_def serializable_def del: insertRow_Inr_iff)
qed

lemma createSession_ok:
  assumes "session_ok ss0 s"
  shows "session_ok ss0 (snd (createSession env ids now u ctx s))"
proof (cases "createSession env ids now u ctx s" rule: prod.exhaust)
  case (Pair r s')
  then show ?thesis
  proof (cases rule: createSession_cases)
    case made
    with assms Pair show ?thesis
      by (auto simp: session_ok_def newSession_def newToken_def intro!: sess_ok_insert)
  qed (use assms Pair in simp)
qed

lemma endSession_fields:
  assumes "st \<noteq> SE_ACTIVE"
  shows "se_id (endSession st now r e) = se_id e \<and> se_currentTokenHash (endSession st now r e) = se_currentTokenHash e
    \<and> (se_status e \<noteq> SE_ACTIVE \<longrightarrow> se_status (endSession st now r e) \<noteq> SE_ACTIVE)"
  using assms by (simp add: endSession_def)

lemma revokeToken_fields:
  "rt_id (revokeToken now t) = rt_id t \<and> rt_sessionId (revokeToken now t) = rt_sessionId t \<and> rt_tokenHash (revokeToken now t) = rt_tokenHash t
    \<and> (live (revokeToken now t) \<longrightarrow> live t)"
  by (simp add: revokeToken_def live_def)

lemma update_where_False [simp]: "update_where (\<lambda>_. False) f xs = xs"
  by (simp add: update_where_def)

lemmas sess_ok_end = sess_ok_update [where f = "endSession st now r" and g = "revokeToken now'" for st now r now', OF _ endSession_fields revokeToken_fields]

lemma session_ok_tokens:
  "session_ok ss0 s \<Longrightarrow> session_ok ss0 (updateTokens P (revokeToken now) s)"
  using sess_ok_update [of ss0 "sessions s" "refresh_tokens s" "\<lambda>e. e" "revokeToken now" "\<lambda>_. False" P] revokeToken_fields
  by (simp add: session_ok_def updateTokens_def)

lemma compromise_ok: "session_ok ss0 s \<Longrightarrow> session_ok ss0 (compromise now sid s)"
  by (simp add: session_ok_def compromise_def updateTokens_def updateSession_def sess_ok_end)

lemma revokeSessions_ok: "session_ok ss0 s \<Longrightarrow> session_ok ss0 (revokeSessions P now r s)"
  by (simp add: session_ok_def revokeSessions_def Let_def sess_ok_end)

lemma same_session:
  assumes "tokens_fit ss ts" and "List.find (\<lambda>e. se_id e = sid) ss = Some e" and "r \<in> set ts" and "rt_sessionId r = sid" and "live r"
  shows "rt_tokenHash r = se_currentTokenHash e"
proof -
  obtain e' where e': "e' \<in> set ss" "se_id e' = rt_sessionId r" "live r \<Longrightarrow> se_currentTokenHash e' = rt_tokenHash r" using tokens_fitD [OF assms(1,3)] by metis
  have "distinct (map se_id ss)" using assms(1) by (simp add: tokens_fit_def)
  from find_key_unique [OF this e'(1)] e' assms(2,4,5) show ?thesis by simp
qed

lemma tokens_unique:
  assumes "tokens_fit ss ts" and "t \<in> set ts" and "r \<in> set ts" and "rt_tokenHash t = rt_tokenHash r \<or> rt_id t = rt_id r"
  shows "t = r"
  using assms by (auto simp: tokens_fit_def distinct_map dest: inj_onD)

lemma rotateWithin_cases:
  assumes "rotateWithin env ids now t e s = Inr (x, s')"
  obtains (invalid) "x = RO_invalid" "s' = s"
  | (rotated) "x = RO_rotated (se_userId e) (rt_sessionId t)" "se_status e = SE_ACTIVE" "now < se_expiresAt e"
      "\<forall>r \<in> set (refresh_tokens s). \<not> token_clash (nextToken env ids now (rt_sessionId t)) r"
      "sessions s' = update_where (\<lambda>e. se_id e = rt_sessionId t) (rotatedSession env ids now) (sessions s)"
      "refresh_tokens s' = update_where (\<lambda>r. rt_id r = rt_id t) (usedToken ids now t) (refresh_tokens s @ [nextToken env ids now (rt_sessionId t)])"
proof (cases "se_status e \<noteq> SE_ACTIVE \<or> se_expiresAt e \<le> now")
  case True
  with assms show ?thesis by (intro invalid) (simp_all add: rotateWithin_def)
next
  case False
  with assms obtain ts where ts: "insertRow token_clash (nextToken env ids now (rt_sessionId t)) (refresh_tokens s) = Inr ts" "x = RO_rotated (se_userId e) (rt_sessionId t)"
    "s' = updateSession (rt_sessionId t) (rotatedSession env ids now) (updateTokens (\<lambda>r. rt_id r = rt_id t) (usedToken ids now t) (s\<lparr>refresh_tokens := ts\<rparr>))"
    by (simp add: rotateWithin_def bind_res_Inr_iff del: insertRow_Inr_iff) blast
  have "ts = refresh_tokens s @ [nextToken env ids now (rt_sessionId t)]" "\<forall>r \<in> set (refresh_tokens s). \<not> token_clash (nextToken env ids now (rt_sessionId t)) r"
    using ts(1) by simp_all
  with ts(2,3) False show ?thesis by (intro rotated) (simp_all add: updateSession_def updateTokens_def del: update_where_append)
qed

lemma rotateWithin_rotates:
  assumes "se_status e = SE_ACTIVE" and "now < se_expiresAt e" and "ai_token ids \<notin> rt_id ` set (refresh_tokens s)"
    and "digest env (ai_rawToken ids) \<notin> rt_tokenHash ` set (refresh_tokens s)"
  shows "\<exists>s'. rotateWithin env ids now t e s = Inr (RO_rotated (se_userId e) (rt_sessionId t), s')"
proof -
  have "insertRow token_clash (nextToken env ids now (rt_sessionId t)) (refresh_tokens s) = Inr (refresh_tokens s @ [nextToken env ids now (rt_sessionId t)])"
    using assms(3,4) by (auto simp: token_clash_def nextToken_def newToken_def image_iff)
  then show ?thesis using assms(1,2) by (simp add: rotateWithin_def Let_def del: insertRow_Inr_iff)
qed

lemma rotation_fields [simp]:
  "se_id (rotatedSession env ids now e) = se_id e" "se_currentTokenHash (rotatedSession env ids now e) = digest env (ai_rawToken ids)"
  "se_status (rotatedSession env ids now e) = se_status e" "se_userId (rotatedSession env ids now e) = se_userId e"
  "se_expiresAt (rotatedSession env ids now e) = now + ae_refreshTtlSeconds env * 1000"
  "rt_id (usedToken ids now t r) = rt_id r" "rt_sessionId (usedToken ids now t r) = rt_sessionId r" "rt_tokenHash (usedToken ids now t r) = rt_tokenHash r"
  "rt_revokedAt (usedToken ids now t r) = rt_revokedAt r" "rt_expiresAt (usedToken ids now t r) = rt_expiresAt r" "\<not> live (usedToken ids now t r)"
  "rt_id (nextToken env ids now sid) = ai_token ids" "rt_sessionId (nextToken env ids now sid) = sid"
  "rt_tokenHash (nextToken env ids now sid) = digest env (ai_rawToken ids)" "live (nextToken env ids now sid)"
  by (simp_all add: rotatedSession_def usedToken_def nextToken_def newToken_def live_def)

lemma rotateWithin_ok:
  assumes "rotateWithin env ids now t e s = Inr (x, s')" and "session_ok ss0 s" and "t \<in> set (refresh_tokens s)"
    and "\<And>r. r \<in> set (refresh_tokens s) \<Longrightarrow> rt_sessionId r = rt_sessionId t \<Longrightarrow> live r \<Longrightarrow> rt_id r = rt_id t"
  shows "session_ok ss0 s'"
  using assms(1)
proof (cases rule: rotateWithin_cases)
  case rotated
  have "sess_ok ss0 (update_where (\<lambda>e. se_id e = rt_sessionId t) (rotatedSession env ids now) (sessions s))
      (update_where (\<lambda>r. rt_id r = rt_id t) (usedToken ids now t) (refresh_tokens s @ [nextToken env ids now (rt_sessionId t)]))"
    by (rule sess_ok_rotate) (use assms rotated(4) in \<open>auto simp: session_ok_def\<close>)
  with rotated(5,6) show ?thesis by (simp only: session_ok_def)
qed (use assms(2) in simp)

lemma findToken_SomeD: "findToken h s = Some t \<Longrightarrow> t \<in> set (refresh_tokens s) \<and> rt_tokenHash t = h"
  by (auto simp: findToken_def dest: find_SomeD)

lemma undeliveredReplacement_SomeD:
  assumes "undeliveredReplacement env now t h s = Some r"
  shows "r \<in> set (refresh_tokens s) \<and> live r \<and> rt_tokenHash r = h \<and> \<not> live t"
  using assms by (auto simp: undeliveredReplacement_def live_def split: option.splits if_splits dest: find_SomeD)

lemma refreshWithin_ok:
  assumes "refreshWithin env ids now raw s = Inr (x, s')" and ok: "session_ok ss0 s"
  shows "session_ok ss0 s'"
proof (cases "findToken (digest env raw) s")
  case None
  with assms show ?thesis by (simp add: refreshWithin_def)
next
  case (Some t)
  have fit: "tokens_fit (sessions s) (refresh_tokens s)" using ok by (simp add: session_ok_def sess_ok_def)
  note t = findToken_SomeD [OF Some]
  show ?thesis
  proof (cases "rt_revokedAt t \<noteq> None \<or> rt_expiresAt t \<le> now")
    case True
    with Some assms show ?thesis by (auto simp: refreshWithin_def)
  next
    case valid: False
    then obtain e where e: "findSession (rt_sessionId t) s = Some e" using Some assms(1) by (auto simp: refreshWithin_def split: option.splits)
    note one = same_session [OF fit e [unfolded findSession_def]]
    show ?thesis
    proof (cases "undeliveredReplacement env now t (se_currentTokenHash e) s")
      case (Some r)
      note r = undeliveredReplacement_SomeD [OF Some]
      let ?s = "updateTokens (\<lambda>q. rt_id q = rt_id r) (revokeToken now) s"
      have rot: "rotateWithin env ids now t e ?s = Inr (x, s')" using valid e Some \<open>findToken _ _ = _\<close> assms(1) by (simp add: refreshWithin_def)
      have "rt_id t \<noteq> rt_id r" using tokens_unique [OF fit] t r by blast
      then have mem: "t \<in> set (refresh_tokens ?s)" using t by (force simp: updateTokens_def set_update_where)
      have "rt_id q = rt_id t" if q: "q \<in> set (refresh_tokens ?s)" "rt_sessionId q = rt_sessionId t" "live q" for q
      proof -
        from q(1,3) have q': "q \<in> set (refresh_tokens s)" "rt_id q \<noteq> rt_id r" by (auto simp: updateTokens_def set_update_where revokeToken_def live_def)
        with one [OF q'(1)] q(2,3) r have "rt_tokenHash q = rt_tokenHash r" by simp
        with tokens_unique [OF fit q'(1), of r] r q'(2) show ?thesis by blast
      qed
      with rotateWithin_ok [OF rot session_ok_tokens [OF ok] mem] show ?thesis by blast
    next
      case None
      show ?thesis
      proof (cases "rt_consumedAt t \<noteq> None \<or> se_currentTokenHash e \<noteq> digest env raw")
        case True
        with valid e None \<open>findToken _ _ = _\<close> assms(1) have "s' = compromise now (rt_sessionId t) s" by (auto simp: refreshWithin_def)
        with ok show ?thesis by (simp add: compromise_ok)
      next
        case False
        have rot: "rotateWithin env ids now t e s = Inr (x, s')" using False valid e None \<open>findToken _ _ = _\<close> assms(1) by (simp add: refreshWithin_def)
        have "rt_id q = rt_id t" if q: "q \<in> set (refresh_tokens s)" "rt_sessionId q = rt_sessionId t" "live q" for q
          using one [OF q] False t tokens_unique [OF fit q(1), of t] by auto
        with rotateWithin_ok [OF rot ok] t show ?thesis by blast
      qed
    qed
  qed
qed

lemma refresh_ok:
  assumes "session_ok ss0 s"
  shows "session_ok ss0 (snd (refresh env ids now raw s))"
proof (cases "refreshWithin env ids now raw s")
  case (Inr p)
  obtain x s1 where p: "p = (x, s1)" by (cases p)
  with Inr assms have "session_ok ss0 s1" using refreshWithin_ok by blast
  with Inr p show ?thesis by (cases x) (simp_all add: refresh_def serializable_def)
qed (use assms in \<open>simp add: refresh_def serializable_def\<close>)

section \<open>Requests that leave the sessions alone\<close>

text \<open>\<open>same_sessions s s'\<close>: neither sessions nor refresh tokens differ.\<close>

definition same_sessions :: "'m auth_db_scheme \<Rightarrow> 'm auth_db_scheme \<Rightarrow> bool" where
  "same_sessions s s' \<longleftrightarrow> sessions s' = sessions s \<and> refresh_tokens s' = refresh_tokens s"

lemma same_sessions_ok: "same_sessions s s' \<Longrightarrow> session_ok ss0 s' = session_ok ss0 s"
  by (simp add: same_sessions_def session_ok_def)

lemma replaceChallenge_same: "replaceChallenge P now c s = Inr (u, s') \<Longrightarrow> same_sessions s s'"
  by (auto simp: replaceChallenge_def res_iffs same_sessions_def)

lemma registerWithin_steps:
  assumes "registerWithin env ids now h dto s = Inr (u, s')"
  obtains role s0 s1 s2 s3 code where "memberRole ids s = (role, s0)"
    "createMember ids now (toLowerCase (trim (rd_email dto))) (trim (rd_phone dto)) h dto (ro_id role)
        (newChallenge env ids now VP_ACCOUNT_VERIFICATION (ai_user ids) (toLowerCase (trim (rd_email dto)))) s0 = Inr (u, s1)"
    "openWalletAccounts ids (ai_wallet ids) ''NGN'' s1 = Inr ((), s2)" "linkReferral ids (ur_id u) code s2 = Inr ((), s3)"
    "s' = audit (Some (ur_id u)) ''auth.registered'' ''User'' (Some (ur_id u)) None s3"
proof -
  obtain role s0 where "memberRole ids s = (role, s0)" by (cases "memberRole ids s")
  with assms that show ?thesis by (auto simp: registerWithin_def Let_def res_iffs)
qed

text \<open>What a registration adds to the tables the later steps read.\<close>

lemma registerWithin_effect:
  assumes "registerWithin env ids now h dto s = Inr (u, s')"
  shows "same_sessions s s'"
    and "users s' = users s @ [u] \<and> ur_id u = ai_user ids \<and> ur_email u = Some (toLowerCase (trim (rd_email dto))) \<and> ur_emailVerifiedAt u = None
      \<and> ai_user ids \<notin> ur_id ` set (users s)"
    and "challenges s' = challenges s @ [newChallenge env ids now VP_ACCOUNT_VERIFICATION (ai_user ids) (toLowerCase (trim (rd_email dto)))]"
    and "accounts s' = accounts s @ [walletAccount (ai_available ids) (ai_wallet ids) ''AVAILABLE'' ''Wallet available balance'' WALLET_AVAILABLE ''NGN'',
      walletAccount (ai_reserved ids) (ai_wallet ids) ''RESERVED'' ''Wallet reserved balance'' WALLET_RESERVED ''NGN'']"
proof -
  obtain role s0 s1 s2 s3 code where st: "memberRole ids s = (role, s0)"
    "createMember ids now (toLowerCase (trim (rd_email dto))) (trim (rd_phone dto)) h dto (ro_id role)
        (newChallenge env ids now VP_ACCOUNT_VERIFICATION (ai_user ids) (toLowerCase (trim (rd_email dto)))) s0 = Inr (u, s1)"
    "openWalletAccounts ids (ai_wallet ids) ''NGN'' s1 = Inr ((), s2)" "linkReferral ids (ur_id u) code s2 = Inr ((), s3)"
    "s' = audit (Some (ur_id u)) ''auth.registered'' ''User'' (Some (ur_id u)) None s3" using assms by (rule registerWithin_steps)
  have 0: "sessions s0 = sessions s" "refresh_tokens s0 = refresh_tokens s" "users s0 = users s" "challenges s0 = challenges s" "accounts s0 = accounts s"
    using st(1) by (auto simp: memberRole_def Let_def split: option.splits)
  have 1: "sessions s1 = sessions s0" "refresh_tokens s1 = refresh_tokens s0" "users s1 = users s0 @ [u]" "accounts s1 = accounts s0"
    "challenges s1 = challenges s0 @ [newChallenge env ids now VP_ACCOUNT_VERIFICATION (ai_user ids) (toLowerCase (trim (rd_email dto)))]"
    "ur_id u = ai_user ids" "ur_email u = Some (toLowerCase (trim (rd_email dto)))" "ur_emailVerifiedAt u = None" "ai_user ids \<notin> ur_id ` set (users s0)"
    using st(2) by (auto simp: createMember_def Let_def res_iffs user_clash_def)
  have 2: "sessions s2 = sessions s1" "refresh_tokens s2 = refresh_tokens s1" "users s2 = users s1" "challenges s2 = challenges s1"
    "accounts s2 = accounts s1 @ [walletAccount (ai_available ids) (ai_wallet ids) ''AVAILABLE'' ''Wallet available balance'' WALLET_AVAILABLE ''NGN'',
      walletAccount (ai_reserved ids) (ai_wallet ids) ''RESERVED'' ''Wallet reserved balance'' WALLET_RESERVED ''NGN'']"
    using st(3) by (auto simp: openWalletAccounts_def bind_res_Inr_iff insertRows_Inr_iff simp del: insertRows.simps)
  have 3: "sessions s3 = sessions s2" "refresh_tokens s3 = refresh_tokens s2" "users s3 = users s2" "challenges s3 = challenges s2" "accounts s3 = accounts s2"
    using st(4) by (auto simp: linkReferral_def res_iffs split: option.splits if_splits)
  show "same_sessions s s'" using 0 1 2 3 by (simp add: same_sessions_def st(5))
  show "users s' = users s @ [u] \<and> ur_id u = ai_user ids \<and> ur_email u = Some (toLowerCase (trim (rd_email dto))) \<and> ur_emailVerifiedAt u = None
      \<and> ai_user ids \<notin> ur_id ` set (users s)" using 0 1 2 3 by (simp add: st(5))
  show "challenges s' = challenges s @ [newChallenge env ids now VP_ACCOUNT_VERIFICATION (ai_user ids) (toLowerCase (trim (rd_email dto)))]" using 0 1 2 3 by (simp add: st(5))
  show "accounts s' = accounts s @ [walletAccount (ai_available ids) (ai_wallet ids) ''AVAILABLE'' ''Wallet available balance'' WALLET_AVAILABLE ''NGN'',
      walletAccount (ai_reserved ids) (ai_wallet ids) ''RESERVED'' ''Wallet reserved balance'' WALLET_RESERVED ''NGN'']" using 0 1 2 3 by (simp add: st(5))
qed

lemma register_ok: "session_ok ss0 s \<Longrightarrow> session_ok ss0 (snd (register env ids now a h dto s))"
  by (auto simp: register_def serializable_def Let_def deliverChallenge_def session_ok_def same_sessions_def split: sum.splits prod.splits dest!: registerWithin_effect(1))

lemma wrongCode_same: "same_sessions s (wrongCode now c s)"
  by (simp add: wrongCode_def Let_def same_sessions_def)

lemma wrongCode_ok [simp]: "session_ok ss0 (wrongCode now c s) = session_ok ss0 s"
  by (rule same_sessions_ok [OF wrongCode_same])

lemma verifyEmailWithin_same: "verifyEmailWithin env now u code s = Inr (x, s') \<Longrightarrow> same_sessions s s'"
  using wrongCode_same [of s now]
  by (auto simp: verifyEmailWithin_def same_sessions_def consumeChallenge_def split: option.splits if_splits code_check.splits)

lemma verifyEmail_ok: 
  assumes "session_ok ss0 s"
  shows "session_ok ss0 (snd (verifyEmail env ids now u code ctx s))"
proof (cases "verifyEmailWithin env now u code s")
  case (Inr p)
  obtain x s1 where p: "p = (x, s1)" by (cases p)
  with Inr assms verifyEmailWithin_same have ok: "session_ok ss0 s1" by (metis same_sessions_ok)
  from Inr p ok createSession_ok [OF ok, of env ids now u ctx] show ?thesis
    by (cases x; cases "createSession env ids now u ctx s1"; cases "fst (createSession env ids now u ctx s1)")
      (simp_all add: verifyEmail_def serializable_def)
qed (use assms in \<open>simp add: verifyEmail_def serializable_def\<close>)

lemma resendVerification_ok: "session_ok ss0 s \<Longrightarrow> session_ok ss0 (snd (resendVerification env ids now a u s))"
  by (auto simp: resendVerification_def serializable_def Let_def res_iffs deliverChallenge_def session_ok_def same_sessions_def
      split: sum.splits prod.splits option.splits if_splits dest!: replaceChallenge_same)

lemma login_ok: "session_ok ss0 s \<Longrightarrow> session_ok ss0 (snd (login env ids now email pw ctx s))"
  using createSession_ok [of ss0 "updateUser u f s" for u f] by (auto simp: login_def session_ok_def split: option.splits)

lemma createSessionForUser_ok: "session_ok ss0 s \<Longrightarrow> session_ok ss0 (snd (createSessionForUser env ids now u ctx s))"
  using createSession_ok [of ss0 "updateUser u f s" for f] by (auto simp: createSessionForUser_def session_ok_def)

lemma issueCode_ok: "session_ok ss0 s \<Longrightarrow> session_ok ss0 (snd (issueCode P now c t d s))"
  by (auto simp: issueCode_def serializable_def session_ok_def same_sessions_def split: sum.splits prod.splits dest!: replaceChallenge_same)

lemma requestCode_ok: "session_ok ss0 s \<Longrightarrow> session_ok ss0 (snd (requestCode env ids now m s))"
  by (auto simp: requestCode_def Let_def issueCode_ok split: option.splits)

lemma resendCode_ok: "session_ok ss0 s \<Longrightarrow> session_ok ss0 (snd (resendCode env ids now i s))"
  by (auto simp: resendCode_def Let_def issueCode_ok split: option.splits)

lemma requestReset_ok: "session_ok ss0 s \<Longrightarrow> session_ok ss0 (snd (requestReset env ids now m s))"
  by (auto simp: requestReset_def Let_def issueCode_ok split: option.splits)

lemma redeemWithin_ok:
  assumes "redeemWithin env p now i code f s = Inr (x, s')" and "session_ok ss0 s"
    and "\<And>u s1 s2. f u s1 = Inr ((), s2) \<Longrightarrow> session_ok ss0 s1 \<Longrightarrow> session_ok ss0 s2"
  shows "session_ok ss0 s'"
proof (cases x)
  case (RD_ok u)
  with assms(1) have "\<exists>c :: verification_challenge. f (ch_userId c) (consumeChallenge now (ch_id c) s) = Inr ((), s')"
    by (auto simp: redeemWithin_def res_iffs split: option.splits if_splits)
  then obtain c :: verification_challenge where "f (ch_userId c) (consumeChallenge now (ch_id c) s) = Inr ((), s')" by blast
  moreover have "session_ok ss0 (consumeChallenge now (ch_id c) s)" using assms(2) by (simp add: consumeChallenge_def session_ok_def)
  ultimately show ?thesis by (rule assms(3))
qed (use assms(1,2) in \<open>auto simp: redeemWithin_def res_iffs split: option.splits if_splits\<close>)

lemma signInEffects_ok: "signInEffects now u s1 = Inr ((), s2) \<Longrightarrow> session_ok ss0 s1 \<Longrightarrow> session_ok ss0 s2"
  by (auto simp: signInEffects_def requireUser_def res_iffs split: if_splits)

lemma resetEffects_ok: "resetEffects now h u s1 = Inr ((), s2) \<Longrightarrow> session_ok ss0 s1 \<Longrightarrow> session_ok ss0 s2"
  using sess_ok_update [of ss0 "sessions s1" "refresh_tokens s1" "endSession SE_REVOKED now ''password_reset''" "\<lambda>t. t" P "\<lambda>_. False" for P]
  by (auto simp: resetEffects_def requireUser_def res_iffs session_ok_def endSession_def split: if_splits)

lemma verifyCode_ok:
  assumes "session_ok ss0 s"
  shows "session_ok ss0 (snd (verifyCode env ids now i code ctx s))"
proof (cases "redeemWithin env VP_LOGIN now i code (signInEffects now) s")
  case (Inr p)
  obtain x s1 where p: "p = (x, s1)" by (cases p)
  have ok: "session_ok ss0 s1" by (rule redeemWithin_ok [OF Inr [unfolded p] assms]) (rule signInEffects_ok)
  with Inr p createSession_ok [OF ok] show ?thesis by (cases x) (simp_all add: verifyCode_def serializable_def)
qed (use assms in \<open>simp add: verifyCode_def serializable_def\<close>)

lemma completeReset_ok:
  assumes "session_ok ss0 s"
  shows "session_ok ss0 (snd (completeReset env now i code h s))"
proof (cases "redeemWithin env VP_PASSWORD_RESET now i code (resetEffects now h) s")
  case (Inr p)
  obtain x s1 where p: "p = (x, s1)" by (cases p)
  have ok: "session_ok ss0 s1" by (rule redeemWithin_ok [OF Inr [unfolded p] assms]) (rule resetEffects_ok)
  with Inr p show ?thesis by (cases x) (simp_all add: completeReset_def serializable_def)
qed (use assms in \<open>simp add: completeReset_def serializable_def\<close>)

lemma thenSession_ok:
  assumes "session_ok ss0 s" and "\<And>s1. body s = Inr ((), s1) \<Longrightarrow> same_sessions s s1"
  shows "session_ok ss0 (snd (thenSession env ids now u ctx body s))"
proof (cases "body s")
  case (Inr p)
  obtain s1 where p: "p = ((), s1)" by (cases p) simp
  with assms Inr have "session_ok ss0 s1" by (simp add: same_sessions_ok [of s s1])
  with Inr p show ?thesis by (simp add: thenSession_def serializable_def createSessionForUser_ok)
qed (use assms(1) in \<open>simp add: thenSession_def serializable_def\<close>)

lemma linkIdentity_same: "linkIdentity ids now u sub email s = Inr ((), s1) \<Longrightarrow> same_sessions s s1"
  by (auto simp: linkIdentity_def requireUser_def res_iffs same_sessions_def split: if_splits)

lemma createGoogleMember_same: "createGoogleMember ids now claims email s = Inr ((), s1) \<Longrightarrow> same_sessions s s1"
  by (auto simp: createGoogleMember_def res_iffs same_sessions_def Let_def split: prod.splits)

lemma resolveUser_ok:
  assumes "session_ok ss0 s"
  shows "session_ok ss0 (snd (resolveUser env ids now claims ctx s))"
proof -
  have "session_ok ss0 (s\<lparr>identities := rows\<rparr>)" for rows using assms by (simp add: session_ok_def)
  moreover note thenSession_ok [OF assms linkIdentity_same] thenSession_ok [OF assms createGoogleMember_same]
  ultimately show ?thesis using assms by (auto simp: resolveUser_def createSessionForUser_ok split: option.splits)
qed

section \<open>Histories\<close>

datatype auth_request =
    Register auth_ids int bool string register_dto
  | VerifyEmail auth_ids int string string client_context
  | ResendVerification auth_ids int bool string
  | Login auth_ids int string string client_context
  | Refresh auth_ids int string
  | Logout int string
  | LogoutAll int string
  | RequestCode auth_ids int string
  | ResendCode auth_ids int string
  | VerifyCode auth_ids int string string client_context
  | RequestReset auth_ids int string
  | CompleteReset int string string string
  | GoogleSignIn auth_ids int google_claims client_context

fun serveAuth :: "auth_env \<Rightarrow> auth_request \<Rightarrow> 'm auth_db_scheme \<Rightarrow> 'm auth_db_scheme" where
  "serveAuth env (Register ids now a h dto) s = snd (register env ids now a h dto s)"
| "serveAuth env (VerifyEmail ids now u code ctx) s = snd (verifyEmail env ids now u code ctx s)"
| "serveAuth env (ResendVerification ids now a u) s = snd (resendVerification env ids now a u s)"
| "serveAuth env (Login ids now email pw ctx) s = snd (login env ids now email pw ctx s)"
| "serveAuth env (Refresh ids now raw) s = snd (refresh env ids now raw s)"
| "serveAuth env (Logout now i) s = logout now i s"
| "serveAuth env (LogoutAll now u) s = logoutAll now u s"
| "serveAuth env (RequestCode ids now m) s = snd (requestCode env ids now m s)"
| "serveAuth env (ResendCode ids now i) s = snd (resendCode env ids now i s)"
| "serveAuth env (VerifyCode ids now i code ctx) s = snd (verifyCode env ids now i code ctx s)"
| "serveAuth env (RequestReset ids now m) s = snd (requestReset env ids now m s)"
| "serveAuth env (CompleteReset now i code h) s = snd (completeReset env now i code h s)"
| "serveAuth env (GoogleSignIn ids now claims ctx) s = snd (resolveUser env ids now claims ctx s)"

interpretation auth_history: request_safety "serveAuth env" "session_ok ss0" for env ss0
proof
  show "session_ok ss0 (serveAuth env q s)" if "session_ok ss0 s" for q s
    using that by (cases q) (simp_all add: register_ok verifyEmail_ok resendVerification_ok login_ok refresh_ok logout_def logoutAll_def revokeSessions_ok
        requestCode_ok resendCode_ok verifyCode_ok requestReset_ok completeReset_ok resolveUser_ok)
qed

lemma session_ok_start: "sessions_wf s \<Longrightarrow> session_ok (sessions s) s"
  by (auto simp: sessions_wf_def session_ok_def sess_ok_def stay_ended_def)

lemma live_token_unique:
  assumes "sess_ok ss0 ss ts" and "t \<in> set ts" and "r \<in> set ts" and "rt_sessionId t = rt_sessionId r" and "live t" and "live r"
  shows "t = r"
proof -
  have fit: "tokens_fit ss ts" using assms(1) by (simp add: sess_ok_def)
  obtain e where e: "e \<in> set ss" "se_id e = rt_sessionId t" using tokens_fitD [OF fit assms(2)] by metis
  have "List.find (\<lambda>x. se_id x = rt_sessionId t) ss = Some e" using find_key_unique [of se_id ss e] e fit by (simp add: tokens_fit_def)
  from same_session [OF fit this assms(2) refl assms(5)] same_session [OF fit this assms(3)] assms(4,6) tokens_unique [OF fit assms(2,3)]
  show ?thesis by simp
qed

section \<open>Ended and stolen sessions\<close>

lemma refresh_inactive:
  assumes "findToken (digest env raw) s = Some t" and "findSession (rt_sessionId t) s = Some e" and "se_status e \<noteq> SE_ACTIVE"
  shows "isl (fst (refresh env ids now raw s))"
  using assms by (auto simp: refresh_def serializable_def refreshWithin_def rotateWithin_def split: option.splits sum.splits prod.splits if_splits)

lemma accessTokenGuard_session:
  assumes "accessTokenGuard v now r s = Inr a"
  obtains e where "findSession (au_sessionId a) s = Some e" "se_status e = SE_ACTIVE"
  using assms by (auto simp: accessTokenGuard_def Let_def split: option.splits if_splits)

definition demo_env :: auth_env where
  "demo_env = \<lparr>ae_hmac = (\<lambda>k m. k @ m), ae_verifyPassword = (\<lambda>h p. h = p), ae_signAccess = (\<lambda>c now. ac_sid c), ae_tokenPepper = ''p'', ae_accessTtl = ''15m'',
     ae_accessTtlSeconds = 900, ae_refreshTtlSeconds = 1000, ae_refreshReuseGraceMs = 10000\<rparr>"

definition demo_aids :: "string \<Rightarrow> auth_ids" where
  "demo_aids n = \<lparr>ai_user = ''u'' @ n, ai_wallet = ''w'' @ n, ai_available = ''av'' @ n, ai_reserved = ''re'' @ n, ai_role = ''ro'' @ n, ai_referral = ''rf'' @ n,
     ai_referralCode = ''AJO-ACDEF'' @ n, ai_identity = ''id'' @ n, ai_challenge = ''c'' @ n, ai_code = 42, ai_session = ''s'' @ n, ai_token = ''t'' @ n, ai_rawToken = ''raw'' @ n\<rparr>"

definition demo_context :: client_context where
  "demo_context = \<lparr>cc_ipAddress = None, cc_userAgent = None\<rparr>"

definition demo_user :: "user_status \<Rightarrow> user_row" where
  "demo_user st = \<lparr>ur_id = ''ada'', ur_email = Some ''ada@x.ng'', ur_phone = None, ur_status = st, ur_referralCode = None, ur_emailVerifiedAt = None, ur_lastLoginAt = None\<rparr>"

definition demo_auth_db :: "user_status \<Rightarrow> auth_db" where
  "demo_auth_db st = identity_db.extend (kyc_db.extend (demo_kyc_db\<lparr>users := [demo_user st]\<rparr>) (identity_db.fields [] [] []))
     (auth_db.fields [\<lparr>cd_userId = ''ada'', cd_passwordHash = ''secret'', cd_changedAt = 0\<rparr>]
        [newChallenge demo_env (demo_aids ''9'') 0 VP_PASSWORD_RESET ''ada'' ''ada@x.ng''] [] [] [] [] [] [])"

text \<open>A session that is logged in, rotated once and logged out.\<close>

definition demo_session_history :: "auth_request list" where
  "demo_session_history = [Login (demo_aids ''1'') 5 ''ada@x.ng'' ''secret'' demo_context, Refresh (demo_aids ''2'') 6 ''raw1'', Logout 7 ''s1'']"

definition demo_ended :: auth_db where
  "demo_ended = fold (serveAuth demo_env) demo_session_history (demo_auth_db US_ACTIVE)"

text \<open>
  C10. A session never resumes. Through any history of requests a session has at most one live refresh token; and once it is no longer active, through any further history,
  no access token of it passes the guard and none of its refresh tokens is exchanged for new ones.
\<close>

theorem ended_session_never_resumes:
  assumes "sessions_wf s" and "e \<in> set (sessions s)" and "se_status e \<noteq> SE_ACTIVE"
  shows "let s' = fold (serveAuth env) qs s in
    (\<forall>t \<in> set (refresh_tokens s'). \<forall>r \<in> set (refresh_tokens s'). rt_sessionId t = rt_sessionId r \<and> live t \<and> live r \<longrightarrow> t = r)
    \<and> (\<forall>a. accessTokenGuard verifyAccess now req s' = Inr a \<longrightarrow> au_sessionId a \<noteq> se_id e)
    \<and> (\<forall>t. findToken (digest env raw) s' = Some t \<and> rt_sessionId t = se_id e \<longrightarrow> isl (fst (refresh env ids now raw s')))"
proof -
  let ?s = "fold (serveAuth env) qs s"
  have ok: "sess_ok (sessions s) (sessions ?s) (refresh_tokens ?s)"
    using auth_history.history_inv [OF session_ok_start [OF assms(1)]] by (simp add: session_ok_def)
  with assms(2,3) obtain e' where e': "e' \<in> set (sessions ?s)" "se_id e' = se_id e" "se_status e' \<noteq> SE_ACTIVE" by (auto simp: sess_ok_def stay_ended_def)
  have "distinct (map se_id (sessions ?s))" using ok by (simp add: sess_ok_def tokens_fit_def)
  from find_key_unique [OF this e'(1)] e'(2) have found: "findSession (se_id e) ?s = Some e'" by (simp add: findSession_def)
  have "au_sessionId a \<noteq> se_id e" if "accessTokenGuard verifyAccess now req ?s = Inr a" for a
    by (rule accessTokenGuard_session [OF that]) (use found e'(3) in auto)
  moreover have "isl (fst (refresh env ids now raw ?s))" if "findToken (digest env raw) ?s = Some t" "rt_sessionId t = se_id e" for t
    using refresh_inactive [OF that(1) _ e'(3)] found that(2) by simp
  ultimately show ?thesis using live_token_unique [OF ok] by (auto simp: Let_def)
qed

theorem ended_session_never_resumes_witness:
  "\<exists>e. e \<in> set (sessions demo_ended) \<and> se_status e = SE_REVOKED
    \<and> isl (fst (refresh demo_env (demo_aids ''4'') 8 ''raw2'' (fold (serveAuth demo_env) [Login (demo_aids ''3'') 8 ''ada@x.ng'' ''secret'' demo_context] demo_ended)))"
proof -
  let ?e = "hd (sessions demo_ended)"
  let ?s = "fold (serveAuth demo_env) [Login (demo_aids ''3'') 8 ''ada@x.ng'' ''secret'' demo_context] demo_ended"
  have e: "sessions_wf demo_ended" "?e \<in> set (sessions demo_ended)" "se_status ?e = SE_REVOKED" by code_simp+
  have "map_option rt_sessionId (findToken (digest demo_env ''raw2'') ?s) = Some (se_id ?e)" by code_simp
  then obtain t where "findToken (digest demo_env ''raw2'') ?s = Some t" "rt_sessionId t = se_id ?e" by auto
  with ended_session_never_resumes [OF e(1,2), of demo_env "[Login (demo_aids ''3'') 8 ''ada@x.ng'' ''secret'' demo_context]"] e show ?thesis
    by (auto simp: Let_def)
qed

text \<open>
  C12. A stolen refresh token ends its session. When a token that was already exchanged is presented again after the grace period, nothing is issued, the session is
  marked compromised and every refresh token of it, the thief's included, is revoked.
\<close>

theorem reused_token_ends_session:
  assumes "sessions_wf s" and "findToken (digest env raw) s = Some t" and "rt_revokedAt t = None" and "now < rt_expiresAt t"
    and "rt_consumedAt t = Some c" and "ae_refreshReuseGraceMs env < now - c"
  shows "let (result, s') = refresh env ids now raw s in result = Inl (Unauthorized ''Refresh token is invalid'')
    \<and> map_option se_status (findSession (rt_sessionId t) s') = Some SE_COMPROMISED
    \<and> (\<forall>r \<in> set (refresh_tokens s'). rt_sessionId r = rt_sessionId t \<longrightarrow> rt_revokedAt r \<noteq> None)"
proof -
  have fit: "tokens_fit (sessions s) (refresh_tokens s)" using assms(1) by (simp add: sessions_wf_def)
  obtain e where "e \<in> set (sessions s)" "se_id e = rt_sessionId t" using tokens_fitD [OF fit] findToken_SomeD [OF assms(2)] by metis
  with find_key_unique [of se_id "sessions s" e] fit have e: "findSession (rt_sessionId t) s = Some e" by (simp add: findSession_def tokens_fit_def)
  have "undeliveredReplacement env now t (se_currentTokenHash e) s = None" using assms(5,6) by (simp add: undeliveredReplacement_def split: option.splits)
  with assms e have "refresh env ids now raw s = (Inl (Unauthorized ''Refresh token is invalid''), compromise now (rt_sessionId t) s)"
    by (simp add: refresh_def serializable_def refreshWithin_def)
  moreover have "findSession (rt_sessionId t) (compromise now (rt_sessionId t) s) = Some (endSession SE_COMPROMISED now ''refresh_token_reuse'' e)"
    using e find_SomeD [OF e [unfolded findSession_def]]
    by (simp add: findSession_def compromise_def updateTokens_def updateSession_def find_update_where endSession_def)
  moreover have "rt_revokedAt r \<noteq> None" if "r \<in> set (refresh_tokens (compromise now (rt_sessionId t) s))" "rt_sessionId r = rt_sessionId t" for r
    using that by (auto simp: compromise_def updateTokens_def updateSession_def set_update_where revokeToken_def)
  ultimately show ?thesis by (auto simp: Let_def endSession_def)
qed

definition demo_rotated :: auth_db where
  "demo_rotated = fold (serveAuth demo_env) [Login (demo_aids ''1'') 5 ''ada@x.ng'' ''secret'' demo_context, Refresh (demo_aids ''2'') 6 ''raw1''] (demo_auth_db US_ACTIVE)"

theorem reused_token_ends_session_witness:
  "map_option se_status (findSession ''s1'' (snd (refresh demo_env (demo_aids ''3'') 20000 ''raw1'' demo_rotated))) = Some SE_COMPROMISED"
proof -
  let ?t = "hd (refresh_tokens demo_rotated)"
  have "sessions_wf demo_rotated" "findToken (digest demo_env ''raw1'') demo_rotated = Some ?t" "rt_revokedAt ?t = None" "20000 < rt_expiresAt ?t"
    "rt_consumedAt ?t = Some 6" "ae_refreshReuseGraceMs demo_env < 20000 - 6" "rt_sessionId ?t = ''s1''" by code_simp+
  with reused_token_ends_session [of demo_rotated demo_env "''raw1''" ?t 20000 6 "demo_aids ''3''"] show ?thesis by (auto simp: Let_def split: prod.splits)
qed

lemma refresh_rotated:
  assumes "refresh env ids now raw s = (Inr p, s1)" and "findToken (digest env raw) s = Some t" and "live t"
  obtains e where "findSession (rt_sessionId t) s = Some e" "rotateWithin env ids now t e s = Inr (RO_rotated (se_userId e) (rt_sessionId t), s1)"
    "p = tokenPair env now (se_userId e) (rt_sessionId t) (ai_rawToken ids)"
proof -
  have "undeliveredReplacement env now t h s = None" for h using assms(3) by (simp add: undeliveredReplacement_def live_def split: option.splits)
  with assms obtain e u sid where e: "findSession (rt_sessionId t) s = Some e" "rotateWithin env ids now t e s = Inr (RO_rotated u sid, s1)" "p = tokenPair env now u sid (ai_rawToken ids)"
    by (auto simp: refresh_def serializable_def refreshWithin_def split: sum.splits prod.splits refresh_outcome.splits option.splits if_splits)
  from e(2) have "u = se_userId e \<and> sid = rt_sessionId t" by (cases rule: rotateWithin_cases) auto
  with e that show ?thesis by blast
qed



section \<open>Ways into an account\<close>

lemma login_admits:
  assumes "findUserByEmail (toLowerCase (trim email)) s = Some u" and "ur_status u = US_ACTIVE" and "findCredential (ur_id u) s = Some c"
    and "ae_verifyPassword env (cd_passwordHash c) pw" and "ai_session ids \<notin> se_id ` set (sessions s)"
    and "ai_token ids \<notin> rt_id ` set (refresh_tokens s)" and "digest env (ai_rawToken ids) \<notin> rt_tokenHash ` set (refresh_tokens s)"
  shows "fst (login env ids now email pw ctx s) = Inr (tokenPair env now (ur_id u) (ai_session ids) (ai_rawToken ids))"
  using assms by (simp add: login_def createSession_fresh)

lemma findUserByEmail_update:
  assumes "\<And>u. ur_email (f u) = ur_email u"
  shows "findUserByEmail m (updateUser i f s) = map_option (\<lambda>u. if ur_id u = i then f u else u) (findUserByEmail m s)"
  using assms by (simp add: findUserByEmail_def updateUser_def find_update_where split: option.splits)

lemma findCredential_store:
  "List.find (\<lambda>c. cd_userId c = u) (storePassword now u h rows) \<noteq> None
   \<and> (\<forall>c. List.find (\<lambda>c. cd_userId c = u) (storePassword now u h rows) = Some c \<longrightarrow> cd_passwordHash c = h)"
proof (cases "list_ex (\<lambda>c. cd_userId c = u) rows")
  case True
  then obtain c where c: "List.find (\<lambda>c. cd_userId c = u) rows = Some c" by (cases "List.find (\<lambda>c. cd_userId c = u) rows") (auto simp: list_ex_iff find_None_iff)
  with find_SomeD [OF c] True show ?thesis by (simp add: storePassword_def find_update_where)
next
  case False
  then have "List.find (\<lambda>c. cd_userId c = u) rows = None" by (auto simp: list_ex_iff find_None_iff)
  with False show ?thesis by (simp add: storePassword_def find_append_None)
qed

text \<open>
  C37. A password reset ends every session of the account and lets the new password in, whatever the status of the account was: an account that was suspended after the
  code was sent is active again.
\<close>

theorem reset_ends_sessions_and_admits:
  assumes "completeReset env now cid code h s = (Inr (), s')" and "findChallenge cid s = Some c" and "findUserByEmail (toLowerCase (trim email)) s = Some u"
    and "ur_id u = ch_userId c" and "ae_verifyPassword env h pw" and "ai_session ids \<notin> se_id ` set (sessions s)"
    and "ai_token ids \<notin> rt_id ` set (refresh_tokens s)" and "digest env (ai_rawToken ids) \<notin> rt_tokenHash ` set (refresh_tokens s)"
  shows "(\<forall>e \<in> set (sessions s'). se_userId e = ur_id u \<longrightarrow> se_status e \<noteq> SE_ACTIVE)
    \<and> fst (login env ids now' email pw ctx s') = Inr (tokenPair env now' (ur_id u) (ai_session ids) (ai_rawToken ids))"
proof -
  let ?s = "consumeChallenge now (ch_id c) s"
  let ?revoked = "update_where (\<lambda>e. se_userId e = ur_id u \<and> se_status e = SE_ACTIVE) (endSession SE_REVOKED now ''password_reset'')"
  from assms(1,2,4) have "resetEffects now h (ur_id u) ?s = Inr ((), s')"
    by (auto simp: completeReset_def serializable_def redeemWithin_def res_iffs split: sum.splits prod.splits redeem_outcome.splits if_splits)
  then have s': "s' = (updateUser (ur_id u) (\<lambda>u. u\<lparr>ur_status := US_ACTIVE, ur_emailVerifiedAt := Some now\<rparr>)
      (?s\<lparr>credentials := storePassword now (ur_id u) h (credentials ?s)\<rparr>))\<lparr>sessions := ?revoked (sessions s)\<rparr>"
    by (auto simp: resetEffects_def requireUser_def res_iffs consumeChallenge_def split: if_splits)
  have tabs: "refresh_tokens s' = refresh_tokens s" "sessions s' = ?revoked (sessions s)" "se_id ` set (?revoked (sessions s)) = se_id ` set (sessions s)"
    by (auto simp: s' consumeChallenge_def endSession_def simp flip: set_map simp: map_update_where)
  have "findUserByEmail (toLowerCase (trim email)) s' = Some (u\<lparr>ur_status := US_ACTIVE, ur_emailVerifiedAt := Some now\<rparr>)"
    using assms(3) findUserByEmail_update [of "\<lambda>u. u\<lparr>ur_status := US_ACTIVE, ur_emailVerifiedAt := Some now\<rparr>" _ "ur_id u" ?s]
    by (simp add: s' findUserByEmail_def updateUser_def consumeChallenge_def)
  moreover obtain k where "findCredential (ur_id u) s' = Some k" "cd_passwordHash k = h"
    using findCredential_store [of "ur_id u" now h "credentials ?s"] by (auto simp: s' findCredential_def updateUser_def)
  moreover have "se_status e \<noteq> SE_ACTIVE" if "e \<in> set (sessions s')" "se_userId e = ur_id u" for e
    using that by (auto simp: tabs set_update_where endSession_def)
  ultimately show ?thesis
    using login_admits [of email s' "u\<lparr>ur_status := US_ACTIVE, ur_emailVerifiedAt := Some now\<rparr>" k env pw ids now' ctx] assms(5-8) by (auto simp: tabs)
qed

theorem reset_ends_sessions_and_admits_witness:
  "ur_status (demo_user US_SUSPENDED) = US_SUSPENDED
    \<and> \<not> isl (fst (login demo_env (demo_aids ''2'') 20 ''ada@x.ng'' ''new'' demo_context (snd (completeReset demo_env 10 ''c9'' ''000042'' ''new'' (demo_auth_db US_SUSPENDED)))))"
proof -
  let ?s = "demo_auth_db US_SUSPENDED"
  let ?c = "newChallenge demo_env (demo_aids ''9'') 0 VP_PASSWORD_RESET ''ada'' ''ada@x.ng''"
  have "fst (completeReset demo_env 10 ''c9'' ''000042'' ''new'' ?s) = Inr ()" by code_simp
  then have r: "completeReset demo_env 10 ''c9'' ''000042'' ''new'' ?s = (Inr (), snd (completeReset demo_env 10 ''c9'' ''000042'' ''new'' ?s))" by (simp add: prod_eq_iff)
  have h: "findChallenge ''c9'' ?s = Some ?c" "findUserByEmail (toLowerCase (trim ''ada@x.ng'')) ?s = Some (demo_user US_SUSPENDED)"
    "ur_id (demo_user US_SUSPENDED) = ch_userId ?c" "ae_verifyPassword demo_env ''new'' ''new''" "sessions ?s = []" "refresh_tokens ?s = []" by code_simp+
  from reset_ends_sessions_and_admits [OF r h(1-4)] h(5,6) show ?thesis by (simp add: demo_user_def)
qed

text \<open>
  Linking a Google account activates an account somebody else may have opened. When an account waits for the verification of its address, nobody can log in to it; a
  Google sign-in with that address activates it and keeps the password it was registered with, so whoever registered it can log in from then on.
\<close>

theorem linked_account_keeps_password:
  assumes "resolveUser env ids now claims ctx s = (Inr p, s')" and "gc_email claims = Some email" and "List.find (\<lambda>i. ui_providerUserId i = gc_sub claims) (identities s) = None"
    and "findUserByEmail (toLowerCase (trim email)) s = Some u" and "ur_status u = US_PENDING_VERIFICATION" and "findCredential (ur_id u) s = Some c"
    and "ae_verifyPassword env (cd_passwordHash c) pw" and "ai_session ids' \<notin> se_id ` set (sessions s')"
    and "ai_token ids' \<notin> rt_id ` set (refresh_tokens s')" and "digest env (ai_rawToken ids') \<notin> rt_tokenHash ` set (refresh_tokens s')"
  shows "fst (login env ids' now' email pw ctx' s) = Inl (Unauthorized ''Invalid credentials'')
    \<and> fst (login env ids' now' email pw ctx' s') = Inr (tokenPair env now' (ur_id u) (ai_session ids') (ai_rawToken ids'))"
proof -
  let ?m = "toLowerCase (trim email)"
  let ?f = "\<lambda>v. v\<lparr>ur_status := US_ACTIVE, ur_emailVerifiedAt := Some (or_default (ur_emailVerifiedAt u) now)\<rparr>"
  let ?g = "\<lambda>v. v\<lparr>ur_lastLoginAt := Some now\<rparr>"
  from assms(1-5) have "thenSession env ids now (ur_id u) ctx (linkIdentity ids now u (gc_sub claims) ?m) s = (Inr p, s')"
    by (auto simp: resolveUser_def truthy_def split: option.splits if_splits)
  then obtain s1 where s1: "linkIdentity ids now u (gc_sub claims) ?m s = Inr ((), s1)" and cs: "createSessionForUser env ids now (ur_id u) ctx s1 = (Inr p, s')"
    by (auto simp: thenSession_def serializable_def split: sum.splits prod.splits)
  from s1 obtain rows where r1: "s1 = updateUser (ur_id u) ?f (s\<lparr>identities := rows\<rparr>)" by (auto simp: linkIdentity_def requireUser_def res_iffs split: if_splits)
  from cs have "createSession env ids now (ur_id u) ctx (updateUser (ur_id u) ?g s1) = (Inr p, s')" by (auto simp: createSessionForUser_def split: if_splits)
  then have s': "users s' = users (updateUser (ur_id u) ?g s1)" "credentials s' = credentials s" by (cases rule: createSession_cases; simp add: r1)+
  have base: "findUserByEmail ?m (s\<lparr>identities := rows\<rparr>) = Some u" using assms(4) by (simp add: findUserByEmail_def)
  have "findUserByEmail ?m s' = findUserByEmail ?m (updateUser (ur_id u) ?g s1)" by (simp add: findUserByEmail_def s'(1))
  also have "\<dots> = Some (?g (?f u))" by (simp add: r1 findUserByEmail_update base)
  finally have "findUserByEmail ?m s' = Some (?g (?f u))" .
  moreover have "findCredential (ur_id u) s' = Some c" using assms(6) by (simp add: findCredential_def s'(2))
  ultimately have "fst (login env ids' now' email pw ctx' s') = Inr (tokenPair env now' (ur_id u) (ai_session ids') (ai_rawToken ids'))"
    using login_admits [of email s' "?g (?f u)" c env pw ids' now' ctx'] assms(7-10) by simp
  then show ?thesis using assms(4,5) by (simp add: login_def)
qed

text \<open>
  An account made through Google has a wallet without accounts: registration opens the available and the reserved account of the wallet, the Google sign-in does not, so
  every operation that asks for an account of this wallet answers that it is not configured.
\<close>

theorem google_member_has_no_accounts:
  assumes "resolveUser env ids now claims ctx s = (Inr p, s')" and "gc_email claims = Some email" and "List.find (\<lambda>i. ui_providerUserId i = gc_sub claims) (identities s) = None"
    and "findUserByEmail (toLowerCase (trim email)) s = None" and "Some (ai_wallet ids) \<notin> fa_walletId ` set (accounts s)"
  shows "\<exists>w \<in> set (wallets s'). wl_userId w = ai_user ids \<and> wl_currency w = ''NGN''
    \<and> requireAccount (Some (wl_id w)) purpose currency s' = Inl (Unprocessable ''Required financial accounts are not configured'')"
proof -
  from assms(1-4) have "thenSession env ids now (ai_user ids) ctx (createGoogleMember ids now claims (toLowerCase (trim email))) s = (Inr p, s')"
    by (auto simp: resolveUser_def truthy_def split: option.splits if_splits)
  then obtain s1 where s1: "createGoogleMember ids now claims (toLowerCase (trim email)) s = Inr ((), s1)" and cs: "createSessionForUser env ids now (ai_user ids) ctx s1 = (Inr p, s')"
    by (auto simp: thenSession_def serializable_def split: sum.splits prod.splits)
  let ?w = "\<lparr>wl_id = ai_wallet ids, wl_userId = ai_user ids, wl_currency = ''NGN'', wl_status = WS_ACTIVE\<rparr>"
  from s1 have 1: "?w \<in> set (wallets s1)" "accounts s1 = accounts s" by (auto simp: createGoogleMember_def res_iffs Let_def split: prod.splits)
  from cs obtain f where "createSession env ids now (ai_user ids) ctx (updateUser (ai_user ids) f s1) = (Inr p, s')" by (auto simp: createSessionForUser_def split: if_splits)
  then have "wallets s' = wallets s1 \<and> accounts s' = accounts s1" by (cases rule: createSession_cases) (simp_all add: updateUser_def)
  moreover have "findAccount (Some (ai_wallet ids)) purpose currency s = None" using assms(5) by (auto simp: findAccount_def find_None_iff account_matches_def image_iff)
  ultimately show ?thesis using 1 by (intro bexI [of _ ?w]) (simp_all add: requireAccount_def findAccount_def)
qed


definition demo_register :: register_dto where
  "demo_register = \<lparr>rd_email = '' Chi@x.ng'', rd_phone = ''+2348012345678'', rd_firstName = ''Chi'', rd_lastName = ''Obi'', rd_referralCode = None\<rparr>"


section \<open>The guards together\<close>

text \<open>
  A request that changes something on behalf of a browser session carries the token of the double submission: when both guards let a request through, its method is not a
  safe one and the endpoint is not public, then it was authenticated by a bearer credential, or its header repeats the cookie.
\<close>

theorem cookie_requests_carry_csrf_token:
  assumes "accessTokenGuard verifyAccess now r s = Inr a" and "csrfGuard r = Inr ()" and "hr_method r \<notin> set SAFE_METHODS" and "\<not> hr_public r"
  shows "hasBearerCredential r \<or> (\<exists>t. t \<noteq> [] \<and> hr_csrfCookie r = Some t \<and> hr_csrfHeader r = Some t)"
proof -
  have "hasBearerCredential r \<or> truthy (hr_accessCookie r) \<noteq> None"
    using assms(1) by (auto simp: accessTokenGuard_def extractAccessToken_def hasBearerCredential_def Let_def split: option.splits if_splits)
  with assms(2-4) show ?thesis by (auto simp: csrfGuard_def truthy_def split: option.splits if_splits)
qed

end
