(* ===== verification/Referrals.thy ===== *)
theory Referrals
  imports Auth
begin

text \<open>
  Referral rewards: \<^verbatim>\<open>src/modules/referrals/referrals.service.ts\<close> with \<^verbatim>\<open>domain/referral-reward-policy.ts\<close> and \<^verbatim>\<open>domain/referral-qualification.ts\<close>. When a deposit of a
  referred member has settled, the referrer's wallet is credited from the platform's expense account, once per referral. The referral rows are those registration
  writes (\<open>linkReferral\<close>).
\<close>

section \<open>Policy\<close>

datatype campaign_status = CP_DRAFT | CP_ACTIVE | CP_PAUSED | CP_ENDED

record campaign_terms =
  ct_id :: string
  ct_version :: int
  ct_status :: campaign_status
  ct_rewardAmountMinor :: int
  ct_rewardCurrency :: string
  ct_maximumRewards :: "int option"
  ct_requiredKycTier :: nat
  ct_minimumAmountMinor :: "int option"
  ct_effectiveAt :: int
  ct_expiresAt :: "int option"

definition campaignIneligibleReason :: "campaign_terms \<Rightarrow> int \<Rightarrow> string option" where
  "campaignIneligibleReason terms occurredAt =
     (if ct_status terms \<noteq> CP_ACTIVE then Some ''campaign is not active''
      else if occurredAt < ct_effectiveAt terms then Some ''campaign had not started''
      else if (case ct_expiresAt terms of None \<Rightarrow> False | Some t \<Rightarrow> occurredAt > t) then Some ''campaign had ended''
      else if ct_rewardAmountMinor terms \<le> 0 then Some ''campaign has no reward amount''
      else None)"

record award_context =
  aw_selfReferral :: bool
  aw_duplicateIdentity :: bool
  aw_referredUserKycTier :: nat
  aw_depositAmountMinor :: int
  aw_depositCurrency :: string
  aw_referrerRewardCount :: int
  aw_occurredAt :: int

definition awardRefusalReason :: "campaign_terms \<Rightarrow> award_context \<Rightarrow> string option" where
  "awardRefusalReason terms c =
     (case campaignIneligibleReason terms (aw_occurredAt c) of
        Some reason \<Rightarrow> Some reason
      | None \<Rightarrow>
      if aw_selfReferral c then Some ''self-referral''
      else if aw_duplicateIdentity c then Some ''duplicate identity''
      else if aw_referredUserKycTier c < ct_requiredKycTier terms then Some ''referred user has not verified identity to the required tier''
      else if aw_depositCurrency c \<noteq> ct_rewardCurrency terms then Some ''deposit currency does not match the campaign''
      else if (case ct_minimumAmountMinor terms of None \<Rightarrow> False | Some m \<Rightarrow> aw_depositAmountMinor c < m) then Some ''deposit is below the campaign minimum''
      else if (case ct_maximumRewards terms of None \<Rightarrow> False | Some m \<Rightarrow> aw_referrerRewardCount c \<ge> m) then Some ''referrer has reached the campaign reward cap''
      else None)"

definition rewardIdempotencyKey :: "string \<Rightarrow> int \<Rightarrow> string" where
  "rewardIdempotencyKey referralId version = ''referral-reward:'' @ referralId @ '':v'' @ showInt version"

definition rewardReversalIdempotencyKey :: "string \<Rightarrow> string" where
  "rewardReversalIdempotencyKey rewardId = ''referral-reward-reversal:'' @ rewardId"

datatype reward_status = RW_PENDING | RW_APPROVED | RW_RELEASED | RW_REJECTED | RW_REVERSED

record referral_reward =
  rw_id :: string
  rw_referralId :: string
  rw_amountMinor :: int
  rw_currency :: string
  rw_status :: reward_status
  rw_idempotencyKey :: string
  rw_ledgerTransactionId :: "string option"
  rw_awardedAt :: "int option"

definition totalReleasedMinor :: "referral_reward list \<Rightarrow> int" where
  "totalReleasedMinor rewards = foldl (\<lambda>n r. n + rw_amountMinor r) 0 (filter (\<lambda>r. rw_status r = RW_RELEASED) rewards)"

text \<open>The older rule that counts settled activities.\<close>

datatype activity_status = AS_SETTLED | AS_FAILED | AS_REVERSED

record qualifying_activity =
  qa_product :: string
  qa_event :: string
  qa_amountMinor :: int
  qa_status :: activity_status

record campaign_rule =
  cl_qualifyingProduct :: string
  cl_qualifyingEvent :: string
  cl_minimumTransactionCount :: nat
  cl_minimumAmountMinor :: "int option"
  cl_requiredKycTier :: nat

definition referralQualifies :: "bool \<Rightarrow> bool \<Rightarrow> nat \<Rightarrow> campaign_rule \<Rightarrow> qualifying_activity list \<Rightarrow> bool" where
  "referralQualifies selfReferral duplicateIdentity tier rule activities =
     (if selfReferral \<or> duplicateIdentity then False
      else if tier < cl_requiredKycTier rule then False
      else length (filter (\<lambda>a. qa_status a = AS_SETTLED \<and> qa_product a = cl_qualifyingProduct rule \<and> qa_event a = cl_qualifyingEvent rule
             \<and> qa_amountMinor a \<ge> or_default (cl_minimumAmountMinor rule) 0) activities) \<ge> cl_minimumTransactionCount rule)"

section \<open>Tables\<close>

record referral_campaign =
  cm_id :: string
  cm_version :: int
  cm_status :: campaign_status
  cm_rewardAmountMinor :: int
  cm_rewardCurrency :: string
  cm_maximumRewards :: "int option"
  cm_requiredKycTier :: kyc_tier
  cm_minimumAmountMinor :: "int option"
  cm_effectiveAt :: int
  cm_expiresAt :: "int option"

record referral_qualification =
  rq_id :: string
  rq_referralId :: string
  rq_qualifyingEventId :: string
  rq_settledAmountMinor :: int
  rq_currency :: string
  rq_occurredAt :: int
  rq_reversedAt :: "int option"

record referral_db = auth_db +
  referral_campaigns :: "referral_campaign list"
  referral_rewards :: "referral_reward list"
  referral_qualifications :: "referral_qualification list"

record deposit_event =
  de_userId :: string
  de_amountMinor :: int
  de_currency :: string
  de_paymentIntentId :: string
  de_occurredAt :: int

record reward_ids =
  wi_tx :: string
  wi_uuid :: string
  wi_reward :: string
  wi_qualification :: string
  wi_account :: string

section \<open>Reading the state\<close>

definition tierRank :: "kyc_tier \<Rightarrow> nat" where
  "tierRank t = (case t of TIER_1 \<Rightarrow> 1 | TIER_2 \<Rightarrow> 2 | TIER_3 \<Rightarrow> 3)"

definition termsOf :: "referral_campaign \<Rightarrow> campaign_terms" where
  "termsOf row = \<lparr>ct_id = cm_id row, ct_version = cm_version row, ct_status = cm_status row, ct_rewardAmountMinor = cm_rewardAmountMinor row,
     ct_rewardCurrency = cm_rewardCurrency row, ct_maximumRewards = cm_maximumRewards row, ct_requiredKycTier = tierRank (cm_requiredKycTier row),
     ct_minimumAmountMinor = cm_minimumAmountMinor row, ct_effectiveAt = cm_effectiveAt row, ct_expiresAt = cm_expiresAt row\<rparr>"

definition eligibleCampaign :: "string option \<Rightarrow> int \<Rightarrow> 'm referral_db_scheme \<Rightarrow> campaign_terms option" where
  "eligibleCampaign campaignId occurredAt s = map_option termsOf
     (case truthy campaignId of
        Some i \<Rightarrow> List.find (\<lambda>c. cm_id c = i) (referral_campaigns s)
      | None \<Rightarrow> newest cm_effectiveAt (filter (\<lambda>c. cm_status c = CP_ACTIVE \<and> cm_effectiveAt c \<le> occurredAt
          \<and> (case cm_expiresAt c of None \<Rightarrow> True | Some t \<Rightarrow> t \<ge> occurredAt)) (referral_campaigns s)))"

definition releasedRewardCount :: "string \<Rightarrow> string \<Rightarrow> 'm referral_db_scheme \<Rightarrow> int" where
  "releasedRewardCount referrerUserId campaignId s = int (length (filter (\<lambda>w. rw_status w = RW_RELEASED
     \<and> list_ex (\<lambda>r. rf_id r = rw_referralId w \<and> rf_referrerUserId r = referrerUserId \<and> rf_campaignId r = Some campaignId) (referrals s)) (referral_rewards s)))"

definition passedChecks :: "kyc_profile \<Rightarrow> kyc_check list" where
  "passedChecks k = filter (\<lambda>c. kc_status c = CK_PASSED) (kp_checks k)"

definition hasDuplicateIdentity :: "string \<Rightarrow> 'm kyc_db_scheme \<Rightarrow> bool" where
  "hasDuplicateIdentity userId s =
     (let checks = filter (\<lambda>c. kc_maskedIdentifier c \<noteq> None) (concat (map passedChecks (filter (\<lambda>k. kp_userId k = userId) (kyc_profiles s)))) in
      list_ex (\<lambda>k. kp_userId k \<noteq> userId \<and> list_ex (\<lambda>other. list_ex (\<lambda>c. kc_type c = kc_type other \<and> kc_maskedIdentifier c = kc_maskedIdentifier other) checks) (passedChecks k))
        (kyc_profiles s))"

definition kycTierOf :: "string \<Rightarrow> 'm kyc_db_scheme \<Rightarrow> nat" where
  "kycTierOf userId s = (case List.find (\<lambda>k. kp_userId k = userId) (kyc_profiles s) of None \<Rightarrow> 1 | Some k \<Rightarrow> tierRank (kp_tier k))"

section \<open>The accounts of a reward\<close>

definition expenseAccountCode :: "string \<Rightarrow> string" where
  "expenseAccountCode currency = ''PLATFORM:REFERRAL_REWARD_EXPENSE:'' @ currency"

definition expenseAccount :: "string \<Rightarrow> string \<Rightarrow> fin_account" where
  "expenseAccount newId currency = \<lparr>fa_id = newId, fa_code = expenseAccountCode currency, fa_name = ''Referral reward expense'', fa_type = EXPENSE,
     fa_purpose = Some REFERRAL_REWARD_EXPENSE, fa_currency = currency, fa_walletId = None, fa_isActive = True\<rparr>"

definition expenseAccountWithin :: "string \<Rightarrow> string \<Rightarrow> ('m core_db_scheme, string) tx" where
  "expenseAccountWithin newId currency s =
     (case List.find (\<lambda>a. fa_code a = expenseAccountCode currency) (accounts s) of
        Some a \<Rightarrow> Inr (fa_id a, s)
      | None \<Rightarrow> bind_res (insertRow account_clash (expenseAccount newId currency) (accounts s)) (\<lambda>rows. Inr (newId, s\<lparr>accounts := rows\<rparr>)))"

text \<open>The expense account and the referrer's available account.\<close>

definition rewardAccounts :: "string \<Rightarrow> string \<Rightarrow> string \<Rightarrow> ('m core_db_scheme, string \<times> string) tx" where
  "rewardAccounts newId referrerUserId currency s =
     (case List.find (\<lambda>w. wl_userId w = referrerUserId \<and> wl_currency w = currency) (wallets s) of
        None \<Rightarrow> Inl (PlainError ''The referring user has no wallet in the reward currency'')
      | Some w \<Rightarrow>
     (case List.find (\<lambda>a. fa_walletId a = Some (wl_id w) \<and> fa_purpose a = Some WALLET_AVAILABLE) (accounts s) of
        None \<Rightarrow> Inl RecordMissing
      | Some available \<Rightarrow> bind_res (expenseAccountWithin newId currency s) (\<lambda>(expense, s1). Inr ((expense, fa_id available), s1))))"

section \<open>Awarding and reversing\<close>

definition updateReferral :: "string \<Rightarrow> (referral_row \<Rightarrow> referral_row) \<Rightarrow> 'm auth_db_scheme \<Rightarrow> 'm auth_db_scheme" where
  "updateReferral referralId f s = s\<lparr>referrals := update_where (\<lambda>r. rf_id r = referralId) f (referrals s)\<rparr>"

definition rewardCommand :: "reward_ids \<Rightarrow> string \<Rightarrow> string \<Rightarrow> campaign_terms \<Rightarrow> string \<Rightarrow> string \<Rightarrow> posting_command" where
  "rewardCommand ids key referrerUserId terms expense available =
     \<lparr>pc_idempotencyKey = key, pc_reference = ''REFREWARD-'' @ wi_uuid ids, pc_description = ''Referral reward'', pc_currency = ct_rewardCurrency terms,
      pc_initiatedBy = Some referrerUserId, pc_correlationId = None, pc_entries = two_legs expense available (ct_rewardAmountMinor terms)\<rparr>"

definition awardContext :: "deposit_event \<Rightarrow> referral_row \<Rightarrow> campaign_terms \<Rightarrow> 'm referral_db_scheme \<Rightarrow> award_context" where
  "awardContext d r terms s =
     \<lparr>aw_selfReferral = (rf_referrerUserId r = de_userId d), aw_duplicateIdentity = hasDuplicateIdentity (de_userId d) s,
      aw_referredUserKycTier = kycTierOf (de_userId d) s, aw_depositAmountMinor = de_amountMinor d, aw_depositCurrency = de_currency d,
      aw_referrerRewardCount = releasedRewardCount (rf_referrerUserId r) (ct_id terms) s, aw_occurredAt = de_occurredAt d\<rparr>"

text \<open>What follows once nothing speaks against the reward.\<close>

definition payReward :: "reward_ids \<Rightarrow> int \<Rightarrow> deposit_event \<Rightarrow> referral_row \<Rightarrow> campaign_terms \<Rightarrow> string \<Rightarrow> ('m referral_db_scheme, unit) tx" where
  "payReward ids now d r terms key s =
     bind_res (insertRow (\<lambda>a b. rq_id a = rq_id b \<or> (rq_referralId a = rq_referralId b \<and> rq_qualifyingEventId a = rq_qualifyingEventId b))
         \<lparr>rq_id = wi_qualification ids, rq_referralId = rf_id r, rq_qualifyingEventId = de_paymentIntentId d, rq_settledAmountMinor = de_amountMinor d,
          rq_currency = de_currency d, rq_occurredAt = de_occurredAt d, rq_reversedAt = None\<rparr> (referral_qualifications s)) (\<lambda>quals.
     bind_res (rewardAccounts (wi_account ids) (rf_referrerUserId r) (ct_rewardCurrency terms) (s\<lparr>referral_qualifications := quals\<rparr>)) (\<lambda>((expense, available), s1).
     bind_res (postWithin (wi_tx ids) now (rewardCommand ids key (rf_referrerUserId r) terms expense available) s1) (\<lambda>(posting, s2).
     bind_res (insertRow (\<lambda>a b. rw_id a = rw_id b \<or> rw_idempotencyKey a = rw_idempotencyKey b
           \<or> (rw_ledgerTransactionId a \<noteq> None \<and> rw_ledgerTransactionId a = rw_ledgerTransactionId b))
         \<lparr>rw_id = wi_reward ids, rw_referralId = rf_id r, rw_amountMinor = ct_rewardAmountMinor terms, rw_currency = ct_rewardCurrency terms,
          rw_status = RW_RELEASED, rw_idempotencyKey = key, rw_ledgerTransactionId = Some (fst posting), rw_awardedAt = Some (de_occurredAt d)\<rparr>
         (referral_rewards s2)) (\<lambda>rewards.
       Inr ((), outbox ''Referral'' (rf_id r) ''referral.rewarded'' (audit (Some (rf_referrerUserId r)) ''referral.rewarded'' ''Referral'' (Some (rf_id r)) None
         (updateReferral (rf_id r) (\<lambda>r. r\<lparr>rf_status := RF_REWARDED, rf_qualifiedAt := Some (de_occurredAt d)\<rparr>) (s2\<lparr>referral_rewards := rewards\<rparr>))))))))"

type_synonym award_outcome = "bool \<times> string option"

definition awardWithin :: "reward_ids \<Rightarrow> int \<Rightarrow> deposit_event \<Rightarrow> referral_row \<Rightarrow> campaign_terms \<Rightarrow> ('m referral_db_scheme, award_outcome) tx" where
  "awardWithin ids now d r terms s =
     (let key = rewardIdempotencyKey (rf_id r) (ct_version terms) in
      if list_ex (\<lambda>w. rw_idempotencyKey w = key) (referral_rewards s) then Inr ((False, Some ''already awarded''), s)
      else (case awardRefusalReason terms (awardContext d r terms s) of
        Some reason \<Rightarrow> Inr ((False, Some reason), audit (Some (de_userId d)) ''referral.rejected'' ''Referral'' (Some (rf_id r)) None
          (updateReferral (rf_id r) (\<lambda>r. r\<lparr>rf_status := RF_REJECTED\<rparr>) s))
      | None \<Rightarrow> bind_res (payReward ids now d r terms key s) (\<lambda>(_, s1). Inr ((True, None), s1))))"

definition onDepositSettled :: "reward_ids \<Rightarrow> int \<Rightarrow> deposit_event \<Rightarrow> ('m referral_db_scheme, award_outcome) handler" where
  "onDepositSettled ids now d s =
     (case List.find (\<lambda>r. rf_referredUserId r = de_userId d) (referrals s) of
        None \<Rightarrow> (Inr (False, None), s)
      | Some r \<Rightarrow>
      if rf_status r = RF_REWARDED then (Inr (False, Some ''already rewarded''), s)
      else if rf_status r = RF_REJECTED then (Inr (False, Some ''previously rejected''), s)
      else (case eligibleCampaign (rf_campaignId r) (de_occurredAt d) s of
        None \<Rightarrow> (Inr (False, Some ''no eligible campaign''), s)
      | Some terms \<Rightarrow>
      (case serializable (awardWithin ids now d r terms) s of
         (Inl _, s1) \<Rightarrow> (Inr (False, Some ''reward failed''), s1)
       | (Inr outcome, s1) \<Rightarrow> (Inr outcome, s1))))"

text \<open>The ledger's reversal runs in a transaction of its own, inside the one that marks the rows.\<close>

definition REVERSAL_REFERENCE :: string where "REVERSAL_REFERENCE = ''Referral reward reversed: qualifying deposit was reversed''"

definition onDepositReversed :: "string \<Rightarrow> int \<Rightarrow> string \<Rightarrow> ('m referral_db_scheme, bool) handler" where
  "onDepositReversed newId now paymentIntentId s =
     (case List.find (\<lambda>q. rq_qualifyingEventId q = paymentIntentId \<and> rq_reversedAt q = None) (referral_qualifications s) of
        None \<Rightarrow> (Inr False, s)
      | Some q \<Rightarrow>
     (case List.find (\<lambda>w. rw_referralId w = rq_referralId q \<and> rw_status w = RW_RELEASED) (referral_rewards s) of
        None \<Rightarrow> (Inr False, s)
      | Some w \<Rightarrow>
     (case truthy (rw_ledgerTransactionId w) of
        None \<Rightarrow> (Inr False, s)
      | Some txId \<Rightarrow>
     (case reverse newId now txId (rewardReversalIdempotencyKey (rw_id w)) REVERSAL_REFERENCE s of
        (Inl e, s1) \<Rightarrow> (Inl e, s1)
      | (Inr _, s1) \<Rightarrow>
          (Inr True, audit None ''referral.reward_reversed'' ''ReferralReward'' (Some (rw_id w)) None
            (updateReferral (rq_referralId q) (\<lambda>r. r\<lparr>rf_status := RF_REJECTED\<rparr>)
              (s1\<lparr>referral_rewards := update_where (\<lambda>x. rw_id x = rw_id w) (\<lambda>x. x\<lparr>rw_status := RW_REVERSED\<rparr>) (referral_rewards s1),
                  referral_qualifications := update_where (\<lambda>x. rq_id x = rq_id q) (\<lambda>x. x\<lparr>rq_reversedAt := Some now\<rparr>) (referral_qualifications s1)\<rparr>)))))))"

record referral_summary =
  rs_totalRewardMinor :: int
  rs_currency :: string
  rs_referralCount :: nat
  rs_qualifiedCount :: nat
  rs_code :: "string option"

definition summaryFor :: "string \<Rightarrow> 'm referral_db_scheme \<Rightarrow> referral_summary" where
  "summaryFor userId s =
     (let mine = filter (\<lambda>r. rf_referrerUserId r = userId) (referrals s);
          rewards = concat (map (\<lambda>r. filter (\<lambda>w. rw_referralId w = rf_id r) (referral_rewards s)) mine) in
      \<lparr>rs_totalRewardMinor = totalReleasedMinor rewards,
       rs_currency = (case List.find (\<lambda>w. rw_status w = RW_RELEASED) rewards of None \<Rightarrow> ''NGN'' | Some w \<Rightarrow> rw_currency w),
       rs_referralCount = length mine,
       rs_qualifiedCount = length (filter (\<lambda>r. rf_status r = RF_QUALIFIED \<or> rf_status r = RF_REWARDED) mine),
       rs_code = (case findUser userId s of None \<Rightarrow> None | Some u \<Rightarrow> ur_referralCode u)\<rparr>)"

section \<open>The expense account as an owned account\<close>

lemma expenseAccount_simps [simp]:
  "fa_id (expenseAccount i c) = i" "fa_code (expenseAccount i c) = expenseAccountCode c" "\<not> is_wallet_account (expenseAccount i c)"
  by (simp_all add: expenseAccount_def is_wallet_account_def)

interpretation expense: owned_account "\<lambda>newId owner currency. expenseAccountWithin newId owner" expenseAccountCode "\<lambda>newId owner currency. expenseAccount newId owner"
  by unfold_locales (auto simp: expenseAccountWithin_def res_iffs account_clash_def find_None_iff dest: find_SomeD split: option.splits if_splits)

section \<open>Histories of deposits\<close>

datatype referral_request =
    DepositSettled reward_ids int deposit_event
  | DepositReversed string int string

fun serveReferral :: "referral_request \<Rightarrow> 'm referral_db_scheme \<Rightarrow> 'm referral_db_scheme" where
  "serveReferral (DepositSettled ids now d) s = snd (onDepositSettled ids now d s)"
| "serveReferral (DepositReversed newId now intent) s = snd (onDepositReversed newId now intent s)"

text \<open>
  A referral has at most one reward, a referral with a reward is closed, and a ledger key of a reward belongs to a reward row.
\<close>

definition closed_referral :: "referral_row list \<Rightarrow> string \<Rightarrow> bool" where
  "closed_referral rs i = list_ex (\<lambda>r. rf_id r = i \<and> (rf_status r = RF_REWARDED \<or> rf_status r = RF_REJECTED)) rs"

definition reward_key :: "string \<Rightarrow> bool" where
  "reward_key k \<longleftrightarrow> take 16 k = ''referral-reward:''"

definition rewards_ok :: "string set \<Rightarrow> referral_row list \<Rightarrow> referral_reward list \<Rightarrow> bool" where
  "rewards_ok keys rs ws \<longleftrightarrow> distinct (map rf_id rs) \<and> distinct (map rw_referralId ws) \<and> list_all (closed_referral rs) (map rw_referralId ws)
     \<and> (\<forall>k \<in> keys. reward_key k \<longrightarrow> k \<in> set (map rw_idempotencyKey ws))"

definition referral_wf :: "'m referral_db_scheme \<Rightarrow> bool" where
  "referral_wf s = rewards_ok (used_keys s) (referrals s) (referral_rewards s)"

lemma reward_keys [simp]: "reward_key (rewardIdempotencyKey i v)" "\<not> reward_key (rewardReversalIdempotencyKey i)"
  by (simp_all add: reward_key_def rewardIdempotencyKey_def rewardReversalIdempotencyKey_def)

lemma closed_referral_update:
  assumes "\<And>r. rf_id (f r) = rf_id r" and "\<And>r. rf_status (f r) = RF_REWARDED \<or> rf_status (f r) = RF_REJECTED"
  shows "closed_referral (update_where P f rs) i = (closed_referral rs i \<or> (\<exists>r \<in> set rs. P r \<and> rf_id r = i))"
  using assms by (induction rs) (auto simp: closed_referral_def update_where_def)

lemma rewards_ok_close:
  assumes "rewards_ok keys rs ws" and "\<And>r. rf_id (f r) = rf_id r" and "\<And>r. rf_status (f r) = RF_REWARDED \<or> rf_status (f r) = RF_REJECTED"
    and "map rw_referralId ws' = map rw_referralId ws" and "map rw_idempotencyKey ws' = map rw_idempotencyKey ws"
    and "\<And>k. k \<in> keys' \<Longrightarrow> k \<in> keys \<or> \<not> reward_key k"
  shows "rewards_ok keys' (update_where P f rs) ws'"
  using assms(1,6) unfolding rewards_ok_def assms(4,5)
  by (auto simp: map_update_where assms(2) closed_referral_update [OF assms(2,3)] list_all_iff)

lemma rewards_ok_pay:
  assumes "rewards_ok keys rs ws" and "r \<in> set rs" and "rf_status r \<noteq> RF_REWARDED" and "rf_status r \<noteq> RF_REJECTED"
    and "rw_referralId w = rf_id r" and "\<And>r. rf_id (f r) = rf_id r" and "\<And>r. rf_status (f r) = RF_REWARDED"
  shows "rewards_ok (insert (rw_idempotencyKey w) keys) (update_where (\<lambda>x. rf_id x = rf_id r) f rs) (ws @ [w])"
proof -
  have "\<not> closed_referral rs (rf_id r)"
    using assms(1-4) by (auto simp: closed_referral_def list_ex_iff rewards_ok_def distinct_map dest: inj_onD)
  then have "rf_id r \<notin> rw_referralId ` set ws" using assms(1) by (auto simp: rewards_ok_def list_all_iff)
  moreover have "list_all (closed_referral (update_where (\<lambda>x. rf_id x = rf_id r) f rs)) (map rw_referralId (ws @ [w]))"
    using assms(1,2,5) by (auto simp: rewards_ok_def list_all_iff closed_referral_update assms(6,7))
  ultimately show ?thesis
    using assms(1,5) by (auto simp: rewards_ok_def map_update_where assms(6))
qed

lemma distinct_key_single:
  assumes "distinct (map key xs)" and "k \<in> set (map key xs)"
  shows "length (filter (\<lambda>x. key x = k) xs) = 1"
  using assms by (induction xs) (auto simp: filter_empty_conv image_iff)

section \<open>What paying a reward does\<close>

lemma referral_frames [simp]:
  "referrals (updateReferral i f s) = update_where (\<lambda>r. rf_id r = i) f (referrals s)"
  "ledger_txs (updateReferral i f s) = ledger_txs s" "accounts (updateReferral i f s) = accounts s"
  "referrals (audit a b c d e s) = referrals s" "referrals (outbox x y z s) = referrals s"
  by (simp_all add: updateReferral_def audit_def outbox_def)

lemma reward_frames [simp]:
  "referral_rewards (updateReferral i f s) = referral_rewards s"
  "referral_rewards (audit a b c d e s) = referral_rewards s" "referral_rewards (outbox x y z s) = referral_rewards s"
  by (simp_all add: updateReferral_def audit_def outbox_def)

lemma rewardAccounts_effect:
  assumes "rewardAccounts newId u cur s = Inr ((ex, av), s1)"
  obtains as where "s1 = s\<lparr>accounts := as\<rparr>" "set (accounts s) \<subseteq> set as" "\<exists>a \<in> set as. fa_id a = ex \<and> fa_code a = expenseAccountCode cur"
    "\<exists>w \<in> set (wallets s). wl_userId w = u \<and> wl_currency w = cur
       \<and> (\<exists>a \<in> set (accounts s). fa_id a = av \<and> fa_walletId a = Some (wl_id w) \<and> fa_purpose a = Some WALLET_AVAILABLE)"
proof -
  from assms obtain w a where w: "w \<in> set (wallets s)" "wl_userId w = u" "wl_currency w = cur"
    and a: "a \<in> set (accounts s)" "fa_walletId a = Some (wl_id w)" "fa_purpose a = Some WALLET_AVAILABLE" "av = fa_id a"
    and e: "expenseAccountWithin newId cur s = Inr (ex, s1)"
    by (auto simp: rewardAccounts_def res_iffs dest!: find_SomeD split: option.splits)
  have "\<exists>as. s1 = s\<lparr>accounts := as\<rparr> \<and> set (accounts s) \<subseteq> set as \<and> (\<exists>b \<in> set as. fa_id b = ex \<and> fa_code b = expenseAccountCode cur)"
    using e
  proof (cases rule: expense.open_cases)
    case (old b)
    then have "s1 = s\<lparr>accounts := accounts s\<rparr>" by simp
    with old show ?thesis by blast
  next
    case new
    then show ?thesis by (intro exI [of _ "accounts s @ [expenseAccount newId cur]"]) auto
  qed
  with w a that show ?thesis by blast
qed

lemma payReward_effect:
  assumes "payReward ids now d r terms key s = Inr (u, s')" and "key \<notin> used_keys s"
  obtains ex av w f where
    "\<And>x. accountBalanceWithin s' x = accountBalanceWithin s x + (if x = av then ct_rewardAmountMinor terms else 0) - (if x = ex then ct_rewardAmountMinor terms else 0)"
    "\<exists>a \<in> set (accounts s'). fa_id a = ex \<and> fa_code a = expenseAccountCode (ct_rewardCurrency terms)"
    "\<exists>wl \<in> set (wallets s). wl_userId wl = rf_referrerUserId r \<and> wl_currency wl = ct_rewardCurrency terms
       \<and> (\<exists>a \<in> set (accounts s). fa_id a = av \<and> fa_walletId a = Some (wl_id wl) \<and> fa_purpose a = Some WALLET_AVAILABLE)"
    "referral_rewards s' = referral_rewards s @ [w]" "rw_referralId w = rf_id r" "rw_idempotencyKey w = key" "rw_status w = RW_RELEASED"
    "rw_amountMinor w = ct_rewardAmountMinor terms"
    "referrals s' = update_where (\<lambda>x. rf_id x = rf_id r) f (referrals s)" "\<And>r. rf_id (f r) = rf_id r" "\<And>r. rf_campaignId (f r) = rf_campaignId r"
    "\<And>r. rf_status (f r) = RF_REWARDED"
    "used_keys s' = insert key (used_keys s)"
proof -
  let ?f = "\<lambda>r. r\<lparr>rf_status := RF_REWARDED, rf_qualifiedAt := Some (de_occurredAt d)\<rparr>"
  let ?w = "\<lambda>posting. \<lparr>rw_id = wi_reward ids, rw_referralId = rf_id r, rw_amountMinor = ct_rewardAmountMinor terms, rw_currency = ct_rewardCurrency terms,
          rw_status = RW_RELEASED, rw_idempotencyKey = key, rw_ledgerTransactionId = Some (fst posting), rw_awardedAt = Some (de_occurredAt d)\<rparr> :: referral_reward"
  from assms(1) obtain quals ex av s1 posting s2 where
    a: "rewardAccounts (wi_account ids) (rf_referrerUserId r) (ct_rewardCurrency terms) (s\<lparr>referral_qualifications := quals\<rparr>) = Inr ((ex, av), s1)"
    and p: "postWithin (wi_tx ids) now (rewardCommand ids key (rf_referrerUserId r) terms ex av) s1 = Inr (posting, s2)"
    and s': "s' = outbox ''Referral'' (rf_id r) ''referral.rewarded'' (audit (Some (rf_referrerUserId r)) ''referral.rewarded'' ''Referral'' (Some (rf_id r)) None
         (updateReferral (rf_id r) ?f (s2\<lparr>referral_rewards := referral_rewards s2 @ [?w posting]\<rparr>)))"
    unfolding payReward_def by (auto simp: res_iffs split: prod.splits)
  from a obtain as where as: "s1 = s\<lparr>referral_qualifications := quals, accounts := as\<rparr>" 
    "\<exists>a \<in> set as. fa_id a = ex \<and> fa_code a = expenseAccountCode (ct_rewardCurrency terms)"
    "\<exists>wl \<in> set (wallets s). wl_userId wl = rf_referrerUserId r \<and> wl_currency wl = ct_rewardCurrency terms
       \<and> (\<exists>a \<in> set (accounts s). fa_id a = av \<and> fa_walletId a = Some (wl_id wl) \<and> fa_purpose a = Some WALLET_AVAILABLE)"
    by (rule rewardAccounts_effect) auto
  from p obtain txs where s2: "s2 = s1\<lparr>ledger_txs := txs\<rparr>" by (rule postWithin_only_ledger)
  have k: "pc_idempotencyKey (rewardCommand ids key (rf_referrerUserId r) terms ex av) = key" by (simp add: rewardCommand_def)
  have fresh: "key \<notin> used_keys s1" using assms(2) as(1) by (simp add: used_keys_def)
  have keys: "used_keys s2 = insert key (used_keys s1)"
    using postWithin_fresh [OF p] fresh k used_keys_create by fastforce
  have bal: "accountBalanceWithin s2 x = accountBalanceWithin s1 x + (if x = av then ct_rewardAmountMinor terms else 0) - (if x = ex then ct_rewardAmountMinor terms else 0)" for x
    using p
    by (rule post_two_legs [where a = ex and b = av and n = "ct_rewardAmountMinor terms"]) (use fresh k in \<open>auto simp: rewardCommand_def\<close>)
  have txs: "ledger_txs s' = ledger_txs s2" "ledger_txs s1 = ledger_txs s" by (simp_all add: s' as(1))
  have "referral_rewards s' = referral_rewards s @ [?w posting]" "referrals s' = update_where (\<lambda>x. rf_id x = rf_id r) ?f (referrals s)" "accounts s' = as"
    by (simp_all add: s' s2 as(1))
  moreover have "accountBalanceWithin s' x = accountBalanceWithin s x + (if x = av then ct_rewardAmountMinor terms else 0) - (if x = ex then ct_rewardAmountMinor terms else 0)" for x
    using bal [of x] balance_cong [OF txs(1), of x] balance_cong [OF txs(2), of x] by simp
  moreover have "used_keys s' = insert key (used_keys s)" using keys used_keys_cong [OF txs(1)] used_keys_cong [OF txs(2)] by simp
  ultimately show ?thesis using as(2,3) by (intro that [of av ex "?w posting" ?f]) simp_all
qed

lemma payReward_referrals:
  assumes "payReward ids now d r terms key s = Inr (u, s')"
  obtains f where "referrals s' = update_where (\<lambda>x. rf_id x = rf_id r) f (referrals s)" "\<And>r. rf_campaignId (f r) = rf_campaignId r"
proof -
  from assms obtain quals acc s1 c posting s2 ws where
    a: "rewardAccounts (wi_account ids) (rf_referrerUserId r) (ct_rewardCurrency terms) (s\<lparr>referral_qualifications := quals\<rparr>) = Inr (acc, s1)"
    and p: "postWithin (wi_tx ids) now c s1 = Inr (posting, s2)"
    and s': "referrals s' = update_where (\<lambda>x. rf_id x = rf_id r) (\<lambda>r. r\<lparr>rf_status := RF_REWARDED, rf_qualifiedAt := Some (de_occurredAt d)\<rparr>) (referrals s2)"
    unfolding payReward_def by (auto simp: res_iffs split: prod.splits)
  from a obtain as where "s1 = s\<lparr>referral_qualifications := quals, accounts := as\<rparr>" by (cases acc) (auto elim: rewardAccounts_effect)
  moreover from p obtain txs where "s2 = s1\<lparr>ledger_txs := txs\<rparr>" by (rule postWithin_only_ledger)
  ultimately show ?thesis using s' by (intro that [of "\<lambda>r. r\<lparr>rf_status := RF_REWARDED, rf_qualifiedAt := Some (de_occurredAt d)\<rparr>"]) simp_all
qed

lemma onDepositSettled_cases:
  fixes s :: "'m referral_db_scheme"
  assumes "onDepositSettled ids now d s = (res, s')"
  obtains (idle) "s' = s" "\<And>x. res \<noteq> Inr (True, x)"
  | (refused) r :: referral_row and f where "referrals s' = update_where (\<lambda>x. rf_id x = rf_id r) f (referrals s)" "\<And>r. rf_id (f r) = rf_id r" "\<And>r. rf_status (f r) = RF_REJECTED"
      "\<And>r. rf_campaignId (f r) = rf_campaignId r" "referral_rewards s' = referral_rewards s" "ledger_txs s' = ledger_txs s" "\<And>x. res \<noteq> Inr (True, x)"
  | (paid) r terms u where "List.find (\<lambda>r. rf_referredUserId r = de_userId d) (referrals s) = Some r" "rf_status r \<noteq> RF_REWARDED" "rf_status r \<noteq> RF_REJECTED"
      "eligibleCampaign (rf_campaignId r) (de_occurredAt d) s = Some terms" "awardRefusalReason terms (awardContext d r terms s) = None"
      "\<not> list_ex (\<lambda>w. rw_idempotencyKey w = rewardIdempotencyKey (rf_id r) (ct_version terms)) (referral_rewards s)"
      "payReward ids now d r terms (rewardIdempotencyKey (rf_id r) (ct_version terms)) s = Inr (u, s')" "res = Inr (True, None)"
proof (cases "List.find (\<lambda>r. rf_referredUserId r = de_userId d) (referrals s)")
  case (Some r)
  show ?thesis
  proof (cases "rf_status r = RF_REWARDED \<or> rf_status r = RF_REJECTED \<or> eligibleCampaign (rf_campaignId r) (de_occurredAt d) s = None")
    case False
    then obtain terms where t: "eligibleCampaign (rf_campaignId r) (de_occurredAt d) s = Some terms" by auto
    let ?key = "rewardIdempotencyKey (rf_id r) (ct_version terms)"
    show ?thesis
    proof (cases "awardWithin ids now d r terms s")
      case (Inl e)
      with assms Some False t show ?thesis by (intro idle) (auto simp: onDepositSettled_def serializable_def)
    next
      case (Inr out)
      with assms Some False t have o: "awardWithin ids now d r terms s = Inr (fst out, s')" "res = Inr (fst out)"
        by (auto simp: onDepositSettled_def serializable_def split: prod.splits)
      show ?thesis
      proof (cases "list_ex (\<lambda>w. rw_idempotencyKey w = ?key) (referral_rewards s)")
        case True
        with o show ?thesis by (intro idle) (auto simp: awardWithin_def)
      next
        case new: False
        show ?thesis
        proof (cases "awardRefusalReason terms (awardContext d r terms s)")
          case None
          with o new obtain u where "payReward ids now d r terms ?key s = Inr (u, s')" "fst out = (True, None)"
            by (auto simp: awardWithin_def Let_def res_iffs)
          with paid [OF Some _ _ t None new] False o(2) show ?thesis by simp
        next
          case (Some reason)
          with o new show ?thesis by (intro refused [of r "\<lambda>r. r\<lparr>rf_status := RF_REJECTED\<rparr>"]) (auto simp: awardWithin_def Let_def)
        qed
      qed
    qed
  qed (use assms Some in \<open>auto intro!: idle simp: onDepositSettled_def split: if_splits\<close>)
qed (use assms in \<open>auto intro!: idle simp: onDepositSettled_def\<close>)

lemma fresh_reward_key:
  "referral_wf s \<Longrightarrow> \<not> list_ex (\<lambda>w. rw_idempotencyKey w = rewardIdempotencyKey i v) (referral_rewards s) \<Longrightarrow> rewardIdempotencyKey i v \<notin> used_keys s"
  using reward_keys(1) [of i v] by (force simp: referral_wf_def rewards_ok_def list_ex_iff)

text \<open>Every handler keeps the invariant and every reward row.\<close>

definition rewards_kept :: "string set \<Rightarrow> 'm referral_db_scheme \<Rightarrow> bool" where
  "rewards_kept is s \<longleftrightarrow> referral_wf s \<and> is \<subseteq> set (map rw_referralId (referral_rewards s))"

lemma onDepositSettled_kept:
  assumes "rewards_kept is s"
  shows "rewards_kept is (snd (onDepositSettled ids now d s))"
proof (cases "onDepositSettled ids now d s")
  case (Pair res s')
  then show ?thesis
  proof (cases rule: onDepositSettled_cases)
    case (refused r f)
    with assms Pair show ?thesis
      by (auto simp: rewards_kept_def referral_wf_def used_keys_cong [of s' s] intro!: rewards_ok_close)
  next
    case (paid r terms u)
    have wf: "referral_wf s" using assms by (simp add: rewards_kept_def)
    have r: "r \<in> set (referrals s)" using paid(1) by (simp add: find_SomeD)
    obtain w f where
      w: "referral_rewards s' = referral_rewards s @ [w]" "rw_referralId w = rf_id r" "rw_idempotencyKey w = rewardIdempotencyKey (rf_id r) (ct_version terms)"
        "used_keys s' = insert (rewardIdempotencyKey (rf_id r) (ct_version terms)) (used_keys s)"
      and f: "referrals s' = update_where (\<lambda>x. rf_id x = rf_id r) f (referrals s)" "\<And>r. rf_id (f r) = rf_id r" "\<And>r. rf_status (f r) = RF_REWARDED"
      by (rule payReward_effect [OF paid(7) fresh_reward_key [OF wf paid(6)]]) (rule that)
    have "referral_wf s'"
      using rewards_ok_pay [OF _ r paid(2,3) w(2) f(2,3)] wf w f(1) by (simp add: referral_wf_def)
    with assms w Pair show ?thesis by (auto simp: rewards_kept_def)
  qed (use assms Pair in simp)
qed

lemma reverse_effect:
  assumes "reverse newId now txId key ref s = (res, s')"
  shows "\<exists>txs. s' = s\<lparr>ledger_txs := txs\<rparr>" and "used_keys s' \<subseteq> insert key (used_keys s)"
proof -
  have id: "s = s\<lparr>ledger_txs := ledger_txs s\<rparr>" by simp
  from assms show "\<exists>txs. s' = s\<lparr>ledger_txs := txs\<rparr>" "used_keys s' \<subseteq> insert key (used_keys s)"
    using id by (auto simp: reverse_def serializable_def reverseWithin_def res_iffs createLedgerTx_def used_keys_def set_update_where reversalTx_def
        intro: exI [of _ "ledger_txs s"] split: sum.splits option.splits if_splits)
qed

lemma onDepositReversed_cases:
  assumes "onDepositReversed newId now intent s = (res, s')"
  obtains (idle) "s' = s" | (failed) key txs where "s' = s\<lparr>ledger_txs := txs\<rparr>" "used_keys s' \<subseteq> insert key (used_keys s)" "\<not> reward_key key"
  | (reversed) key ws P f where "used_keys s' \<subseteq> insert key (used_keys s)" "\<not> reward_key key" "referral_rewards s' = ws"
      "map rw_referralId ws = map rw_referralId (referral_rewards s)" "map rw_idempotencyKey ws = map rw_idempotencyKey (referral_rewards s)"
      "referrals s' = update_where P f (referrals s)" "\<And>r. rf_id (f r) = rf_id r" "\<And>r. rf_status (f r) = RF_REJECTED"
      "\<And>r. rf_campaignId (f r) = rf_campaignId r"
proof (cases "s' = s")
  case False
  with assms obtain q where q: "List.find (\<lambda>q. rq_qualifyingEventId q = intent \<and> rq_reversedAt q = None) (referral_qualifications s) = Some q"
    by (auto simp: onDepositReversed_def split: option.splits)
  with assms False obtain w where w: "List.find (\<lambda>w. rw_referralId w = rq_referralId q \<and> rw_status w = RW_RELEASED) (referral_rewards s) = Some w"
    by (auto simp: onDepositReversed_def split: option.splits)
  with assms False q obtain txId where t: "truthy (rw_ledgerTransactionId w) = Some txId" by (auto simp: onDepositReversed_def split: option.splits)
  obtain res1 s1 where rev: "reverse newId now txId (rewardReversalIdempotencyKey (rw_id w)) REVERSAL_REFERENCE s = (res1, s1)" by fastforce
  have s': "s' = (case res1 of Inl _ \<Rightarrow> s1 | Inr _ \<Rightarrow> audit None ''referral.reward_reversed'' ''ReferralReward'' (Some (rw_id w)) None
            (updateReferral (rq_referralId q) (\<lambda>r. r\<lparr>rf_status := RF_REJECTED\<rparr>)
              (s1\<lparr>referral_rewards := update_where (\<lambda>x. rw_id x = rw_id w) (\<lambda>x. x\<lparr>rw_status := RW_REVERSED\<rparr>) (referral_rewards s1),
                  referral_qualifications := update_where (\<lambda>x. rq_id x = rq_id q) (\<lambda>x. x\<lparr>rq_reversedAt := Some now\<rparr>) (referral_qualifications s1)\<rparr>)))"
    using assms q w t rev by (simp add: onDepositReversed_def split: sum.splits)
  from reverse_effect(1) [OF rev] obtain txs where s1: "s1 = s\<lparr>ledger_txs := txs\<rparr>" ..
  have keys: "used_keys s' = used_keys s1" by (cases res1) (simp_all add: s' used_keys_def)
  show ?thesis
  proof (cases res1)
    case (Inl e)
    with s' s1 reverse_effect(2) [OF rev] show ?thesis by (intro failed) (simp_all, rule reward_keys)
  next
    case (Inr p)
    show ?thesis
      by (rule reversed [of "rewardReversalIdempotencyKey (rw_id w)" "update_where (\<lambda>x. rw_id x = rw_id w) (\<lambda>x. x\<lparr>rw_status := RW_REVERSED\<rparr>) (referral_rewards s)"
            "\<lambda>r. rf_id r = rq_referralId q" "\<lambda>r. r\<lparr>rf_status := RF_REJECTED\<rparr>"])
        (use Inr s' s1 keys reverse_effect(2) [OF rev] in \<open>simp_all add: map_update_where\<close>)
  qed
qed (rule idle)

lemma onDepositReversed_kept:
  assumes "rewards_kept is s"
  shows "rewards_kept is (snd (onDepositReversed newId now intent s))"
proof (cases "onDepositReversed newId now intent s")
  case (Pair res s')
  then show ?thesis
  proof (cases rule: onDepositReversed_cases)
    case (failed key txs)
    with assms Pair show ?thesis by (auto simp: rewards_kept_def referral_wf_def rewards_ok_def)
  next
    case (reversed key ws P f)
    have "rewards_ok (used_keys s') (referrals s') (referral_rewards s')"
      unfolding reversed(3,6) using assms reversed by (intro rewards_ok_close [OF _ reversed(7)]) (auto simp: rewards_kept_def referral_wf_def)
    with assms Pair reversed show ?thesis by (simp add: rewards_kept_def referral_wf_def flip: set_map)
  qed (use assms Pair in simp)
qed

interpretation referral_history: request_safety serveReferral "rewards_kept is"
proof
  fix s :: "'m referral_db_scheme" and q
  assume "rewards_kept is s"
  then show "rewards_kept is (serveReferral q s)" by (cases q) (simp_all add: onDepositSettled_kept onDepositReversed_kept)
qed

text \<open>
  C11. A reward is paid once. Whatever deposits and reversals came before, when a deposit is answered with a reward its amount has moved from the platform's expense
  account to the available account of the referrer's wallet and no other balance has changed; and whatever deposits and reversals follow, that referral has exactly
  one reward row.
\<close>

theorem reward_paid_once:
  fixes s0 :: "'m referral_db_scheme"
  assumes s: "s = fold serveReferral before s0" and "referral_wf s0" and "onDepositSettled ids now d s = (Inr (True, x), s')"
  shows "\<exists>r terms ex av. r \<in> set (referrals s) \<and> rf_referredUserId r = de_userId d \<and> rf_referrerUserId r \<noteq> de_userId d
    \<and> eligibleCampaign (rf_campaignId r) (de_occurredAt d) s = Some terms \<and> 0 < ct_rewardAmountMinor terms
    \<and> (\<exists>w \<in> set (wallets s). wl_userId w = rf_referrerUserId r
         \<and> (\<exists>a \<in> set (accounts s). fa_id a = av \<and> fa_walletId a = Some (wl_id w) \<and> fa_purpose a = Some WALLET_AVAILABLE))
    \<and> (\<exists>a \<in> set (accounts s'). fa_id a = ex \<and> fa_code a = expenseAccountCode (ct_rewardCurrency terms))
    \<and> (\<forall>a. accountBalanceWithin s' a = accountBalanceWithin s a + (if a = av then ct_rewardAmountMinor terms else 0) - (if a = ex then ct_rewardAmountMinor terms else 0))
    \<and> length (filter (\<lambda>w. rw_referralId w = rf_id r) (referral_rewards (fold serveReferral after s'))) = 1"
proof -
  have "rewards_kept {} s0" using assms(2) by (simp add: rewards_kept_def)
  then have kept: "rewards_kept {} s" unfolding s by (rule referral_history.history_inv)
  then have wf: "referral_wf s" by (simp add: rewards_kept_def)
  from assms(3) show ?thesis
  proof (cases rule: onDepositSettled_cases)
    case (paid r terms u)
    obtain ex av w where e: "\<And>x. accountBalanceWithin s' x = accountBalanceWithin s x + (if x = av then ct_rewardAmountMinor terms else 0) - (if x = ex then ct_rewardAmountMinor terms else 0)"
        "\<exists>a \<in> set (accounts s'). fa_id a = ex \<and> fa_code a = expenseAccountCode (ct_rewardCurrency terms)"
        "\<exists>wl \<in> set (wallets s). wl_userId wl = rf_referrerUserId r \<and> wl_currency wl = ct_rewardCurrency terms
          \<and> (\<exists>a \<in> set (accounts s). fa_id a = av \<and> fa_walletId a = Some (wl_id wl) \<and> fa_purpose a = Some WALLET_AVAILABLE)"
        "referral_rewards s' = referral_rewards s @ [w]" "rw_referralId w = rf_id r"
      by (rule payReward_effect [OF paid(7) fresh_reward_key [OF wf paid(6)]]) (rule that)
    have "rewards_kept {rf_id r} s'"
      using onDepositSettled_kept [OF kept, of ids now d] assms(3) e(4,5) by (auto simp: rewards_kept_def)
    then have "rewards_kept {rf_id r} (fold serveReferral after s')" by (rule referral_history.history_inv)
    then have one: "length (filter (\<lambda>w. rw_referralId w = rf_id r) (referral_rewards (fold serveReferral after s'))) = 1"
      by (intro distinct_key_single) (auto simp: rewards_kept_def referral_wf_def rewards_ok_def)
    from paid(5) have "rf_referrerUserId r \<noteq> de_userId d" "0 < ct_rewardAmountMinor terms"
      by (auto simp: awardRefusalReason_def campaignIneligibleReason_def awardContext_def split: if_splits)
    with find_SomeD [OF paid(1)] paid(4) e(1-3) one show ?thesis by blast
  qed blast+
qed

definition demo_campaign :: "int option \<Rightarrow> referral_campaign" where
  "demo_campaign cap = \<lparr>cm_id = ''c1'', cm_version = 1, cm_status = CP_ACTIVE, cm_rewardAmountMinor = 500, cm_rewardCurrency = ''NGN'', cm_maximumRewards = cap,
     cm_requiredKycTier = TIER_1, cm_minimumAmountMinor = Some 1000, cm_effectiveAt = 0, cm_expiresAt = None\<rparr>"

definition demo_referral_db :: referral_db where
  "demo_referral_db = auth_db.extend (identity_db.extend (kyc_db.extend
       (demo_kyc_db\<lparr>kyc_profiles := [], ledger_txs := [], users := [\<lparr>ur_id = ''ada'', ur_email = None, ur_phone = None, ur_status = US_ACTIVE, ur_referralCode = Some ''AJO-ACDEFG'',
          ur_emailVerifiedAt = None, ur_lastLoginAt = None\<rparr>],
          wallets := [\<lparr>wl_id = ''w1'', wl_userId = ''ada'', wl_currency = ''NGN'', wl_status = WS_ACTIVE\<rparr>],
          accounts := [\<lparr>fa_id = ''a1'', fa_code = ''WALLET:w1:AVAILABLE'', fa_name = ''Wallet available balance'', fa_type = LIABILITY, fa_purpose = Some WALLET_AVAILABLE,
            fa_currency = ''NGN'', fa_walletId = Some ''w1'', fa_isActive = True\<rparr>]\<rparr>)
       (identity_db.fields [] [] []))
     (auth_db.fields [] [] [] [] [] [] [] [\<lparr>rf_id = ''r1'', rf_referrerUserId = ''ada'', rf_referredUserId = ''bola'', rf_campaignId = None, rf_code = ''AJO-ACDEFG'',
        rf_status = RF_PENDING, rf_qualifiedAt = None\<rparr>]))
     (referral_db.fields [demo_campaign None] [] [])"

definition demo_deposited :: "string \<Rightarrow> string \<Rightarrow> deposit_event" where
  "demo_deposited u i = \<lparr>de_userId = u, de_amountMinor = 2000, de_currency = ''NGN'', de_paymentIntentId = i, de_occurredAt = 5\<rparr>"

definition demo_rids :: "string \<Rightarrow> reward_ids" where
  "demo_rids n = \<lparr>wi_tx = ''t'' @ n, wi_uuid = n, wi_reward = ''rw'' @ n, wi_qualification = ''q'' @ n, wi_account = ''x'' @ n\<rparr>"

theorem reward_paid_once_witness:
  "\<exists>r :: referral_row. length (filter (\<lambda>w. rw_referralId w = rf_id r) (referral_rewards (fold serveReferral
       [DepositSettled (demo_rids ''2'') 7 (demo_deposited ''bola'' ''i2''), DepositReversed ''t9'' 8 ''i1'']
       (snd (onDepositSettled (demo_rids ''1'') 6 (demo_deposited ''bola'' ''i1'') (fold serveReferral [DepositSettled (demo_rids ''0'') 5 (demo_deposited ''chi'' ''i0'')] demo_referral_db)))))) = 1"
proof -
  let ?before = "[DepositSettled (demo_rids ''0'') 5 (demo_deposited ''chi'' ''i0'')]"
  let ?s = "fold serveReferral ?before demo_referral_db"
  let ?r = "onDepositSettled (demo_rids ''1'') 6 (demo_deposited ''bola'' ''i1'') ?s"
  have "fst ?r = Inr (True, None)" by code_simp
  then have r: "?r = (Inr (True, None), snd ?r)" by (simp add: prod_eq_iff)
  have wf: "referral_wf demo_referral_db" by code_simp
  from reward_paid_once [OF refl wf r, of "[DepositSettled (demo_rids ''2'') 7 (demo_deposited ''bola'' ''i2''), DepositReversed ''t9'' 8 ''i1'']"] show ?thesis by blast
qed

section \<open>The reward cap\<close>

definition no_campaign :: "'m auth_db_scheme \<Rightarrow> bool" where
  "no_campaign s = list_all (\<lambda>r. rf_campaignId r = None) (referrals s)"

lemma no_campaign_update:
  "no_campaign s \<Longrightarrow> referrals s' = update_where P f (referrals s) \<Longrightarrow> (\<And>r. rf_campaignId (f r) = rf_campaignId r) \<Longrightarrow> no_campaign s'"
  by (auto simp: no_campaign_def list_all_iff set_update_where)

lemma onDepositSettled_no_campaign:
  assumes "no_campaign s"
  shows "no_campaign (snd (onDepositSettled ids now d s))"
proof (cases "onDepositSettled ids now d s")
  case (Pair res s')
  then show ?thesis
  proof (cases rule: onDepositSettled_cases)
    case (refused r f)
    with no_campaign_update [OF assms refused(1)] Pair show ?thesis by simp
  next
    case (paid r terms u)
    from paid(7) obtain f where f: "referrals s' = update_where (\<lambda>x. rf_id x = rf_id r) f (referrals s)" "\<And>r. rf_campaignId (f r) = rf_campaignId r"
      by (rule payReward_referrals) (rule that)
    show ?thesis using no_campaign_update [OF assms f] Pair by simp
  qed (use assms Pair in simp)
qed

lemma onDepositReversed_no_campaign:
  assumes "no_campaign s"
  shows "no_campaign (snd (onDepositReversed newId now intent s))"
proof (cases "onDepositReversed newId now intent s")
  case (Pair res s')
  then show ?thesis
  proof (cases rule: onDepositReversed_cases)
    case (failed key txs)
    with assms Pair show ?thesis by (simp add: no_campaign_def)
  next
    case (reversed key ws P f)
    with no_campaign_update [OF assms reversed(6)] Pair show ?thesis by simp
  qed (use assms Pair in simp)
qed

interpretation campaign_history: request_safety serveReferral no_campaign
proof
  fix s :: "'m referral_db_scheme" and q
  assume "no_campaign s"
  then show "no_campaign (serveReferral q s)" by (cases q) (simp_all add: onDepositSettled_no_campaign onDepositReversed_no_campaign)
qed

lemma no_campaign_no_count: "no_campaign s \<Longrightarrow> releasedRewardCount u c s = 0"
  by (auto simp: releasedRewardCount_def no_campaign_def list_all_iff list_ex_iff filter_empty_conv)

text \<open>
  The cap on a referrer's rewards counts the rewards of referrals that name the campaign, and no operation writes that column. So a referral that registration
  made is considered, after any deposits, exactly as if the campaign had no cap.
\<close>

theorem reward_cap_not_applied:
  fixes s0 s1 :: "'m referral_db_scheme"
  assumes "no_campaign s0" and "linkReferral aids created code s0 = Inr ((), s1)" and "s = fold serveReferral qs s1" and "ct_maximumRewards terms = Some m" and "0 < m"
  shows "awardWithin ids now d r terms s = awardWithin ids now d r (terms\<lparr>ct_maximumRewards := None\<rparr>) s"
proof -
  from assms(1,2) have "no_campaign s1" by (auto simp: linkReferral_def no_campaign_def res_iffs split: option.splits if_splits)
  then have "no_campaign s" unfolding assms(3) by (rule campaign_history.history_inv)
  then have n: "releasedRewardCount u c s = 0" for u c by (rule no_campaign_no_count)
  have 1: "awardContext d r (terms\<lparr>ct_maximumRewards := None\<rparr>) s = awardContext d r terms s" by (simp add: awardContext_def)
  have 2: "awardRefusalReason (terms\<lparr>ct_maximumRewards := None\<rparr>) (awardContext d r terms s) = awardRefusalReason terms (awardContext d r terms s)"
    using assms(4,5) by (simp add: awardRefusalReason_def campaignIneligibleReason_def awardContext_def n)
  have 3: "payReward ids now d r (terms\<lparr>ct_maximumRewards := None\<rparr>) key s = payReward ids now d r terms key s" for key
    by (simp add: payReward_def rewardCommand_def)
  have 4: "ct_version (terms\<lparr>ct_maximumRewards := None\<rparr>) = ct_version terms" by simp
  show ?thesis unfolding awardWithin_def 1 2 3 4 ..
qed

end
