(* ===== verification/Coordinator_Applications.thy ===== *)
theory Coordinator_Applications
  imports Food_Ajo
begin

text \<open>
  Applications to coordinate food programmes: \<^verbatim>\<open>src/modules/food-coordinator-applications/food-coordinator-applications.service.ts\<close>. A member drafts and submits an
  application, reviewers ask for more, reject, approve or suspend it; an approved one that has not expired is what \<open>createProgramme\<close> of Food Ajo asks for. JSON
  columns hold their text. A text that does not fit its column is refused by the database.
\<close>

section \<open>Data\<close>

record coordinator_profile =
  cp_kycProfileId :: string
  cp_status :: kyc_status
  cp_approvedAt :: "int option"

record coordinator_review =
  cw_applicationId :: string
  cw_reviewerUserId :: string
  cw_fromStatus :: coordinator_status
  cw_toStatus :: coordinator_status
  cw_notes :: string
  cw_riskResult :: "string option"
  cw_createdAt :: int

record coordinator_db = food_db +
  coordinator_profiles :: "coordinator_profile list"
  coordinator_reviews :: "coordinator_review list"

record application_dto =
  ad_personalDetails :: string
  ad_businessDetails :: "string option"
  ad_operatingLocation :: string
  ad_fulfilmentLocations :: string
  ad_settlementBankCode :: "string option"
  ad_settlementAccountMasked :: "string option"
  ad_verificationConsent :: bool
  ad_termsAccepted :: bool

record application_update =
  ap_personalDetails :: "string option"
  ap_businessDetails :: "string option"
  ap_operatingLocation :: "string option"
  ap_fulfilmentLocations :: "string option"
  ap_settlementBankCode :: "string option"
  ap_settlementAccountMasked :: "string option"
  ap_verificationConsent :: bool
  ap_termsAccepted :: bool

record review_dto =
  rv_notes :: string
  rv_riskResult :: "string option"

record approve_dto = review_dto +
  rv_identityVerificationRef :: string
  rv_settlementVerificationRef :: string
  rv_riskAssessmentRef :: string
  rv_expiresAt :: int

section \<open>The applicant\<close>

definition findApplication :: "string \<Rightarrow> 'm food_db_scheme \<Rightarrow> coordinator_application option" where
  "findApplication applicationId s = List.find (\<lambda>a. ca_id a = applicationId) (coordinator_applications s)"

definition updateApplication :: "string \<Rightarrow> (coordinator_application \<Rightarrow> coordinator_application) \<Rightarrow> 'm food_db_scheme \<Rightarrow> 'm food_db_scheme" where
  "updateApplication applicationId f s = s\<lparr>coordinator_applications := update_where (\<lambda>a. ca_id a = applicationId) f (coordinator_applications s)\<rparr>"

definition active_application :: "coordinator_application \<Rightarrow> bool" where
  "active_application a \<longleftrightarrow> ca_status a \<notin> {FCA_REJECTED, FCA_REVOKED, FCA_EXPIRED}"

definition auditApplication :: "string \<Rightarrow> string \<Rightarrow> string \<Rightarrow> 'm core_db_scheme \<Rightarrow> 'm core_db_scheme" where
  "auditApplication actor applicationId action s =
     outbox ''FoodCoordinatorApplication'' applicationId action (audit (Some actor) action ''FoodCoordinatorApplication'' (Some applicationId) None s)"

definition createApplication :: "string \<Rightarrow> int \<Rightarrow> string \<Rightarrow> application_dto \<Rightarrow> ('m food_db_scheme, coordinator_application) handler" where
  "createApplication newId now userId dto s =
     (if list_ex (\<lambda>a. ca_userId a = userId \<and> active_application a) (coordinator_applications s)
      then (Inl (Conflict ''An active coordinator application already exists''), s)
      else let a = \<lparr>ca_id = newId, ca_userId = userId, ca_status = FCA_DRAFT, ca_personalDetails = ad_personalDetails dto, ca_businessDetails = ad_businessDetails dto,
             ca_operatingLocation = ad_operatingLocation dto, ca_fulfilmentLocations = ad_fulfilmentLocations dto,
             ca_settlementBankCode = truthy (ad_settlementBankCode dto), ca_settlementAccountMasked = truthy (ad_settlementAccountMasked dto),
             ca_settlementVerificationRef = None, ca_identityVerificationRef = None, ca_riskAssessmentRef = None,
             ca_verificationConsentAt = (if ad_verificationConsent dto then Some now else None), ca_identityVerifiedAt = None, ca_bankVerifiedAt = None,
             ca_riskResult = None, ca_termsAcceptedAt = (if ad_termsAccepted dto then Some now else None), ca_submittedAt = None, ca_approvedAt = None,
             ca_expiresAt = None, ca_rejectionReason = None, ca_suspensionReason = None, ca_createdAt = now\<rparr> in
        case insertRow (\<lambda>x y. ca_id x = ca_id y) a (coordinator_applications s) of
          Inl e \<Rightarrow> (Inl e, s)
        | Inr rows \<Rightarrow> (Inr a, s\<lparr>coordinator_applications := rows\<rparr>))"

definition listMyApplications :: "string \<Rightarrow> 'm food_db_scheme \<Rightarrow> coordinator_application list" where
  "listMyApplications userId s = rev (sort_key ca_createdAt (filter (\<lambda>a. ca_userId a = userId) (coordinator_applications s)))"

definition editable :: "coordinator_application \<Rightarrow> bool" where
  "editable a \<longleftrightarrow> ca_status a = FCA_DRAFT \<or> ca_status a = FCA_MORE_INFORMATION_REQUIRED"

text \<open>The checks that \<^verbatim>\<open>update\<close> and \<^verbatim>\<open>submit\<close> begin with.\<close>

definition ownEditable :: "string \<Rightarrow> string \<Rightarrow> string \<Rightarrow> 'm food_db_scheme \<Rightarrow> coordinator_application res" where
  "ownEditable userId applicationId refusal s =
     (case findApplication applicationId s of
        None \<Rightarrow> Inl (NotFound ''Coordinator application was not found'')
      | Some a \<Rightarrow>
      if ca_userId a \<noteq> userId then Inl (Forbidden ''Application is not yours'')
      else if \<not> editable a then Inl (Conflict refusal)
      else Inr a)"

definition keep_or :: "string option \<Rightarrow> string option \<Rightarrow> string option" where
  "keep_or given old = (case truthy given of None \<Rightarrow> old | Some v \<Rightarrow> Some v)"

definition editApplication :: "int \<Rightarrow> application_update \<Rightarrow> coordinator_application \<Rightarrow> coordinator_application" where
  "editApplication now dto a = a\<lparr>ca_personalDetails := or_default (ap_personalDetails dto) (ca_personalDetails a),
     ca_businessDetails := (case ap_businessDetails dto of None \<Rightarrow> ca_businessDetails a | Some b \<Rightarrow> Some b),
     ca_operatingLocation := or_default (ap_operatingLocation dto) (ca_operatingLocation a),
     ca_fulfilmentLocations := or_default (ap_fulfilmentLocations dto) (ca_fulfilmentLocations a),
     ca_settlementBankCode := keep_or (ap_settlementBankCode dto) (ca_settlementBankCode a),
     ca_settlementAccountMasked := keep_or (ap_settlementAccountMasked dto) (ca_settlementAccountMasked a),
     ca_verificationConsentAt := (if ap_verificationConsent dto then Some now else ca_verificationConsentAt a),
     ca_termsAcceptedAt := (if ap_termsAccepted dto then Some now else ca_termsAcceptedAt a)\<rparr>"

definition updateDraft :: "int \<Rightarrow> string \<Rightarrow> string \<Rightarrow> application_update \<Rightarrow> ('m food_db_scheme, coordinator_application) handler" where
  "updateDraft now userId applicationId dto s =
     (case ownEditable userId applicationId ''Only editable applications can be updated'' s of
        Inl e \<Rightarrow> (Inl e, s)
      | Inr a \<Rightarrow> (Inr (editApplication now dto a), updateApplication applicationId (editApplication now dto) s))"

definition submittable :: "coordinator_application \<Rightarrow> bool" where
  "submittable a \<longleftrightarrow> ca_verificationConsentAt a \<noteq> None \<and> ca_termsAcceptedAt a \<noteq> None
     \<and> truthy (ca_settlementBankCode a) \<noteq> None \<and> truthy (ca_settlementAccountMasked a) \<noteq> None"

definition submitApplication :: "int \<Rightarrow> string \<Rightarrow> string \<Rightarrow> ('m food_db_scheme, coordinator_application) handler" where
  "submitApplication now userId applicationId = serializable (\<lambda>s.
     bind_res (ownEditable userId applicationId ''Application cannot be submitted in its current state'' s) (\<lambda>a.
     if \<not> submittable a then Inl (Unprocessable ''Consent, terms acceptance, and masked settlement details are required'')
     else let f = (\<lambda>a. a\<lparr>ca_status := FCA_AUTOMATED_REVIEW, ca_submittedAt := Some now\<rparr>) in
       Inr (f a, auditApplication userId applicationId ''food.coordinator.application.submitted'' (updateApplication applicationId f s))))"

text \<open>The policy of \<^verbatim>\<open>domain/application-policy.ts\<close>, which the service does not call.\<close>

definition assertCoordinatorSubmission :: "coordinator_status \<Rightarrow> bool \<Rightarrow> bool \<Rightarrow> bool \<Rightarrow> unit res" where
  "assertCoordinatorSubmission status hasConsent acceptedTerms hasSettlementDetails =
     (if status \<noteq> FCA_DRAFT \<and> status \<noteq> FCA_MORE_INFORMATION_REQUIRED then Inl (Conflict ''Application cannot be submitted in its current state'')
      else if \<not> hasConsent \<or> \<not> acceptedTerms \<or> \<not> hasSettlementDetails then Inl (Unprocessable ''Application requirements are incomplete'')
      else Inr ())"

definition canReviewCoordinatorApplication :: "coordinator_status \<Rightarrow> bool" where
  "canReviewCoordinatorApplication status \<longleftrightarrow> status \<in> {FCA_SUBMITTED, FCA_AUTOMATED_REVIEW, FCA_MANUAL_REVIEW, FCA_MORE_INFORMATION_REQUIRED}"

section \<open>The reviewer\<close>

definition NOTES_COLUMN_LIMIT :: nat where "NOTES_COLUMN_LIMIT = 1000"

definition fits :: "string \<Rightarrow> unit res" where
  "fits notes = guard_res (length notes \<le> NOTES_COLUMN_LIMIT) (PlainError ''The provided value for the column is too long for the column type'')"

definition recordReview :: "string \<Rightarrow> int \<Rightarrow> coordinator_application \<Rightarrow> coordinator_status \<Rightarrow> string \<Rightarrow> string option \<Rightarrow> 'm coordinator_db_scheme \<Rightarrow> 'm coordinator_db_scheme" where
  "recordReview reviewerId now a toStatus notes riskResult s =
     s\<lparr>coordinator_reviews := coordinator_reviews s @ [\<lparr>cw_applicationId = ca_id a, cw_reviewerUserId = reviewerId, cw_fromStatus = ca_status a, cw_toStatus = toStatus,
        cw_notes = notes, cw_riskResult = riskResult, cw_createdAt = now\<rparr>]\<rparr>"

text \<open>Sorted by submission, those never submitted last.\<close>

definition listForReview :: "'m coordinator_db_scheme \<Rightarrow> coordinator_application list" where
  "listForReview s =
     (let rows = filter (\<lambda>a. ca_status a \<noteq> FCA_DRAFT) (coordinator_applications s) in
      take 100 (sort_key (\<lambda>a. or_default (ca_submittedAt a) 0) (filter (\<lambda>a. ca_submittedAt a \<noteq> None) rows) @ filter (\<lambda>a. ca_submittedAt a = None) rows))"

definition reviewTransition :: "int \<Rightarrow> string \<Rightarrow> string \<Rightarrow> coordinator_status \<Rightarrow> string \<Rightarrow> 'r review_dto_scheme \<Rightarrow> ('m coordinator_db_scheme, coordinator_application) handler" where
  "reviewTransition now reviewerId applicationId toStatus action dto = serializable (\<lambda>s.
     case findApplication applicationId s of
       None \<Rightarrow> Inl (NotFound ''Coordinator application was not found'')
     | Some a \<Rightarrow>
     if ca_status a \<in> {FCA_DRAFT, FCA_APPROVED, FCA_REVOKED, FCA_EXPIRED} then Inl (Conflict ''Application cannot be reviewed in its current state'')
     else bind_res (if toStatus = FCA_REJECTED then fits (rv_notes dto) else Inr ()) (\<lambda>_.
       let f = (\<lambda>a. a\<lparr>ca_status := toStatus, ca_rejectionReason := (if toStatus = FCA_REJECTED then Some (rv_notes dto) else ca_rejectionReason a)\<rparr>) in
       Inr (f a, auditApplication reviewerId applicationId action
              (recordReview reviewerId now a toStatus (rv_notes dto) (rv_riskResult dto) (updateApplication applicationId f s)))))"

definition requestApplicationInformation :: "int \<Rightarrow> string \<Rightarrow> string \<Rightarrow> review_dto \<Rightarrow> ('m coordinator_db_scheme, coordinator_application) handler" where
  "requestApplicationInformation now reviewerId applicationId =
     reviewTransition now reviewerId applicationId FCA_MORE_INFORMATION_REQUIRED ''food.coordinator.application.more_information_required''"

definition rejectApplication :: "int \<Rightarrow> string \<Rightarrow> string \<Rightarrow> review_dto \<Rightarrow> ('m coordinator_db_scheme, coordinator_application) handler" where
  "rejectApplication now reviewerId applicationId =
     reviewTransition now reviewerId applicationId FCA_REJECTED ''food.coordinator.application.rejected''"

text \<open>Suspending also takes back the standing of the coordinator's verification profile.\<close>

definition suspendApplication :: "int \<Rightarrow> string \<Rightarrow> string \<Rightarrow> review_dto \<Rightarrow> ('m coordinator_db_scheme, coordinator_application) handler" where
  "suspendApplication now reviewerId applicationId dto = serializable (\<lambda>s.
     case findApplication applicationId s of
       None \<Rightarrow> Inl (NotFound ''Coordinator application was not found'')
     | Some a \<Rightarrow>
     if ca_status a \<noteq> FCA_APPROVED then Inl (Conflict ''Only an approved coordinator can be suspended'')
     else bind_res (fits (rv_notes dto)) (\<lambda>_.
       let f = (\<lambda>a. a\<lparr>ca_status := FCA_SUSPENDED, ca_suspensionReason := Some (rv_notes dto)\<rparr>);
           s1 = updateApplication applicationId f s;
           s2 = (case List.find (\<lambda>k. kp_userId k = ca_userId a) (kyc_profiles s1) of
                   None \<Rightarrow> s1
                 | Some k \<Rightarrow> s1\<lparr>coordinator_profiles := update_where (\<lambda>p. cp_kycProfileId p = kp_id k) (\<lambda>p. p\<lparr>cp_status := KS_REQUIRES_REVIEW\<rparr>) (coordinator_profiles s1)\<rparr>) in
       Inr (f a, auditApplication reviewerId applicationId ''food.coordinator.application.suspended''
              (recordReview reviewerId now a FCA_SUSPENDED (rv_notes dto) (rv_riskResult dto) s2))))"

definition upsertCoordinatorProfile :: "string \<Rightarrow> int \<Rightarrow> coordinator_profile list \<Rightarrow> coordinator_profile list" where
  "upsertCoordinatorProfile kycProfileId now rows =
     (if list_ex (\<lambda>p. cp_kycProfileId p = kycProfileId) rows
      then update_where (\<lambda>p. cp_kycProfileId p = kycProfileId) (\<lambda>p. p\<lparr>cp_status := KS_VERIFIED, cp_approvedAt := Some now\<rparr>) rows
      else rows @ [\<lparr>cp_kycProfileId = kycProfileId, cp_status = KS_VERIFIED, cp_approvedAt = Some now\<rparr>])"

definition approvedApplication :: "int \<Rightarrow> approve_dto \<Rightarrow> coordinator_application \<Rightarrow> coordinator_application" where
  "approvedApplication now dto a = a\<lparr>ca_status := FCA_APPROVED, ca_identityVerificationRef := Some (rv_identityVerificationRef dto),
     ca_settlementVerificationRef := Some (rv_settlementVerificationRef dto), ca_riskAssessmentRef := Some (rv_riskAssessmentRef dto),
     ca_identityVerifiedAt := Some now, ca_bankVerifiedAt := Some now, ca_riskResult := Some (or_default (rv_riskResult dto) ''{}''),
     ca_approvedAt := Some now, ca_expiresAt := Some (rv_expiresAt dto)\<rparr>"

definition approveApplication :: "int \<Rightarrow> string \<Rightarrow> string \<Rightarrow> approve_dto \<Rightarrow> ('m coordinator_db_scheme, coordinator_application) handler" where
  "approveApplication now reviewerId applicationId dto = serializable (\<lambda>s.
     case findApplication applicationId s of
       None \<Rightarrow> Inl (NotFound ''Coordinator application was not found'')
     | Some a \<Rightarrow>
     if ca_status a \<noteq> FCA_AUTOMATED_REVIEW \<and> ca_status a \<noteq> FCA_MANUAL_REVIEW then Inl (Conflict ''Application is not ready for approval'')
     else (case List.find (\<lambda>k. kp_userId k = ca_userId a) (kyc_profiles s) of
       None \<Rightarrow> Inl (Unprocessable ''Verified Tier 3 KYC is required'')
     | Some k \<Rightarrow>
     if kp_status k \<noteq> KS_VERIFIED \<or> kp_tier k \<noteq> TIER_3 then Inl (Unprocessable ''Verified Tier 3 KYC is required'')
     else if rv_expiresAt dto \<le> now then Inl (Unprocessable ''Approval expiry must be future'')
     else let s1 = recordReview reviewerId now a FCA_APPROVED (rv_notes dto) (Some (or_default (rv_riskResult dto) ''{}''))
                (updateApplication applicationId (approvedApplication now dto) s) in
       Inr (approvedApplication now dto a, auditApplication reviewerId applicationId ''food.coordinator.application.approved''
              (s1\<lparr>coordinator_profiles := upsertCoordinatorProfile (kp_id k) now (coordinator_profiles s1)\<rparr>))))"

section \<open>Histories\<close>

datatype application_request =
    CreateApplication string int string application_dto
  | UpdateDraft int string string application_update
  | SubmitApplication int string string
  | RequestInformation int string string review_dto
  | RejectApplication int string string review_dto
  | SuspendApplication int string string review_dto
  | ApproveApplication int string string approve_dto

fun serveApplication :: "application_request \<Rightarrow> 'm coordinator_db_scheme \<Rightarrow> 'm coordinator_db_scheme" where
  "serveApplication (CreateApplication i now u dto) s = snd (createApplication i now u dto s)"
| "serveApplication (UpdateDraft now u i dto) s = snd (updateDraft now u i dto s)"
| "serveApplication (SubmitApplication now u i) s = snd (submitApplication now u i s)"
| "serveApplication (RequestInformation now r i dto) s = snd (requestApplicationInformation now r i dto s)"
| "serveApplication (RejectApplication now r i dto) s = snd (rejectApplication now r i dto s)"
| "serveApplication (SuspendApplication now r i dto) s = snd (suspendApplication now r i dto s)"
| "serveApplication (ApproveApplication now r i dto) s = snd (approveApplication now r i dto s)"

text \<open>
  What an application under review, approved or suspended has been through: it was submitted complete; if approved, a review says so, the references the reviewer
  gave are on it and the approval was to end after it was given.
\<close>

definition application_ok :: "coordinator_review list \<Rightarrow> coordinator_application \<Rightarrow> bool" where
  "application_ok ws a \<longleftrightarrow>
     (ca_status a \<in> {FCA_AUTOMATED_REVIEW, FCA_MANUAL_REVIEW, FCA_APPROVED, FCA_SUSPENDED} \<longrightarrow> submittable a \<and> ca_submittedAt a \<noteq> None)
     \<and> (ca_status a = FCA_APPROVED \<longrightarrow> ca_identityVerificationRef a \<noteq> None \<and> ca_settlementVerificationRef a \<noteq> None \<and> ca_riskAssessmentRef a \<noteq> None
          \<and> (case (ca_approvedAt a, ca_expiresAt a) of (Some t, Some e) \<Rightarrow> t < e | _ \<Rightarrow> False)
          \<and> list_ex (\<lambda>w. cw_applicationId w = ca_id a \<and> cw_toStatus w = FCA_APPROVED) ws)"

definition applications_wf :: "'m coordinator_db_scheme \<Rightarrow> bool" where
  "applications_wf s \<longleftrightarrow> distinct (map ca_id (coordinator_applications s)) \<and> list_all (application_ok (coordinator_reviews s)) (coordinator_applications s)"

lemma application_ok_mono: "application_ok ws a \<Longrightarrow> set ws \<subseteq> set ws' \<Longrightarrow> application_ok ws' a"
  by (auto simp: application_ok_def list_ex_iff)

lemma findApplication_SomeD: "findApplication i s = Some a \<Longrightarrow> a \<in> set (coordinator_applications s) \<and> ca_id a = i"
  by (auto simp: findApplication_def dest: find_SomeD)

lemma applications_wf_found: "applications_wf s \<Longrightarrow> findApplication i s = Some a \<Longrightarrow> application_ok (coordinator_reviews s) a"
  by (auto simp: applications_wf_def list_all_iff dest: findApplication_SomeD)

lemma applications_wf_update:
  assumes "applications_wf s" and "findApplication i s = Some a" and "ca_id (f a) = i" and "application_ok (coordinator_reviews s') (f a)"
    and "coordinator_applications s' = update_where (\<lambda>a. ca_id a = i) f (coordinator_applications s)"
    and "set (coordinator_reviews s) \<subseteq> set (coordinator_reviews s')"
  shows "applications_wf s'"
proof -
  have only: "x = a" if "x \<in> set (coordinator_applications s)" "ca_id x = i" for x
    using assms(1) that findApplication_SomeD [OF assms(2)] by (auto simp: applications_wf_def distinct_map dest: inj_onD)
  have "map ca_id (coordinator_applications s') = map ca_id (coordinator_applications s)"
    unfolding assms(5) by (rule map_update_where) (use only assms(3) in auto)
  moreover have "application_ok (coordinator_reviews s') x" if "x \<in> set (coordinator_applications s)" for x
    using assms(1,6) that by (auto simp: applications_wf_def list_all_iff intro: application_ok_mono)
  ultimately show ?thesis
    using assms(1,4) only by (auto simp: applications_wf_def list_all_iff assms(5) set_update_where)
qed

lemma application_frames [simp]:
  "coordinator_applications (auditApplication u i x s) = coordinator_applications s" 
  "coordinator_applications (updateApplication i f s) = update_where (\<lambda>a. ca_id a = i) f (coordinator_applications s)"
  by (simp_all add: auditApplication_def audit_def outbox_def updateApplication_def)

lemma review_frames [simp]:
  "coordinator_reviews (auditApplication u i x s) = coordinator_reviews s"
  "coordinator_reviews (updateApplication i f s) = coordinator_reviews s"
  "coordinator_applications (recordReview r now a st n k s) = coordinator_applications s"
  "set (coordinator_reviews s) \<subseteq> set (coordinator_reviews (recordReview r now a st n k s))"
  by (auto simp: auditApplication_def audit_def outbox_def updateApplication_def recordReview_def)

lemma createApplication_wf: "applications_wf s \<Longrightarrow> applications_wf (snd (createApplication i now u dto s))"
  by (auto simp: createApplication_def Let_def applications_wf_def application_ok_def list_all_iff split: sum.splits)

lemma ownEditable_InrD: "ownEditable u i m s = Inr a \<Longrightarrow> findApplication i s = Some a \<and> editable a"
  by (auto simp: ownEditable_def split: option.splits if_splits)

lemma handler_cases:
  obtains (refused) e s' where "h = (Inl e, s')" | (answered) x s' where "h = (Inr x, s')"
  by (cases h; cases "fst h") auto

lemma updateDraft_wf:
  assumes "applications_wf s"
  shows "applications_wf (snd (updateDraft now u i dto s))"
proof (cases "ownEditable u i ''Only editable applications can be updated'' s")
  case (Inr a)
  then have a: "findApplication i s = Some a" "editable a" by (simp_all add: ownEditable_InrD)
  have "applications_wf (updateApplication i (editApplication now dto) s)"
    by (rule applications_wf_update [OF assms a(1)])
      (use a findApplication_SomeD [OF a(1)] in \<open>auto simp: application_ok_def editable_def editApplication_def\<close>)
  with Inr show ?thesis by (simp add: updateDraft_def)
qed (use assms in \<open>simp add: updateDraft_def\<close>)

lemma submitApplication_wf:
  assumes "applications_wf s"
  shows "applications_wf (snd (submitApplication now u i s))"
  unfolding submitApplication_def
proof (rule serializable_frame)
  fix x s'
  let ?f = "\<lambda>a. a\<lparr>ca_status := FCA_AUTOMATED_REVIEW, ca_submittedAt := Some now\<rparr>"
  assume "bind_res (ownEditable u i ''Application cannot be submitted in its current state'' s) (\<lambda>a.
     if \<not> submittable a then Inl (Unprocessable ''Consent, terms acceptance, and masked settlement details are required'')
     else let f = ?f in
       Inr (f a, auditApplication u i ''food.coordinator.application.submitted'' (updateApplication i f s))) = Inr (x, s')"
  then obtain a where a: "findApplication i s = Some a" "submittable a"
    and s': "s' = auditApplication u i ''food.coordinator.application.submitted'' (updateApplication i ?f s)"
    by (auto simp: res_iffs Let_def dest!: ownEditable_InrD split: if_splits)
  show "applications_wf s'"
    by (rule applications_wf_update [OF assms a(1), where f = ?f])
      (use a findApplication_SomeD [OF a(1)] in \<open>auto simp: s' application_ok_def submittable_def\<close>)
qed (rule assms)

lemma reviewTransition_cases:
  assumes "reviewTransition now r i toStatus act dto s = (Inr x, s')"
  obtains a where "findApplication i s = Some a"
    "s' = auditApplication r i act (recordReview r now a toStatus (rv_notes dto) (rv_riskResult dto)
       (updateApplication i (\<lambda>a. a\<lparr>ca_status := toStatus, ca_rejectionReason := (if toStatus = FCA_REJECTED then Some (rv_notes dto) else ca_rejectionReason a)\<rparr>) s))"
  using assms unfolding reviewTransition_def serializable_Inr_iff
  by (auto simp: res_iffs Let_def simp del: insert_iff split: option.splits if_split_asm)

lemma suspendApplication_cases:
  assumes "suspendApplication now r i dto s = (Inr x, s')"
  obtains a where "findApplication i s = Some a" "ca_status a = FCA_APPROVED"
    "coordinator_applications s' = update_where (\<lambda>a. ca_id a = i) (\<lambda>a. a\<lparr>ca_status := FCA_SUSPENDED, ca_suspensionReason := Some (rv_notes dto)\<rparr>) (coordinator_applications s)"
    "set (coordinator_reviews s) \<subseteq> set (coordinator_reviews s')"
proof -
  from assms obtain a where "findApplication i s = Some a" "ca_status a = FCA_APPROVED"
    unfolding suspendApplication_def serializable_Inr_iff by (auto split: option.splits if_split_asm)
  with assms show ?thesis
    by (intro that) (auto simp: suspendApplication_def serializable_Inr_iff res_iffs Let_def recordReview_def updateApplication_def auditApplication_def audit_def outbox_def
        split: option.splits)
qed

lemma approveApplication_cases:
  assumes "approveApplication now r i dto s = (Inr x, s')"
  obtains a where "findApplication i s = Some a" "ca_status a = FCA_AUTOMATED_REVIEW \<or> ca_status a = FCA_MANUAL_REVIEW" "now < rv_expiresAt dto"
    "coordinator_applications s' = update_where (\<lambda>a. ca_id a = i) (approvedApplication now dto) (coordinator_applications s)"
    "set (coordinator_reviews s) \<subseteq> set (coordinator_reviews s')"
    "list_ex (\<lambda>w. cw_applicationId w = ca_id a \<and> cw_toStatus w = FCA_APPROVED) (coordinator_reviews s')"
proof -
  from assms obtain a k where a: "findApplication i s = Some a" "ca_status a = FCA_AUTOMATED_REVIEW \<or> ca_status a = FCA_MANUAL_REVIEW"
    and k: "List.find (\<lambda>k. kp_userId k = ca_userId a) (kyc_profiles s) = Some k" "kp_status k = KS_VERIFIED" "kp_tier k = TIER_3" "now < rv_expiresAt dto"
    unfolding approveApplication_def serializable_Inr_iff by (auto split: option.splits if_split_asm)
  from assms a k show ?thesis
    by (intro that [OF a k(4)]) (auto simp: approveApplication_def serializable_Inr_iff Let_def recordReview_def updateApplication_def auditApplication_def audit_def outbox_def)
qed

lemma review_refused:
  "reviewTransition now r i st act dto s = (Inl e, s') \<Longrightarrow> s' = s"
  "suspendApplication now r i dto' s = (Inl e, s') \<Longrightarrow> s' = s"
  "approveApplication now r i dto'' s = (Inl e, s') \<Longrightarrow> s' = s"
  unfolding reviewTransition_def suspendApplication_def approveApplication_def serializable_Inl_iff by simp_all

lemma reviewTransition_wf:
  assumes "applications_wf s" and "toStatus = FCA_MORE_INFORMATION_REQUIRED \<or> toStatus = FCA_REJECTED"
  shows "applications_wf (snd (reviewTransition now r i toStatus act dto s))"
proof (cases "reviewTransition now r i toStatus act dto s" rule: handler_cases)
  case (refused e s')
  with assms(1) show ?thesis by (auto dest: review_refused)
next
  case (answered x s')
  then obtain a where a: "findApplication i s = Some a"
    and s': "s' = auditApplication r i act (recordReview r now a toStatus (rv_notes dto) (rv_riskResult dto)
       (updateApplication i (\<lambda>a. a\<lparr>ca_status := toStatus, ca_rejectionReason := (if toStatus = FCA_REJECTED then Some (rv_notes dto) else ca_rejectionReason a)\<rparr>) s))"
    by (rule reviewTransition_cases)
  have "applications_wf s'"
    by (rule applications_wf_update [OF assms(1) a,
          where f = "\<lambda>a. a\<lparr>ca_status := toStatus, ca_rejectionReason := (if toStatus = FCA_REJECTED then Some (rv_notes dto) else ca_rejectionReason a)\<rparr>"])
      (use assms(2) findApplication_SomeD [OF a] in \<open>auto simp: s' application_ok_def recordReview_def\<close>)
  with answered show ?thesis by simp
qed

lemma suspendApplication_wf:
  assumes "applications_wf s"
  shows "applications_wf (snd (suspendApplication now r i dto s))"
proof (cases "suspendApplication now r i dto s" rule: handler_cases)
  case (refused e s')
  with assms show ?thesis by (auto dest: review_refused)
next
  case (answered x s')
  then obtain a where a: "findApplication i s = Some a" "ca_status a = FCA_APPROVED"
    and s': "coordinator_applications s' = update_where (\<lambda>a. ca_id a = i) (\<lambda>a. a\<lparr>ca_status := FCA_SUSPENDED, ca_suspensionReason := Some (rv_notes dto)\<rparr>) (coordinator_applications s)"
      "set (coordinator_reviews s) \<subseteq> set (coordinator_reviews s')"
    by (rule suspendApplication_cases)
  have "applications_wf s'"
    by (rule applications_wf_update [OF assms a(1) _ _ s'])
      (use a findApplication_SomeD [OF a(1)] applications_wf_found [OF assms a(1)] in \<open>auto simp: application_ok_def submittable_def\<close>)
  with answered show ?thesis by simp
qed

lemma approveApplication_wf:
  assumes "applications_wf s"
  shows "applications_wf (snd (approveApplication now r i dto s))"
proof (cases "approveApplication now r i dto s" rule: handler_cases)
  case (refused e s')
  with assms show ?thesis by (auto dest: review_refused)
next
  case (answered x s')
  then obtain a where a: "findApplication i s = Some a" "ca_status a = FCA_AUTOMATED_REVIEW \<or> ca_status a = FCA_MANUAL_REVIEW" "now < rv_expiresAt dto"
    and s': "coordinator_applications s' = update_where (\<lambda>a. ca_id a = i) (approvedApplication now dto) (coordinator_applications s)"
      "set (coordinator_reviews s) \<subseteq> set (coordinator_reviews s')"
    and w: "list_ex (\<lambda>w. cw_applicationId w = ca_id a \<and> cw_toStatus w = FCA_APPROVED) (coordinator_reviews s')"
    by (rule approveApplication_cases)
  have "applications_wf s'"
    by (rule applications_wf_update [OF assms a(1) _ _ s'])
      (use a w findApplication_SomeD [OF a(1)] applications_wf_found [OF assms a(1)] in \<open>auto simp: application_ok_def submittable_def approvedApplication_def\<close>)
  with answered show ?thesis by simp
qed

interpretation application_history: request_safety serveApplication applications_wf
proof
  fix s :: "'m coordinator_db_scheme" and q
  assume "applications_wf s"
  then show "applications_wf (serveApplication q s)"
    by (cases q) (simp_all add: createApplication_wf updateDraft_wf submitApplication_wf suspendApplication_wf approveApplication_wf
      requestApplicationInformation_def rejectApplication_def reviewTransition_wf)
qed

text \<open>
  C26. Whatever members and reviewers have done, whoever may open a food programme has an application that was submitted with consent, accepted terms and a masked
  settlement account, that a reviewer approved with the three references, and whose approval has not run out; the programme is the member's own.
\<close>

theorem programme_needs_reviewed_coordinator:
  assumes "applications_wf s0" and "createProgramme newId code now userId dto (fold serveApplication qs s0) = (Inr gid, s')"
  shows "\<exists>a w. a \<in> set (coordinator_applications (fold serveApplication qs s0)) \<and> ca_userId a = userId \<and> submittable a
    \<and> ca_identityVerificationRef a \<noteq> None \<and> ca_settlementVerificationRef a \<noteq> None \<and> ca_riskAssessmentRef a \<noteq> None
    \<and> (\<exists>e. ca_expiresAt a = Some e \<and> now < e)
    \<and> w \<in> set (coordinator_reviews (fold serveApplication qs s0)) \<and> cw_applicationId w = ca_id a \<and> cw_toStatus w = FCA_APPROVED
    \<and> (\<exists>g \<in> set (food_programmes s'). fg_id g = gid \<and> fg_coordinatorUserId g = userId)"
proof -
  let ?s = "fold serveApplication qs s0"
  have wf: "applications_wf ?s" using assms(1) by (rule application_history.history_inv)
  from assms(2) have p: "coordinatorApproved userId now ?s" "\<exists>g \<in> set (food_programmes s'). fg_id g = gid \<and> fg_coordinatorUserId g = userId"
    by (auto simp: createProgramme_def serializable_iffs res_iffs Let_def newProgramme_def audit_def outbox_def split: if_splits)
  from p(1) obtain a e where a: "a \<in> set (coordinator_applications ?s)" "ca_userId a = userId" "ca_status a = FCA_APPROVED" "ca_expiresAt a = Some e" "now < e"
    by (auto simp: coordinatorApproved_def list_ex_iff split: option.splits)
  with wf have "application_ok (coordinator_reviews ?s) a" by (auto simp: applications_wf_def list_all_iff)
  then obtain w where "submittable a" "ca_identityVerificationRef a \<noteq> None" "ca_settlementVerificationRef a \<noteq> None" "ca_riskAssessmentRef a \<noteq> None"
    "w \<in> set (coordinator_reviews ?s)" "cw_applicationId w = ca_id a" "cw_toStatus w = FCA_APPROVED"
    using a(3) by (auto simp: application_ok_def list_ex_iff)
  with a p(2) show ?thesis by blast
qed

definition demo_application_dto :: application_dto where
  "demo_application_dto = \<lparr>ad_personalDetails = ''{}'', ad_businessDetails = None, ad_operatingLocation = ''{}'', ad_fulfilmentLocations = ''{}'',
     ad_settlementBankCode = Some ''058'', ad_settlementAccountMasked = Some ''**1234'', ad_verificationConsent = True, ad_termsAccepted = True\<rparr>"

definition demo_review :: review_dto where
  "demo_review = \<lparr>rv_notes = ''more'', rv_riskResult = None\<rparr>"

definition demo_approval :: approve_dto where
  "demo_approval = \<lparr>rv_notes = ''fine'', rv_riskResult = None, rv_identityVerificationRef = ''idv'', rv_settlementVerificationRef = ''stl'', rv_riskAssessmentRef = ''rsk'',
     rv_expiresAt = 99\<rparr>"

definition demo_coordinator_db :: coordinator_db where
  "demo_coordinator_db = food_db.extend (demo_food_db\<lparr>coordinator_applications := [],
     kyc_profiles := [(demo_kyc_profile ''dele'' [])\<lparr>kp_status := KS_VERIFIED, kp_tier := TIER_3\<rparr>]\<rparr>) (coordinator_db.fields [] [])"

definition demo_approved :: coordinator_db where
  "demo_approved = fold serveApplication
     [CreateApplication ''p1'' 1 ''dele'' demo_application_dto, SubmitApplication 2 ''dele'' ''p1'', ApproveApplication 3 ''rev'' ''p1'' demo_approval] demo_coordinator_db"

definition demo_programme_dto :: create_programme_dto where
  "demo_programme_dto = \<lparr>cpr_name = ''Rice'', cpr_contribution = 300, cpr_frequency = MONTHLY, cpr_capacity = 10, cpr_fulfilment = FM_PICKUP, cpr_startsAt = 10, cpr_endsAt = 20,
     cpr_plannedProcurementAt = None, cpr_distributionAt = None, cpr_packages = []\<rparr>"

theorem programme_needs_reviewed_coordinator_witness:
  "\<exists>a :: coordinator_application. a \<in> set (coordinator_applications demo_approved) \<and> ca_userId a = ''dele'' \<and> submittable a"
proof -
  let ?r = "createProgramme (\<lambda>k n. ''new'') ''CODE'' 5 ''dele'' demo_programme_dto demo_approved"
  have "fst ?r = Inr ''new''" by code_simp
  then have r: "?r = (Inr ''new'', snd ?r)" by (simp add: prod_eq_iff)
  have wf: "applications_wf demo_coordinator_db" by code_simp
  from programme_needs_reviewed_coordinator [OF wf r [unfolded demo_approved_def]] show ?thesis unfolding demo_approved_def by blast
qed

text \<open>
  An application that was rejected can be asked for more information, against the policy's \<open>canReviewCoordinatorApplication\<close>: it is open again, beside any new
  application of the same member.
\<close>

theorem rejected_application_reopens:
  assumes "findApplication i s = Some a" and "ca_status a = FCA_REJECTED"
  shows "\<not> canReviewCoordinatorApplication (ca_status a)
    \<and> (\<exists>x s'. requestApplicationInformation now r i dto s = (Inr x, s') \<and> ca_userId x = ca_userId a \<and> ca_id x = i \<and> editable x \<and> active_application x
        \<and> (\<forall>b \<in> set (coordinator_applications s). ca_id b \<noteq> i \<longrightarrow> b \<in> set (coordinator_applications s')))"
  using assms findApplication_SomeD [OF assms(1)]
  by (auto simp: canReviewCoordinatorApplication_def requestApplicationInformation_def reviewTransition_def serializable_def Let_def editable_def active_application_def set_update_where)

end
