(* ===== verification/Notifications.thy ===== *)
theory Notifications
  imports Auth
begin

text \<open>
  Notifications and the devices that receive them: \<^verbatim>\<open>src/modules/notifications\<close> (\<^verbatim>\<open>transactional-notification.service.ts\<close>, \<^verbatim>\<open>notification-preferences.service.ts\<close>,
  \<^verbatim>\<open>notification-feed.service.ts\<close> and the rules of \<^verbatim>\<open>domain\<close>) and \<^verbatim>\<open>src/modules/devices\<close>. An email or text message is sent once per event key, unless the member has declined
  its topic or asked for quiet; a product event is put into the in-app list and pushed to the member's devices. The providers and the time of day in a time zone are
  parameters; every call made to a provider is recorded in \<open>provider_calls\<close>. Of the email templates the variables they require are modelled, not their HTML.
\<close>

section \<open>Delivery policy\<close>

definition isWithinQuietHours :: "int \<Rightarrow> int option \<Rightarrow> int option \<Rightarrow> bool" where
  "isWithinQuietHours localMinuteOfDay startMinute endMinute =
     (case (startMinute, endMinute) of
        (Some start, Some finish) \<Rightarrow>
          if start = finish then True
          else if start < finish then localMinuteOfDay \<ge> start \<and> localMinuteOfDay < finish
          else localMinuteOfDay \<ge> start \<or> localMinuteOfDay < finish
      | _ \<Rightarrow> False)"

definition notificationDedupeKey :: "string \<Rightarrow> string \<Rightarrow> string \<Rightarrow> string \<Rightarrow> string" where
  "notificationDedupeKey userId eventType subjectId scheduledAtIso = userId @ '':'' @ eventType @ '':'' @ subjectId @ '':'' @ scheduledAtIso"

text \<open>The hour and minute that \<^verbatim>\<open>Intl.DateTimeFormat\<close> reports for an instant in a time zone.\<close>

type_synonym clock_face = "int \<Rightarrow> string \<Rightarrow> int \<times> int"

definition localMinuteOfDay :: "clock_face \<Rightarrow> int \<Rightarrow> string \<Rightarrow> int" where
  "localMinuteOfDay face at timezone = (let (hour, minute) = face at timezone in (hour mod 24) * 60 + minute)"

datatype suppression_reason = DISABLED | QUIET_HOURS

datatype notification_channel = NC_EMAIL | NC_SMS | NC_PUSH | NC_IN_APP

record notification_preference =
  np_userId :: string
  np_channel :: notification_channel
  np_topic :: string
  np_enabled :: bool
  np_quietHoursStartMinutes :: "int option"
  np_quietHoursEndMinutes :: "int option"
  np_timezone :: string

text \<open>\<open>None\<close> is the decision to send.\<close>

definition decideDelivery :: "clock_face \<Rightarrow> int \<Rightarrow> string option \<Rightarrow> notification_preference option \<Rightarrow> suppression_reason option" where
  "decideDelivery face now topic preference =
     (case topic of None \<Rightarrow> None | Some _ \<Rightarrow>
     (case preference of None \<Rightarrow> None | Some p \<Rightarrow>
      if \<not> np_enabled p then Some DISABLED
      else if np_quietHoursStartMinutes p \<noteq> None \<and> np_quietHoursEndMinutes p \<noteq> None
        \<and> isWithinQuietHours (localMinuteOfDay face now (np_timezone p)) (np_quietHoursStartMinutes p) (np_quietHoursEndMinutes p)
      then Some QUIET_HOURS
      else None))"

definition isValidQuietHours :: "int option \<Rightarrow> int option \<Rightarrow> bool" where
  "isValidQuietHours start finish =
     (case (start, finish) of
        (None, None) \<Rightarrow> True
      | (Some a, Some b) \<Rightarrow> list_all (\<lambda>v. v \<ge> 0 \<and> v < 24 * 60) [a, b]
      | _ \<Rightarrow> False)"

section \<open>Topics and templates\<close>

definition NOTIFICATION_TOPICS :: "string list" where
  "NOTIFICATION_TOPICS = [''ajo.contribution'', ''ajo.payout'', ''ajo.membership'', ''akawo.progress'', ''food.distribution'', ''bills.receipt'', ''wallet.activity'', ''kyc.status'']"

definition ALWAYS_SEND :: "string list" where
  "ALWAYS_SEND = [''account-verification-email'', ''sign-in-code'', ''welcome'', ''password-reset'', ''password-reset-sms'', ''password-changed'', ''new-login-alert'',
     ''device-added'', ''account-locked'', ''staff-invite'']"

definition TEMPLATE_TOPICS :: "(string \<times> string) list" where
  "TEMPLATE_TOPICS = [(''kyc-approved'', ''kyc.status''), (''kyc-rejected'', ''kyc.status''), (''wallet-funded'', ''wallet.activity''),
     (''withdrawal-processed'', ''wallet.activity''), (''ajo-contribution-due'', ''ajo.contribution''), (''ajo-contribution-missed'', ''ajo.contribution''),
     (''ajo-payout-sent'', ''ajo.payout''), (''ajo-group-invite'', ''ajo.membership''), (''food-distribution-ready'', ''food.distribution''),
     (''akawo-goal-progress'', ''akawo.progress''), (''akawo-goal-reached'', ''akawo.progress''), (''bill-payment-receipt'', ''bills.receipt'')]"

definition isNotificationTopic :: "string \<Rightarrow> bool" where
  "isNotificationTopic t \<longleftrightarrow> t \<in> set NOTIFICATION_TOPICS"

definition isAlwaysSent :: "string \<Rightarrow> bool" where
  "isAlwaysSent template \<longleftrightarrow> template \<in> set ALWAYS_SEND"

definition topicForTemplate :: "string \<Rightarrow> string option res" where
  "topicForTemplate template =
     (if isAlwaysSent template then Inr None
      else case map_of TEMPLATE_TOPICS template of
        None \<Rightarrow> Inl (PlainError (''Template \"'' @ template @ ''\" is not mapped to a notification topic''))
      | Some t \<Rightarrow> Inr (Some t))"

type_synonym variables = "(string \<times> string) list"

text \<open>The variables each email template asks for, in the order in which it does.\<close>

definition emailVariables :: "(string \<times> string list) list" where
  "emailVariables =
    [(''account-verification-email'', [''code'', ''expiresMinutes'']), (''sign-in-code'', [''code'', ''expiresMinutes'']), (''welcome'', [''firstName'']),
     (''password-reset'', [''expiresMinutes'', ''resetUrl'']), (''password-changed'', [''firstName'']), (''new-login-alert'', [''occurredAt'', ''device'']),
     (''device-added'', [''device'', ''occurredAt'']), (''account-locked'', [''reason'']), (''kyc-approved'', [''firstName'']),
     (''kyc-rejected'', [''firstName'', ''reason'']), (''wallet-funded'', [''amount'', ''reference'', ''balance'']),
     (''withdrawal-processed'', [''amount'', ''reference'', ''destination'']), (''ajo-contribution-due'', [''amount'', ''groupName'', ''dueDate'']),
     (''ajo-contribution-missed'', [''groupName'', ''amount'', ''dueDate'']), (''ajo-payout-sent'', [''amount'', ''groupName'', ''reference'']),
     (''ajo-group-invite'', [''groupName'', ''inviterName'', ''inviteUrl'', ''amount'', ''frequency'']),
     (''staff-invite'', [''inviterName'', ''roleName'', ''inviteUrl'', ''expiresHours'']), (''food-distribution-ready'', [''programmeName'', ''pickupDate'', ''location'']),
     (''akawo-goal-progress'', [''goalName'', ''progress'', ''saved'', ''target'']), (''akawo-goal-reached'', [''goalName'', ''target'']),
     (''bill-payment-receipt'', [''serviceName'', ''amount'', ''reference'', ''paidAt''])]"

definition required :: "variables \<Rightarrow> string \<Rightarrow> string res" where
  "required vs key = (case truthy (map_option trim (map_of vs key)) of None \<Rightarrow> Inl (PlainError (''Missing template variable: '' @ key)) | Some v \<Rightarrow> Inr v)"

fun requireAll :: "variables \<Rightarrow> string list \<Rightarrow> unit res" where
  "requireAll vs [] = Inr ()"
| "requireAll vs (k # ks) = bind_res (required vs k) (\<lambda>_. requireAll vs ks)"

text \<open>The version of the rendered email; a key that is no template is not callable.\<close>

definition renderEmailTemplate :: "string \<Rightarrow> variables \<Rightarrow> int res" where
  "renderEmailTemplate key vs =
     (case map_of emailVariables key of
        None \<Rightarrow> Inl (PlainError ''emailDefinitions[key] is not a function'')
      | Some ks \<Rightarrow> bind_res (requireAll vs ks) (\<lambda>_. Inr 1))"

definition renderSmsTemplate :: "variables \<Rightarrow> (int \<times> string) res" where
  "renderSmsTemplate vs =
     bind_res (required vs ''resetUrl'') (\<lambda>url.
     bind_res (required vs ''expiresMinutes'') (\<lambda>minutes.
       Inr (1, ''Reset your Ajo Cloud password: '' @ url @ ''. This link expires in '' @ minutes @ '' minutes.'')))"

record push_template =
  pt_title :: string
  pt_body :: string
  pt_version :: int
  pt_deepLink :: "string option"

definition pushText :: "variables \<Rightarrow> string \<Rightarrow> string" where
  "pushText vs key = or_default (map_of vs key) ''''"

definition PUSH_TEMPLATES :: "(string \<times> string \<times> (variables \<Rightarrow> string) \<times> string) list" where
  "PUSH_TEMPLATES =
    [(''ajo-contribution-due'', ''Contribution due'', (\<lambda>vs. ''Your '' @ pushText vs ''groupName'' @ '' contribution of '' @ pushText vs ''amount'' @ '' is due ''
        @ pushText vs ''dueDate'' @ ''.''), ''/(tabs)/ajo''),
     (''ajo-contribution-missed'', ''Contribution missed'', (\<lambda>vs. ''You missed a contribution for '' @ pushText vs ''groupName'' @ ''.''), ''/(tabs)/ajo''),
     (''ajo-payout-sent'', ''Your payout was sent'', (\<lambda>vs. pushText vs ''amount'' @ '' was sent for your '' @ pushText vs ''groupName'' @ '' payout.''), ''/(tabs)/ajo''),
     (''ajo-group-invite'', ''Group invitation'', (\<lambda>vs. ''You were invited to join '' @ pushText vs ''groupName'' @ ''.''), ''/(tabs)/ajo''),
     (''food-distribution-ready'', ''Your food is ready'', (\<lambda>vs. ''Collection for '' @ pushText vs ''programmeName'' @ '' is ready.''), ''/(tabs)/food''),
     (''akawo-goal-progress'', ''Savings progress'', (\<lambda>vs. ''You are '' @ pushText vs ''progress'' @ '' of the way to '' @ pushText vs ''goalName'' @ ''.''), ''/(tabs)/akawo''),
     (''akawo-goal-reached'', ''Goal reached'', (\<lambda>vs. ''You reached your '' @ pushText vs ''goalName'' @ '' goal.''), ''/(tabs)/akawo''),
     (''bill-payment-receipt'', ''Bill paid'', (\<lambda>vs. ''Your '' @ pushText vs ''billerName'' @ '' payment of '' @ pushText vs ''amount'' @ '' went through.''), ''/(tabs)/bills''),
     (''wallet-funded'', ''Wallet funded'', (\<lambda>vs. pushText vs ''amount'' @ '' was added to your wallet.''), ''/(tabs)/home''),
     (''withdrawal-processed'', ''Withdrawal sent'', (\<lambda>vs. pushText vs ''amount'' @ '' is on its way to your bank.''), ''/(tabs)/home''),
     (''kyc-approved'', ''Verification complete'', (\<lambda>vs. ''Your identity has been verified.''), ''/(tabs)/profile''),
     (''kyc-rejected'', ''Verification needs attention'', (\<lambda>vs. ''We could not verify your identity. Open the app to see what is needed.''), ''/(tabs)/profile'')]"

definition hasPushTemplate :: "string \<Rightarrow> bool" where
  "hasPushTemplate template \<longleftrightarrow> template \<in> set (map fst PUSH_TEMPLATES)"

definition renderPushTemplate :: "string \<Rightarrow> variables \<Rightarrow> push_template option" where
  "renderPushTemplate template vs =
     map_option (\<lambda>(title, body, link). \<lparr>pt_title = title, pt_body = body vs, pt_version = 1, pt_deepLink = Some link\<rparr>) (map_of PUSH_TEMPLATES template)"

section \<open>Tables\<close>

datatype notification_status = NS_PENDING | NS_SENT | NS_DELIVERED | NS_FAILED | NS_READ

datatype delivery_status = DL_PENDING | DL_PROCESSING | DL_SENT | DL_DELIVERED | DL_FAILED | DL_RETRY_SCHEDULED | DL_SUPPRESSED

record notification_row =
  nt_id :: string
  nt_userId :: string
  nt_channel :: notification_channel
  nt_template :: string
  nt_status :: notification_status
  nt_payload :: variables
  nt_templateVersion :: int
  nt_dedupeKey :: "string option"
  nt_title :: "string option"
  nt_body :: "string option"
  nt_deepLink :: "string option"
  nt_readAt :: "int option"
  nt_sentAt :: "int option"
  nt_createdAt :: int

record notification_delivery =
  nd_id :: string
  nd_notificationId :: string
  nd_provider :: string
  nd_providerReference :: "string option"
  nd_status :: delivery_status
  nd_attemptNumber :: int
  nd_failureCode :: "string option"
  nd_failureReason :: "string option"
  nd_sentAt :: "int option"

record device_row =
  dv_id :: string
  dv_userId :: string
  dv_fingerprint :: string
  dv_name :: "string option"
  dv_platform :: "string option"
  dv_pushToken :: "string option"
  dv_pushTokenAt :: "int option"
  dv_pushDeclinedAt :: "int option"
  dv_appVersion :: "string option"
  dv_trustedAt :: "int option"
  dv_lastSeenAt :: int
  dv_createdAt :: int

text \<open>A call to a provider: the channel, where it goes (an address, or the devices' tokens) and the event's key.\<close>

record provider_call =
  pv_channel :: notification_channel
  pv_to :: "string list"
  pv_key :: string

record notification_db = auth_db +
  notifications :: "notification_row list"
  notification_deliveries :: "notification_delivery list"
  notification_preferences :: "notification_preference list"
  devices :: "device_row list"
  provider_calls :: "provider_call list"

section \<open>Devices\<close>

definition is_token_char :: "char \<Rightarrow> bool" where
  "is_token_char c \<longleftrightarrow> is_upper c \<or> is_lower c \<or> is_digit c \<or> c = CHR ''_'' \<or> c = CHR ''-''"

definition isExpoPushToken :: "string \<Rightarrow> bool" where
  "isExpoPushToken value = list_ex (\<lambda>prefix. take (length prefix) value = prefix
       \<and> (let rest = drop (length prefix) value in rest \<noteq> [] \<and> last rest = CHR '']'' \<and> butlast rest \<noteq> [] \<and> list_all is_token_char (butlast rest)))
     [''ExponentPushToken['', ''ExpoPushToken['']"

definition assertPushToken :: "string \<Rightarrow> unit res" where
  "assertPushToken value = guard_res (isExpoPushToken value) (Unprocessable ''That push token is not a valid Expo token'')"

definition isPlausibleFingerprint :: "string \<Rightarrow> bool" where
  "isPlausibleFingerprint value \<longleftrightarrow> length (trim value) \<ge> 16 \<and> length (trim value) \<le> 191"

definition assertFingerprint :: "string \<Rightarrow> unit res" where
  "assertFingerprint value = guard_res (isPlausibleFingerprint value) (Unprocessable ''That device identifier is not valid'')"

definition REASK_PERMISSION_AFTER_MS :: int where "REASK_PERMISSION_AFTER_MS = 30 * 24 * 60 * 60 * 1000"

definition shouldRequestPushPermission :: "bool \<Rightarrow> int option \<Rightarrow> int \<Rightarrow> bool" where
  "shouldRequestPushPermission hasToken declinedAt now =
     (if hasToken then False else case declinedAt of None \<Rightarrow> True | Some t \<Rightarrow> now - t \<ge> REASK_PERMISSION_AFTER_MS)"

definition describeDevice :: "string option \<Rightarrow> string option \<Rightarrow> string" where
  "describeDevice name platform =
     (case truthy (map_option trim name) of
        Some n \<Rightarrow> n
      | None \<Rightarrow> (case truthy (map_option trim platform) of None \<Rightarrow> ''Unknown device'' | Some p \<Rightarrow> p @ '' device''))"

record register_device_dto =
  rg_fingerprint :: string
  rg_name :: "string option"
  rg_platform :: "string option"
  rg_appVersion :: "string option"
  rg_pushToken :: "string option"
  rg_pushPermissionDeclined :: bool

definition installation :: "string \<Rightarrow> string \<Rightarrow> device_row \<Rightarrow> bool" where
  "installation userId fingerprint d \<longleftrightarrow> dv_userId d = userId \<and> dv_fingerprint d = fingerprint"

definition dropToken :: "device_row \<Rightarrow> device_row" where
  "dropToken d = d\<lparr>dv_pushToken := None, dv_pushTokenAt := None\<rparr>"

definition newDevice :: "string \<Rightarrow> int \<Rightarrow> string \<Rightarrow> register_device_dto \<Rightarrow> device_row" where
  "newDevice newId now userId dto =
     \<lparr>dv_id = newId, dv_userId = userId, dv_fingerprint = rg_fingerprint dto, dv_name = Some (describeDevice (rg_name dto) (rg_platform dto)),
      dv_platform = truthy (rg_platform dto), dv_pushToken = truthy (rg_pushToken dto), dv_pushTokenAt = (if truthy (rg_pushToken dto) = None then None else Some now),
      dv_pushDeclinedAt = (if rg_pushPermissionDeclined dto then Some now else None), dv_appVersion = truthy (rg_appVersion dto), dv_trustedAt = None,
      dv_lastSeenAt = now, dv_createdAt = now\<rparr>"

definition seenDevice :: "int \<Rightarrow> register_device_dto \<Rightarrow> device_row \<Rightarrow> device_row" where
  "seenDevice now dto d =
     (let e = d\<lparr>dv_name := Some (describeDevice (rg_name dto) (rg_platform dto)),
                dv_platform := (case truthy (rg_platform dto) of None \<Rightarrow> dv_platform d | Some p \<Rightarrow> Some p),
                dv_appVersion := (case truthy (rg_appVersion dto) of None \<Rightarrow> dv_appVersion d | Some v \<Rightarrow> Some v), dv_lastSeenAt := now\<rparr> in
      case truthy (rg_pushToken dto) of
        Some t \<Rightarrow> e\<lparr>dv_pushToken := Some t, dv_pushTokenAt := Some now, dv_pushDeclinedAt := None\<rparr>
      | None \<Rightarrow> if rg_pushPermissionDeclined dto then e\<lparr>dv_pushDeclinedAt := Some now\<rparr> else e)"

text \<open>Older claims on the token are released, then the installation's row is written.\<close>

definition releaseClaims :: "string \<Rightarrow> register_device_dto \<Rightarrow> device_row list \<Rightarrow> device_row list" where
  "releaseClaims userId dto ds =
     (case truthy (rg_pushToken dto) of
        None \<Rightarrow> ds
      | Some t \<Rightarrow> update_where (\<lambda>d. dv_pushToken d = Some t \<and> \<not> installation userId (rg_fingerprint dto) d) dropToken ds)"

definition registerDevice :: "string \<Rightarrow> int \<Rightarrow> string \<Rightarrow> register_device_dto \<Rightarrow> ('m notification_db_scheme, device_row) handler" where
  "registerDevice newId now userId dto s =
     (case bind_res (assertFingerprint (rg_fingerprint dto)) (\<lambda>_. case truthy (rg_pushToken dto) of None \<Rightarrow> Inr () | Some t \<Rightarrow> assertPushToken t) of
        Inl e \<Rightarrow> (Inl e, s)
      | Inr _ \<Rightarrow> serializable (\<lambda>s.
          let ds = releaseClaims userId dto (devices s) in
          case List.find (installation userId (rg_fingerprint dto)) ds of
            Some d \<Rightarrow> Inr (seenDevice now dto d, s\<lparr>devices := update_where (installation userId (rg_fingerprint dto)) (seenDevice now dto) ds\<rparr>)
          | None \<Rightarrow> bind_res (insertRow (\<lambda>a b. dv_id a = dv_id b \<or> installation (dv_userId a) (dv_fingerprint a) b) (newDevice newId now userId dto) ds) (\<lambda>ds'.
              Inr (newDevice newId now userId dto, s\<lparr>devices := ds'\<rparr>))) s)"

definition listDevices :: "string \<Rightarrow> 'm notification_db_scheme \<Rightarrow> device_row list" where
  "listDevices userId s = rev (sort_key dv_lastSeenAt (filter (\<lambda>d. dv_userId d = userId) (devices s)))"

definition deregisterDevice :: "string \<Rightarrow> string \<Rightarrow> ('m notification_db_scheme, unit) handler" where
  "deregisterDevice userId deviceId s =
     (case List.find (\<lambda>d. dv_id d = deviceId \<and> dv_userId d = userId) (devices s) of
        None \<Rightarrow> (Inl (NotFound ''That device was not found''), s)
      | Some d \<Rightarrow> (Inr (), s\<lparr>devices := update_where (\<lambda>x. dv_id x = dv_id d) dropToken (devices s)\<rparr>))"

definition releaseUnregisteredToken :: "string \<Rightarrow> 'm notification_db_scheme \<Rightarrow> 'm notification_db_scheme" where
  "releaseUnregisteredToken token s = s\<lparr>devices := update_where (\<lambda>d. dv_pushToken d = Some token) dropToken (devices s)\<rparr>"

definition pushTokensFor :: "string \<Rightarrow> 'm notification_db_scheme \<Rightarrow> string list" where
  "pushTokensFor userId s = List.map_filter dv_pushToken (filter (\<lambda>d. dv_userId d = userId \<and> dv_pushToken d \<noteq> None) (devices s))"

section \<open>Sending\<close>

record message_provider =
  mp_name :: string
  mp_send :: "int \<Rightarrow> string \<Rightarrow> string \<Rightarrow> (string \<times> string \<times> bool) option"

record push_result =
  pr_token :: string
  pr_accepted :: bool
  pr_unregistered :: bool

type_synonym push_provider = "int \<Rightarrow> string list \<Rightarrow> push_template \<Rightarrow> string \<Rightarrow> push_result list option"

record notification_input =
  ni_userId :: string
  ni_destination :: string
  ni_template :: string
  ni_variables :: variables
  ni_storedPayload :: variables
  ni_dedupeKey :: string

datatype delivery_outcome = DO_SENT string | DO_FAILED | DO_SUPPRESSED suppression_reason

record notify_ids =
  nx_notification :: string
  nx_delivery :: string

definition suppressionFor :: "clock_face \<Rightarrow> int \<Rightarrow> string \<Rightarrow> string \<Rightarrow> notification_channel \<Rightarrow> 'm notification_db_scheme \<Rightarrow> suppression_reason option res" where
  "suppressionFor face now userId template channel s =
     bind_res (topicForTemplate template) (\<lambda>topic.
       Inr (case topic of None \<Rightarrow> None | Some t \<Rightarrow> decideDelivery face now topic
         (List.find (\<lambda>p. np_userId p = userId \<and> np_channel p = channel \<and> np_topic p = t) (notification_preferences s))))"

definition notification_clash :: "notification_row \<Rightarrow> notification_row \<Rightarrow> bool" where
  "notification_clash a b \<longleftrightarrow> nt_id a = nt_id b \<or> (nt_dedupeKey a \<noteq> None \<and> nt_dedupeKey a = nt_dedupeKey b)"

definition delivery_clash :: "notification_delivery \<Rightarrow> notification_delivery \<Rightarrow> bool" where
  "delivery_clash a b \<longleftrightarrow> nd_id a = nd_id b \<or> (nd_notificationId a = nd_notificationId b \<and> nd_attemptNumber a = nd_attemptNumber b)"

definition pendingNotification :: "string \<Rightarrow> int \<Rightarrow> notification_channel \<Rightarrow> int \<Rightarrow> notification_input \<Rightarrow> notification_row" where
  "pendingNotification newId now channel version i =
     \<lparr>nt_id = newId, nt_userId = ni_userId i, nt_channel = channel, nt_template = ni_template i, nt_status = NS_PENDING, nt_payload = ni_storedPayload i,
      nt_templateVersion = version, nt_dedupeKey = Some (ni_dedupeKey i), nt_title = None, nt_body = None, nt_deepLink = None, nt_readAt = None, nt_sentAt = None,
      nt_createdAt = now\<rparr>"

text \<open>The two transactions that close an attempt.\<close>

definition recordAttempt :: "string \<Rightarrow> (notification_row \<Rightarrow> notification_row) \<Rightarrow> notification_delivery \<Rightarrow> ('m notification_db_scheme, unit) tx" where
  "recordAttempt notificationId f d s =
     bind_res (insertRow delivery_clash d (notification_deliveries s)) (\<lambda>ds.
       Inr ((), s\<lparr>notifications := update_where (\<lambda>n. nt_id n = notificationId) f (notifications s), notification_deliveries := ds\<rparr>))"

definition sentDelivery :: "notify_ids \<Rightarrow> int \<Rightarrow> string \<Rightarrow> string \<Rightarrow> notification_delivery" where
  "sentDelivery ids now provider reference =
     \<lparr>nd_id = nx_delivery ids, nd_notificationId = nx_notification ids, nd_provider = provider, nd_providerReference = Some reference, nd_status = DL_SENT,
      nd_attemptNumber = 1, nd_failureCode = None, nd_failureReason = None, nd_sentAt = Some now\<rparr>"

definition failedDelivery :: "notify_ids \<Rightarrow> string \<Rightarrow> notification_delivery" where
  "failedDelivery ids provider =
     \<lparr>nd_id = nx_delivery ids, nd_notificationId = nx_notification ids, nd_provider = provider, nd_providerReference = None, nd_status = DL_FAILED,
      nd_attemptNumber = 1, nd_failureCode = Some ''DELIVERY_UNAVAILABLE'', nd_failureReason = Some ''Transactional notification delivery was not accepted'', nd_sentAt = None\<rparr>"

definition attemptFailed :: "notify_ids \<Rightarrow> string \<Rightarrow> ('m notification_db_scheme, delivery_outcome) handler" where
  "attemptFailed ids providerName s =
     (case recordAttempt (nx_notification ids) (\<lambda>n. n\<lparr>nt_status := NS_FAILED\<rparr>) (failedDelivery ids providerName) s of
        Inl e \<Rightarrow> (Inl e, s)
      | Inr (_, s1) \<Rightarrow> (Inr DO_FAILED, s1))"

definition callProvider :: "message_provider \<Rightarrow> notify_ids \<Rightarrow> int \<Rightarrow> notification_channel \<Rightarrow> notification_input \<Rightarrow> ('m notification_db_scheme, delivery_outcome) handler" where
  "callProvider provider ids now channel i s =
     (let s1 = s\<lparr>provider_calls := provider_calls s @ [\<lparr>pv_channel = channel, pv_to = [ni_destination i], pv_key = ni_dedupeKey i\<rparr>]\<rparr> in
      case mp_send provider now (ni_destination i) (ni_dedupeKey i) of
        Some (name, reference, True) \<Rightarrow>
          (case recordAttempt (nx_notification ids) (\<lambda>n. n\<lparr>nt_status := NS_SENT, nt_sentAt := Some now\<rparr>) (sentDelivery ids now name reference) s1 of
             Inl _ \<Rightarrow> attemptFailed ids (mp_name provider) s1
           | Inr (_, s2) \<Rightarrow> (Inr (DO_SENT reference), s2))
      | _ \<Rightarrow> attemptFailed ids (mp_name provider) s1)"

definition deliver ::
  "clock_face \<Rightarrow> message_provider \<Rightarrow> notify_ids \<Rightarrow> int \<Rightarrow> notification_channel \<Rightarrow> int \<Rightarrow> notification_input \<Rightarrow> ('m notification_db_scheme, delivery_outcome) handler" where
  "deliver face provider ids now channel version i s =
     (case suppressionFor face now (ni_userId i) (ni_template i) channel s of
        Inl e \<Rightarrow> (Inl e, s)
      | Inr (Some reason) \<Rightarrow> (Inr (DO_SUPPRESSED reason), s)
      | Inr None \<Rightarrow>
     (case List.find (\<lambda>n. nt_dedupeKey n = Some (ni_dedupeKey i)) (notifications s) of
        Some n \<Rightarrow> (Inr (if nt_status n = NS_SENT \<or> nt_status n = NS_DELIVERED then DO_SENT (''deduplicated:'' @ nt_id n) else DO_FAILED), s)
      | None \<Rightarrow>
     (case insertRow notification_clash (pendingNotification (nx_notification ids) now channel version i) (notifications s) of
        Inl e \<Rightarrow> (Inl e, s)
      | Inr rows \<Rightarrow> callProvider provider ids now channel i (s\<lparr>notifications := rows\<rparr>))))"

definition sendEmail :: "clock_face \<Rightarrow> message_provider \<Rightarrow> notify_ids \<Rightarrow> int \<Rightarrow> notification_input \<Rightarrow> ('m notification_db_scheme, delivery_outcome) handler" where
  "sendEmail face provider ids now i s =
     (case renderEmailTemplate (ni_template i) (ni_variables i) of
        Inl e \<Rightarrow> (Inl e, s)
      | Inr version \<Rightarrow> deliver face provider ids now NC_EMAIL version i s)"

definition sendSms :: "clock_face \<Rightarrow> message_provider \<Rightarrow> notify_ids \<Rightarrow> int \<Rightarrow> notification_input \<Rightarrow> ('m notification_db_scheme, delivery_outcome) handler" where
  "sendSms face provider ids now i s =
     (case renderSmsTemplate (ni_variables i) of
        Inl e \<Rightarrow> (Inl e, s)
      | Inr (version, _) \<Rightarrow> deliver face provider ids now NC_SMS version i s)"

text \<open>A product event: an entry of the in-app list and a push.\<close>

definition inAppRow :: "string \<Rightarrow> int \<Rightarrow> notification_input \<Rightarrow> push_template \<Rightarrow> notification_row" where
  "inAppRow newId now i t =
     \<lparr>nt_id = newId, nt_userId = ni_userId i, nt_channel = NC_IN_APP, nt_template = ni_template i, nt_status = NS_SENT, nt_payload = ni_storedPayload i,
      nt_templateVersion = pt_version t, nt_dedupeKey = Some (ni_dedupeKey i @ '':in-app''), nt_title = Some (pt_title t), nt_body = Some (pt_body t),
      nt_deepLink = truthy (pt_deepLink t), nt_readAt = None, nt_sentAt = Some now, nt_createdAt = now\<rparr>"

definition putInApp :: "notify_ids \<Rightarrow> int \<Rightarrow> notification_input \<Rightarrow> push_template \<Rightarrow> 'm notification_db_scheme \<Rightarrow> bool \<times> 'm notification_db_scheme" where
  "putInApp ids now i t s =
     (case insertRow notification_clash (inAppRow (nx_notification ids) now i t) (notifications s) of
        Inl _ \<Rightarrow> (False, s)
      | Inr rows \<Rightarrow> (True, s\<lparr>notifications := rows\<rparr>))"

definition pushTo :: "push_provider \<Rightarrow> int \<Rightarrow> notification_input \<Rightarrow> push_template \<Rightarrow> ('m notification_db_scheme, nat) handler" where
  "pushTo provider now i t s =
     (let tokens = pushTokensFor (ni_userId i) s in
      if tokens = [] then (Inr 0, s)
      else let s1 = s\<lparr>provider_calls := provider_calls s @ [\<lparr>pv_channel = NC_PUSH, pv_to = tokens, pv_key = ni_dedupeKey i\<rparr>]\<rparr> in
        case provider now tokens t (ni_dedupeKey i) of
          None \<Rightarrow> (Inl (PlainError ''push provider''), s1)
        | Some results \<Rightarrow> (Inr (length (filter pr_accepted results)),
            fold (\<lambda>r s. if pr_unregistered r then releaseUnregisteredToken (pr_token r) s else s) results s1))"

definition notifyUser :: "clock_face \<Rightarrow> push_provider \<Rightarrow> notify_ids \<Rightarrow> int \<Rightarrow> notification_input \<Rightarrow> ('m notification_db_scheme, bool \<times> nat) handler" where
  "notifyUser face provider ids now i s =
     (case renderPushTemplate (ni_template i) (ni_variables i) of
        None \<Rightarrow> (Inr (False, 0), s)
      | Some t \<Rightarrow>
     (case suppressionFor face now (ni_userId i) (ni_template i) NC_IN_APP s of
        Inl e \<Rightarrow> (Inl e, s)
      | Inr hold \<Rightarrow>
     (let (inApp, s1) = (if hold = None then putInApp ids now i t s else (False, s)) in
      case suppressionFor face now (ni_userId i) (ni_template i) NC_PUSH s1 of
        Inl e \<Rightarrow> (Inl e, s1)
      | Inr (Some _) \<Rightarrow> (Inr (inApp, 0), s1)
      | Inr None \<Rightarrow>
     (case pushTo provider now i t s1 of
        (Inl e, s2) \<Rightarrow> (Inl e, s2)
      | (Inr pushed, s2) \<Rightarrow> (Inr (inApp, pushed), s2)))))"

section \<open>Preferences\<close>

definition SETTABLE_CHANNELS :: "notification_channel list" where
  "SETTABLE_CHANNELS = [NC_PUSH, NC_IN_APP, NC_EMAIL, NC_SMS]"

definition DEFAULT_TIMEZONE :: string where "DEFAULT_TIMEZONE = ''Africa/Lagos''"

definition profileTimezone :: "string \<Rightarrow> 'm kyc_db_scheme \<Rightarrow> string" where
  "profileTimezone userId s = (case List.find (\<lambda>p. pf_userId p = userId) (profiles s) of None \<Rightarrow> DEFAULT_TIMEZONE | Some p \<Rightarrow> pf_timezone p)"

definition preferenceView :: "string \<Rightarrow> string \<Rightarrow> notification_preference list \<Rightarrow> string \<Rightarrow> notification_channel \<Rightarrow> notification_preference" where
  "preferenceView userId timezone stored topic channel =
     (case List.find (\<lambda>p. np_topic p = topic \<and> np_channel p = channel) stored of
        Some p \<Rightarrow> \<lparr>np_userId = userId, np_channel = channel, np_topic = topic, np_enabled = np_enabled p, np_quietHoursStartMinutes = np_quietHoursStartMinutes p,
          np_quietHoursEndMinutes = np_quietHoursEndMinutes p, np_timezone = np_timezone p\<rparr>
      | None \<Rightarrow> \<lparr>np_userId = userId, np_channel = channel, np_topic = topic, np_enabled = True, np_quietHoursStartMinutes = None, np_quietHoursEndMinutes = None,
          np_timezone = timezone\<rparr>)"

definition listPreferences :: "string \<Rightarrow> 'm notification_db_scheme \<Rightarrow> notification_preference list \<times> string" where
  "listPreferences userId s =
     (let stored = filter (\<lambda>p. np_userId p = userId \<and> np_channel p \<in> set SETTABLE_CHANNELS) (notification_preferences s); timezone = profileTimezone userId s in
      (concat (map (\<lambda>topic. map (preferenceView userId timezone stored topic) SETTABLE_CHANNELS) NOTIFICATION_TOPICS), timezone))"

record preference_update =
  pu_topic :: string
  pu_channel :: notification_channel
  pu_enabled :: bool
  pu_quietHoursStartMinutes :: "int option"
  pu_quietHoursEndMinutes :: "int option"
  pu_timezone :: "string option"

fun checkUpdates :: "preference_update list \<Rightarrow> unit res" where
  "checkUpdates [] = Inr ()"
| "checkUpdates (u # us) =
     (if \<not> isValidQuietHours (pu_quietHoursStartMinutes u) (pu_quietHoursEndMinutes u) then Inl (Unprocessable ''Quiet hours need both a start and an end, or neither'')
      else if pu_channel u \<notin> set SETTABLE_CHANNELS then Inl (Unprocessable ''That channel cannot be configured yet'')
      else checkUpdates us)"

definition updatedPreference :: "string \<Rightarrow> string \<Rightarrow> preference_update \<Rightarrow> notification_preference" where
  "updatedPreference userId fallback u = \<lparr>np_userId = userId, np_channel = pu_channel u, np_topic = pu_topic u, np_enabled = pu_enabled u,
     np_quietHoursStartMinutes = pu_quietHoursStartMinutes u, np_quietHoursEndMinutes = pu_quietHoursEndMinutes u, np_timezone = or_default (pu_timezone u) fallback\<rparr>"

definition same_preference :: "notification_preference \<Rightarrow> notification_preference \<Rightarrow> bool" where
  "same_preference a b \<longleftrightarrow> np_userId a = np_userId b \<and> np_channel a = np_channel b \<and> np_topic a = np_topic b"

definition upsertPreference :: "notification_preference \<Rightarrow> notification_preference list \<Rightarrow> notification_preference list" where
  "upsertPreference p ps = (if list_ex (same_preference p) ps then update_where (same_preference p) (\<lambda>_. p) ps else ps @ [p])"

definition updatePreferences :: "string \<Rightarrow> preference_update list \<Rightarrow> ('m notification_db_scheme, notification_preference list \<times> string) handler" where
  "updatePreferences userId updates s =
     (case checkUpdates updates of
        Inl e \<Rightarrow> (Inl e, s)
      | Inr _ \<Rightarrow>
        let s1 = audit (Some userId) ''notification.preferences.updated'' ''NotificationPreference'' (Some userId) None
          (s\<lparr>notification_preferences := fold (\<lambda>u. upsertPreference (updatedPreference userId (profileTimezone userId s) u)) updates (notification_preferences s)\<rparr>) in
        (Inr (listPreferences userId s1), s1))"

section \<open>The in-app list\<close>

definition in_app :: "string \<Rightarrow> notification_row \<Rightarrow> bool" where
  "in_app userId n \<longleftrightarrow> nt_userId n = userId \<and> nt_channel n = NC_IN_APP"

definition unreadCount :: "string \<Rightarrow> 'm notification_db_scheme \<Rightarrow> nat" where
  "unreadCount userId s = length (filter (\<lambda>n. in_app userId n \<and> nt_readAt n = None) (notifications s))"

definition markRead :: "int \<Rightarrow> string \<Rightarrow> string \<Rightarrow> ('m notification_db_scheme, int option) handler" where
  "markRead now userId notificationId s =
     (case List.find (\<lambda>n. nt_id n = notificationId \<and> in_app userId n) (notifications s) of
        None \<Rightarrow> (Inl (NotFound ''That notification was not found''), s)
      | Some n \<Rightarrow>
        if nt_readAt n \<noteq> None then (Inr (nt_readAt n), s)
        else (Inr (Some now), s\<lparr>notifications := update_where (\<lambda>x. nt_id x = nt_id n) (\<lambda>x. x\<lparr>nt_readAt := Some now\<rparr>) (notifications s)\<rparr>))"

definition markAllRead :: "int \<Rightarrow> string \<Rightarrow> 'm notification_db_scheme \<Rightarrow> nat \<times> 'm notification_db_scheme" where
  "markAllRead now userId s =
     (unreadCount userId s,
      s\<lparr>notifications := update_where (\<lambda>n. in_app userId n \<and> nt_readAt n = None) (\<lambda>n. n\<lparr>nt_readAt := Some now\<rparr>) (notifications s)\<rparr>)"

section \<open>Histories\<close>

datatype notification_request =
    SendEmail notify_ids int notification_input
  | SendSms notify_ids int notification_input
  | NotifyUser notify_ids int notification_input
  | RegisterDevice string int string register_device_dto
  | DeregisterDevice string string
  | UpdatePreferences string "preference_update list"
  | MarkRead int string string
  | MarkAllRead int string

record notification_env =
  ne_face :: clock_face
  ne_email :: message_provider
  ne_sms :: message_provider
  ne_push :: push_provider

fun serveNotification :: "notification_env \<Rightarrow> notification_request \<Rightarrow> 'm notification_db_scheme \<Rightarrow> 'm notification_db_scheme" where
  "serveNotification env (SendEmail ids now i) s = snd (sendEmail (ne_face env) (ne_email env) ids now i s)"
| "serveNotification env (SendSms ids now i) s = snd (sendSms (ne_face env) (ne_sms env) ids now i s)"
| "serveNotification env (NotifyUser ids now i) s = snd (notifyUser (ne_face env) (ne_push env) ids now i s)"
| "serveNotification env (RegisterDevice newId now u dto) s = snd (registerDevice newId now u dto s)"
| "serveNotification env (DeregisterDevice u d) s = snd (deregisterDevice u d s)"
| "serveNotification env (UpdatePreferences u us) s = snd (updatePreferences u us s)"
| "serveNotification env (MarkRead now u n) s = snd (markRead now u n s)"
| "serveNotification env (MarkAllRead now u) s = snd (markAllRead now u s)"

section \<open>Quiet hours and topics\<close>

text \<open>The window of quiet hours goes round the clock: it holds the minutes that follow its start by less than its length.\<close>

lemma quiet_hours_circular:
  assumes "0 \<le> m" "m < 1440" "0 \<le> a" "a < 1440" "0 \<le> b" "b < 1440" "a \<noteq> b"
  shows "isWithinQuietHours m (Some a) (Some b) \<longleftrightarrow> (m - a) mod 1440 < (b - a) mod 1440"
proof -
  have shift: "x mod 1440 = (if x < 0 then x + 1440 else x)" if "- 1440 \<le> x" "x < 1440" for x :: int
    using that by (auto simp: mod_pos_pos_trivial intro: mod_pos_pos_trivial [of "x + 1440" 1440, simplified])
  show ?thesis using assms by (simp add: isWithinQuietHours_def shift)
qed

text \<open>Every template that can be rendered is classified, and a pushed one always by a topic of the catalogue.\<close>

lemma templates_classified:
  "list_all (\<lambda>t. \<not> isl (topicForTemplate t)) (map fst emailVariables @ map fst PUSH_TEMPLATES)"
  "list_all (\<lambda>t. case topicForTemplate t of Inr (Some topic) \<Rightarrow> isNotificationTopic topic | _ \<Rightarrow> False) (map fst PUSH_TEMPLATES)"
  by code_simp+

section \<open>One owner per push token\<close>

definition device_key :: "device_row \<Rightarrow> string \<times> string" where
  "device_key d = (dv_userId d, dv_fingerprint d)"

text \<open>Two rows hold the same token.\<close>

definition shares_token :: "device_row \<Rightarrow> device_row \<Rightarrow> bool" where
  "shares_token d e \<longleftrightarrow> dv_pushToken d \<noteq> None \<and> dv_pushToken d = dv_pushToken e \<and> device_key d \<noteq> device_key e"

definition devices_ok :: "device_row list \<Rightarrow> bool" where
  "devices_ok ds \<longleftrightarrow> distinct (map device_key ds) \<and> list_all (\<lambda>d. list_all (\<lambda>e. \<not> shares_token d e) ds) ds"

lemma installation_key: "installation u f d \<longleftrightarrow> device_key d = (u, f)"
  by (auto simp: installation_def device_key_def)

lemma device_key_simps [simp]:
  "device_key (dropToken d) = device_key d" "device_key (seenDevice now dto d) = device_key d" "dv_pushToken (dropToken d) = None"
  "device_key (newDevice newId now u dto) = (u, rg_fingerprint dto)" "dv_pushToken (newDevice newId now u dto) = truthy (rg_pushToken dto)"
  "dv_pushToken (seenDevice now dto d) = (case truthy (rg_pushToken dto) of None \<Rightarrow> dv_pushToken d | Some t \<Rightarrow> Some t)"
  by (simp_all add: dropToken_def seenDevice_def newDevice_def device_key_def Let_def split: option.split)

lemma shares_dropped [simp]: "\<not> shares_token (dropToken d) e" "\<not> shares_token e (dropToken d)"
  by (auto simp: shares_token_def)

lemma devices_ok_drop: "devices_ok ds \<Longrightarrow> devices_ok (update_where P dropToken ds)"
  by (auto simp: devices_ok_def map_update_where list_all_iff set_update_where)

text \<open>After the claims are released only the installation itself may hold the token.\<close>

lemma releaseClaims_ok:
  assumes "devices_ok ds"
  shows "devices_ok (releaseClaims u dto ds)"
    and "\<And>d. d \<in> set (releaseClaims u dto ds) \<Longrightarrow> truthy (rg_pushToken dto) = Some t \<Longrightarrow> dv_pushToken d = Some t \<Longrightarrow> device_key d = (u, rg_fingerprint dto)"
  using assms devices_ok_drop [OF assms] by (auto simp: releaseClaims_def installation_key set_update_where split: option.splits)

lemma devices_ok_claim:
  assumes "devices_ok ds" and "\<And>d t. d \<in> set ds \<Longrightarrow> new = Some t \<Longrightarrow> dv_pushToken d = Some t \<Longrightarrow> device_key d = k"
    and "\<And>d. device_key (f d) = device_key d" and "\<And>d. dv_pushToken (f d) = (case new of None \<Rightarrow> dv_pushToken d | Some t \<Rightarrow> Some t)"
  shows "devices_ok (update_where (\<lambda>d. device_key d = k) f ds)"
proof -
  have old: "\<not> shares_token d e" if "d \<in> set ds" "e \<in> set ds" for d e using assms(1) that by (simp add: devices_ok_def list_all_iff)
  have mixed: "\<not> shares_token (f d) e \<and> \<not> shares_token e (f d)" if "d \<in> set ds" "e \<in> set ds" "device_key d = k" "device_key e \<noteq> k" for d e
  proof (cases new)
    case None
    then show ?thesis using old [OF that(1,2)] old [OF that(2,1)] by (simp add: shares_token_def assms(3,4))
  next
    case (Some t)
    then have "dv_pushToken e \<noteq> Some t" using assms(2) that by blast
    with Some show ?thesis by (auto simp: shares_token_def assms(4))
  qed
  have "\<not> shares_token (f d) (f e)" if "device_key d = k" "device_key e = k" for d e using that by (simp add: shares_token_def assms(3))
  then show ?thesis using old mixed assms(1) by (auto simp: devices_ok_def map_update_where assms(3) list_all_iff set_update_where)
qed

lemma devices_ok_add:
  assumes "devices_ok ds" and "\<And>d t. d \<in> set ds \<Longrightarrow> dv_pushToken x = Some t \<Longrightarrow> dv_pushToken d = Some t \<Longrightarrow> device_key d = device_key x"
    and "device_key x \<notin> device_key ` set ds"
  shows "devices_ok (ds @ [x])"
proof -
  have "\<not> shares_token d x \<and> \<not> shares_token x d" if "d \<in> set ds" for d
    using assms(2) [OF that] by (cases "dv_pushToken x"; cases "dv_pushToken d") (auto simp: shares_token_def)
  then show ?thesis using assms(1,3) by (auto simp: devices_ok_def list_all_iff shares_token_def)
qed

lemma registerDevice_ok:
  assumes "devices_ok (devices s)"
  shows "devices_ok (devices (snd (registerDevice newId now u dto s)))"
proof -
  let ?ds = "releaseClaims u dto (devices s)" and ?k = "(u, rg_fingerprint dto)"
  have ok: "devices_ok ?ds" using releaseClaims_ok(1) [OF assms] .
  have only: "\<And>d t. d \<in> set ?ds \<Longrightarrow> truthy (rg_pushToken dto) = Some t \<Longrightarrow> dv_pushToken d = Some t \<Longrightarrow> device_key d = ?k"
    using releaseClaims_ok(2) [OF assms] .
  have old: "devices_ok (update_where (installation u (rg_fingerprint dto)) (seenDevice now dto) ?ds)"
    using devices_ok_claim [OF ok, of "truthy (rg_pushToken dto)" ?k "seenDevice now dto"] only by (simp add: installation_key [abs_def])
  have new: "devices_ok (?ds @ [newDevice newId now u dto])" if "?k \<notin> device_key ` set ?ds"
    using devices_ok_add [OF ok, of "newDevice newId now u dto"] only that by simp
  show ?thesis
  proof (cases "List.find (installation u (rg_fingerprint dto)) ?ds")
    case None
    then have "?k \<notin> device_key ` set ?ds" by (auto simp: find_None_iff installation_key)
    with None assms new show ?thesis
      by (auto simp: registerDevice_def serializable_def Let_def insertRow_def split: sum.splits)
  next
    case (Some d)
    with assms old show ?thesis by (auto simp: registerDevice_def serializable_def Let_def split: sum.splits)
  qed
qed

section \<open>One message per event\<close>

definition message_call :: "provider_call \<Rightarrow> bool" where
  "message_call c \<longleftrightarrow> pv_channel c = NC_EMAIL \<or> pv_channel c = NC_SMS"

definition messages_ok :: "notification_row list \<Rightarrow> provider_call list \<Rightarrow> bool" where
  "messages_ok ns cs \<longleftrightarrow> distinct (map pv_key (filter message_call cs))
     \<and> list_all (\<lambda>k. Some k \<in> set (map nt_dedupeKey ns)) (map pv_key (filter message_call cs))"

definition notification_ok :: "'m notification_db_scheme \<Rightarrow> bool" where
  "notification_ok s \<longleftrightarrow> devices_ok (devices s) \<and> messages_ok (notifications s) (provider_calls s)"

lemma distinct_key_count: "distinct (map key xs) \<Longrightarrow> length (filter (\<lambda>x. key x = k) xs) \<le> 1"
  by (induction xs) (auto simp: filter_empty_conv image_iff)

lemma messages_ok_rows:
  "messages_ok ns cs \<Longrightarrow> set (map nt_dedupeKey ns) \<subseteq> set (map nt_dedupeKey ns') \<Longrightarrow> messages_ok ns' cs"
  by (auto simp: messages_ok_def list_all_iff)

lemma messages_ok_push: "messages_ok ns cs \<Longrightarrow> messages_ok ns (cs @ [\<lparr>pv_channel = NC_PUSH, pv_to = ts, pv_key = k\<rparr>])"
  by (simp add: messages_ok_def message_call_def)

lemma messages_ok_call:
  assumes "messages_ok ns cs" and "Some (pv_key c) \<notin> set (map nt_dedupeKey ns)" and "Some (pv_key c) \<in> set (map nt_dedupeKey ns')"
    and "set (map nt_dedupeKey ns) \<subseteq> set (map nt_dedupeKey ns')"
  shows "messages_ok ns' (cs @ [c])"
  using messages_ok_rows [OF assms(1,4)] assms by (auto simp: messages_ok_def list_all_iff)

lemma recordAttempt_effect:
  assumes "recordAttempt i f d s = Inr (u, s')" and "\<And>n. nt_dedupeKey (f n) = nt_dedupeKey n"
  shows "map nt_dedupeKey (notifications s') = map nt_dedupeKey (notifications s) \<and> provider_calls s' = provider_calls s \<and> devices s' = devices s"
  using assms by (auto simp: recordAttempt_def res_iffs map_update_where)

lemma attemptFailed_effect:
  "attemptFailed ids p s = (r, s') \<Longrightarrow> map nt_dedupeKey (notifications s') = map nt_dedupeKey (notifications s) \<and> provider_calls s' = provider_calls s \<and> devices s' = devices s"
  by (auto simp: attemptFailed_def dest!: recordAttempt_effect split: sum.splits)

lemma callProvider_effect:
  assumes "callProvider p ids now ch i s = (r, s')"
  shows "map nt_dedupeKey (notifications s') = map nt_dedupeKey (notifications s)
    \<and> provider_calls s' = provider_calls s @ [\<lparr>pv_channel = ch, pv_to = [ni_destination i], pv_key = ni_dedupeKey i\<rparr>] \<and> devices s' = devices s"
  using assms by (auto simp: callProvider_def Let_def dest!: recordAttempt_effect attemptFailed_effect split: option.splits prod.splits bool.splits sum.splits)

lemma deliver_cases:
  assumes "deliver face p ids now ch v i s = (r, s')"
  obtains (same) "s' = s"
  | (called) row where "Some (ni_dedupeKey i) \<notin> set (map nt_dedupeKey (notifications s))" "nt_dedupeKey row = Some (ni_dedupeKey i)"
      "map nt_dedupeKey (notifications s') = map nt_dedupeKey (notifications s @ [row])"
      "provider_calls s' = provider_calls s @ [\<lparr>pv_channel = ch, pv_to = [ni_destination i], pv_key = ni_dedupeKey i\<rparr>]" "devices s' = devices s"
proof (cases "s' = s")
  case False
  let ?row = "pendingNotification (nx_notification ids) now ch v i"
  from assms False have f: "List.find (\<lambda>n. nt_dedupeKey n = Some (ni_dedupeKey i)) (notifications s) = None"
    and c: "callProvider p ids now ch i (s\<lparr>notifications := notifications s @ [?row]\<rparr>) = (r, s')"
    by (auto simp: deliver_def insertRow_def split: sum.splits option.splits if_splits)
  show ?thesis
    by (rule called [of ?row]) (use f callProvider_effect [OF c] in \<open>auto simp: find_None_iff pendingNotification_def\<close>)
qed (rule same)

lemma deliver_ok:
  assumes "notification_ok s"
  shows "notification_ok (snd (deliver face p ids now ch v i s))"
proof (cases "deliver face p ids now ch v i s")
  case (Pair r s')
  then show ?thesis
  proof (cases rule: deliver_cases)
    case (called row)
    have "messages_ok (notifications s') (provider_calls s')"
      unfolding called(4) using assms called by (intro messages_ok_call [of "notifications s"]) (auto simp: notification_ok_def)
    with assms Pair called show ?thesis by (simp add: notification_ok_def)
  qed (use assms Pair in simp)
qed

lemma release_ok: "notification_ok s \<Longrightarrow> notification_ok (releaseUnregisteredToken t s)"
  by (simp add: notification_ok_def releaseUnregisteredToken_def devices_ok_drop)

lemma release_all_ok:
  "notification_ok s \<Longrightarrow> notification_ok (fold (\<lambda>r s. if pr_unregistered r then releaseUnregisteredToken (pr_token r) s else s) rs s)"
  by (induction rs arbitrary: s) (auto simp: release_ok)

lemma pushTo_ok: "notification_ok s \<Longrightarrow> notification_ok (snd (pushTo p now i t s))"
  by (auto simp: pushTo_def Let_def notification_ok_def messages_ok_push intro!: release_all_ok [unfolded notification_ok_def] split: option.splits)

lemma putInApp_ok: "notification_ok s \<Longrightarrow> notification_ok (snd (putInApp ids now i t s))"
  by (auto simp: putInApp_def notification_ok_def intro: messages_ok_rows split: sum.splits)

lemma notifyUser_ok:
  assumes "notification_ok s"
  shows "notification_ok (snd (notifyUser face p ids now i s))"
proof -
  have push: "notification_ok (snd (case pushTo p now i t s1 of (Inl e, s2) \<Rightarrow> (Inl e, s2) | (Inr n, s2) \<Rightarrow> (Inr (b, n), s2)))" if "notification_ok s1" for t s1 and b :: bool
    using pushTo_ok [OF that, of p now i t] by (auto split: prod.splits sum.splits)
  show ?thesis
  proof (cases "renderPushTemplate (ni_template i) (ni_variables i)")
    case (Some t)
    show ?thesis
    proof (cases "suppressionFor face now (ni_userId i) (ni_template i) NC_IN_APP s")
      case (Inr hold)
      obtain b s1 where p1: "(if hold = None then putInApp ids now i t s else (False, s)) = (b, s1)" by fastforce
      then have s1: "notification_ok s1" using assms putInApp_ok [OF assms, of ids now i t] by (auto split: if_splits)
      show ?thesis
        using s1 push [OF s1] by (simp add: notifyUser_def Some Inr p1 split: sum.split option.split)
    qed (use assms Some in \<open>simp add: notifyUser_def\<close>)
  qed (use assms in \<open>simp add: notifyUser_def\<close>)
qed

lemma keys_read [simp]: "map nt_dedupeKey (update_where P (\<lambda>n. n\<lparr>nt_readAt := x\<rparr>) ns) = map nt_dedupeKey ns"
  by (simp add: map_update_where)

lemma reading_ok:
  "notification_ok s \<Longrightarrow> notification_ok (snd (markRead now u n s))"
  "notification_ok s \<Longrightarrow> notification_ok (snd (markAllRead now u s))"
  by (auto simp: markRead_def markAllRead_def notification_ok_def messages_ok_def simp flip: set_map split: option.splits)

lemma device_requests_ok:
  "notification_ok s \<Longrightarrow> notification_ok (snd (registerDevice newId now u dto s))"
  "notification_ok s \<Longrightarrow> notification_ok (snd (deregisterDevice u d s))"
  "notification_ok s \<Longrightarrow> notification_ok (snd (updatePreferences u us s))"
proof -
  assume ok: "notification_ok s"
  have "notifications (snd (registerDevice newId now u dto s)) = notifications s \<and> provider_calls (snd (registerDevice newId now u dto s)) = provider_calls s"
    by (auto simp: registerDevice_def serializable_def Let_def res_iffs split: sum.splits option.splits)
  with ok registerDevice_ok [of s] show "notification_ok (snd (registerDevice newId now u dto s))" by (simp add: notification_ok_def)
  from ok show "notification_ok (snd (deregisterDevice u d s))" by (auto simp: deregisterDevice_def notification_ok_def devices_ok_drop split: option.splits)
  from ok show "notification_ok (snd (updatePreferences u us s))" by (auto simp: updatePreferences_def notification_ok_def Let_def audit_def split: sum.splits)
qed

lemma sending_ok:
  "notification_ok s \<Longrightarrow> notification_ok (snd (sendEmail face p ids now i s))"
  "notification_ok s \<Longrightarrow> notification_ok (snd (sendSms face p ids now i s))"
  by (auto simp: sendEmail_def sendSms_def deliver_ok split: sum.splits)

interpretation notification_history: request_safety "serveNotification env" notification_ok
proof
  fix s :: "'m notification_db_scheme" and q
  assume "notification_ok s"
  then show "notification_ok (serveNotification env q s)" by (cases q) (simp_all add: sending_ok notifyUser_ok device_requests_ok reading_ok)
qed

text \<open>
  C38. Through any history of messages, notifications and devices, a device token that would receive one member's pushes never receives another's: a handset that changes
  hands follows its new owner.
\<close>

theorem token_reaches_one_member:
  assumes "notification_ok s0" and "s = fold (serveNotification env) qs s0" and "u \<noteq> v"
  shows "set (pushTokensFor u s) \<inter> set (pushTokensFor v s) = {}"
proof -
  have "notification_ok s" unfolding assms(2) using assms(1) by (rule notification_history.history_inv)
  then have "devices_ok (devices s)" by (simp add: notification_ok_def)
  with assms(3) show ?thesis
    by (force simp: pushTokensFor_def map_filter_def devices_ok_def list_all_iff shares_token_def device_key_def)
qed

definition demo_notification_db :: notification_db where
  "demo_notification_db = auth_db.extend (identity_db.extend (kyc_db.extend demo_kyc_db (identity_db.fields [] [] [])) (auth_db.fields [] [] [] [] [] [] [] []))
     (notification_db.fields [] [] [] [] [])"

definition demo_notification_env :: notification_env where
  "demo_notification_env = \<lparr>ne_face = (\<lambda>t z. (12, 30)), ne_email = \<lparr>mp_name = ''mail'', mp_send = (\<lambda>t d k. if k = ''k2'' then None else Some (''mail'', ''ref'', True))\<rparr>,
     ne_sms = \<lparr>mp_name = ''sms'', mp_send = (\<lambda>t d k. None)\<rparr>, ne_push = (\<lambda>now ts t k. Some (map (\<lambda>x. \<lparr>pr_token = x, pr_accepted = True, pr_unregistered = False\<rparr>) ts))\<rparr>"

definition demo_registration :: register_device_dto where
  "demo_registration = \<lparr>rg_fingerprint = ''0123456789abcdef'', rg_name = None, rg_platform = Some ''ios'', rg_appVersion = None, rg_pushToken = Some ''ExpoPushToken[a-1]'',
     rg_pushPermissionDeclined = False\<rparr>"

definition demo_handover :: notification_db where
  "demo_handover = fold (serveNotification demo_notification_env) [RegisterDevice ''d1'' 1 ''ada'' demo_registration, RegisterDevice ''d2'' 2 ''bola'' demo_registration] demo_notification_db"

theorem token_reaches_one_member_witness:
  "pushTokensFor ''bola'' demo_handover = [''ExpoPushToken[a-1]''] \<and> set (pushTokensFor ''ada'' demo_handover) \<inter> set (pushTokensFor ''bola'' demo_handover) = {}"
proof -
  have "notification_ok demo_notification_db" "pushTokensFor ''bola'' demo_handover = [''ExpoPushToken[a-1]'']" by code_simp+
  with token_reaches_one_member [OF _ demo_handover_def, of "''ada''" "''bola''"] show ?thesis by simp
qed

text \<open>
  C39. Through any history of requests the email and text providers are called at most once for an event key, and once they have been, sending under that key again
  calls nobody, even if the first attempt failed.
\<close>

theorem message_sent_once:
  assumes "notification_ok s0" and "s = fold (serveNotification env) qs s0"
  shows "length (filter (\<lambda>c. message_call c \<and> pv_key c = ni_dedupeKey i) (provider_calls s)) \<le> 1
    \<and> ((\<exists>c \<in> set (provider_calls s). message_call c \<and> pv_key c = ni_dedupeKey i) \<longrightarrow> snd (sendEmail face p ids now i s) = s \<and> snd (sendSms face p ids now i s) = s)"
proof -
  have "notification_ok s" unfolding assms(2) using assms(1) by (rule notification_history.history_inv)
  then have ok: "messages_ok (notifications s) (provider_calls s)" by (simp add: notification_ok_def)
  then have "length (filter (\<lambda>c. pv_key c = ni_dedupeKey i) (filter message_call (provider_calls s))) \<le> 1"
    by (intro distinct_key_count) (simp add: messages_ok_def)
  moreover have "snd (deliver face p ids now ch v i s) = s" if "c \<in> set (provider_calls s)" "message_call c" "pv_key c = ni_dedupeKey i" for c ch v
  proof -
    from ok that have "Some (ni_dedupeKey i) \<in> nt_dedupeKey ` set (notifications s)" by (force simp: messages_ok_def list_all_iff)
    then have "List.find (\<lambda>n. nt_dedupeKey n = Some (ni_dedupeKey i)) (notifications s) \<noteq> None" by (auto simp: find_None_iff)
    then show ?thesis by (auto simp: deliver_def split: sum.splits option.splits)
  qed
  ultimately show ?thesis by (auto simp: sendEmail_def sendSms_def conj_commute split: sum.splits)
qed

definition demo_message :: "string \<Rightarrow> notification_input" where
  "demo_message k = \<lparr>ni_userId = ''ada'', ni_destination = ''ada@x.ng'', ni_template = ''welcome'', ni_variables = [(''firstName'', ''Ada'')], ni_storedPayload = [], ni_dedupeKey = k\<rparr>"

definition demo_failed_message :: notification_db where
  "demo_failed_message = fold (serveNotification demo_notification_env) [SendEmail \<lparr>nx_notification = ''n1'', nx_delivery = ''x1''\<rparr> 1 (demo_message ''k2'')] demo_notification_db"

theorem message_sent_once_witness:
  "nt_status (hd (notifications demo_failed_message)) = NS_FAILED
   \<and> snd (sendEmail (\<lambda>t z. (9, 0)) \<lparr>mp_name = ''mail'', mp_send = (\<lambda>t d k. Some (''mail'', ''ref'', True))\<rparr> \<lparr>nx_notification = ''n2'', nx_delivery = ''x2''\<rparr> 5 (demo_message ''k2'')
       demo_failed_message) = demo_failed_message"
proof -
  have "notification_ok demo_notification_db" "nt_status (hd (notifications demo_failed_message)) = NS_FAILED"
    "list_ex (\<lambda>c. message_call c \<and> pv_key c = ni_dedupeKey (demo_message ''k2'')) (provider_calls demo_failed_message)" by code_simp+
  with message_sent_once [OF _ demo_failed_message_def, of "demo_message ''k2''"] show ?thesis by (auto simp: list_ex_iff)
qed

end
