(* ===== verification/Staff_Invites.thy ===== *)
theory Staff_Invites
  imports Notifications
begin

text \<open>
  Invitations of staff: \<^verbatim>\<open>src/modules/admin/staff/staff-invite.service.ts\<close> and \<^verbatim>\<open>staff-roles.ts\<close>. An administrator invites an address to a role; the link in the email carries a
  token of which only the digest is stored; whoever redeems it in time gets an account with that role. The database keeps at most one pending invitation per address.
\<close>

section \<open>Data\<close>

datatype staff_invite_status = SI_PENDING | SI_ACCEPTED | SI_REVOKED | SI_EXPIRED

record staff_invite =
  stf_id :: string
  stf_email :: string
  stf_firstName :: string
  stf_lastName :: string
  stf_roleId :: string
  stf_tokenHash :: string
  stf_status :: staff_invite_status
  stf_invitedById :: string
  stf_expiresAt :: int
  stf_acceptedAt :: "int option"
  stf_revokedAt :: "int option"
  stf_acceptedUserId :: "string option"
  stf_createdAt :: int

record staff_db = notification_db +
  staff_invites :: "staff_invite list"

definition INVITE_TTL_HOURS :: int where "INVITE_TTL_HOURS = 72"

definition INVITE_TTL_MS :: int where "INVITE_TTL_MS = INVITE_TTL_HOURS * 60 * 60 * 1000"

definition INVITABLE_ROLES :: "string list" where
  "INVITABLE_ROLES = [''PLATFORM_ADMIN'', ''COMPLIANCE_OFFICER'', ''FINANCE_OFFICER'', ''SUPPORT_OFFICER'']"

fun splitUnderscore :: "string \<Rightarrow> string list" where
  "splitUnderscore [] = [[]]"
| "splitUnderscore (c # cs) = (if c = CHR ''_'' then [] # splitUnderscore cs else case splitUnderscore cs of [] \<Rightarrow> [[c]] | w # ws \<Rightarrow> (c # w) # ws)"

definition capitalise :: "string \<Rightarrow> string" where
  "capitalise word = toUpperCase (take 1 word) @ drop 1 word"

definition humaniseRole :: "string \<Rightarrow> string" where
  "humaniseRole role = joinSpace (map capitalise (splitUnderscore (toLowerCase role)))"

record invite_dto =
  iv_email :: string
  iv_firstName :: string
  iv_lastName :: string
  iv_role :: string

record invite_summary =
  is_id :: string
  is_email :: string
  is_firstName :: string
  is_lastName :: string
  is_role :: string
  is_status :: staff_invite_status
  is_invitedBy :: "string option"
  is_expiresAt :: int
  is_acceptedAt :: "int option"
  is_createdAt :: int

record invite_preview =
  ip_email :: string
  ip_firstName :: string
  ip_lastName :: string
  ip_role :: string
  ip_expiresAt :: int

text \<open>What a request draws: the invitation's id and raw token, the id of an account, and the ids of the email.\<close>

record invite_ids =
  ix_invite :: string
  ix_token :: string
  ix_user :: string
  ix_mail :: notify_ids

section \<open>Reading\<close>

definition roleName :: "string \<Rightarrow> 'm auth_db_scheme \<Rightarrow> string" where
  "roleName roleId s = (case List.find (\<lambda>r. ro_id r = roleId) (roles s) of None \<Rightarrow> '''' | Some r \<Rightarrow> ro_name r)"

definition effectiveStatus :: "int \<Rightarrow> staff_invite \<Rightarrow> staff_invite_status" where
  "effectiveStatus now i = (if stf_status i = SI_PENDING \<and> stf_expiresAt i \<le> now then SI_EXPIRED else stf_status i)"

definition fullName :: "profile_row \<Rightarrow> string" where
  "fullName p = pf_firstName p @ '' '' @ pf_lastName p"

definition summariseInvite :: "int \<Rightarrow> staff_invite \<Rightarrow> profile_row option \<Rightarrow> 'm auth_db_scheme \<Rightarrow> invite_summary" where
  "summariseInvite now i inviter s =
     \<lparr>is_id = stf_id i, is_email = stf_email i, is_firstName = stf_firstName i, is_lastName = stf_lastName i, is_role = roleName (stf_roleId i) s, is_status = effectiveStatus now i,
      is_invitedBy = map_option fullName inviter, is_expiresAt = stf_expiresAt i, is_acceptedAt = stf_acceptedAt i, is_createdAt = stf_createdAt i\<rparr>"

definition profileOf :: "string \<Rightarrow> 'm kyc_db_scheme \<Rightarrow> profile_row option" where
  "profileOf userId s = List.find (\<lambda>p. pf_userId p = userId) (profiles s)"

definition listInvites :: "int \<Rightarrow> 'm staff_db_scheme \<Rightarrow> invite_summary list" where
  "listInvites now s = map (\<lambda>i. summariseInvite now i (profileOf (stf_invitedById i) s) s) (take 100 (rev (sort_key stf_createdAt (staff_invites s))))"

text \<open>Every failure raises the same error.\<close>

definition findLiveInvite :: "auth_env \<Rightarrow> int \<Rightarrow> string \<Rightarrow> 'm staff_db_scheme \<Rightarrow> staff_invite res" where
  "findLiveInvite env now token s =
     (case List.find (\<lambda>i. stf_tokenHash i = digest env token) (staff_invites s) of
        None \<Rightarrow> Inl (Forbidden ''This invitation link is invalid or has expired'')
      | Some i \<Rightarrow>
        if stf_status i \<noteq> SI_PENDING \<or> stf_expiresAt i \<le> now \<or> stf_tokenHash i \<noteq> digest env token
        then Inl (Forbidden ''This invitation link is invalid or has expired'')
        else Inr i)"

definition previewInvite :: "auth_env \<Rightarrow> int \<Rightarrow> string \<Rightarrow> 'm staff_db_scheme \<Rightarrow> invite_preview res" where
  "previewInvite env now token s =
     bind_res (findLiveInvite env now token s) (\<lambda>i.
       Inr \<lparr>ip_email = stf_email i, ip_firstName = stf_firstName i, ip_lastName = stf_lastName i, ip_role = humaniseRole (roleName (stf_roleId i) s),
            ip_expiresAt = stf_expiresAt i\<rparr>)"

section \<open>Inviting and revoking\<close>

definition invite_clash :: "staff_invite \<Rightarrow> staff_invite \<Rightarrow> bool" where
  "invite_clash a b \<longleftrightarrow> stf_id a = stf_id b \<or> stf_tokenHash a = stf_tokenHash b
     \<or> (stf_status a = SI_PENDING \<and> stf_status b = SI_PENDING \<and> stf_email a = stf_email b)"

definition revokedInvite :: "int \<Rightarrow> staff_invite \<Rightarrow> staff_invite" where
  "revokedInvite now i = i\<lparr>stf_status := SI_REVOKED, stf_revokedAt := Some now\<rparr>"

definition newInvite :: "auth_env \<Rightarrow> invite_ids \<Rightarrow> int \<Rightarrow> string \<Rightarrow> invite_dto \<Rightarrow> string \<Rightarrow> staff_invite" where
  "newInvite env ids now invitedById dto roleId =
     \<lparr>stf_id = ix_invite ids, stf_email = toLowerCase (trim (iv_email dto)), stf_firstName = trim (iv_firstName dto), stf_lastName = trim (iv_lastName dto), stf_roleId = roleId,
      stf_tokenHash = digest env (ix_token ids), stf_status = SI_PENDING, stf_invitedById = invitedById, stf_expiresAt = now + INVITE_TTL_MS, stf_acceptedAt = None,
      stf_revokedAt = None, stf_acceptedUserId = None, stf_createdAt = now\<rparr>"

text \<open>Outstanding invitations of the address are superseded.\<close>

definition supersede :: "int \<Rightarrow> staff_invite \<Rightarrow> ('m staff_db_scheme, unit) tx" where
  "supersede now i s =
     bind_res (insertRow invite_clash i (update_where (\<lambda>x. stf_email x = stf_email i \<and> stf_status x = SI_PENDING) (revokedInvite now) (staff_invites s))) (\<lambda>rows.
       Inr ((), s\<lparr>staff_invites := rows\<rparr>))"

definition inviteEmail :: "string \<Rightarrow> invite_ids \<Rightarrow> string \<Rightarrow> staff_invite \<Rightarrow> string \<Rightarrow> profile_row option \<Rightarrow> notification_input" where
  "inviteEmail adminWebUrl ids invitedById i role inviter =
     \<lparr>ni_userId = invitedById, ni_destination = stf_email i, ni_template = ''staff-invite'',
      ni_variables = [(''inviterName'', case inviter of None \<Rightarrow> ''An administrator'' | Some p \<Rightarrow> fullName p), (''roleName'', humaniseRole role),
        (''inviteUrl'', adminWebUrl @ ''/invite?token='' @ ix_token ids), (''expiresHours'', showInt INVITE_TTL_HOURS)],
      ni_storedPayload = [(''inviteId'', stf_id i)], ni_dedupeKey = ''staff-invite:'' @ stf_id i\<rparr>"

definition inviteStaff ::
  "auth_env \<Rightarrow> notification_env \<Rightarrow> string \<Rightarrow> invite_ids \<Rightarrow> int \<Rightarrow> string \<Rightarrow> invite_dto \<Rightarrow> ('m staff_db_scheme, invite_summary \<times> delivery_outcome) handler" where
  "inviteStaff env nenv adminWebUrl ids now invitedById dto s =
     (case List.find (\<lambda>r. ro_name r = iv_role dto) (roles s) of
        None \<Rightarrow> (Inl (BadRequest ''That role does not exist''), s)
      | Some role \<Rightarrow>
      if findUserByEmail (toLowerCase (trim (iv_email dto))) s \<noteq> None then (Inl (Conflict ''Someone with that email address already has an account''), s)
      else let i = newInvite env ids now invitedById dto (ro_id role) in
      (case serializable (supersede now i) s of
         (Inl e, s1) \<Rightarrow> (Inl e, s1)
       | (Inr _, s1) \<Rightarrow>
         let s2 = audit (Some invitedById) ''admin.staff.invited'' ''StaffInvite'' (Some (stf_id i)) None s1; inviter = profileOf invitedById s2 in
         (case sendEmail (ne_face nenv) (ne_email nenv) (ix_mail ids) now (inviteEmail adminWebUrl ids invitedById i (ro_name role) inviter) s2 of
            (Inl e, s3) \<Rightarrow> (Inl e, s3)
          | (Inr outcome, s3) \<Rightarrow> (Inr (summariseInvite now i inviter s3, outcome), s3))))"

definition revokeInvite :: "int \<Rightarrow> string \<Rightarrow> string \<Rightarrow> ('m staff_db_scheme, invite_summary) handler" where
  "revokeInvite now inviteId actorUserId s =
     (case List.find (\<lambda>i. stf_id i = inviteId) (staff_invites s) of
        None \<Rightarrow> (Inl (NotFound ''That invitation was not found''), s)
      | Some i \<Rightarrow>
      if stf_status i = SI_ACCEPTED then (Inl (Conflict ''That invitation has already been accepted''), s)
      else if stf_status i = SI_REVOKED then (Inr (summariseInvite now i None s), s)
      else (Inr (summariseInvite now (revokedInvite now i) None s), audit (Some actorUserId) ''admin.staff.invite_revoked'' ''StaffInvite'' (Some inviteId) None
        (s\<lparr>staff_invites := update_where (\<lambda>x. stf_id x = inviteId) (revokedInvite now) (staff_invites s)\<rparr>)))"

section \<open>Accepting\<close>

datatype accept_outcome = AO_consumed | AO_expired | AO_taken | AO_ok string

definition acceptedInvite :: "int \<Rightarrow> string \<Rightarrow> staff_invite \<Rightarrow> staff_invite" where
  "acceptedInvite now userId i = i\<lparr>stf_status := SI_ACCEPTED, stf_acceptedAt := Some now, stf_acceptedUserId := Some userId\<rparr>"

definition createStaff :: "invite_ids \<Rightarrow> int \<Rightarrow> string \<Rightarrow> staff_invite \<Rightarrow> ('m auth_db_scheme, unit) tx" where
  "createStaff ids now passwordHash i s =
     bind_res (insertRow user_clash \<lparr>ur_id = ix_user ids, ur_email = Some (stf_email i), ur_phone = None, ur_status = US_ACTIVE, ur_referralCode = None,
         ur_emailVerifiedAt = Some now, ur_lastLoginAt = None\<rparr> (users s)) (\<lambda>us.
     bind_res (insertRow (\<lambda>a b. cd_userId a = cd_userId b) \<lparr>cd_userId = ix_user ids, cd_passwordHash = passwordHash, cd_changedAt = now\<rparr> (credentials s)) (\<lambda>cs.
     bind_res (insertRow (\<lambda>a b. pf_userId a = pf_userId b) (newProfile (ix_user ids) (stf_firstName i) (stf_lastName i)) (profiles s)) (\<lambda>ps.
       Inr ((), s\<lparr>users := us, credentials := cs, profiles := ps, user_roles := user_roles s @ [\<lparr>ua_userId = ix_user ids, ua_roleId = stf_roleId i, ua_expiresAt = None\<rparr>]\<rparr>))))"

definition acceptWithin :: "invite_ids \<Rightarrow> int \<Rightarrow> string \<Rightarrow> string \<Rightarrow> ('m staff_db_scheme, accept_outcome) tx" where
  "acceptWithin ids now inviteId passwordHash s =
     (case List.find (\<lambda>i. stf_id i = inviteId) (staff_invites s) of
        None \<Rightarrow> Inr (AO_consumed, s)
      | Some i \<Rightarrow>
      if stf_status i \<noteq> SI_PENDING then Inr (AO_consumed, s)
      else if stf_expiresAt i \<le> now then Inr (AO_expired, s)
      else if findUserByEmail (stf_email i) s \<noteq> None then Inr (AO_taken, s)
      else bind_res (createStaff ids now passwordHash i s) (\<lambda>(_, s1).
        Inr (AO_ok (ix_user ids), audit (Some (ix_user ids)) ''admin.staff.invite_accepted'' ''StaffInvite'' (Some (stf_id i)) None
          (s1\<lparr>staff_invites := update_where (\<lambda>x. stf_id x = stf_id i) (acceptedInvite now (ix_user ids)) (staff_invites s1)\<rparr>))))"

definition acceptInvite :: "auth_env \<Rightarrow> invite_ids \<Rightarrow> int \<Rightarrow> string \<Rightarrow> string \<Rightarrow> ('m staff_db_scheme, string) handler" where
  "acceptInvite env ids now token passwordHash s =
     (case findLiveInvite env now token s of
        Inl e \<Rightarrow> (Inl e, s)
      | Inr i \<Rightarrow>
      (case serializable (acceptWithin ids now (stf_id i) passwordHash) s of
         (Inl e, s1) \<Rightarrow> (Inl e, s1)
       | (Inr AO_expired, s1) \<Rightarrow> (Inl (BadRequest ''This invitation has expired. Ask for a new one.''), s1)
       | (Inr AO_taken, s1) \<Rightarrow> (Inl (Conflict ''An account already exists for this email address''), s1)
       | (Inr AO_consumed, s1) \<Rightarrow> (Inl (Forbidden ''This invitation is no longer valid''), s1)
       | (Inr (AO_ok userId), s1) \<Rightarrow> (Inr userId, s1)))"

section \<open>Histories\<close>

datatype staff_request =
    InviteStaff invite_ids int string invite_dto
  | RevokeInvite int string string
  | AcceptInvite invite_ids int string string

fun serveStaff :: "auth_env \<Rightarrow> notification_env \<Rightarrow> string \<Rightarrow> staff_request \<Rightarrow> 'm staff_db_scheme \<Rightarrow> 'm staff_db_scheme" where
  "serveStaff env nenv url (InviteStaff ids now u dto) s = snd (inviteStaff env nenv url ids now u dto s)"
| "serveStaff env nenv url (RevokeInvite now i u) s = snd (revokeInvite now i u s)"
| "serveStaff env nenv url (AcceptInvite ids now token h) s = snd (acceptInvite env ids now token h s)"

text \<open>Ids and token digests are unique, and an invitation that has ended stays ended.\<close>

definition invites_ok :: "staff_invite list \<Rightarrow> bool" where
  "invites_ok rows \<longleftrightarrow> distinct (map stf_id rows) \<and> distinct (map stf_tokenHash rows)"

definition ended_invite :: "string \<Rightarrow> string \<Rightarrow> staff_invite list \<Rightarrow> bool" where
  "ended_invite i h rows \<longleftrightarrow> list_ex (\<lambda>x. stf_id x = i \<and> stf_tokenHash x = h \<and> stf_status x \<noteq> SI_PENDING) rows"

definition staff_ok :: "string \<Rightarrow> string \<Rightarrow> 'm staff_db_scheme \<Rightarrow> bool" where
  "staff_ok i h s \<longleftrightarrow> invites_ok (staff_invites s) \<and> ended_invite i h (staff_invites s)"

text \<open>What the requests do to the invitations: end some, and perhaps add one.\<close>

lemma invites_ok_end:
  assumes "invites_ok rows" and "\<And>x. stf_id (f x) = stf_id x" and "\<And>x. stf_tokenHash (f x) = stf_tokenHash x" and "\<And>x. stf_status (f x) \<noteq> SI_PENDING"
  shows "invites_ok (update_where P f rows)" and "ended_invite i h rows \<Longrightarrow> ended_invite i h (update_where P f rows)"
proof -
  show "invites_ok (update_where P f rows)" using assms by (simp add: invites_ok_def map_update_where)
  assume "ended_invite i h rows"
  then obtain x where "x \<in> set rows" "stf_id x = i" "stf_tokenHash x = h" "stf_status x \<noteq> SI_PENDING" by (auto simp: ended_invite_def list_ex_iff)
  then have "(if P x then f x else x) \<in> set (update_where P f rows)" by (auto simp: update_where_def)
  with \<open>stf_id x = i\<close> \<open>stf_tokenHash x = h\<close> \<open>stf_status x \<noteq> SI_PENDING\<close> show "ended_invite i h (update_where P f rows)"
    unfolding ended_invite_def list_ex_iff by (intro bexI [of _ "if P x then f x else x"]) (simp_all add: assms)
qed

lemma invite_end_simps [simp]:
  "stf_id (revokedInvite now x) = stf_id x" "stf_tokenHash (revokedInvite now x) = stf_tokenHash x" "stf_status (revokedInvite now x) = SI_REVOKED"
  "stf_id (acceptedInvite now u x) = stf_id x" "stf_tokenHash (acceptedInvite now u x) = stf_tokenHash x" "stf_status (acceptedInvite now u x) = SI_ACCEPTED"
  by (simp_all add: revokedInvite_def acceptedInvite_def)

lemma supersede_effect:
  assumes "supersede now x s = Inr (u, s')" and "invites_ok (staff_invites s)"
  shows "invites_ok (staff_invites s')" and "ended_invite i h (staff_invites s) \<Longrightarrow> ended_invite i h (staff_invites s')"
proof -
  let ?rows = "update_where (\<lambda>y. stf_email y = stf_email x \<and> stf_status y = SI_PENDING) (revokedInvite now) (staff_invites s)"
  from assms(1) have s': "staff_invites s' = ?rows @ [x]" "\<forall>y \<in> set ?rows. \<not> invite_clash x y" by (auto simp: supersede_def res_iffs)
  have "invites_ok ?rows" "ended_invite i h (staff_invites s) \<Longrightarrow> ended_invite i h ?rows" using invites_ok_end [OF assms(2), of "revokedInvite now"] by simp_all
  with s' show "invites_ok (staff_invites s')" "ended_invite i h (staff_invites s) \<Longrightarrow> ended_invite i h (staff_invites s')"
    by (auto simp: invites_ok_def ended_invite_def invite_clash_def)
qed

lemma sendEmail_invites: "staff_invites (snd (sendEmail face p ids now n s)) = staff_invites s"
  by (auto simp: sendEmail_def deliver_def callProvider_def attemptFailed_def recordAttempt_def res_iffs Let_def
      split: sum.splits option.splits prod.splits bool.splits)

lemma inviteStaff_cases:
  assumes "inviteStaff env nenv url ids now u dto s = (r, s')"
  obtains (same) "staff_invites s' = staff_invites s" | (invited) x s1 where "supersede now x s = Inr ((), s1)" "staff_invites s' = staff_invites s1"
proof (cases "staff_invites s' = staff_invites s")
  case False
  with assms obtain role where role: "List.find (\<lambda>r. ro_name r = iv_role dto) (roles s) = Some role" "findUserByEmail (toLowerCase (trim (iv_email dto))) s = None"
    by (auto simp: inviteStaff_def split: option.splits if_splits)
  let ?x = "newInvite env ids now u dto (ro_id role)"
  show ?thesis
  proof (cases "supersede now ?x s")
    case (Inl e)
    with assms False role show ?thesis by (simp add: inviteStaff_def serializable_def Let_def)
  next
    case (Inr y)
    let ?s2 = "audit (Some u) ''admin.staff.invited'' ''StaffInvite'' (Some (stf_id ?x)) None (snd y)"
    have "s' = snd (sendEmail (ne_face nenv) (ne_email nenv) (ix_mail ids) now (inviteEmail url ids u ?x (ro_name role) (profileOf u ?s2)) ?s2)"
      using assms role Inr by (auto simp: inviteStaff_def serializable_def Let_def split: prod.splits sum.splits)
    then have "staff_invites s' = staff_invites (snd y)" by (simp add: sendEmail_invites audit_def)
    with Inr show ?thesis by (intro invited [of ?x "snd y"]) (simp_all add: prod_eq_iff)
  qed
qed (rule same)

lemma createStaff_effect:
  assumes "createStaff ids now h i s = Inr (u, s1)"
  shows "staff_invites s1 = staff_invites s" and "user_roles s1 = user_roles s @ [\<lparr>ua_userId = ix_user ids, ua_roleId = stf_roleId i, ua_expiresAt = None\<rparr>]"
    and "\<exists>y \<in> set (users s1). ur_id y = ix_user ids \<and> ur_email y = Some (stf_email i) \<and> ur_status y = US_ACTIVE"
  using assms by (auto simp: createStaff_def res_iffs)

lemma acceptWithin_cases:
  assumes "acceptWithin ids now i h s = Inr (out, s')"
  obtains (idle) "s' = s" "\<And>u. out \<noteq> AO_ok u"
  | (accepted) x where "x \<in> set (staff_invites s)" "stf_id x = i" "stf_status x = SI_PENDING" "now < stf_expiresAt x" "out = AO_ok (ix_user ids)"
      "staff_invites s' = update_where (\<lambda>y. stf_id y = i) (acceptedInvite now (ix_user ids)) (staff_invites s)"
      "user_roles s' = user_roles s @ [\<lparr>ua_userId = ix_user ids, ua_roleId = stf_roleId x, ua_expiresAt = None\<rparr>]"
      "\<exists>y \<in> set (users s'). ur_id y = ix_user ids \<and> ur_email y = Some (stf_email x) \<and> ur_status y = US_ACTIVE"
proof (cases "List.find (\<lambda>x. stf_id x = i) (staff_invites s)")
  case (Some x)
  show ?thesis
  proof (cases "stf_status x \<noteq> SI_PENDING \<or> stf_expiresAt x \<le> now \<or> findUserByEmail (stf_email x) s \<noteq> None")
    case False
    with assms Some obtain s1 where s1: "createStaff ids now h x s = Inr ((), s1)" and out: "out = AO_ok (ix_user ids)"
      and s': "s' = audit (Some (ix_user ids)) ''admin.staff.invite_accepted'' ''StaffInvite'' (Some (stf_id x)) None
          (s1\<lparr>staff_invites := update_where (\<lambda>y. stf_id y = stf_id x) (acceptedInvite now (ix_user ids)) (staff_invites s1)\<rparr>)"
      by (auto simp: acceptWithin_def res_iffs)
    have frame: "staff_invites s' = update_where (\<lambda>y. stf_id y = stf_id x) (acceptedInvite now (ix_user ids)) (staff_invites s1)" "user_roles s' = user_roles s1" "users s' = users s1"
      by (simp_all add: s' audit_def)
    show ?thesis
      by (rule accepted [of x]) (use find_SomeD [OF Some] False out frame createStaff_effect [OF s1] in auto)
  next
    case True
    with assms Some show ?thesis by (intro idle) (auto simp: acceptWithin_def split: if_split_asm)
  qed
next
  case None
  with assms show ?thesis by (intro idle) (auto simp: acceptWithin_def)
qed

lemma acceptInvite_cases:
  assumes "acceptInvite env ids now token h s = (r, s')"
  obtains (idle) "s' = s" "\<And>u. r \<noteq> Inr u"
  | (accepted) x where "x \<in> set (staff_invites s)" "stf_tokenHash x = digest env token" "acceptWithin ids now (stf_id x) h s = Inr (AO_ok (ix_user ids), s')" "r = Inr (ix_user ids)"
proof (cases "findLiveInvite env now token s")
  case (Inl e)
  with assms show ?thesis by (intro idle) (auto simp: acceptInvite_def)
next
  case (Inr x)
  then have x: "x \<in> set (staff_invites s)" "stf_tokenHash x = digest env token" by (auto simp: findLiveInvite_def dest: find_SomeD split: option.splits if_splits)
  show ?thesis
  proof (cases "acceptWithin ids now (stf_id x) h s")
    case (Inl e)
    with assms Inr show ?thesis by (intro idle) (auto simp: acceptInvite_def serializable_def)
  next
    case (Inr y)
    obtain out s1 where y: "y = (out, s1)" by fastforce
    from Inr y have w: "acceptWithin ids now (stf_id x) h s = Inr (out, s1)" by simp
    then show ?thesis
    proof (cases rule: acceptWithin_cases)
      case idle
      with w assms \<open>findLiveInvite env now token s = Inr x\<close> show ?thesis
        by (intro that(1)) (auto simp: acceptInvite_def serializable_def split: accept_outcome.splits)
    next
      case (accepted z)
      with w assms \<open>findLiveInvite env now token s = Inr x\<close> x show ?thesis
        by (intro that(2) [of x]) (auto simp: acceptInvite_def serializable_def)
    qed
  qed
qed

lemma staff_ok_end:
  assumes "staff_ok i h s" and "staff_invites s' = update_where P f (staff_invites s)" and "\<And>x. stf_id (f x) = stf_id x" and "\<And>x. stf_tokenHash (f x) = stf_tokenHash x"
    and "\<And>x. stf_status (f x) \<noteq> SI_PENDING"
  shows "staff_ok i h s'"
  using assms(1) invites_ok_end [OF _ assms(3,4,5), where rows = "staff_invites s" and P = P] by (simp add: staff_ok_def assms(2))

interpretation staff_history: request_safety "serveStaff env nenv url" "staff_ok i h"
proof
  fix s :: "'m staff_db_scheme" and q
  assume ok: "staff_ok i h s"
  show "staff_ok i h (serveStaff env nenv url q s)"
  proof (cases q)
    case (InviteStaff ids now u dto)
    obtain r s' where r: "inviteStaff env nenv url ids now u dto s = (r, s')" by fastforce
    then have "staff_ok i h s'" using ok by (cases rule: inviteStaff_cases) (auto simp: staff_ok_def dest: supersede_effect)
    with r InviteStaff show ?thesis by simp
  next
    case (RevokeInvite now j u)
    have "staff_ok i h (snd (revokeInvite now j u s))"
    proof (cases "staff_invites (snd (revokeInvite now j u s)) = staff_invites s")
      case False
      then have "staff_invites (snd (revokeInvite now j u s)) = update_where (\<lambda>x. stf_id x = j) (revokedInvite now) (staff_invites s)"
        by (auto simp: revokeInvite_def audit_def split: option.splits if_splits)
      then show ?thesis by (rule staff_ok_end [OF ok]) simp_all
    qed (use ok in \<open>simp add: staff_ok_def\<close>)
    with RevokeInvite show ?thesis by simp
  next
    case (AcceptInvite ids now token h')
    obtain r s' where r: "acceptInvite env ids now token h' s = (r, s')" by fastforce
    then have "staff_ok i h s'"
    proof (cases rule: acceptInvite_cases)
      case (accepted x)
      from accepted(3) show ?thesis by (cases rule: acceptWithin_cases) (auto intro: ok staff_ok_end [OF ok])
    qed (use ok in simp)
    with r AcceptInvite show ?thesis by simp
  qed
qed

lemma ended_link_refused:
  assumes "staff_ok i (digest env token) s"
  shows "findLiveInvite env now token s = Inl (Forbidden ''This invitation link is invalid or has expired'')"
proof -
  from assms obtain x where x: "x \<in> set (staff_invites s)" "stf_tokenHash x = digest env token" "stf_status x \<noteq> SI_PENDING" and d: "distinct (map stf_tokenHash (staff_invites s))"
    by (auto simp: staff_ok_def ended_invite_def invites_ok_def list_ex_iff)
  from find_key_unique [OF d x(1)] x show ?thesis by (simp add: findLiveInvite_def)
qed

text \<open>
  C40. A link of an invitation works once. When it is redeemed, it was pending and in time, and the new account is active and has exactly the role the invitation named;
  and whatever invitations, revocations and redemptions follow, the same link is answered with the error of an unknown link and changes nothing.
\<close>

theorem staff_link_works_once:
  assumes "invites_ok (staff_invites s)" and "acceptInvite env ids now token h s = (Inr u, s')"
  shows "\<exists>x \<in> set (staff_invites s). stf_tokenHash x = digest env token \<and> stf_status x = SI_PENDING \<and> now < stf_expiresAt x
    \<and> user_roles s' = user_roles s @ [\<lparr>ua_userId = u, ua_roleId = stf_roleId x, ua_expiresAt = None\<rparr>]
    \<and> (\<exists>y \<in> set (users s'). ur_id y = u \<and> ur_email y = Some (stf_email x) \<and> ur_status y = US_ACTIVE)
    \<and> (let s2 = fold (serveStaff env nenv url) qs s'; refusal = Forbidden ''This invitation link is invalid or has expired'' in
        previewInvite env now' token s2 = Inl refusal \<and> acceptInvite env ids' now' token h' s2 = (Inl refusal, s2))"
  using assms(2)
proof (cases rule: acceptInvite_cases)
  case (accepted x)
  from accepted(3) show ?thesis
  proof (cases rule: acceptWithin_cases)
    case new: (accepted z)
    have z: "z = x" using assms(1) accepted(1) new(1,2) by (auto simp: invites_ok_def distinct_map dest: inj_onD)
    have "staff_ok (stf_id x) (digest env token) s'"
      unfolding staff_ok_def new(6) ended_invite_def list_ex_iff
      using accepted(1,2) invites_ok_end(1) [OF assms(1), of "acceptedInvite now (ix_user ids)"]
      by (auto simp: set_update_where intro!: bexI [of _ "acceptedInvite now (ix_user ids) x"])
    then have "staff_ok (stf_id x) (digest env token) (fold (serveStaff env nenv url) qs s')" by (rule staff_history.history_inv)
    then have "findLiveInvite env now' token (fold (serveStaff env nenv url) qs s') = Inl (Forbidden ''This invitation link is invalid or has expired'')"
      by (rule ended_link_refused)
    with accepted new z show ?thesis by (intro bexI [of _ x]) (auto simp: Let_def previewInvite_def acceptInvite_def)
  qed blast
qed blast

definition demo_staff_db :: staff_db where
  "demo_staff_db = notification_db.extend (demo_notification_db\<lparr>roles := [\<lparr>ro_id = ''r1'', ro_name = ''SUPPORT_OFFICER'', ro_isSystem = True, ro_permissions = []\<rparr>]\<rparr>) (staff_db.fields [])"

definition demo_staff_env :: auth_env where
  "demo_staff_env = \<lparr>ae_hmac = (\<lambda>k m. k @ m), ae_verifyPassword = (\<lambda>h p. h = p), ae_signAccess = (\<lambda>c now. ac_sid c), ae_tokenPepper = ''p'', ae_accessTtl = ''15m'', ae_accessTtlSeconds = 900, ae_refreshTtlSeconds = 1000,
     ae_refreshReuseGraceMs = 10000\<rparr>"

definition demo_invite_ids :: "string \<Rightarrow> invite_ids" where
  "demo_invite_ids n = \<lparr>ix_invite = ''i'' @ n, ix_token = ''tok'' @ n, ix_user = ''u'' @ n, ix_mail = \<lparr>nx_notification = ''n'' @ n, nx_delivery = ''x'' @ n\<rparr>\<rparr>"

definition demo_invited :: staff_db where
  "demo_invited = serveStaff demo_staff_env demo_notification_env ''https://ajo.ng''
     (InviteStaff (demo_invite_ids ''1'') 1 ''root'' \<lparr>iv_email = ''Sam@x.ng'', iv_firstName = ''Sam'', iv_lastName = ''Ola'', iv_role = ''SUPPORT_OFFICER''\<rparr>) demo_staff_db"

theorem staff_link_works_once_witness:
  "fst (acceptInvite demo_staff_env (demo_invite_ids ''3'') 4 ''tok1'' ''pw'' (snd (acceptInvite demo_staff_env (demo_invite_ids ''2'') 3 ''tok1'' ''pw'' demo_invited)))
   = Inl (Forbidden ''This invitation link is invalid or has expired'')"
proof -
  let ?r = "acceptInvite demo_staff_env (demo_invite_ids ''2'') 3 ''tok1'' ''pw'' demo_invited"
  have "fst ?r = Inr ''u2''" by code_simp
  then have r: "?r = (Inr ''u2'', snd ?r)" by (simp add: prod_eq_iff)
  have "invites_ok (staff_invites demo_invited)" by code_simp
  from staff_link_works_once [OF this r, of _ _ "[]" 4 "demo_invite_ids ''3''" "''pw''"] show ?thesis by (auto simp: Let_def)
qed

end
