(* ===== verification/Spec2Isabelle.thy ===== *)
theory Spec2Isabelle
  imports Group_Invitations Kyc_Safety Money_Flows Auth_Safety Referrals Coordinator_Applications Staff_Invites
begin

text \<open>
  AjoCloud is the backend of a savings platform: members hold wallets, save together in rotating groups (Ajo), in collection pools
  (Akawo) and in food-buying programmes (Food Ajo), pay bills, and are verified in stages before they may move money. It is a NestJS
  application; each module under \<^verbatim>\<open>src/modules\<close> has a service whose methods read and write PostgreSQL tables in serializable
  transactions, and pure rules in its \<^verbatim>\<open>domain\<close> directory. This library models those services and rules, operation by operation, and
  proves what makes them correct.

  \<^bold>\<open>Shape of the model.\<close> A table is the list of its rows in insertion order, and the database is a record of tables. Records extend
  each other along the imports (\<open>ledger_db\<close>, \<open>core_db\<close>, \<open>kyc_db\<close>, \<open>payments_db\<close> and so on), so an operation of one component applies to the
  database of every component built on it. An operation returns \<open>error + 'a\<close>, where the exceptions of NestJS are the constructors of
  \<open>error\<close>, together with the new database. \<open>serializable\<close> of \<open>Ajo_Prelude\<close> is \<^verbatim>\<open>TransactionService.serializable\<close>: all writes or none. What runs after
  a commit (audit rows written outside the transaction, notifications) is recorded in tables of its own. Unique columns are checked where a row
  is inserted and raise the conflict Prisma raises. Money is Kobo as an unbounded \<open>int\<close>, as \<^verbatim>\<open>bigint\<close> in the code, with its truncating division.
  The clock, new ids, random bytes, hashes, HMAC, the document cipher, the payment, bill and identity providers are parameters; the laws that a theorem
  needs of one of them (a cipher that opens what it sealed, for instance) are hypotheses of that theorem.

  \<^bold>\<open>Theories.\<close>

  \<^item> \<open>Ajo_Prelude\<close>: errors, results, transactions, tables and strings; the locale \<open>request_safety\<close>, which lifts an invariant kept by each request to
    any history of requests, failed ones included. Every component that serves requests interprets it.
  \<^item> \<open>Ledger\<close> (\<^verbatim>\<open>ledger.service.ts\<close>, \<^verbatim>\<open>ledger-invariants.ts\<close>): posting, replay under the same key, reversal, balances. The locale \<open>double_entry\<close> states
    the contract of an idempotent ledger; the model's posting interprets it. Trial balance holds in every reachable ledger, a key posts at most once, and
    a reversal moves balances twice (a finding).
  \<^item> \<open>Fees\<close> (\<^verbatim>\<open>fee-rule.ts\<close>, \<^verbatim>\<open>fees.service.ts\<close>): flat, percentage and tiered fees; accepted tiers partition the amounts.
  \<^item> \<open>Accounts\<close> (\<^verbatim>\<open>wallets.service.ts\<close>): users, wallets, the chart of accounts, audit and notifications; the locale \<open>owned_account\<close> for accounts created on first use.
  \<^item> \<open>Transaction_Pin\<close> (\<^verbatim>\<open>transaction-pin.service.ts\<close>, \<^verbatim>\<open>transaction-pin-policy.ts\<close>): setting, verifying and locking a PIN, and the bound on guesses.
  \<^item> \<open>Kyc_Stages\<close> (\<^verbatim>\<open>kyc-stage-policy.ts\<close>, \<^verbatim>\<open>kyc-facts.ts\<close>): the facts of a member and the gate on each action, equivalent to its declarative reading.
  \<^item> \<open>Kyc_Service\<close>, \<open>Kyc_Safety\<close> (\<^verbatim>\<open>kyc.service.ts\<close>, \<^verbatim>\<open>kyc-review.service.ts\<close> and their rules): BVN and NIN checks, address, bank account, documents and review decisions.
  \<^item> \<open>Wallet_Movements\<close> (\<^verbatim>\<open>wallet-movements.service.ts\<close>): transfers and withdrawals; what a send moves, and that no wallet is overdrawn.
  \<^item> \<open>Payments\<close> (\<^verbatim>\<open>payments.service.ts\<close>, \<^verbatim>\<open>payment-settlement.service.ts\<close>, \<^verbatim>\<open>targets/payment-target.ts\<close>): payment intents. The interface \<^verbatim>\<open>PaymentTarget\<close> that a product implements is the record
    \<open>payment_target\<close>, its contract the locales \<open>target_contract\<close>, \<open>safe_target\<close> and \<open>immediate_target\<close>; each product interprets one of them and \<open>payment_products\<close> proves
    the mechanics safe for every registry of such targets.
  \<^item> \<open>Webhooks\<close> (\<^verbatim>\<open>monnify-webhooks.service.ts\<close>): signature, parsing, deduplication and dispatch of what the payment provider reports.
  \<^item> \<open>Ajo_Schedule\<close>, \<open>Ajo_Groups\<close>, \<open>Ajo_Rotation\<close>, \<open>Group_Invitations\<close>, \<open>Ajo_Settlement\<close>, \<open>Ajo_Swaps\<close> (\<^verbatim>\<open>modules/ajo-groups\<close>): calendar arithmetic and schedules, groups, joining and
    locking, codes and invitations, contributions and payouts, swaps of payout positions.
  \<^item> \<open>Pagination\<close> (\<^verbatim>\<open>admin.service.ts\<close>, \<^verbatim>\<open>notification-feed.service.ts\<close>): cursor lists, and that following the cursors shows every row once.
  \<^item> \<open>Akawo\<close> (\<^verbatim>\<open>modules/akawo\<close>): pools, members, dues and personal goals.
  \<^item> \<open>Food_Ajo\<close>, \<open>Food_Coordinator\<close> (\<^verbatim>\<open>modules/food-ajo\<close>): programmes, enrolment, escrow and refunds; orders, distribution and collection codes.
  \<^item> \<open>Bills\<close>, \<open>Bill_Safety\<close> (\<^verbatim>\<open>modules/bill-payments\<close>): catalogue, customer validation, reserve, settle, release and reconcile. The provider's answers refine the
    reserve policy. The locale \<open>spendable_accounts\<close> says which accounts must not be overdrawn and is a sublocale of the target contract.
  \<^item> \<open>Auth\<close>, \<open>Sign_In\<close>, \<open>Auth_Safety\<close> (\<^verbatim>\<open>auth.service.ts\<close>, \<^verbatim>\<open>passwordless.service.ts\<close>, \<^verbatim>\<open>password-reset.service.ts\<close>, \<^verbatim>\<open>google-oauth.service.ts\<close>, the guards): registration and email
    verification, sign-in, rotating refresh tokens, one-time codes, password resets, Google sign-in and the guards in front of every handler. The invariant of sessions and
    tokens holds through any history of these requests, so an ended session never resumes; reuse of a token ends its session; a lost answer can be retried.
  \<^item> \<open>Referrals\<close> (\<^verbatim>\<open>modules/referrals\<close>): campaigns, the reasons to refuse a reward, paying and reversing it; one reward per referral, and that the cap never applies (a finding).
  \<^item> \<open>Coordinator_Applications\<close> (\<^verbatim>\<open>modules/food-coordinator-applications\<close>): applications and their review, and what that guarantees of whoever opens a food programme.
  \<^item> \<open>Notifications\<close> (\<^verbatim>\<open>modules/notifications\<close>, \<^verbatim>\<open>modules/devices\<close>): topics, preferences and quiet hours, messages sent once per event, the in-app list, devices and their push tokens; a
    token never serves two members. The other theories record the calls they make to this service in \<open>notify_calls\<close>.
  \<^item> \<open>Staff_Invites\<close> (\<^verbatim>\<open>admin/staff\<close>): invitations of staff, whose links work once.
  \<^item> \<open>Money_Flows\<close> (\<^verbatim>\<open>payments.module.ts\<close>): the registry of all targets, and the requests of all components that move money interleaved in any order: no member is overdrawn.

  \<^bold>\<open>Bounds and termination.\<close> Everything is total. Loops over rows are recursion on the list. Drawing random bytes for a share code takes the bytes as a list and
  answers \<open>None\<close> when they run out; a theorem says how many usable bytes are enough. Following cursors ends because each page drops a prefix of the list.

  \<^bold>\<open>Conventions.\<close> Inputs are what the validation of the controllers lets through. Instants are milliseconds as \<open>int\<close>; a \<^verbatim>\<open>@db.Date\<close> column keeps the day
  (\<open>dateColumn\<close>). Texts are ASCII: typographic apostrophes are written \<open>'\<close>, the multiplication sign as an x, the middle dot and the dash as a
  hyphen, bullets as asterisks; an instant printed inside a message is left out of it. A JSON column is its text. Columns that no operation reads
  (\<^verbatim>\<open>updatedAt\<close>) are left out. A query without an order takes the rows in table order, and lists that the database sorts by a display name keep table order.
  A serializable transaction runs alone; the interleavings are those of whole requests, and of the transactions a request consists of where it has several.

  \<^bold>\<open>Not modelled.\<close> The HTML of the email templates; administration dashboards and broadcast messages, public listings and engagement: reads and single-row writes beside the
  rules modelled here. The exchange with Google, the cookie headers, the Redis lock in front of handlers, HTTP routing and permission decorators, the clients of external
  services, infrastructure and seed data are input and output around the services. The floating-point totals of the shopping list are left out because the code computes
  them in doubles. Read-only lists of groups that only join tables are left out.
\<close>

end
